(* ===== verification/Prelude.thy ===== *)
theory Prelude
  imports Main "HOL-Library.Char_ord" "HOL-Library.List_Lexorder"
begin

text \<open>
  Shared vocabulary of the development: results of fallible code as a sum, the exceptions the
  service classes raise, the JavaScript string operations the services use, decimal numerals
  (the services carry money as decimal strings of minor units and convert with \<open>BigInt\<close>), and
  the list lemmas about tables of rows.
\<close>

section \<open>Results and exceptions\<close>

datatype exn =
    BadRequestException string
  | ConflictException string
  | NotFoundException string
  | UnauthorizedException string
  | ForbiddenException string
  | BadGatewayException string
  | InternalServerErrorException string
  | HttpException nat string  \<comment> \<open>another HTTP status\<close>
  | PgError string string  \<comment> \<open>SQLSTATE and the constraint's name\<close>

type_synonym 'a result = "exn + 'a"

definition and_then :: "'e + 'a \<Rightarrow> ('a \<Rightarrow> 'e + 'b) \<Rightarrow> 'e + 'b" where
  "and_then r f = (case r of Inl e \<Rightarrow> Inl e | Inr x \<Rightarrow> f x)"

definition guard :: "bool \<Rightarrow> 'e \<Rightarrow> 'e + unit" where
  "guard b e = (if b then Inr () else Inl e)"

named_theorems result_simps

lemma and_then_Inl [simp]: "and_then (Inl e) f = Inl e"
  by (simp add: and_then_def)

lemma and_then_Inr [simp]: "and_then (Inr x) f = f x"
  by (simp add: and_then_def)

lemma and_then_eq_Inr [result_simps]:
  "and_then r f = Inr y \<longleftrightarrow> (\<exists>x. r = Inr x \<and> f x = Inr y)"
  by (cases r) auto

lemma guard_eq_Inr [result_simps, simp]: "guard b e = Inr u \<longleftrightarrow> b"
  by (simp add: guard_def)

lemma guard_True [simp]: "guard True e = Inr ()"
  by (simp add: guard_def)

lemma guard_False [simp]: "guard False e = Inl e"
  by (simp add: guard_def)

lemma and_then_assoc: "and_then (and_then r f) g = and_then r (\<lambda>x. and_then (f x) g)"
  by (cases r) simp_all

text \<open>A loop over a list whose body may throw: \<open>xs.map(f)\<close> with an exception in \<open>f\<close>.\<close>

fun traverse :: "('a \<Rightarrow> 'e + 'b) \<Rightarrow> 'a list \<Rightarrow> 'e + 'b list" where
  "traverse f [] = Inr []"
| "traverse f (x # xs) =
     and_then (f x) (\<lambda>y. and_then (traverse f xs) (\<lambda>ys. Inr (y # ys)))"

lemma traverse_Inr_iff:
  "traverse f xs = Inr ys \<longleftrightarrow> list_all2 (\<lambda>x y. f x = Inr y) xs ys"
  by (induction xs arbitrary: ys) (auto simp: and_then_eq_Inr list_all2_Cons1)

lemma traverse_length: "traverse f xs = Inr ys \<Longrightarrow> length ys = length xs"
  by (auto simp: traverse_Inr_iff dest: list_all2_lengthD)

lemma traverse_in:
  "traverse f xs = Inr ys \<Longrightarrow> y \<in> set ys \<Longrightarrow> \<exists>x\<in>set xs. f x = Inr y"
  unfolding traverse_Inr_iff by (auto simp: list_all2_conv_all_nth in_set_conv_nth) (metis nth_mem)

lemma traverse_source:
  "traverse f xs = Inr ys \<Longrightarrow> x \<in> set xs \<Longrightarrow> \<exists>y\<in>set ys. f x = Inr y"
  unfolding traverse_Inr_iff by (auto simp: list_all2_conv_all_nth in_set_conv_nth)

lemma traverse_cong_map:
  "(\<And>x. x \<in> set xs \<Longrightarrow> f x = Inr (g x)) \<Longrightarrow> traverse f xs = Inr (map g xs)"
  by (induction xs) auto

section \<open>JavaScript strings\<close>

text \<open>
  Strings are lists of characters of the first Unicode block; \<open>trim\<close> strips the white space of
  ECMAScript that lies in it, \<open>toUpperCase\<close> is the ASCII mapping (the services apply it to
  currency codes).
\<close>

definition is_space :: "char \<Rightarrow> bool" where
  "is_space c \<longleftrightarrow> (of_char c :: nat) \<in> {9, 10, 11, 12, 13, 32, 160}"

definition js_trim :: "string \<Rightarrow> string" where
  "js_trim s = rev (dropWhile is_space (rev (dropWhile is_space s)))"

definition upper_char :: "char \<Rightarrow> char" where
  "upper_char c = (let n = (of_char c :: nat) in if 97 \<le> n \<and> n \<le> 122 then char_of (n - 32) else c)"

definition js_upper :: "string \<Rightarrow> string" where
  "js_upper s = map upper_char s"

definition is_digit :: "char \<Rightarrow> bool" where
  "is_digit c \<longleftrightarrow> (let n = (of_char c :: nat) in 48 \<le> n \<and> n \<le> 57)"

definition digit_val :: "char \<Rightarrow> nat" where
  "digit_val c = of_char c - 48"

definition digit_char :: "nat \<Rightarrow> char" where
  "digit_char d = char_of (48 + d)"

text \<open>A value between double quotes in a message.\<close>

definition quoted :: "string \<Rightarrow> string" where
  "quoted s = CHR 0x22 # s @ [CHR 0x22]"

text \<open>A JavaScript value used as a condition: the empty string, \<open>null\<close> and \<open>undefined\<close> are false.\<close>

definition truthy :: "string option \<Rightarrow> bool" where
  "truthy v \<longleftrightarrow> (case v of None \<Rightarrow> False | Some s \<Rightarrow> s \<noteq> [])"

text \<open>\<open>x ?? y\<close> for an optional and for a present \<open>y\<close>.\<close>

definition or_else :: "'a option \<Rightarrow> 'a option \<Rightarrow> 'a option" where
  "or_else x y = (case x of None \<Rightarrow> y | Some _ \<Rightarrow> x)"

definition or_default :: "'a option \<Rightarrow> 'a \<Rightarrow> 'a" where
  "or_default x d = (case x of None \<Rightarrow> d | Some v \<Rightarrow> v)"

lemma dropWhile_idem [simp]: "dropWhile P (dropWhile P xs) = dropWhile P xs"
  by (induction xs) auto

lemma js_trim_fixed:
  "s = [] \<or> (\<not> is_space (hd s) \<and> \<not> is_space (last s)) \<Longrightarrow> js_trim s = s"
proof (cases s rule: rev_cases)
  case (snoc ys y)
  assume a: "s = [] \<or> (\<not> is_space (hd s) \<and> \<not> is_space (last s))"
  have "dropWhile is_space s = s" using a by (cases s) auto
  with a snoc show ?thesis by (simp add: js_trim_def)
qed (simp add: js_trim_def)

lemma js_trim_idem [simp]: "js_trim (js_trim s) = js_trim s"
proof -
  let ?u = "dropWhile is_space s" and ?t = "js_trim s"
  have t: "?t = rev (dropWhile is_space (rev ?u))" by (simp add: js_trim_def)
  have last: "\<not> is_space (last ?t)" if "?t \<noteq> []"
    using that t hd_dropWhile[of is_space "rev ?u"] by (simp add: last_rev)
  obtain zs where zs: "rev ?u = zs @ dropWhile is_space (rev ?u)"
    by (metis takeWhile_dropWhile_id)
  have pre: "?u = ?t @ rev zs" using arg_cong [OF zs, of rev] t by simp
  have "\<not> is_space (hd ?t)" if "?t \<noteq> []"
  proof -
    have "hd ?t = hd ?u" using pre that by (metis hd_append2)
    moreover have "?u \<noteq> []" using pre that by auto
    ultimately show ?thesis using hd_dropWhile[of is_space s] by simp
  qed
  with last show ?thesis by (intro js_trim_fixed) auto
qed

section \<open>Decimal numerals\<close>

text \<open>\<open>BigInt(text)\<close> of a string of digits, and \<open>toString()\<close> of a non-negative integer.\<close>

fun parse_digits :: "nat \<Rightarrow> string \<Rightarrow> nat" where
  "parse_digits acc [] = acc"
| "parse_digits acc (c # cs) = parse_digits (acc * 10 + digit_val c) cs"

definition parse_nat :: "string \<Rightarrow> nat" where
  "parse_nat s = parse_digits 0 s"

fun show_nat :: "nat \<Rightarrow> string" where
  "show_nat n = (if n < 10 then [digit_char n] else show_nat (n div 10) @ [digit_char (n mod 10)])"

declare show_nat.simps [simp del]

definition show_int :: "int \<Rightarrow> string" where
  "show_int i = (if i < 0 then ''-'' @ show_nat (nat (- i)) else show_nat (nat i))"

text \<open>\<open>BigInt(text)\<close> of a numeral with an optional sign.\<close>

definition parse_int :: "string \<Rightarrow> int" where
  "parse_int s = (case s of [] \<Rightarrow> 0
     | c # cs \<Rightarrow> if c = CHR ''-'' then - int (parse_nat cs) else int (parse_nat s))"

text \<open>The regular expressions \<open>^[1-9][0-9]*$\<close> and \<open>^[0-9]+$\<close>.\<close>

definition positive_numeral :: "string \<Rightarrow> bool" where
  "positive_numeral s \<longleftrightarrow> s \<noteq> [] \<and> list_all is_digit s \<and> hd s \<noteq> CHR ''0''"

definition digits_only :: "string \<Rightarrow> bool" where
  "digits_only s \<longleftrightarrow> s \<noteq> [] \<and> list_all is_digit s"

lemma is_digit_not_space: "is_digit c \<Longrightarrow> \<not> is_space c"
  by (auto simp: is_digit_def is_space_def Let_def)

lemma digit_val_less [simp]: "is_digit c \<Longrightarrow> digit_val c < 10"
  by (auto simp: is_digit_def digit_val_def Let_def)

lemma digit_char_val [simp]: "is_digit c \<Longrightarrow> digit_char (digit_val c) = c"
  by (auto simp: is_digit_def digit_val_def digit_char_def Let_def)

lemma of_char_digit_char: "d < 10 \<Longrightarrow> (of_char (digit_char d) :: nat) = 48 + d"
  by (simp add: digit_char_def)

lemma digit_val_char [simp]: "d < 10 \<Longrightarrow> digit_val (digit_char d) = d"
  by (simp add: digit_val_def of_char_digit_char)

lemma is_digit_char [simp]: "d < 10 \<Longrightarrow> is_digit (digit_char d)"
  by (simp add: is_digit_def of_char_digit_char)

lemma char_of_48: "char_of (48::nat) = CHR ''0''"
  by code_simp

lemma digit_val_eq_0: "is_digit c \<Longrightarrow> digit_val c = 0 \<longleftrightarrow> c = CHR ''0''"
  using digit_char_val[of c] by (auto simp: digit_char_def digit_val_def char_of_48)

lemma parse_digits_append:
  "parse_digits a (xs @ ys) = parse_digits (parse_digits a xs) ys"
  by (induction xs arbitrary: a) auto

lemma parse_nat_snoc: "parse_nat (s @ [c]) = parse_nat s * 10 + digit_val c"
  by (simp add: parse_nat_def parse_digits_append)

lemma parse_show_nat [simp]: "parse_nat (show_nat n) = n"
proof (induction n rule: show_nat.induct)
  case (1 n)
  show ?case
  proof (cases "n < 10")
    case True
    then show ?thesis by (simp add: show_nat.simps[of n] parse_nat_def)
  next
    case False
    with 1 show ?thesis by (simp add: show_nat.simps[of n] parse_nat_snoc)
  qed
qed

lemma show_nat_digits [simp]: "list_all is_digit (show_nat n)"
proof (induction n rule: show_nat.induct)
  case (1 n)
  then show ?case by (cases "n < 10") (simp_all add: show_nat.simps[of n])
qed

lemma show_nat_nonempty [simp]: "show_nat n \<noteq> []"
  by (subst show_nat.simps) simp

lemma show_nat_hd_digit: "is_digit (hd (show_nat n))"
  using show_nat_digits[of n] show_nat_nonempty[of n] by (cases "show_nat n") auto

lemma parse_show_int [simp]: "parse_int (show_int i) = i"
proof (cases "i < 0")
  case True
  then show ?thesis by (simp add: parse_int_def show_int_def)
next
  case False
  have "hd (show_nat (nat i)) \<noteq> CHR ''-''"
    using show_nat_hd_digit[of "nat i"] by (auto simp: is_digit_def)
  then show ?thesis using False show_nat_nonempty[of "nat i"]
    by (cases "show_nat (nat i)") (auto simp: parse_int_def show_int_def dest: arg_cong[of _ _ parse_nat])
qed

lemma trim_show_int [simp]: "js_trim (show_int i) = show_int i"
proof -
  have l: "\<not> is_space (last (show_nat n))" "\<not> is_space (hd (show_nat n))" for n
    using show_nat_digits[of n] show_nat_nonempty[of n] is_digit_not_space show_nat_hd_digit[of n]
    by (simp_all add: list_all_iff)
  have "\<not> is_space (CHR ''-'')" by (simp add: is_space_def)
  with l show ?thesis by (intro js_trim_fixed) (simp add: show_int_def)
qed

lemma show_int_inj: "show_int i = show_int j \<Longrightarrow> i = j"
  by (metis parse_show_int)

lemma show_nat_inj: "show_nat m = show_nat n \<Longrightarrow> m = n"
  by (metis parse_show_nat)

lemma parse_nat_pos: "positive_numeral s \<Longrightarrow> 0 < parse_nat s"
proof (induction s rule: rev_induct)
  case (snoc c s)
  show ?case
  proof (cases "s = []")
    case True
    with snoc.prems show ?thesis
      by (auto simp: positive_numeral_def parse_nat_def digit_val_eq_0 dest: digit_val_eq_0)
  next
    case False
    with snoc show ?thesis by (auto simp: positive_numeral_def parse_nat_snoc)
  qed
qed (simp add: positive_numeral_def)

lemma show_parse_nat: "positive_numeral s \<Longrightarrow> show_nat (parse_nat s) = s"
proof (induction s rule: rev_induct)
  case (snoc c s)
  have c: "is_digit c" using snoc.prems by (simp add: positive_numeral_def)
  show ?case
  proof (cases "s = []")
    case True
    then have "parse_nat (s @ [c]) = digit_val c" by (simp add: parse_nat_def)
    with True c show ?thesis by (simp add: show_nat.simps[of "digit_val c"])
  next
    case False
    then have s: "positive_numeral s" using snoc.prems by (auto simp: positive_numeral_def)
    have "\<not> parse_nat (s @ [c]) < 10" using parse_nat_pos[OF s] by (simp add: parse_nat_snoc)
    then have "show_nat (parse_nat (s @ [c])) =
        show_nat (parse_nat (s @ [c]) div 10) @ [digit_char (parse_nat (s @ [c]) mod 10)]"
      by (subst show_nat.simps) (simp only: if_False)
    moreover have "parse_nat (s @ [c]) div 10 = parse_nat s"
      and "parse_nat (s @ [c]) mod 10 = digit_val c"
      using digit_val_less[OF c] by (simp_all add: parse_nat_snoc)
    ultimately show ?thesis using snoc.IH[OF s] c by simp
  qed
qed (simp add: positive_numeral_def)

lemma show_nat_positive: "0 < n \<Longrightarrow> positive_numeral (show_nat n)"
proof (induction n rule: show_nat.induct)
  case (1 n)
  show ?case
  proof (cases "n < 10")
    case True
    then have "digit_char n \<noteq> CHR ''0''"
      using 1 by (metis digit_val_char digit_val_eq_0 is_digit_char less_irrefl)
    with True show ?thesis by (simp add: show_nat.simps[of n] positive_numeral_def)
  next
    case False
    then have ih: "positive_numeral (show_nat (n div 10))" using 1 by simp
    with False show ?thesis
      by (simp add: show_nat.simps[of n] positive_numeral_def hd_append)
  qed
qed

section \<open>Lists as sets and tables\<close>

text \<open>\<open>Array.from(new Set(xs))\<close>: first occurrences, in order.\<close>

fun js_uniq_acc :: "'a list \<Rightarrow> 'a list \<Rightarrow> 'a list" where
  "js_uniq_acc seen [] = []"
| "js_uniq_acc seen (x # xs) =
     (if x \<in> set seen then js_uniq_acc seen xs else x # js_uniq_acc (x # seen) xs)"

definition js_uniq :: "'a list \<Rightarrow> 'a list" where
  "js_uniq xs = js_uniq_acc [] xs"

lemma set_js_uniq_acc: "set (js_uniq_acc seen xs) = set xs - set seen"
  by (induction seen xs rule: js_uniq_acc.induct) auto

lemma distinct_js_uniq_acc: "distinct (js_uniq_acc seen xs)"
  by (induction seen xs rule: js_uniq_acc.induct) (auto simp: set_js_uniq_acc)

lemma set_js_uniq [simp]: "set (js_uniq xs) = set xs"
  by (simp add: js_uniq_def set_js_uniq_acc)

lemma distinct_js_uniq [simp]: "distinct (js_uniq xs)"
  by (simp add: js_uniq_def distinct_js_uniq_acc)

lemma js_uniq_singleton:
  assumes "length (js_uniq xs) = 1" and "x \<in> set xs"
  shows "hd (js_uniq xs) = x"
proof -
  obtain y where y: "js_uniq xs = [y]" using assms(1) by (cases "js_uniq xs") auto
  have "x \<in> set (js_uniq xs)" using assms(2) by simp
  with y show ?thesis by simp
qed

lemma js_uniq_constant:
  assumes "xs \<noteq> []" and "\<And>x. x \<in> set xs \<Longrightarrow> x = c"
  shows "js_uniq xs = [c]"
proof -
  have s: "set (js_uniq xs) = {c}" using assms by (cases xs) auto
  have "length (js_uniq xs) = card (set (js_uniq xs))"
    using distinct_card[OF distinct_js_uniq] by metis
  then have "length (js_uniq xs) = 1" by (simp only: s card_insert_disjoint finite.emptyI) simp
  then obtain y where "js_uniq xs = [y]" by (cases "js_uniq xs") auto
  with s show ?thesis by simp
qed

text \<open>
  A generated primary key: \<open>gen_random_uuid()\<close> is documented to give a value no row of the
  table has; the model takes the next number.
\<close>

type_synonym uuid = nat

definition fresh_uuid :: "uuid list \<Rightarrow> uuid" where
  "fresh_uuid ids = Suc (fold max ids 0)"

lemma fold_max_ge_init: "(m::nat) \<le> fold max xs m"
proof (induction xs arbitrary: m)
  case (Cons a xs)
  show ?case using Cons[of "max a m"] by simp
qed simp

lemma fold_max_ge: "x \<in> set xs \<Longrightarrow> (x::nat) \<le> fold max xs m"
proof (induction xs arbitrary: m)
  case (Cons y ys)
  then show ?case using fold_max_ge_init[of "max y m" ys] by auto
qed simp

lemma fresh_uuid_notin [simp]: "fresh_uuid ids \<notin> set ids"
  using fold_max_ge [of "fresh_uuid ids" ids 0] by (auto simp: fresh_uuid_def)

text \<open>\<open>UPDATE t SET f WHERE p\<close> and \<open>SELECT ... WHERE p LIMIT 1\<close> on a table of rows.\<close>

definition update_where :: "('r \<Rightarrow> bool) \<Rightarrow> ('r \<Rightarrow> 'r) \<Rightarrow> 'r list \<Rightarrow> 'r list" where
  "update_where p f = map (\<lambda>r. if p r then f r else r)"

definition select_first :: "('r \<Rightarrow> bool) \<Rightarrow> 'r list \<Rightarrow> 'r option" where
  "select_first p rows = List.find p rows"

lemma select_first_Some: "select_first p rows = Some r \<Longrightarrow> r \<in> set rows \<and> p r"
  by (auto simp: select_first_def find_Some_iff)

lemma select_first_None: "select_first p rows = None \<longleftrightarrow> (\<forall>r\<in>set rows. \<not> p r)"
  by (auto simp: select_first_def find_None_iff)

lemma select_first_Nil [simp]: "select_first p [] = None"
  by (simp add: select_first_def)

lemma select_first_Cons [simp]:
  "select_first p (r # rows) = (if p r then Some r else select_first p rows)"
  by (simp add: select_first_def)

lemma select_first_append:
  "select_first p (xs @ ys) = (case select_first p xs of None \<Rightarrow> select_first p ys | Some r \<Rightarrow> Some r)"
  by (induction xs) auto

lemma select_first_exI: "r \<in> set rows \<Longrightarrow> p r \<Longrightarrow> \<exists>r'. select_first p rows = Some r'"
  by (metis not_Some_eq select_first_None)

lemma length_update_where [simp]: "length (update_where p f rows) = length rows"
  by (simp add: update_where_def)

lemma set_update_where:
  "set (update_where p f rows) = f ` {r \<in> set rows. p r} \<union> {r \<in> set rows. \<not> p r}"
  by (auto simp: update_where_def)

lemma update_where_last:
  "\<forall>x\<in>set xs. \<not> p x \<Longrightarrow> p r \<Longrightarrow> update_where p f (xs @ [r]) = xs @ [f r]"
  by (auto simp: update_where_def intro: map_idI)

lemma update_where_map_key:
  "(\<And>r. p r \<Longrightarrow> k (f r) = k r) \<Longrightarrow> map k (update_where p f rows) = map k rows"
  by (auto simp: update_where_def)

lemma update_where_only:
  assumes "distinct (map key xs)" and "v \<in> set xs" and "\<And>x. x \<in> set xs \<Longrightarrow> p x \<longleftrightarrow> key x = key v"
  shows "update_where p g xs = map (\<lambda>x. if x = v then g v else x) xs"
  unfolding update_where_def
proof (rule map_cong[OF refl])
  fix x assume x: "x \<in> set xs"
  have "p x \<longleftrightarrow> x = v" using assms x by (auto simp: distinct_map dest: inj_onD)
  then show "(if p x then g x else x) = (if x = v then g v else x)" by simp
qed

lemma filter_update_where_other:
  "(\<And>r. p r \<Longrightarrow> q (f r) = q r) \<Longrightarrow> (\<And>r. p r \<Longrightarrow> \<not> q r) \<Longrightarrow>
     filter q (update_where p f rows) = filter q rows"
  by (induction rows) (auto simp: update_where_def)

lemma select_first_update_where:
  assumes "\<And>r. p r \<Longrightarrow> q (f r) = q r"
  shows "select_first q (update_where p f rows) =
           map_option (\<lambda>r. if p r then f r else r) (select_first q rows)"
  using assms by (induction rows) (auto simp: update_where_def)

lemma select_first_unique:
  assumes "distinct (map key rows)" and "r \<in> set rows" and "p r"
    and "\<And>x. x \<in> set rows \<Longrightarrow> p x \<Longrightarrow> key x = key r"
  shows "select_first p rows = Some r"
  using assms
proof (induction rows)
  case (Cons a rows)
  show ?case
  proof (cases "p a")
    case True
    have "key a = key r" using Cons.prems(4)[OF _ True] by (simp only: list.set_intros)
    moreover have "r = a \<or> r \<in> set rows" using Cons.prems by simp
    moreover have "key a \<notin> key ` set rows" using Cons.prems by simp
    ultimately have "a = r" by (metis imageI)
    with True show ?thesis by simp
  next
    case False
    then have "r \<in> set rows" using Cons.prems by auto
    moreover have "distinct (map key rows)" using Cons.prems(1) by simp
    moreover have "\<And>x. x \<in> set rows \<Longrightarrow> p x \<Longrightarrow> key x = key r" using Cons.prems(4) by simp
    ultimately have "select_first p rows = Some r" using Cons.prems(3) by (intro Cons.IH)
    with False show ?thesis by simp
  qed
qed simp

end
