(* ===== verification/Json.thy ===== *)
theory Json
  imports Prelude "HOL-Library.Product_Lexorder"
begin

text \<open>
  JSON values and the canonical serialisation that the services hash for idempotency
  (\<open>stableSerialize\<close> of \<open>LedgerService\<close> and of \<open>MpesaService\<close>, the same text in both files).
  A number is kept as the text \<open>JSON.stringify\<close> prints for it.
\<close>

datatype json =
    JNull
  | JBool bool
  | JNum string
  | JStr string
  | JArr "json list"
  | JObj "(string \<times> json) list"

definition hex_digit :: "nat \<Rightarrow> char" where
  "hex_digit d = (if d < 10 then char_of (48 + d) else char_of (87 + d))"

text \<open>The escapes of \<open>JSON.stringify\<close>.\<close>

definition json_escape :: "char \<Rightarrow> string" where
  "json_escape c = (let n = (of_char c :: nat) in
     if n = 34 then [CHR 0x5C, CHR 0x22]
     else if n = 92 then [CHR 0x5C, CHR 0x5C]
     else if n = 8 then [CHR 0x5C, CHR ''b'']
     else if n = 9 then [CHR 0x5C, CHR ''t'']
     else if n = 10 then [CHR 0x5C, CHR ''n'']
     else if n = 12 then [CHR 0x5C, CHR ''f'']
     else if n = 13 then [CHR 0x5C, CHR ''r'']
     else if n < 32 then [CHR 0x5C, CHR ''u'', CHR ''0'', CHR ''0'', hex_digit (n div 16), hex_digit (n mod 16)]
     else [c])"

definition json_quote :: "string \<Rightarrow> string" where
  "json_quote s = CHR 0x22 # concat (map json_escape s) @ [CHR 0x22]"

fun join :: "string \<Rightarrow> string list \<Rightarrow> string" where
  "join sep [] = []"
| "join sep [s] = s"
| "join sep (s # t # ss) = s @ sep @ join sep (t # ss)"

fun stable_serialize :: "json \<Rightarrow> string" where
  "stable_serialize (JArr vs) = ''['' @ join '','' (map stable_serialize vs) @ '']''"
| "stable_serialize (JObj kvs) =
     ''{'' @ join '','' (map (\<lambda>kv. json_quote (fst kv) @ '':'' @ stable_serialize (snd kv))
                          (sort_key fst kvs)) @ ''}''"
| "stable_serialize JNull = ''null''"
| "stable_serialize (JBool True) = ''true''"
| "stable_serialize (JBool False) = ''false''"
| "stable_serialize (JNum t) = t"
| "stable_serialize (JStr s) = json_quote s"

text \<open>The JSON rendering of a nullable string (\<open>x ?? null\<close>).\<close>

definition json_opt :: "string option \<Rightarrow> json" where
  "json_opt v = (case v of None \<Rightarrow> JNull | Some s \<Rightarrow> JStr s)"

text \<open>
  PostgreSQL's text of a \<open>jsonb\<close> value (keys ordered by length, then bytewise), the operators
  \<open>->>\<close> on an object and \<open>||\<close> on two objects, and \<open>NULLIF(x, '')\<close>.
\<close>

fun jsonb_text :: "json \<Rightarrow> string" where
  "jsonb_text (JArr vs) = ''['' @ join '', '' (map jsonb_text vs) @ '']''"
| "jsonb_text (JObj kvs) =
     ''{'' @ join '', '' (map (\<lambda>kv. json_quote (fst kv) @ '': '' @ jsonb_text (snd kv))
                          (sort_key (\<lambda>kv. (length (fst kv), fst kv)) kvs)) @ ''}''"
| "jsonb_text JNull = ''null''"
| "jsonb_text (JBool True) = ''true''"
| "jsonb_text (JBool False) = ''false''"
| "jsonb_text (JNum t) = t"
| "jsonb_text (JStr s) = json_quote s"

definition json_field :: "(string \<times> json) list \<Rightarrow> string \<Rightarrow> string option" where
  "json_field kvs k = (case map_of kvs k of
       None \<Rightarrow> None | Some JNull \<Rightarrow> None | Some (JStr s) \<Rightarrow> Some s | Some v \<Rightarrow> Some (jsonb_text v))"

definition json_merge :: "(string \<times> json) list \<Rightarrow> (string \<times> json) list \<Rightarrow> (string \<times> json) list" where
  "json_merge old new = filter (\<lambda>kv. fst kv \<notin> fst ` set new) old @ new"

definition nullif_empty :: "string option \<Rightarrow> string option" where
  "nullif_empty v = (if v = Some [] then None else v)"

end
