(* ===== verification/Uuid.thy ===== *)
theory Uuid
  imports Json
begin

text \<open>
  The text form of a \<open>uuid\<close>. A \<open>uuid\<close> value is a 128-bit number; PostgreSQL prints it as 32
  lower-case hexadecimal digits in groups of 8, 4, 4, 4 and 12, so the order of the texts is the
  order of the numbers. \<open>read_uuid\<close> is the check \<open>/^[0-9a-f]{8}-...$/i\<close> of the services on a
  string that may hold an id, followed by the cast \<open>::uuid\<close>.
\<close>

definition hex_text :: "nat \<Rightarrow> nat \<Rightarrow> uuid \<Rightarrow> string" where
  "hex_text lo hi n = map (\<lambda>i. hex_digit (nat (int n div 16 ^ i mod 16))) (rev [lo..<hi])"

definition uuid_text :: "uuid \<Rightarrow> string" where
  "uuid_text n = hex_text 24 32 n @ ''-'' @ hex_text 20 24 n @ ''-'' @ hex_text 16 20 n @ ''-'' @
     hex_text 12 16 n @ ''-'' @ hex_text 0 12 n"

definition hex_value :: "char \<Rightarrow> nat option" where
  "hex_value c = (let n = (of_char c :: nat) in
     if 48 \<le> n \<and> n \<le> 57 then Some (n - 48)
     else if 97 \<le> n \<and> n \<le> 102 then Some (n - 87)
     else if 65 \<le> n \<and> n \<le> 70 then Some (n - 55)
     else None)"

definition is_dash_at :: "nat \<Rightarrow> bool" where
  "is_dash_at i \<longleftrightarrow> i = 8 \<or> i = 13 \<or> i = 18 \<or> i = 23"

definition uuid_shape :: "string \<Rightarrow> bool" where
  "uuid_shape s \<longleftrightarrow> length s = 36 \<and>
     list_all (\<lambda>(i, c). if is_dash_at i then c = CHR ''-''
       else (case hex_value c of None \<Rightarrow> False
             | Some d \<Rightarrow> (i = 14 \<longrightarrow> 1 \<le> d \<and> d \<le> 5) \<and> (i = 19 \<longrightarrow> 8 \<le> d \<and> d \<le> 11)))
       (zip [0..<36] s)"

definition uuid_value :: "string \<Rightarrow> uuid" where
  "uuid_value s = nat (fold (\<lambda>c n. case hex_value c of None \<Rightarrow> n | Some d \<Rightarrow> n * 16 + int d) s 0)"

text \<open>\<open>readString\<close>: a non-blank string, trimmed; and \<open>readUuid\<close>.\<close>

definition read_string :: "string option \<Rightarrow> string option" where
  "read_string v = (case v of None \<Rightarrow> None | Some s \<Rightarrow> if js_trim s = [] then None else Some (js_trim s))"

definition read_uuid :: "string option \<Rightarrow> uuid option" where
  "read_uuid v = (case read_string v of None \<Rightarrow> None
     | Some s \<Rightarrow> if uuid_shape s then Some (uuid_value s) else None)"

text \<open>The cast \<open>$n::uuid\<close>, for the hyphenated form that the services print.\<close>

definition pg_uuid :: "string \<Rightarrow> exn + uuid" where
  "pg_uuid s =
     (if length s = 36 \<and> list_all (\<lambda>(i, c). if is_dash_at i then c = CHR ''-'' else hex_value c \<noteq> None) (zip [0..<36] s)
      then Inr (uuid_value s) else Inl (PgError ''22P02'' []))"

end
