(* ===== verification/Runtime.thy ===== *)
theory Runtime
  imports Uuid
begin

text \<open>
  What every service reads from its surroundings: the request context
  (\<open>common/request-context/request-context.service.ts\<close>), the transaction's \<open>NOW()\<close> and the
  process clock \<open>Date.now()\<close>, both in milliseconds, the configuration, and the functions of
  other parties the code relies on (the SHA-256 digest, \<open>Date\<close> parsing, the collation of
  \<open>localeCompare\<close>) as parameters.
\<close>

record runtime =
  rt_tenant_id :: "string option"
  rt_user_id :: string
  rt_request_id :: string
  rt_trace_id :: string
  rt_span_id :: string
  rt_parent_span_id :: "string option"
  rt_role :: "string option"
  rt_session_id :: "string option"
  rt_client_ip :: "string option"
  rt_user_agent :: "string option"
  rt_now :: int
  rt_clock :: int
  rt_sha256 :: "string \<Rightarrow> string"
  rt_parse_date :: "string \<Rightarrow> int option"
  rt_collate :: "string \<Rightarrow> string \<Rightarrow> bool"
  rt_pg_message :: "string \<Rightarrow> string \<Rightarrow> string"
  rt_config :: "string \<Rightarrow> string option"
  rt_config_number :: "string \<Rightarrow> int option"

definition AUTH_ANONYMOUS_USER_ID :: string where
  "AUTH_ANONYMOUS_USER_ID = ''anonymous''"

text \<open>\<open>user_id && user_id !== AUTH_ANONYMOUS_USER_ID ? user_id : null\<close>\<close>

definition acting_user :: "runtime \<Rightarrow> string option" where
  "acting_user rt =
     (if rt_user_id rt \<noteq> [] \<and> rt_user_id rt \<noteq> AUTH_ANONYMOUS_USER_ID then Some (rt_user_id rt)
      else None)"

text \<open>\<open>error.message\<close>; the text PostgreSQL writes for a refused statement is a parameter.\<close>

fun exn_message :: "runtime \<Rightarrow> exn \<Rightarrow> string" where
  "exn_message rt (BadRequestException m) = m"
| "exn_message rt (ConflictException m) = m"
| "exn_message rt (NotFoundException m) = m"
| "exn_message rt (UnauthorizedException m) = m"
| "exn_message rt (ForbiddenException m) = m"
| "exn_message rt (BadGatewayException m) = m"
| "exn_message rt (InternalServerErrorException m) = m"
| "exn_message rt (HttpException status m) = m"
| "exn_message rt (PgError code constraint) = rt_pg_message rt code constraint"

text \<open>
  \<open>DatabaseService.withRequestTransaction\<close>: inside an open transaction the callback just runs;
  otherwise its state is committed, and an exception of the callback or of the commit (the
  deferred triggers run there) leaves the database as it was.
\<close>

definition with_request_transaction ::
  "bool \<Rightarrow> ('s \<Rightarrow> unit result) \<Rightarrow> ('s \<Rightarrow> ('a \<times> 's) result) \<Rightarrow> 's \<Rightarrow> ('a \<times> 's) result" where
  "with_request_transaction has_client commit_checks callback s =
     (if has_client then callback s
      else and_then (callback s) (\<lambda>(x, s').
           and_then (commit_checks s') (\<lambda>_. Inr (x, s'))))"

lemma with_request_transaction_Inr:
  "with_request_transaction c chk cb s = Inr (x, s') \<longleftrightarrow>
     cb s = Inr (x, s') \<and> (c \<or> chk s' = Inr ())"
  by (auto simp: with_request_transaction_def and_then_eq_Inr split: prod.splits if_splits)

text \<open>Widths of the columns the services write numbers into.\<close>

definition fits_bigint :: "int \<Rightarrow> bool" where
  "fits_bigint i \<longleftrightarrow> - (2 ^ 63) \<le> i \<and> i < 2 ^ 63"

definition fits_integer :: "int \<Rightarrow> bool" where
  "fits_integer i \<longleftrightarrow> - (2 ^ 31) \<le> i \<and> i < 2 ^ 31"

text \<open>\<open>btrim(s) <> ''\<close>\<close>

definition not_blank :: "string \<Rightarrow> bool" where
  "not_blank s \<longleftrightarrow> list_ex (\<lambda>c. c \<noteq> CHR '' '') s"

text \<open>\<open>s ~ '^[A-Z]{3}$'\<close>\<close>

definition is_upper_letter :: "char \<Rightarrow> bool" where
  "is_upper_letter c \<longleftrightarrow> (let n = (of_char c :: nat) in 65 \<le> n \<and> n \<le> 90)"

definition currency_format :: "string \<Rightarrow> bool" where
  "currency_format s \<longleftrightarrow> length s = 3 \<and> list_all is_upper_letter s"

text \<open>\<open>Number(configService.get(key) ?? fallback)\<close>\<close>

definition config_number :: "runtime \<Rightarrow> string \<Rightarrow> int \<Rightarrow> int" where
  "config_number rt key fallback = (case rt_config_number rt key of None \<Rightarrow> fallback | Some n \<Rightarrow> n)"

lemma upper_char_id: "is_upper_letter c \<Longrightarrow> upper_char c = c"
  by (simp add: is_upper_letter_def upper_char_def Let_def)

lemma js_upper_currency: "currency_format s \<Longrightarrow> js_upper s = s"
  by (auto simp: currency_format_def js_upper_def upper_char_id list_all_iff intro!: map_idI)

text \<open>The cast \<open>$n::bigint\<close> of a text parameter.\<close>

definition pg_bigint :: "string \<Rightarrow> int result" where
  "pg_bigint s =
     (let t = js_trim s; digits = (if t \<noteq> [] \<and> hd t = CHR ''-'' then tl t else t)
      in if \<not> digits_only digits then Inl (PgError ''22P02'' '''')
         else and_then (guard (fits_bigint (parse_int t)) (PgError ''22003'' '''')) (\<lambda>_. Inr (parse_int t)))"

lemma pg_bigint_show: "pg_bigint (show_int i) = (if fits_bigint i then Inr i else Inl (PgError ''22003'' ''''))"
proof -
  have "(if show_int i \<noteq> [] \<and> hd (show_int i) = CHR ''-'' then tl (show_int i) else show_int i) = show_nat (nat \<bar>i\<bar>)"
    using show_nat_hd_digit[of "nat i"] by (auto simp: show_int_def is_digit_def)
  then have "digits_only (if show_int i \<noteq> [] \<and> hd (show_int i) = CHR ''-'' then tl (show_int i) else show_int i)"
    by (simp add: digits_only_def)
  then show ?thesis by (simp add: pg_bigint_def Let_def)
qed

end
