(* ===== verification/Idempotency.thy ===== *)
theory Idempotency
  imports Runtime
begin

text \<open>
  The table \<open>idempotency_keys\<close> and the two repositories that lock and complete its rows:
  \<open>modules/finance/repositories/idempotency-keys.repository.ts\<close> (scope \<open>finance:ledger:post\<close>)
  and \<open>modules/payments/repositories/payment-intent-idempotency.repository.ts\<close>. Both run the
  same statements, so each is an instance of \<open>lock_request\<close> and \<open>mark_completed\<close> with its
  own messages. The rows are polymorphic in the stored response.

  The locale \<open>idempotency_store\<close> states what a client of such a store relies on; its lemmas
  show that once a key is completed every later attempt either replays the stored response or is
  refused, until the key expires. It is interpreted on the repositories' definitions.
\<close>

datatype idem_status = IkInProgress | IkCompleted | IkFailed | IkExpired

record 'r idem_row =
  ik_id :: uuid
  ik_tenant_id :: string
  ik_user_id :: "string option"
  ik_scope :: string
  ik_key :: string
  ik_request_method :: string
  ik_request_path :: string
  ik_request_hash :: string
  ik_status :: idem_status
  ik_response_status_code :: "nat option"
  ik_response_body :: "'r option"
  ik_locked_at :: "int option"
  ik_completed_at :: "int option"
  ik_expires_at :: int
  ik_created_at :: int
  ik_updated_at :: int

record lock_input =
  li_tenant_id :: string
  li_user_id :: "string option"
  li_scope :: string
  li_key :: string
  li_request_hash :: string
  li_request_method :: string
  li_request_path :: string
  li_ttl_seconds :: int

type_synonym idem_key = "string \<times> string \<times> string"

definition row_key :: "('r, 'a) idem_row_scheme \<Rightarrow> idem_key" where
  "row_key r = (ik_tenant_id r, ik_scope r, ik_key r)"

definition input_key :: "lock_input \<Rightarrow> idem_key" where
  "input_key i = (li_tenant_id i, li_scope i, li_key i)"

text \<open>\<open>NOW() + ($8 * INTERVAL '1 second')\<close>\<close>

definition expiry_after :: "runtime \<Rightarrow> lock_input \<Rightarrow> int" where
  "expiry_after rt i = rt_now rt + 1000 * li_ttl_seconds i"

text \<open>The table's CHECK constraints that an insert can violate.\<close>

definition idem_row_checks :: "'r idem_row \<Rightarrow> unit result" where
  "idem_row_checks r =
     and_then (guard (not_blank (ik_scope r)) (PgError ''23514'' ''ck_idempotency_keys_scope_not_blank'')) (\<lambda>_.
     and_then (guard (not_blank (ik_key r)) (PgError ''23514'' ''ck_idempotency_keys_key_not_blank'')) (\<lambda>_.
     and_then (guard (ik_request_method r \<noteq> [] \<and> list_all is_upper_letter (ik_request_method r))
       (PgError ''23514'' ''ck_idempotency_keys_method_format'')) (\<lambda>_.
     and_then (guard (not_blank (ik_request_path r)) (PgError ''23514'' ''ck_idempotency_keys_path_not_blank'')) (\<lambda>_.
     guard (not_blank (ik_request_hash r)) (PgError ''23514'' ''ck_idempotency_keys_request_hash_not_blank'')))))"

definition new_idem_row :: "runtime \<Rightarrow> lock_input \<Rightarrow> uuid \<Rightarrow> 'r idem_row" where
  "new_idem_row rt i new_id =
     \<lparr>ik_id = new_id, ik_tenant_id = li_tenant_id i, ik_user_id = li_user_id i,
      ik_scope = li_scope i, ik_key = li_key i, ik_request_method = li_request_method i,
      ik_request_path = li_request_path i, ik_request_hash = li_request_hash i,
      ik_status = IkInProgress, ik_response_status_code = None, ik_response_body = None,
      ik_locked_at = Some (rt_now rt), ik_completed_at = None,
      ik_expires_at = expiry_after rt i, ik_created_at = rt_now rt, ik_updated_at = rt_now rt\<rparr>"

text \<open>\<open>INSERT ... ON CONFLICT (tenant_id, scope, idempotency_key) DO NOTHING\<close>\<close>

definition insert_if_absent :: "runtime \<Rightarrow> lock_input \<Rightarrow> 'r idem_row list \<Rightarrow> 'r idem_row list result" where
  "insert_if_absent rt i rows =
     (let r = new_idem_row rt i (fresh_uuid (map ik_id rows))
      in and_then (idem_row_checks r) (\<lambda>_.
         Inr (if input_key i \<in> set (map row_key rows) then rows else rows @ [r])))"

definition get_locked_record :: "'r idem_row list \<Rightarrow> idem_key \<Rightarrow> 'r idem_row option" where
  "get_locked_record rows k = select_first (\<lambda>r. row_key r = k) rows"

definition at_id :: "string \<Rightarrow> uuid \<Rightarrow> 'r idem_row \<Rightarrow> bool" where
  "at_id tenant rid r \<longleftrightarrow> ik_tenant_id r = tenant \<and> ik_id r = rid"

text \<open>\<open>UPDATE ... RETURNING\<close> and \<open>mapRecord(result.rows[0])\<close>: no updated row is a TypeError.\<close>

definition update_returning ::
  "('r \<Rightarrow> bool) \<Rightarrow> ('r \<Rightarrow> 'r) \<Rightarrow> 'r list \<Rightarrow> ('r \<times> 'r list) result" where
  "update_returning p f rows =
     (case select_first p rows of
        None \<Rightarrow> Inl (InternalServerErrorException ''TypeError: result.rows[0] is undefined'')
      | Some r \<Rightarrow> Inr (f r, update_where p f rows))"

definition reset_fields :: "runtime \<Rightarrow> lock_input \<Rightarrow> 'r idem_row \<Rightarrow> 'r idem_row" where
  "reset_fields rt i r =
     r\<lparr>ik_user_id := li_user_id i, ik_request_method := li_request_method i,
       ik_request_path := li_request_path i, ik_request_hash := li_request_hash i,
       ik_status := IkInProgress, ik_response_status_code := None, ik_response_body := None,
       ik_locked_at := Some (rt_now rt), ik_completed_at := None,
       ik_expires_at := expiry_after rt i, ik_updated_at := rt_now rt\<rparr>"

definition reset_expired_record ::
  "runtime \<Rightarrow> uuid \<Rightarrow> lock_input \<Rightarrow> 'r idem_row list \<Rightarrow> ('r idem_row \<times> 'r idem_row list) result" where
  "reset_expired_record rt rid i rows =
     update_returning (at_id (li_tenant_id i) rid) (reset_fields rt i) rows"

definition relock_fields :: "runtime \<Rightarrow> lock_input \<Rightarrow> 'r idem_row \<Rightarrow> 'r idem_row" where
  "relock_fields rt i r =
     r\<lparr>ik_user_id := li_user_id i, ik_request_method := li_request_method i,
       ik_request_path := li_request_path i, ik_request_hash := li_request_hash i,
       ik_status := IkInProgress, ik_locked_at := Some (rt_now rt),
       ik_expires_at := expiry_after rt i, ik_updated_at := rt_now rt\<rparr>"

definition relock_record ::
  "runtime \<Rightarrow> uuid \<Rightarrow> lock_input \<Rightarrow> 'r idem_row list \<Rightarrow> ('r idem_row \<times> 'r idem_row list) result" where
  "relock_record rt rid i rows =
     update_returning (at_id (li_tenant_id i) rid) (relock_fields rt i) rows"

definition lock_request ::
  "string \<Rightarrow> string \<Rightarrow> runtime \<Rightarrow> lock_input \<Rightarrow> 'r idem_row list \<Rightarrow> ('r idem_row \<times> 'r idem_row list) result" where
  "lock_request unlockable mismatch rt i rows0 =
     and_then (insert_if_absent rt i rows0) (\<lambda>rows.
       case get_locked_record rows (input_key i) of
         None \<Rightarrow> Inl (ConflictException unlockable)
       | Some r \<Rightarrow>
           if ik_expires_at r \<le> rt_clock rt then reset_expired_record rt (ik_id r) i rows
           else if ik_request_hash r \<noteq> li_request_hash i then Inl (ConflictException mismatch)
           else if ik_status r = IkCompleted then Inr (r, rows)
           else relock_record rt (ik_id r) i rows)"

definition completed_fields :: "runtime \<Rightarrow> nat \<Rightarrow> 'r \<Rightarrow> 'r idem_row \<Rightarrow> 'r idem_row" where
  "completed_fields rt code body r =
     r\<lparr>ik_status := IkCompleted, ik_response_status_code := Some code,
       ik_response_body := Some body, ik_completed_at := Some (rt_now rt),
       ik_updated_at := rt_now rt\<rparr>"

definition mark_completed ::
  "runtime \<Rightarrow> string \<Rightarrow> uuid \<Rightarrow> nat \<Rightarrow> 'r \<Rightarrow> 'r idem_row list \<Rightarrow> 'r idem_row list" where
  "mark_completed rt tenant rid code body rows =
     update_where (at_id tenant rid) (completed_fields rt code body) rows"

text \<open>\<open>record.status === 'completed' && record.response_body\<close>\<close>

definition replay_body :: "'r idem_row \<Rightarrow> 'r option" where
  "replay_body r = (if ik_status r = IkCompleted then ik_response_body r else None)"

text \<open>The two repositories.\<close>

definition finance_lock_request ::
  "runtime \<Rightarrow> lock_input \<Rightarrow> 'r idem_row list \<Rightarrow> ('r idem_row \<times> 'r idem_row list) result" where
  "finance_lock_request = lock_request ''Unable to lock idempotency key''
     ''Idempotency key has already been used with a different request payload''"

definition intent_lock_request ::
  "runtime \<Rightarrow> lock_input \<Rightarrow> 'r idem_row list \<Rightarrow> ('r idem_row \<times> 'r idem_row list) result" where
  "intent_lock_request = lock_request ''Unable to lock payment intent idempotency key''
     ''Idempotency key has already been used with a different payment intent payload''"


section \<open>The interface a client relies on\<close>

locale idempotency_store =
  fixes lock :: "runtime \<Rightarrow> lock_input \<Rightarrow> 't \<Rightarrow> ('rec \<times> 't) result"
    and complete :: "runtime \<Rightarrow> string \<Rightarrow> uuid \<Rightarrow> nat \<Rightarrow> 'resp \<Rightarrow> 't \<Rightarrow> 't"
    and rec_id :: "'rec \<Rightarrow> uuid"
    and rec_body :: "'rec \<Rightarrow> 'resp option"
    and rec_expiry :: "'rec \<Rightarrow> int"
    and stored :: "'t \<Rightarrow> idem_key \<Rightarrow> (string \<times> int \<times> 'resp) option"
    and valid :: "lock_input \<Rightarrow> bool"
    and invar :: "'t \<Rightarrow> bool"
  assumes lock_invar: "invar t \<Longrightarrow> lock rt i t = Inr (r, t') \<Longrightarrow> invar t'"
    and complete_invar: "invar t \<Longrightarrow> invar (complete rt tenant rid code b t)"
    and lock_valid: "lock rt i t = Inr (r, t') \<Longrightarrow> valid i"
    and lock_hit: "invar t \<Longrightarrow> valid i \<Longrightarrow> stored t (input_key i) = Some (li_request_hash i, e, b) \<Longrightarrow>
      rt_clock rt < e \<Longrightarrow> \<exists>r. lock rt i t = Inr (r, t) \<and> rec_body r = Some b"
    and lock_mismatch: "invar t \<Longrightarrow> stored t (input_key i) = Some (h, e, b) \<Longrightarrow> rt_clock rt < e \<Longrightarrow>
      h \<noteq> li_request_hash i \<Longrightarrow> \<exists>x. lock rt i t = Inl x"
    and lock_other: "invar t \<Longrightarrow> lock rt i t = Inr (r, t') \<Longrightarrow> k \<noteq> input_key i \<Longrightarrow> stored t' k = stored t k"
    and complete_stored: "invar t \<Longrightarrow> lock rt i t = Inr (r, t') \<Longrightarrow> rec_body r = None \<Longrightarrow>
      stored (complete rt (li_tenant_id i) (rec_id r) code b t') (input_key i) =
        Some (li_request_hash i, rec_expiry r, b)"
    and complete_other: "invar t \<Longrightarrow> lock rt i t = Inr (r, t') \<Longrightarrow> k \<noteq> input_key i \<Longrightarrow>
      stored (complete rt (li_tenant_id i) (rec_id r) code b t') k = stored t' k"
begin

text \<open>
  The shape of every idempotent handler: lock the key; replay a stored response; otherwise do the
  work and store its response. A failed work rolls the whole transaction back.
\<close>

definition attempt ::
  "runtime \<Rightarrow> lock_input \<Rightarrow> ('rec \<Rightarrow> 't \<Rightarrow> (nat \<times> 'resp) result) \<Rightarrow> 't \<Rightarrow> 'resp result \<times> 't" where
  "attempt rt i work t =
     (case lock rt i t of
        Inl e \<Rightarrow> (Inl e, t)
      | Inr (r, t') \<Rightarrow>
          (case rec_body r of
             Some b \<Rightarrow> (Inr b, t')
           | None \<Rightarrow>
               (case work r t' of
                  Inl e \<Rightarrow> (Inl e, t)
                | Inr (code, b) \<Rightarrow> (Inr b, complete rt (li_tenant_id i) (rec_id r) code b t'))))"

fun attempts ::
  "(runtime \<times> lock_input \<times> ('rec \<Rightarrow> 't \<Rightarrow> (nat \<times> 'resp) result)) list \<Rightarrow> 't \<Rightarrow> 'resp result list \<times> 't" where
  "attempts [] t = ([], t)"
| "attempts ((rt, i, work) # as) t =
     (let (res, t') = attempt rt i work t; (ress, t'') = attempts as t' in (res # ress, t''))"

lemma attempt_invar: "invar t \<Longrightarrow> invar (snd (attempt rt i work t))"
  by (auto simp: attempt_def complete_invar lock_invar split: sum.splits option.splits prod.splits)

lemma attempt_stored_other:
  "invar t \<Longrightarrow> k \<noteq> input_key i \<Longrightarrow> stored (snd (attempt rt i work t)) k = stored t k"
  by (auto simp: attempt_def complete_other lock_other split: sum.splits option.splits prod.splits)

lemma attempt_stored_same:
  assumes "invar t" and "stored t (input_key i) = Some (h, e, b)" and "rt_clock rt < e"
  shows "snd (attempt rt i work t) = t"
    and "fst (attempt rt i work t) = Inr b \<or> (\<exists>x. fst (attempt rt i work t) = Inl x)"
proof -
  have "snd (attempt rt i work t) = t \<and>
    (fst (attempt rt i work t) = Inr b \<or> (\<exists>x. fst (attempt rt i work t) = Inl x))"
  proof (cases "lock rt i t")
    case (Inr rt')
    obtain r t' where rt': "rt' = (r, t')" by force
    with Inr have v: "valid i" using lock_valid by blast
    have "h = li_request_hash i"
      using lock_mismatch[OF assms] Inr by fastforce
    with lock_hit[OF assms(1) v _ assms(3)] assms(2) Inr rt'
    have "t' = t" and "rec_body r = Some b" by auto
    with Inr rt' show ?thesis by (simp add: attempt_def)
  qed (simp add: attempt_def)
  then show "snd (attempt rt i work t) = t"
    and "fst (attempt rt i work t) = Inr b \<or> (\<exists>x. fst (attempt rt i work t) = Inl x)" by auto
qed

lemma attempts_stored:
  assumes "invar t" and "stored t k = Some (h, e, b)"
    and "\<forall>(rt, i, work) \<in> set as. rt_clock rt < e"
  shows "stored (snd (attempts as t)) k = Some (h, e, b)"
  using assms
proof (induction as arbitrary: t)
  case (Cons a as)
  obtain rt i work where a: "a = (rt, i, work)" by (cases a)
  let ?t = "snd (attempt rt i work t)"
  have "stored ?t k = Some (h, e, b)"
    using Cons.prems a attempt_stored_same(1)[of t i h e b rt work] attempt_stored_other[of t k i rt work]
    by (cases "k = input_key i") auto
  then have "stored (snd (attempts as ?t)) k = Some (h, e, b)"
    using Cons.prems attempt_invar by (intro Cons.IH) auto
  with a show ?case by (simp add: split_beta Let_def)
qed simp

text \<open>Exactly once: every later attempt on a completed key replays the first response or is refused.\<close>

lemma attempts_replay:
  assumes "invar t" and "stored t k = Some (h, e, b)"
    and "\<forall>(rt, i, work) \<in> set as. rt_clock rt < e"
    and "n < length as" and "as ! n = (rt, i, work)" and "input_key i = k"
  shows "fst (attempts as t) ! n = Inr b \<or> (\<exists>x. fst (attempts as t) ! n = Inl x)"
  using assms
proof (induction as arbitrary: t n)
  case (Cons a as)
  obtain rt0 i0 work0 where a: "a = (rt0, i0, work0)" by (cases a)
  let ?t = "snd (attempt rt0 i0 work0 t)"
  have "stored ?t k = Some (h, e, b)"
    using Cons.prems a attempts_stored[of t k h e b "[a]"] by (simp add: split_beta Let_def)
  show ?case
  proof (cases n)
    case 0
    then show ?thesis
      using Cons.prems a attempt_stored_same(2)[of t i h e b rt work] by (auto simp: split_beta Let_def)
  next
    case (Suc m)
    have "fst (attempts as ?t) ! m = Inr b \<or> (\<exists>x. fst (attempts as ?t) ! m = Inl x)"
      using Cons.prems Suc \<open>stored ?t k = Some (h, e, b)\<close> attempt_invar by (intro Cons.IH) auto
    with a Suc show ?thesis by (simp add: split_beta Let_def)
  qed
qed simp

end

section \<open>The repositories provide it\<close>

definition idem_invar :: "'r idem_row list \<Rightarrow> bool" where
  "idem_invar rows \<longleftrightarrow> distinct (map ik_id rows) \<and> distinct (map row_key rows)"

definition stored_response :: "'r idem_row list \<Rightarrow> idem_key \<Rightarrow> (string \<times> int \<times> 'r) option" where
  "stored_response rows k =
     (case get_locked_record rows k of
        None \<Rightarrow> None
      | Some r \<Rightarrow> map_option (\<lambda>b. (ik_request_hash r, ik_expires_at r, b)) (replay_body r))"

definition valid_lock_input :: "lock_input \<Rightarrow> bool" where
  "valid_lock_input i \<longleftrightarrow> not_blank (li_scope i) \<and> not_blank (li_key i) \<and> li_request_method i \<noteq> [] \<and>
     list_all is_upper_letter (li_request_method i) \<and> not_blank (li_request_path i) \<and>
     not_blank (li_request_hash i)"

lemma idem_row_checks_new [simp]:
  "idem_row_checks (new_idem_row rt i u) = Inr () \<longleftrightarrow> valid_lock_input i"
  by (auto simp: idem_row_checks_def new_idem_row_def valid_lock_input_def and_then_eq_Inr)

lemma insert_if_absent_Inr:
  "insert_if_absent rt i rows0 = Inr rows \<longleftrightarrow> valid_lock_input i \<and>
     rows = (if input_key i \<in> set (map row_key rows0) then rows0
             else rows0 @ [new_idem_row rt i (fresh_uuid (map ik_id rows0))])"
  by (auto simp: insert_if_absent_def and_then_eq_Inr Let_def)

lemma row_key_new [simp]: "row_key (new_idem_row rt i u) = input_key i"
  by (simp add: row_key_def new_idem_row_def input_key_def)

lemma ik_id_new [simp]: "ik_id (new_idem_row rt i u) = u"
  by (simp add: new_idem_row_def)

lemma ik_status_new [simp]: "ik_status (new_idem_row rt i u) = IkInProgress"
  by (simp add: new_idem_row_def)

lemma idem_fields_keep [simp]:
  "ik_id (reset_fields rt i r) = ik_id r" "row_key (reset_fields rt i r) = row_key r"
  "ik_id (relock_fields rt i r) = ik_id r" "row_key (relock_fields rt i r) = row_key r"
  "ik_id (completed_fields rt c b r) = ik_id r" "row_key (completed_fields rt c b r) = row_key r"
  by (simp_all add: reset_fields_def relock_fields_def completed_fields_def row_key_def)

lemma idem_fields_hash [simp]:
  "ik_request_hash (reset_fields rt i r) = li_request_hash i"
  "ik_request_hash (relock_fields rt i r) = li_request_hash i"
  "ik_request_hash (completed_fields rt c b r) = ik_request_hash r"
  by (simp_all add: reset_fields_def relock_fields_def completed_fields_def)

lemma replay_body_fields [simp]:
  "replay_body (reset_fields rt i r) = None"
  "replay_body (relock_fields rt i r) = None"
  "replay_body (completed_fields rt c b r) = Some b"
  by (simp_all add: replay_body_def reset_fields_def relock_fields_def completed_fields_def)

lemma get_locked_recordD:
  "get_locked_record rows k = Some r \<Longrightarrow> r \<in> set rows \<and> row_key r = k"
  by (auto simp: get_locked_record_def dest: select_first_Some)

lemma insert_if_absent_invar:
  "idem_invar rows0 \<Longrightarrow> insert_if_absent rt i rows0 = Inr rows \<Longrightarrow> idem_invar rows"
  using fresh_uuid_notin[of "map ik_id rows0"] by (auto simp: insert_if_absent_Inr idem_invar_def)

lemma insert_if_absent_other:
  "insert_if_absent rt i rows0 = Inr rows \<Longrightarrow> k \<noteq> input_key i \<Longrightarrow>
     get_locked_record rows k = get_locked_record rows0 k"
  by (auto simp: insert_if_absent_Inr get_locked_record_def select_first_append split: option.splits)

lemma insert_if_absent_present:
  "insert_if_absent rt i rows0 = Inr rows \<Longrightarrow> get_locked_record rows0 (input_key i) = Some r \<Longrightarrow>
     rows = rows0"
  by (frule get_locked_recordD) (force simp: insert_if_absent_Inr split: if_splits)

text \<open>An update of the row found under a key touches that row only, and keeps the invariant.\<close>

lemma update_found_row:
  assumes inv: "idem_invar rows" and found: "get_locked_record rows k = Some r0"
    and keeps: "\<And>r. ik_id (f r) = ik_id r" "\<And>r. row_key (f r) = row_key r"
  shows "select_first (at_id (fst k) (ik_id r0)) rows = Some r0"
    and "get_locked_record (update_where (at_id (fst k) (ik_id r0)) f rows) k' =
           (if k' = k then Some (f r0) else get_locked_record rows k')"
    and "idem_invar (update_where (at_id (fst k) (ik_id r0)) f rows)"
proof -
  let ?p = "at_id (fst k) (ik_id r0)"
  from found have r0: "r0 \<in> set rows" "row_key r0 = k" by (auto dest: get_locked_recordD)
  then have tenant: "ik_tenant_id r0 = fst k" by (auto simp: row_key_def)
  show "select_first ?p rows = Some r0"
    using inv r0 tenant by (intro select_first_unique[where key = ik_id]) (auto simp: idem_invar_def at_id_def)
  have uniq: "r = r0" if "r \<in> set rows" "?p r" for r
    using inv that r0 by (auto simp: idem_invar_def at_id_def distinct_map dest: inj_onD)
  have p0: "?p r0" using tenant by (simp add: at_id_def)
  have "get_locked_record (update_where ?p f rows) k' =
      map_option (\<lambda>r. if ?p r then f r else r) (get_locked_record rows k')"
    unfolding get_locked_record_def by (rule select_first_update_where) (simp add: keeps)
  also have "\<dots> = (if k' = k then Some (f r0) else get_locked_record rows k')"
  proof (cases "k' = k")
    case False
    then show ?thesis
      using uniq r0 by (cases "get_locked_record rows k'") (auto dest: get_locked_recordD)
  qed (simp add: found p0)
  finally show "get_locked_record (update_where ?p f rows) k' = \<dots>" .
  show "idem_invar (update_where ?p f rows)"
    using inv by (simp add: idem_invar_def update_where_map_key keeps)
qed

lemma lock_request_Inr:
  assumes inv: "idem_invar rows0" and lock: "lock_request u m rt i rows0 = Inr (r, rows')"
  shows "valid_lock_input i" and "idem_invar rows'"
    and "get_locked_record rows' (input_key i) = Some r"
    and "ik_request_hash r = li_request_hash i"
    and "k \<noteq> input_key i \<Longrightarrow> get_locked_record rows' k = get_locked_record rows0 k"
proof -
  from lock obtain rows where ins: "insert_if_absent rt i rows0 = Inr rows"
    by (auto simp: lock_request_def and_then_eq_Inr)
  then show "valid_lock_input i" by (simp add: insert_if_absent_Inr)
  have inv1: "idem_invar rows" using inv ins by (rule insert_if_absent_invar)
  have other: "k \<noteq> input_key i \<Longrightarrow> get_locked_record rows k = get_locked_record rows0 k" for k
    using ins by (rule insert_if_absent_other)
  from lock ins obtain r0 where found: "get_locked_record rows (input_key i) = Some r0"
    by (auto simp: lock_request_def split: option.splits)
  have fst_key: "fst (input_key i) = li_tenant_id i" by (simp add: input_key_def)
  note found_upd = update_found_row[OF inv1 found, unfolded fst_key]
  have "idem_invar rows' \<and> get_locked_record rows' (input_key i) = Some r \<and>
      ik_request_hash r = li_request_hash i \<and>
      (\<forall>k. k \<noteq> input_key i \<longrightarrow> get_locked_record rows' k = get_locked_record rows k)"
  proof (cases "ik_expires_at r0 \<le> rt_clock rt")
    case True
    with lock ins found have "reset_expired_record rt (ik_id r0) i rows = Inr (r, rows')"
      by (simp add: lock_request_def)
    then show ?thesis using found_upd[of "reset_fields rt i"]
      by (auto simp: reset_expired_record_def update_returning_def)
  next
    case live: False
    show ?thesis
    proof (cases "ik_status r0 = IkCompleted")
      case True
      with live lock ins found inv1 show ?thesis
        by (auto simp: lock_request_def split: if_splits)
    next
      case False
      with live lock ins found have "relock_record rt (ik_id r0) i rows = Inr (r, rows')"
        by (auto simp: lock_request_def split: if_splits)
      then show ?thesis using found_upd[of "relock_fields rt i"]
        by (auto simp: relock_record_def update_returning_def)
    qed
  qed
  then show "idem_invar rows'" and "get_locked_record rows' (input_key i) = Some r"
    and "ik_request_hash r = li_request_hash i"
    and "k \<noteq> input_key i \<Longrightarrow> get_locked_record rows' k = get_locked_record rows0 k"
    using other by (blast, blast, blast, metis)
qed

text \<open>Locking keeps the row's identity; an absent or expired key starts a fresh term.\<close>

lemma lock_request_id:
  assumes "idem_invar rows0" and "lock_request u m rt i rows0 = Inr (r, rows')"
    and "get_locked_record rows0 (input_key i) = Some r0"
  shows "ik_id r = ik_id r0"
    and "ik_expires_at r0 \<le> rt_clock rt \<Longrightarrow> replay_body r = None"
proof -
  from assms(2) obtain rows where ins: "insert_if_absent rt i rows0 = Inr rows"
    by (auto simp: lock_request_def and_then_eq_Inr)
  then have rows: "rows = rows0" using assms(3) by (rule insert_if_absent_present)
  have "select_first (at_id (li_tenant_id i) (ik_id r0)) rows0 = Some r0"
    using update_found_row(1)[OF assms(1,3), of "\<lambda>r. r"] by (simp add: input_key_def)
  then show "ik_id r = ik_id r0" and "ik_expires_at r0 \<le> rt_clock rt \<Longrightarrow> replay_body r = None"
    using assms(2,3) ins rows
    by (auto simp: lock_request_def reset_expired_record_def relock_record_def update_returning_def
        split: if_splits)
qed

lemma lock_request_first_use:
  assumes "idem_invar rows0" and "lock_request u m rt i rows0 = Inr (r, rows')"
    and "get_locked_record rows0 (input_key i) = None"
  shows "ik_expires_at r = expiry_after rt i" and "replay_body r = None"
proof -
  let ?new = "new_idem_row rt i (fresh_uuid (map ik_id rows0))"
  from assms(2) obtain rows where ins: "insert_if_absent rt i rows0 = Inr rows"
    by (auto simp: lock_request_def and_then_eq_Inr)
  have inv: "idem_invar rows" using assms(1) ins by (rule insert_if_absent_invar)
  have "input_key i \<notin> set (map row_key rows0)"
    using assms(3) by (auto simp: get_locked_record_def select_first_None)
  then have "rows = rows0 @ [?new]" using ins by (auto simp: insert_if_absent_Inr)
  then have found: "get_locked_record rows (input_key i) = Some ?new"
    using assms(3) by (simp add: get_locked_record_def select_first_append)
  then have "select_first (at_id (li_tenant_id i) (ik_id ?new)) rows = Some ?new"
    using update_found_row(1)[OF inv found, of "\<lambda>r. r"] by (simp add: input_key_def)
  moreover have "ik_request_hash ?new = li_request_hash i"
    by (simp add: new_idem_row_def)
  ultimately have "r = reset_fields rt i ?new \<or> r = relock_fields rt i ?new"
    using assms(2) ins found
    by (auto simp: lock_request_def reset_expired_record_def relock_record_def update_returning_def
        split: if_splits)
  then show "ik_expires_at r = expiry_after rt i" and "replay_body r = None"
    by (auto simp: reset_fields_def relock_fields_def replay_body_def)
qed

lemma mark_completed_found:
  assumes "idem_invar rows" and "get_locked_record rows k = Some r"
  shows "get_locked_record (mark_completed rt (fst k) (ik_id r) c b rows) k' =
           (if k' = k then Some (completed_fields rt c b r) else get_locked_record rows k')"
  unfolding mark_completed_def by (rule update_found_row(2)[OF assms]) simp_all

lemma mark_completed_invar [intro]:
  "idem_invar rows \<Longrightarrow> idem_invar (mark_completed rt tenant rid c b rows)"
  by (simp add: idem_invar_def mark_completed_def update_where_map_key)

lemma lock_request_hit:
  assumes "valid_lock_input i" and "get_locked_record rows (input_key i) = Some r"
    and "rt_clock rt < ik_expires_at r"
  shows "lock_request u m rt i rows =
    (if ik_request_hash r \<noteq> li_request_hash i then Inl (ConflictException m)
     else if ik_status r = IkCompleted then Inr (r, rows)
     else relock_record rt (ik_id r) i rows)"
proof -
  obtain rows' where "insert_if_absent rt i rows = Inr rows'"
    using assms(1) by (metis insert_if_absent_Inr)
  moreover from this have "rows' = rows" using assms(2) by (rule insert_if_absent_present)
  ultimately show ?thesis using assms(2,3) by (simp add: lock_request_def)
qed

lemma stored_responseD:
  "stored_response rows k = Some (h, e, b) \<Longrightarrow>
     \<exists>r. get_locked_record rows k = Some r \<and> ik_request_hash r = h \<and> ik_expires_at r = e \<and>
         ik_status r = IkCompleted \<and> ik_response_body r = Some b"
  by (auto simp: stored_response_def replay_body_def split: option.splits if_splits)

lemma fst_input_key [simp]: "fst (input_key i) = li_tenant_id i"
  by (simp add: input_key_def)

lemma idem_store_laws:
  "idempotency_store (lock_request u m) mark_completed ik_id replay_body ik_expires_at
     stored_response valid_lock_input idem_invar"
proof (unfold_locales, goal_cases)
  case (1 t rt i r t')
  then show ?case by (rule lock_request_Inr(2))
next
  case (2 t rt tenant rid c b)
  then show ?case by blast
next
  case (3 rt i t r t')
  then show ?case
    by (auto simp: lock_request_def and_then_eq_Inr insert_if_absent_Inr)
next
  case (4 t i e b rt)
  then obtain r where r: "get_locked_record t (input_key i) = Some r" "ik_request_hash r = li_request_hash i"
      "ik_expires_at r = e" "ik_status r = IkCompleted" "ik_response_body r = Some b"
    using stored_responseD[OF 4(3)] by auto
  have "lock_request u m rt i t = Inr (r, t)"
    using lock_request_hit[OF 4(2) r(1)] 4(4) r(2-4) by simp
  with r(4,5) show ?case by (simp add: replay_body_def)
next
  case (5 t i h e b rt)
  then obtain r where r: "get_locked_record t (input_key i) = Some r" "ik_request_hash r = h"
      "ik_expires_at r = e" using stored_responseD[OF 5(2)] by auto
  show ?case
  proof (cases "valid_lock_input i")
    case True
    show ?thesis using lock_request_hit[OF True r(1)] 5(3,4) r(2,3) by simp
  next
    case False
    then show ?thesis
      by (cases "insert_if_absent rt i t") (auto simp: lock_request_def insert_if_absent_Inr)
  qed
next
  case (6 t rt i r t' k)
  then show ?case using lock_request_Inr(5)[OF 6(1,2)] by (simp add: stored_response_def)
next
  case (7 t rt i r t' c b)
  note lr = lock_request_Inr[OF 7(1,2)]
  have "get_locked_record (mark_completed rt (fst (input_key i)) (ik_id r) c b t') (input_key i) =
      Some (completed_fields rt c b r)"
    using mark_completed_found[OF lr(2,3)] by simp
  then show ?case
    using lr(4) by (simp add: stored_response_def completed_fields_def replay_body_def)
next
  case (8 t rt i r t' k c b)
  note lr = lock_request_Inr[OF 8(1,2)]
  from 8(3) show ?case
    using mark_completed_found[OF lr(2,3), of rt c b k] by (simp add: stored_response_def)
qed

interpretation finance_idem: idempotency_store finance_lock_request mark_completed ik_id replay_body
    ik_expires_at stored_response valid_lock_input idem_invar
  unfolding finance_lock_request_def by (rule idem_store_laws)

interpretation intent_idem: idempotency_store intent_lock_request mark_completed ik_id replay_body
    ik_expires_at stored_response valid_lock_input idem_invar
  unfolding intent_lock_request_def by (rule idem_store_laws)

end
