(* ===== verification/Finance_Store.thy ===== *)
theory Finance_Store
  imports Idempotency
begin

text \<open>
  The general ledger's tables and their repositories: \<open>accounts\<close>, \<open>transactions\<close> and
  \<open>ledger_entries\<close> of \<open>modules/finance/repositories/\<close>, with the constraints and the deferred
  balance trigger that \<open>finance-schema.service.ts\<close> installs, and the two logs a posting writes
  (\<open>audit_logs\<close>, \<open>sync_operation_logs\<close>). Money in a row is the \<open>bigint\<close> column's value; the
  repositories hand it out as text.
\<close>

section \<open>Rows\<close>

datatype entry_direction = Debit | Credit | OtherDirection string

fun direction_text :: "entry_direction \<Rightarrow> string" where
  "direction_text Debit = ''debit''"
| "direction_text Credit = ''credit''"
| "direction_text (OtherDirection s) = s"

datatype account_category = Asset | Liability | Equity | Revenue | Expense

record account =
  ac_id :: uuid
  ac_tenant_id :: string
  ac_code :: string
  ac_name :: string
  ac_category :: account_category
  ac_normal_balance :: entry_direction
  ac_currency_code :: string
  ac_allow_manual_entries :: bool
  ac_is_active :: bool

record fin_transaction =
  tx_id :: uuid
  tx_tenant_id :: string
  tx_idempotency_key_id :: uuid
  tx_reference :: string
  tx_description :: string
  tx_currency_code :: string
  tx_total_amount_minor :: int
  tx_entry_count :: nat
  tx_effective_at :: int
  tx_posted_at :: int
  tx_created_by_user_id :: "string option"
  tx_request_id :: string
  tx_metadata :: json

record ledger_entry =
  le_id :: uuid
  le_tenant_id :: string
  le_transaction_id :: uuid
  le_account_id :: uuid
  le_line_number :: nat
  le_direction :: entry_direction
  le_amount_minor :: int
  le_currency_code :: string
  le_description :: "string option"
  le_metadata :: json

section \<open>Values the ledger service exchanges\<close>

record validated_entry =
  ve_account_id :: uuid
  ve_direction :: entry_direction
  ve_amount_minor :: string
  ve_currency_code :: string
  ve_description :: "string option"
  ve_metadata :: "json option"
  ve_line_number :: nat

record balance_snapshot =
  bs_account_id :: uuid
  bs_account_code :: string
  bs_currency_code :: string
  bs_normal_balance :: entry_direction
  bs_debit_total_minor :: string
  bs_credit_total_minor :: string
  bs_balance_minor :: string

record posted_entry =
  po_entry_id :: uuid
  po_line_number :: nat
  po_account_id :: uuid
  po_account_code :: string
  po_account_name :: string
  po_direction :: entry_direction
  po_amount_minor :: string
  po_currency_code :: string
  po_description :: "string option"

record posted_transaction =
  pt_transaction_id :: uuid
  pt_tenant_id :: string
  pt_idempotency_key :: string
  pt_reference :: string
  pt_description :: string
  pt_currency_code :: string
  pt_total_amount_minor :: string
  pt_entry_count :: nat
  pt_posted_at :: int
  pt_effective_at :: int
  pt_entries :: "posted_entry list"
  pt_balances :: "balance_snapshot list"

text \<open>The metadata of a log line: a posted transaction with further JSON fields, or plain JSON.\<close>

datatype audit_metadata = PostedMetadata posted_transaction json | JsonMetadata json

record audit_log =
  al_tenant_id :: string
  al_actor_user_id :: "string option"
  al_request_id :: "string option"
  al_action :: string
  al_resource_type :: string
  al_resource_id :: "uuid option"
  al_ip_address :: "string option"
  al_user_agent :: "string option"
  al_metadata :: audit_metadata

record sync_operation =
  so_op_id :: uuid
  so_tenant_id :: string
  so_device_id :: string
  so_entity :: string
  so_version :: nat
  so_transaction_id :: uuid
  so_reference :: string
  so_description :: string
  so_total_amount_minor :: string
  so_currency_code :: string
  so_entry_count :: nat
  so_posted_at :: int
  so_metadata :: json

record finance_db =
  fd_idempotency_keys :: "posted_transaction idem_row list"
  fd_accounts :: "account list"
  fd_transactions :: "fin_transaction list"
  fd_ledger_entries :: "ledger_entry list"
  fd_audit_logs :: "audit_log list"
  fd_sync_operations :: "sync_operation list"

section \<open>\<open>AccountsRepository\<close>\<close>

definition find_account_by_id :: "'a finance_db_scheme \<Rightarrow> string \<Rightarrow> uuid \<Rightarrow> account option" where
  "find_account_by_id db tenant aid =
     select_first (\<lambda>a. ac_tenant_id a = tenant \<and> ac_id a = aid) (fd_accounts db)"

definition find_account_by_code :: "'a finance_db_scheme \<Rightarrow> string \<Rightarrow> string \<Rightarrow> account option" where
  "find_account_by_code db tenant code =
     select_first (\<lambda>a. ac_tenant_id a = tenant \<and> ac_code a = code) (fd_accounts db)"

definition find_accounts_by_ids :: "'a finance_db_scheme \<Rightarrow> string \<Rightarrow> uuid list \<Rightarrow> account list" where
  "find_accounts_by_ids db tenant ids =
     (let unique_ids = js_uniq ids in
      if unique_ids = [] then []
      else sort_key ac_id
             (filter (\<lambda>a. ac_tenant_id a = tenant \<and> ac_id a \<in> set unique_ids) (fd_accounts db)))"

text \<open>The same query with \<open>FOR UPDATE\<close>: the rows, which stay locked for the transaction.\<close>

definition lock_accounts_by_ids :: "'a finance_db_scheme \<Rightarrow> string \<Rightarrow> uuid list \<Rightarrow> account list" where
  "lock_accounts_by_ids db tenant ids =
     (let unique_ids = js_uniq ids in
      if unique_ids = [] then []
      else sort_key ac_id
             (filter (\<lambda>a. ac_tenant_id a = tenant \<and> ac_id a \<in> set unique_ids) (fd_accounts db)))"

section \<open>\<open>TransactionsRepository\<close>\<close>

text \<open>
  A statement on a connection whose transaction has failed is refused with SQLSTATE 25P02 until
  the rollback; \<open>tx_status\<close> says whether an earlier statement of the transaction failed.
\<close>

datatype tx_status = TxOpen | TxAborted

definition find_by_reference ::
  "tx_status \<Rightarrow> 'a finance_db_scheme \<Rightarrow> string \<Rightarrow> string \<Rightarrow> fin_transaction option result" where
  "find_by_reference st db tenant reference =
     (case st of
        TxAborted \<Rightarrow> Inl (PgError ''25P02'' '''')
      | TxOpen \<Rightarrow> Inr (select_first (\<lambda>t. tx_tenant_id t = tenant \<and> tx_reference t = reference)
                         (fd_transactions db)))"

record create_transaction_input =
  ct_tenant_id :: string
  ct_idempotency_key_id :: uuid
  ct_reference :: string
  ct_description :: string
  ct_currency_code :: string
  ct_total_amount_minor :: string
  ct_entry_count :: nat
  ct_effective_at :: int
  ct_posted_at :: int
  ct_created_by_user_id :: "string option"
  ct_request_id :: string
  ct_metadata :: json

definition transaction_row :: "create_transaction_input \<Rightarrow> uuid \<Rightarrow> fin_transaction" where
  "transaction_row i new_id =
     \<lparr>tx_id = new_id, tx_tenant_id = ct_tenant_id i,
      tx_idempotency_key_id = ct_idempotency_key_id i, tx_reference = ct_reference i,
      tx_description = ct_description i, tx_currency_code = ct_currency_code i,
      tx_total_amount_minor = parse_int (ct_total_amount_minor i),
      tx_entry_count = ct_entry_count i, tx_effective_at = ct_effective_at i,
      tx_posted_at = ct_posted_at i, tx_created_by_user_id = ct_created_by_user_id i,
      tx_request_id = ct_request_id i, tx_metadata = ct_metadata i\<rparr>"

text \<open>
  The constraints of the table \<open>transactions\<close>, in the order PostgreSQL tests them: the column
  widths, the CHECK constraints by name, the unique indexes in the order of their creation, the
  foreign key.
\<close>

definition transaction_constraints :: "'a finance_db_scheme \<Rightarrow> fin_transaction \<Rightarrow> unit result" where
  "transaction_constraints db r =
     and_then (guard (fits_bigint (tx_total_amount_minor r)) (PgError ''22003'' '''')) (\<lambda>_.
     and_then (guard (fits_integer (int (tx_entry_count r))) (PgError ''22003'' '''')) (\<lambda>_.
     and_then (guard (currency_format (tx_currency_code r)) (PgError ''23514'' ''ck_transactions_currency_code'')) (\<lambda>_.
     and_then (guard (2 \<le> tx_entry_count r) (PgError ''23514'' ''ck_transactions_entry_count'')) (\<lambda>_.
     and_then (guard (0 < tx_total_amount_minor r) (PgError ''23514'' ''ck_transactions_total_amount_minor'')) (\<lambda>_.
     and_then (guard (\<not> list_ex (\<lambda>t. tx_tenant_id t = tx_tenant_id r \<and>
                          tx_idempotency_key_id t = tx_idempotency_key_id r) (fd_transactions db))
       (PgError ''23505'' ''uq_transactions_tenant_idempotency_key'')) (\<lambda>_.
     and_then (guard (\<not> list_ex (\<lambda>t. tx_tenant_id t = tx_tenant_id r \<and>
                          tx_reference t = tx_reference r) (fd_transactions db))
       (PgError ''23505'' ''uq_transactions_tenant_reference'')) (\<lambda>_.
     guard (list_ex (\<lambda>k. ik_tenant_id k = tx_tenant_id r \<and> ik_id k = tx_idempotency_key_id r)
              (fd_idempotency_keys db))
       (PgError ''23503'' ''fk_transactions_idempotency_key''))))))))"

definition create_transaction_row ::
  "create_transaction_input \<Rightarrow> 'a finance_db_scheme \<Rightarrow> (fin_transaction \<times> 'a finance_db_scheme) result" where
  "create_transaction_row i db =
     (let r = transaction_row i (fresh_uuid (map tx_id (fd_transactions db)))
      in and_then (transaction_constraints db r) (\<lambda>_.
         Inr (r, db\<lparr>fd_transactions := fd_transactions db @ [r]\<rparr>)))"

section \<open>\<open>LedgerEntriesRepository\<close>\<close>

definition entry_row :: "string \<Rightarrow> uuid \<Rightarrow> validated_entry \<Rightarrow> uuid \<Rightarrow> ledger_entry" where
  "entry_row tenant txn e new_id =
     \<lparr>le_id = new_id, le_tenant_id = tenant, le_transaction_id = txn,
      le_account_id = ve_account_id e, le_line_number = ve_line_number e,
      le_direction = ve_direction e, le_amount_minor = parse_int (ve_amount_minor e),
      le_currency_code = ve_currency_code e, le_description = ve_description e,
      le_metadata = (case ve_metadata e of None \<Rightarrow> JObj [] | Some m \<Rightarrow> m)\<rparr>"

definition entry_constraints :: "'a finance_db_scheme \<Rightarrow> ledger_entry \<Rightarrow> unit result" where
  "entry_constraints db r =
     and_then (guard (fits_integer (int (le_line_number r))) (PgError ''22003'' '''')) (\<lambda>_.
     and_then (guard (fits_bigint (le_amount_minor r)) (PgError ''22003'' '''')) (\<lambda>_.
     and_then (guard (0 < le_amount_minor r) (PgError ''23514'' ''ck_ledger_entries_amount_minor'')) (\<lambda>_.
     and_then (guard (currency_format (le_currency_code r)) (PgError ''23514'' ''ck_ledger_entries_currency_code'')) (\<lambda>_.
     and_then (guard (le_direction r = Debit \<or> le_direction r = Credit) (PgError ''23514'' ''ck_ledger_entries_direction'')) (\<lambda>_.
     and_then (guard (\<not> list_ex (\<lambda>e. le_tenant_id e = le_tenant_id r \<and>
                  le_transaction_id e = le_transaction_id r \<and> le_line_number e = le_line_number r)
                (fd_ledger_entries db))
       (PgError ''23505'' ''uq_ledger_entries_transaction_line'')) (\<lambda>_.
     and_then (guard (list_ex (\<lambda>t. tx_tenant_id t = le_tenant_id r \<and> tx_id t = le_transaction_id r)
                (fd_transactions db))
       (PgError ''23503'' ''fk_ledger_entries_transaction'')) (\<lambda>_.
     guard (list_ex (\<lambda>a. ac_tenant_id a = le_tenant_id r \<and> ac_id a = le_account_id r) (fd_accounts db))
       (PgError ''23503'' ''fk_ledger_entries_account''))))))))"

text \<open>The multi-row \<open>INSERT ... VALUES %L RETURNING\<close>.\<close>

fun insert_entries ::
  "string \<Rightarrow> uuid \<Rightarrow> validated_entry list \<Rightarrow> 'a finance_db_scheme \<Rightarrow>
     (ledger_entry list \<times> 'a finance_db_scheme) result" where
  "insert_entries tenant txn [] db = Inr ([], db)"
| "insert_entries tenant txn (e # es) db =
     (let r = entry_row tenant txn e (fresh_uuid (map le_id (fd_ledger_entries db)))
      in and_then (entry_constraints db r) (\<lambda>_.
         and_then (insert_entries tenant txn es (db\<lparr>fd_ledger_entries := fd_ledger_entries db @ [r]\<rparr>))
           (\<lambda>(rs, db'). Inr (r # rs, db'))))"

definition direction_sum :: "entry_direction \<Rightarrow> ledger_entry list \<Rightarrow> int" where
  "direction_sum d es = sum_list (map le_amount_minor (filter (\<lambda>e. le_direction e = d) es))"

definition account_entries :: "'a finance_db_scheme \<Rightarrow> string \<Rightarrow> uuid \<Rightarrow> ledger_entry list" where
  "account_entries db tenant aid =
     filter (\<lambda>e. le_tenant_id e = tenant \<and> le_account_id e = aid) (fd_ledger_entries db)"

definition calculate_balances ::
  "'a finance_db_scheme \<Rightarrow> string \<Rightarrow> uuid list \<Rightarrow> uuid \<Rightarrow> balance_snapshot option" where
  "calculate_balances db tenant ids aid =
     (if aid \<in> set (js_uniq ids) then
        map_option (\<lambda>a. \<lparr>bs_account_id = ac_id a, bs_account_code = ac_code a,
            bs_currency_code = ac_currency_code a, bs_normal_balance = ac_normal_balance a,
            bs_debit_total_minor = show_int (direction_sum Debit (account_entries db tenant (ac_id a))),
            bs_credit_total_minor = show_int (direction_sum Credit (account_entries db tenant (ac_id a))),
            bs_balance_minor = ''0''\<rparr>)
          (find_account_by_id db tenant aid)
      else None)"

definition find_by_transaction_id :: "'a finance_db_scheme \<Rightarrow> string \<Rightarrow> uuid \<Rightarrow> ledger_entry list" where
  "find_by_transaction_id db tenant txn =
     sort_key le_line_number
       (filter (\<lambda>e. le_tenant_id e = tenant \<and> le_transaction_id e = txn) (fd_ledger_entries db))"

section \<open>The deferred balance trigger\<close>

text \<open>\<open>app.validate_financial_transaction_balance()\<close>, run at COMMIT for every inserted row.\<close>

definition validate_balance :: "'a finance_db_scheme \<Rightarrow> string \<Rightarrow> uuid \<Rightarrow> unit result" where
  "validate_balance db tenant txn =
     (let es = filter (\<lambda>e. le_tenant_id e = tenant \<and> le_transaction_id e = txn) (fd_ledger_entries db)
      in and_then (guard (fits_bigint (direction_sum Debit es) \<and> fits_bigint (direction_sum Credit es))
           (PgError ''22003'' '''')) (\<lambda>_.
         and_then (guard (2 \<le> length es) (PgError ''23514'' ''at least two ledger entries'')) (\<lambda>_.
         and_then (guard (length (js_uniq (map le_currency_code es)) = 1)
           (PgError ''23514'' ''exactly one currency'')) (\<lambda>_.
         guard (direction_sum Debit es = direction_sum Credit es) (PgError ''23514'' ''unbalanced'')))))"

definition deferred_balance_checks ::
  "'a finance_db_scheme \<Rightarrow> 'a finance_db_scheme \<Rightarrow> unit result" where
  "deferred_balance_checks db0 db =
     and_then (traverse (\<lambda>t. validate_balance db (tx_tenant_id t) (tx_id t))
                (drop (length (fd_transactions db0)) (fd_transactions db))) (\<lambda>_.
     and_then (traverse (\<lambda>e. validate_balance db (le_tenant_id e) (le_transaction_id e))
                (drop (length (fd_ledger_entries db0)) (fd_ledger_entries db))) (\<lambda>_. Inr ()))"

section \<open>The logs\<close>

definition SYNC_SERVER_DEVICE_ID :: string where
  "SYNC_SERVER_DEVICE_ID = ''server''"

text \<open>\<open>AuditLogService.record\<close> and the row \<open>AuditLogsRepository.createAuditLog\<close> inserts for it.\<close>

definition audit_row ::
  "runtime \<Rightarrow> string \<Rightarrow> string \<Rightarrow> string \<Rightarrow> uuid option \<Rightarrow> audit_metadata \<Rightarrow> audit_log" where
  "audit_row rt tenant action resource_type resource_id metadata =
     \<lparr>al_tenant_id = tenant, al_actor_user_id = acting_user rt, al_request_id = Some (rt_request_id rt),
      al_action = action, al_resource_type = resource_type, al_resource_id = resource_id,
      al_ip_address = rt_client_ip rt, al_user_agent = rt_user_agent rt, al_metadata = metadata\<rparr>"

definition create_audit_log :: "audit_log \<Rightarrow> 'a finance_db_scheme \<Rightarrow> 'a finance_db_scheme" where
  "create_audit_log row db = db\<lparr>fd_audit_logs := fd_audit_logs db @ [row]\<rparr>"

definition record_audit ::
  "runtime \<Rightarrow> string option \<Rightarrow> string \<Rightarrow> string \<Rightarrow> uuid option \<Rightarrow> json \<Rightarrow> 'a finance_db_scheme \<Rightarrow>
     'a finance_db_scheme result" where
  "record_audit rt tenant_id action resource_type resource_id metadata db =
     (case (case tenant_id of Some t \<Rightarrow> Some t | None \<Rightarrow> rt_tenant_id rt) of
        None \<Rightarrow> Inl (BadRequestException ''Tenant context is required for audit logging'')
      | Some t \<Rightarrow>
          if t = [] then Inl (BadRequestException ''Tenant context is required for audit logging'')
          else Inr (create_audit_log
                 (audit_row rt t action resource_type resource_id (JsonMetadata metadata)) db))"

text \<open>\<open>AuditLogService.recordFinanceTransactionPosted\<close>, in a request context with a tenant.\<close>

definition record_finance_transaction_posted ::
  "runtime \<Rightarrow> string \<Rightarrow> posted_transaction \<Rightarrow> 'a finance_db_scheme \<Rightarrow> 'a finance_db_scheme" where
  "record_finance_transaction_posted rt tenant resp =
     create_audit_log (audit_row rt tenant ''finance.transaction.posted'' ''finance_transaction''
       (Some (pt_transaction_id resp))
       (PostedMetadata resp
         (JObj [(''source'', JStr ''ledger''),
                (''request_metadata'',
                 JObj [(''request_id'', JStr (rt_request_id rt)), (''user_id'', json_opt (acting_user rt))])])))"

text \<open>\<open>SyncOperationLogService.recordServerOperation('finance', ...)\<close>\<close>

definition record_server_operation ::
  "string \<Rightarrow> posted_transaction \<Rightarrow> json \<Rightarrow> 'a finance_db_scheme \<Rightarrow> 'a finance_db_scheme" where
  "record_server_operation tenant resp metadata db =
     db\<lparr>fd_sync_operations := fd_sync_operations db @
        [\<lparr>so_op_id = fresh_uuid (map so_op_id (fd_sync_operations db)), so_tenant_id = tenant,
          so_device_id = SYNC_SERVER_DEVICE_ID, so_entity = ''finance'',
          so_version = fresh_uuid (map so_version (fd_sync_operations db)),
          so_transaction_id = pt_transaction_id resp, so_reference = pt_reference resp,
          so_description = pt_description resp, so_total_amount_minor = pt_total_amount_minor resp,
          so_currency_code = pt_currency_code resp, so_entry_count = pt_entry_count resp,
          so_posted_at = pt_posted_at resp, so_metadata = metadata\<rparr>]\<rparr>"

end
