(* ===== verification/Ledger.thy ===== *)
theory Ledger
  imports Finance_Store
begin

text \<open>
  \<open>modules/finance/ledger.service.ts\<close>: validation of a posting against the locked accounts
  (\<open>buildPostingPlan\<close>), the posting itself under an idempotency key and a reference lock
  (\<open>postTransaction\<close>), the response and its account balances, and the debit/credit front door
  (\<open>createTransaction\<close>).
\<close>

section \<open>Inputs\<close>

record posting_entry =
  pe_account_id :: uuid
  pe_direction :: entry_direction
  pe_amount_minor :: string
  pe_currency_code :: "string option"
  pe_description :: "string option"
  pe_metadata :: "json option"

record post_input =
  pi_idempotency_key :: string
  pi_reference :: string
  pi_description :: string
  pi_effective_at :: "string option"
  pi_posted_at :: "string option"
  pi_metadata :: "json option"
  pi_entries :: "posting_entry list"

record posting_plan =
  pp_currency_code :: string
  pp_entry_count :: nat
  pp_total_amount_minor :: string
  pp_entries :: "validated_entry list"

definition FINANCE_IDEMPOTENCY_SCOPE :: string where
  "FINANCE_IDEMPOTENCY_SCOPE = ''finance:ledger:post''"

definition FINANCE_REQUEST_METHOD :: string where
  "FINANCE_REQUEST_METHOD = ''POST''"

definition FINANCE_REQUEST_PATH :: string where
  "FINANCE_REQUEST_PATH = ''/internal/finance/transactions''"

section \<open>Normalisation\<close>

definition require_tenant_id :: "runtime \<Rightarrow> string result" where
  "require_tenant_id rt =
     (case rt_tenant_id rt of
        None \<Rightarrow> Inl (UnauthorizedException ''Tenant context is required for financial transactions'')
      | Some t \<Rightarrow> if t = [] then Inl (UnauthorizedException ''Tenant context is required for financial transactions'')
                  else Inr t)"

definition require_non_empty_text :: "string \<Rightarrow> string \<Rightarrow> string result" where
  "require_non_empty_text v field =
     (if js_trim v = [] then Inl (BadRequestException (''Financial transaction '' @ field @ '' is required''))
      else Inr (js_trim v))"

definition normalize_minor_amount :: "string \<Rightarrow> string result" where
  "normalize_minor_amount v =
     (if positive_numeral (js_trim v) then Inr (js_trim v)
      else Inl (BadRequestException ''Ledger entry amounts must be positive integer minor units''))"

definition resolve_timestamp :: "runtime \<Rightarrow> string option \<Rightarrow> int result" where
  "resolve_timestamp rt v =
     (case v of
        None \<Rightarrow> Inr (rt_clock rt)
      | Some s \<Rightarrow>
          if s = [] then Inr (rt_clock rt)
          else (case rt_parse_date rt s of
                  None \<Rightarrow> Inl (BadRequestException (''Invalid timestamp '' @ quoted s))
                | Some ms \<Rightarrow> Inr ms))"

section \<open>The posting plan\<close>

definition account_map :: "account list \<Rightarrow> uuid \<Rightarrow> account option" where
  "account_map accounts = map_of (rev (map (\<lambda>a. (ac_id a, a)) accounts))"

definition validate_entry :: "(uuid \<Rightarrow> account option) \<Rightarrow> nat \<times> posting_entry \<Rightarrow> validated_entry result" where
  "validate_entry by_id ie =
     (let (index, e) = ie in
      case by_id (pe_account_id e) of
        None \<Rightarrow> Inl (NotFoundException (''Account '' @ quoted (uuid_text (pe_account_id e)) @ '' does not exist in this tenant''))
      | Some a \<Rightarrow>
          if \<not> ac_is_active a then Inl (BadRequestException (''Account '' @ quoted (ac_code a) @ '' is inactive''))
          else if \<not> ac_allow_manual_entries a then
            Inl (BadRequestException (''Account '' @ quoted (ac_code a) @ '' does not allow manual ledger postings''))
          else
            (let currency = js_upper (js_trim (case pe_currency_code e of None \<Rightarrow> ac_currency_code a | Some c \<Rightarrow> c))
             in if currency \<noteq> js_upper (ac_currency_code a) then
                  Inl (BadRequestException (''Entry currency '' @ quoted currency @ '' does not match account '' @ quoted (ac_code a) @
                    '' currency '' @ quoted (ac_currency_code a)))
                else
                  and_then (normalize_minor_amount (pe_amount_minor e)) (\<lambda>amount.
                    Inr \<lparr>ve_account_id = pe_account_id e, ve_direction = pe_direction e,
                         ve_amount_minor = amount, ve_currency_code = currency,
                         ve_description = pe_description e, ve_metadata = pe_metadata e,
                         ve_line_number = index + 1\<rparr>)))"

text \<open>The loop that sums debits and credits as \<open>BigInt\<close>s.\<close>

fun sum_directions :: "int \<Rightarrow> int \<Rightarrow> validated_entry list \<Rightarrow> (int \<times> int) result" where
  "sum_directions debit credit [] = Inr (debit, credit)"
| "sum_directions debit credit (e # es) =
     (let amount = parse_int (ve_amount_minor e) in
      case ve_direction e of
        Debit \<Rightarrow> sum_directions (debit + amount) credit es
      | Credit \<Rightarrow> sum_directions debit (credit + amount) es
      | OtherDirection d \<Rightarrow> Inl (BadRequestException (''Unsupported entry direction '' @ quoted d)))"

definition build_posting_plan :: "post_input \<Rightarrow> account list \<Rightarrow> posting_plan result" where
  "build_posting_plan input accounts =
     (if length (pi_entries input) < 2 then
        Inl (BadRequestException ''A financial transaction requires at least two ledger entries'')
      else
        and_then (traverse (validate_entry (account_map accounts))
                    (zip [0..<length (pi_entries input)] (pi_entries input))) (\<lambda>entries.
        let currencies = js_uniq (map ve_currency_code entries) in
        if length currencies \<noteq> 1 then
          Inl (BadRequestException ''All ledger entries in a transaction must use the same currency'')
        else
          and_then (sum_directions 0 0 entries) (\<lambda>(debit, credit).
          if debit \<noteq> credit then
            Inl (BadRequestException ''Double-entry validation failed: total debits must equal total credits'')
          else
            Inr \<lparr>pp_currency_code = hd currencies, pp_entry_count = length entries,
                 pp_total_amount_minor = show_int debit, pp_entries = entries\<rparr>)))"

section \<open>The request hash and the idempotency lock\<close>

definition hash_entry :: "posting_entry \<Rightarrow> json result" where
  "hash_entry e =
     and_then (normalize_minor_amount (pe_amount_minor e)) (\<lambda>amount.
       Inr (JObj
         [(''account_id'', JStr (uuid_text (pe_account_id e))),
          (''direction'', JStr (direction_text (pe_direction e))),
          (''amount_minor'', JStr amount),
          (''currency_code'', json_opt (map_option (\<lambda>c. js_upper (js_trim c)) (pe_currency_code e))),
          (''description'', json_opt (pe_description e)),
          (''metadata'', (case pe_metadata e of None \<Rightarrow> JObj [] | Some m \<Rightarrow> m))]))"

definition hash_payload :: "post_input \<Rightarrow> json result" where
  "hash_payload input =
     and_then (traverse hash_entry (pi_entries input)) (\<lambda>entries.
       Inr (JObj
         [(''idempotency_key'', JStr (pi_idempotency_key input)),
          (''reference'', JStr (pi_reference input)),
          (''description'', JStr (pi_description input)),
          (''effective_at'', json_opt (pi_effective_at input)),
          (''posted_at'', json_opt (pi_posted_at input)),
          (''metadata'', (case pi_metadata input of None \<Rightarrow> JObj [] | Some m \<Rightarrow> m)),
          (''entries'', JArr entries)]))"

definition build_idempotency_hash :: "runtime \<Rightarrow> post_input \<Rightarrow> string result" where
  "build_idempotency_hash rt input =
     and_then (hash_payload input) (\<lambda>payload. Inr (rt_sha256 rt (stable_serialize payload)))"

definition lock_input_of :: "runtime \<Rightarrow> post_input \<Rightarrow> lock_input result" where
  "lock_input_of rt input =
     and_then (require_tenant_id rt) (\<lambda>tenant.
     and_then (require_non_empty_text (pi_idempotency_key input) ''idempotency_key'') (\<lambda>key.
     and_then (build_idempotency_hash rt input) (\<lambda>hash.
       Inr \<lparr>li_tenant_id = tenant, li_user_id = acting_user rt, li_scope = FINANCE_IDEMPOTENCY_SCOPE,
            li_key = key, li_request_hash = hash, li_request_method = FINANCE_REQUEST_METHOD,
            li_request_path = FINANCE_REQUEST_PATH,
            li_ttl_seconds = (case rt_config_number rt ''finance.idempotencyTtlSeconds'' of
                                None \<Rightarrow> 86400 | Some n \<Rightarrow> n)\<rparr>)))"

definition lock_idempotency_key ::
  "runtime \<Rightarrow> post_input \<Rightarrow> 'a finance_db_scheme \<Rightarrow>
     (posted_transaction idem_row \<times> 'a finance_db_scheme) result" where
  "lock_idempotency_key rt input db =
     and_then (lock_input_of rt input) (\<lambda>li.
     and_then (finance_lock_request rt li (fd_idempotency_keys db)) (\<lambda>(r, rows).
       Inr (r, db\<lparr>fd_idempotency_keys := rows\<rparr>)))"

definition idem_mark_completed ::
  "runtime \<Rightarrow> string \<Rightarrow> uuid \<Rightarrow> nat \<Rightarrow> posted_transaction \<Rightarrow> 'a finance_db_scheme \<Rightarrow> 'a finance_db_scheme" where
  "idem_mark_completed rt tenant rid code body db =
     db\<lparr>fd_idempotency_keys := mark_completed rt tenant rid code body (fd_idempotency_keys db)\<rparr>"

section \<open>The response\<close>

definition calculate_balance_snapshot :: "account \<Rightarrow> balance_snapshot option \<Rightarrow> balance_snapshot" where
  "calculate_balance_snapshot a totals =
     (let debit = (parse_int (case totals of None \<Rightarrow> ''0'' | Some t \<Rightarrow> bs_debit_total_minor t));
          credit = (parse_int (case totals of None \<Rightarrow> ''0'' | Some t \<Rightarrow> bs_credit_total_minor t))
      in \<lparr>bs_account_id = ac_id a, bs_account_code = ac_code a, bs_currency_code = ac_currency_code a,
          bs_normal_balance = ac_normal_balance a,
          bs_debit_total_minor = show_int debit, bs_credit_total_minor = show_int credit,
          bs_balance_minor = show_int (if ac_normal_balance a = Debit then debit - credit else credit - debit)\<rparr>)"

text \<open>\<open>sort((l, r) => l.account_code.localeCompare(r.account_code))\<close>, a stable sort.\<close>

fun insert_by :: "('a \<Rightarrow> 'a \<Rightarrow> bool) \<Rightarrow> 'a \<Rightarrow> 'a list \<Rightarrow> 'a list" where
  "insert_by le x [] = [x]"
| "insert_by le x (y # ys) = (if le x y then x # y # ys else y # insert_by le x ys)"

definition sort_by :: "('a \<Rightarrow> 'a \<Rightarrow> bool) \<Rightarrow> 'a list \<Rightarrow> 'a list" where
  "sort_by le xs = foldr (insert_by le) xs []"

definition render_entry :: "(uuid \<Rightarrow> account option) \<Rightarrow> ledger_entry \<Rightarrow> posted_entry result" where
  "render_entry by_id e =
     (case by_id (le_account_id e) of
        None \<Rightarrow> Inl (NotFoundException (''Account '' @ quoted (uuid_text (le_account_id e)) @ '' is missing for response rendering''))
      | Some a \<Rightarrow>
          Inr \<lparr>po_entry_id = le_id e, po_line_number = le_line_number e, po_account_id = le_account_id e,
               po_account_code = ac_code a, po_account_name = ac_name a, po_direction = le_direction e,
               po_amount_minor = show_int (le_amount_minor e), po_currency_code = le_currency_code e,
               po_description = le_description e\<rparr>)"

definition build_posted_transaction ::
  "runtime \<Rightarrow> string \<Rightarrow> string \<Rightarrow> fin_transaction \<Rightarrow> account list \<Rightarrow> ledger_entry list \<Rightarrow>
     (uuid \<Rightarrow> balance_snapshot option) \<Rightarrow> posted_transaction result" where
  "build_posted_transaction rt tenant idem_key t accounts entries balances =
     and_then (traverse (render_entry (account_map accounts)) (sort_key le_line_number entries)) (\<lambda>rendered.
       Inr \<lparr>pt_transaction_id = tx_id t, pt_tenant_id = tenant, pt_idempotency_key = idem_key,
            pt_reference = tx_reference t, pt_description = tx_description t,
            pt_currency_code = tx_currency_code t,
            pt_total_amount_minor = show_int (tx_total_amount_minor t),
            pt_entry_count = tx_entry_count t, pt_posted_at = tx_posted_at t,
            pt_effective_at = tx_effective_at t, pt_entries = rendered,
            pt_balances = sort_by (\<lambda>l r. rt_collate rt (bs_account_code l) (bs_account_code r))
              (map (\<lambda>a. calculate_balance_snapshot a (balances (ac_id a))) accounts)\<rparr>)"

definition hydrate_posted_transaction ::
  "runtime \<Rightarrow> string \<Rightarrow> string \<Rightarrow> fin_transaction \<Rightarrow> 'a finance_db_scheme \<Rightarrow> posted_transaction result" where
  "hydrate_posted_transaction rt tenant idem_key t db =
     (let entries = find_by_transaction_id db tenant (tx_id t);
          ids = sort (js_uniq (map le_account_id entries));
          accounts = find_accounts_by_ids db tenant ids
      in if length accounts \<noteq> length ids then
           Inl (NotFoundException (''Unable to hydrate transaction '' @ quoted (tx_reference t) @
           '' because one or more accounts are missing''))
         else build_posted_transaction rt tenant idem_key t accounts entries
                (calculate_balances db tenant ids))"

section \<open>Reuse of a reference\<close>

definition same_entry :: "posted_entry \<Rightarrow> validated_entry \<Rightarrow> bool" where
  "same_entry x y \<longleftrightarrow> po_account_id x = ve_account_id y \<and> po_direction x = ve_direction y \<and>
     po_amount_minor x = ve_amount_minor y \<and> po_currency_code x = ve_currency_code y \<and>
     po_description x = ve_description y"

fun same_entries :: "posted_entry list \<Rightarrow> validated_entry list \<Rightarrow> bool" where
  "same_entries [] ys = True"
| "same_entries (x # xs) [] = False"
| "same_entries (x # xs) (y # ys) = (same_entry x y \<and> same_entries xs ys)"

definition reuse_message :: "posted_transaction \<Rightarrow> string \<Rightarrow> string" where
  "reuse_message existing how =
     ''Financial reference '' @ quoted (pt_reference existing) @ '' is already posted '' @ how"

definition assert_reference_reuse_compatible ::
  "string \<Rightarrow> posting_plan \<Rightarrow> posted_transaction \<Rightarrow> unit result" where
  "assert_reference_reuse_compatible description plan existing =
     and_then (guard (pt_description existing = description)
       (ConflictException (reuse_message existing ''with a different description''))) (\<lambda>_.
     and_then (guard (pt_currency_code existing = pp_currency_code plan)
       (ConflictException (reuse_message existing ''in a different currency''))) (\<lambda>_.
     and_then (guard (pt_total_amount_minor existing = pp_total_amount_minor plan)
       (ConflictException (reuse_message existing ''with a different amount''))) (\<lambda>_.
     and_then (guard (length (pt_entries existing) = length (pp_entries plan))
       (ConflictException (reuse_message existing ''with a different entry count''))) (\<lambda>_.
     guard (same_entries (pt_entries existing) (pp_entries plan))
       (ConflictException (reuse_message existing ''with a different ledger shape''))))))"

definition reuse_existing ::
  "runtime \<Rightarrow> string \<Rightarrow> string \<Rightarrow> post_input \<Rightarrow> posting_plan \<Rightarrow> uuid \<Rightarrow> fin_transaction \<Rightarrow>
     'a finance_db_scheme \<Rightarrow> (posted_transaction \<times> 'a finance_db_scheme) result" where
  "reuse_existing rt tenant description input plan rid t db =
     and_then (hydrate_posted_transaction rt tenant (pi_idempotency_key input) t db) (\<lambda>existing.
     and_then (assert_reference_reuse_compatible description plan existing) (\<lambda>_.
       Inr (existing, idem_mark_completed rt tenant rid 200 existing db)))"

section \<open>Posting\<close>

definition is_reference_uniqueness_violation :: "exn \<Rightarrow> bool" where
  "is_reference_uniqueness_violation e \<longleftrightarrow> e = PgError ''23505'' ''uq_transactions_tenant_reference''"

definition create_row_for ::
  "runtime \<Rightarrow> string \<Rightarrow> string \<Rightarrow> string \<Rightarrow> post_input \<Rightarrow> posting_plan \<Rightarrow> uuid \<Rightarrow> 'a finance_db_scheme \<Rightarrow>
     (fin_transaction \<times> 'a finance_db_scheme) result" where
  "create_row_for rt tenant reference description input plan rid db =
     and_then (resolve_timestamp rt (pi_effective_at input)) (\<lambda>effective_at.
     and_then (resolve_timestamp rt (pi_posted_at input)) (\<lambda>posted_at.
       create_transaction_row
         \<lparr>ct_tenant_id = tenant, ct_idempotency_key_id = rid, ct_reference = reference,
          ct_description = description, ct_currency_code = pp_currency_code plan,
          ct_total_amount_minor = pp_total_amount_minor plan, ct_entry_count = pp_entry_count plan,
          ct_effective_at = effective_at, ct_posted_at = posted_at,
          ct_created_by_user_id = acting_user rt, ct_request_id = rt_request_id rt,
          ct_metadata = (case pi_metadata input of None \<Rightarrow> JObj [] | Some m \<Rightarrow> m)\<rparr> db))"

text \<open>The rows and logs of a fresh posting, once its transaction row is in.\<close>

definition post_new ::
  "runtime \<Rightarrow> string \<Rightarrow> post_input \<Rightarrow> posting_plan \<Rightarrow> uuid \<Rightarrow> uuid list \<Rightarrow> account list \<Rightarrow>
     fin_transaction \<Rightarrow> 'a finance_db_scheme \<Rightarrow> (posted_transaction \<times> 'a finance_db_scheme) result" where
  "post_new rt tenant input plan rid account_ids accounts t db =
     and_then (insert_entries tenant (tx_id t) (pp_entries plan) db) (\<lambda>(entries, db1).
     and_then (build_posted_transaction rt tenant (pi_idempotency_key input) t accounts entries
                 (calculate_balances db1 tenant account_ids)) (\<lambda>response.
     let db2 = idem_mark_completed rt tenant rid 201 response db1;
         db3 = record_finance_transaction_posted rt tenant response db2;
         db4 = record_server_operation tenant response
                 (case pi_metadata input of None \<Rightarrow> JObj [] | Some m \<Rightarrow> m) db3
     in Inr (response, db4)))"

definition post_locked ::
  "runtime \<Rightarrow> string \<Rightarrow> string \<Rightarrow> string \<Rightarrow> post_input \<Rightarrow> posted_transaction idem_row \<Rightarrow> 'a finance_db_scheme \<Rightarrow>
     (posted_transaction \<times> 'a finance_db_scheme) result" where
  "post_locked rt tenant reference description input r db =
     (let account_ids = sort (js_uniq (map pe_account_id (pi_entries input)));
          accounts = lock_accounts_by_ids db tenant account_ids
      in and_then (build_posting_plan input accounts) (\<lambda>plan.
         if length accounts \<noteq> length account_ids then
           Inl (BadRequestException ''One or more accounts could not be locked for the transaction'')
         else
           and_then (find_by_reference TxOpen db tenant reference) (\<lambda>found.
           case found of
             Some t \<Rightarrow> reuse_existing rt tenant description input plan (ik_id r) t db
           | None \<Rightarrow>
               (case create_row_for rt tenant reference description input plan (ik_id r) db of
                  Inr (t, db1) \<Rightarrow> post_new rt tenant input plan (ik_id r) account_ids accounts t db1
                | Inl e \<Rightarrow>
                    if is_reference_uniqueness_violation e then
                      and_then (find_by_reference TxAborted db tenant reference) (\<lambda>conflict.
                        case conflict of
                          None \<Rightarrow> Inl e
                        | Some t \<Rightarrow> reuse_existing rt tenant description input plan (ik_id r) t db)
                    else Inl e))))"

definition post_transaction_callback ::
  "runtime \<Rightarrow> post_input \<Rightarrow> 'a finance_db_scheme \<Rightarrow> (posted_transaction \<times> 'a finance_db_scheme) result" where
  "post_transaction_callback rt input db =
     and_then (require_tenant_id rt) (\<lambda>tenant.
     and_then (require_non_empty_text (pi_reference input) ''reference'') (\<lambda>reference.
     and_then (require_non_empty_text (pi_description input) ''description'') (\<lambda>description.
     and_then (lock_idempotency_key rt input db) (\<lambda>(r, db1).
     case replay_body r of
       Some response \<Rightarrow> Inr (response, db1)
     | None \<Rightarrow> post_locked rt tenant reference description input r db1))))"

text \<open>\<open>postTransaction\<close>; \<open>nested\<close> says whether the request already has an open transaction.\<close>

definition post_transaction ::
  "bool \<Rightarrow> runtime \<Rightarrow> post_input \<Rightarrow> 'a finance_db_scheme \<Rightarrow> (posted_transaction \<times> 'a finance_db_scheme) result" where
  "post_transaction nested rt input db =
     with_request_transaction nested (deferred_balance_checks db) (post_transaction_callback rt input) db"

definition get_account_balance :: "runtime \<Rightarrow> uuid \<Rightarrow> 'a finance_db_scheme \<Rightarrow> balance_snapshot result" where
  "get_account_balance rt aid db =
     and_then (require_tenant_id rt) (\<lambda>tenant.
       case find_account_by_id db tenant aid of
         None \<Rightarrow> Inl (BadRequestException (''Account '' @ quoted (uuid_text aid) @ '' was not found in this tenant''))
       | Some a \<Rightarrow> Inr (calculate_balance_snapshot a (calculate_balances db tenant [aid] aid)))"

section \<open>The debit/credit front door\<close>

datatype js_number = NonInteger | IntNumber int

datatype minor_input = MinorNull | MinorBigint int | MinorNumber js_number | MinorText string

text \<open>
  \<open>String(value)\<close> of an integral number: decimal digits below \<open>10^21\<close>; above, an exponent form
  that the ledger's amount pattern rejects, passed in as \<open>exp_text\<close>.
\<close>

definition number_text :: "(int \<Rightarrow> string) \<Rightarrow> int \<Rightarrow> string" where
  "number_text exp_text n = (if n < 10 ^ 21 then show_int n else exp_text n)"

definition normalize_optional_minor_amount :: "(int \<Rightarrow> string) \<Rightarrow> minor_input \<Rightarrow> string \<Rightarrow> string result" where
  "normalize_optional_minor_amount exp_text v field =
     (case v of
        MinorNull \<Rightarrow> Inr ''0''
      | MinorBigint n \<Rightarrow>
          if n < 0 then Inl (BadRequestException (''Ledger entry '' @ field @ '' amounts cannot be negative''))
          else Inr (show_int n)
      | MinorNumber NonInteger \<Rightarrow>
          Inl (BadRequestException (''Ledger entry '' @ field @ '' amounts must be non-negative integers''))
      | MinorNumber (IntNumber n) \<Rightarrow>
          if n < 0 then Inl (BadRequestException (''Ledger entry '' @ field @ '' amounts must be non-negative integers''))
          else Inr (number_text exp_text n)
      | MinorText s \<Rightarrow>
          if js_trim s = [] then Inr ''0''
          else if digits_only (js_trim s) then Inr (js_trim s)
          else Inl (BadRequestException (''Ledger entry '' @ field @ '' amounts must be non-negative integers'')))"

record create_entry =
  ce_account_id :: uuid
  ce_debit :: minor_input
  ce_credit :: minor_input
  ce_currency_code :: "string option"
  ce_description :: "string option"
  ce_metadata :: "json option"

record create_input =
  ci_reference :: string
  ci_description :: string
  ci_effective_at :: "string option"
  ci_posted_at :: "string option"
  ci_metadata :: "json option"
  ci_entries :: "create_entry list"

definition map_create_entry :: "(int \<Rightarrow> string) \<Rightarrow> create_entry \<Rightarrow> posting_entry result" where
  "map_create_entry exp_text e =
     and_then (normalize_optional_minor_amount exp_text (ce_debit e) ''debit'') (\<lambda>debit.
     and_then (normalize_optional_minor_amount exp_text (ce_credit e) ''credit'') (\<lambda>credit.
     if debit \<noteq> ''0'' \<and> credit \<noteq> ''0'' then
       Inl (BadRequestException (''Ledger entry for account '' @ quoted (uuid_text (ce_account_id e)) @
         '' cannot contain both debit and credit amounts''))
     else if debit = ''0'' \<and> credit = ''0'' then
       Inl (BadRequestException (''Ledger entry for account '' @ quoted (uuid_text (ce_account_id e)) @
         '' must contain a positive debit or credit amount''))
     else
       Inr \<lparr>pe_account_id = ce_account_id e, pe_direction = (if debit \<noteq> ''0'' then Debit else Credit),
            pe_amount_minor = (if debit \<noteq> ''0'' then debit else credit),
            pe_currency_code = map_option (\<lambda>c. js_upper (js_trim c)) (ce_currency_code e),
            pe_description = ce_description e,
            pe_metadata = Some (case ce_metadata e of None \<Rightarrow> JObj [] | Some m \<Rightarrow> m)\<rparr>))"

definition create_transaction ::
  "bool \<Rightarrow> runtime \<Rightarrow> (int \<Rightarrow> string) \<Rightarrow> create_input \<Rightarrow> 'a finance_db_scheme \<Rightarrow>
     (posted_transaction \<times> 'a finance_db_scheme) result" where
  "create_transaction nested rt exp_text input db =
     and_then (require_non_empty_text (ci_reference input) ''reference'') (\<lambda>reference.
     and_then (require_non_empty_text (ci_description input) ''description'') (\<lambda>description.
     and_then (traverse (map_create_entry exp_text) (ci_entries input)) (\<lambda>entries.
       post_transaction nested rt
         \<lparr>pi_idempotency_key = reference, pi_reference = reference, pi_description = description,
          pi_effective_at = ci_effective_at input, pi_posted_at = ci_posted_at input,
          pi_metadata = Some (case ci_metadata input of None \<Rightarrow> JObj [] | Some m \<Rightarrow> m),
          pi_entries = entries\<rparr> db)))"

end
