(* ===== verification/Ledger_Facts.thy ===== *)
theory Ledger_Facts
  imports Ledger
begin

text \<open>
  Facts about the ledger: what an accepted posting plan guarantees, how a posting changes the
  tables, the invariant of the ledger's tables and its preservation, the agreement of the service's
  validation with the database's deferred trigger, idempotent replay, and the account balances.
\<close>

section \<open>Accepted plans\<close>

lemma validate_entry_Inr:
  "validate_entry by_id (n, e) = Inr v \<longleftrightarrow>
     (\<exists>a. by_id (pe_account_id e) = Some a \<and> ac_is_active a \<and> ac_allow_manual_entries a \<and>
          js_upper (js_trim (case pe_currency_code e of None \<Rightarrow> ac_currency_code a | Some c \<Rightarrow> c)) =
            js_upper (ac_currency_code a) \<and>
          positive_numeral (js_trim (pe_amount_minor e)) \<and>
          v = \<lparr>ve_account_id = pe_account_id e, ve_direction = pe_direction e,
               ve_amount_minor = js_trim (pe_amount_minor e),
               ve_currency_code = js_upper (ac_currency_code a),
               ve_description = pe_description e, ve_metadata = pe_metadata e,
               ve_line_number = n + 1\<rparr>)"
  by (auto simp: validate_entry_def normalize_minor_amount_def Let_def split: option.splits)

definition amount_sum :: "entry_direction \<Rightarrow> validated_entry list \<Rightarrow> int" where
  "amount_sum d vs = sum_list (map (\<lambda>v. parse_int (ve_amount_minor v)) (filter (\<lambda>v. ve_direction v = d) vs))"

lemma sum_directions_Inr:
  "sum_directions debit credit vs = Inr (d, c) \<longleftrightarrow>
     (\<forall>v\<in>set vs. ve_direction v = Debit \<or> ve_direction v = Credit) \<and>
     d = debit + amount_sum Debit vs \<and> c = credit + amount_sum Credit vs"
  by (induction vs arbitrary: debit credit)
     (auto simp: amount_sum_def Let_def split: entry_direction.splits)

lemma parse_int_positive: "positive_numeral s \<Longrightarrow> parse_int s = int (parse_nat s) \<and> 0 < parse_int s"
  using parse_nat_pos[of s]
  by (cases s) (auto simp: positive_numeral_def parse_int_def is_digit_def)

lemma show_parse_int: "positive_numeral s \<Longrightarrow> show_int (parse_int s) = s"
  using parse_int_positive[of s] by (auto simp: show_int_def show_parse_nat)

text \<open>What a plan guarantees, over the entries alone.\<close>

definition plan_ok :: "posting_plan \<Rightarrow> bool" where
  "plan_ok p \<longleftrightarrow> 2 \<le> length (pp_entries p) \<and> pp_entry_count p = length (pp_entries p) \<and>
     map ve_line_number (pp_entries p) = map Suc [0..<length (pp_entries p)] \<and>
     (\<forall>v\<in>set (pp_entries p). (ve_direction v = Debit \<or> ve_direction v = Credit) \<and>
        positive_numeral (ve_amount_minor v) \<and> ve_currency_code v = pp_currency_code p) \<and>
     amount_sum Debit (pp_entries p) = amount_sum Credit (pp_entries p) \<and>
     pp_total_amount_minor p = show_int (amount_sum Debit (pp_entries p))"

lemma build_posting_plan_Inr:
  assumes "build_posting_plan input accounts = Inr p"
  shows "plan_ok p"
    and "length (pp_entries p) = length (pi_entries input)"
    and "\<And>k. k < length (pi_entries input) \<Longrightarrow>
           validate_entry (account_map accounts) (k, pi_entries input ! k) = Inr (pp_entries p ! k)"
proof -
  let ?n = "length (pi_entries input)"
  from assms obtain vs d where n: "2 \<le> ?n"
    and vs: "traverse (validate_entry (account_map accounts)) (zip [0..<?n] (pi_entries input)) = Inr vs"
    and cur: "length (js_uniq (map ve_currency_code vs)) = 1"
    and sums: "sum_directions 0 0 vs = Inr (d, d)"
    and p: "p = \<lparr>pp_currency_code = hd (js_uniq (map ve_currency_code vs)), pp_entry_count = length vs,
                 pp_total_amount_minor = show_int d, pp_entries = vs\<rparr>"
    by (auto simp: build_posting_plan_def and_then_eq_Inr Let_def split: if_splits prod.splits)
  have len: "length vs = ?n" using traverse_length[OF vs] by simp
  have nth: "validate_entry (account_map accounts) (k, pi_entries input ! k) = Inr (vs ! k)"
    if "k < ?n" for k
    using vs that unfolding traverse_Inr_iff by (auto simp: list_all2_conv_all_nth)
  have line: "ve_line_number (vs ! k) = Suc k \<and> positive_numeral (ve_amount_minor (vs ! k))"
    if "k < ?n" for k
    using nth[OF that] by (auto simp: validate_entry_Inr)
  have "map ve_line_number vs = map Suc [0..<length vs]"
    using line len by (auto intro!: nth_equalityI)
  moreover have "positive_numeral (ve_amount_minor v) \<and> ve_currency_code v = pp_currency_code p"
    if "v \<in> set vs" for v
    using that line len js_uniq_singleton[OF cur, of "ve_currency_code v"] p
    by (auto simp: in_set_conv_nth)
  ultimately show "plan_ok p"
    using n len p sums by (auto simp: plan_ok_def sum_directions_Inr)
  show "length (pp_entries p) = ?n" using len p by simp
  show "\<And>k. k < ?n \<Longrightarrow> validate_entry (account_map accounts) (k, pi_entries input ! k) = Inr (pp_entries p ! k)"
    using nth p by simp
qed

lemma plan_accounts:
  assumes "build_posting_plan input accounts = Inr p" and "e \<in> set (pi_entries input)"
  shows "\<exists>a\<in>set accounts. ac_id a = pe_account_id e \<and> ac_is_active a \<and> ac_allow_manual_entries a \<and>
           js_upper (ac_currency_code a) = pp_currency_code p"
proof -
  obtain k where k: "k < length (pi_entries input)" "e = pi_entries input ! k"
    using assms(2) by (auto simp: in_set_conv_nth)
  note v = build_posting_plan_Inr(3)[OF assms(1) k(1)]
  then obtain a where a: "account_map accounts (pe_account_id e) = Some a" "ac_is_active a"
      "ac_allow_manual_entries a" "ve_currency_code (pp_entries p ! k) = js_upper (ac_currency_code a)"
    using k by (auto simp: validate_entry_Inr)
  moreover have "ve_currency_code (pp_entries p ! k) = pp_currency_code p"
    using build_posting_plan_Inr(1,2)[OF assms(1)] k by (auto simp: plan_ok_def)
  moreover have "a \<in> set accounts \<and> ac_id a = pe_account_id e"
    using a(1) by (auto simp: account_map_def dest!: map_of_SomeD)
  ultimately show ?thesis by auto
qed

text \<open>The account rows a plan is checked against are never short of one of the requested accounts.\<close>

lemma plan_account_ids:
  assumes "build_posting_plan input accounts = Inr p"
    and "distinct (map ac_id accounts)" and "ac_id ` set accounts \<subseteq> pe_account_id ` set (pi_entries input)"
  shows "length accounts = length (sort (js_uniq (map pe_account_id (pi_entries input))))"
proof -
  have "ac_id ` set accounts = pe_account_id ` set (pi_entries input)"
    using assms(3) plan_accounts[OF assms(1)] by force
  then have "set (map ac_id accounts) = set (js_uniq (map pe_account_id (pi_entries input)))"
    by (simp only: set_map set_js_uniq)
  then have "card (set (map ac_id accounts)) = card (set (js_uniq (map pe_account_id (pi_entries input))))"
    by (simp only:)
  then show ?thesis
    using distinct_card[OF assms(2)] distinct_card[OF distinct_js_uniq] by (metis length_map length_sort)
qed

section \<open>The inserted rows\<close>

lemma entry_row_sel [simp]:
  "le_id (entry_row tenant txn v i) = i" "le_tenant_id (entry_row tenant txn v i) = tenant"
  "le_transaction_id (entry_row tenant txn v i) = txn"
  "le_account_id (entry_row tenant txn v i) = ve_account_id v"
  "le_line_number (entry_row tenant txn v i) = ve_line_number v"
  "le_direction (entry_row tenant txn v i) = ve_direction v"
  "le_amount_minor (entry_row tenant txn v i) = parse_int (ve_amount_minor v)"
  "le_currency_code (entry_row tenant txn v i) = ve_currency_code v"
  "le_description (entry_row tenant txn v i) = ve_description v"
  by (simp_all add: entry_row_def)

lemma insert_entries_Inr:
  assumes "insert_entries tenant txn vs db = Inr (rs, db')"
  shows "db' = db\<lparr>fd_ledger_entries := fd_ledger_entries db @ rs\<rparr>"
    and "list_all2 (\<lambda>v r. r = entry_row tenant txn v (le_id r)) vs rs"
    and "distinct (map le_id (fd_ledger_entries db)) \<Longrightarrow> distinct (map le_id (fd_ledger_entries db @ rs))"
    and "\<forall>r\<in>set rs. 0 < le_amount_minor r \<and> fits_bigint (le_amount_minor r) \<and>
           (\<exists>a\<in>set (fd_accounts db). ac_tenant_id a = tenant \<and> ac_id a = le_account_id r)"
proof -
  have "db' = db\<lparr>fd_ledger_entries := fd_ledger_entries db @ rs\<rparr> \<and>
    list_all2 (\<lambda>v r. r = entry_row tenant txn v (le_id r)) vs rs \<and>
    (distinct (map le_id (fd_ledger_entries db)) \<longrightarrow> distinct (map le_id (fd_ledger_entries db @ rs))) \<and>
    (\<forall>r\<in>set rs. 0 < le_amount_minor r \<and> fits_bigint (le_amount_minor r) \<and>
      (\<exists>a\<in>set (fd_accounts db). ac_tenant_id a = tenant \<and> ac_id a = le_account_id r))"
    using assms
  proof (induction tenant txn vs db arbitrary: rs db' rule: insert_entries.induct)
    case (1 tenant txn db)
    then show ?case by simp
  next
    case (2 tenant txn e es db)
    let ?r = "entry_row tenant txn e (fresh_uuid (map le_id (fd_ledger_entries db)))"
    let ?db1 = "db\<lparr>fd_ledger_entries := fd_ledger_entries db @ [?r]\<rparr>"
    from "2.prems" obtain rs1 where ok: "entry_constraints db ?r = Inr ()"
      and rest: "insert_entries tenant txn es ?db1 = Inr (rs1, db')" and rs: "rs = ?r # rs1"
      by (auto simp: and_then_eq_Inr Let_def split: prod.splits)
    note ih = "2.IH"[OF refl rest]
    have "le_id ?r \<notin> set (map le_id (fd_ledger_entries db))"
      unfolding entry_row_sel by (rule fresh_uuid_notin)
    moreover have "0 < le_amount_minor ?r \<and> fits_bigint (le_amount_minor ?r) \<and>
        (\<exists>a\<in>set (fd_accounts db). ac_tenant_id a = tenant \<and> ac_id a = le_account_id ?r)"
      using ok by (auto simp: entry_constraints_def and_then_eq_Inr list_ex_iff)
    ultimately show ?case using ih rs by auto
  qed
  then show "db' = db\<lparr>fd_ledger_entries := fd_ledger_entries db @ rs\<rparr>"
    and "list_all2 (\<lambda>v r. r = entry_row tenant txn v (le_id r)) vs rs"
    and "distinct (map le_id (fd_ledger_entries db)) \<Longrightarrow> distinct (map le_id (fd_ledger_entries db @ rs))"
    and "\<forall>r\<in>set rs. 0 < le_amount_minor r \<and> fits_bigint (le_amount_minor r) \<and>
           (\<exists>a\<in>set (fd_accounts db). ac_tenant_id a = tenant \<and> ac_id a = le_account_id r)"
    by blast+
qed

lemma entry_row_eqD:
  "r = entry_row tenant txn v i \<Longrightarrow> le_tenant_id r = tenant \<and> le_transaction_id r = txn \<and>
     le_account_id r = ve_account_id v \<and> le_line_number r = ve_line_number v \<and>
     le_direction r = ve_direction v \<and> le_amount_minor r = parse_int (ve_amount_minor v) \<and>
     le_currency_code r = ve_currency_code v \<and> le_description r = ve_description v"
  by simp

lemma inserted_rows:
  assumes "list_all2 (\<lambda>v r. r = entry_row tenant txn v (le_id r)) vs rs"
  shows "list_all2 (\<lambda>v r. le_tenant_id r = tenant \<and> le_transaction_id r = txn \<and>
     le_account_id r = ve_account_id v \<and> le_line_number r = ve_line_number v \<and>
     le_direction r = ve_direction v \<and> le_amount_minor r = parse_int (ve_amount_minor v) \<and>
     le_currency_code r = ve_currency_code v \<and> le_description r = ve_description v) vs rs"
    and "length rs = length vs"
    and "\<forall>r\<in>set rs. le_tenant_id r = tenant \<and> le_transaction_id r = txn"
    and "direction_sum d rs = amount_sum d vs"
    and "map le_line_number rs = map ve_line_number vs"
    and "map le_currency_code rs = map ve_currency_code vs"
    and "map le_direction rs = map ve_direction vs"
proof -
  show fields: "list_all2 (\<lambda>v r. le_tenant_id r = tenant \<and> le_transaction_id r = txn \<and>
     le_account_id r = ve_account_id v \<and> le_line_number r = ve_line_number v \<and>
     le_direction r = ve_direction v \<and> le_amount_minor r = parse_int (ve_amount_minor v) \<and>
     le_currency_code r = ve_currency_code v \<and> le_description r = ve_description v) vs rs"
    using assms by (rule list_all2_mono) (rule entry_row_eqD)
  show "length rs = length vs" using assms by (simp add: list_all2_lengthD)
  show "\<forall>r\<in>set rs. le_tenant_id r = tenant \<and> le_transaction_id r = txn"
    using fields by (induction rule: list_all2_induct) auto
  show "direction_sum d rs = amount_sum d vs"
    using fields by (induction rule: list_all2_induct) (auto simp: direction_sum_def amount_sum_def)
  show "map le_line_number rs = map ve_line_number vs" "map le_currency_code rs = map ve_currency_code vs"
    "map le_direction rs = map ve_direction vs"
    using fields by (induction rule: list_all2_induct) auto
qed

section \<open>The shape of a posting\<close>

text \<open>
  \<open>posted_from rt tenant ...\<close>: the tables after a fresh posting of \<open>plan\<close>, whose transaction row
  is \<open>t\<close> and whose entry rows are \<open>es\<close>.
\<close>

lemma create_transaction_row_Inr:
  "create_transaction_row i db = Inr (t, db') \<longleftrightarrow>
     t = transaction_row i (fresh_uuid (map tx_id (fd_transactions db))) \<and>
     transaction_constraints db t = Inr () \<and>
     db' = db\<lparr>fd_transactions := fd_transactions db @ [t]\<rparr>"
  by (auto simp: create_transaction_row_def and_then_eq_Inr Let_def)

lemma transaction_constraints_Inr:
  "transaction_constraints db r = Inr () \<longleftrightarrow>
     fits_bigint (tx_total_amount_minor r) \<and> fits_integer (int (tx_entry_count r)) \<and>
     currency_format (tx_currency_code r) \<and> 2 \<le> tx_entry_count r \<and> 0 < tx_total_amount_minor r \<and>
     (\<forall>t\<in>set (fd_transactions db). tx_tenant_id t = tx_tenant_id r \<longrightarrow>
        tx_idempotency_key_id t \<noteq> tx_idempotency_key_id r \<and> tx_reference t \<noteq> tx_reference r) \<and>
     (\<exists>k\<in>set (fd_idempotency_keys db). ik_tenant_id k = tx_tenant_id r \<and> ik_id k = tx_idempotency_key_id r)"
  by (auto simp: transaction_constraints_def and_then_eq_Inr list_ex_iff)

lemma create_row_for_Inr:
  assumes "create_row_for rt tenant reference description input plan rid db = Inr (t, db')"
  shows "tx_id t = fresh_uuid (map tx_id (fd_transactions db))" and "tx_tenant_id t = tenant"
    and "tx_idempotency_key_id t = rid" and "tx_reference t = reference"
    and "tx_description t = description" and "tx_currency_code t = pp_currency_code plan"
    and "tx_total_amount_minor t = parse_int (pp_total_amount_minor plan)"
    and "tx_entry_count t = pp_entry_count plan"
    and "transaction_constraints db t = Inr ()"
    and "db' = db\<lparr>fd_transactions := fd_transactions db @ [t]\<rparr>"
  using assms
  by (auto simp: create_row_for_def and_then_eq_Inr create_transaction_row_Inr transaction_row_def)

lemma lock_idempotency_key_Inr:
  "lock_idempotency_key rt input db = Inr (r, db') \<longleftrightarrow>
     (\<exists>li rows. lock_input_of rt input = Inr li \<and>
        finance_lock_request rt li (fd_idempotency_keys db) = Inr (r, rows) \<and>
        db' = db\<lparr>fd_idempotency_keys := rows\<rparr>)"
  by (auto simp: lock_idempotency_key_def and_then_eq_Inr)

text \<open>The three ways a posting succeeds.\<close>

lemma post_cases [consumes 1, case_names replay reuse posted]:
  assumes "post_transaction_callback rt input db = Inr (resp, db')"
  obtains (replay) li r rows where
      "lock_input_of rt input = Inr li"
      "finance_lock_request rt li (fd_idempotency_keys db) = Inr (r, rows)"
      "replay_body r = Some resp" "db' = db\<lparr>fd_idempotency_keys := rows\<rparr>"
  | (reuse) tenant li r rows plan t where
      "require_tenant_id rt = Inr tenant" "lock_input_of rt input = Inr li"
      "finance_lock_request rt li (fd_idempotency_keys db) = Inr (r, rows)"
      "replay_body r = None"
      "build_posting_plan input (lock_accounts_by_ids db tenant
         (sort (js_uniq (map pe_account_id (pi_entries input))))) = Inr plan"
      "t \<in> set (fd_transactions db)" "tx_tenant_id t = tenant" "tx_reference t = js_trim (pi_reference input)"
      "hydrate_posted_transaction rt tenant (pi_idempotency_key input) t
         (db\<lparr>fd_idempotency_keys := rows\<rparr>) = Inr resp"
      "assert_reference_reuse_compatible (js_trim (pi_description input)) plan resp = Inr ()"
      "db' = db\<lparr>fd_idempotency_keys := mark_completed rt tenant (ik_id r) 200 resp rows\<rparr>"
  | (posted) tenant li r rows plan t es audits syncs where
      "require_tenant_id rt = Inr tenant" "lock_input_of rt input = Inr li"
      "finance_lock_request rt li (fd_idempotency_keys db) = Inr (r, rows)"
      "replay_body r = None"
      "build_posting_plan input (lock_accounts_by_ids db tenant
         (sort (js_uniq (map pe_account_id (pi_entries input))))) = Inr plan"
      "\<forall>t\<in>set (fd_transactions db). \<not> (tx_tenant_id t = tenant \<and> tx_reference t = js_trim (pi_reference input))"
      "create_row_for rt tenant (js_trim (pi_reference input)) (js_trim (pi_description input)) input plan
         (ik_id r) (db\<lparr>fd_idempotency_keys := rows\<rparr>) =
         Inr (t, db\<lparr>fd_idempotency_keys := rows, fd_transactions := fd_transactions db @ [t]\<rparr>)"
      "insert_entries tenant (tx_id t) (pp_entries plan)
         (db\<lparr>fd_idempotency_keys := rows, fd_transactions := fd_transactions db @ [t]\<rparr>) =
         Inr (es, db\<lparr>fd_idempotency_keys := rows, fd_transactions := fd_transactions db @ [t],
                    fd_ledger_entries := fd_ledger_entries db @ es\<rparr>)"
      "build_posted_transaction rt tenant (pi_idempotency_key input) t
         (lock_accounts_by_ids db tenant (sort (js_uniq (map pe_account_id (pi_entries input))))) es
         (calculate_balances (db\<lparr>fd_idempotency_keys := rows, fd_transactions := fd_transactions db @ [t],
                    fd_ledger_entries := fd_ledger_entries db @ es\<rparr>) tenant
            (sort (js_uniq (map pe_account_id (pi_entries input))))) = Inr resp"
      "db' = db\<lparr>fd_idempotency_keys := mark_completed rt tenant (ik_id r) 201 resp rows,
               fd_transactions := fd_transactions db @ [t],
               fd_ledger_entries := fd_ledger_entries db @ es,
               fd_audit_logs := fd_audit_logs db @ audits,
               fd_sync_operations := fd_sync_operations db @ syncs\<rparr>"
      "\<exists>s. syncs = [s] \<and> so_tenant_id s = tenant \<and> so_entity s = ''finance'' \<and>
         so_version s = fresh_uuid (map so_version (fd_sync_operations db)) \<and>
         so_transaction_id s = pt_transaction_id resp"
proof -
  let ?ids = "sort (js_uniq (map pe_account_id (pi_entries input)))"
  from assms obtain tenant li r rows where
    tenant: "require_tenant_id rt = Inr tenant" and li: "lock_input_of rt input = Inr li"
    and lock: "finance_lock_request rt li (fd_idempotency_keys db) = Inr (r, rows)"
    and rest: "(case replay_body r of Some response \<Rightarrow> Inr (response, db\<lparr>fd_idempotency_keys := rows\<rparr>)
        | None \<Rightarrow> post_locked rt tenant (js_trim (pi_reference input)) (js_trim (pi_description input)) input r
            (db\<lparr>fd_idempotency_keys := rows\<rparr>)) = Inr (resp, db')"
    by (auto simp: post_transaction_callback_def and_then_eq_Inr lock_idempotency_key_Inr
        require_non_empty_text_def split: if_splits)
  let ?db = "db\<lparr>fd_idempotency_keys := rows\<rparr>"
  show thesis
  proof (cases "replay_body r")
    case (Some b)
    with rest replay[OF li lock] show ?thesis by simp
  next
    case None
    with rest have pl: "post_locked rt tenant (js_trim (pi_reference input)) (js_trim (pi_description input))
        input r ?db = Inr (resp, db')" by simp
    have acc: "lock_accounts_by_ids ?db tenant ?ids = lock_accounts_by_ids db tenant ?ids"
      by (simp add: lock_accounts_by_ids_def Let_def)
    from pl obtain plan where plan: "build_posting_plan input (lock_accounts_by_ids db tenant ?ids) = Inr plan"
      by (auto simp: post_locked_def and_then_eq_Inr Let_def acc)
    show ?thesis
    proof (cases "select_first (\<lambda>t. tx_tenant_id t = tenant \<and> tx_reference t = js_trim (pi_reference input))
        (fd_transactions db)")
      case (Some t)
      with pl plan have re: "reuse_existing rt tenant (js_trim (pi_description input)) input plan (ik_id r) t ?db
          = Inr (resp, db')"
        by (auto simp: post_locked_def Let_def acc find_by_reference_def split: if_splits)
      from select_first_Some[OF Some] show ?thesis
        using re by (intro reuse[OF tenant li lock None plan, of t])
          (auto simp: reuse_existing_def and_then_eq_Inr idem_mark_completed_def)
    next
      case nf: None
      with pl plan obtain t db1 where cr: "create_row_for rt tenant (js_trim (pi_reference input))
            (js_trim (pi_description input)) input plan (ik_id r) ?db = Inr (t, db1)"
        and pn: "post_new rt tenant input plan (ik_id r) ?ids (lock_accounts_by_ids db tenant ?ids) t db1
            = Inr (resp, db')"
        by (auto simp: post_locked_def Let_def acc find_by_reference_def split: if_splits sum.splits)
      have db1: "db1 = db\<lparr>fd_idempotency_keys := rows, fd_transactions := fd_transactions db @ [t]\<rparr>"
        using create_row_for_Inr(10)[OF cr] by simp
      from pn obtain es db2 where ins: "insert_entries tenant (tx_id t) (pp_entries plan) db1 = Inr (es, db2)"
        and bp: "build_posted_transaction rt tenant (pi_idempotency_key input) t
            (lock_accounts_by_ids db tenant ?ids) es (calculate_balances db2 tenant ?ids) = Inr resp"
        and db': "db' = record_server_operation tenant resp
            (case pi_metadata input of None \<Rightarrow> JObj [] | Some m \<Rightarrow> m)
            (record_finance_transaction_posted rt tenant resp (idem_mark_completed rt tenant (ik_id r) 201 resp db2))"
        by (auto simp: post_new_def and_then_eq_Inr Let_def)
      have db2: "db2 = db\<lparr>fd_idempotency_keys := rows, fd_transactions := fd_transactions db @ [t],
          fd_ledger_entries := fd_ledger_entries db @ es\<rparr>"
        using insert_entries_Inr(1)[OF ins] db1 by simp
      have "db' = db\<lparr>fd_idempotency_keys := mark_completed rt tenant (ik_id r) 201 resp rows,
               fd_transactions := fd_transactions db @ [t],
               fd_ledger_entries := fd_ledger_entries db @ es,
               fd_audit_logs := fd_audit_logs db @ drop (length (fd_audit_logs db)) (fd_audit_logs db'),
               fd_sync_operations := fd_sync_operations db @
                 drop (length (fd_sync_operations db)) (fd_sync_operations db')\<rparr>"
        unfolding db' db2 by (simp add: record_server_operation_def record_finance_transaction_posted_def create_audit_log_def
            idem_mark_completed_def)
      moreover have "\<forall>t\<in>set (fd_transactions db).
          \<not> (tx_tenant_id t = tenant \<and> tx_reference t = js_trim (pi_reference input))"
        using nf by (simp only: select_first_None)
      moreover have "\<exists>s. drop (length (fd_sync_operations db)) (fd_sync_operations db') = [s] \<and> so_tenant_id s = tenant \<and>
          so_entity s = ''finance'' \<and> so_version s = fresh_uuid (map so_version (fd_sync_operations db)) \<and>
          so_transaction_id s = pt_transaction_id resp"
        unfolding db' db2 by (simp add: record_server_operation_def record_finance_transaction_posted_def create_audit_log_def
            idem_mark_completed_def)
      ultimately show ?thesis
        using posted[OF tenant li lock None plan _ cr[unfolded db1] ins[unfolded db1 db2] bp[unfolded db2]]
        by blast
    qed
  qed
qed

end
