(* ===== verification/Ledger_Properties.thy ===== *)
theory Ledger_Properties
  imports Ledger_Facts
begin

text \<open>
  The invariant of the general ledger's tables, its preservation by every posting, the agreement of
  the service's validation with the deferred trigger, replay and conflict under an idempotency key,
  reuse of a reference, tenant isolation and account balances.
\<close>

section \<open>The invariant\<close>

definition txn_entries :: "'a finance_db_scheme \<Rightarrow> fin_transaction \<Rightarrow> ledger_entry list" where
  "txn_entries db t =
     filter (\<lambda>e. le_tenant_id e = tx_tenant_id t \<and> le_transaction_id e = tx_id t) (fd_ledger_entries db)"

definition balanced_rows :: "fin_transaction \<Rightarrow> ledger_entry list \<Rightarrow> bool" where
  "balanced_rows t es \<longleftrightarrow> 2 \<le> length es \<and> length es = tx_entry_count t \<and>
     distinct (map le_line_number es) \<and>
     (\<forall>e\<in>set es. (le_direction e = Debit \<or> le_direction e = Credit) \<and> 0 < le_amount_minor e \<and>
        le_currency_code e = tx_currency_code t) \<and>
     direction_sum Debit es = tx_total_amount_minor t \<and> direction_sum Credit es = tx_total_amount_minor t \<and>
     fits_bigint (tx_total_amount_minor t)"

definition accounts_ok :: "account list \<Rightarrow> bool" where
  "accounts_ok accounts \<longleftrightarrow> distinct (map ac_id accounts) \<and> (\<forall>a\<in>set accounts. currency_format (ac_currency_code a))"

definition ledger_inv :: "'a finance_db_scheme \<Rightarrow> bool" where
  "ledger_inv db \<longleftrightarrow>
     idem_invar (fd_idempotency_keys db) \<and> accounts_ok (fd_accounts db) \<and>
     distinct (map tx_id (fd_transactions db)) \<and> distinct (map le_id (fd_ledger_entries db)) \<and>
     distinct (map (\<lambda>t. (tx_tenant_id t, tx_reference t)) (fd_transactions db)) \<and>
     distinct (map (\<lambda>t. (tx_tenant_id t, tx_idempotency_key_id t)) (fd_transactions db)) \<and>
     (\<forall>e\<in>set (fd_ledger_entries db).
        (\<exists>t\<in>set (fd_transactions db). tx_tenant_id t = le_tenant_id e \<and> tx_id t = le_transaction_id e) \<and>
        (\<exists>a\<in>set (fd_accounts db). ac_tenant_id a = le_tenant_id e \<and> ac_id a = le_account_id e)) \<and>
     (\<forall>t\<in>set (fd_transactions db). balanced_rows t (txn_entries db t))"

text \<open>The facts of a fresh posting that everything below uses.\<close>

lemma new_rows_balanced:
  assumes plan: "plan_ok plan" and t: "tx_currency_code t = pp_currency_code plan"
      "tx_total_amount_minor t = parse_int (pp_total_amount_minor plan)"
      "tx_entry_count t = pp_entry_count plan" "fits_bigint (tx_total_amount_minor t)"
    and rows: "list_all2 (\<lambda>v r. r = entry_row tenant txn v (le_id r)) (pp_entries plan) es"
    and pos: "\<forall>r\<in>set es. 0 < le_amount_minor r"
  shows "balanced_rows t es"
proof -
  note ir = inserted_rows[OF rows]
  have lines: "distinct (map le_line_number es)"
    using plan by (simp add: ir(5) plan_ok_def distinct_map)
  have "\<forall>e\<in>set es. (le_direction e = Debit \<or> le_direction e = Credit) \<and> le_currency_code e = pp_currency_code plan"
  proof
    fix e assume "e \<in> set es"
    then have "le_direction e \<in> set (map le_direction es)" "le_currency_code e \<in> set (map le_currency_code es)"
      by simp_all
    then show "(le_direction e = Debit \<or> le_direction e = Credit) \<and> le_currency_code e = pp_currency_code plan"
      unfolding ir(6,7) using plan by (auto simp: plan_ok_def)
  qed
  then show ?thesis
    using plan t pos lines by (auto simp: balanced_rows_def plan_ok_def ir(2,4))
qed

lemma txn_entries_append:
  "txn_entries (db\<lparr>fd_ledger_entries := es1 @ es2\<rparr>) t =
     filter (\<lambda>e. le_tenant_id e = tx_tenant_id t \<and> le_transaction_id e = tx_id t) es1 @
     filter (\<lambda>e. le_tenant_id e = tx_tenant_id t \<and> le_transaction_id e = tx_id t) es2"
  by (simp add: txn_entries_def)

lemma entries_of_fresh_transaction:
  assumes "ledger_inv db" and "tx_id t \<notin> set (map tx_id (fd_transactions db))"
  shows "txn_entries db t = []"
proof -
  have "tx_id u \<noteq> tx_id t" if "u \<in> set (fd_transactions db)" for u
    using assms(2) that by (metis image_eqI set_map)
  moreover have "\<forall>e\<in>set (fd_ledger_entries db).
      \<exists>u\<in>set (fd_transactions db). tx_id u = le_transaction_id e"
    using assms(1) by (auto simp: ledger_inv_def)
  ultimately show ?thesis by (auto simp: txn_entries_def filter_empty_conv)
qed

lemma ledger_inv_post_new:
  assumes inv: "ledger_inv db" and rows: "idem_invar rows"
    and t: "tx_id t = fresh_uuid (map tx_id (fd_transactions db))" "tx_tenant_id t = tenant"
      "transaction_constraints (db\<lparr>fd_idempotency_keys := rows0\<rparr>) t = Inr ()"
    and es: "insert_entries tenant (tx_id t) vs db1 = Inr (es, db2)"
      "fd_ledger_entries db1 = fd_ledger_entries db" "fd_accounts db1 = fd_accounts db"
    and bal: "balanced_rows t es"
  shows "ledger_inv (db\<lparr>fd_idempotency_keys := rows, fd_transactions := fd_transactions db @ [t],
           fd_ledger_entries := fd_ledger_entries db @ es, fd_audit_logs := as, fd_sync_operations := ss\<rparr>)"
    (is "ledger_inv ?db'")
proof -
  note ins = insert_entries_Inr[OF es(1)]
  note ir = inserted_rows[OF ins(2)]
  have fresh: "tx_id t \<notin> set (map tx_id (fd_transactions db))"
    unfolding t(1) by (rule fresh_uuid_notin)
  have new: "txn_entries ?db' t = es"
    using entries_of_fresh_transaction[OF inv fresh] ir(3) t(2)
    by (auto simp: txn_entries_def filter_id_conv)
  have old: "txn_entries ?db' u = txn_entries db u" if "u \<in> set (fd_transactions db)" for u
  proof -
    have "tx_id u \<noteq> tx_id t" using that fresh by (metis image_eqI set_map)
    then show ?thesis using ir(3) by (auto simp: txn_entries_def filter_empty_conv)
  qed
  have uniq: "\<forall>u\<in>set (fd_transactions db). tx_tenant_id u = tx_tenant_id t \<longrightarrow>
      tx_idempotency_key_id u \<noteq> tx_idempotency_key_id t \<and> tx_reference u \<noteq> tx_reference t"
    using t(3) by (simp add: transaction_constraints_Inr)
  have idem: "idem_invar (fd_idempotency_keys ?db')" using rows by simp
  have acc: "accounts_ok (fd_accounts ?db')" using inv by (simp add: ledger_inv_def)
  have d1: "distinct (map tx_id (fd_transactions ?db'))"
    using inv fresh by (simp add: ledger_inv_def)
  have d2: "distinct (map le_id (fd_ledger_entries ?db'))"
    using inv ins(3) es(2) by (simp add: ledger_inv_def)
  have d3: "distinct (map (\<lambda>t. (tx_tenant_id t, tx_reference t)) (fd_transactions ?db'))"
    using inv uniq by (auto simp: ledger_inv_def)
  have d4: "distinct (map (\<lambda>t. (tx_tenant_id t, tx_idempotency_key_id t)) (fd_transactions ?db'))"
    using inv uniq by (auto simp: ledger_inv_def)
  have fk: "(\<exists>t\<in>set (fd_transactions ?db'). tx_tenant_id t = le_tenant_id e \<and> tx_id t = le_transaction_id e) \<and>
        (\<exists>a\<in>set (fd_accounts ?db'). ac_tenant_id a = le_tenant_id e \<and> ac_id a = le_account_id e)"
    if "e \<in> set (fd_ledger_entries ?db')" for e
  proof (cases "e \<in> set es")
    case True
    then show ?thesis using ins(4) ir(3) t(2) es(3) by simp
  next
    case False
    then show ?thesis using that inv by (auto simp: ledger_inv_def)
  qed
  have "balanced_rows u (txn_entries ?db' u)" if "u \<in> set (fd_transactions ?db')" for u
    using that new old bal inv by (auto simp: ledger_inv_def)
  with idem acc d1 d2 d3 d4 fk show ?thesis
    unfolding ledger_inv_def by blast
qed

text \<open>Replacing the idempotency table keeps the rest.\<close>

lemma ledger_inv_idem:
  "ledger_inv db \<Longrightarrow> idem_invar rows \<Longrightarrow> ledger_inv (db\<lparr>fd_idempotency_keys := rows\<rparr>)"
  by (simp add: ledger_inv_def txn_entries_def)

lemma finance_lock_Inr:
  assumes "idem_invar rows0" and "finance_lock_request rt i rows0 = Inr (r, rows')"
  shows "valid_lock_input i" and "idem_invar rows'"
    and "get_locked_record rows' (input_key i) = Some r"
    and "ik_request_hash r = li_request_hash i"
  using lock_request_Inr(1-4)[OF assms(1) assms(2)[unfolded finance_lock_request_def]] by blast+

text \<open>What a successful posting does to the tables.\<close>

lemma post_callback_posted:
  assumes inv: "ledger_inv db"
    and plan: "build_posting_plan input accounts = Inr plan"
    and lock: "finance_lock_request rt li (fd_idempotency_keys db) = Inr (r, rows)"
    and cr: "create_row_for rt tenant ref desc input plan (ik_id r) (db\<lparr>fd_idempotency_keys := rows\<rparr>) = Inr (t, db1)"
    and ins: "insert_entries tenant (tx_id t) (pp_entries plan)
      (db\<lparr>fd_idempotency_keys := rows, fd_transactions := fd_transactions db @ [t]\<rparr>) = Inr (es, db2)"
  shows "balanced_rows t es"
    and "ledger_inv (db\<lparr>fd_idempotency_keys := mark_completed rt' tenant' rid' code' resp' rows,
           fd_transactions := fd_transactions db @ [t],
           fd_ledger_entries := fd_ledger_entries db @ es, fd_audit_logs := as, fd_sync_operations := ss\<rparr>)"
proof -
  note c = create_row_for_Inr[OF cr]
  note i = insert_entries_Inr[OF ins]
  have cons: "transaction_constraints (db\<lparr>fd_idempotency_keys := rows\<rparr>) t = Inr ()" using c(9) .
  have fits: "fits_bigint (tx_total_amount_minor t)" using c(9) by (simp add: transaction_constraints_Inr)
  show bal: "balanced_rows t es"
    by (rule new_rows_balanced[OF build_posting_plan_Inr(1)[OF plan] c(6,7,8) fits i(2)]) (use i(4) in auto)
  have "idem_invar (mark_completed rt' tenant' rid' code' resp' rows)"
    using finance_lock_Inr(2)[OF _ lock] inv by (auto simp: ledger_inv_def)
  moreover have "tx_id t = fresh_uuid (map tx_id (fd_transactions db))" using c(1) by simp
  ultimately show "ledger_inv (db\<lparr>fd_idempotency_keys := mark_completed rt' tenant' rid' code' resp' rows,
           fd_transactions := fd_transactions db @ [t],
           fd_ledger_entries := fd_ledger_entries db @ es, fd_audit_logs := as, fd_sync_operations := ss\<rparr>)"
    by (intro ledger_inv_post_new[OF inv _ _ c(2) cons ins _ _ bal]) simp_all
qed

lemma post_callback_inv:
  assumes inv: "ledger_inv db" and post: "post_transaction_callback rt input db = Inr (resp, db')"
  shows "ledger_inv db'"
  using post
proof (cases rule: post_cases)
  case (replay li r rows)
  then show ?thesis
    using finance_lock_Inr(2)[OF _ replay(2)] ledger_inv_idem[OF inv] inv by (simp add: ledger_inv_def)
next
  case (reuse tenant li r rows plan t)
  have "idem_invar (mark_completed rt tenant (ik_id r) 200 resp rows)"
    using finance_lock_Inr(2)[OF _ reuse(3)] inv by (auto simp: ledger_inv_def)
  then show ?thesis using ledger_inv_idem[OF inv] reuse(11) by simp
next
  case (posted tenant li r rows plan t es audits syncs)
  show ?thesis
    unfolding posted(10) by (rule post_callback_posted(2)[OF inv posted(5,3,7,8)])
qed

section \<open>The service's validation and the deferred trigger\<close>

lemma validate_balance_ok:
  assumes "balanced_rows t (txn_entries db t)"
  shows "validate_balance db (tx_tenant_id t) (tx_id t) = Inr ()"
proof -
  let ?es = "txn_entries db t"
  have ne: "map le_currency_code ?es \<noteq> []" using assms by (auto simp: balanced_rows_def)
  have "js_uniq (map le_currency_code ?es) = [tx_currency_code t]"
    by (rule js_uniq_constant[OF ne]) (use assms in \<open>auto simp: balanced_rows_def\<close>)
  then show ?thesis
    using assms by (simp add: validate_balance_def balanced_rows_def txn_entries_def Let_def)
qed

lemma deferred_checks_ok:
  assumes inv: "ledger_inv db"
  shows "deferred_balance_checks db0 db = Inr ()"
proof -
  have ok: "validate_balance db (tx_tenant_id t) (tx_id t) = Inr ()" if "t \<in> set (fd_transactions db)" for t
    using inv that by (auto simp: ledger_inv_def intro: validate_balance_ok)
  have t: "traverse (\<lambda>t. validate_balance db (tx_tenant_id t) (tx_id t)) ts = Inr (map (\<lambda>_. ()) ts)"
    if "set ts \<subseteq> set (fd_transactions db)" for ts
    using that ok by (intro traverse_cong_map) auto
  have "validate_balance db (le_tenant_id e) (le_transaction_id e) = Inr ()"
    if e: "e \<in> set (fd_ledger_entries db)" for e
  proof -
    obtain u where "u \<in> set (fd_transactions db)" "tx_tenant_id u = le_tenant_id e" "tx_id u = le_transaction_id e"
      using inv e by (auto simp: ledger_inv_def)
    then show ?thesis using ok by metis
  qed
  then have "traverse (\<lambda>e. validate_balance db (le_tenant_id e) (le_transaction_id e)) es = Inr (map (\<lambda>_. ()) es)"
    if "set es \<subseteq> set (fd_ledger_entries db)" for es
    using that by (intro traverse_cong_map) auto
  then show ?thesis
    by (simp add: deferred_balance_checks_def t set_drop_subset)
qed

lemma post_transaction_Inr:
  assumes "ledger_inv db"
  shows "post_transaction nested rt input db = Inr (resp, db') \<longleftrightarrow>
           post_transaction_callback rt input db = Inr (resp, db')"
  using deferred_checks_ok[OF post_callback_inv[OF assms]]
  by (auto simp: post_transaction_def with_request_transaction_Inr)

lemma post_transaction_nested_irrelevant:
  assumes "ledger_inv db"
  shows "post_transaction False rt input db = post_transaction True rt input db"
proof (cases "post_transaction_callback rt input db")
  case (Inl e)
  then show ?thesis by (simp add: post_transaction_def with_request_transaction_def)
next
  case (Inr p)
  then obtain resp db' where "post_transaction_callback rt input db = Inr (resp, db')" by (cases p) auto
  then show ?thesis
    using deferred_checks_ok[OF post_callback_inv[OF assms]]
    by (simp add: post_transaction_def with_request_transaction_def)
qed

section \<open>Trial balance\<close>

lemma sum_list_by_key:
  assumes "finite K" and "key ` set xs \<subseteq> K"
  shows "sum_list (map f (filter P xs)) =
           (\<Sum>k\<in>K. sum_list (map (f :: 'e \<Rightarrow> int) (filter (\<lambda>x. P x \<and> key x = k) xs)))"
  using assms(2)
proof (induction xs)
  case (Cons x xs)
  have "(\<Sum>k\<in>K. sum_list (map f (filter (\<lambda>y. P y \<and> key y = k) (x # xs)))) =
      (\<Sum>k\<in>K. (if key x = k then (if P x then f x else 0) else 0) +
               sum_list (map f (filter (\<lambda>y. P y \<and> key y = k) xs)))"
    by (rule sum.cong) auto
  also have "\<dots> = (if P x then f x else 0) + sum_list (map f (filter P xs))"
    using Cons assms(1) by (simp add: sum.distrib sum.delta')
  finally show ?case by simp
qed simp

definition currency_entries :: "'a finance_db_scheme \<Rightarrow> string \<Rightarrow> string \<Rightarrow> ledger_entry list" where
  "currency_entries db tenant currency =
     filter (\<lambda>e. le_tenant_id e = tenant \<and> le_currency_code e = currency) (fd_ledger_entries db)"

lemma trial_balance:
  assumes inv: "ledger_inv db"
  shows "direction_sum Debit (currency_entries db tenant currency) =
         direction_sum Credit (currency_entries db tenant currency)"
proof -
  let ?es = "fd_ledger_entries db"
  let ?key = "\<lambda>e. (le_tenant_id e, le_transaction_id e)"
  let ?K = "(\<lambda>t. (tx_tenant_id t, tx_id t)) ` set (fd_transactions db)"
  let ?P = "\<lambda>d e. (le_tenant_id e = tenant \<and> le_currency_code e = currency) \<and> le_direction e = d"
  have fin: "finite ?K" by simp
  have sub: "?key ` set ?es \<subseteq> ?K"
  proof
    fix k assume "k \<in> ?key ` set ?es"
    then obtain e where e: "e \<in> set ?es" "k = ?key e" by blast
    then obtain u where "u \<in> set (fd_transactions db)" "tx_tenant_id u = le_tenant_id e" "tx_id u = le_transaction_id e"
      using inv by (auto simp: ledger_inv_def)
    then show "k \<in> ?K" using e(2) by (auto intro!: image_eqI[of _ _ u])
  qed
  have split: "direction_sum d (currency_entries db tenant currency) =
      (\<Sum>k\<in>?K. sum_list (map le_amount_minor (filter (\<lambda>e. ?P d e \<and> ?key e = k) ?es)))" for d
    unfolding direction_sum_def currency_entries_def filter_filter
    by (rule sum_list_by_key[OF fin sub])
  have group: "sum_list (map le_amount_minor (filter (\<lambda>e. ?P d e \<and> ?key e = (tx_tenant_id t, tx_id t)) ?es)) =
      (if tx_tenant_id t = tenant \<and> tx_currency_code t = currency then direction_sum d (txn_entries db t) else 0)"
    if t: "t \<in> set (fd_transactions db)" for t d
  proof -
    have cur: "le_currency_code e = tx_currency_code t" if "e \<in> set (txn_entries db t)" for e
      using inv t that by (auto simp: ledger_inv_def balanced_rows_def)
    have "filter (\<lambda>e. ?P d e \<and> ?key e = (tx_tenant_id t, tx_id t)) ?es =
        filter (\<lambda>e. ?P d e) (txn_entries db t)"
      by (simp add: txn_entries_def) (rule filter_cong, auto)
    also have "\<dots> = (if tx_tenant_id t = tenant \<and> tx_currency_code t = currency
        then filter (\<lambda>e. le_direction e = d) (txn_entries db t) else [])"
      using cur by (auto simp: filter_empty_conv txn_entries_def intro!: filter_cong)
    finally show ?thesis by (simp add: direction_sum_def)
  qed
  have bal: "direction_sum Debit (txn_entries db t) = direction_sum Credit (txn_entries db t)"
    if "t \<in> set (fd_transactions db)" for t
    using inv that by (auto simp: ledger_inv_def balanced_rows_def)
  show ?thesis
    unfolding split
  proof (rule sum.cong[OF refl], clarify)
    fix t assume t: "t \<in> set (fd_transactions db)"
    show "sum_list (map le_amount_minor (filter (\<lambda>e. ?P Debit e \<and> ?key e = (tx_tenant_id t, tx_id t)) ?es)) =
          sum_list (map le_amount_minor (filter (\<lambda>e. ?P Credit e \<and> ?key e = (tx_tenant_id t, tx_id t)) ?es))"
      unfolding group[OF t] using bal[OF t] by simp
  qed
qed

section \<open>Replay\<close>

lemma lock_input_ofD:
  assumes "lock_input_of rt input = Inr li"
  shows "require_tenant_id rt = Inr (li_tenant_id li)" and "rt_tenant_id rt = Some (li_tenant_id li)"
    and "li_scope li = FINANCE_IDEMPOTENCY_SCOPE"
    and "build_idempotency_hash rt input = Inr (li_request_hash li)"
  using assms by (auto simp: lock_input_of_def and_then_eq_Inr require_tenant_id_def
      split: option.splits if_splits)

lemma lock_input_of_same:
  assumes "lock_input_of rt input = Inr li" and "rt_tenant_id rt' = rt_tenant_id rt"
    and "rt_sha256 rt' = rt_sha256 rt"
  shows "\<exists>li'. lock_input_of rt' input = Inr li' \<and> input_key li' = input_key li \<and>
           li_request_hash li' = li_request_hash li \<and> valid_lock_input li' = valid_lock_input li"
  using assms
  by (auto simp: lock_input_of_def and_then_eq_Inr require_tenant_id_def input_key_def valid_lock_input_def
      build_idempotency_hash_def split: option.splits if_splits)

text \<open>A successful posting is an attempt of the idempotency store.\<close>

lemma post_attempt:
  assumes "post_transaction_callback rt input db = Inr (resp, db')"
  shows "\<exists>li work. lock_input_of rt input = Inr li \<and>
    finance_idem.attempt rt li work (fd_idempotency_keys db) = (Inr resp, fd_idempotency_keys db')"
  using assms
proof (cases rule: post_cases)
  case (replay li r rows)
  then show ?thesis by (auto simp: finance_idem.attempt_def)
next
  case (reuse tenant li r rows plan t)
  have "tenant = li_tenant_id li" using lock_input_ofD(1)[OF reuse(2)] reuse(1) by simp
  with reuse show ?thesis
    by (intro exI[of _ li] exI[of _ "\<lambda>_ _. Inr (200, resp)"]) (simp add: finance_idem.attempt_def)
next
  case (posted tenant li r rows plan t es audits syncs)
  have "tenant = li_tenant_id li" using lock_input_ofD(1)[OF posted(2)] posted(1) by simp
  with posted show ?thesis
    by (intro exI[of _ li] exI[of _ "\<lambda>_ _. Inr (201, resp)"]) (simp add: finance_idem.attempt_def)
qed

text \<open>What the key's row holds after a posting under a key used for the first time.\<close>

lemma post_first_use_stored:
  assumes inv: "ledger_inv db" and post: "post_transaction_callback rt input db = Inr (resp, db')"
    and li: "lock_input_of rt input = Inr li"
    and first: "get_locked_record (fd_idempotency_keys db) (input_key li) = None"
  shows "stored_response (fd_idempotency_keys db') (input_key li) =
           Some (li_request_hash li, expiry_after rt li, resp)"
    and "valid_lock_input li"
proof -
  have idem: "idem_invar (fd_idempotency_keys db)" using inv by (simp add: ledger_inv_def)
  obtain work where at: "finance_idem.attempt rt li work (fd_idempotency_keys db) =
      (Inr resp, fd_idempotency_keys db')"
    using post_attempt[OF post] li by auto
  then obtain r rows where lock: "finance_lock_request rt li (fd_idempotency_keys db) = Inr (r, rows)"
    by (auto simp: finance_idem.attempt_def split: sum.splits)
  note fu = lock_request_first_use[OF idem lock[unfolded finance_lock_request_def] first]
  obtain code where "fd_idempotency_keys db' = mark_completed rt (li_tenant_id li) (ik_id r) code resp rows"
    using at lock fu(2) by (auto simp: finance_idem.attempt_def split: sum.splits) metis
  then show "stored_response (fd_idempotency_keys db') (input_key li) =
      Some (li_request_hash li, expiry_after rt li, resp)"
    using finance_idem.complete_stored[OF idem lock fu(2)] fu(1) by simp
  show "valid_lock_input li" using lock by (rule finance_idem.lock_valid)
qed

lemma post_callback_texts:
  assumes "post_transaction_callback rt input db = Inr (resp, db')"
  shows "js_trim (pi_reference input) \<noteq> []" and "js_trim (pi_description input) \<noteq> []"
  using assms by (auto simp: post_transaction_callback_def and_then_eq_Inr require_non_empty_text_def
      split: if_splits)

lemma post_callback_hit:
  assumes "js_trim (pi_reference input) \<noteq> []" and "js_trim (pi_description input) \<noteq> []"
    and "lock_input_of rt input = Inr li"
    and "finance_lock_request rt li (fd_idempotency_keys db) = Inr (r, fd_idempotency_keys db)"
    and "replay_body r = Some resp"
  shows "post_transaction_callback rt input db = Inr (resp, db)"
  using assms lock_input_ofD(1)[OF assms(3)]
  by (simp add: post_transaction_callback_def require_non_empty_text_def lock_idempotency_key_def)

lemma post_replay:
  assumes inv: "ledger_inv db" and post: "post_transaction_callback rt input db = Inr (resp, db')"
    and li: "lock_input_of rt input = Inr li"
    and first: "get_locked_record (fd_idempotency_keys db) (input_key li) = None"
    and same: "rt_tenant_id rt' = rt_tenant_id rt" "rt_sha256 rt' = rt_sha256 rt"
    and live: "rt_clock rt' < expiry_after rt li"
  shows "post_transaction_callback rt' input db' = Inr (resp, db')"
proof -
  note st = post_first_use_stored[OF inv post li first]
  obtain li' where li': "lock_input_of rt' input = Inr li'" "input_key li' = input_key li"
      "li_request_hash li' = li_request_hash li" "valid_lock_input li' = valid_lock_input li"
    using lock_input_of_same[OF li same] by blast
  have "idem_invar (fd_idempotency_keys db')"
    using post_callback_inv[OF inv post] by (simp add: ledger_inv_def)
  then obtain r where "finance_lock_request rt' li' (fd_idempotency_keys db') = Inr (r, fd_idempotency_keys db')"
      "replay_body r = Some resp"
    using finance_idem.lock_hit[of "fd_idempotency_keys db'" li' "expiry_after rt li" resp rt'] st li' live by auto
  then show ?thesis by (rule post_callback_hit[OF post_callback_texts[OF post] li'(1)])
qed

section \<open>Sequences of postings\<close>

definition post_step :: "runtime \<Rightarrow> post_input \<Rightarrow> 'a finance_db_scheme \<Rightarrow> posted_transaction result \<times> 'a finance_db_scheme" where
  "post_step rt input db =
     (case post_transaction False rt input db of Inl e \<Rightarrow> (Inl e, db) | Inr (resp, db') \<Rightarrow> (Inr resp, db'))"

fun run_posts ::
  "(runtime \<times> post_input) list \<Rightarrow> 'a finance_db_scheme \<Rightarrow> posted_transaction result list \<times> 'a finance_db_scheme" where
  "run_posts [] db = ([], db)"
| "run_posts ((rt, input) # ps) db =
     (let (res, db1) = post_step rt input db; (ress, db2) = run_posts ps db1 in (res # ress, db2))"

lemma post_step_inv: "ledger_inv db \<Longrightarrow> ledger_inv (snd (post_step rt input db))"
  using post_callback_inv[of db rt input]
  by (auto simp: post_step_def post_transaction_Inr split: sum.splits)

lemma run_posts_inv: "ledger_inv db \<Longrightarrow> ledger_inv (snd (run_posts ps db))"
proof (induction ps arbitrary: db)
  case (Cons p ps)
  obtain rt input where p: "p = (rt, input)" by (cases p)
  show ?case using Cons.IH[OF post_step_inv[OF Cons.prems, of rt input]]
    by (simp add: p split_beta Let_def)
qed simp

lemma post_step_stored:
  assumes inv: "ledger_inv db" and st: "stored_response (fd_idempotency_keys db) k = Some (h, e, b)"
    and live: "rt_clock rt < e"
  shows "stored_response (fd_idempotency_keys (snd (post_step rt input db))) k = Some (h, e, b)"
    and "lock_input_of rt input = Inr li \<Longrightarrow> input_key li = k \<Longrightarrow>
           fst (post_step rt input db) = Inr b \<or> (\<exists>x. fst (post_step rt input db) = Inl x)"
proof -
  have idem: "idem_invar (fd_idempotency_keys db)" using inv by (simp add: ledger_inv_def)
  have "stored_response (fd_idempotency_keys (snd (post_step rt input db))) k = Some (h, e, b) \<and>
    (lock_input_of rt input = Inr li \<longrightarrow> input_key li = k \<longrightarrow>
       fst (post_step rt input db) = Inr b \<or> (\<exists>x. fst (post_step rt input db) = Inl x))"
  proof (cases "post_transaction False rt input db")
    case (Inl x)
    then show ?thesis using st by (simp add: post_step_def)
  next
    case (Inr p)
    obtain resp db' where p: "p = (resp, db')" by (cases p)
    have step: "post_step rt input db = (Inr resp, db')" using Inr p by (simp add: post_step_def)
    have "post_transaction_callback rt input db = Inr (resp, db')"
      using Inr p post_transaction_Inr[OF inv] by simp
    from post_attempt[OF this] obtain lj work where lj: "lock_input_of rt input = Inr lj"
      and at: "finance_idem.attempt rt lj work (fd_idempotency_keys db) = (Inr resp, fd_idempotency_keys db')"
      by blast
    show ?thesis
    proof (cases "input_key lj = k")
      case True
      with finance_idem.attempt_stored_same[OF idem, of lj h e b rt work] st live at lj step
      show ?thesis by auto
    next
      case False
      with finance_idem.attempt_stored_other[OF idem, of k lj rt work] st at lj step
      show ?thesis by auto
    qed
  qed
  then show "stored_response (fd_idempotency_keys (snd (post_step rt input db))) k = Some (h, e, b)"
    and "lock_input_of rt input = Inr li \<Longrightarrow> input_key li = k \<Longrightarrow>
           fst (post_step rt input db) = Inr b \<or> (\<exists>x. fst (post_step rt input db) = Inl x)" by blast+
qed

lemma run_posts_stored:
  assumes "ledger_inv db" and "stored_response (fd_idempotency_keys db) k = Some (h, e, b)"
    and "\<forall>(rt, input)\<in>set ps. rt_clock rt < e"
  shows "stored_response (fd_idempotency_keys (snd (run_posts ps db))) k = Some (h, e, b)"
    and "n < length ps \<Longrightarrow> ps ! n = (rt, input) \<Longrightarrow> lock_input_of rt input = Inr li \<Longrightarrow> input_key li = k \<Longrightarrow>
           fst (run_posts ps db) ! n = Inr b \<or> (\<exists>x. fst (run_posts ps db) ! n = Inl x)"
proof -
  have "stored_response (fd_idempotency_keys (snd (run_posts ps db))) k = Some (h, e, b) \<and>
    (\<forall>n rt input li. n < length ps \<longrightarrow> ps ! n = (rt, input) \<longrightarrow> lock_input_of rt input = Inr li \<longrightarrow>
       input_key li = k \<longrightarrow> fst (run_posts ps db) ! n = Inr b \<or> (\<exists>x. fst (run_posts ps db) ! n = Inl x))"
    using assms
  proof (induction ps arbitrary: db)
    case (Cons p ps)
    obtain rt0 input0 where p: "p = (rt0, input0)" by (cases p)
    have live: "rt_clock rt0 < e" using Cons.prems(3) p by simp
    let ?db = "snd (post_step rt0 input0 db)"
    note ih = Cons.IH[OF post_step_inv[OF Cons.prems(1), of rt0 input0]
        post_step_stored(1)[OF Cons.prems(1,2) live, of input0]]
    have ih': "stored_response (fd_idempotency_keys (snd (run_posts ps ?db))) k = Some (h, e, b) \<and>
        (\<forall>n rt input li. n < length ps \<longrightarrow> ps ! n = (rt, input) \<longrightarrow> lock_input_of rt input = Inr li \<longrightarrow>
         input_key li = k \<longrightarrow> fst (run_posts ps ?db) ! n = Inr b \<or> (\<exists>x. fst (run_posts ps ?db) ! n = Inl x))"
      using ih Cons.prems(3) by simp
    have hd: "lock_input_of rt0 input0 = Inr li \<Longrightarrow> input_key li = k \<Longrightarrow>
           fst (post_step rt0 input0 db) = Inr b \<or> (\<exists>x. fst (post_step rt0 input0 db) = Inl x)" for li
      by (rule post_step_stored(2)[OF Cons.prems(1,2) live])
    show ?case
      using ih' hd by (auto simp: p split_beta Let_def nth_Cons' )
  qed simp
  then show "stored_response (fd_idempotency_keys (snd (run_posts ps db))) k = Some (h, e, b)"
    and "n < length ps \<Longrightarrow> ps ! n = (rt, input) \<Longrightarrow> lock_input_of rt input = Inr li \<Longrightarrow> input_key li = k \<Longrightarrow>
           fst (run_posts ps db) ! n = Inr b \<or> (\<exists>x. fst (run_posts ps db) ! n = Inl x)" by blast+
qed

section \<open>What a posting writes\<close>

lemma rendered_entries:
  assumes "traverse (render_entry by_id) (sort_key le_line_number es) = Inr ps"
    and "sorted (map le_line_number es)"
  shows "map (\<lambda>p. (po_account_id p, po_direction p, po_amount_minor p)) ps =
         map (\<lambda>e. (le_account_id e, le_direction e, show_int (le_amount_minor e))) es"
proof -
  have "sort_key le_line_number es = es" using assms(2) by (simp add: sort_key_id_if_sorted)
  with assms(1) have "list_all2 (\<lambda>e p. render_entry by_id e = Inr p) es ps"
    by (simp add: traverse_Inr_iff)
  then show ?thesis
    by (induction rule: list_all2_induct) (auto simp: render_entry_def split: option.splits)
qed

lemma posting_writes_request:
  assumes inv: "ledger_inv db" and post: "post_transaction nested rt input db = Inr (resp, db')"
    and li: "lock_input_of rt input = Inr li"
    and fresh_key: "get_locked_record (fd_idempotency_keys db) (input_key li) = None"
    and fresh_ref: "\<forall>t\<in>set (fd_transactions db).
      \<not> (tx_tenant_id t = li_tenant_id li \<and> tx_reference t = js_trim (pi_reference input))"
  shows "\<exists>t es. fd_transactions db' = fd_transactions db @ [t] \<and>
    fd_ledger_entries db' = fd_ledger_entries db @ es \<and>
    tx_tenant_id t = li_tenant_id li \<and> tx_reference t = js_trim (pi_reference input) \<and>
    tx_description t = js_trim (pi_description input) \<and> pt_transaction_id resp = tx_id t \<and>
    length es = length (pi_entries input) \<and>
    (\<forall>k < length es. let e = es ! k; q = pi_entries input ! k in
       le_tenant_id e = tx_tenant_id t \<and> le_transaction_id e = tx_id t \<and> le_line_number e = k + 1 \<and>
       le_account_id e = pe_account_id q \<and> le_direction e = pe_direction q \<and>
       le_amount_minor e = parse_int (js_trim (pe_amount_minor q)) \<and> le_description e = pe_description q) \<and>
    map (\<lambda>p. (po_account_id p, po_direction p, po_amount_minor p)) (pt_entries resp) =
      map (\<lambda>q. (pe_account_id q, pe_direction q, js_trim (pe_amount_minor q))) (pi_entries input)"
proof -
  have cb: "post_transaction_callback rt input db = Inr (resp, db')"
    using post post_transaction_Inr[OF inv] by simp
  have idem: "idem_invar (fd_idempotency_keys db)" using inv by (simp add: ledger_inv_def)
  have tenant: "require_tenant_id rt = Inr (li_tenant_id li)" by (rule lock_input_ofD(1)[OF li])
  from cb show ?thesis
  proof (cases rule: post_cases)
    case (replay lj r rows)
    then have "replay_body r = None"
      using lock_request_first_use(2)[OF idem] fresh_key li by (auto simp: finance_lock_request_def)
    with replay show ?thesis by simp
  next
    case (reuse tn lj r rows plan t)
    then show ?thesis using fresh_ref tenant by auto
  next
    case (posted tn lj r rows plan t es audits syncs)
    have tn: "tn = li_tenant_id li" using posted(1) tenant by simp
    note c = create_row_for_Inr[OF posted(7)]
    note rows = inserted_rows[OF insert_entries_Inr(2)[OF posted(8)]]
    note plan = build_posting_plan_Inr[OF posted(5)]
    have len: "length es = length (pi_entries input)" using rows(2) plan(2) by simp
    have nth: "le_tenant_id (es ! k) = tn \<and> le_transaction_id (es ! k) = tx_id t \<and>
        le_line_number (es ! k) = k + 1 \<and> le_account_id (es ! k) = pe_account_id (pi_entries input ! k) \<and>
        le_direction (es ! k) = pe_direction (pi_entries input ! k) \<and>
        le_amount_minor (es ! k) = parse_int (js_trim (pe_amount_minor (pi_entries input ! k))) \<and>
        le_description (es ! k) = pe_description (pi_entries input ! k) \<and>
        positive_numeral (js_trim (pe_amount_minor (pi_entries input ! k)))" if "k < length es" for k
    proof -
      have "k < length (pi_entries input)" using that len by simp
      from plan(3)[OF this] list_all2_nthD2[OF rows(1) that] show ?thesis
        by (auto simp: validate_entry_Inr)
    qed
    have "map le_line_number es = map Suc [0..<length es]"
      using nth by (auto intro!: nth_equalityI)
    then have sorted: "sorted (map le_line_number es)"
      by (simp add: sorted_iff_nth_mono)
    have resp: "pt_transaction_id resp = tx_id t \<and>
        map (\<lambda>p. (po_account_id p, po_direction p, po_amount_minor p)) (pt_entries resp) =
        map (\<lambda>e. (le_account_id e, le_direction e, show_int (le_amount_minor e))) es"
      using posted(9) rendered_entries[OF _ sorted]
      by (auto simp: build_posted_transaction_def and_then_eq_Inr)
    have "map (\<lambda>e. (le_account_id e, le_direction e, show_int (le_amount_minor e))) es =
        map (\<lambda>q. (pe_account_id q, pe_direction q, js_trim (pe_amount_minor q))) (pi_entries input)"
      using nth len by (auto intro!: nth_equalityI simp: show_parse_int)
    with resp nth len c(2,4,5) tn posted(10) show ?thesis
      by (intro exI[of _ t] exI[of _ es]) (simp add: Let_def)
  qed
qed

end
