(* ===== verification/Ledger_Examples.thy ===== *)
theory Ledger_Examples
  imports Ledger_Properties
begin

text \<open>
  A concrete school's ledger for the witnesses: two accounts, a posting of 1500 cents between them
  and its result. The digest of the example runtime is constant, its clock stands at 2000.
\<close>

definition ex_rt :: runtime where
  "ex_rt = \<lparr>rt_tenant_id = Some ''t1'', rt_user_id = ''u1'', rt_request_id = ''r1'',
     rt_trace_id = ''tr1'', rt_span_id = ''s1'', rt_parent_span_id = None, rt_role = Some ''bursar'',
     rt_session_id = None, rt_client_ip = None, rt_user_agent = None, rt_now = 1000,
     rt_clock = 2000, rt_sha256 = (\<lambda>_. ''h''), rt_parse_date = (\<lambda>_. None),
     rt_collate = (\<lambda>x y. x \<le> y), rt_pg_message = (\<lambda>_ _. ''db error''), rt_config = (\<lambda>_. None), rt_config_number = (\<lambda>_. None)\<rparr>"

definition ex_accounts :: "account list" where
  "ex_accounts =
     [\<lparr>ac_id = 1, ac_tenant_id = ''t1'', ac_code = ''1110'', ac_name = ''Cash'', ac_category = Asset,
       ac_normal_balance = Debit, ac_currency_code = ''KES'', ac_allow_manual_entries = True, ac_is_active = True\<rparr>,
      \<lparr>ac_id = 2, ac_tenant_id = ''t1'', ac_code = ''1100'', ac_name = ''Fees'', ac_category = Revenue,
       ac_normal_balance = Credit, ac_currency_code = ''KES'', ac_allow_manual_entries = True, ac_is_active = True\<rparr>]"

definition ex_db :: finance_db where
  "ex_db = \<lparr>fd_idempotency_keys = [], fd_accounts = ex_accounts, fd_transactions = [],
     fd_ledger_entries = [], fd_audit_logs = [], fd_sync_operations = []\<rparr>"

definition ex_input :: post_input where
  "ex_input = \<lparr>pi_idempotency_key = ''k1'', pi_reference = ''REF-1'', pi_description = ''Fees'',
     pi_effective_at = None, pi_posted_at = None, pi_metadata = None,
     pi_entries =
       [\<lparr>pe_account_id = 1, pe_direction = Debit, pe_amount_minor = ''1500'', pe_currency_code = Some '' kes'',
         pe_description = None, pe_metadata = None\<rparr>,
        \<lparr>pe_account_id = 2, pe_direction = Credit, pe_amount_minor = '' 1500'', pe_currency_code = None,
         pe_description = None, pe_metadata = None\<rparr>]\<rparr>"

definition ex_idem_row :: "posted_transaction idem_row" where
  "ex_idem_row = \<lparr>ik_id = 1, ik_tenant_id = ''t1'', ik_user_id = Some ''u1'',
     ik_scope = ''finance:ledger:post'', ik_key = ''k1'', ik_request_method = ''POST'',
     ik_request_path = ''/internal/finance/transactions'', ik_request_hash = ''h'',
     ik_status = IkInProgress, ik_response_status_code = None, ik_response_body = None,
     ik_locked_at = Some 1000, ik_completed_at = None, ik_expires_at = 86401000,
     ik_created_at = 1000, ik_updated_at = 1000\<rparr>"

definition ex_plan :: posting_plan where
  "ex_plan = \<lparr>pp_currency_code = ''KES'', pp_entry_count = 2, pp_total_amount_minor = ''1500'',
     pp_entries =
       [\<lparr>ve_account_id = 1, ve_direction = Debit, ve_amount_minor = ''1500'', ve_currency_code = ''KES'',
         ve_description = None, ve_metadata = None, ve_line_number = 1\<rparr>,
        \<lparr>ve_account_id = 2, ve_direction = Credit, ve_amount_minor = ''1500'', ve_currency_code = ''KES'',
         ve_description = None, ve_metadata = None, ve_line_number = 2\<rparr>]\<rparr>"

definition ex_txn :: fin_transaction where
  "ex_txn = \<lparr>tx_id = 1, tx_tenant_id = ''t1'', tx_idempotency_key_id = 1, tx_reference = ''REF-1'',
     tx_description = ''Fees'', tx_currency_code = ''KES'', tx_total_amount_minor = 1500,
     tx_entry_count = 2, tx_effective_at = 2000, tx_posted_at = 2000,
     tx_created_by_user_id = Some ''u1'', tx_request_id = ''r1'', tx_metadata = JObj []\<rparr>"

definition ex_entries :: "ledger_entry list" where
  "ex_entries =
     [\<lparr>le_id = 1, le_tenant_id = ''t1'', le_transaction_id = 1, le_account_id = 1, le_line_number = 1,
       le_direction = Debit, le_amount_minor = 1500, le_currency_code = ''KES'', le_description = None,
       le_metadata = JObj []\<rparr>,
      \<lparr>le_id = 2, le_tenant_id = ''t1'', le_transaction_id = 1, le_account_id = 2, le_line_number = 2,
       le_direction = Credit, le_amount_minor = 1500, le_currency_code = ''KES'', le_description = None,
       le_metadata = JObj []\<rparr>]"

definition ex_response :: posted_transaction where
  "ex_response = \<lparr>pt_transaction_id = 1, pt_tenant_id = ''t1'', pt_idempotency_key = ''k1'',
     pt_reference = ''REF-1'', pt_description = ''Fees'', pt_currency_code = ''KES'',
     pt_total_amount_minor = ''1500'', pt_entry_count = 2, pt_posted_at = 2000, pt_effective_at = 2000,
     pt_entries =
       [\<lparr>po_entry_id = 1, po_line_number = 1, po_account_id = 1, po_account_code = ''1110'',
         po_account_name = ''Cash'', po_direction = Debit, po_amount_minor = ''1500'',
         po_currency_code = ''KES'', po_description = None\<rparr>,
        \<lparr>po_entry_id = 2, po_line_number = 2, po_account_id = 2, po_account_code = ''1100'',
         po_account_name = ''Fees'', po_direction = Credit, po_amount_minor = ''1500'',
         po_currency_code = ''KES'', po_description = None\<rparr>],
     pt_balances =
       [\<lparr>bs_account_id = 2, bs_account_code = ''1100'', bs_currency_code = ''KES'',
         bs_normal_balance = Credit, bs_debit_total_minor = ''0'', bs_credit_total_minor = ''1500'',
         bs_balance_minor = ''1500''\<rparr>,
        \<lparr>bs_account_id = 1, bs_account_code = ''1110'', bs_currency_code = ''KES'',
         bs_normal_balance = Debit, bs_debit_total_minor = ''1500'', bs_credit_total_minor = ''0'',
         bs_balance_minor = ''1500''\<rparr>]\<rparr>"

text \<open>The tables after the posting.\<close>

definition ex_done_row :: "posted_transaction idem_row" where
  "ex_done_row = completed_fields ex_rt 201 ex_response ex_idem_row"

definition ex_locked_db :: finance_db where
  "ex_locked_db = ex_db\<lparr>fd_idempotency_keys := [ex_idem_row]\<rparr>"

definition ex_db2 :: finance_db where
  "ex_db2 = record_server_operation ''t1'' ex_response (JObj [])
     (record_finance_transaction_posted ex_rt ''t1'' ex_response
       (ex_db\<lparr>fd_idempotency_keys := [ex_done_row], fd_transactions := [ex_txn], fd_ledger_entries := ex_entries\<rparr>))"

lemma ex_lock: "lock_idempotency_key ex_rt ex_input ex_db = Inr (ex_idem_row, ex_locked_db)"
  by code_simp

lemma ex_plan_ok: "build_posting_plan ex_input ex_accounts = Inr ex_plan"
  by code_simp

lemma ex_create: "create_row_for ex_rt ''t1'' ''REF-1'' ''Fees'' ex_input ex_plan 1 ex_locked_db =
    Inr (ex_txn, ex_locked_db\<lparr>fd_transactions := [ex_txn]\<rparr>)"
  by code_simp

lemma ex_insert: "insert_entries ''t1'' 1 (pp_entries ex_plan) (ex_locked_db\<lparr>fd_transactions := [ex_txn]\<rparr>) =
    Inr (ex_entries, ex_locked_db\<lparr>fd_transactions := [ex_txn], fd_ledger_entries := ex_entries\<rparr>)"
  by code_simp

lemma ex_numerals:
  "show_int 1500 = ''1500''" "show_int 0 = ''0''" "parse_int ''1500'' = 1500" "parse_int ''0'' = 0"
  by code_simp+

definition ex_rows_db :: finance_db where
  "ex_rows_db = ex_locked_db\<lparr>fd_transactions := [ex_txn], fd_ledger_entries := ex_entries\<rparr>"

lemma ex_render:
  "build_posted_transaction ex_rt ''t1'' ''k1'' ex_txn ex_accounts ex_entries
     (calculate_balances ex_rows_db ''t1'' [1, 2]) = Inr ex_response"
proof -
  have entries: "traverse (render_entry (account_map ex_accounts)) (sort_key le_line_number ex_entries) =
      Inr (pt_entries ex_response)"
    by code_simp
  have snapshots: "map (\<lambda>a. calculate_balance_snapshot a (calculate_balances ex_rows_db ''t1'' [1, 2] (ac_id a)))
      ex_accounts = rev (pt_balances ex_response)"
    by (simp add: ex_rows_db_def ex_accounts_def ex_response_def ex_locked_db_def ex_entries_def ex_db_def
        calculate_balances_def calculate_balance_snapshot_def find_account_by_id_def account_entries_def
        direction_sum_def js_uniq_def ex_numerals)
  have sorted: "sort_by (\<lambda>l r. rt_collate ex_rt (bs_account_code l) (bs_account_code r))
      (rev (pt_balances ex_response)) = pt_balances ex_response"
    by code_simp
  show ?thesis
    by (simp only: build_posted_transaction_def entries and_then_Inr snapshots sorted)
       (simp add: ex_response_def ex_txn_def ex_numerals)
qed

lemma ex_post: "post_transaction_callback ex_rt ex_input ex_db = Inr (ex_response, ex_db2)"
proof -
  have texts: "require_tenant_id ex_rt = Inr ''t1''"
    "require_non_empty_text (pi_reference ex_input) ''reference'' = Inr ''REF-1''"
    "require_non_empty_text (pi_description ex_input) ''description'' = Inr ''Fees''"
    by code_simp+
  have ids: "sort (js_uniq (map pe_account_id (pi_entries ex_input))) = [1, 2]" by code_simp
  have accounts: "lock_accounts_by_ids ex_locked_db ''t1'' [1, 2] = ex_accounts" by code_simp
  have len: "length ex_accounts = length [1, 2 :: uuid]" by (simp add: ex_accounts_def)
  have nf: "find_by_reference TxOpen ex_locked_db ''t1'' ''REF-1'' = Inr None" by code_simp
  have row: "replay_body ex_idem_row = None" "ik_id ex_idem_row = 1" by (simp_all add: replay_body_def ex_idem_row_def)
  have txn: "tx_id ex_txn = 1" "pi_idempotency_key ex_input = ''k1''" "pi_metadata ex_input = None"
    by (simp_all add: ex_txn_def ex_input_def)
  have new: "post_new ex_rt ''t1'' ex_input ex_plan 1 [1, 2] ex_accounts ex_txn
      (ex_locked_db\<lparr>fd_transactions := [ex_txn]\<rparr>) = Inr (ex_response, ex_db2)"
    unfolding post_new_def txn ex_insert and_then_Inr prod.case
    unfolding ex_rows_db_def [symmetric] ex_render and_then_Inr Let_def
    by (simp add: ex_db2_def ex_rows_db_def ex_locked_db_def idem_mark_completed_def mark_completed_def
        update_where_def ex_done_row_def at_id_def ex_idem_row_def ex_db_def
        record_server_operation_def record_finance_transaction_posted_def create_audit_log_def)
  have "post_locked ex_rt ''t1'' ''REF-1'' ''Fees'' ex_input ex_idem_row ex_locked_db = Inr (ex_response, ex_db2)"
    unfolding post_locked_def ids Let_def accounts ex_plan_ok and_then_Inr nf option.case row ex_create sum.case
      prod.case new
    using len by simp
  then show ?thesis
    unfolding post_transaction_callback_def texts and_then_Inr ex_lock prod.case row by simp
qed

end
