(* ===== verification/Ledger_Claims.thy ===== *)
theory Ledger_Claims
  imports Ledger_Examples
begin

text \<open>
  The properties of the general ledger, each with a witness on the example of \<open>Ledger_Examples\<close>.
\<close>

lemma ex_db_inv: "ledger_inv ex_db"
  by (simp add: ledger_inv_def ex_db_def idem_invar_def accounts_ok_def ex_accounts_def currency_format_def
      is_upper_letter_def)

lemma ex_posted: "post_transaction n ex_rt ex_input ex_db = Inr (ex_response, ex_db2)"
  using ex_post post_transaction_Inr[OF ex_db_inv] by blast

lemma ex_lock_input_exists: "\<exists>li. lock_input_of ex_rt ex_input = Inr li"
  using post_attempt[OF ex_post] by blast

lemma ex_db2_inv: "ledger_inv ex_db2"
  using post_callback_inv[OF ex_db_inv ex_post] .

definition ex_lock_input :: lock_input where
  "ex_lock_input = \<lparr>li_tenant_id = ''t1'', li_user_id = Some ''u1'', li_scope = ''finance:ledger:post'',
     li_key = ''k1'', li_request_hash = ''h'', li_request_method = ''POST'',
     li_request_path = ''/internal/finance/transactions'', li_ttl_seconds = 86400\<rparr>"

lemma ex_lock_input: "lock_input_of ex_rt ex_input = Inr ex_lock_input"
  by code_simp

lemma ex_stored:
  "stored_response (fd_idempotency_keys ex_db2) (input_key ex_lock_input) = Some (''h'', 86401000, ex_response)"
proof -
  have "get_locked_record (fd_idempotency_keys ex_db) (input_key ex_lock_input) = None"
    by (simp add: ex_db_def get_locked_record_def)
  from post_first_use_stored(1)[OF ex_db_inv ex_post ex_lock_input this]
  show ?thesis by (simp add: expiry_after_def ex_rt_def ex_lock_input_def)
qed

lemma ex_db2_sel:
  "fd_transactions ex_db2 = [ex_txn]" "fd_ledger_entries ex_db2 = ex_entries" "fd_accounts ex_db2 = ex_accounts"
  by (simp_all add: ex_db2_def record_server_operation_def record_finance_transaction_posted_def create_audit_log_def ex_db_def)

section \<open>Double entry\<close>

text \<open>C1: Every successful call of \<open>postTransaction\<close>, nested in an open transaction or not, keeps the
  invariant of the ledger's tables: unique ids, references and idempotency keys per tenant, every entry
  belonging to a transaction and an account of its tenant, and every transaction having at least two
  entries of one currency whose debits and credits both equal its recorded total.\<close>

theorem post_transaction_preserves_ledger_inv:
  assumes "ledger_inv db" and "post_transaction nested rt input db = Inr (resp, db')"
  shows "ledger_inv db'"
  using assms post_transaction_Inr post_callback_inv by blast

theorem post_transaction_preserves_ledger_inv_witness:
  "post_transaction False ex_rt ex_input ex_db = Inr (ex_response, ex_db2) \<and> ledger_inv ex_db2"
  using post_transaction_preserves_ledger_inv[OF ex_db_inv ex_posted[of False]] ex_posted[of False] by blast

text \<open>C2: Trial balance: after any sequence of postings, successful or refused, from tables that satisfy
  the invariant, the debits and the credits of every tenant in every currency are equal.\<close>

theorem run_posts_trial_balance:
  assumes "ledger_inv db"
  shows "direction_sum Debit (currency_entries (snd (run_posts ps db)) tenant currency) =
         direction_sum Credit (currency_entries (snd (run_posts ps db)) tenant currency)"
  by (rule trial_balance[OF run_posts_inv[OF assms]])

theorem run_posts_trial_balance_witness:
  "direction_sum Debit (currency_entries (snd (run_posts [(ex_rt, ex_input)] ex_db)) ''t1'' ''KES'') = 1500 \<and>
   direction_sum Credit (currency_entries (snd (run_posts [(ex_rt, ex_input)] ex_db)) ''t1'' ''KES'') = 1500"
proof -
  have "snd (run_posts [(ex_rt, ex_input)] ex_db) = ex_db2"
    by (simp add: post_step_def ex_posted Let_def)
  moreover have "direction_sum Debit (currency_entries ex_db2 ''t1'' ''KES'') = 1500"
    by (simp add: currency_entries_def ex_db2_sel ex_entries_def direction_sum_def)
  ultimately show ?thesis
    using run_posts_trial_balance[OF ex_db_inv, of "[(ex_rt, ex_input)]" "''t1''" "''KES''"] by simp
qed

text \<open>\<open>buildPostingPlan\<close> accepts a request exactly when it has at least two entries, every entry is
  valid against its locked account, all entries come out in one currency with a debit or credit direction,
  and the debits equal the credits.\<close>

theorem build_posting_plan_accepts_iff:
  "(\<exists>plan. build_posting_plan input accounts = Inr plan) \<longleftrightarrow>
     2 \<le> length (pi_entries input) \<and>
     (\<exists>entries c. traverse (validate_entry (account_map accounts))
          (zip [0..<length (pi_entries input)] (pi_entries input)) = Inr entries \<and>
        (\<forall>v\<in>set entries. ve_currency_code v = c \<and> (ve_direction v = Debit \<or> ve_direction v = Credit)) \<and>
        amount_sum Debit entries = amount_sum Credit entries)"
  (is "?L \<longleftrightarrow> ?R")
proof
  assume ?L
  then obtain plan where plan: "build_posting_plan input accounts = Inr plan" by blast
  note ok = build_posting_plan_Inr[OF plan]
  have "traverse (validate_entry (account_map accounts))
      (zip [0..<length (pi_entries input)] (pi_entries input)) = Inr (pp_entries plan)"
    unfolding traverse_Inr_iff using ok(2,3) by (simp add: list_all2_conv_all_nth)
  then show ?R using ok(1,2) unfolding plan_ok_def by auto
next
  assume ?R
  then obtain entries c where n: "2 \<le> length (pi_entries input)"
    and tr: "traverse (validate_entry (account_map accounts))
        (zip [0..<length (pi_entries input)] (pi_entries input)) = Inr entries"
    and e: "\<forall>v\<in>set entries. ve_currency_code v = c \<and> (ve_direction v = Debit \<or> ve_direction v = Credit)"
    and bal: "amount_sum Debit entries = amount_sum Credit entries" by blast
  have "map ve_currency_code entries \<noteq> []" using traverse_length[OF tr] n by auto
  then have "js_uniq (map ve_currency_code entries) = [c]"
    using e by (intro js_uniq_constant) auto
  moreover have "sum_directions 0 0 entries = Inr (amount_sum Debit entries, amount_sum Credit entries)"
    using e by (simp add: sum_directions_Inr)
  ultimately show ?L using n tr bal by (simp add: build_posting_plan_def Let_def)
qed

theorem build_posting_plan_accepts_iff_witness:
  "(\<exists>plan. build_posting_plan ex_input ex_accounts = Inr plan) \<and>
   2 \<le> length (pi_entries ex_input)"
  using build_posting_plan_accepts_iff[of ex_input ex_accounts] ex_plan_ok by blast

text \<open>The service's own validation is at least as strict as the deferred constraint trigger of the
  database: committing the transaction never refuses what \<open>postTransaction\<close> wrote, so a posting behaves
  the same inside an open transaction and as its own transaction.\<close>

theorem deferred_trigger_never_refuses:
  assumes "ledger_inv db"
  shows "post_transaction False rt input db = post_transaction True rt input db"
  using assms by (rule post_transaction_nested_irrelevant)

theorem deferred_trigger_never_refuses_witness:
  "post_transaction False ex_rt ex_input ex_db = post_transaction True ex_rt ex_input ex_db"
  by (rule deferred_trigger_never_refuses[OF ex_db_inv])

text \<open>When a posting plan has been accepted against the locked accounts, all requested accounts were
  found and locked, so the later check of the number of locked accounts never fails; a missing account is
  always reported as not found by the plan.\<close>

lemma accepted_plan_locks_all_accounts:
  assumes "ledger_inv db"
    and "build_posting_plan input
      (lock_accounts_by_ids db tenant (sort (js_uniq (map pe_account_id (pi_entries input))))) = Inr plan"
  shows "length (lock_accounts_by_ids db tenant (sort (js_uniq (map pe_account_id (pi_entries input))))) =
         length (sort (js_uniq (map pe_account_id (pi_entries input))))"
proof (rule plan_account_ids[OF assms(2)])
  have "distinct (map ac_id (fd_accounts db))"
    using assms(1) by (simp add: ledger_inv_def accounts_ok_def)
  then show "distinct (map ac_id (lock_accounts_by_ids db tenant
      (sort (js_uniq (map pe_account_id (pi_entries input))))))"
    by (simp add: lock_accounts_by_ids_def Let_def distinct_map inj_on_def)
  show "ac_id ` set (lock_accounts_by_ids db tenant (sort (js_uniq (map pe_account_id (pi_entries input)))))
      \<subseteq> pe_account_id ` set (pi_entries input)"
    by (auto simp: lock_accounts_by_ids_def Let_def)
qed

lemma accepted_plan_locks_all_accounts_witness:
  "length (lock_accounts_by_ids ex_db ''t1'' (sort (js_uniq (map pe_account_id (pi_entries ex_input))))) =
   length (sort (js_uniq (map pe_account_id (pi_entries ex_input))))"
proof -
  have "lock_accounts_by_ids ex_db ''t1'' (sort (js_uniq (map pe_account_id (pi_entries ex_input)))) = ex_accounts"
    by code_simp
  then show ?thesis
    using accepted_plan_locks_all_accounts[OF ex_db_inv, of ex_input "''t1''" ex_plan] ex_plan_ok by simp
qed

section \<open>What a posting writes\<close>

text \<open>C3: A posting under a key without a stored response and a reference not yet used writes exactly one
  transaction row and one entry row per requested entry: in the order of the request, numbered from one,
  with its account, direction, trimmed amount and description, and the response names that transaction and
  repeats those entries.\<close>

theorem post_transaction_writes_request:
  assumes inv: "ledger_inv db" and post: "post_transaction nested rt input db = Inr (resp, db')"
    and li: "lock_input_of rt input = Inr li"
    and fresh_key: "get_locked_record (fd_idempotency_keys db) (input_key li) = None"
    and fresh_ref: "\<forall>t\<in>set (fd_transactions db).
      \<not> (tx_tenant_id t = li_tenant_id li \<and> tx_reference t = js_trim (pi_reference input))"
  shows "\<exists>t es. fd_transactions db' = fd_transactions db @ [t] \<and>
    fd_ledger_entries db' = fd_ledger_entries db @ es \<and>
    tx_tenant_id t = li_tenant_id li \<and> tx_reference t = js_trim (pi_reference input) \<and>
    tx_description t = js_trim (pi_description input) \<and> pt_transaction_id resp = tx_id t \<and>
    length es = length (pi_entries input) \<and>
    (\<forall>k < length es. let e = es ! k; q = pi_entries input ! k in
       le_tenant_id e = tx_tenant_id t \<and> le_transaction_id e = tx_id t \<and> le_line_number e = k + 1 \<and>
       le_account_id e = pe_account_id q \<and> le_direction e = pe_direction q \<and>
       le_amount_minor e = parse_int (js_trim (pe_amount_minor q)) \<and> le_description e = pe_description q) \<and>
    map (\<lambda>p. (po_account_id p, po_direction p, po_amount_minor p)) (pt_entries resp) =
      map (\<lambda>q. (pe_account_id q, pe_direction q, js_trim (pe_amount_minor q))) (pi_entries input)"
  using posting_writes_request[OF assms] .

theorem post_transaction_writes_request_witness:
  "\<exists>t es. fd_transactions ex_db2 = fd_transactions ex_db @ [t] \<and>
     fd_ledger_entries ex_db2 = fd_ledger_entries ex_db @ es \<and> tx_reference t = ''REF-1'' \<and> length es = 2"
proof -
  have "get_locked_record (fd_idempotency_keys ex_db) (input_key ex_lock_input) = None"
    "\<forall>t\<in>set (fd_transactions ex_db).
       \<not> (tx_tenant_id t = li_tenant_id ex_lock_input \<and> tx_reference t = js_trim (pi_reference ex_input))"
    by (simp_all add: ex_db_def get_locked_record_def)
  from post_transaction_writes_request[OF ex_db_inv ex_posted[of False] ex_lock_input this]
  obtain t es where "fd_transactions ex_db2 = fd_transactions ex_db @ [t]"
    "fd_ledger_entries ex_db2 = fd_ledger_entries ex_db @ es" "tx_reference t = js_trim (pi_reference ex_input)"
    "length es = length (pi_entries ex_input)" by blast
  moreover have "js_trim (pi_reference ex_input) = ''REF-1''" "length (pi_entries ex_input) = 2" by code_simp+
  ultimately show ?thesis by metis
qed

text \<open>Frame of a posting: accounts are never touched, transactions, entries and both logs only grow at
  the end, and no row of another tenant is added to, in the transactions, the entries or the idempotency keys.\<close>

theorem post_transaction_frame:
  assumes inv: "ledger_inv db" and post: "post_transaction nested rt input db = Inr (resp, db')"
  shows "fd_accounts db' = fd_accounts db \<and>
    (\<exists>ts es as ss. fd_transactions db' = fd_transactions db @ ts \<and>
       fd_ledger_entries db' = fd_ledger_entries db @ es \<and> fd_audit_logs db' = fd_audit_logs db @ as \<and>
       fd_sync_operations db' = fd_sync_operations db @ ss \<and>
       (\<forall>t\<in>set ts. rt_tenant_id rt = Some (tx_tenant_id t)) \<and>
       (\<forall>e\<in>set es. rt_tenant_id rt = Some (le_tenant_id e))) \<and>
    (\<forall>k. rt_tenant_id rt \<noteq> Some (fst k) \<longrightarrow>
       stored_response (fd_idempotency_keys db') k = stored_response (fd_idempotency_keys db) k)"
proof -
  have cb: "post_transaction_callback rt input db = Inr (resp, db')"
    using post post_transaction_Inr[OF inv] by simp
  have idem: "idem_invar (fd_idempotency_keys db)" using inv by (simp add: ledger_inv_def)
  from post_attempt[OF cb] obtain lj work where lj: "lock_input_of rt input = Inr lj"
    and at: "finance_idem.attempt rt lj work (fd_idempotency_keys db) = (Inr resp, fd_idempotency_keys db')"
    by blast
  have keys: "stored_response (fd_idempotency_keys db') k = stored_response (fd_idempotency_keys db) k"
    if "rt_tenant_id rt \<noteq> Some (fst k)" for k
  proof -
    have "k \<noteq> input_key lj" using that lock_input_ofD(2)[OF lj] by (auto simp: input_key_def)
    from finance_idem.attempt_stored_other[OF idem this, of rt work] at show ?thesis by simp
  qed
  have "fd_accounts db' = fd_accounts db \<and>
    (\<exists>ts es as ss. fd_transactions db' = fd_transactions db @ ts \<and>
       fd_ledger_entries db' = fd_ledger_entries db @ es \<and> fd_audit_logs db' = fd_audit_logs db @ as \<and>
       fd_sync_operations db' = fd_sync_operations db @ ss \<and>
       (\<forall>t\<in>set ts. rt_tenant_id rt = Some (tx_tenant_id t)) \<and>
       (\<forall>e\<in>set es. rt_tenant_id rt = Some (le_tenant_id e)))"
    using cb
  proof (cases rule: post_cases)
    case (posted tn lj r rows plan t es audits syncs)
    have "rt_tenant_id rt = Some tn"
      using posted(1) by (auto simp: require_tenant_id_def split: option.splits if_splits)
    then show ?thesis
      using posted(10) create_row_for_Inr(2)[OF posted(7)]
        inserted_rows(3)[OF insert_entries_Inr(2)[OF posted(8)]]
      by (intro conjI exI[of _ "[t]"] exI[of _ es] exI[of _ audits] exI[of _ syncs]) simp_all
  qed auto
  with keys show ?thesis by blast
qed

theorem post_transaction_frame_witness:
  "post_transaction False ex_rt ex_input ex_db = Inr (ex_response, ex_db2) \<and>
   fd_accounts ex_db2 = fd_accounts ex_db"
  using post_transaction_frame[OF ex_db_inv ex_posted[of False]] ex_posted[of False] by blast

section \<open>Idempotency\<close>

text \<open>C4: Replay: after a first posting under a fresh key, the same request of the same tenant, by any user
  and before the key's expiry, returns the stored response and leaves every table as it is.\<close>

theorem post_transaction_replays:
  assumes "ledger_inv db" and "post_transaction nested rt input db = Inr (resp, db')"
    and "lock_input_of rt input = Inr li"
    and "get_locked_record (fd_idempotency_keys db) (input_key li) = None"
    and "rt_tenant_id rt' = rt_tenant_id rt" and "rt_sha256 rt' = rt_sha256 rt"
    and "rt_clock rt' < rt_now rt + 1000 * li_ttl_seconds li"
  shows "post_transaction nested' rt' input db' = Inr (resp, db')"
proof -
  have cb: "post_transaction_callback rt input db = Inr (resp, db')"
    using assms(2) post_transaction_Inr[OF assms(1)] by simp
  have "rt_clock rt' < expiry_after rt li" using assms(7) by (simp add: expiry_after_def)
  from post_replay[OF assms(1) cb assms(3,4,5,6) this] show ?thesis
    using post_transaction_Inr[OF post_callback_inv[OF assms(1) cb]] by blast
qed

theorem post_transaction_replays_witness:
  "post_transaction False (ex_rt\<lparr>rt_clock := 50000, rt_user_id := ''u2''\<rparr>) ex_input ex_db2 =
     Inr (ex_response, ex_db2)"
  by (rule post_transaction_replays[OF ex_db_inv ex_posted[of False] ex_lock_input])
    (simp_all add: ex_db_def get_locked_record_def ex_rt_def ex_lock_input_def)

text \<open>C5: A key whose stored response has not expired refuses a request with another payload digest.\<close>

theorem post_transaction_key_conflict:
  assumes "ledger_inv db" and "lock_input_of rt input = Inr li" and "valid_lock_input li"
    and "stored_response (fd_idempotency_keys db) (input_key li) = Some (h, e, b)"
    and "h \<noteq> li_request_hash li" and "rt_clock rt < e"
    and "js_trim (pi_reference input) \<noteq> []" and "js_trim (pi_description input) \<noteq> []"
  shows "post_transaction nested rt input db =
    Inl (ConflictException ''Idempotency key has already been used with a different request payload'')"
proof -
  obtain r where r: "get_locked_record (fd_idempotency_keys db) (input_key li) = Some r"
      "ik_request_hash r = h" "ik_expires_at r = e"
    using stored_responseD[OF assms(4)] by blast
  have "finance_lock_request rt li (fd_idempotency_keys db) =
      Inl (ConflictException ''Idempotency key has already been used with a different request payload'')"
    using lock_request_hit[OF assms(3) r(1)] r(2,3) assms(5,6) by (simp add: finance_lock_request_def)
  then show ?thesis
    using lock_input_ofD(1)[OF assms(2)] assms(2,7,8)
    by (simp add: post_transaction_def with_request_transaction_def post_transaction_callback_def
        require_non_empty_text_def lock_idempotency_key_def)
qed

theorem post_transaction_key_conflict_witness:
  "post_transaction False (ex_rt\<lparr>rt_sha256 := (\<lambda>_. ''g'')\<rparr>) ex_input ex_db2 =
    Inl (ConflictException ''Idempotency key has already been used with a different request payload'')"
proof (rule post_transaction_key_conflict[OF ex_db2_inv, of _ _ "ex_lock_input\<lparr>li_request_hash := ''g''\<rparr>" "''h''" 86401000 ex_response])
  show "lock_input_of (ex_rt\<lparr>rt_sha256 := (\<lambda>_. ''g'')\<rparr>) ex_input = Inr (ex_lock_input\<lparr>li_request_hash := ''g''\<rparr>)"
    by code_simp
  show "valid_lock_input (ex_lock_input\<lparr>li_request_hash := ''g''\<rparr>)"
    "js_trim (pi_reference ex_input) \<noteq> []" "js_trim (pi_description ex_input) \<noteq> []" by code_simp+
  show "stored_response (fd_idempotency_keys ex_db2) (input_key (ex_lock_input\<lparr>li_request_hash := ''g''\<rparr>)) =
      Some (''h'', 86401000, ex_response)"
    using ex_stored by (simp add: input_key_def)
qed (simp_all add: ex_rt_def)

text \<open>Exactly once: once a key holds a response, any sequence of later postings, by any tenants and
  under any keys, run before its expiry keeps that response, and every one of them that uses the key
  returns that very response or fails.\<close>

theorem run_posts_exactly_once:
  assumes "ledger_inv db" and "stored_response (fd_idempotency_keys db) k = Some (h, e, b)"
    and "\<forall>(rt, input)\<in>set ps. rt_clock rt < e"
  shows "stored_response (fd_idempotency_keys (snd (run_posts ps db))) k = Some (h, e, b) \<and>
    (\<forall>n rt input li. n < length ps \<and> ps ! n = (rt, input) \<and> lock_input_of rt input = Inr li \<and> input_key li = k \<longrightarrow>
       fst (run_posts ps db) ! n = Inr b \<or> (\<exists>x. fst (run_posts ps db) ! n = Inl x))"
  using run_posts_stored[OF assms] by blast

theorem run_posts_exactly_once_witness:
  "stored_response (fd_idempotency_keys (snd (run_posts [(ex_rt, ex_input), (ex_rt, ex_input)] ex_db2)))
     (input_key ex_lock_input) = Some (''h'', 86401000, ex_response)"
  using run_posts_exactly_once[OF ex_db2_inv ex_stored, of "[(ex_rt, ex_input), (ex_rt, ex_input)]"]
  by (simp add: ex_rt_def)

section \<open>References\<close>

lemma hydrated_response:
  "hydrate_posted_transaction rt tenant k t db = Inr resp \<Longrightarrow>
     pt_transaction_id resp = tx_id t \<and> pt_reference resp = tx_reference t \<and> pt_description resp = tx_description t"
  by (auto simp: hydrate_posted_transaction_def build_posted_transaction_def and_then_eq_Inr Let_def split: if_splits)

text \<open>No double posting: when the tenant already has a transaction under the request's reference, a
  successful posting under any idempotency key adds no transaction, no entry and no log line; if the key had
  no response yet, the answer is the existing transaction, and its description is the requested one.\<close>

theorem reference_never_posted_twice:
  assumes inv: "ledger_inv db" and post: "post_transaction nested rt input db = Inr (resp, db')"
    and li: "lock_input_of rt input = Inr li"
    and t: "t \<in> set (fd_transactions db)" "tx_tenant_id t = li_tenant_id li"
      "tx_reference t = js_trim (pi_reference input)"
  shows "fd_transactions db' = fd_transactions db \<and> fd_ledger_entries db' = fd_ledger_entries db \<and>
    fd_audit_logs db' = fd_audit_logs db \<and> fd_sync_operations db' = fd_sync_operations db \<and>
    (get_locked_record (fd_idempotency_keys db) (input_key li) = None \<longrightarrow>
       pt_transaction_id resp = tx_id t \<and> tx_description t = js_trim (pi_description input))"
proof -
  have cb: "post_transaction_callback rt input db = Inr (resp, db')"
    using post post_transaction_Inr[OF inv] by simp
  have idem: "idem_invar (fd_idempotency_keys db)" using inv by (simp add: ledger_inv_def)
  from cb show ?thesis
  proof (cases rule: post_cases)
    case (replay lj r rows)
    then have "get_locked_record (fd_idempotency_keys db) (input_key li) \<noteq> None"
      using lock_request_first_use(2)[OF idem, of _ _ rt lj r rows] li by (auto simp: finance_lock_request_def)
    with replay show ?thesis by auto
  next
    case (reuse tn lj r rows plan u)
    have "tn = li_tenant_id li" using reuse(1) lock_input_ofD(1)[OF li] by simp
    then have "(tx_tenant_id u, tx_reference u) = (tx_tenant_id t, tx_reference t)"
      using reuse(7,8) t by simp
    then have "u = t"
      using inv reuse(6) t(1) unfolding ledger_inv_def distinct_map by (auto dest: inj_onD)
    moreover have "pt_description resp = js_trim (pi_description input)"
      using reuse(10) by (auto simp: assert_reference_reuse_compatible_def and_then_eq_Inr)
    ultimately show ?thesis
      using reuse(11) hydrated_response[OF reuse(9)] by simp
  next
    case (posted tn lj r rows plan u es audits syncs)
    have "tn = li_tenant_id li" using posted(1) lock_input_ofD(1)[OF li] by simp
    with posted(6) t show ?thesis by blast
  qed
qed

theorem reference_never_posted_twice_witness:
  "\<exists>db'. post_transaction False (ex_rt\<lparr>rt_clock := 50000\<rparr>) ex_input ex_db2 = Inr (ex_response, db') \<and>
     fd_transactions db' = [ex_txn]"
proof -
  have "post_transaction_callback (ex_rt\<lparr>rt_clock := 50000\<rparr>) ex_input ex_db2 = Inr (ex_response, ex_db2)"
    by (rule post_replay[OF ex_db_inv ex_post ex_lock_input])
      (simp_all add: ex_db_def get_locked_record_def ex_rt_def ex_lock_input_def expiry_after_def)
  then have post: "post_transaction False (ex_rt\<lparr>rt_clock := 50000\<rparr>) ex_input ex_db2 = Inr (ex_response, ex_db2)"
    using post_transaction_Inr[OF ex_db2_inv] by blast
  have li: "lock_input_of (ex_rt\<lparr>rt_clock := 50000\<rparr>) ex_input = Inr ex_lock_input" by code_simp
  have "ex_txn \<in> set (fd_transactions ex_db2)" "tx_tenant_id ex_txn = li_tenant_id ex_lock_input"
    "tx_reference ex_txn = js_trim (pi_reference ex_input)"
    using ex_db2_sel by (simp, code_simp, code_simp)
  from reference_never_posted_twice[OF ex_db2_inv post li this] post ex_db2_sel show ?thesis by auto
qed

text \<open>An expired idempotency key of a posted transaction cannot be used again for a new reference: the
  lock resets the row but keeps its id, which the posted transaction still holds under the unique constraint
  on \<open>(tenant_id, idempotency_key_id)\<close>, so every such request fails.\<close>

theorem expired_key_cannot_post_again:
  assumes inv: "ledger_inv db" and li: "lock_input_of rt input = Inr li"
    and row: "get_locked_record (fd_idempotency_keys db) (input_key li) = Some r0"
    and expired: "ik_expires_at r0 \<le> rt_clock rt"
    and used: "t0 \<in> set (fd_transactions db)" "tx_tenant_id t0 = li_tenant_id li"
      "tx_idempotency_key_id t0 = ik_id r0"
    and new_ref: "\<forall>t\<in>set (fd_transactions db).
      \<not> (tx_tenant_id t = li_tenant_id li \<and> tx_reference t = js_trim (pi_reference input))"
  shows "\<exists>e. post_transaction nested rt input db = Inl e"
proof (rule ccontr)
  assume "\<not> ?thesis"
  then obtain resp db' where "post_transaction nested rt input db = Inr (resp, db')"
    by (cases "post_transaction nested rt input db") auto
  then have cb: "post_transaction_callback rt input db = Inr (resp, db')"
    using post_transaction_Inr[OF inv] by simp
  have idem: "idem_invar (fd_idempotency_keys db)" using inv by (simp add: ledger_inv_def)
  from cb show False
  proof (cases rule: post_cases)
    case (replay lj r rows)
    then show ?thesis
      using lock_request_id(2)[OF idem, of _ _ rt li r rows r0] row expired li
      by (auto simp: finance_lock_request_def)
  next
    case (reuse tn lj r rows plan u)
    then show ?thesis using new_ref lock_input_ofD(1)[OF li] by auto
  next
    case (posted tn lj r rows plan t es audits syncs)
    have tn: "tn = li_tenant_id li" using posted(1) lock_input_ofD(1)[OF li] by simp
    have "ik_id r = ik_id r0"
      using lock_request_id(1)[OF idem, of _ _ rt li r rows r0] row posted(2,3) li
      by (auto simp: finance_lock_request_def)
    with create_row_for_Inr(2,3,9)[OF posted(7)] used tn show ?thesis
      by (auto simp: transaction_constraints_Inr)
  qed
qed

theorem expired_key_cannot_post_again_witness:
  "\<exists>e. post_transaction False (ex_rt\<lparr>rt_clock := 86401000\<rparr>) (ex_input\<lparr>pi_reference := ''REF-2''\<rparr>) ex_db2 = Inl e"
proof (rule expired_key_cannot_post_again[OF ex_db2_inv])
  show "lock_input_of (ex_rt\<lparr>rt_clock := 86401000\<rparr>) (ex_input\<lparr>pi_reference := ''REF-2''\<rparr>) = Inr ex_lock_input"
    by code_simp
  have "fd_idempotency_keys ex_db2 = [ex_done_row]"
    by (simp add: ex_db2_def record_server_operation_def record_finance_transaction_posted_def create_audit_log_def)
  then show "get_locked_record (fd_idempotency_keys ex_db2) (input_key ex_lock_input) = Some ex_done_row"
    by (simp add: get_locked_record_def ex_done_row_def row_key_def completed_fields_def ex_idem_row_def
        input_key_def ex_lock_input_def)
  show "ik_expires_at ex_done_row \<le> rt_clock (ex_rt\<lparr>rt_clock := 86401000\<rparr>)"
    by (simp add: ex_done_row_def completed_fields_def ex_idem_row_def)
  show "ex_txn \<in> set (fd_transactions ex_db2)" by (simp add: ex_db2_sel)
  show "tx_tenant_id ex_txn = li_tenant_id ex_lock_input" "tx_idempotency_key_id ex_txn = ik_id ex_done_row"
    by (simp_all add: ex_txn_def ex_lock_input_def ex_done_row_def completed_fields_def ex_idem_row_def)
  have "js_trim (pi_reference (ex_input\<lparr>pi_reference := ''REF-2''\<rparr>)) = ''REF-2''" by code_simp
  then show "\<forall>t\<in>set (fd_transactions ex_db2). \<not> (tx_tenant_id t = li_tenant_id ex_lock_input \<and>
      tx_reference t = js_trim (pi_reference (ex_input\<lparr>pi_reference := ''REF-2''\<rparr>)))"
    by (simp add: ex_db2_sel ex_txn_def)
qed

text \<open>\<open>getAccountBalance\<close> of an account of the tenant is the account's balance in its normal
  direction: the signed sum of all its ledger entries, printed in decimal, whatever the size of the sums.\<close>

theorem get_account_balance_correct:
  assumes "ledger_inv db" and "rt_tenant_id rt = Some tenant" and "tenant \<noteq> []"
    and "a \<in> set (fd_accounts db)" and "ac_tenant_id a = tenant"
  shows "\<exists>s. get_account_balance rt (ac_id a) db = Inr s \<and> bs_account_code s = ac_code a \<and>
    bs_balance_minor s = show_int
      (if ac_normal_balance a = Debit
       then direction_sum Debit (account_entries db tenant (ac_id a)) -
            direction_sum Credit (account_entries db tenant (ac_id a))
       else direction_sum Credit (account_entries db tenant (ac_id a)) -
            direction_sum Debit (account_entries db tenant (ac_id a)))"
proof -
  have "find_account_by_id db tenant (ac_id a) = Some a"
    unfolding find_account_by_id_def
    using assms by (intro select_first_unique[where key = ac_id]) (auto simp: ledger_inv_def accounts_ok_def)
  then show ?thesis
    using assms(2,3) by (simp add: get_account_balance_def require_tenant_id_def calculate_balances_def
        calculate_balance_snapshot_def js_uniq_def Let_def)
qed

theorem get_account_balance_correct_witness:
  "\<exists>s. get_account_balance ex_rt 1 ex_db2 = Inr s \<and> bs_balance_minor s = ''1500''"
proof -
  let ?a = "hd ex_accounts"
  have a: "?a \<in> set (fd_accounts ex_db2)" "ac_tenant_id ?a = ''t1''" "ac_id ?a = 1" "ac_normal_balance ?a = Debit"
    by (simp_all add: ex_db2_sel ex_accounts_def)
  have sums: "direction_sum Debit (account_entries ex_db2 ''t1'' 1) - direction_sum Credit (account_entries ex_db2 ''t1'' 1) = 1500"
    by (simp add: account_entries_def ex_db2_sel ex_entries_def direction_sum_def)
  have "rt_tenant_id ex_rt = Some ''t1''" by (simp add: ex_rt_def)
  from get_account_balance_correct[OF ex_db2_inv this _ a(1,2)] a(3,4) sums ex_numerals(1)
  show ?thesis by auto
qed

end
