(* ===== verification/Outbox.thy ===== *)
theory Outbox
  imports Finance_Store
begin

text \<open>
  The transactional outbox (\<open>modules/events\<close>): the tables \<open>outbox_events\<close> and
  \<open>event_consumer_runs\<close> with their repositories, \<open>EventPublisherService\<close>, the claiming function
  \<open>app.claim_outbox_events\<close> with the dispatcher that calls it, and \<open>EventConsumerService\<close> with the
  two registered consumers. Times are milliseconds.
\<close>

datatype outbox_status = EvPending | EvProcessing | EvPublished | EvFailed | EvDiscarded

record outbox_event =
  oe_id :: uuid
  oe_tenant_id :: string
  oe_event_key :: string
  oe_event_name :: string
  oe_aggregate_type :: string
  oe_aggregate_id :: uuid
  oe_payload :: json
  oe_headers :: "(string \<times> json) list"
  oe_status :: outbox_status
  oe_attempt_count :: nat
  oe_available_at :: int
  oe_published_at :: "int option"
  oe_last_error :: "string option"
  oe_created_at :: int
  oe_updated_at :: int

datatype run_status = RunProcessing | RunCompleted | RunFailed

record consumer_run =
  cr_id :: uuid
  cr_tenant_id :: string
  cr_outbox_event_id :: uuid
  cr_event_key :: string
  cr_consumer_name :: string
  cr_status :: run_status
  cr_attempt_count :: nat
  cr_last_error :: "string option"
  cr_processed_at :: "int option"
  cr_updated_at :: int

record events_db = finance_db +
  ev_outbox :: "outbox_event list"
  ev_runs :: "consumer_run list"

section \<open>\<open>OutboxEventsRepository\<close>\<close>

record publish_input =
  pb_event_key :: string
  pb_event_name :: string
  pb_aggregate_type :: string
  pb_aggregate_id :: uuid
  pb_payload :: json
  pb_headers :: "(string \<times> json) list"
  pb_available_at :: "int option"

definition same_event_key :: "string \<Rightarrow> string \<Rightarrow> outbox_event \<Rightarrow> bool" where
  "same_event_key tenant key e \<longleftrightarrow> oe_tenant_id e = tenant \<and> oe_event_key e = key"

definition event_at :: "string \<Rightarrow> uuid \<Rightarrow> outbox_event \<Rightarrow> bool" where
  "event_at tenant i e \<longleftrightarrow> oe_tenant_id e = tenant \<and> oe_id e = i"

definition new_event :: "runtime \<Rightarrow> string \<Rightarrow> publish_input \<Rightarrow> uuid \<Rightarrow> outbox_event" where
  "new_event rt tenant input i =
     \<lparr>oe_id = i, oe_tenant_id = tenant, oe_event_key = pb_event_key input,
      oe_event_name = pb_event_name input, oe_aggregate_type = pb_aggregate_type input,
      oe_aggregate_id = pb_aggregate_id input, oe_payload = pb_payload input,
      oe_headers = pb_headers input, oe_status = EvPending, oe_attempt_count = 0,
      oe_available_at = (case pb_available_at input of None \<Rightarrow> rt_now rt | Some t \<Rightarrow> t),
      oe_published_at = None, oe_last_error = None, oe_created_at = rt_now rt, oe_updated_at = rt_now rt\<rparr>"

definition outbox_checks :: "publish_input \<Rightarrow> unit result" where
  "outbox_checks input =
     and_then (guard (not_blank (pb_event_key input)) (PgError ''23514'' ''ck_outbox_events_event_key_not_blank'')) (\<lambda>_.
     and_then (guard (not_blank (pb_event_name input)) (PgError ''23514'' ''ck_outbox_events_event_name_not_blank'')) (\<lambda>_.
     guard (not_blank (pb_aggregate_type input)) (PgError ''23514'' ''ck_outbox_events_aggregate_type_not_blank'')))"

definition merge_headers :: "runtime \<Rightarrow> publish_input \<Rightarrow> outbox_event \<Rightarrow> outbox_event" where
  "merge_headers rt input e =
     e\<lparr>oe_headers := json_merge (oe_headers e) (pb_headers input), oe_updated_at := rt_now rt\<rparr>"

text \<open>\<open>createEvent\<close>: insert, or merge the headers into the row that has the key.\<close>

definition create_event ::
  "runtime \<Rightarrow> string \<Rightarrow> publish_input \<Rightarrow> 'a events_db_scheme \<Rightarrow> 'a events_db_scheme result" where
  "create_event rt tenant input db =
     and_then (outbox_checks input) (\<lambda>_.
     Inr (case select_first (same_event_key tenant (pb_event_key input)) (ev_outbox db) of
            Some _ \<Rightarrow>
              db\<lparr>ev_outbox := update_where (same_event_key tenant (pb_event_key input))
                               (merge_headers rt input) (ev_outbox db)\<rparr>
          | None \<Rightarrow>
              db\<lparr>ev_outbox := ev_outbox db @
                   [new_event rt tenant input (fresh_uuid (map oe_id (ev_outbox db)))]\<rparr>))"

definition find_event :: "'a events_db_scheme \<Rightarrow> string \<Rightarrow> uuid \<Rightarrow> outbox_event option" where
  "find_event db tenant i = select_first (event_at tenant i) (ev_outbox db)"

definition published_fields :: "runtime \<Rightarrow> outbox_event \<Rightarrow> outbox_event" where
  "published_fields rt e =
     e\<lparr>oe_status := EvPublished, oe_published_at := Some (rt_now rt), oe_last_error := None,
       oe_updated_at := rt_now rt\<rparr>"

definition mark_published :: "runtime \<Rightarrow> string \<Rightarrow> uuid \<Rightarrow> 'a events_db_scheme \<Rightarrow> 'a events_db_scheme" where
  "mark_published rt tenant i db =
     db\<lparr>ev_outbox := update_where (event_at tenant i) (published_fields rt) (ev_outbox db)\<rparr>"

definition failed_fields :: "runtime \<Rightarrow> string \<Rightarrow> int \<Rightarrow> int \<Rightarrow> outbox_event \<Rightarrow> outbox_event" where
  "failed_fields rt message retry_delay max_attempts e =
     e\<lparr>oe_status := (if max_attempts \<le> int (oe_attempt_count e) then EvDiscarded else EvFailed),
       oe_available_at := (if max_attempts \<le> int (oe_attempt_count e) then rt_now rt else rt_now rt + retry_delay),
       oe_last_error := Some message, oe_updated_at := rt_now rt\<rparr>"

definition mark_event_failed ::
  "runtime \<Rightarrow> string \<Rightarrow> uuid \<Rightarrow> string \<Rightarrow> int \<Rightarrow> int \<Rightarrow> 'a events_db_scheme \<Rightarrow> 'a events_db_scheme" where
  "mark_event_failed rt tenant i message retry_delay max_attempts db =
     db\<lparr>ev_outbox := update_where (event_at tenant i)
          (failed_fields rt message retry_delay max_attempts) (ev_outbox db)\<rparr>"

section \<open>\<open>EventPublisherService\<close>\<close>

definition require_event_text :: "string \<Rightarrow> string \<Rightarrow> string result" where
  "require_event_text v field =
     (if js_trim v = [] then Inl (BadRequestException (''Domain event '' @ field @ '' is required''))
      else Inr (js_trim v))"

definition context_headers :: "runtime \<Rightarrow> (string \<times> json) list" where
  "context_headers rt =
     [(''request_id'', JStr (rt_request_id rt)), (''trace_id'', JStr (rt_trace_id rt)),
      (''span_id'', JStr (rt_span_id rt)), (''parent_span_id'', json_opt (rt_parent_span_id rt)),
      (''user_id'', json_opt (acting_user rt)), (''role'', json_opt (rt_role rt)),
      (''session_id'', json_opt (rt_session_id rt))]"

definition publish ::
  "runtime \<Rightarrow> string option \<Rightarrow> publish_input \<Rightarrow> 'a events_db_scheme \<Rightarrow> 'a events_db_scheme result" where
  "publish rt tenant_id input db =
     (case (case tenant_id of Some t \<Rightarrow> Some t | None \<Rightarrow> rt_tenant_id rt) of
        None \<Rightarrow> Inl (BadRequestException ''Tenant context is required for domain event publishing'')
      | Some tenant \<Rightarrow>
          if tenant = [] then
            Inl (BadRequestException ''Tenant context is required for domain event publishing'')
          else
            and_then (require_event_text (pb_event_key input) ''event_key'') (\<lambda>key.
            and_then (require_event_text (pb_aggregate_type input) ''aggregate_type'') (\<lambda>atype.
            and_then (require_event_text (uuid_text (pb_aggregate_id input)) ''aggregate_id'') (\<lambda>_.
              create_event rt tenant
                (input\<lparr>pb_event_key := key, pb_aggregate_type := atype,
                       pb_headers := json_merge (context_headers rt) (pb_headers input)\<rparr>) db))))"

definition publish_payment_completed ::
  "runtime \<Rightarrow> uuid \<Rightarrow> json \<Rightarrow> 'a events_db_scheme \<Rightarrow> 'a events_db_scheme result" where
  "publish_payment_completed rt intent_id payload =
     publish rt None
       \<lparr>pb_event_key = ''payment.completed:'' @ uuid_text intent_id, pb_event_name = ''payment.completed'',
        pb_aggregate_type = ''payment'', pb_aggregate_id = intent_id, pb_payload = payload,
        pb_headers = [], pb_available_at = None\<rparr>"

definition publish_student_created ::
  "runtime \<Rightarrow> uuid \<Rightarrow> json \<Rightarrow> 'a events_db_scheme \<Rightarrow> 'a events_db_scheme result" where
  "publish_student_created rt student_id payload =
     publish rt None
       \<lparr>pb_event_key = ''student.created:'' @ uuid_text student_id, pb_event_name = ''student.created'',
        pb_aggregate_type = ''student'', pb_aggregate_id = student_id, pb_payload = payload,
        pb_headers = [], pb_available_at = None\<rparr>"

section \<open>Claiming and dispatching\<close>

definition claimable :: "runtime \<Rightarrow> int \<Rightarrow> outbox_event \<Rightarrow> bool" where
  "claimable rt stale_ms e \<longleftrightarrow>
     (oe_status e = EvPending \<and> oe_available_at e \<le> rt_now rt) \<or>
     (oe_status e = EvFailed \<and> oe_available_at e \<le> rt_now rt) \<or>
     (oe_status e = EvProcessing \<and> oe_updated_at e \<le> rt_now rt - stale_ms)"

definition claimed_fields :: "runtime \<Rightarrow> outbox_event \<Rightarrow> outbox_event" where
  "claimed_fields rt e =
     e\<lparr>oe_status := EvProcessing, oe_attempt_count := oe_attempt_count e + 1, oe_last_error := None,
       oe_updated_at := rt_now rt\<rparr>"

record claimed_event =
  ce_id :: uuid
  ce_tenant_id :: string
  ce_request_id :: string
  ce_trace_id :: string
  ce_span_id :: "string option"
  ce_user_id :: string
  ce_role :: string
  ce_session_id :: "string option"

definition claimed_event_of :: "outbox_event \<Rightarrow> claimed_event" where
  "claimed_event_of e =
     (let header = (\<lambda>k. nullif_empty (json_field (oe_headers e) k));
          fallback = ''outbox:'' @ uuid_text (oe_id e)
      in \<lparr>ce_id = oe_id e, ce_tenant_id = oe_tenant_id e,
          ce_request_id = or_default (header ''request_id'') fallback,
          ce_trace_id = or_default (or_else (header ''trace_id'') (header ''request_id'')) fallback,
          ce_span_id = header ''span_id'',
          ce_user_id = or_default (header ''user_id'') ''anonymous'',
          ce_role = or_default (header ''role'') ''system'',
          ce_session_id = header ''session_id''\<rparr>)"

text \<open>
  The candidates in claiming order. \<open>locked\<close> are the rows other transactions hold, which
  \<open>FOR UPDATE SKIP LOCKED\<close> passes over.
\<close>

definition claim_candidates ::
  "runtime \<Rightarrow> (uuid \<Rightarrow> bool) \<Rightarrow> int \<Rightarrow> int \<Rightarrow> outbox_event list \<Rightarrow> outbox_event list" where
  "claim_candidates rt locked batch_size stale_ms es =
     take (nat batch_size)
       (sort_key (\<lambda>e. (oe_available_at e, oe_created_at e))
         (filter (\<lambda>e. claimable rt stale_ms e \<and> \<not> locked (oe_id e)) es))"

definition claim_outbox_events ::
  "runtime \<Rightarrow> (uuid \<Rightarrow> bool) \<Rightarrow> int \<Rightarrow> int \<Rightarrow> 'a events_db_scheme \<Rightarrow>
     (claimed_event list \<times> 'a events_db_scheme) result" where
  "claim_outbox_events rt locked batch_size stale_ms db =
     (if batch_size < 1 then Inl (PgError ''22023'' ''batch_size must be greater than zero'')
      else if stale_ms < 0 then Inl (PgError ''22023'' ''stale_processing_after_ms must be zero or greater'')
      else
        (let ids = map oe_id (claim_candidates rt locked batch_size stale_ms (ev_outbox db));
             db' = db\<lparr>ev_outbox := update_where (\<lambda>e. oe_id e \<in> set ids) (claimed_fields rt) (ev_outbox db)\<rparr>
         in Inr (map claimed_event_of (filter (\<lambda>e. oe_id e \<in> set ids) (ev_outbox db')), db')))"

definition retry_delay_ms :: "runtime \<Rightarrow> int" where
  "retry_delay_ms rt = config_number rt ''events.retryDelayMs'' 5000"

definition max_attempts :: "runtime \<Rightarrow> int" where
  "max_attempts rt = config_number rt ''events.maxAttempts'' 25"

text \<open>
  One run of the dispatcher. \<open>enqueue\<close> stands for the job queue's \<open>addBulk\<close>: the ids it was given,
  and the message of its error if it threw. \<open>is_dispatching\<close> is the flag of a run in progress.
\<close>

definition dispatch_pending_events ::
  "bool \<Rightarrow> runtime \<Rightarrow> (uuid \<Rightarrow> bool) \<Rightarrow> (uuid list \<Rightarrow> string option) \<Rightarrow> 'a events_db_scheme \<Rightarrow>
     nat \<times> 'a events_db_scheme" where
  "dispatch_pending_events is_dispatching rt locked enqueue db =
     (if is_dispatching then (0, db)
      else
        (case claim_outbox_events rt locked (config_number rt ''events.dispatcherBatchSize'' 100)
                (config_number rt ''events.staleProcessingAfterMs'' 30000) db of
           Inl _ \<Rightarrow> (0, db)
         | Inr (events, db1) \<Rightarrow>
             if events = [] then (0, db1)
             else
               (case enqueue (map ce_id events) of
                  None \<Rightarrow> (length events, db1)
                | Some message \<Rightarrow>
                    (0, fold (\<lambda>c. mark_event_failed rt (ce_tenant_id c) (ce_id c) message
                              (retry_delay_ms rt) (max_attempts rt)) events db1))))"

section \<open>\<open>EventConsumerRunsRepository\<close>\<close>

definition run_for :: "string \<Rightarrow> uuid \<Rightarrow> string \<Rightarrow> consumer_run \<Rightarrow> bool" where
  "run_for tenant i name r \<longleftrightarrow>
     cr_tenant_id r = tenant \<and> cr_outbox_event_id r = i \<and> cr_consumer_name r = name"

definition run_at :: "string \<Rightarrow> uuid \<Rightarrow> consumer_run \<Rightarrow> bool" where
  "run_at tenant i r \<longleftrightarrow> cr_tenant_id r = tenant \<and> cr_id r = i"

definition new_run :: "runtime \<Rightarrow> outbox_event \<Rightarrow> string \<Rightarrow> uuid \<Rightarrow> consumer_run" where
  "new_run rt e name i =
     \<lparr>cr_id = i, cr_tenant_id = oe_tenant_id e, cr_outbox_event_id = oe_id e, cr_event_key = oe_event_key e,
      cr_consumer_name = name, cr_status = RunProcessing, cr_attempt_count = 0, cr_last_error = None,
      cr_processed_at = None, cr_updated_at = rt_now rt\<rparr>"

text \<open>\<open>acquireRun\<close>: insert if absent (the other unique key refuses a second event of the same key), then lock.\<close>

definition acquire_run ::
  "runtime \<Rightarrow> outbox_event \<Rightarrow> string \<Rightarrow> 'a events_db_scheme \<Rightarrow> (consumer_run \<times> 'a events_db_scheme) result" where
  "acquire_run rt e name db =
     (case select_first (run_for (oe_tenant_id e) (oe_id e) name) (ev_runs db) of
        Some r \<Rightarrow> Inr (r, db)
      | None \<Rightarrow>
          if list_ex (\<lambda>r. cr_tenant_id r = oe_tenant_id e \<and> cr_consumer_name r = name \<and>
                cr_event_key r = oe_event_key e) (ev_runs db)
          then Inl (PgError ''23505'' ''uq_event_consumer_runs_tenant_consumer_event_key'')
          else
            (let r = new_run rt e name (fresh_uuid (map cr_id (ev_runs db)))
             in Inr (r, db\<lparr>ev_runs := ev_runs db @ [r]\<rparr>)))"

definition attempt_fields :: "runtime \<Rightarrow> consumer_run \<Rightarrow> consumer_run" where
  "attempt_fields rt r =
     r\<lparr>cr_status := RunProcessing, cr_attempt_count := cr_attempt_count r + 1, cr_last_error := None,
       cr_updated_at := rt_now rt\<rparr>"

definition mark_attempt :: "runtime \<Rightarrow> string \<Rightarrow> uuid \<Rightarrow> 'a events_db_scheme \<Rightarrow> 'a events_db_scheme" where
  "mark_attempt rt tenant i db = db\<lparr>ev_runs := update_where (run_at tenant i) (attempt_fields rt) (ev_runs db)\<rparr>"

definition run_completed_fields :: "runtime \<Rightarrow> consumer_run \<Rightarrow> consumer_run" where
  "run_completed_fields rt r =
     r\<lparr>cr_status := RunCompleted, cr_processed_at := Some (rt_now rt), cr_last_error := None,
       cr_updated_at := rt_now rt\<rparr>"

definition mark_run_completed :: "runtime \<Rightarrow> string \<Rightarrow> uuid \<Rightarrow> 'a events_db_scheme \<Rightarrow> 'a events_db_scheme" where
  "mark_run_completed rt tenant i db =
     db\<lparr>ev_runs := update_where (run_at tenant i) (run_completed_fields rt) (ev_runs db)\<rparr>"

definition run_failed_fields :: "runtime \<Rightarrow> string \<Rightarrow> consumer_run \<Rightarrow> consumer_run" where
  "run_failed_fields rt message r =
     r\<lparr>cr_status := RunFailed, cr_last_error := Some message, cr_updated_at := rt_now rt\<rparr>"

definition mark_run_failed ::
  "runtime \<Rightarrow> string \<Rightarrow> uuid \<Rightarrow> string \<Rightarrow> 'a events_db_scheme \<Rightarrow> 'a events_db_scheme" where
  "mark_run_failed rt tenant i message db =
     db\<lparr>ev_runs := update_where (run_at tenant i) (run_failed_fields rt message) (ev_runs db)\<rparr>"

section \<open>\<open>EventConsumerService\<close> and the registered consumers\<close>

text \<open>The registry: the names of the consumers of an event name, in the order of registration.\<close>

definition consumers_for_event :: "string \<Rightarrow> string list" where
  "consumers_for_event event_name =
     (if event_name = ''student.created'' then [''student-created.audit'']
      else if event_name = ''payment.completed'' then [''payment-completed.audit'']
      else [])"

text \<open>\<open>PaymentCompletedConsumer.handle\<close> and \<open>StudentCreatedConsumer.handle\<close>, the same but for their names.\<close>

definition consumer_audit_row :: "string \<Rightarrow> string \<Rightarrow> string \<Rightarrow> outbox_event \<Rightarrow> audit_log" where
  "consumer_audit_row name action resource_type e =
     (let string_header = (\<lambda>k. case map_of (oe_headers e) k of Some (JStr s) \<Rightarrow> Some s | _ \<Rightarrow> None)
      in \<lparr>al_tenant_id = oe_tenant_id e, al_actor_user_id = string_header ''user_id'',
          al_request_id = string_header ''request_id'', al_action = action,
          al_resource_type = resource_type, al_resource_id = Some (oe_aggregate_id e),
          al_ip_address = None, al_user_agent = None,
          al_metadata = JsonMetadata (JObj
            [(''consumer'', JStr name), (''event_id'', JStr (uuid_text (oe_id e))),
             (''event_key'', JStr (oe_event_key e)), (''payload'', oe_payload e)])\<rparr>)"

definition handle_event :: "string \<Rightarrow> outbox_event \<Rightarrow> 'a events_db_scheme \<Rightarrow> 'a events_db_scheme result" where
  "handle_event name e db =
     (if name = ''payment-completed.audit'' then
        Inr (create_audit_log (consumer_audit_row name ''payment.completed'' ''payment'' e) db)
      else
        Inr (create_audit_log (consumer_audit_row name ''student.created'' ''student'' e) db))"

text \<open>
  One consumer of the loop in \<open>consume\<close>. \<open>handle\<close> is the consumer's \<open>handle\<close>. An exception carries the
  state it was thrown in, as a \<open>catch\<close> block sees it.
\<close>

type_synonym 'd handler = "string \<Rightarrow> outbox_event \<Rightarrow> 'd \<Rightarrow> 'd result"

definition throwing :: "'d \<Rightarrow> exn + 'b \<Rightarrow> (exn \<times> 'd) + 'b" where
  "throwing db r = (case r of Inl e \<Rightarrow> Inl (e, db) | Inr x \<Rightarrow> Inr x)"

definition run_consumer ::
  "runtime \<Rightarrow> ('a events_db_scheme) handler \<Rightarrow> outbox_event \<Rightarrow> string \<Rightarrow> 'a events_db_scheme \<Rightarrow>
     (exn \<times> 'a events_db_scheme) + 'a events_db_scheme" where
  "run_consumer rt handle e name db =
     and_then (throwing db (acquire_run rt e name db)) (\<lambda>(r, db1).
     if cr_status r = RunCompleted then Inr db1
     else
       (let db2 = mark_attempt rt (oe_tenant_id e) (cr_id r) db1
        in case handle name e db2 of
             Inr db3 \<Rightarrow> Inr (mark_run_completed rt (oe_tenant_id e) (cr_id r) db3)
           | Inl err \<Rightarrow> Inl (err, mark_run_failed rt (oe_tenant_id e) (cr_id r) (exn_message rt err) db2)))"

fun run_consumers ::
  "runtime \<Rightarrow> ('a events_db_scheme) handler \<Rightarrow> outbox_event \<Rightarrow> string list \<Rightarrow> 'a events_db_scheme \<Rightarrow>
     (exn \<times> 'a events_db_scheme) + 'a events_db_scheme" where
  "run_consumers rt handle e [] db = Inr db"
| "run_consumers rt handle e (name # names) db =
     and_then (run_consumer rt handle e name db) (run_consumers rt handle e names)"

definition consume_callback ::
  "runtime \<Rightarrow> ('a events_db_scheme) handler \<Rightarrow> string \<Rightarrow> uuid \<Rightarrow> 'a events_db_scheme \<Rightarrow>
     (exn \<times> 'a events_db_scheme) + 'a events_db_scheme" where
  "consume_callback rt handle tenant i db =
     (case find_event db tenant i of
        None \<Rightarrow> Inl (NotFoundException (''Outbox event '' @ quoted (uuid_text i) @ '' was not found''), db)
      | Some e \<Rightarrow>
          if oe_status e = EvPublished then Inr db
          else
            and_then (run_consumers rt handle e (consumers_for_event (oe_event_name e)) db) (\<lambda>db1.
              Inr (mark_published rt (oe_tenant_id e) (oe_id e) db1)))"

text \<open>
  \<open>consume\<close>: the callback in its own transaction, whose ROLLBACK drops what the callback wrote
  before it threw; then \<open>failEvent\<close> in a transaction of its own, and the exception again.
\<close>

definition consume ::
  "runtime \<Rightarrow> ('a events_db_scheme) handler \<Rightarrow> string \<Rightarrow> uuid \<Rightarrow> 'a events_db_scheme \<Rightarrow>
     unit result \<times> 'a events_db_scheme" where
  "consume rt handle tenant i db =
     (case consume_callback rt handle tenant i db of
        Inr db' \<Rightarrow> (Inr (), db')
      | Inl (err, _) \<Rightarrow>
          (Inl err, mark_event_failed rt tenant i (exn_message rt err) (retry_delay_ms rt) (max_attempts rt) db))"

end
