(* ===== verification/Outbox_Facts.thy ===== *)
theory Outbox_Facts
  imports Outbox "HOL-Library.Multiset"
begin

text \<open>
  The outbox as a state machine: its steps, the invariant they keep and the contract of an event
  consumer as a locale, with the code's consumers as its interpretation.
\<close>

section \<open>Steps\<close>

inductive outbox_step ::
  "('a events_db_scheme) handler \<Rightarrow> 'a events_db_scheme \<Rightarrow> 'a events_db_scheme \<Rightarrow> bool" for handle where
  step_create: "create_event rt tenant input db = Inr db' \<Longrightarrow> outbox_step handle db db'"
| step_dispatch: "dispatch_pending_events busy rt locked enqueue db = (n, db') \<Longrightarrow> outbox_step handle db db'"
| step_consume: "consume rt handle tenant i db = (r, db') \<Longrightarrow> outbox_step handle db db'"

inductive_cases outbox_stepE: "outbox_step handle db db'"

abbreviation outbox_run ::
  "('a events_db_scheme) handler \<Rightarrow> 'a events_db_scheme \<Rightarrow> 'a events_db_scheme \<Rightarrow> bool" where
  "outbox_run handle \<equiv> (outbox_step handle)\<^sup>*\<^sup>*"

section \<open>The invariant\<close>

definition run_key :: "consumer_run \<Rightarrow> string \<times> string \<times> string" where
  "run_key r = (cr_tenant_id r, cr_consumer_name r, cr_event_key r)"

definition event_ident :: "outbox_event \<Rightarrow> uuid \<times> string \<times> string \<times> string" where
  "event_ident e = (oe_id e, oe_tenant_id e, oe_event_key e, oe_event_name e)"

definition run_done :: "consumer_run \<Rightarrow> bool" where
  "run_done r \<longleftrightarrow> cr_status r = RunCompleted \<and> cr_attempt_count r = 1 \<and> cr_last_error r = None"

definition events_ok :: "outbox_event list \<Rightarrow> bool" where
  "events_ok es \<longleftrightarrow> distinct (map oe_id es) \<and> distinct (map (\<lambda>e. (oe_tenant_id e, oe_event_key e)) es)"

definition run_of_event :: "outbox_event list \<Rightarrow> consumer_run \<Rightarrow> bool" where
  "run_of_event es r \<longleftrightarrow>
     (\<exists>n. (cr_outbox_event_id r, cr_tenant_id r, cr_event_key r, n) \<in> event_ident ` set es \<and>
          cr_consumer_name r \<in> set (consumers_for_event n))"

definition runs_ok :: "outbox_event list \<Rightarrow> consumer_run list \<Rightarrow> bool" where
  "runs_ok es rs \<longleftrightarrow> distinct (map cr_id rs) \<and> distinct (map run_key rs) \<and> (\<forall>r\<in>set rs. run_of_event es r)"

definition all_consumed :: "consumer_run list \<Rightarrow> outbox_event \<Rightarrow> bool" where
  "all_consumed rs e \<longleftrightarrow>
     (\<forall>name\<in>set (consumers_for_event (oe_event_name e)).
        \<exists>r\<in>set rs. run_for (oe_tenant_id e) (oe_id e) name r)"

definition outbox_inv :: "'a events_db_scheme \<Rightarrow> bool" where
  "outbox_inv db \<longleftrightarrow> events_ok (ev_outbox db) \<and> runs_ok (ev_outbox db) (ev_runs db) \<and>
     (\<forall>r\<in>set (ev_runs db). run_done r) \<and>
     (\<forall>e\<in>set (ev_outbox db). oe_status e = EvPublished \<longrightarrow> all_consumed (ev_runs db) e)"

section \<open>Updates that keep the identity of the events\<close>

lemma events_ok_ident: "map event_ident es' = map event_ident es \<Longrightarrow> events_ok es' = events_ok es"
proof -
  assume *: "map event_ident es' = map event_ident es"
  have "map (\<lambda>e. f (event_ident e)) es' = map (\<lambda>e. f (event_ident e)) es" for f :: "_ \<Rightarrow> 'b"
    using arg_cong[OF *, of "map f"] by (simp add: comp_def)
  from this[of fst] this[of "\<lambda>(i, t, k, n). (t, k)"] show ?thesis
    by (simp add: events_ok_def event_ident_def)
qed

lemma runs_ok_ident: "map event_ident es' = map event_ident es \<Longrightarrow> runs_ok es' rs = runs_ok es rs"
  by (metis runs_ok_def run_of_event_def list.set_map)

lemma runs_ok_append: "runs_ok es rs \<Longrightarrow> runs_ok (es @ es') rs"
  unfolding runs_ok_def run_of_event_def by (simp only: set_append image_Un Un_iff) blast

lemma update_ident:
  "(\<And>e. event_ident (f e) = event_ident e) \<Longrightarrow> map event_ident (update_where p f es) = map event_ident es"
  by (rule update_where_map_key) simp

lemma ident_fields [simp]:
  "event_ident (merge_headers rt input e) = event_ident e"
  "event_ident (published_fields rt e) = event_ident e"
  "event_ident (failed_fields rt m d x e) = event_ident e"
  "event_ident (claimed_fields rt e) = event_ident e"
  by (simp_all add: event_ident_def merge_headers_def published_fields_def failed_fields_def claimed_fields_def)

lemma status_fields [simp]:
  "oe_status (merge_headers rt input e) = oe_status e"
  "oe_status (published_fields rt e) = EvPublished"
  "oe_status (failed_fields rt m d x e) \<noteq> EvPublished"
  "oe_status (claimed_fields rt e) = EvProcessing"
  by (simp_all add: merge_headers_def published_fields_def failed_fields_def claimed_fields_def)

lemma all_consumed_ident: "event_ident e' = event_ident e \<Longrightarrow> all_consumed rs e' = all_consumed rs e"
  by (simp add: event_ident_def all_consumed_def)

lemma all_consumed_mono: "all_consumed rs e \<Longrightarrow> set rs \<subseteq> set rs' \<Longrightarrow> all_consumed rs' e"
  by (auto simp: all_consumed_def)

text \<open>An update of events that publishes only consumed ones keeps the invariant.\<close>

lemma outbox_inv_update:
  assumes inv: "outbox_inv db" and db': "ev_runs db' = ev_runs db" "ev_outbox db' = update_where p f (ev_outbox db)"
    and ident: "\<And>e. event_ident (f e) = event_ident e"
    and pub: "\<And>e. e \<in> set (ev_outbox db) \<Longrightarrow> p e \<Longrightarrow> oe_status (f e) = EvPublished \<Longrightarrow>
      all_consumed (ev_runs db) e"
  shows "outbox_inv db'"
proof -
  have same: "map event_ident (ev_outbox db') = map event_ident (ev_outbox db)"
    unfolding db' using ident by (rule update_ident)
  have "all_consumed (ev_runs db) e" if "e \<in> set (ev_outbox db')" "oe_status e = EvPublished" for e
    using that inv pub all_consumed_ident[OF ident] unfolding db' set_update_where outbox_inv_def by auto
  with inv show ?thesis
    unfolding outbox_inv_def db'(1) events_ok_ident[OF same] runs_ok_ident[OF same] by blast
qed

lemma mark_event_failed_inv: "outbox_inv db \<Longrightarrow> outbox_inv (mark_event_failed rt tenant i m d x db)"
  by (rule outbox_inv_update[where p = "event_at tenant i" and f = "failed_fields rt m d x"])
    (simp_all add: mark_event_failed_def)

lemma create_event_inv:
  assumes inv: "outbox_inv db" and "create_event rt tenant input db = Inr db'"
  shows "outbox_inv db'"
proof (cases "select_first (same_event_key tenant (pb_event_key input)) (ev_outbox db)")
  case None
  have db': "db' = db\<lparr>ev_outbox := ev_outbox db @ [new_event rt tenant input (fresh_uuid (map oe_id (ev_outbox db)))]\<rparr>"
    using assms(2) None by (auto simp: create_event_def and_then_eq_Inr)
  have nokey: "(tenant, pb_event_key input) \<notin> (\<lambda>e. (oe_tenant_id e, oe_event_key e)) ` set (ev_outbox db)"
    using None by (auto simp: select_first_None same_event_key_def)
  have noid: "fresh_uuid (map oe_id (ev_outbox db)) \<notin> oe_id ` set (ev_outbox db)"
    by (metis fresh_uuid_notin list.set_map)
  have "events_ok (ev_outbox db')"
    using inv nokey noid unfolding db' outbox_inv_def events_ok_def by (auto simp: new_event_def)
  moreover have "runs_ok (ev_outbox db') (ev_runs db')"
    using inv unfolding db' outbox_inv_def by (auto intro: runs_ok_append)
  ultimately show ?thesis using inv unfolding db' outbox_inv_def by (auto simp: new_event_def)
next
  case (Some e)
  have db': "db' = db\<lparr>ev_outbox := update_where (same_event_key tenant (pb_event_key input))
      (merge_headers rt input) (ev_outbox db)\<rparr>"
    using assms(2) Some by (auto simp: create_event_def and_then_eq_Inr)
  show ?thesis
    by (rule outbox_inv_update[OF inv, where p = "same_event_key tenant (pb_event_key input)"
          and f = "merge_headers rt input"])
      (use inv in \<open>auto simp: db' outbox_inv_def\<close>)
qed

lemma claim_Inr:
  "claim_outbox_events rt locked b st db = Inr (cs, db') \<Longrightarrow>
     (\<exists>ids. ids = map oe_id (claim_candidates rt locked b st (ev_outbox db)) \<and>
        db' = db\<lparr>ev_outbox := update_where (\<lambda>e. oe_id e \<in> set ids) (claimed_fields rt) (ev_outbox db)\<rparr> \<and>
        cs = map claimed_event_of (filter (\<lambda>e. oe_id e \<in> set ids) (ev_outbox db')))"
  by (auto simp: claim_outbox_events_def Let_def split: if_splits)

lemma claim_inv:
  assumes "outbox_inv db" and "claim_outbox_events rt locked b st db = Inr (cs, db')"
  shows "outbox_inv db'" and "ev_runs db' = ev_runs db"
proof -
  show "ev_runs db' = ev_runs db" using claim_Inr[OF assms(2)] by auto
  show "outbox_inv db'"
    by (rule outbox_inv_update[OF assms(1), where f = "claimed_fields rt" and
          p = "\<lambda>e. oe_id e \<in> set (map oe_id (claim_candidates rt locked b st (ev_outbox db)))"])
      (use claim_Inr[OF assms(2)] in \<open>auto\<close>)
qed

lemma fold_mark_failed:
  assumes "outbox_inv db"
  shows "outbox_inv (fold (\<lambda>c. mark_event_failed rt (ce_tenant_id c) (ce_id c) m d x) cs db)"
  using assms by (induction cs arbitrary: db) (simp_all add: mark_event_failed_inv)

lemma dispatch_inv:
  assumes "outbox_inv db" and "dispatch_pending_events busy rt locked enqueue db = (n, db')"
  shows "outbox_inv db'"
  using assms claim_inv(1)[OF assms(1)]
  by (auto simp: dispatch_pending_events_def split: if_splits sum.splits option.splits
      intro!: fold_mark_failed)

lemma dispatch_runs:
  "dispatch_pending_events busy rt locked enqueue db = (n, db') \<Longrightarrow> ev_runs db' = ev_runs db"
proof -
  have fold: "ev_runs (fold (\<lambda>c. mark_event_failed rt (ce_tenant_id c) (ce_id c) m d x) cs db) = ev_runs db"
    for m d x cs and db :: "'a events_db_scheme"
    by (induction cs arbitrary: db) (simp_all add: mark_event_failed_def)
  show "dispatch_pending_events busy rt locked enqueue db = (n, db') \<Longrightarrow> ev_runs db' = ev_runs db"
    by (auto simp: dispatch_pending_events_def fold dest!: claim_Inr split: if_splits sum.splits option.splits)
qed

section \<open>The contract of a consumer\<close>

text \<open>
  What the outbox asks of a consumer, and what it promises in return: a consumer leaves the
  outbox's tables alone and each successful call leaves the same trace of its delivery; then the
  traces add up to one per run row. \<open>deliveries\<close> reads the traces off the state, \<open>trace\<close> is what a
  delivery to (tenant, consumer, event key) adds; both may be empty for a consumer without trace.
\<close>

locale event_consumer =
  fixes handle :: "('a events_db_scheme) handler"
    and deliveries :: "'a events_db_scheme \<Rightarrow> 'm multiset"
    and trace :: "string \<times> string \<times> string \<Rightarrow> 'm multiset"
  assumes frame: "handle name e db = Inr db' \<Longrightarrow> ev_outbox db' = ev_outbox db \<and> ev_runs db' = ev_runs db"
    and delivered: "handle name e db = Inr db' \<Longrightarrow>
      name \<in> set (consumers_for_event (oe_event_name e)) \<Longrightarrow>
      deliveries db' = deliveries db + trace (oe_tenant_id e, name, oe_event_key e)"
    and other_tables: "deliveries (db\<lparr>ev_outbox := es\<rparr>) = deliveries db"
      "deliveries (db\<lparr>ev_runs := rs\<rparr>) = deliveries db"
begin

definition accounted :: "'a events_db_scheme \<Rightarrow> 'a events_db_scheme \<Rightarrow> bool" where
  "accounted db db' \<longleftrightarrow>
     (\<exists>new. ev_runs db' = ev_runs db @ new \<and>
        deliveries db' = deliveries db + (\<Sum>r\<in>#mset new. trace (run_key r)))"

lemma accounted_refl: "accounted db db"
  by (simp add: accounted_def)

lemma accounted_trans: "accounted db1 db2 \<Longrightarrow> accounted db2 db3 \<Longrightarrow> accounted db1 db3"
  by (auto simp: accounted_def)

lemma new_run_inv:
  assumes inv: "outbox_inv db" and e: "e \<in> set (ev_outbox db)"
    and name: "name \<in> set (consumers_for_event (oe_event_name e))"
    and absent: "select_first (run_for (oe_tenant_id e) (oe_id e) name) (ev_runs db) = None"
    and r: "run_done r" "cr_id r \<notin> cr_id ` set (ev_runs db)" "cr_outbox_event_id r = oe_id e"
      "run_key r = (oe_tenant_id e, name, oe_event_key e)"
    and db': "ev_outbox db' = ev_outbox db" "ev_runs db' = ev_runs db @ [r]"
  shows "outbox_inv db'"
proof -
  have sel: "cr_tenant_id r = oe_tenant_id e" "cr_consumer_name r = name" "cr_event_key r = oe_event_key e"
    using r(4) by (simp_all add: run_key_def)
  have "run_key r \<notin> run_key ` set (ev_runs db)"
  proof
    assume "run_key r \<in> run_key ` set (ev_runs db)"
    then obtain x where x: "x \<in> set (ev_runs db)" "run_key x = run_key r" by auto
    then obtain n where n: "(cr_outbox_event_id x, cr_tenant_id x, cr_event_key x, n) \<in> event_ident ` set (ev_outbox db)"
      using inv unfolding outbox_inv_def runs_ok_def run_of_event_def by blast
    then obtain f where f: "f \<in> set (ev_outbox db)" "oe_id f = cr_outbox_event_id x"
        "oe_tenant_id f = cr_tenant_id x" "oe_event_key f = cr_event_key x"
      by (auto simp: event_ident_def)
    have "(oe_tenant_id f, oe_event_key f) = (oe_tenant_id e, oe_event_key e)"
      using f x(2) r(4) by (simp add: run_key_def)
    then have "f = e"
      using inv f(1) e unfolding outbox_inv_def events_ok_def distinct_map by (auto dest: inj_onD)
    then have "run_for (oe_tenant_id e) (oe_id e) name x"
      using f x(2) r(4) by (simp add: run_for_def run_key_def)
    with absent x(1) show False by (simp add: select_first_None)
  qed
  moreover have "run_of_event (ev_outbox db) r"
    using e name r(3) sel by (auto simp: run_of_event_def event_ident_def)
  ultimately have "runs_ok (ev_outbox db) (ev_runs db @ [r])"
    using inv r(2) by (auto simp: outbox_inv_def runs_ok_def)
  moreover have "all_consumed (ev_runs db @ [r]) f" if "f \<in> set (ev_outbox db)" "oe_status f = EvPublished" for f
    using inv that unfolding outbox_inv_def by (auto intro: all_consumed_mono)
  ultimately show ?thesis using inv r(1) unfolding outbox_inv_def db' by auto
qed

lemma run_consumer_step:
  assumes inv: "outbox_inv db" and e: "e \<in> set (ev_outbox db)"
    and name: "name \<in> set (consumers_for_event (oe_event_name e))"
    and run: "run_consumer rt handle e name db = Inr db'"
  shows "outbox_inv db' \<and> ev_outbox db' = ev_outbox db \<and> accounted db db' \<and>
    (\<exists>r\<in>set (ev_runs db'). run_for (oe_tenant_id e) (oe_id e) name r)"
proof (cases "select_first (run_for (oe_tenant_id e) (oe_id e) name) (ev_runs db)")
  case (Some r)
  then have r: "r \<in> set (ev_runs db)" "run_for (oe_tenant_id e) (oe_id e) name r"
    by (auto dest: select_first_Some)
  then have "cr_status r = RunCompleted" using inv by (simp add: outbox_inv_def run_done_def)
  with run Some have "db' = db" by (simp add: run_consumer_def acquire_run_def throwing_def)
  with inv r show ?thesis
    by (auto simp: accounted_refl)
next
  case None
  let ?r = "new_run rt e name (fresh_uuid (map cr_id (ev_runs db)))"
  have fresh: "cr_id ?r \<notin> cr_id ` set (ev_runs db)"
    by (simp add: new_run_def) (metis fresh_uuid_notin list.set_map)
  then have other: "\<forall>x\<in>set (ev_runs db). \<not> run_at (oe_tenant_id e) (cr_id ?r) x"
    unfolding run_at_def by (metis imageI)
  have at: "run_at (oe_tenant_id e) (cr_id ?r) ?r" "run_at (oe_tenant_id e) (cr_id ?r) (attempt_fields rt ?r)"
    by (simp_all add: run_at_def new_run_def attempt_fields_def)
  have acq: "acquire_run rt e name db = Inr (?r, db\<lparr>ev_runs := ev_runs db @ [?r]\<rparr>)"
    using run None by (auto simp: run_consumer_def acquire_run_def throwing_def Let_def split: if_splits)
  let ?db2 = "mark_attempt rt (oe_tenant_id e) (cr_id ?r) (db\<lparr>ev_runs := ev_runs db @ [?r]\<rparr>)"
  have db2: "?db2 = db\<lparr>ev_runs := ev_runs db @ [attempt_fields rt ?r]\<rparr>"
    by (simp add: mark_attempt_def update_where_last[OF other at(1)])
  have "cr_status ?r \<noteq> RunCompleted" by (simp add: new_run_def)
  with run acq obtain db3 where db3: "handle name e ?db2 = Inr db3"
      "db' = mark_run_completed rt (oe_tenant_id e) (cr_id ?r) db3"
    by (auto simp: run_consumer_def throwing_def Let_def split: sum.splits)
  have sel3: "ev_outbox db3 = ev_outbox db" "ev_runs db3 = ev_runs db @ [attempt_fields rt ?r]"
    using frame[OF db3(1)] unfolding db2 by simp_all
  let ?r' = "run_completed_fields rt (attempt_fields rt ?r)"
  have runs: "ev_runs db' = ev_runs db @ [?r']" and box: "ev_outbox db' = ev_outbox db"
    unfolding db3(2) by (simp_all add: mark_run_completed_def sel3 update_where_last[OF other at(2)])
  have r': "run_done ?r'" "cr_id ?r' = cr_id ?r" "cr_outbox_event_id ?r' = oe_id e"
      "run_key ?r' = (oe_tenant_id e, name, oe_event_key e)"
      "run_for (oe_tenant_id e) (oe_id e) name ?r'"
    by (simp_all add: run_done_def run_completed_fields_def attempt_fields_def new_run_def run_key_def run_for_def)
  have "deliveries db' = deliveries db3"
    unfolding db3(2) by (simp add: mark_run_completed_def other_tables)
  also have "\<dots> = deliveries db + trace (oe_tenant_id e, name, oe_event_key e)"
    using delivered[OF db3(1) name] unfolding db2 by (simp add: other_tables)
  finally have "accounted db db'" unfolding accounted_def runs using r'(4) by simp
  moreover have "outbox_inv db'"
    by (rule new_run_inv[OF inv e name None r'(1) _ r'(3,4) box runs]) (use fresh r'(2) in simp)
  ultimately show ?thesis
    using box runs r'(5) by auto
qed

lemma dispatch_deliveries:
  "dispatch_pending_events busy rt locked enqueue db = (n, db') \<Longrightarrow> deliveries db' = deliveries db"
proof -
  have fold: "deliveries (fold (\<lambda>c. mark_event_failed rt (ce_tenant_id c) (ce_id c) m d x) cs db) = deliveries db"
    for m d x cs and db :: "'a events_db_scheme"
    by (induction cs arbitrary: db) (simp_all add: mark_event_failed_def other_tables)
  show "dispatch_pending_events busy rt locked enqueue db = (n, db') \<Longrightarrow> deliveries db' = deliveries db"
    by (auto simp: dispatch_pending_events_def fold other_tables dest!: claim_Inr
        split: if_splits sum.splits option.splits)
qed

lemma run_consumers_step:
  assumes "outbox_inv db" and "e \<in> set (ev_outbox db)"
    and "set names \<subseteq> set (consumers_for_event (oe_event_name e))"
    and "run_consumers rt handle e names db = Inr db'"
  shows "outbox_inv db' \<and> ev_outbox db' = ev_outbox db \<and> accounted db db' \<and>
    (\<forall>name\<in>set names. \<exists>r\<in>set (ev_runs db'). run_for (oe_tenant_id e) (oe_id e) name r)"
  using assms
proof (induction names arbitrary: db)
  case (Cons name names)
  from Cons.prems(4) obtain db1 where db1: "run_consumer rt handle e name db = Inr db1"
      "run_consumers rt handle e names db1 = Inr db'"
    by (auto simp: and_then_eq_Inr)
  have s1: "outbox_inv db1 \<and> ev_outbox db1 = ev_outbox db \<and> accounted db db1 \<and>
      (\<exists>r\<in>set (ev_runs db1). run_for (oe_tenant_id e) (oe_id e) name r)"
    using run_consumer_step[OF Cons.prems(1,2) _ db1(1)] Cons.prems(3) by simp
  moreover have "outbox_inv db' \<and> ev_outbox db' = ev_outbox db1 \<and> accounted db1 db' \<and>
      (\<forall>name\<in>set names. \<exists>r\<in>set (ev_runs db'). run_for (oe_tenant_id e) (oe_id e) name r)"
    using Cons.IH[of db1] s1 Cons.prems(2,3) db1(2) by simp
  moreover have "set (ev_runs db1) \<subseteq> set (ev_runs db')"
    using calculation(2) by (auto simp: accounted_def)
  ultimately show ?case using accounted_trans by auto
qed (simp add: accounted_refl)

lemma consume_callback_step:
  assumes inv: "outbox_inv db" and cb: "consume_callback rt handle tenant i db = Inr db'"
  shows "outbox_inv db'" and "accounted db db'"
proof -
  obtain e where e: "find_event db tenant i = Some e"
    using cb by (auto simp: consume_callback_def split: option.splits)
  then have mem: "e \<in> set (ev_outbox db)" and ids: "oe_tenant_id e = tenant" "oe_id e = i"
    by (auto simp: find_event_def event_at_def dest: select_first_Some)
  have "outbox_inv db' \<and> accounted db db'"
  proof (cases "oe_status e = EvPublished")
    case True
    with cb e inv show ?thesis by (simp add: consume_callback_def accounted_refl)
  next
    case False
    with cb e obtain db1 where db1: "run_consumers rt handle e (consumers_for_event (oe_event_name e)) db = Inr db1"
        "db' = mark_published rt tenant i db1"
      by (auto simp: consume_callback_def and_then_eq_Inr ids)
    have s: "outbox_inv db1 \<and> ev_outbox db1 = ev_outbox db \<and> accounted db db1 \<and>
        (\<forall>name\<in>set (consumers_for_event (oe_event_name e)).
           \<exists>r\<in>set (ev_runs db1). run_for (oe_tenant_id e) (oe_id e) name r)"
      by (rule run_consumers_step[OF inv mem _ db1(1)]) simp
    have only: "f = e" if "f \<in> set (ev_outbox db1)" "event_at tenant i f" for f
      using that s inv mem ids unfolding outbox_inv_def events_ok_def distinct_map event_at_def
      by (auto dest: inj_onD)
    have "outbox_inv db'"
      by (rule outbox_inv_update[where p = "event_at tenant i" and f = "published_fields rt" and db = db1])
        (use s only in \<open>auto simp: db1(2) mark_published_def all_consumed_def\<close>)
    moreover have "accounted db db'"
      using s by (simp add: db1(2) mark_published_def accounted_def other_tables)
    ultimately show ?thesis ..
  qed
  then show "outbox_inv db'" and "accounted db db'" by simp_all
qed

lemma consume_step:
  assumes "outbox_inv db" and "consume rt handle tenant i db = (r, db')"
  shows "outbox_inv db'" and "accounted db db'"
  using assms(2) consume_callback_step[OF assms(1)] mark_event_failed_inv[OF assms(1)]
  by (auto simp: consume_def mark_event_failed_def accounted_def other_tables split: sum.splits prod.splits)

lemma step_inv:
  assumes "outbox_step handle db db'" and "outbox_inv db"
  shows "outbox_inv db'" and "accounted db db'"
  using assms
proof (induction rule: outbox_step.induct)
  case (step_create rt tenant input db db')
  {
    case 1
    show ?case by (rule create_event_inv[OF 1 step_create])
  next
    case 2
    show ?case using step_create
      by (auto simp: create_event_def and_then_eq_Inr accounted_def other_tables split: option.splits)
  }
next
  case (step_dispatch busy rt locked enqueue db n db')
  {
    case 1
    show ?case by (rule dispatch_inv[OF 1 step_dispatch])
  next
    case 2
    show ?case unfolding accounted_def dispatch_runs[OF step_dispatch]
      using dispatch_deliveries[OF step_dispatch] by simp
  }
next
  case (step_consume rt tenant i db r db')
  {
    case 1
    show ?case by (rule consume_step(1)[OF 1 step_consume])
  next
    case 2
    show ?case by (rule consume_step(2)[OF 2 step_consume])
  }
qed

lemma run_inv:
  assumes "outbox_run handle db db'" and "outbox_inv db"
  shows "outbox_inv db' \<and> accounted db db'"
  using assms
proof (induction rule: rtranclp_induct)
  case (step db1 db2)
  then show ?case using step_inv accounted_trans by blast
qed (simp add: accounted_refl)

text \<open>The traces of a run from a state without runs belong to distinct deliveries, one per run row.\<close>

lemma exactly_once:
  assumes "outbox_run handle db db'" and "outbox_inv db" and "ev_runs db = []"
  shows "\<exists>new. deliveries db' = deliveries db + (\<Sum>k\<in>#mset new. trace k) \<and> distinct new \<and>
    set new = run_key ` set (ev_runs db')"
proof -
  from run_inv[OF assms(1,2)] have inv: "outbox_inv db'" and acc: "accounted db db'" by simp_all
  from acc assms(3) have "deliveries db' = deliveries db + (\<Sum>k\<in>#mset (map run_key (ev_runs db')). trace k)"
    by (auto simp: accounted_def multiset.map_comp comp_def)
  moreover have "distinct (map run_key (ev_runs db'))"
    using inv by (simp add: outbox_inv_def runs_ok_def)
  ultimately show ?thesis by (metis list.set_map)
qed

end

text \<open>The invariant alone needs no trace: any consumer that leaves the outbox's tables alone keeps it.\<close>

lemma outbox_run_inv:
  assumes frame: "\<And>name e db db'. handle name e db = Inr db' \<Longrightarrow>
      ev_outbox db' = ev_outbox db \<and> ev_runs db' = ev_runs db"
    and "outbox_run handle db db'" and "outbox_inv db"
  shows "outbox_inv db'"
proof -
  have "event_consumer handle (\<lambda>_. {#} :: unit multiset) (\<lambda>_. {#})"
    by unfold_locales (simp_all add: frame)
  from event_consumer.run_inv[OF this assms(2,3)] show ?thesis by simp
qed

end
