(* ===== verification/Outbox_Claims.thy ===== *)
theory Outbox_Claims
  imports Outbox_Facts
begin

text \<open>
  The properties of the outbox for the code's registered consumers, with witnesses on a school that
  has one completed payment to announce.
\<close>

section \<open>The registered consumers keep the contract\<close>

text \<open>The deliveries are read off the log lines the consumers write.\<close>

definition consumer_delivery :: "audit_log \<Rightarrow> (string \<times> string \<times> string) option" where
  "consumer_delivery row =
     (case al_metadata row of
        JsonMetadata (JObj kvs) \<Rightarrow>
          (case (map_of kvs ''consumer'', map_of kvs ''event_key'') of
             (Some (JStr name), Some (JStr key)) \<Rightarrow> Some (al_tenant_id row, name, key)
           | _ \<Rightarrow> None)
      | _ \<Rightarrow> None)"

definition audit_deliveries :: "'a events_db_scheme \<Rightarrow> (string \<times> string \<times> string) list" where
  "audit_deliveries db = List.map_filter consumer_delivery (fd_audit_logs db)"

lemma map_filter_append: "List.map_filter f (xs @ ys) = List.map_filter f xs @ List.map_filter f ys"
  by (simp add: List.map_filter_def)

lemma delivery_of_row [simp]:
  "consumer_delivery (consumer_audit_row name action rtype e) = Some (oe_tenant_id e, name, oe_event_key e)"
  by (simp add: consumer_delivery_def consumer_audit_row_def Let_def)

interpretation audits: event_consumer handle_event "\<lambda>db. mset (audit_deliveries db)" "\<lambda>k. {#k#}"
  by unfold_locales
    (auto simp: handle_event_def create_audit_log_def audit_deliveries_def map_filter_append
      List.map_filter_simps split: if_splits)

section \<open>Examples\<close>

definition ev_rt :: runtime where
  "ev_rt = \<lparr>rt_tenant_id = Some ''t1'', rt_user_id = ''u1'', rt_request_id = ''r1'',
     rt_trace_id = ''tr1'', rt_span_id = ''s1'', rt_parent_span_id = None, rt_role = Some ''system'',
     rt_session_id = None, rt_client_ip = None, rt_user_agent = None, rt_now = 1000,
     rt_clock = 1000, rt_sha256 = (\<lambda>_. ''h''), rt_parse_date = (\<lambda>_. None),
     rt_collate = (\<lambda>x y. x \<le> y), rt_pg_message = (\<lambda>_ _. ''db error''),
     rt_config = (\<lambda>_. None), rt_config_number = (\<lambda>_. None)\<rparr>"

definition ev_event :: outbox_event where
  "ev_event = \<lparr>oe_id = 1, oe_tenant_id = ''t1'', oe_event_key = ''payment.completed:7'',
     oe_event_name = ''payment.completed'', oe_aggregate_type = ''payment'', oe_aggregate_id = 7,
     oe_payload = JObj [], oe_headers = [], oe_status = EvPending, oe_attempt_count = 0,
     oe_available_at = 500, oe_published_at = None, oe_last_error = None, oe_created_at = 500,
     oe_updated_at = 500\<rparr>"

definition ev_db :: events_db where
  "ev_db = \<lparr>fd_idempotency_keys = [], fd_accounts = [], fd_transactions = [], fd_ledger_entries = [],
     fd_audit_logs = [], fd_sync_operations = [], ev_outbox = [ev_event], ev_runs = []\<rparr>"

lemma ev_db_inv: "outbox_inv ev_db"
  by (simp add: ev_db_def outbox_inv_def events_ok_def runs_ok_def ev_event_def)

definition ev_published_db :: events_db where
  "ev_published_db = snd (consume ev_rt handle_event ''t1'' 1 ev_db)"

lemma ev_consumed: "consume ev_rt handle_event ''t1'' 1 ev_db = (Inr (), ev_published_db)"
  by (simp add: ev_published_db_def consume_def consume_callback_def find_event_def ev_db_def event_at_def
      ev_event_def consumers_for_event_def run_consumer_def acquire_run_def throwing_def Let_def new_run_def
      handle_event_def)

lemma ev_run: "outbox_run handle_event ev_db ev_published_db"
  by (rule r_into_rtranclp, rule step_consume, rule ev_consumed)

lemma ev_published_status: "\<exists>e. ev_outbox ev_published_db = [e] \<and> oe_status e = EvPublished \<and>
    oe_tenant_id e = ''t1'' \<and> oe_event_name e = ''payment.completed'' \<and> oe_event_key e = ''payment.completed:7''"
  by (simp add: ev_published_db_def consume_def consume_callback_def find_event_def ev_db_def event_at_def
      ev_event_def consumers_for_event_def run_consumer_def acquire_run_def throwing_def Let_def new_run_def
      handle_event_def mark_attempt_def create_audit_log_def mark_run_completed_def mark_published_def
      update_where_def published_fields_def)

section \<open>Exactly-once delivery\<close>

text \<open>C7: Exactly once: whatever the order of publications, claims, dispatches and job runs, failed,
  repeated and overlapping ones included, no event is delivered twice to a consumer, and every published
  event has been delivered to every consumer registered for it.\<close>

theorem outbox_exactly_once:
  assumes run: "outbox_run handle_event db db'" and inv: "outbox_inv db" and none: "ev_runs db = []"
  shows "\<exists>new. mset (audit_deliveries db') = mset (audit_deliveries db) + mset new \<and> distinct new \<and>
    (\<forall>e\<in>set (ev_outbox db'). oe_status e = EvPublished \<longrightarrow>
       (\<forall>name\<in>set (consumers_for_event (oe_event_name e)). (oe_tenant_id e, name, oe_event_key e) \<in> set new))"
proof -
  from audits.exactly_once[OF run inv none] obtain new where new:
    "mset (audit_deliveries db') = mset (audit_deliveries db) + (\<Sum>k\<in>#mset new. {#k#})" "distinct new"
    "set new = run_key ` set (ev_runs db')" by blast
  have tally: "mset (audit_deliveries db') = mset (audit_deliveries db) + mset new" using new(1) by simp
  have inv': "outbox_inv db'" using audits.run_inv[OF run inv] by simp
  have "(oe_tenant_id e, name, oe_event_key e) \<in> set new"
    if e: "e \<in> set (ev_outbox db')" "oe_status e = EvPublished"
      and name: "name \<in> set (consumers_for_event (oe_event_name e))" for e name
  proof -
    obtain r where r: "r \<in> set (ev_runs db')" "run_for (oe_tenant_id e) (oe_id e) name r"
      using inv' e name unfolding outbox_inv_def all_consumed_def by blast
    then obtain n where "(cr_outbox_event_id r, cr_tenant_id r, cr_event_key r, n) \<in> event_ident ` set (ev_outbox db')"
      using inv' unfolding outbox_inv_def runs_ok_def run_of_event_def by blast
    then obtain f where f: "f \<in> set (ev_outbox db')" "oe_id f = cr_outbox_event_id r" "oe_event_key f = cr_event_key r"
      by (auto simp: event_ident_def)
    have "f = e" using inv' f e(1) r(2) unfolding outbox_inv_def events_ok_def distinct_map run_for_def
      by (auto dest: inj_onD)
    with f r have "run_key r = (oe_tenant_id e, name, oe_event_key e)"
      by (simp add: run_key_def run_for_def)
    with r(1) show ?thesis unfolding new(3) by (metis image_eqI)
  qed
  with tally new(2) show ?thesis by blast
qed

theorem outbox_exactly_once_witness:
  "\<exists>new. mset (audit_deliveries ev_published_db) = mset new \<and> distinct new \<and>
     (''t1'', ''payment-completed.audit'', ''payment.completed:7'') \<in> set new"
proof -
  have "ev_runs ev_db = []" "audit_deliveries ev_db = []"
    by (simp_all add: ev_db_def audit_deliveries_def List.map_filter_simps)
  with outbox_exactly_once[OF ev_run ev_db_inv] obtain new where new:
    "mset (audit_deliveries ev_published_db) = mset new" "distinct new"
    "\<forall>e\<in>set (ev_outbox ev_published_db). oe_status e = EvPublished \<longrightarrow>
       (\<forall>name\<in>set (consumers_for_event (oe_event_name e)). (oe_tenant_id e, name, oe_event_key e) \<in> set new)"
    by auto
  moreover obtain e where "ev_outbox ev_published_db = [e]" "oe_status e = EvPublished"
    "oe_tenant_id e = ''t1''" "oe_event_name e = ''payment.completed''" "oe_event_key e = ''payment.completed:7''"
    using ev_published_status by blast
  ultimately have "(''t1'', ''payment-completed.audit'', ''payment.completed:7'') \<in> set new"
    by (simp add: consumers_for_event_def)
  with new(1,2) show ?thesis by blast
qed

text \<open>No failure of a consumer is ever recorded, whatever the consumers are, as long as they leave the
  outbox's tables alone: the run row that says so is written in the transaction that the failure rolls back,
  so in every reachable state all run rows are completed at their first attempt and carry no error.\<close>

theorem failed_runs_never_persist:
  assumes "\<And>name e db db'. handle name e db = Inr db' \<Longrightarrow>
      ev_outbox db' = ev_outbox db \<and> ev_runs db' = ev_runs db"
    and "outbox_run handle db db'" and "outbox_inv db"
  shows "\<forall>r\<in>set (ev_runs db'). cr_status r = RunCompleted \<and> cr_attempt_count r = 1 \<and> cr_last_error r = None"
  using outbox_run_inv[OF assms] by (simp add: outbox_inv_def run_done_def)

text \<open>A consumer that is refused once: the event is marked failed, its run row is gone.\<close>

definition failing_handler :: "events_db handler" where
  "failing_handler name e db = Inl (PgError ''23503'' ''fk_audit_logs_actor_user'')"

definition ev_failed_db :: events_db where
  "ev_failed_db = snd (consume ev_rt failing_handler ''t1'' 1 ev_db)"

lemma ev_failed: "outbox_run failing_handler ev_db ev_failed_db"
  unfolding ev_failed_db_def by (rule r_into_rtranclp, rule step_consume, rule surjective_pairing)

theorem failed_runs_never_persist_witness:
  "fst (consume ev_rt failing_handler ''t1'' 1 ev_db) \<noteq> Inr () \<and>
     list_all (\<lambda>r. cr_status r = RunCompleted) (ev_runs ev_failed_db)"
proof -
  have "fst (consume ev_rt failing_handler ''t1'' 1 ev_db) \<noteq> Inr ()"
    by (simp add: consume_def consume_callback_def find_event_def ev_db_def event_at_def ev_event_def
        consumers_for_event_def run_consumer_def acquire_run_def throwing_def Let_def new_run_def
        failing_handler_def)
  moreover have "failing_handler name e db = Inr db' \<Longrightarrow> ev_outbox db' = ev_outbox db \<and> ev_runs db' = ev_runs db"
    for name e db db' by (simp add: failing_handler_def)
  ultimately show ?thesis using failed_runs_never_persist[OF _ ev_failed ev_db_inv] unfolding list_all_iff by blast
qed

section \<open>Claims, retries and progress\<close>

lemma take_sort_key_le:
  assumes "x \<in> set (take n (sort_key f xs))" and "y \<in> set xs" and "y \<notin> set (take n (sort_key f xs))"
  shows "f x \<le> f y"
proof -
  have "y \<in> set (drop n (sort_key f xs))"
    using assms(2,3) by (metis append_take_drop_id set_append set_sort Un_iff)
  moreover have "sorted (map f (take n (sort_key f xs)) @ map f (drop n (sort_key f xs)))"
    by (metis append_take_drop_id map_append sorted_sort_key)
  ultimately show ?thesis using assms(1) by (auto simp: sorted_append)
qed

lemma claim_candidates_mem:
  "e \<in> set (claim_candidates rt locked b st es) \<Longrightarrow> e \<in> set es \<and> claimable rt st e \<and> \<not> locked (oe_id e)"
  by (auto simp: claim_candidates_def dest: in_set_takeD)

text \<open>C8: A claim takes at most \<open>batch_size\<close> events, only events that are due or stale and not held by
  another transaction, the oldest first, and all of them when there are no more than \<open>batch_size\<close>; it marks
  exactly these as processing with one more attempt and changes no other row.\<close>

theorem claim_takes_oldest_due:
  assumes inv: "outbox_inv db" and claim: "claim_outbox_events rt locked b st db = Inr (cs, db')"
  defines "due \<equiv> {e \<in> set (ev_outbox db). claimable rt st e \<and> \<not> locked (oe_id e)}"
    and "taken \<equiv> {e \<in> set (ev_outbox db). oe_id e \<in> ce_id ` set cs}"
  shows "int (card taken) \<le> b \<and> taken \<subseteq> due \<and> (int (card taken) < b \<longrightarrow> taken = due) \<and>
    (\<forall>e\<in>taken. \<forall>f\<in>due - taken. (oe_available_at e, oe_created_at e) \<le> (oe_available_at f, oe_created_at f)) \<and>
    ev_outbox db' = map (\<lambda>e. if e \<in> taken then claimed_fields rt e else e) (ev_outbox db)"
proof -
  let ?c = "claim_candidates rt locked b st (ev_outbox db)"
  have dist: "distinct (map oe_id (ev_outbox db))" using inv by (simp add: outbox_inv_def events_ok_def)
  have b: "1 \<le> b" using claim by (auto simp: claim_outbox_events_def split: if_splits)
  from claim_Inr[OF claim] have db': "ev_outbox db' = update_where (\<lambda>e. oe_id e \<in> oe_id ` set ?c) (claimed_fields rt) (ev_outbox db)"
    and cs: "cs = map claimed_event_of (filter (\<lambda>e. oe_id e \<in> oe_id ` set ?c) (ev_outbox db'))" by auto
  have "oe_id (claimed_fields rt e) = oe_id e" for e by (simp add: claimed_fields_def)
  then have "oe_id ` set (ev_outbox db') = oe_id ` set (ev_outbox db)"
    unfolding db' by (metis update_where_map_key list.set_map)
  moreover have "set ?c \<subseteq> set (ev_outbox db)" using claim_candidates_mem by blast
  ultimately have sub: "oe_id ` set ?c \<subseteq> oe_id ` set (ev_outbox db')" by auto
  have "ce_id ` set cs = oe_id ` {e \<in> set (ev_outbox db'). oe_id e \<in> oe_id ` set ?c}"
    by (simp add: cs image_image claimed_event_of_def Let_def)
  moreover have "oe_id ` {e \<in> A. oe_id e \<in> K} = K" if "K \<subseteq> oe_id ` A" for K A using that by auto
  ultimately have ids: "ce_id ` set cs = oe_id ` set ?c" using sub by simp
  have same: "e = f" if "oe_id e = oe_id f" "e \<in> set (ev_outbox db)" "f \<in> set (ev_outbox db)" for e f
    using dist that by (auto simp: distinct_map dest: inj_onD)
  have taken: "taken = set ?c"
    unfolding taken_def ids using same claim_candidates_mem by fastforce
  have distc: "distinct (filter (\<lambda>e. claimable rt st e \<and> \<not> locked (oe_id e)) (ev_outbox db))"
    using dist by (simp add: distinct_map)
  have due: "due = set (filter (\<lambda>e. claimable rt st e \<and> \<not> locked (oe_id e)) (ev_outbox db))"
    by (auto simp: due_def)
  have len: "length ?c = min (nat b) (card due)"
    unfolding due distinct_card[OF distc] claim_candidates_def by (simp add: min.commute)
  have "distinct ?c" unfolding claim_candidates_def using distc by (simp add: distinct_take)
  then have card: "card taken = min (nat b) (card due)" unfolding taken using len by (simp add: distinct_card)
  have sub: "taken \<subseteq> due" unfolding taken due_def using claim_candidates_mem by fastforce
  have all: "taken = due" if "int (card taken) < b"
    by (rule card_subset_eq) (use sub that card b in \<open>auto simp: due\<close>)
  have oldest: "(oe_available_at e, oe_created_at e) \<le> (oe_available_at f, oe_created_at f)"
    if "e \<in> taken" "f \<in> due - taken" for e f
  proof -
    have "e \<in> set ?c" "f \<notin> set ?c" using that taken by simp_all
    moreover have "f \<in> set (filter (\<lambda>e. claimable rt st e \<and> \<not> locked (oe_id e)) (ev_outbox db))"
      using that(2) due by blast
    ultimately show ?thesis
      using take_sort_key_le[where f = "\<lambda>e. (oe_available_at e, oe_created_at e)"]
      unfolding claim_candidates_def by blast
  qed
  have upd: "update_where (\<lambda>e. oe_id e \<in> oe_id ` set ?c) (claimed_fields rt) (ev_outbox db) =
      map (\<lambda>e. if e \<in> taken then claimed_fields rt e else e) (ev_outbox db)"
    unfolding update_where_def taken_def ids by simp
  have "int (card taken) \<le> b" using card b by simp
  then show ?thesis
  proof (intro conjI impI ballI)
    show "taken \<subseteq> due" by (rule sub)
    show "taken = due" if "int (card taken) < b" by (rule all[OF that])
    show "(oe_available_at e, oe_created_at e) \<le> (oe_available_at f, oe_created_at f)"
      if "e \<in> taken" "f \<in> due - taken" for e f by (rule oldest[OF that])
    show "ev_outbox db' = map (\<lambda>e. if e \<in> taken then claimed_fields rt e else e) (ev_outbox db)"
      unfolding db' by (rule upd)
  qed
qed

theorem claim_takes_oldest_due_witness:
  "\<exists>cs db'. claim_outbox_events ev_rt (\<lambda>_. False) 100 30000 ev_db = Inr (cs, db') \<and>
     ev_outbox db' = [claimed_fields ev_rt ev_event]"
proof -
  obtain cs db' where claim: "claim_outbox_events ev_rt (\<lambda>_. False) 100 30000 ev_db = Inr (cs, db')"
    by (simp add: claim_outbox_events_def Let_def)
  have due: "claimable ev_rt 30000 ev_event" by (simp add: claimable_def ev_event_def ev_rt_def)
  let ?taken = "{e \<in> set (ev_outbox ev_db). oe_id e \<in> ce_id ` set cs}"
  have "card ?taken \<le> 1"
    using card_mono[of "{ev_event}" ?taken] by (auto simp: ev_db_def)
  note card = this and c = claim_takes_oldest_due[OF ev_db_inv claim]
  have "?taken = {e \<in> set (ev_outbox ev_db). claimable ev_rt 30000 e \<and> \<not> False}"
    using conjunct1[OF conjunct2[OF conjunct2[OF c]]] card by simp
  moreover have "ev_event \<in> {e \<in> set (ev_outbox ev_db). claimable ev_rt 30000 e \<and> \<not> False}"
    using due by (simp add: ev_db_def)
  ultimately have "ev_event \<in> ?taken" by blast
  moreover have "ev_outbox db' = map (\<lambda>e. if e \<in> ?taken then claimed_fields ev_rt e else e) (ev_outbox ev_db)"
    by (rule conjunct2[OF conjunct2[OF conjunct2[OF conjunct2[OF c]]]])
  moreover have "ev_outbox ev_db = [ev_event]" by (simp add: ev_db_def)
  ultimately have "ev_outbox db' = [claimed_fields ev_rt ev_event]" by simp
  with claim show ?thesis by blast
qed

text \<open>Progress: a job for an event of the tenant that the registered consumers handle always succeeds
  and leaves the event published, whatever the event's status and number of attempts were.\<close>

theorem consume_publishes:
  assumes inv: "outbox_inv db" and e: "find_event db tenant i = Some e"
  shows "\<exists>db' e'. consume rt handle_event tenant i db = (Inr (), db') \<and>
    find_event db' tenant i = Some e' \<and> oe_status e' = EvPublished"
proof -
  have mem: "e \<in> set (ev_outbox db)" and ids: "oe_tenant_id e = tenant" "oe_id e = i"
    using e by (auto simp: find_event_def event_at_def dest: select_first_Some)
  have one: "\<exists>d'. run_consumer rt handle_event e name d = Inr d'"
    if "outbox_inv d" "e \<in> set (ev_outbox d)" for name and d :: "'a events_db_scheme"
  proof (cases "select_first (run_for (oe_tenant_id e) (oe_id e) name) (ev_runs d)")
    case None
    have "\<not> (cr_tenant_id r = oe_tenant_id e \<and> cr_consumer_name r = name \<and> cr_event_key r = oe_event_key e)"
      if "r \<in> set (ev_runs d)" for r
    proof
      assume *: "cr_tenant_id r = oe_tenant_id e \<and> cr_consumer_name r = name \<and> cr_event_key r = oe_event_key e"
      obtain f where "f \<in> set (ev_outbox d)" "oe_id f = cr_outbox_event_id r"
          "oe_tenant_id f = cr_tenant_id r" "oe_event_key f = cr_event_key r"
        using \<open>outbox_inv d\<close> \<open>r \<in> set (ev_runs d)\<close> unfolding outbox_inv_def runs_ok_def run_of_event_def
        by (auto simp: event_ident_def)
      moreover from this have "f = e"
        using * that(1) \<open>outbox_inv d\<close> \<open>e \<in> set (ev_outbox d)\<close>
        unfolding outbox_inv_def events_ok_def distinct_map by (auto dest: inj_onD)
      ultimately show False using None * \<open>r \<in> set (ev_runs d)\<close> by (auto simp: select_first_None run_for_def)
    qed
    with None show ?thesis
      by (auto simp: run_consumer_def acquire_run_def throwing_def Let_def new_run_def handle_event_def list_ex_iff)
  next
    case (Some r)
    then have "r \<in> set (ev_runs d)" by (auto dest: select_first_Some)
    then show ?thesis using \<open>outbox_inv d\<close> Some
      by (auto simp: run_consumer_def acquire_run_def throwing_def outbox_inv_def run_done_def)
  qed
  have all: "\<exists>d'. run_consumers rt handle_event e names d = Inr d'"
    if "outbox_inv d" "e \<in> set (ev_outbox d)" "set names \<subseteq> set (consumers_for_event (oe_event_name e))"
    for names and d :: "'a events_db_scheme"
    using that
  proof (induction names arbitrary: d)
    case (Cons name names)
    obtain d1 where d1: "run_consumer rt handle_event e name d = Inr d1" using one Cons.prems by blast
    then have "outbox_inv d1 \<and> ev_outbox d1 = ev_outbox d"
      using audits.run_consumer_step[OF Cons.prems(1,2) _ d1] Cons.prems(3) by simp
    then show ?case using d1 Cons by simp
  qed simp
  show ?thesis
  proof (cases "oe_status e = EvPublished")
    case True
    with e show ?thesis by (simp add: consume_def consume_callback_def)
  next
    case False
    obtain d1 where d1: "run_consumers rt handle_event e (consumers_for_event (oe_event_name e)) db = Inr d1"
      using all inv mem by blast
    then have "ev_outbox d1 = ev_outbox db" using audits.run_consumers_step[OF inv mem _ d1] by simp
    moreover have "event_at tenant i (published_fields rt x) = event_at tenant i x" for x
      by (simp add: event_at_def published_fields_def)
    ultimately have "find_event (mark_published rt tenant i d1) tenant i = Some (published_fields rt e)"
      using e by (simp add: find_event_def mark_published_def select_first_update_where)
        (auto dest: select_first_Some)
    with False e d1 ids show ?thesis by (simp add: consume_def consume_callback_def)
  qed
qed

theorem consume_publishes_witness:
  "\<exists>db'. consume ev_rt handle_event ''t1'' 1 ev_db = (Inr (), db') \<and>
     (\<exists>e. find_event db' ''t1'' 1 = Some e \<and> oe_status e = EvPublished)"
proof -
  have "find_event ev_db ''t1'' 1 = Some ev_event" by (simp add: find_event_def ev_db_def event_at_def ev_event_def)
  from consume_publishes[OF ev_db_inv this, of ev_rt] show ?thesis by blast
qed

text \<open>C9: A failing job, whatever the consumer did before it threw, changes nothing but its event: below the
  limit of attempts the event becomes due again exactly after the retry delay, at the limit it is discarded
  and no claim ever takes it again.\<close>

theorem failed_consume_retries_or_discards:
  assumes "consume rt handle tenant i db = (Inl err, db')" and "find_event db tenant i = Some e"
  shows "db' = db\<lparr>ev_outbox := ev_outbox db'\<rparr> \<and>
    (\<forall>j. j \<noteq> i \<longrightarrow> find_event db' tenant j = find_event db tenant j) \<and>
    (\<exists>e'. find_event db' tenant i = Some e' \<and> oe_attempt_count e' = oe_attempt_count e \<and>
       (if max_attempts rt \<le> int (oe_attempt_count e)
        then oe_status e' = EvDiscarded \<and> (\<forall>rt' st. \<not> claimable rt' st e')
        else oe_status e' = EvFailed \<and>
          (\<forall>rt' st. claimable rt' st e' \<longleftrightarrow> rt_now rt + retry_delay_ms rt \<le> rt_now rt')))"
proof -
  let ?f = "failed_fields rt (exn_message rt err) (retry_delay_ms rt) (max_attempts rt)"
  have db': "db' = mark_event_failed rt tenant i (exn_message rt err) (retry_delay_ms rt) (max_attempts rt) db"
    using assms(1) by (auto simp: consume_def split: sum.splits)
  have at: "event_at tenant j (?f x) = event_at tenant j x" for x j
    by (simp add: event_at_def failed_fields_def)
  have find: "find_event db' tenant j = map_option (\<lambda>x. if event_at tenant i x then ?f x else x) (find_event db tenant j)" for j
    unfolding db' find_event_def mark_event_failed_def by (simp add: select_first_update_where at)
  have "event_at tenant i e" using assms(2) by (auto simp: find_event_def dest: select_first_Some)
  then have "find_event db' tenant i = Some (?f e)" using find assms(2) by simp
  moreover have "find_event db' tenant j = find_event db tenant j" if "j \<noteq> i" for j
    using find[of j] that
    by (cases "find_event db tenant j") (auto simp: find_event_def event_at_def dest: select_first_Some)
  moreover have "db' = db\<lparr>ev_outbox := ev_outbox db'\<rparr>" by (simp add: db' mark_event_failed_def)
  ultimately show ?thesis by (auto simp: failed_fields_def claimable_def)
qed

theorem failed_consume_retries_or_discards_witness:
  "\<exists>e'. find_event ev_failed_db ''t1'' 1 = Some e' \<and> oe_status e' = EvFailed \<and>
     claimable (ev_rt\<lparr>rt_now := 6000\<rparr>) 30000 e' \<and> \<not> claimable (ev_rt\<lparr>rt_now := 5999\<rparr>) 30000 e'"
proof -
  have "consume ev_rt failing_handler ''t1'' 1 ev_db =
      (Inl (PgError ''23503'' ''fk_audit_logs_actor_user''), ev_failed_db)"
    by (simp add: ev_failed_db_def consume_def consume_callback_def find_event_def ev_db_def event_at_def
        ev_event_def consumers_for_event_def run_consumer_def acquire_run_def throwing_def Let_def new_run_def
        failing_handler_def)
  moreover have "find_event ev_db ''t1'' 1 = Some ev_event"
    by (simp add: find_event_def ev_db_def event_at_def ev_event_def)
  moreover have "max_attempts ev_rt = 25" "retry_delay_ms ev_rt = 5000" "rt_now ev_rt = 1000"
    by (simp_all add: max_attempts_def retry_delay_ms_def config_number_def ev_rt_def)
  moreover have "oe_attempt_count ev_event = 0" by (simp add: ev_event_def)
  ultimately show ?thesis using failed_consume_retries_or_discards by fastforce
qed

end
