(* ===== verification/Iso_Time.thy ===== *)
theory Iso_Time
  imports Runtime
begin

text \<open>
  Dates of the standard library. A \<open>Date\<close> is its number of milliseconds since 1970; \<open>iso_date\<close>
  is \<open>toISOString().slice(0, 10)\<close> for the years 0 to 9999, by the proleptic Gregorian calendar in eras of 400 years.
\<close>

definition ms_per_day :: int where
  "ms_per_day = 24 * 60 * 60 * 1000"

definition add_days :: "int \<Rightarrow> int \<Rightarrow> int" where
  "add_days t days = t + days * 24 * 60 * 60 * 1000"

text \<open>Year, month and day of a day number.\<close>

definition civil_from_days :: "int \<Rightarrow> int \<times> int \<times> int" where
  "civil_from_days days =
     (let z = days + 719468;
          era = z div 146097;
          doe = z mod 146097;
          yoe = (doe - doe div 1460 + doe div 36524 - doe div 146096) div 365;
          doy = doe - (365 * yoe + yoe div 4 - yoe div 100);
          mp = (5 * doy + 2) div 153;
          d = doy - (153 * mp + 2) div 5 + 1;
          m = (if mp < 10 then mp + 3 else mp - 9)
      in (yoe + era * 400 + (if m \<le> 2 then 1 else 0), m, d))"

definition days_from_civil :: "int \<times> int \<times> int \<Rightarrow> int" where
  "days_from_civil = (\<lambda>(year, m, d).
     let y = (if m \<le> 2 then year - 1 else year);
         era = y div 400;
         yoe = y mod 400;
         doy = (153 * (if 2 < m then m - 3 else m + 9) + 2) div 5 + d - 1;
         doe = yoe * 365 + yoe div 4 - yoe div 100 + doy
     in era * 146097 + doe - 719468)"

definition pad :: "nat \<Rightarrow> int \<Rightarrow> string" where
  "pad width n = (let s = show_int n in replicate (width - length s) (CHR ''0'') @ s)"

definition iso_date :: "int \<Rightarrow> string" where
  "iso_date t = (case civil_from_days (t div ms_per_day) of (y, m, d) \<Rightarrow>
     pad 4 y @ ''-'' @ pad 2 m @ ''-'' @ pad 2 d)"

text \<open>The whole of \<open>toISOString()\<close>.\<close>

definition iso_string :: "int \<Rightarrow> string" where
  "iso_string t = (let ms = t mod ms_per_day in
     iso_date t @ ''T'' @ pad 2 (ms div 3600000) @ '':'' @ pad 2 (ms div 60000 mod 60) @ '':'' @
     pad 2 (ms div 1000 mod 60) @ ''.'' @ pad 3 (ms mod 1000) @ ''Z'')"

end
