(* ===== verification/Billing_Store.thy ===== *)
theory Billing_Store
  imports Outbox Iso_Time
begin

text \<open>
  The tables of the billing module and their repositories
  (\<open>modules/billing/repositories\<close>): subscriptions, invoices (of subscriptions and of student
  fees), the allocations of fee payments, student credits, usage records, fee structures and the
  lifecycle notifications. Amounts are the values of
  the \<open>bigint\<close> columns, times are milliseconds. Encrypted phone columns hold the clear text.
\<close>

datatype subscription_status =
  SubTrialing | SubActive | SubPastDue | SubRestricted | SubSuspended | SubCanceled | SubExpired

record subscription =
  sb_id :: uuid
  sb_tenant_id :: string
  sb_plan_code :: string
  sb_status :: subscription_status
  sb_billing_phone_number :: "string option"
  sb_currency_code :: string
  sb_features :: "string list"
  sb_limits :: "(string \<times> json) list"
  sb_seats_allocated :: int
  sb_current_period_start :: int
  sb_current_period_end :: int
  sb_trial_ends_at :: "int option"
  sb_grace_period_ends_at :: "int option"
  sb_restricted_at :: "int option"
  sb_suspended_at :: "int option"
  sb_suspension_reason :: "string option"
  sb_activated_at :: "int option"
  sb_canceled_at :: "int option"
  sb_last_invoice_at :: "int option"
  sb_metadata :: json
  sb_created_at :: int
  sb_updated_at :: int

datatype invoice_status = InvDraft | InvOpen | InvPendingPayment | InvPaid | InvVoid | InvUncollectible

record invoice =
  iv_id :: uuid
  iv_tenant_id :: string
  iv_subscription_id :: uuid
  iv_invoice_number :: string
  iv_status :: invoice_status
  iv_currency_code :: string
  iv_description :: string
  iv_subtotal_amount_minor :: int
  iv_tax_amount_minor :: int
  iv_total_amount_minor :: int
  iv_amount_paid_minor :: int
  iv_billing_phone_number :: "string option"
  iv_payment_intent_id :: "uuid option"
  iv_issued_at :: int
  iv_due_at :: int
  iv_paid_at :: "int option"
  iv_voided_at :: "int option"
  iv_metadata :: "(string \<times> json) list"
  iv_created_at :: int
  iv_updated_at :: int

record fee_allocation =
  fa_id :: uuid
  fa_tenant_id :: string
  fa_invoice_id :: uuid
  fa_student_id :: uuid
  fa_parent_user_id :: "string option"
  fa_payment_intent_id :: uuid
  fa_ledger_transaction_id :: "uuid option"
  fa_amount_minor :: int
  fa_idempotency_key :: string

record fee_credit =
  fc_id :: uuid
  fc_tenant_id :: string
  fc_student_id :: uuid
  fc_parent_user_id :: "string option"
  fc_payment_intent_id :: uuid
  fc_ledger_transaction_id :: "uuid option"
  fc_amount_minor :: int
  fc_remaining_amount_minor :: int
  fc_idempotency_key :: string

datatype lifecycle_state = LsActive | LsTrial | LsExpiring | LsGracePeriod | LsRestricted | LsSuspended

record billing_notification =
  bn_id :: uuid
  bn_tenant_id :: string
  bn_subscription_id :: uuid
  bn_notification_key :: string
  bn_channel :: string
  bn_audience :: string
  bn_lifecycle_state :: lifecycle_state
  bn_status :: string
  bn_title :: string
  bn_body :: string
  bn_scheduled_for :: int
  bn_delivered_at :: "int option"
  bn_metadata :: json

record usage_record =
  ur_id :: uuid
  ur_tenant_id :: string
  ur_subscription_id :: uuid
  ur_feature_key :: string
  ur_quantity :: int
  ur_unit :: string
  ur_idempotency_key :: string
  ur_recorded_at :: int
  ur_period_start :: int
  ur_period_end :: int
  ur_metadata :: json

datatype fee_structure_status = FsDraft | FsActive | FsArchived

record fee_structure =
  fs_id :: uuid
  fs_tenant_id :: string
  fs_name :: string
  fs_academic_year :: string
  fs_term :: string
  fs_grade_level :: string
  fs_class_name :: "string option"
  fs_currency_code :: string
  fs_status :: fee_structure_status
  fs_due_days :: int
  fs_line_items :: "(string \<times> string \<times> string) list"
  fs_total_amount_minor :: int
  fs_metadata :: json
  fs_created_by_user_id :: "string option"
  fs_created_at :: int
  fs_updated_at :: int

record billing_db = events_db +
  bl_subscriptions :: "subscription list"
  bl_invoices :: "invoice list"
  bl_allocations :: "fee_allocation list"
  bl_credits :: "fee_credit list"
  bl_notifications :: "billing_notification list"
  bl_usage :: "usage_record list"
  bl_fee_structures :: "fee_structure list"

section \<open>\<open>SubscriptionsRepository\<close>\<close>

fun status_rank :: "subscription_status \<Rightarrow> nat" where
  "status_rank SubActive = 1"
| "status_rank SubTrialing = 2"
| "status_rank SubPastDue = 3"
| "status_rank SubRestricted = 4"
| "status_rank SubSuspended = 5"
| "status_rank SubCanceled = 6"
| "status_rank SubExpired = 6"

definition first_row :: "'r list \<Rightarrow> 'r option" where
  "first_row rows = (case rows of [] \<Rightarrow> None | r # _ \<Rightarrow> Some r)"

definition lock_current_by_tenant :: "'a billing_db_scheme \<Rightarrow> string \<Rightarrow> subscription option" where
  "lock_current_by_tenant db tenant =
     first_row (sort_key (\<lambda>s. (status_rank (sb_status s), - sb_created_at s))
       (filter (\<lambda>s. sb_tenant_id s = tenant) (bl_subscriptions db)))"

definition subscription_at :: "string \<Rightarrow> uuid \<Rightarrow> subscription \<Rightarrow> bool" where
  "subscription_at tenant i s \<longleftrightarrow> sb_tenant_id s = tenant \<and> sb_id s = i"

record lifecycle_window =
  lw_status :: subscription_status
  lw_grace_period_ends_at :: "int option"
  lw_restricted_at :: "int option"
  lw_suspended_at :: "int option"
  lw_suspension_reason :: "string option"

definition lifecycle_fields :: "runtime \<Rightarrow> lifecycle_window \<Rightarrow> subscription \<Rightarrow> subscription" where
  "lifecycle_fields rt w s =
     s\<lparr>sb_status := lw_status w,
       sb_grace_period_ends_at := or_else (lw_grace_period_ends_at w) (sb_grace_period_ends_at s),
       sb_restricted_at := or_else (lw_restricted_at w) (sb_restricted_at s),
       sb_suspended_at := or_else (lw_suspended_at w) (sb_suspended_at s),
       sb_suspension_reason := or_else (lw_suspension_reason w) (sb_suspension_reason s),
       sb_updated_at := rt_now rt\<rparr>"

text \<open>The statuses of \<open>ux_subscriptions_single_mutable_state\<close>: at most one such row per tenant.\<close>

definition mutable_status :: "subscription_status \<Rightarrow> bool" where
  "mutable_status st \<longleftrightarrow> st \<noteq> SubCanceled \<and> st \<noteq> SubExpired"

definition single_mutable :: "subscription list \<Rightarrow> string \<Rightarrow> bool" where
  "single_mutable ss tenant \<longleftrightarrow>
     length (filter (\<lambda>s. sb_tenant_id s = tenant \<and> mutable_status (sb_status s)) ss) \<le> 1"

text \<open>\<open>UPDATE subscriptions ... WHERE tenant_id, id RETURNING\<close>: the row, under the unique index.\<close>

definition update_subscription ::
  "string \<Rightarrow> uuid \<Rightarrow> (subscription \<Rightarrow> subscription) \<Rightarrow> 'a billing_db_scheme \<Rightarrow>
     (subscription \<times> 'a billing_db_scheme) result" where
  "update_subscription tenant i f db =
     (let ss = update_where (subscription_at tenant i) f (bl_subscriptions db)
      in and_then (guard (single_mutable ss tenant) (PgError ''23505'' ''ux_subscriptions_single_mutable_state'')) (\<lambda>_.
         case select_first (subscription_at tenant i) ss of
           None \<Rightarrow> Inl (InternalServerErrorException ''Cannot read properties of undefined'')
         | Some s \<Rightarrow> Inr (s, db\<lparr>bl_subscriptions := ss\<rparr>)))"

definition apply_lifecycle_window ::
  "runtime \<Rightarrow> string \<Rightarrow> uuid \<Rightarrow> lifecycle_window \<Rightarrow> 'a billing_db_scheme \<Rightarrow>
     (subscription \<times> 'a billing_db_scheme) result" where
  "apply_lifecycle_window rt tenant i w = update_subscription tenant i (lifecycle_fields rt w)"

definition renewed_fields :: "runtime \<Rightarrow> int \<Rightarrow> int \<Rightarrow> int \<Rightarrow> subscription \<Rightarrow> subscription" where
  "renewed_fields rt period_start period_end activated s =
     s\<lparr>sb_status := SubActive, sb_current_period_start := period_start, sb_current_period_end := period_end,
       sb_trial_ends_at := None, sb_grace_period_ends_at := None, sb_restricted_at := None,
       sb_suspended_at := None, sb_suspension_reason := None, sb_activated_at := Some activated,
       sb_canceled_at := None, sb_updated_at := rt_now rt\<rparr>"

definition restore_renewed_subscription ::
  "runtime \<Rightarrow> string \<Rightarrow> uuid \<Rightarrow> int \<Rightarrow> int \<Rightarrow> int \<Rightarrow> 'a billing_db_scheme \<Rightarrow>
     (subscription \<times> 'a billing_db_scheme) result" where
  "restore_renewed_subscription rt tenant i period_start period_end activated =
     update_subscription tenant i (renewed_fields rt period_start period_end activated)"

section \<open>\<open>BillingNotificationsRepository\<close>\<close>

text \<open>\<open>createIfAbsent\<close>: a row with the key stays as it is.\<close>

definition create_notification_if_absent ::
  "(uuid \<Rightarrow> billing_notification) \<Rightarrow> 'a billing_db_scheme \<Rightarrow> 'a billing_db_scheme" where
  "create_notification_if_absent mk db =
     (let n = mk (fresh_uuid (map bn_id (bl_notifications db)))
      in if list_ex (\<lambda>m. bn_tenant_id m = bn_tenant_id n \<and> bn_notification_key m = bn_notification_key n)
              (bl_notifications db)
         then db else db\<lparr>bl_notifications := bl_notifications db @ [n]\<rparr>)"

section \<open>\<open>InvoicesRepository\<close>\<close>

definition invoice_at :: "string \<Rightarrow> uuid \<Rightarrow> invoice \<Rightarrow> bool" where
  "invoice_at tenant i v \<longleftrightarrow> iv_tenant_id v = tenant \<and> iv_id v = i"

definition lock_invoice_by_payment_intent :: "'a billing_db_scheme \<Rightarrow> string \<Rightarrow> uuid \<Rightarrow> invoice option" where
  "lock_invoice_by_payment_intent db tenant intent =
     select_first (\<lambda>v. iv_tenant_id v = tenant \<and> iv_payment_intent_id v = Some intent) (bl_invoices db)"

definition invoice_paid_fields :: "runtime \<Rightarrow> int \<Rightarrow> invoice \<Rightarrow> invoice" where
  "invoice_paid_fields rt amount v =
     v\<lparr>iv_status := InvPaid, iv_amount_paid_minor := amount, iv_paid_at := Some (rt_now rt),
       iv_updated_at := rt_now rt\<rparr>"

text \<open>The amount is the text of a \<open>bigint\<close>; \<open>ck_invoices_amount_paid_non_negative\<close>.\<close>

definition mark_invoice_paid ::
  "runtime \<Rightarrow> string \<Rightarrow> uuid \<Rightarrow> string \<Rightarrow> 'a billing_db_scheme \<Rightarrow> 'a billing_db_scheme result" where
  "mark_invoice_paid rt tenant i amount db =
     and_then (pg_bigint amount) (\<lambda>n.
     and_then (guard (0 \<le> n) (PgError ''23514'' ''ck_invoices_amount_paid_non_negative'')) (\<lambda>_.
     Inr (db\<lparr>bl_invoices := update_where (invoice_at tenant i)
            (invoice_paid_fields rt n) (bl_invoices db)\<rparr>)))"

definition mark_payment_initiated ::
  "runtime \<Rightarrow> string \<Rightarrow> uuid \<Rightarrow> uuid \<Rightarrow> string option \<Rightarrow> 'a billing_db_scheme \<Rightarrow> 'a billing_db_scheme" where
  "mark_payment_initiated rt tenant i intent phone db =
     db\<lparr>bl_invoices := update_where (invoice_at tenant i)
          (\<lambda>v. v\<lparr>iv_payment_intent_id := Some intent,
                 iv_billing_phone_number := or_else phone (iv_billing_phone_number v), iv_status := InvPendingPayment,
                 iv_updated_at := rt_now rt\<rparr>) (bl_invoices db)\<rparr>"

definition find_fee_allocation_by_key :: "'a billing_db_scheme \<Rightarrow> string \<Rightarrow> string \<Rightarrow> fee_allocation option" where
  "find_fee_allocation_by_key db tenant key =
     select_first (\<lambda>a. fa_tenant_id a = tenant \<and> fa_idempotency_key a = key) (bl_allocations db)"

text \<open>
  \<open>findStudentFeeInvoicesForAllocation\<close>. \<open>locked\<close> are the rows other transactions hold
  (\<open>FOR UPDATE SKIP LOCKED\<close>).
\<close>

definition open_for_allocation :: "string \<Rightarrow> string \<Rightarrow> uuid option \<Rightarrow> invoice \<Rightarrow> bool" where
  "open_for_allocation tenant student explicit v \<longleftrightarrow>
     iv_tenant_id v = tenant \<and> json_field (iv_metadata v) ''student_id'' = Some student \<and>
     (iv_status v = InvOpen \<or> iv_status v = InvPendingPayment) \<and>
     iv_amount_paid_minor v < iv_total_amount_minor v \<and>
     (case explicit of None \<Rightarrow> True | Some i \<Rightarrow> iv_id v = i)"

definition find_fee_invoices_for_allocation ::
  "'a billing_db_scheme \<Rightarrow> (uuid \<Rightarrow> bool) \<Rightarrow> string \<Rightarrow> string \<Rightarrow> uuid option \<Rightarrow> invoice list" where
  "find_fee_invoices_for_allocation db locked tenant student explicit =
     sort_key (\<lambda>v. (iv_due_at v, iv_issued_at v, iv_created_at v))
       (filter (\<lambda>v. open_for_allocation tenant student explicit v \<and> \<not> locked (iv_id v)) (bl_invoices db))"

definition fee_payment_fields :: "runtime \<Rightarrow> uuid \<Rightarrow> int \<Rightarrow> invoice_status \<Rightarrow> invoice \<Rightarrow> invoice" where
  "fee_payment_fields rt intent amount st v =
     v\<lparr>iv_amount_paid_minor := amount, iv_payment_intent_id := Some intent, iv_status := st,
       iv_paid_at := (if st = InvPaid then Some (rt_now rt) else iv_paid_at v), iv_updated_at := rt_now rt\<rparr>"

definition apply_fee_invoice_payment ::
  "runtime \<Rightarrow> string \<Rightarrow> uuid \<Rightarrow> uuid \<Rightarrow> int \<Rightarrow> invoice_status \<Rightarrow> 'a billing_db_scheme \<Rightarrow> 'a billing_db_scheme result" where
  "apply_fee_invoice_payment rt tenant i intent next_amount st db =
     and_then (guard (fits_bigint next_amount) (PgError ''22003'' '''')) (\<lambda>_.
     and_then (guard (0 \<le> next_amount) (PgError ''23514'' ''ck_invoices_amount_paid_non_negative'')) (\<lambda>_.
     Inr (db\<lparr>bl_invoices := update_where (invoice_at tenant i)
            (fee_payment_fields rt intent next_amount st) (bl_invoices db)\<rparr>)))"

text \<open>\<open>createStudentFeePaymentAllocation\<close> and \<open>createStudentFeeCredit\<close>: \<open>ON CONFLICT DO NOTHING\<close>.\<close>

definition create_fee_allocation ::
  "(uuid \<Rightarrow> fee_allocation) \<Rightarrow> 'a billing_db_scheme \<Rightarrow> 'a billing_db_scheme result" where
  "create_fee_allocation mk db =
     (let a = mk (fresh_uuid (map fa_id (bl_allocations db)))
      in and_then (guard (fits_bigint (fa_amount_minor a)) (PgError ''22003'' '''')) (\<lambda>_.
         and_then (guard (0 < fa_amount_minor a)
           (PgError ''23514'' ''ck_student_fee_payment_allocations_amount'')) (\<lambda>_.
         Inr (if list_ex (\<lambda>b. fa_tenant_id b = fa_tenant_id a \<and> fa_idempotency_key b = fa_idempotency_key a \<and>
                  fa_invoice_id b = fa_invoice_id a) (bl_allocations db)
              then db else db\<lparr>bl_allocations := bl_allocations db @ [a]\<rparr>))))"

definition create_fee_credit ::
  "(uuid \<Rightarrow> fee_credit) \<Rightarrow> 'a billing_db_scheme \<Rightarrow> 'a billing_db_scheme result" where
  "create_fee_credit mk db =
     (let c = mk (fresh_uuid (map fc_id (bl_credits db)))
      in and_then (guard (fits_bigint (fc_amount_minor c)) (PgError ''22003'' '''')) (\<lambda>_.
         and_then (guard (0 < fc_amount_minor c) (PgError ''23514'' ''ck_student_fee_credits_amount'')) (\<lambda>_.
         Inr (if list_ex (\<lambda>d. fc_tenant_id d = fc_tenant_id c \<and> fc_idempotency_key d = fc_idempotency_key c)
                  (bl_credits db)
              then db else db\<lparr>bl_credits := bl_credits db @ [c]\<rparr>))))"

section \<open>Creating and expiring subscriptions\<close>

definition expired_fields :: "runtime \<Rightarrow> subscription \<Rightarrow> subscription" where
  "expired_fields rt s =
     s\<lparr>sb_status := (if sb_status s = SubTrialing then SubExpired else SubCanceled),
       sb_canceled_at := Some (rt_now rt), sb_updated_at := rt_now rt\<rparr>"

definition expire_current_subscriptions :: "runtime \<Rightarrow> string \<Rightarrow> 'a billing_db_scheme \<Rightarrow> 'a billing_db_scheme" where
  "expire_current_subscriptions rt tenant db =
     db\<lparr>bl_subscriptions := update_where (\<lambda>s. sb_tenant_id s = tenant \<and> mutable_status (sb_status s))
          (expired_fields rt) (bl_subscriptions db)\<rparr>"

definition subscription_checks :: "subscription \<Rightarrow> unit result" where
  "subscription_checks s =
     and_then (guard (currency_format (sb_currency_code s)) (PgError ''23514'' ''ck_subscriptions_currency_code'')) (\<lambda>_.
     and_then (guard (not_blank (sb_plan_code s)) (PgError ''23514'' ''ck_subscriptions_plan_code_not_blank'')) (\<lambda>_.
     guard (1 \<le> sb_seats_allocated s) (PgError ''23514'' ''ck_subscriptions_seats_allocated'')))"

definition create_subscription_row ::
  "(uuid \<Rightarrow> subscription) \<Rightarrow> 'a billing_db_scheme \<Rightarrow> (subscription \<times> 'a billing_db_scheme) result" where
  "create_subscription_row mk db =
     (let s = mk (fresh_uuid (map sb_id (bl_subscriptions db))); ss = bl_subscriptions db @ [s]
      in and_then (subscription_checks s) (\<lambda>_.
         and_then (guard (single_mutable ss (sb_tenant_id s))
           (PgError ''23505'' ''ux_subscriptions_single_mutable_state'')) (\<lambda>_.
         Inr (s, db\<lparr>bl_subscriptions := ss\<rparr>))))"

definition mark_invoice_issued :: "runtime \<Rightarrow> string \<Rightarrow> uuid \<Rightarrow> 'a billing_db_scheme \<Rightarrow> 'a billing_db_scheme" where
  "mark_invoice_issued rt tenant i db =
     db\<lparr>bl_subscriptions := update_where (subscription_at tenant i)
          (\<lambda>s. s\<lparr>sb_last_invoice_at := Some (rt_now rt), sb_updated_at := rt_now rt\<rparr>) (bl_subscriptions db)\<rparr>"

section \<open>Creating and finding invoices\<close>

definition invoice_checks :: "invoice \<Rightarrow> unit result" where
  "invoice_checks v =
     and_then (guard (currency_format (iv_currency_code v)) (PgError ''23514'' ''ck_invoices_currency_code'')) (\<lambda>_.
     and_then (guard (not_blank (iv_description v)) (PgError ''23514'' ''ck_invoices_description_not_blank'')) (\<lambda>_.
     and_then (guard (0 \<le> iv_subtotal_amount_minor v) (PgError ''23514'' ''ck_invoices_subtotal_non_negative'')) (\<lambda>_.
     and_then (guard (0 \<le> iv_tax_amount_minor v) (PgError ''23514'' ''ck_invoices_tax_non_negative'')) (\<lambda>_.
     guard (0 < iv_total_amount_minor v) (PgError ''23514'' ''ck_invoices_total_positive'')))))"

definition create_invoice ::
  "(uuid \<Rightarrow> invoice) \<Rightarrow> 'a billing_db_scheme \<Rightarrow> (invoice \<times> 'a billing_db_scheme) result" where
  "create_invoice mk db =
     (let v = mk (fresh_uuid (map iv_id (bl_invoices db)))
      in and_then (invoice_checks v) (\<lambda>_.
         and_then (guard (\<not> list_ex (\<lambda>w. iv_tenant_id w = iv_tenant_id v \<and> iv_invoice_number w = iv_invoice_number v)
             (bl_invoices db)) (PgError ''23505'' ''uq_invoices_tenant_invoice_number'')) (\<lambda>_.
         Inr (v, db\<lparr>bl_invoices := bl_invoices db @ [v]\<rparr>))))"

definition list_invoices :: "'a billing_db_scheme \<Rightarrow> string \<Rightarrow> invoice_status option \<Rightarrow> invoice list" where
  "list_invoices db tenant st =
     sort_key (\<lambda>v. (- iv_issued_at v, - iv_created_at v))
       (filter (\<lambda>v. iv_tenant_id v = tenant \<and> (case st of None \<Rightarrow> True | Some x \<Rightarrow> iv_status v = x)) (bl_invoices db))"

text \<open>\<open>findById\<close> and \<open>lockById\<close>.\<close>

definition find_invoice :: "'a billing_db_scheme \<Rightarrow> string \<Rightarrow> uuid \<Rightarrow> invoice option" where
  "find_invoice db tenant i = select_first (invoice_at tenant i) (bl_invoices db)"

definition find_latest_renewal_invoice :: "'a billing_db_scheme \<Rightarrow> string \<Rightarrow> uuid \<Rightarrow> string \<Rightarrow> invoice option" where
  "find_latest_renewal_invoice db tenant subscription_id window =
     first_row (sort_key (\<lambda>v. - iv_created_at v)
       (filter (\<lambda>v. iv_tenant_id v = tenant \<and> iv_subscription_id v = subscription_id \<and>
          json_field (iv_metadata v) ''billing_reason'' = Some ''subscription_renewal'' \<and>
          json_field (iv_metadata v) ''renewal_window'' = Some window) (bl_invoices db)))"

section \<open>\<open>UsageRecordsRepository\<close> and \<open>FeeStructuresRepository\<close>\<close>

definition find_usage_by_key :: "'a billing_db_scheme \<Rightarrow> string \<Rightarrow> uuid \<Rightarrow> string \<Rightarrow> usage_record option" where
  "find_usage_by_key db tenant sub key =
     select_first (\<lambda>u. ur_tenant_id u = tenant \<and> ur_subscription_id u = sub \<and> ur_idempotency_key u = key) (bl_usage db)"

definition usage_checks :: "usage_record \<Rightarrow> unit result" where
  "usage_checks u =
     and_then (guard (fits_bigint (ur_quantity u)) (PgError ''22003'' '''')) (\<lambda>_.
     and_then (guard (not_blank (ur_feature_key u)) (PgError ''23514'' ''ck_usage_records_feature_key_not_blank'')) (\<lambda>_.
     and_then (guard (0 < ur_quantity u) (PgError ''23514'' ''ck_usage_records_quantity_positive'')) (\<lambda>_.
     and_then (guard (not_blank (ur_unit u)) (PgError ''23514'' ''ck_usage_records_unit_not_blank'')) (\<lambda>_.
     guard (not_blank (ur_idempotency_key u)) (PgError ''23514'' ''ck_usage_records_idempotency_key_not_blank'')))))"

definition create_usage_record ::
  "(uuid \<Rightarrow> usage_record) \<Rightarrow> 'a billing_db_scheme \<Rightarrow> (usage_record \<times> 'a billing_db_scheme) result" where
  "create_usage_record mk db =
     (let u = mk (fresh_uuid (map ur_id (bl_usage db)))
      in and_then (usage_checks u) (\<lambda>_.
         case find_usage_by_key db (ur_tenant_id u) (ur_subscription_id u) (ur_idempotency_key u) of
           Some old \<Rightarrow> Inr (old, db)
         | None \<Rightarrow> Inr (u, db\<lparr>bl_usage := bl_usage db @ [u]\<rparr>)))"

definition in_usage_window :: "string \<Rightarrow> uuid \<Rightarrow> int \<Rightarrow> int \<Rightarrow> usage_record \<Rightarrow> bool" where
  "in_usage_window tenant sub start until u \<longleftrightarrow>
     ur_tenant_id u = tenant \<and> ur_subscription_id u = sub \<and> start \<le> ur_recorded_at u \<and> ur_recorded_at u < until"

definition get_total_quantity :: "'a billing_db_scheme \<Rightarrow> string \<Rightarrow> uuid \<Rightarrow> int \<Rightarrow> int \<Rightarrow> string option \<Rightarrow> int" where
  "get_total_quantity db tenant sub start until feature =
     sum_list (map ur_quantity (filter (\<lambda>u. in_usage_window tenant sub start until u \<and>
       (case feature of None \<Rightarrow> True | Some k \<Rightarrow> ur_feature_key u = k)) (bl_usage db)))"

definition fee_structure_at :: "string \<Rightarrow> uuid \<Rightarrow> fee_structure \<Rightarrow> bool" where
  "fee_structure_at tenant i f \<longleftrightarrow> fs_tenant_id f = tenant \<and> fs_id f = i"

definition find_fee_structure :: "'a billing_db_scheme \<Rightarrow> string \<Rightarrow> uuid \<Rightarrow> fee_structure option" where
  "find_fee_structure db tenant i = select_first (fee_structure_at tenant i) (bl_fee_structures db)"

definition fee_structure_checks :: "fee_structure \<Rightarrow> unit result" where
  "fee_structure_checks f =
     and_then (guard (fs_tenant_id f \<noteq> ''global'') (PgError ''23514'' ''ck_fee_structures_tenant_id_non_global'')) (\<lambda>_.
     and_then (guard (not_blank (fs_name f)) (PgError ''23514'' ''ck_fee_structures_name_not_blank'')) (\<lambda>_.
     and_then (guard (not_blank (fs_academic_year f)) (PgError ''23514'' ''ck_fee_structures_academic_year_not_blank'')) (\<lambda>_.
     and_then (guard (not_blank (fs_term f)) (PgError ''23514'' ''ck_fee_structures_term_not_blank'')) (\<lambda>_.
     and_then (guard (not_blank (fs_grade_level f)) (PgError ''23514'' ''ck_fee_structures_grade_level_not_blank'')) (\<lambda>_.
     and_then (guard (currency_format (fs_currency_code f)) (PgError ''23514'' ''ck_fee_structures_currency'')) (\<lambda>_.
     and_then (guard (0 \<le> fs_due_days f \<and> fs_due_days f \<le> 365) (PgError ''23514'' ''ck_fee_structures_due_days'')) (\<lambda>_.
     and_then (guard (fs_line_items f \<noteq> []) (PgError ''23514'' ''ck_fee_structures_line_items'')) (\<lambda>_.
     guard (0 < fs_total_amount_minor f) (PgError ''23514'' ''ck_fee_structures_total'')))))))))"

definition create_fee_structure_row ::
  "(uuid \<Rightarrow> fee_structure) \<Rightarrow> 'a billing_db_scheme \<Rightarrow> (fee_structure \<times> 'a billing_db_scheme) result" where
  "create_fee_structure_row mk db =
     (let f = mk (fresh_uuid (map fs_id (bl_fee_structures db)))
      in and_then (guard (fits_bigint (fs_total_amount_minor f)) (PgError ''22003'' '''')) (\<lambda>_.
         and_then (fee_structure_checks f) (\<lambda>_.
         Inr (f, db\<lparr>bl_fee_structures := bl_fee_structures db @ [f]\<rparr>))))"

definition archive_fee_structure_row ::
  "runtime \<Rightarrow> string \<Rightarrow> uuid \<Rightarrow> 'a billing_db_scheme \<Rightarrow> fee_structure option \<times> 'a billing_db_scheme" where
  "archive_fee_structure_row rt tenant i db =
     (let fs = update_where (fee_structure_at tenant i)
        (\<lambda>f. f\<lparr>fs_status := FsArchived, fs_updated_at := rt_now rt\<rparr>) (bl_fee_structures db)
      in (select_first (fee_structure_at tenant i) fs, db\<lparr>bl_fee_structures := fs\<rparr>))"

end
