(* ===== verification/Fee_Allocation.thy ===== *)
theory Fee_Allocation
  imports Billing_Store "HOL-Library.Sublist"
begin

text \<open>
  \<open>StudentFeePaymentAllocationService\<close>: the confirmed payment of a student's fees is spread over the
  student's open invoices, the oldest due first, and what is left becomes a credit.
\<close>

record completed_intent =
  cp_id :: uuid
  cp_tenant_id :: string
  cp_student_id :: "uuid option"
  cp_user_id :: "string option"
  cp_external_reference :: "string option"
  cp_account_reference :: "string option"
  cp_ledger_transaction_id :: "uuid option"
  cp_metadata :: "(string \<times> json) list"

record allocation_result =
  ar_duplicate :: bool
  ar_allocated_amount_minor :: string
  ar_credit_amount_minor :: string
  ar_invoice_allocations :: "(uuid \<times> string) list"

definition parse_minor_units :: "string \<Rightarrow> string \<Rightarrow> int result" where
  "parse_minor_units v label =
     (if digits_only (js_trim v) then Inr (int (parse_nat (js_trim v)))
      else Inl (BadRequestException (label @ '' must be a non-negative integer minor-unit amount'')))"

text \<open>\<open>readString(metadata[key])\<close>: only a JSON string counts.\<close>

definition read_string_metadata :: "(string \<times> json) list \<Rightarrow> string \<Rightarrow> string option" where
  "read_string_metadata kvs key = read_string (case map_of kvs key of Some (JStr s) \<Rightarrow> Some s | _ \<Rightarrow> None)"

definition resolve_explicit_invoice_id :: "completed_intent \<Rightarrow> uuid option" where
  "resolve_explicit_invoice_id p =
     or_else (read_uuid (cp_external_reference p))
       (or_else (read_uuid (cp_account_reference p))
         (read_uuid (read_string_metadata (cp_metadata p) ''invoice_id'')))"

definition build_allocation_idempotency_key :: "string \<Rightarrow> uuid \<Rightarrow> uuid option \<Rightarrow> string" where
  "build_allocation_idempotency_key tenant intent ledger =
     join '':'' [''student-fee'', tenant, uuid_text intent,
       (case ledger of None \<Rightarrow> ''no-ledger'' | Some t \<Rightarrow> uuid_text t)]"

definition assert_invoice_belongs_to_student :: "invoice \<Rightarrow> string \<Rightarrow> string \<Rightarrow> unit result" where
  "assert_invoice_belongs_to_student v tenant student =
     (if iv_tenant_id v \<noteq> tenant \<or> read_string_metadata (iv_metadata v) ''student_id'' \<noteq> Some student then
        Inl (BadRequestException ''Student fee invoice does not belong to the payment tenant and student'')
      else Inr ())"

definition parent_user :: "completed_intent \<Rightarrow> string option" where
  "parent_user p = or_else (cp_user_id p) (read_string_metadata (cp_metadata p) ''parent_user_id'')"

definition fee_allocation_row ::
  "string \<Rightarrow> uuid \<Rightarrow> uuid \<Rightarrow> completed_intent \<Rightarrow> uuid option \<Rightarrow> int \<Rightarrow> string \<Rightarrow> uuid \<Rightarrow> fee_allocation" where
  "fee_allocation_row tenant invoice_id student p ledger amount key i =
     \<lparr>fa_id = i, fa_tenant_id = tenant, fa_invoice_id = invoice_id, fa_student_id = student,
      fa_parent_user_id = parent_user p, fa_payment_intent_id = cp_id p, fa_ledger_transaction_id = ledger,
      fa_amount_minor = amount, fa_idempotency_key = key\<rparr>"

definition fee_credit_row ::
  "string \<Rightarrow> uuid \<Rightarrow> completed_intent \<Rightarrow> uuid option \<Rightarrow> int \<Rightarrow> string \<Rightarrow> uuid \<Rightarrow> fee_credit" where
  "fee_credit_row tenant student p ledger amount key i =
     \<lparr>fc_id = i, fc_tenant_id = tenant, fc_student_id = student, fc_parent_user_id = parent_user p,
      fc_payment_intent_id = cp_id p, fc_ledger_transaction_id = ledger, fc_amount_minor = amount,
      fc_remaining_amount_minor = amount, fc_idempotency_key = key\<rparr>"

text \<open>The loop over the invoices: what remains, what was applied where, and the tables.\<close>

fun allocate_loop ::
  "runtime \<Rightarrow> string \<Rightarrow> uuid \<Rightarrow> completed_intent \<Rightarrow> uuid option \<Rightarrow> string \<Rightarrow> invoice list \<Rightarrow> int \<Rightarrow>
     (uuid \<times> int) list \<Rightarrow> 'a billing_db_scheme \<Rightarrow> (int \<times> (uuid \<times> int) list \<times> 'a billing_db_scheme) result" where
  "allocate_loop rt tenant student p ledger key [] remaining done db = Inr (remaining, done, db)"
| "allocate_loop rt tenant student p ledger key (v # vs) remaining done db =
     (if remaining \<le> 0 then Inr (remaining, done, db)
      else
        and_then (assert_invoice_belongs_to_student v tenant (uuid_text student)) (\<lambda>_.
        and_then (parse_minor_units (show_int (iv_total_amount_minor v)) ''Invoice total'') (\<lambda>total.
        and_then (parse_minor_units (show_int (iv_amount_paid_minor v)) ''Invoice paid amount'') (\<lambda>paid.
        let balance = total - paid
        in if balance \<le> 0 then allocate_loop rt tenant student p ledger key vs remaining done db
           else
             (let applied = (if remaining < balance then remaining else balance);
                  next_paid = paid + applied;
                  next_status = (if total \<le> next_paid then InvPaid else InvPendingPayment)
              in and_then (apply_fee_invoice_payment rt tenant (iv_id v) (cp_id p) next_paid next_status db) (\<lambda>db1.
                 and_then (create_fee_allocation
                   (fee_allocation_row tenant (iv_id v) student p ledger applied key) db1) (\<lambda>db2.
                 allocate_loop rt tenant student p ledger key vs (remaining - applied)
                   (done @ [(iv_id v, applied)]) db2)))))))"

definition allocate_confirmed_payment ::
  "runtime \<Rightarrow> (uuid \<Rightarrow> bool) \<Rightarrow> string \<Rightarrow> completed_intent \<Rightarrow> string \<Rightarrow> uuid option \<Rightarrow> 'a billing_db_scheme \<Rightarrow>
     (allocation_result \<times> 'a billing_db_scheme) result" where
  "allocate_confirmed_payment rt locked tenant_id p amount_paid ledger_id db =
     (let tenant = js_trim tenant_id in
      if cp_tenant_id p \<noteq> tenant then
        Inl (BadRequestException ''Payment intent tenant does not match allocation tenant'')
      else
        (case cp_student_id p of
           None \<Rightarrow> Inl (BadRequestException ''Student fee payment allocation requires paymentIntent.student_id'')
         | Some student \<Rightarrow>
             and_then (parse_minor_units amount_paid ''Payment amount'') (\<lambda>amount.
             let ledger = or_else ledger_id (cp_ledger_transaction_id p);
                 key = build_allocation_idempotency_key tenant (cp_id p) ledger
             in case find_fee_allocation_by_key db tenant key of
                  Some _ \<Rightarrow>
                    Inr (\<lparr>ar_duplicate = True, ar_allocated_amount_minor = ''0'',
                          ar_credit_amount_minor = ''0'', ar_invoice_allocations = []\<rparr>, db)
                | None \<Rightarrow>
                    and_then (allocate_loop rt tenant student p ledger key
                      (find_fee_invoices_for_allocation db locked tenant (uuid_text student)
                        (resolve_explicit_invoice_id p)) amount [] db) (\<lambda>(remaining, done, db1).
                    and_then (if 0 < remaining
                              then create_fee_credit (fee_credit_row tenant student p ledger remaining key) db1
                              else Inr db1) (\<lambda>db2.
                    Inr (\<lparr>ar_duplicate = False, ar_allocated_amount_minor = show_int (sum_list (map snd done)),
                          ar_credit_amount_minor = show_int remaining,
                          ar_invoice_allocations = map (\<lambda>(i, a). (i, show_int a)) done\<rparr>, db2))))))"

end
