(* ===== verification/Fee_Allocation_Facts.thy ===== *)
theory Fee_Allocation_Facts
  imports Fee_Allocation
begin

text \<open>
  The allocation loop against its specification: a waterfall of one amount over the balances of the
  invoices in order.
\<close>

section \<open>The waterfall\<close>

fun waterfall :: "int \<Rightarrow> int list \<Rightarrow> int list" where
  "waterfall r [] = []"
| "waterfall r (b # bs) = (if r \<le> 0 then [] else min r b # waterfall (r - min r b) bs)"

lemma waterfall_nonpos [simp]: "r \<le> 0 \<Longrightarrow> waterfall r bs = []"
  by (cases bs) simp_all

lemma waterfall_length: "length (waterfall r bs) \<le> length bs"
  by (induction r bs rule: waterfall.induct) auto

lemma waterfall_positive: "\<forall>b\<in>set bs. 0 < b \<Longrightarrow> a \<in> set (waterfall r bs) \<Longrightarrow> 0 < a"
  by (induction r bs rule: waterfall.induct) (auto split: if_splits)

lemma waterfall_sum: "\<forall>b\<in>set bs. 0 < b \<Longrightarrow> 0 \<le> r \<Longrightarrow> sum_list (waterfall r bs) = min r (sum_list bs)"
proof (induction r bs rule: waterfall.induct)
  case (2 r b bs)
  have "0 \<le> sum_list bs" using 2(2) by (intro sum_list_nonneg) force
  with 2 show ?case by (cases "r \<le> b") auto
qed simp

text \<open>Every amount but the last covers its balance in full.\<close>

lemma waterfall_full:
  "\<forall>b\<in>set bs. 0 < b \<Longrightarrow> Suc k < length (waterfall r bs) \<Longrightarrow> waterfall r bs ! k = bs ! k"
proof (induction r bs arbitrary: k rule: waterfall.induct)
  case (2 r b bs)
  then have r: "\<not> r \<le> 0" by (cases "r \<le> 0") simp_all
  show ?case
  proof (cases k)
    case 0
    with 2 r have "waterfall (r - min r b) bs \<noteq> []" by auto
    then have "b \<le> r" by (metis waterfall_nonpos diff_ge_0_iff_ge diff_le_0_iff_le linorder_le_cases min.absorb1)
    with 0 r show ?thesis by simp
  next
    case (Suc j)
    with 2 r show ?thesis by simp
  qed
qed simp

lemma waterfall_le: "k < length (waterfall r bs) \<Longrightarrow> waterfall r bs ! k \<le> bs ! k"
proof (induction r bs arbitrary: k rule: waterfall.induct)
  case (2 r b bs)
  then show ?case by (cases k) (auto split: if_splits)
qed simp

section \<open>One step of the loop\<close>

lemma digits_trim: "digits_only s \<Longrightarrow> js_trim s = s"
  by (rule js_trim_fixed) (auto simp: digits_only_def is_digit_not_space list_all_iff)

lemma parse_minor_units_show: "parse_minor_units (show_int i) l = Inr n \<longleftrightarrow> 0 \<le> i \<and> n = i"
proof (cases "i < 0")
  case True
  have "\<not> digits_only (show_int i)" using True by (simp add: show_int_def digits_only_def is_digit_def)
  with True show ?thesis by (simp add: parse_minor_units_def)
next
  case False
  have "digits_only (show_int i)" using False by (simp add: show_int_def digits_only_def)
  with False show ?thesis by (auto simp: parse_minor_units_def digits_trim show_int_def)
qed

definition invoices_ok :: "invoice list \<Rightarrow> bool" where
  "invoices_ok vs \<longleftrightarrow> distinct (map iv_id vs) \<and> (\<forall>v\<in>set vs. 0 \<le> iv_amount_paid_minor v)"

definition total_paid :: "'a billing_db_scheme \<Rightarrow> int" where
  "total_paid db = sum_list (map iv_amount_paid_minor (bl_invoices db))"

lemma sum_list_update_one:
  assumes "distinct (map key xs)" and "v \<in> set xs" and "\<And>x. x \<in> set xs \<Longrightarrow> p x \<longleftrightarrow> key x = key v"
  shows "sum_list (map f (update_where p g xs)) = sum_list (map f xs) - f v + (f (g v) :: int)"
  using assms
proof (induction xs)
  case (Cons x xs)
  show ?case
  proof (cases "key x = key v")
    case True
    have "v = x" using True Cons.prems(1,2) by (auto simp: image_iff)
    have "\<not> p y" if "y \<in> set xs" for y
      using that Cons.prems(1,3) True by (metis distinct.simps(2) image_eqI list.set_intros(2) list.set_map list.simps(9))
    then have "update_where p g xs = xs" by (auto simp: update_where_def intro: map_idI)
    with True Cons.prems(3)[of x] \<open>v = x\<close> show ?thesis by (simp add: update_where_def)
  next
    case False
    then have "v \<in> set xs" "\<not> p x" using Cons.prems by auto
    with Cons show ?thesis by (simp add: update_where_def)
  qed
qed simp

definition balance :: "invoice \<Rightarrow> int" where
  "balance v = iv_total_amount_minor v - iv_amount_paid_minor v"

definition no_overpayment :: "'a billing_db_scheme \<Rightarrow> bool" where
  "no_overpayment db \<longleftrightarrow> (\<forall>v\<in>set (bl_invoices db). iv_amount_paid_minor v \<le> iv_total_amount_minor v)"

text \<open>An invoice after \<open>applied\<close> has been paid on it.\<close>

definition paid_invoice :: "runtime \<Rightarrow> uuid \<Rightarrow> int \<Rightarrow> invoice \<Rightarrow> invoice" where
  "paid_invoice rt intent applied v =
     fee_payment_fields rt intent (iv_amount_paid_minor v + applied)
       (if balance v \<le> applied then InvPaid else InvPendingPayment) v"

lemma paid_invoice_simps [simp]:
  "iv_id (paid_invoice rt i a v) = iv_id v" "iv_tenant_id (paid_invoice rt i a v) = iv_tenant_id v"
  "iv_amount_paid_minor (paid_invoice rt i a v) = iv_amount_paid_minor v + a"
  "iv_total_amount_minor (paid_invoice rt i a v) = iv_total_amount_minor v"
  by (simp_all add: paid_invoice_def fee_payment_fields_def)

lemma apply_one:
  assumes ok: "invoices_ok (bl_invoices db)" and v: "v \<in> set (bl_invoices db)" "iv_tenant_id v = tenant"
    and ap: "apply_fee_invoice_payment rt tenant (iv_id v) intent (iv_amount_paid_minor v + a)
      (if iv_total_amount_minor v \<le> iv_amount_paid_minor v + a then InvPaid else InvPendingPayment) db = Inr db1"
    and a: "0 \<le> a"
  shows "db1 = db\<lparr>bl_invoices := map (\<lambda>x. if x = v then paid_invoice rt intent a v else x) (bl_invoices db)\<rparr>"
    and "invoices_ok (bl_invoices db1)" and "total_paid db1 = total_paid db + a"
proof -
  have dist: "distinct (map iv_id (bl_invoices db))" using ok by (simp add: invoices_ok_def)
  have at: "invoice_at tenant (iv_id v) x \<longleftrightarrow> iv_id x = iv_id v" if "x \<in> set (bl_invoices db)" for x
    using that dist v by (auto simp: invoice_at_def distinct_map dest: inj_onD)
  have st: "(iv_total_amount_minor v \<le> iv_amount_paid_minor v + a) = (balance v \<le> a)"
    by (auto simp: balance_def)
  have upd: "update_where (invoice_at tenant (iv_id v))
      (fee_payment_fields rt intent (iv_amount_paid_minor v + a)
        (if balance v \<le> a then InvPaid else InvPendingPayment)) (bl_invoices db) =
      map (\<lambda>x. if x = v then paid_invoice rt intent a v else x) (bl_invoices db)"
    using update_where_only[OF dist v(1) at] by (simp add: paid_invoice_def)
  show db1: "db1 = db\<lparr>bl_invoices := map (\<lambda>x. if x = v then paid_invoice rt intent a v else x) (bl_invoices db)\<rparr>"
    using ap unfolding st apply_fee_invoice_payment_def and_then_eq_Inr upd by auto
  have "map iv_id (map (\<lambda>x. if x = v then paid_invoice rt intent a v else x) (bl_invoices db)) =
      map iv_id (bl_invoices db)" by simp
  then show "invoices_ok (bl_invoices db1)"
    using ok a v unfolding invoices_ok_def db1 by (auto simp del: map_map)
  have "total_paid db1 = sum_list (map iv_amount_paid_minor (update_where (invoice_at tenant (iv_id v))
      (fee_payment_fields rt intent (iv_amount_paid_minor v + a)
        (if balance v \<le> a then InvPaid else InvPendingPayment)) (bl_invoices db)))"
    unfolding upd db1 total_paid_def by simp
  also have "\<dots> = total_paid db + a"
    using sum_list_update_one[OF dist v(1) at] by (simp add: total_paid_def fee_payment_fields_def)
  finally show "total_paid db1 = total_paid db + a" .
qed

lemma create_allocation_fresh:
  assumes "create_fee_allocation mk db = Inr db'" and "\<And>i. fa_tenant_id (mk i) = t \<and> fa_idempotency_key (mk i) = k \<and> fa_invoice_id (mk i) = n"
    and "\<forall>a\<in>set (bl_allocations db). \<not> (fa_tenant_id a = t \<and> fa_idempotency_key a = k \<and> fa_invoice_id a = n)"
  shows "\<exists>i. db' = db\<lparr>bl_allocations := bl_allocations db @ [mk i]\<rparr>"
  using assms by (auto simp: create_fee_allocation_def Let_def and_then_eq_Inr list_ex_iff split: if_splits)

section \<open>The loop is the waterfall\<close>

definition unallocated :: "string \<Rightarrow> string \<Rightarrow> invoice list \<Rightarrow> 'a billing_db_scheme \<Rightarrow> bool" where
  "unallocated tenant key vs db \<longleftrightarrow>
     (\<forall>v\<in>set vs. \<forall>a\<in>set (bl_allocations db).
        \<not> (fa_tenant_id a = tenant \<and> fa_idempotency_key a = key \<and> fa_invoice_id a = iv_id v))"

definition loop_pre :: "string \<Rightarrow> string \<Rightarrow> invoice list \<Rightarrow> 'a billing_db_scheme \<Rightarrow> bool" where
  "loop_pre tenant key vs db \<longleftrightarrow> invoices_ok (bl_invoices db) \<and> distinct (map iv_id vs) \<and>
     set vs \<subseteq> set (bl_invoices db) \<and> (\<forall>v\<in>set vs. iv_tenant_id v = tenant \<and> 0 < balance v) \<and>
     unallocated tenant key vs db"

definition allocated_rows :: "string \<Rightarrow> string \<Rightarrow> uuid \<Rightarrow> (uuid \<times> int) list \<Rightarrow> fee_allocation list \<Rightarrow> bool" where
  "allocated_rows tenant key intent new rows \<longleftrightarrow>
     map (\<lambda>a. (fa_invoice_id a, fa_amount_minor a)) rows = new \<and>
     (\<forall>a\<in>set rows. fa_tenant_id a = tenant \<and> fa_idempotency_key a = key \<and> fa_payment_intent_id a = intent)"

definition invoices_paid :: "runtime \<Rightarrow> uuid \<Rightarrow> (uuid \<times> int) list \<Rightarrow> invoice list \<Rightarrow> invoice list" where
  "invoices_paid rt intent new =
     map (\<lambda>v. case map_of new (iv_id v) of None \<Rightarrow> v | Some a \<Rightarrow> paid_invoice rt intent a v)"

lemma invoices_paid_Cons:
  assumes "distinct (map iv_id vs)" and "v \<in> set vs" and "iv_id v \<notin> fst ` set new"
  shows "invoices_paid rt intent ((iv_id v, a) # new) vs =
    invoices_paid rt intent new (map (\<lambda>x. if x = v then paid_invoice rt intent a v else x) vs)"
proof -
  have "iv_id x = iv_id v \<longleftrightarrow> x = v" if "x \<in> set vs" for x
    using assms that by (auto simp: distinct_map dest: inj_onD)
  moreover have "map_of new (iv_id v) = None" using assms(3) by (simp add: map_of_eq_None_iff)
  ultimately show ?thesis by (auto simp: invoices_paid_def)
qed

lemma loop_pre_step:
  assumes pre: "loop_pre tenant key (v # vs) db" and a: "0 \<le> a"
    and db1: "db1 = db\<lparr>bl_invoices := map (\<lambda>x. if x = v then paid_invoice rt intent a v else x) (bl_invoices db)\<rparr>"
    and ok: "invoices_ok (bl_invoices db1)"
    and db2: "db2 = db1\<lparr>bl_allocations := bl_allocations db1 @ [row]\<rparr>" and row: "fa_invoice_id row = iv_id v"
  shows "loop_pre tenant key vs db2"
proof -
  have "v \<notin> set vs" using pre by (auto simp: loop_pre_def)
  then have "set vs \<subseteq> set (bl_invoices db2)" using pre by (auto simp: loop_pre_def db1 db2)
  moreover have "iv_id v \<notin> iv_id ` set vs" using pre by (simp add: loop_pre_def)
  ultimately show ?thesis using pre ok row by (auto simp: loop_pre_def db1 db2 unallocated_def)
qed

lemma allocate_loop_Cons:
  assumes "allocate_loop rt tenant student p ledger key (v # vs) r done db = Inr res" and "\<not> r \<le> 0" and "0 < balance v"
  obtains db1 db2 where
    "apply_fee_invoice_payment rt tenant (iv_id v) (cp_id p) (iv_amount_paid_minor v + min r (balance v))
      (if iv_total_amount_minor v \<le> iv_amount_paid_minor v + min r (balance v) then InvPaid else InvPendingPayment) db = Inr db1"
    and "create_fee_allocation (fee_allocation_row tenant (iv_id v) student p ledger (min r (balance v)) key) db1 = Inr db2"
    and "allocate_loop rt tenant student p ledger key vs (r - min r (balance v)) (done @ [(iv_id v, min r (balance v))]) db2 = Inr res"
proof -
  have m: "(if r < iv_total_amount_minor v - iv_amount_paid_minor v then r
      else iv_total_amount_minor v - iv_amount_paid_minor v) = min r (balance v)"
    by (simp add: balance_def min_def)
  have b: "\<not> iv_total_amount_minor v - iv_amount_paid_minor v \<le> 0" using assms(3) by (simp add: balance_def)
  from assms(1,2) show thesis
    unfolding allocate_loop.simps and_then_eq_Inr parse_minor_units_show Let_def
    by (auto simp only: and_then_eq_Inr parse_minor_units_show Let_def if_False b m intro: that)
qed

lemma allocate_loop_waterfall:
  assumes "allocate_loop rt tenant student p ledger key vs r done db = Inr (r', done', db')"
    and "loop_pre tenant key vs db" and "0 \<le> r"
  shows "\<exists>new rows. new = zip (map iv_id vs) (waterfall r (map balance vs)) \<and>
    done' = done @ new \<and> r' = r - sum_list (map snd new) \<and>
    db' = db\<lparr>bl_invoices := invoices_paid rt (cp_id p) new (bl_invoices db),
             bl_allocations := bl_allocations db @ rows\<rparr> \<and>
    allocated_rows tenant key (cp_id p) new rows \<and>
    invoices_ok (bl_invoices db') \<and> total_paid db' = total_paid db + sum_list (map snd new)"
  using assms
proof (induction vs arbitrary: r "done" db)
  case Nil
  then show ?case by (auto simp: invoices_paid_def allocated_rows_def loop_pre_def)
next
  case (Cons v vs)
  show ?case
  proof (cases "r \<le> 0")
    case True
    with Cons.prems show ?thesis by (auto simp: invoices_paid_def allocated_rows_def loop_pre_def)
  next
    case False
    let ?a = "min r (balance v)"
    have v: "v \<in> set (bl_invoices db)" "iv_tenant_id v = tenant" "0 < balance v" "0 \<le> ?a"
      and ok: "invoices_ok (bl_invoices db)"
      using Cons.prems(2,3) by (auto simp: loop_pre_def)
    from Cons.prems(1) False v(3) obtain db1 db2 where
      ap: "apply_fee_invoice_payment rt tenant (iv_id v) (cp_id p) (iv_amount_paid_minor v + ?a)
        (if iv_total_amount_minor v \<le> iv_amount_paid_minor v + ?a then InvPaid else InvPendingPayment) db = Inr db1"
      and cr: "create_fee_allocation (fee_allocation_row tenant (iv_id v) student p ledger ?a key) db1 = Inr db2"
      and rest: "allocate_loop rt tenant student p ledger key vs (r - ?a) (done @ [(iv_id v, ?a)]) db2 = Inr (r', done', db')"
      by (rule allocate_loop_Cons) auto
    note one = apply_one[OF ok v(1,2) ap v(4)]
    have "bl_allocations db1 = bl_allocations db" by (simp add: one(1))
    then have "\<exists>i. db2 = db1\<lparr>bl_allocations := bl_allocations db1 @ [fee_allocation_row tenant (iv_id v) student p ledger ?a key i]\<rparr>"
      using Cons.prems(2) by (intro create_allocation_fresh[OF cr, of tenant key "iv_id v"])
        (auto simp: fee_allocation_row_def loop_pre_def unallocated_def)
    then obtain i where db2: "db2 = db1\<lparr>bl_allocations := bl_allocations db1 @ [fee_allocation_row tenant (iv_id v) student p ledger ?a key i]\<rparr>" ..
    have pre2: "loop_pre tenant key vs db2"
      by (rule loop_pre_step[OF Cons.prems(2) v(4) one(1,2) db2]) (simp add: fee_allocation_row_def)
    have "0 \<le> r - ?a" by simp
    from Cons.IH[OF rest pre2 this] obtain new rows where IH: "new = zip (map iv_id vs) (waterfall (r - ?a) (map balance vs))"
      "done' = (done @ [(iv_id v, ?a)]) @ new" "r' = r - ?a - sum_list (map snd new)"
      "db' = db2\<lparr>bl_invoices := invoices_paid rt (cp_id p) new (bl_invoices db2), bl_allocations := bl_allocations db2 @ rows\<rparr>"
      "allocated_rows tenant key (cp_id p) new rows" "invoices_ok (bl_invoices db')"
      "total_paid db' = total_paid db2 + sum_list (map snd new)" by blast
    have "iv_id v \<notin> fst ` set new"
      using Cons.prems(2) unfolding IH(1) loop_pre_def by (auto dest: set_zip_leftD)
    then have inv: "invoices_paid rt (cp_id p) ((iv_id v, ?a) # new) (bl_invoices db) =
        invoices_paid rt (cp_id p) new (map (\<lambda>x. if x = v then paid_invoice rt (cp_id p) ?a v else x) (bl_invoices db))"
      using ok v(1) by (intro invoices_paid_Cons) (simp_all add: invoices_ok_def)
    have "(iv_id v, ?a) # new = zip (map iv_id (v # vs)) (waterfall r (map balance (v # vs)))"
      using False IH(1) by simp
    moreover have "db' = db\<lparr>bl_invoices := invoices_paid rt (cp_id p) ((iv_id v, ?a) # new) (bl_invoices db),
        bl_allocations := bl_allocations db @ (fee_allocation_row tenant (iv_id v) student p ledger ?a key i # rows)\<rparr>"
      unfolding IH(4) db2 one(1) inv by simp
    moreover have "allocated_rows tenant key (cp_id p) ((iv_id v, ?a) # new)
        (fee_allocation_row tenant (iv_id v) student p ledger ?a key i # rows)"
      using IH(5) by (simp add: allocated_rows_def fee_allocation_row_def)
    moreover have "total_paid db' = total_paid db + sum_list (map snd ((iv_id v, ?a) # new))"
    proof -
      have "total_paid db2 = total_paid db1" by (simp add: db2 total_paid_def)
      then show ?thesis using IH(7) one(3) by simp
    qed
    moreover have "done' = done @ (iv_id v, ?a) # new" using IH(2) by simp
    moreover have "r' = r - sum_list (map snd ((iv_id v, ?a) # new))" using IH(3) by simp
    ultimately show ?thesis using IH(6) by blast
  qed
qed

end
