(* ===== verification/Fee_Allocation_Claims.thy ===== *)
theory Fee_Allocation_Claims
  imports Fee_Allocation_Facts Outbox_Claims
begin

text \<open>
  The properties of the allocation of student fee payments: conservation of the money, the waterfall as
  its abstract specification, the order of the invoices, and what a repetition does.
\<close>

section \<open>The whole operation\<close>

lemma find_sorted_due:
  "sorted (map (\<lambda>v. (iv_due_at v, iv_issued_at v, iv_created_at v)) (find_fee_invoices_for_allocation db locked tenant student x))"
  by (simp add: find_fee_invoices_for_allocation_def)

lemma find_sorted_due_at: "sorted (map iv_due_at (find_fee_invoices_for_allocation db locked tenant student x))"
  using find_sorted_due[of db locked tenant student x] unfolding sorted_map
  by (rule sorted_wrt_mono_rel[rotated]) (auto simp: less_eq_prod_def)

lemma find_mem:
  "v \<in> set (find_fee_invoices_for_allocation db locked tenant student x) \<longleftrightarrow>
     v \<in> set (bl_invoices db) \<and> open_for_allocation tenant student x v \<and> \<not> locked (iv_id v)"
  by (simp add: find_fee_invoices_for_allocation_def)

lemma find_distinct:
  "invoices_ok (bl_invoices db) \<Longrightarrow>
     distinct (map iv_id (find_fee_invoices_for_allocation db locked tenant student x))"
  unfolding find_fee_invoices_for_allocation_def invoices_ok_def
  by (simp add: distinct_map inj_on_def)

lemma find_loop_pre:
  assumes "invoices_ok (bl_invoices db)" and "find_fee_allocation_by_key db tenant key = None"
  shows "loop_pre tenant key (find_fee_invoices_for_allocation db locked tenant student x) db"
proof -
  have "unallocated tenant key vs db" for vs
    using assms(2) by (auto simp: unallocated_def find_fee_allocation_by_key_def select_first_None)
  with assms(1) find_distinct[OF assms(1)] show ?thesis
    unfolding loop_pre_def by (auto simp: find_mem open_for_allocation_def balance_def)
qed

lemma parse_minor_units_Inr: "parse_minor_units s l = Inr n \<Longrightarrow> n = int (parse_nat (js_trim s)) \<and> 0 \<le> n"
  by (auto simp: parse_minor_units_def split: if_splits)

definition payment_key :: "completed_intent \<Rightarrow> uuid option \<Rightarrow> string" where
  "payment_key p ledger =
     build_allocation_idempotency_key (cp_tenant_id p) (cp_id p) (or_else ledger (cp_ledger_transaction_id p))"

definition open_invoices :: "'a billing_db_scheme \<Rightarrow> (uuid \<Rightarrow> bool) \<Rightarrow> completed_intent \<Rightarrow> invoice list" where
  "open_invoices db locked p = find_fee_invoices_for_allocation db locked (cp_tenant_id p)
     (case cp_student_id p of None \<Rightarrow> [] | Some s \<Rightarrow> uuid_text s) (resolve_explicit_invoice_id p)"

definition credit_exists :: "'a billing_db_scheme \<Rightarrow> completed_intent \<Rightarrow> uuid option \<Rightarrow> bool" where
  "credit_exists db p ledger \<longleftrightarrow>
     (\<exists>c\<in>set (bl_credits db). fc_tenant_id c = cp_tenant_id p \<and> fc_idempotency_key c = payment_key p ledger)"

lemma allocate_summary:
  assumes run: "allocate_confirmed_payment rt locked tenant p amount ledger db = Inr (res, db')"
    and new: "\<not> ar_duplicate res" and ok: "invoices_ok (bl_invoices db)"
  shows "\<exists>total done rows credits. total = int (parse_nat (js_trim amount)) \<and> 0 \<le> total \<and>
    done = zip (map iv_id (open_invoices db locked p)) (waterfall total (map balance (open_invoices db locked p))) \<and>
    loop_pre (cp_tenant_id p) (payment_key p ledger) (open_invoices db locked p) db \<and>
    db' = db\<lparr>bl_invoices := invoices_paid rt (cp_id p) done (bl_invoices db),
             bl_allocations := bl_allocations db @ rows, bl_credits := bl_credits db @ credits\<rparr> \<and>
    allocated_rows (cp_tenant_id p) (payment_key p ledger) (cp_id p) done rows \<and>
    ar_allocated_amount_minor res = show_int (sum_list (map snd done)) \<and>
    ar_credit_amount_minor res = show_int (total - sum_list (map snd done)) \<and>
    ar_invoice_allocations res = map (\<lambda>(i, a). (i, show_int a)) done \<and>
    invoices_ok (bl_invoices db') \<and> total_paid db' = total_paid db + sum_list (map snd done) \<and>
    (\<not> credit_exists db p ledger \<longrightarrow>
       sum_list (map fc_remaining_amount_minor credits) = total - sum_list (map snd done)) \<and>
    (credit_exists db p ledger \<longrightarrow> credits = []) \<and>
    (\<forall>c\<in>set credits. fc_tenant_id c = cp_tenant_id p \<and> fc_idempotency_key c = payment_key p ledger)"
proof -
  define l where "l = or_else ledger (cp_ledger_transaction_id p)"
  from run new obtain student total rem "done" db1 where
    t: "cp_tenant_id p = js_trim tenant" and s: "cp_student_id p = Some student"
    and amt: "parse_minor_units amount ''Payment amount'' = Inr total"
    and none: "find_fee_allocation_by_key db (cp_tenant_id p) (payment_key p ledger) = None"
    and loop: "allocate_loop rt (cp_tenant_id p) student p l (payment_key p ledger) (open_invoices db locked p) total [] db = Inr (rem, done, db1)"
    and cr: "(if 0 < rem then create_fee_credit (fee_credit_row (cp_tenant_id p) student p l rem (payment_key p ledger)) db1 else Inr db1) = Inr db'"
    and res: "ar_allocated_amount_minor res = show_int (sum_list (map snd done))" "ar_credit_amount_minor res = show_int rem"
      "ar_invoice_allocations res = map (\<lambda>(i, a). (i, show_int a)) done"
    by (auto simp: allocate_confirmed_payment_def Let_def and_then_eq_Inr payment_key_def open_invoices_def l_def
        split: if_splits option.splits prod.splits)
  have tot: "total = int (parse_nat (js_trim amount))" "0 \<le> total" using parse_minor_units_Inr[OF amt] by simp_all
  have pre: "loop_pre (cp_tenant_id p) (payment_key p ledger) (open_invoices db locked p) db"
    unfolding open_invoices_def by (rule find_loop_pre[OF ok none])
  from allocate_loop_waterfall[OF loop pre tot(2)] obtain rows where
    d: "done = zip (map iv_id (open_invoices db locked p)) (waterfall total (map balance (open_invoices db locked p)))"
    and rem: "rem = total - sum_list (map snd done)"
    and db1: "db1 = db\<lparr>bl_invoices := invoices_paid rt (cp_id p) done (bl_invoices db),
             bl_allocations := bl_allocations db @ rows\<rparr>"
    and rows: "allocated_rows (cp_tenant_id p) (payment_key p ledger) (cp_id p) done rows"
    and ok1: "invoices_ok (bl_invoices db1)" and paid: "total_paid db1 = total_paid db + sum_list (map snd done)"
    by auto
  have nonneg: "0 \<le> rem"
  proof -
    have b: "\<forall>b\<in>set (map balance (open_invoices db locked p)). 0 < b" using pre by (auto simp: loop_pre_def)
    have "map snd done = waterfall total (map balance (open_invoices db locked p))"
      unfolding d using waterfall_length[of total "map balance (open_invoices db locked p)"] by (simp add: map_snd_zip_take)
    then show ?thesis unfolding rem using waterfall_sum[OF b tot(2)] by simp
  qed
  have "\<exists>credits. db' = db1\<lparr>bl_credits := bl_credits db1 @ credits\<rparr> \<and>
      (\<not> credit_exists db p ledger \<longrightarrow> sum_list (map fc_remaining_amount_minor credits) = rem) \<and>
      (credit_exists db p ledger \<longrightarrow> credits = []) \<and>
      (\<forall>c\<in>set credits. fc_tenant_id c = cp_tenant_id p \<and> fc_idempotency_key c = payment_key p ledger)"
  proof (cases "0 < rem")
    case True
    let ?row = "fee_credit_row (cp_tenant_id p) student p l rem (payment_key p ledger) (fresh_uuid (map fc_id (bl_credits db1)))"
    have same: "bl_credits db1 = bl_credits db" by (simp add: db1)
    show ?thesis
    proof (cases "credit_exists db p ledger")
      case c: True
      then have "db' = db1" using cr True unfolding create_fee_credit_def credit_exists_def
        by (auto simp: Let_def and_then_eq_Inr list_ex_iff fee_credit_row_def same split: if_splits)
      with c show ?thesis by (intro exI[of _ "[]"]) simp
    next
      case c: False
      then have "db' = db1\<lparr>bl_credits := bl_credits db1 @ [?row]\<rparr>" using cr True unfolding create_fee_credit_def credit_exists_def
        by (auto simp: Let_def and_then_eq_Inr list_ex_iff fee_credit_row_def same split: if_splits)
      with c show ?thesis by (intro exI[of _ "[?row]"]) (simp add: fee_credit_row_def)
    qed
  next
    case False
    with cr nonneg show ?thesis by (intro exI[of _ "[]"]) simp
  qed
  then obtain credits where c: "db' = db1\<lparr>bl_credits := bl_credits db1 @ credits\<rparr>"
      "\<not> credit_exists db p ledger \<longrightarrow> sum_list (map fc_remaining_amount_minor credits) = rem"
      "credit_exists db p ledger \<longrightarrow> credits = []"
      "\<forall>c\<in>set credits. fc_tenant_id c = cp_tenant_id p \<and> fc_idempotency_key c = payment_key p ledger" by blast
  have db': "db' = db\<lparr>bl_invoices := invoices_paid rt (cp_id p) done (bl_invoices db),
             bl_allocations := bl_allocations db @ rows, bl_credits := bl_credits db @ credits\<rparr>"
    by (simp add: c(1) db1)
  have "bl_invoices db' = bl_invoices db1" "total_paid db' = total_paid db1" by (simp_all add: c(1) total_paid_def)
  with tot d pre db' rows res rem ok1 paid c(2-4) show ?thesis
    by (intro exI[of _ total] exI[of _ "done"] exI[of _ rows] exI[of _ credits]) simp
qed

lemma duplicate_iff:
  assumes "allocate_confirmed_payment rt locked tenant p amount ledger db = Inr (res, db')"
  shows "ar_duplicate res \<longleftrightarrow> find_fee_allocation_by_key db (cp_tenant_id p) (payment_key p ledger) \<noteq> None"
  using assms by (auto simp: allocate_confirmed_payment_def Let_def and_then_eq_Inr payment_key_def
      split: if_splits option.splits prod.splits)

section \<open>Examples\<close>

definition fee_invoice :: "uuid \<Rightarrow> int \<Rightarrow> int \<Rightarrow> invoice" where
  "fee_invoice i owed due = \<lparr>iv_id = i, iv_tenant_id = ''t1'', iv_subscription_id = 1,
     iv_invoice_number = ''INV'', iv_status = InvOpen, iv_currency_code = ''KES'',
     iv_description = ''Term 1'', iv_subtotal_amount_minor = owed, iv_tax_amount_minor = 0,
     iv_total_amount_minor = owed, iv_amount_paid_minor = 0, iv_billing_phone_number = None,
     iv_payment_intent_id = None,
     iv_issued_at = 0, iv_due_at = due, iv_paid_at = None, iv_voided_at = None,
     iv_metadata = [(''student_id'', JStr (uuid_text 5))], iv_created_at = 0, iv_updated_at = 0\<rparr>"

definition fee_db :: "invoice list \<Rightarrow> billing_db" where
  "fee_db vs = \<lparr>fd_idempotency_keys = [], fd_accounts = [], fd_transactions = [], fd_ledger_entries = [],
     fd_audit_logs = [], fd_sync_operations = [], ev_outbox = [], ev_runs = [], bl_subscriptions = [],
     bl_invoices = vs, bl_allocations = [], bl_credits = [], bl_notifications = [],
     bl_usage = [], bl_fee_structures = []\<rparr>"

definition fee_intent :: completed_intent where
  "fee_intent = \<lparr>cp_id = 7, cp_tenant_id = ''t1'', cp_student_id = Some 5, cp_user_id = None,
     cp_external_reference = None, cp_account_reference = None, cp_ledger_transaction_id = Some 3,
     cp_metadata = []\<rparr>"

definition fee_invoices :: "invoice list" where
  "fee_invoices = [fee_invoice 1 500 20, fee_invoice 2 300 10]"

definition fee_run :: "invoice list \<Rightarrow> string \<Rightarrow> (allocation_result \<times> billing_db) result" where
  "fee_run vs amount = allocate_confirmed_payment ev_rt (\<lambda>_. False) ''t1'' fee_intent amount None (fee_db vs)"

lemma fee_invoices_ok: "invoices_ok (bl_invoices (fee_db fee_invoices))"
  by (simp add: fee_db_def fee_invoices_def fee_invoice_def invoices_ok_def)

lemma fee_runs:
  "(case fee_run fee_invoices ''600'' of Inl e \<Rightarrow> False | Inr (r, d) \<Rightarrow> \<not> ar_duplicate r \<and> ar_allocated_amount_minor r = ''600'') \<and>
   (case fee_run fee_invoices ''1000'' of Inl e \<Rightarrow> False | Inr (r, d) \<Rightarrow> \<not> ar_duplicate r \<and> ar_credit_amount_minor r = ''200'') \<and>
   (case fee_run [] ''600'' of Inl e \<Rightarrow> False | Inr (r, d) \<Rightarrow> \<not> ar_duplicate r \<and> ar_invoice_allocations r = [])"
  by code_simp

lemmas fee_run_paid = fee_runs[THEN conjunct1]
  and fee_run_over = fee_runs[THEN conjunct2, THEN conjunct1]
  and fee_run_unpaid = fee_runs[THEN conjunct2, THEN conjunct2]

lemma fee_run_cases:
  assumes "case fee_run vs a of Inl e \<Rightarrow> False | Inr (r, d) \<Rightarrow> Q r d"
  obtains r d where "allocate_confirmed_payment ev_rt (\<lambda>_. False) ''t1'' fee_intent a None (fee_db vs) = Inr (r, d)" and "Q r d"
  using assms by (auto simp: fee_run_def split: sum.splits)

lemma sum_list_cong_prod: "sum_list (map snd (map (\<lambda>a. (f a, g a)) rows)) = sum_list (map g rows)"
  by (simp add: comp_def)

section \<open>Conservation\<close>

text \<open>C15: No money is lost or made: a payment that was not processed before is worth what its invoices got plus
  the credit, the invoices' paid total and the allocation rows grow by the first part, the student's credits by
  the second, and every other table stays as it is.\<close>

theorem allocation_conserves_payment:
  assumes "allocate_confirmed_payment rt locked tenant p amount ledger db = Inr (res, db')"
    and "\<not> ar_duplicate res" and "invoices_ok (bl_invoices db)" and "\<not> credit_exists db p ledger"
  shows "\<exists>rows credits.
    int (parse_nat (js_trim amount)) = parse_int (ar_allocated_amount_minor res) + parse_int (ar_credit_amount_minor res) \<and>
    total_paid db' = total_paid db + parse_int (ar_allocated_amount_minor res) \<and>
    bl_allocations db' = bl_allocations db @ rows \<and>
    sum_list (map fa_amount_minor rows) = parse_int (ar_allocated_amount_minor res) \<and>
    bl_credits db' = bl_credits db @ credits \<and>
    sum_list (map fc_remaining_amount_minor credits) = parse_int (ar_credit_amount_minor res) \<and>
    bl_subscriptions db' = bl_subscriptions db \<and> fd_ledger_entries db' = fd_ledger_entries db \<and>
    ev_outbox db' = ev_outbox db"
proof -
  from allocate_summary[OF assms(1-3)] assms(4) obtain "done" rows credits where
    a: "db' = db\<lparr>bl_invoices := invoices_paid rt (cp_id p) done (bl_invoices db),
             bl_allocations := bl_allocations db @ rows, bl_credits := bl_credits db @ credits\<rparr>"
      "allocated_rows (cp_tenant_id p) (payment_key p ledger) (cp_id p) done rows"
      "parse_int (ar_allocated_amount_minor res) = sum_list (map snd done)"
      "parse_int (ar_credit_amount_minor res) = int (parse_nat (js_trim amount)) - sum_list (map snd done)"
      "total_paid db' = total_paid db + sum_list (map snd done)"
      "sum_list (map fc_remaining_amount_minor credits) = int (parse_nat (js_trim amount)) - sum_list (map snd done)"
    by (metis parse_show_int)
  have "done = map (\<lambda>a. (fa_invoice_id a, fa_amount_minor a)) rows" using a(2) by (simp add: allocated_rows_def)
  then have "sum_list (map fa_amount_minor rows) = sum_list (map snd done)" by (simp only: sum_list_cong_prod)
  with a(3-6) show ?thesis by (intro exI[of _ rows] exI[of _ credits]) (simp add: a(1))
qed

theorem allocation_conserves_payment_witness:
  "\<exists>r d. fee_run fee_invoices ''1000'' = Inr (r, d) \<and>
     parse_int (ar_allocated_amount_minor r) + 200 = 1000 \<and> total_paid d = parse_int (ar_allocated_amount_minor r)"
proof -
  obtain r d where run: "allocate_confirmed_payment ev_rt (\<lambda>_. False) ''t1'' fee_intent ''1000'' None (fee_db fee_invoices) = Inr (r, d)"
    and r: "\<not> ar_duplicate r \<and> ar_credit_amount_minor r = ''200''" by (rule fee_run_cases[OF fee_run_over])
  have "\<not> credit_exists (fee_db fee_invoices) fee_intent None" by (simp add: credit_exists_def fee_db_def)
  from allocation_conserves_payment[OF run conjunct1[OF r] fee_invoices_ok this]
  have "int (parse_nat (js_trim ''1000'')) = parse_int (ar_allocated_amount_minor r) + parse_int (ar_credit_amount_minor r)"
    "total_paid d = total_paid (fee_db fee_invoices) + parse_int (ar_allocated_amount_minor r)" by blast+
  moreover have "int (parse_nat (js_trim ''1000'')) = 1000" "parse_int ''200'' = 200" "total_paid (fee_db fee_invoices) = 0"
    by (code_simp, code_simp, simp add: total_paid_def fee_db_def fee_invoices_def fee_invoice_def)
  ultimately show ?thesis using run r by (intro exI[of _ r] exI[of _ d]) (simp add: fee_run_def)
qed

section \<open>The waterfall as specification\<close>

text \<open>C16: The loop over the database refines the waterfall, a pure function of the amount and of the open
  balances: the answer lists its amounts against the student's open invoices in the order of their due dates,
  and exactly these invoices are paid by exactly these amounts.\<close>

theorem allocation_refines_waterfall:
  assumes "allocate_confirmed_payment rt locked tenant p amount ledger db = Inr (res, db')"
    and "\<not> ar_duplicate res" and "invoices_ok (bl_invoices db)"
  defines "vs \<equiv> open_invoices db locked p"
  defines "spec \<equiv> zip (map iv_id vs) (waterfall (int (parse_nat (js_trim amount))) (map balance vs))"
  shows "sorted (map iv_due_at vs) \<and> ar_invoice_allocations res = map (\<lambda>(i, a). (i, show_int a)) spec \<and>
    bl_invoices db' = invoices_paid rt (cp_id p) spec (bl_invoices db)"
proof -
  have "sorted (map iv_due_at vs)" unfolding vs_def open_invoices_def by (rule find_sorted_due_at)
  moreover from allocate_summary[OF assms(1-3)] obtain rows credits where
    "db' = db\<lparr>bl_invoices := invoices_paid rt (cp_id p) spec (bl_invoices db),
             bl_allocations := bl_allocations db @ rows, bl_credits := bl_credits db @ credits\<rparr>"
    "ar_invoice_allocations res = map (\<lambda>(i, a). (i, show_int a)) spec"
    unfolding spec_def vs_def by metis
  ultimately show ?thesis by simp
qed

theorem allocation_refines_waterfall_witness:
  "\<exists>r d. fee_run fee_invoices ''600'' = Inr (r, d) \<and> ar_invoice_allocations r = [(2, ''300''), (1, ''300'')] \<and>
     map iv_status (bl_invoices d) = [InvPendingPayment, InvPaid]"
proof -
  obtain r d where run: "allocate_confirmed_payment ev_rt (\<lambda>_. False) ''t1'' fee_intent ''600'' None (fee_db fee_invoices) = Inr (r, d)"
    and r: "\<not> ar_duplicate r \<and> ar_allocated_amount_minor r = ''600''" by (rule fee_run_cases[OF fee_run_paid])
  note spec = allocation_refines_waterfall[OF run conjunct1[OF r] fee_invoices_ok]
  let ?vs = "open_invoices (fee_db fee_invoices) (\<lambda>_. False) fee_intent"
  let ?spec = "zip (map iv_id ?vs) (waterfall (int (parse_nat (js_trim ''600''))) (map balance ?vs))"
  have s: "?spec = [(2, 300), (1, 300)]" by code_simp
  have "map iv_status (invoices_paid ev_rt (cp_id fee_intent) [(2, 300), (1, 300)] (bl_invoices (fee_db fee_invoices))) =
      [InvPendingPayment, InvPaid]" by code_simp
  moreover have "map (\<lambda>(i, a). (i, show_int a)) [(2::nat, 300), (1, 300)] = [(2, ''300''), (1, ''300'')]" by code_simp
  ultimately show ?thesis using spec run unfolding s by (intro exI[of _ r] exI[of _ d]) (simp add: fee_run_def)
qed

section \<open>Bounds and the order of the invoices\<close>

lemma waterfall_map_of:
  assumes "distinct ids" and "map_of (zip ids (waterfall r bs)) i = Some a" and "length ids = length bs"
  obtains k where "k < length (waterfall r bs)" and "k < length ids" and "ids ! k = i" and "waterfall r bs ! k = a"
proof -
  have "(i, a) \<in> set (zip ids (waterfall r bs))" using assms(2) by (rule map_of_SomeD)
  then obtain k where "k < length (zip ids (waterfall r bs))" "zip ids (waterfall r bs) ! k = (i, a)"
    by (auto simp: in_set_conv_nth)
  then show thesis by (intro that[of k]) auto
qed

lemma partial_is_last:
  assumes pos: "\<forall>b\<in>set bs. 0 < b" and k: "k < length (waterfall r bs)" and part: "waterfall r bs ! k < bs ! k"
  shows "length (waterfall r bs) = Suc k"
proof (rule ccontr)
  assume "length (waterfall r bs) \<noteq> Suc k"
  with k have "Suc k < length (waterfall r bs)" by simp
  from waterfall_full[OF pos this] part show False by simp
qed

lemma waterfall_zip_sum:
  assumes "\<forall>v\<in>set vs. 0 < balance v" and "0 \<le> r"
  shows "sum_list (map snd (zip (map iv_id vs) (waterfall r (map balance vs)))) = min r (sum_list (map balance vs))"
proof -
  have "map snd (zip (map iv_id vs) (waterfall r (map balance vs))) = waterfall r (map balance vs)"
    using waterfall_length[of r "map balance vs"] by (simp add: map_snd_zip_take)
  with waterfall_sum[of "map balance vs" r] assms show ?thesis by simp
qed

lemma map_of_zip_beyond:
  assumes "distinct ids" and "length ys \<le> j" and "j < length ids"
  shows "map_of (zip ids ys) (ids ! j) = None"
proof -
  have "ids ! j \<notin> set (take (length ys) ids)"
  proof
    assume "ids ! j \<in> set (take (length ys) ids)"
    then obtain k where "k < length ys" "k < length ids" "ids ! k = ids ! j" by (auto simp: in_set_conv_nth)
    with assms show False by (simp add: nth_eq_iff_index_eq)
  qed
  moreover have "fst ` set (zip ids ys) \<subseteq> set (take (length ys) ids)"
    using set_map[of fst "zip ids ys", symmetric] by (simp add: map_fst_zip_take min_def)
  ultimately show ?thesis by (auto simp: map_of_eq_None_iff)
qed

text \<open>One invoice of the table, before and after.\<close>

lemma paid_by_waterfall:
  assumes pre: "loop_pre tenant key vs db" and v: "v \<in> set (bl_invoices db)"
    and spec: "map_of (zip (map iv_id vs) (waterfall r (map balance vs))) (iv_id v) = Some a"
  shows "v \<in> set vs" and "0 < a" and "a \<le> balance v"
    and "a < balance v \<Longrightarrow> w \<in> set vs \<Longrightarrow> sorted (map iv_due_at vs) \<Longrightarrow> iv_due_at v < iv_due_at w \<Longrightarrow>
      map_of (zip (map iv_id vs) (waterfall r (map balance vs))) (iv_id w) = None"
proof -
  have dist: "distinct (map iv_id vs)" and dall: "distinct (map iv_id (bl_invoices db))" and sub: "set vs \<subseteq> set (bl_invoices db)"
    and pos: "\<forall>b\<in>set (map balance vs). 0 < b" using pre by (auto simp: loop_pre_def invoices_ok_def)
  obtain k where k: "k < length (waterfall r (map balance vs))" "k < length (map iv_id vs)" "map iv_id vs ! k = iv_id v"
      "waterfall r (map balance vs) ! k = a" by (rule waterfall_map_of[OF dist spec]) simp
  have kv: "vs ! k = v"
  proof -
    have "vs ! k \<in> set (bl_invoices db)" using nth_mem[of k vs] k(2) sub by auto
    with v k show ?thesis using dall by (auto simp: distinct_map dest: inj_onD)
  qed
  then show "v \<in> set vs" using k(2) by auto
  show "0 < a" using waterfall_positive[OF pos] k by (metis nth_mem)
  show "a \<le> balance v" using waterfall_le[OF k(1)] k kv by simp
  assume part: "a < balance v" and w: "w \<in> set vs" and srt: "sorted (map iv_due_at vs)" and later: "iv_due_at v < iv_due_at w"
  have len: "length (waterfall r (map balance vs)) = Suc k"
    using partial_is_last[OF pos k(1)] part k kv by simp
  obtain j where j: "j < length vs" "vs ! j = w" using w by (auto simp: in_set_conv_nth)
  have "k < j"
  proof (rule ccontr)
    assume "\<not> k < j"
    with srt k(2) have "map iv_due_at vs ! j \<le> map iv_due_at vs ! k" by (intro sorted_nth_mono) auto
    with j kv k(2) later show False by simp
  qed
  with map_of_zip_beyond[OF dist, of "waterfall r (map balance vs)" j] j len
  show "map_of (zip (map iv_id vs) (waterfall r (map balance vs))) (iv_id w) = None" by simp
qed

text \<open>C17: No invoice is ever paid beyond its total, nor does the total due shrink: a paid invoice is one of the
  student's open invoices and gets a positive amount, at most its balance; an invoice that gets less than its
  balance is the last one in the order of the due dates that gets anything.\<close>

theorem allocation_never_overpays:
  assumes "allocate_confirmed_payment rt locked tenant p amount ledger db = Inr (res, db')"
    and "\<not> ar_duplicate res" and "invoices_ok (bl_invoices db)" and "no_overpayment db"
  shows "no_overpayment db' \<and> map iv_total_amount_minor (bl_invoices db') = map iv_total_amount_minor (bl_invoices db) \<and>
    list_all2 (\<lambda>v v'. v' = v \<or> (v \<in> set (open_invoices db locked p) \<and>
        iv_amount_paid_minor v < iv_amount_paid_minor v' \<and>
        (iv_amount_paid_minor v' < iv_total_amount_minor v \<longrightarrow>
          (\<forall>w\<in>set (open_invoices db locked p). iv_due_at v < iv_due_at w \<longrightarrow> w \<in> set (bl_invoices db'))))) 
      (bl_invoices db) (bl_invoices db')"
proof -
  let ?vs = "open_invoices db locked p"
  from allocate_summary[OF assms(1-3)] obtain r rows credits where
    db': "db' = db\<lparr>bl_invoices := invoices_paid rt (cp_id p) (zip (map iv_id ?vs) (waterfall r (map balance ?vs))) (bl_invoices db),
             bl_allocations := bl_allocations db @ rows, bl_credits := bl_credits db @ credits\<rparr>"
    and pre: "loop_pre (cp_tenant_id p) (payment_key p ledger) ?vs db" by blast
  let ?m = "map_of (zip (map iv_id ?vs) (waterfall r (map balance ?vs)))"
  define g where "g = (\<lambda>v. case ?m (iv_id v) of None \<Rightarrow> v | Some a \<Rightarrow> paid_invoice rt (cp_id p) a v)"
  have inv: "bl_invoices db' = map g (bl_invoices db)" by (simp add: db' invoices_paid_def g_def)
  have srt: "sorted (map iv_due_at ?vs)" unfolding open_invoices_def by (rule find_sorted_due_at)
  have step: "g v = v \<or> (v \<in> set ?vs \<and> iv_amount_paid_minor v < iv_amount_paid_minor (g v) \<and>
      iv_amount_paid_minor (g v) \<le> iv_total_amount_minor v \<and>
      (iv_amount_paid_minor (g v) < iv_total_amount_minor v \<longrightarrow>
        (\<forall>w\<in>set ?vs. iv_due_at v < iv_due_at w \<longrightarrow> w \<in> set (bl_invoices db'))))"
    if v: "v \<in> set (bl_invoices db)" for v
  proof (cases "?m (iv_id v)")
    case None
    then show ?thesis by (simp add: g_def)
  next
    case (Some a)
    note paid = paid_by_waterfall[OF pre v Some]
    have gv: "g v = paid_invoice rt (cp_id p) a v" using Some by (simp add: g_def)
    have "w \<in> set (bl_invoices db')" if "a < balance v" "w \<in> set ?vs" "iv_due_at v < iv_due_at w" for w
    proof -
      have "g w = w" using paid(4)[OF that(1,2) srt that(3)] by (simp add: g_def)
      moreover have "w \<in> set (bl_invoices db)" using pre that(2) by (auto simp: loop_pre_def)
      ultimately show ?thesis unfolding inv by (metis image_eqI list.set_map)
    qed
    with paid(1-3) show ?thesis unfolding gv by (auto simp: balance_def)
  qed
  have "list_all2 (\<lambda>v v'. v' = v \<or> (v \<in> set ?vs \<and> iv_amount_paid_minor v < iv_amount_paid_minor v' \<and>
        (iv_amount_paid_minor v' < iv_total_amount_minor v \<longrightarrow>
          (\<forall>w\<in>set ?vs. iv_due_at v < iv_due_at w \<longrightarrow> w \<in> set (bl_invoices db'))))) (bl_invoices db) (map g (bl_invoices db))"
    using step unfolding list_all2_map2 by (intro list.rel_refl_strong) blast
  moreover have total: "iv_total_amount_minor (g v) = iv_total_amount_minor v" for v
    by (simp add: g_def split: option.splits)
  moreover have "no_overpayment db'"
    unfolding no_overpayment_def inv using step assms(4) total by (fastforce simp: no_overpayment_def)
  ultimately show ?thesis unfolding inv by simp
qed

theorem allocation_never_overpays_witness:
  "\<exists>r d. fee_run fee_invoices ''600'' = Inr (r, d) \<and> no_overpayment d"
proof -
  obtain r d where run: "allocate_confirmed_payment ev_rt (\<lambda>_. False) ''t1'' fee_intent ''600'' None (fee_db fee_invoices) = Inr (r, d)"
    and r: "\<not> ar_duplicate r \<and> ar_allocated_amount_minor r = ''600''" by (rule fee_run_cases[OF fee_run_paid])
  have "no_overpayment (fee_db fee_invoices)" by (simp add: no_overpayment_def fee_db_def fee_invoices_def fee_invoice_def)
  from allocation_never_overpays[OF run conjunct1[OF r] fee_invoices_ok this] run show ?thesis
    by (intro exI[of _ r] exI[of _ d]) (simp add: fee_run_def)
qed

section \<open>Repetition\<close>

text \<open>A repetition of a payment that has paid an invoice is recognised: it changes nothing.\<close>

theorem allocated_payment_is_not_repeated:
  assumes "allocate_confirmed_payment rt locked tenant p amount ledger db = Inr (res, db1)"
    and "\<not> ar_duplicate res" and "invoices_ok (bl_invoices db)" and "ar_invoice_allocations res \<noteq> []"
    and "bl_allocations db2 = bl_allocations db1 @ later"
  shows "allocate_confirmed_payment rt2 locked2 tenant p amount ledger db2 =
    Inr (\<lparr>ar_duplicate = True, ar_allocated_amount_minor = ''0'', ar_credit_amount_minor = ''0'',
          ar_invoice_allocations = []\<rparr>, db2)"
proof -
  from allocate_summary[OF assms(1-3)] obtain "done" rows credits where
    a: "bl_allocations db1 = bl_allocations db @ rows" "ar_invoice_allocations res = map (\<lambda>(i, a). (i, show_int a)) done"
      "allocated_rows (cp_tenant_id p) (payment_key p ledger) (cp_id p) done rows" by fastforce
  have "rows \<noteq> []" using a(2,3) assms(4) by (auto simp: allocated_rows_def)
  then have "\<exists>x\<in>set (bl_allocations db2). fa_tenant_id x = cp_tenant_id p \<and> fa_idempotency_key x = payment_key p ledger"
    using a(1,3) assms(5) by (cases rows) (auto simp: allocated_rows_def)
  then obtain x where "find_fee_allocation_by_key db2 (cp_tenant_id p) (payment_key p ledger) = Some x"
    unfolding find_fee_allocation_by_key_def by (metis (mono_tags, lifting) select_first_exI)
  with assms(1,2) show ?thesis
    by (auto simp: allocate_confirmed_payment_def Let_def and_then_eq_Inr payment_key_def split: if_splits option.splits)
qed

theorem allocated_payment_is_not_repeated_witness:
  "\<exists>r d. fee_run fee_invoices ''600'' = Inr (r, d) \<and>
     (\<exists>r'. allocate_confirmed_payment ev_rt (\<lambda>_. False) ''t1'' fee_intent ''600'' None d = Inr (r', d) \<and> ar_duplicate r')"
proof -
  have "case fee_run fee_invoices ''600'' of Inl e \<Rightarrow> False
      | Inr (r, d) \<Rightarrow> \<not> ar_duplicate r \<and> ar_invoice_allocations r \<noteq> []" by code_simp
  then obtain r d where run: "allocate_confirmed_payment ev_rt (\<lambda>_. False) ''t1'' fee_intent ''600'' None (fee_db fee_invoices) = Inr (r, d)"
    and r: "\<not> ar_duplicate r \<and> ar_invoice_allocations r \<noteq> []" by (rule fee_run_cases)
  from allocated_payment_is_not_repeated[OF run conjunct1[OF r] fee_invoices_ok conjunct2[OF r], of d "[]" ev_rt "\<lambda>_. False"] run
  show ?thesis by (auto simp: fee_run_def)
qed

text \<open>A payment that found no open invoice is not recognised: its credit is not looked up, so when invoices
  have been opened in the meantime a repetition allocates the same amount to them, up to their balances, and the
  student keeps the full credit beside it.\<close>

theorem credited_payment_allocates_again:
  assumes "allocate_confirmed_payment rt locked tenant p amount ledger db = Inr (res, db1)"
    and "\<not> ar_duplicate res" and "invoices_ok (bl_invoices db)" and "ar_invoice_allocations res = []"
    and "\<not> credit_exists db p ledger" and "0 < parse_nat (js_trim amount)"
    and "allocate_confirmed_payment rt2 locked2 tenant p amount ledger (db1\<lparr>bl_invoices := opened\<rparr>) = Inr (res2, db2)"
    and "invoices_ok opened"
  shows "\<not> ar_duplicate res2 \<and> bl_credits db2 = bl_credits db1 \<and>
    parse_int (ar_allocated_amount_minor res2) = min (int (parse_nat (js_trim amount)))
      (sum_list (map balance (open_invoices (db1\<lparr>bl_invoices := opened\<rparr>) locked2 p))) \<and>
    (\<exists>credits. bl_credits db1 = bl_credits db @ credits \<and>
      sum_list (map fc_remaining_amount_minor credits) = int (parse_nat (js_trim amount)))"
proof -
  let ?db = "db1\<lparr>bl_invoices := opened\<rparr>"
  from allocate_summary[OF assms(1-3)] assms(4,5) obtain rows credits where
    a: "bl_credits db1 = bl_credits db @ credits" "bl_allocations db1 = bl_allocations db @ rows"
      "allocated_rows (cp_tenant_id p) (payment_key p ledger) (cp_id p) [] rows"
      "sum_list (map fc_remaining_amount_minor credits) = int (parse_nat (js_trim amount))"
      "\<forall>c\<in>set credits. fc_tenant_id c = cp_tenant_id p \<and> fc_idempotency_key c = payment_key p ledger"
    by fastforce
  have rows: "rows = []" using a(3) by (simp add: allocated_rows_def)
  have "credits \<noteq> []" using a(4) assms(6) by auto
  then have credited: "credit_exists ?db p ledger"
    using a(1,5) unfolding credit_exists_def by (cases credits) auto
  have "find_fee_allocation_by_key ?db t k = find_fee_allocation_by_key db t k" for t k
    by (simp add: find_fee_allocation_by_key_def a(2) rows)
  then have new2: "\<not> ar_duplicate res2" using duplicate_iff[OF assms(1)] duplicate_iff[OF assms(7)] assms(2) by simp
  have ok2: "invoices_ok (bl_invoices ?db)" using assms(8) by simp
  from allocate_summary[OF assms(7) new2 ok2] credited obtain "done" rows2 where
    b: "done = zip (map iv_id (open_invoices ?db locked2 p)) (waterfall (int (parse_nat (js_trim amount))) (map balance (open_invoices ?db locked2 p)))"
      "loop_pre (cp_tenant_id p) (payment_key p ledger) (open_invoices ?db locked2 p) ?db"
      "ar_allocated_amount_minor res2 = show_int (sum_list (map snd done))" "bl_credits db2 = bl_credits db1"
    by fastforce
  have "sum_list (map snd done) = min (int (parse_nat (js_trim amount))) (sum_list (map balance (open_invoices ?db locked2 p)))"
    unfolding b(1) by (rule waterfall_zip_sum) (use b(2) in \<open>auto simp: loop_pre_def\<close>)
  then have "parse_int (ar_allocated_amount_minor res2) = min (int (parse_nat (js_trim amount)))
      (sum_list (map balance (open_invoices ?db locked2 p)))" by (simp add: b(3))
  with new2 b(4) a(1,4) show ?thesis by blast
qed

theorem credited_payment_allocates_again_witness:
  "\<exists>r d r2 d2. fee_run [] ''600'' = Inr (r, d) \<and>
     allocate_confirmed_payment ev_rt (\<lambda>_. False) ''t1'' fee_intent ''600'' None (d\<lparr>bl_invoices := fee_invoices\<rparr>) = Inr (r2, d2) \<and>
     parse_int (ar_allocated_amount_minor r2) = 600 \<and> sum_list (map fc_remaining_amount_minor (bl_credits d2)) = 600"
proof -
  let ?again = "\<lambda>d. allocate_confirmed_payment ev_rt (\<lambda>_. False) ''t1'' fee_intent ''600'' None (d\<lparr>bl_invoices := fee_invoices\<rparr>)"
  have "case fee_run [] ''600'' of Inl e \<Rightarrow> False
      | Inr (r, d) \<Rightarrow> \<not> ar_duplicate r \<and> ar_invoice_allocations r = [] \<and> \<not> isl (?again d) \<and>
          map iv_id (open_invoices (d\<lparr>bl_invoices := fee_invoices\<rparr>) (\<lambda>_. False) fee_intent) = [2, 1] \<and>
          sum_list (map balance (open_invoices (d\<lparr>bl_invoices := fee_invoices\<rparr>) (\<lambda>_. False) fee_intent)) = 800"
    by code_simp
  then obtain r d where run: "allocate_confirmed_payment ev_rt (\<lambda>_. False) ''t1'' fee_intent ''600'' None (fee_db []) = Inr (r, d)"
    and r: "\<not> ar_duplicate r \<and> ar_invoice_allocations r = [] \<and> \<not> isl (?again d) \<and>
      map iv_id (open_invoices (d\<lparr>bl_invoices := fee_invoices\<rparr>) (\<lambda>_. False) fee_intent) = [2, 1] \<and>
      sum_list (map balance (open_invoices (d\<lparr>bl_invoices := fee_invoices\<rparr>) (\<lambda>_. False) fee_intent)) = 800"
    by (rule fee_run_cases)
  obtain r2 d2 where again: "?again d = Inr (r2, d2)" using r by (cases "?again d") auto
  have n: "int (parse_nat (js_trim ''600'')) = 600" by code_simp
  have pre: "invoices_ok (bl_invoices (fee_db []))" "\<not> credit_exists (fee_db []) fee_intent None" "0 < parse_nat (js_trim ''600'')"
    "invoices_ok fee_invoices" and none: "bl_credits (fee_db []) = []"
    using fee_invoices_ok n by (simp_all add: fee_db_def credit_exists_def invoices_ok_def)
  from credited_payment_allocates_again[OF run conjunct1[OF r] pre(1) _ pre(2,3) again pre(4)] r none n
  show ?thesis using run again by (intro exI[of _ r] exI[of _ d] exI[of _ r2] exI[of _ d2]) (simp add: fee_run_def)
qed

end
