(* ===== verification/Billing_Lifecycle.thy ===== *)
theory Billing_Lifecycle
  imports Billing_Store
begin

text \<open>
  \<open>BillingLifecycleService\<close>, \<open>BillingNotificationService\<close>, \<open>BillingAccessService\<close> and the
  two billing guards: how the age of a tenant's subscription decides what its users may do. Instants are
  milliseconds; the overview's \<open>toISOString()\<close> of them is left out.
\<close>

section \<open>Constants\<close>

definition BILLING_EXPIRING_WINDOW_DAYS :: int where "BILLING_EXPIRING_WINDOW_DAYS = 5"
definition BILLING_GRACE_PERIOD_DAYS :: int where "BILLING_GRACE_PERIOD_DAYS = 7"
definition BILLING_RESTRICTED_PERIOD_DAYS :: int where "BILLING_RESTRICTED_PERIOD_DAYS = 7"

record plan =
  pl_code :: string
  pl_features :: "string list"
  pl_limits :: "(string \<times> json) list"
  pl_period_days :: int
  pl_default_status :: subscription_status

definition BILLING_PLAN_CATALOG :: "plan list" where
  "BILLING_PLAN_CATALOG =
     [\<lparr>pl_code = ''trial'', pl_features = [''students'', ''billing.mpesa''],
       pl_limits = [(''students.max_active'', JNum ''250''), (''usage.events.monthly'', JNum ''10000'')],
       pl_period_days = 14, pl_default_status = SubTrialing\<rparr>,
      \<lparr>pl_code = ''starter'', pl_features = [''students'', ''billing.mpesa''],
       pl_limits = [(''students.max_active'', JNum ''1000''), (''usage.events.monthly'', JNum ''50000'')],
       pl_period_days = 30, pl_default_status = SubActive\<rparr>,
      \<lparr>pl_code = ''growth'', pl_features = [''students'', ''billing.mpesa''],
       pl_limits = [(''students.max_active'', JNum ''5000''), (''usage.events.monthly'', JNum ''250000'')],
       pl_period_days = 30, pl_default_status = SubActive\<rparr>,
      \<lparr>pl_code = ''enterprise'', pl_features = [''*''], pl_limits = [],
       pl_period_days = 30, pl_default_status = SubActive\<rparr>]"

definition find_plan :: "string \<Rightarrow> plan option" where
  "find_plan code = List.find (\<lambda>p. pl_code p = code) BILLING_PLAN_CATALOG"

text \<open>\<open>BILLING_PLAN_CATALOG[code] ?? BILLING_PLAN_CATALOG.starter\<close>\<close>

definition plan_or_starter :: "string \<Rightarrow> plan" where
  "plan_or_starter code =
     (case find_plan code of Some p \<Rightarrow> p | None \<Rightarrow> BILLING_PLAN_CATALOG ! 1)"

section \<open>The overview of a subscription\<close>

datatype access_mode = AmFull | AmReadOnly | AmBillingOnly

record overview =
  ov_lifecycle_state :: lifecycle_state
  ov_access_mode :: access_mode
  ov_warning_starts_at :: int
  ov_grace_period_ends_at :: int
  ov_restricted_at :: "int option"
  ov_suspended_at :: "int option"
  ov_suspension_reason :: "string option"
  ov_renewal_required :: bool

definition get_renewal_boundary :: "subscription \<Rightarrow> int" where
  "get_renewal_boundary s =
     (case (sb_status s, sb_trial_ends_at s) of
        (SubTrialing, Some t) \<Rightarrow> t
      | _ \<Rightarrow> sb_current_period_end s)"

fun status_text :: "subscription_status \<Rightarrow> string" where
  "status_text SubTrialing = ''trialing''"
| "status_text SubActive = ''active''"
| "status_text SubPastDue = ''past_due''"
| "status_text SubRestricted = ''restricted''"
| "status_text SubSuspended = ''suspended''"
| "status_text SubCanceled = ''canceled''"
| "status_text SubExpired = ''expired''"

text \<open>\<open>x && now >= x\<close>\<close>

definition reached :: "int option \<Rightarrow> int \<Rightarrow> bool" where
  "reached x now = (case x of None \<Rightarrow> False | Some t \<Rightarrow> t \<le> now)"

definition grace_ends :: "subscription \<Rightarrow> int" where
  "grace_ends s =
     or_default (sb_grace_period_ends_at s) (add_days (get_renewal_boundary s) BILLING_GRACE_PERIOD_DAYS)"

definition suspension_due :: "subscription \<Rightarrow> int option" where
  "suspension_due s =
     or_else (sb_suspended_at s)
       (map_option (\<lambda>r. add_days r BILLING_RESTRICTED_PERIOD_DAYS) (sb_restricted_at s))"

definition build_overview :: "subscription \<Rightarrow> int \<Rightarrow> overview" where
  "build_overview s now =
     (let boundary = get_renewal_boundary s;
          warning = add_days boundary (- BILLING_EXPIRING_WINDOW_DAYS);
          grace = grace_ends s;
          restricted = sb_restricted_at s;
          suspended = suspension_due s;
          ov = (\<lambda>state mode r u reason renewal.
            \<lparr>ov_lifecycle_state = state, ov_access_mode = mode, ov_warning_starts_at = warning,
             ov_grace_period_ends_at = grace, ov_restricted_at = r, ov_suspended_at = u,
             ov_suspension_reason = reason, ov_renewal_required = renewal\<rparr>)
      in if sb_status s = SubCanceled \<or> sb_status s = SubExpired then
           ov LsSuspended AmBillingOnly restricted suspended
             (or_else (sb_suspension_reason s) (Some (status_text (sb_status s)))) True
         else if sb_status s = SubSuspended \<or> reached suspended now then
           ov LsSuspended AmBillingOnly restricted (or_else suspended (Some now)) (sb_suspension_reason s) True
         else if sb_status s = SubRestricted \<or> reached restricted now then
           ov LsRestricted AmReadOnly (or_else restricted (Some now)) suspended (sb_suspension_reason s) True
         else if sb_status s = SubPastDue \<or> boundary < now then
           ov LsGracePeriod AmFull restricted suspended (sb_suspension_reason s) True
         else if sb_status s = SubTrialing then
           ov (if warning \<le> now then LsExpiring else LsTrial) AmFull restricted suspended
             (sb_suspension_reason s) (warning \<le> now)
         else if warning \<le> now then
           ov LsExpiring AmFull restricted suspended (sb_suspension_reason s) True
         else
           ov LsActive AmFull restricted suspended (sb_suspension_reason s) False)"

section \<open>Transitions\<close>

definition window :: "subscription_status \<Rightarrow> int option \<Rightarrow> int option \<Rightarrow> int option \<Rightarrow> string option \<Rightarrow> lifecycle_window" where
  "window st g r u reason =
     \<lparr>lw_status = st, lw_grace_period_ends_at = g, lw_restricted_at = r, lw_suspended_at = u,
      lw_suspension_reason = reason\<rparr>"

text \<open>\<open>None\<close>: \<open>should_transition\<close> is false.\<close>

definition resolve_transition :: "subscription \<Rightarrow> int \<Rightarrow> lifecycle_window option" where
  "resolve_transition s now =
     (let boundary = get_renewal_boundary s;
          grace = grace_ends s;
          restricted = or_default (sb_restricted_at s) now;
          suspended = or_default (sb_suspended_at s) (add_days restricted BILLING_RESTRICTED_PERIOD_DAYS)
      in if boundary < now \<and> now \<le> grace \<and> sb_status s \<noteq> SubPastDue then
           Some (window SubPastDue (Some grace) None None None)
         else if grace < now \<and> now < suspended \<and>
             (sb_status s \<noteq> SubRestricted \<or> sb_restricted_at s = None \<or> sb_suspended_at s = None) then
           Some (window SubRestricted (Some grace) (Some restricted) (Some suspended) (Some ''renewal_required''))
         else if suspended \<le> now \<and> sb_status s \<noteq> SubSuspended then
           Some (window SubSuspended (Some grace) (Some restricted) (Some suspended)
             (or_else (sb_suspension_reason s) (Some ''renewal_required'')))
         else None)"

section \<open>Notifications\<close>

fun lifecycle_text :: "lifecycle_state \<Rightarrow> string" where
  "lifecycle_text LsActive = ''ACTIVE''"
| "lifecycle_text LsTrial = ''TRIAL''"
| "lifecycle_text LsExpiring = ''EXPIRING''"
| "lifecycle_text LsGracePeriod = ''GRACE_PERIOD''"
| "lifecycle_text LsRestricted = ''RESTRICTED''"
| "lifecycle_text LsSuspended = ''SUSPENDED''"

fun access_text :: "access_mode \<Rightarrow> string" where
  "access_text AmFull = ''full''"
| "access_text AmReadOnly = ''read_only''"
| "access_text AmBillingOnly = ''billing_only''"

definition announces :: "lifecycle_state \<Rightarrow> bool" where
  "announces st \<longleftrightarrow> st \<in> {LsExpiring, LsGracePeriod, LsRestricted, LsSuspended}"

fun build_title :: "lifecycle_state \<Rightarrow> string" where
  "build_title LsExpiring = ''Subscription renewal due soon''"
| "build_title LsGracePeriod = ''Subscription is in grace period''"
| "build_title LsRestricted = ''Subscription access is now restricted''"
| "build_title LsSuspended = ''Subscription has been suspended''"
| "build_title _ = ''Subscription update''"

fun build_body :: "lifecycle_state \<Rightarrow> subscription \<Rightarrow> string" where
  "build_body LsExpiring s =
     ''Your '' @ sb_plan_code s @ '' plan renews on '' @ iso_date (sb_current_period_end s) @
     ''. Renew now to avoid access restrictions.''"
| "build_body LsGracePeriod s =
     ''Your billing period ended on '' @ iso_date (sb_current_period_end s) @
     ''. Full access remains available during the grace period, but renewal is now required.''"
| "build_body LsRestricted s =
     ''Your school workspace is now in restricted read-only mode. Billing, support, and data export remain available until renewal is completed.''"
| "build_body LsSuspended s =
     ''Your subscription has been suspended. Billing, renewal, and data export remain available so you can restore service safely.''"
| "build_body _ s = ''Your subscription status has changed.''"

definition notification_key :: "subscription \<Rightarrow> lifecycle_state \<Rightarrow> string \<Rightarrow> string" where
  "notification_key s st channel =
     join '':'' [''billing'', uuid_text (sb_id s), iso_date (sb_current_period_end s), lifecycle_text st, channel]"

definition lifecycle_notification ::
  "subscription \<Rightarrow> overview \<Rightarrow> string \<Rightarrow> string \<Rightarrow> string \<Rightarrow> int option \<Rightarrow> (string \<times> json) \<Rightarrow> uuid \<Rightarrow> billing_notification" where
  "lifecycle_notification s ov channel audience status delivered meta i =
     \<lparr>bn_id = i, bn_tenant_id = sb_tenant_id s, bn_subscription_id = sb_id s,
      bn_notification_key = notification_key s (ov_lifecycle_state ov) channel, bn_channel = channel,
      bn_audience = audience, bn_lifecycle_state = ov_lifecycle_state ov, bn_status = status,
      bn_title = build_title (ov_lifecycle_state ov), bn_body = build_body (ov_lifecycle_state ov) s,
      bn_scheduled_for = ov_warning_starts_at ov, bn_delivered_at = delivered,
      bn_metadata = JObj [(''type'', JStr ''subscription_lifecycle''), meta]\<rparr>"

definition build_descriptors :: "runtime \<Rightarrow> subscription \<Rightarrow> overview \<Rightarrow> (uuid \<Rightarrow> billing_notification) list" where
  "build_descriptors rt s ov =
     (if \<not> announces (ov_lifecycle_state ov) then []
      else
        [lifecycle_notification s ov ''admin'' ''tenant_admins'' ''sent'' (Some (rt_clock rt))
           (''access_mode'', JStr (access_text (ov_access_mode ov))),
         lifecycle_notification s ov ''sms'' ''billing_contact'' ''queued'' None
           (''target'', JStr ''billing_phone_number''),
         lifecycle_notification s ov ''email'' ''tenant_admins'' ''queued'' None
           (''target'', JStr ''tenant_admin_email'')])"

definition queue_lifecycle_notifications ::
  "runtime \<Rightarrow> subscription \<Rightarrow> overview \<Rightarrow> 'a billing_db_scheme \<Rightarrow> 'a billing_db_scheme" where
  "queue_lifecycle_notifications rt s ov db =
     fold create_notification_if_absent (build_descriptors rt s ov) db"

section \<open>\<open>ensureCurrentLifecycle\<close> and the renewal window\<close>

definition ensure_current_lifecycle ::
  "runtime \<Rightarrow> string \<Rightarrow> 'a billing_db_scheme \<Rightarrow> ((subscription \<times> overview) option \<times> 'a billing_db_scheme) result" where
  "ensure_current_lifecycle rt tenant db =
     (case lock_current_by_tenant db tenant of
        None \<Rightarrow> Inr (None, db)
      | Some s \<Rightarrow>
          and_then (case resolve_transition s (rt_clock rt) of
              None \<Rightarrow> Inr (s, db)
            | Some w \<Rightarrow> apply_lifecycle_window rt tenant (sb_id s) w db) (\<lambda>(s', db1).
          let ov = build_overview s' (rt_clock rt)
          in Inr (Some (s', ov),
               if announces (ov_lifecycle_state ov) then queue_lifecycle_notifications rt s' ov db1 else db1)))"

definition get_next_renewal_window :: "runtime \<Rightarrow> subscription \<Rightarrow> int \<times> int" where
  "get_next_renewal_window rt s =
     (let start = (if rt_clock rt < sb_current_period_end s then sb_current_period_end s else rt_clock rt)
      in (start, add_days start (pl_period_days (plan_or_starter (sb_plan_code s)))))"

section \<open>Access of a request\<close>

record access_state =
  as_subscription_id :: "uuid option"
  as_plan_code :: "string option"
  as_status :: "subscription_status option"
  as_lifecycle_state :: "lifecycle_state option"
  as_access_mode :: "access_mode option"
  as_features :: "string list"
  as_limits :: "(string \<times> json) list"
  as_current_period_start :: "int option"
  as_current_period_end :: "int option"
  as_warning_starts_at :: "int option"
  as_grace_period_ends_at :: "int option"
  as_restricted_at :: "int option"
  as_suspended_at :: "int option"
  as_suspension_reason :: "string option"
  as_renewal_required :: bool
  as_is_active :: bool

definition build_access_state :: "(subscription \<times> overview) option \<Rightarrow> access_state" where
  "build_access_state r =
     (case r of
        None \<Rightarrow> \<lparr>as_subscription_id = None, as_plan_code = None, as_status = None, as_lifecycle_state = None,
                 as_access_mode = None, as_features = [], as_limits = [], as_current_period_start = None,
                 as_current_period_end = None, as_warning_starts_at = None, as_grace_period_ends_at = None,
                 as_restricted_at = None, as_suspended_at = None, as_suspension_reason = None,
                 as_renewal_required = False, as_is_active = False\<rparr>
      | Some (s, ov) \<Rightarrow>
          \<lparr>as_subscription_id = Some (sb_id s), as_plan_code = Some (sb_plan_code s),
           as_status = Some (sb_status s), as_lifecycle_state = Some (ov_lifecycle_state ov),
           as_access_mode = Some (ov_access_mode ov), as_features = sb_features s, as_limits = sb_limits s,
           as_current_period_start = Some (sb_current_period_start s),
           as_current_period_end = Some (sb_current_period_end s),
           as_warning_starts_at = Some (ov_warning_starts_at ov),
           as_grace_period_ends_at = Some (ov_grace_period_ends_at ov), as_restricted_at = ov_restricted_at ov,
           as_suspended_at = ov_suspended_at ov, as_suspension_reason = ov_suspension_reason ov,
           as_renewal_required = ov_renewal_required ov,
           as_is_active = (ov_access_mode ov \<noteq> AmBillingOnly)\<rparr>)"

definition should_bypass_cache :: "access_state \<Rightarrow> bool" where
  "should_bypass_cache a =
     (case as_lifecycle_state a of None \<Rightarrow> False | Some st \<Rightarrow> st \<noteq> LsActive \<and> st \<noteq> LsTrial)"

definition has_feature :: "access_state option \<Rightarrow> string \<Rightarrow> bool" where
  "has_feature a feature =
     (case a of None \<Rightarrow> False
      | Some x \<Rightarrow> as_is_active x \<and> (''*'' \<in> set (as_features x) \<or> feature \<in> set (as_features x)))"

text \<open>
  \<open>resolveForTenant\<close>: \<open>context\<close> is the access the request context holds for its tenant, \<open>cached\<close>
  what the cache returns (\<open>None\<close> when it is disabled, empty or failing); the second result is what is
  written to the cache.
\<close>

definition resolve_for_tenant ::
  "runtime \<Rightarrow> access_state option \<Rightarrow> access_state option \<Rightarrow> string \<Rightarrow> 'a billing_db_scheme \<Rightarrow>
     (access_state \<times> access_state option \<times> 'a billing_db_scheme) result" where
  "resolve_for_tenant rt context_access cached tenant db =
     (case (if rt_tenant_id rt = Some tenant then context_access else None) of
        Some a \<Rightarrow> Inr (a, None, db)
      | None \<Rightarrow>
          (case (case cached of None \<Rightarrow> None | Some a \<Rightarrow> if should_bypass_cache a then None else Some a) of
             Some a \<Rightarrow> Inr (a, None, db)
           | None \<Rightarrow>
               and_then (ensure_current_lifecycle rt tenant db) (\<lambda>(r, db').
               let a = build_access_state r
               in Inr (a, if should_bypass_cache a then None else Some a, db'))))"

section \<open>The guards\<close>

definition starts_with :: "string \<Rightarrow> string \<Rightarrow> bool" where
  "starts_with s prefix \<longleftrightarrow> take (length prefix) s = prefix"

definition is_always_allowed_path :: "string \<Rightarrow> bool" where
  "is_always_allowed_path path \<longleftrightarrow>
     path \<in> set [''/'', ''/dashboard'', ''/app'', ''/ops''] \<or>
     list_ex (starts_with path) [''/billing'', ''/health'', ''/auth'', ''/observability'', ''/platform'', ''/support''] \<or>
     list_ex (starts_with path) [''/compliance/me/export'']"

definition lifecycle_guard :: "string option \<Rightarrow> access_state option \<Rightarrow> string \<Rightarrow> string \<Rightarrow> unit result" where
  "lifecycle_guard tenant access verb path =
     (if \<not> truthy tenant then Inr ()
      else if is_always_allowed_path path then Inr ()
      else case access of
             None \<Rightarrow> Inl (HttpException 402 ''Your subscription is suspended. Billing, renewal, support, and data export are still available.'')
           | Some a \<Rightarrow>
               if as_subscription_id a = None \<or> as_access_mode a = Some AmBillingOnly then
                 Inl (HttpException 402 ''Your subscription is suspended. Billing, renewal, support, and data export are still available.'')
               else if as_access_mode a = Some AmReadOnly \<and>
                   js_upper verb \<notin> set [''GET'', ''HEAD'', ''OPTIONS''] then
                 Inl (HttpException 402 ''Your subscription is in restricted read-only mode. Renew to restore updates and new records.'')
               else Inr ())"

definition feature_guard :: "string option \<Rightarrow> access_state option \<Rightarrow> string list \<Rightarrow> unit result" where
  "feature_guard tenant access required =
     (if required = [] then Inr ()
      else if \<not> truthy tenant \<or> (case access of None \<Rightarrow> True | Some a \<Rightarrow> \<not> as_is_active a) then
        Inl (HttpException 402 ''An active subscription is required to access this feature'')
      else case List.find (\<lambda>f. \<not> has_feature access f) required of
             None \<Rightarrow> Inr ()
           | Some f \<Rightarrow> if f = [] then Inr ()
               else Inl (HttpException 402 (''Current subscription does not include feature '' @ quoted f)))"

end
