(* ===== verification/Billing_Lifecycle_Facts.thy ===== *)
theory Billing_Lifecycle_Facts
  imports Billing_Lifecycle
begin

text \<open>
  The life of a subscription, measured from its renewal boundary \<open>b\<close>: full access up to seven days
  after it, read-only access for seven days from the moment the lapse is noticed, then suspension.
\<close>

section \<open>The current subscription of a tenant\<close>

definition current_ok :: "'a billing_db_scheme \<Rightarrow> string \<Rightarrow> subscription \<Rightarrow> bool" where
  "current_ok db tenant s \<longleftrightarrow> distinct (map sb_id (bl_subscriptions db)) \<and> s \<in> set (bl_subscriptions db) \<and>
     sb_tenant_id s = tenant \<and> mutable_status (sb_status s) \<and>
     (\<forall>x\<in>set (bl_subscriptions db). sb_tenant_id x = tenant \<and> mutable_status (sb_status x) \<longrightarrow> x = s)"

lemma first_row_sort:
  assumes "xs \<noteq> []"
  obtains x where "first_row (sort_key k xs) = Some x" and "x \<in> set xs" and "\<forall>y\<in>set xs. k x \<le> k y"
proof (cases "sort_key k xs")
  case Nil
  then have "set (sort_key k xs) = {}" by simp
  with assms show thesis by simp
next
  case (Cons x ys)
  have "x \<in> set xs" using arg_cong[OF Cons, of set] by auto
  moreover have "k x \<le> k y" if "y \<in> set xs" for y
  proof -
    have "sorted (map k (x # ys))" using Cons by (metis sorted_sort_key)
    moreover have "y \<in> set (x # ys)" using that arg_cong[OF Cons, of set] by simp
    ultimately show ?thesis by auto
  qed
  ultimately show thesis using Cons by (intro that[of x]) (simp_all add: first_row_def)
qed

lemma mutable_rank: "mutable_status st \<longleftrightarrow> status_rank st < 6"
  by (cases st) (simp_all add: mutable_status_def)

lemma lock_current: "current_ok db tenant s \<Longrightarrow> lock_current_by_tenant db tenant = Some s"
proof -
  assume ok: "current_ok db tenant s"
  let ?xs = "filter (\<lambda>s. sb_tenant_id s = tenant) (bl_subscriptions db)"
  have s: "s \<in> set ?xs" using ok by (simp add: current_ok_def)
  then have "?xs \<noteq> []" by force
  then obtain x where x: "first_row (sort_key (\<lambda>s. (status_rank (sb_status s), - sb_created_at s)) ?xs) = Some x"
    "x \<in> set ?xs" "\<forall>y\<in>set ?xs. (status_rank (sb_status x), - sb_created_at x) \<le> (status_rank (sb_status y), - sb_created_at y)"
    by (rule first_row_sort)
  have "status_rank (sb_status x) \<le> status_rank (sb_status s)" using x(3) s by (auto simp: less_eq_prod_def)
  then have "mutable_status (sb_status x)" using ok by (auto simp: mutable_rank current_ok_def)
  with x(2) ok have "x = s" by (simp add: current_ok_def)
  with x(1) show ?thesis by (simp add: lock_current_by_tenant_def)
qed

lemma filter_unique: "distinct xs \<Longrightarrow> (\<And>x. x \<in> set xs \<Longrightarrow> P x \<Longrightarrow> x = s) \<Longrightarrow> length (filter P xs) \<le> 1"
proof -
  assume d: "distinct xs" and u: "\<And>x. x \<in> set xs \<Longrightarrow> P x \<Longrightarrow> x = s"
  have "length (filter P xs) = card (set (filter P xs))" using distinct_card[OF distinct_filter[OF d, of P]] by simp
  also have "\<dots> \<le> card {s}" using u by (intro card_mono) auto
  finally show ?thesis by simp
qed

definition subscription_set :: "(subscription \<Rightarrow> subscription) \<Rightarrow> subscription \<Rightarrow> 'a billing_db_scheme \<Rightarrow> 'a billing_db_scheme" where
  "subscription_set f s db =
     db\<lparr>bl_subscriptions := map (\<lambda>x. if x = s then f s else x) (bl_subscriptions db)\<rparr>"

lemma update_current:
  assumes ok: "current_ok db tenant s"
    and keep: "sb_id (f s) = sb_id s" "sb_tenant_id (f s) = tenant" "mutable_status (sb_status (f s))"
  shows "update_subscription tenant (sb_id s) f db = Inr (f s, subscription_set f s db)"
    and "current_ok (subscription_set f s db) tenant (f s)"
proof -
  let ?ss = "map (\<lambda>x. if x = s then f s else x) (bl_subscriptions db)"
  have dist: "distinct (map sb_id (bl_subscriptions db))" and s: "s \<in> set (bl_subscriptions db)" "sb_tenant_id s = tenant"
    using ok by (simp_all add: current_ok_def)
  have same: "x = s" if "x \<in> set (bl_subscriptions db)" "sb_id x = sb_id s" for x
    using dist that s(1) by (auto simp: distinct_map dest: inj_onD)
  have "subscription_at tenant (sb_id s) x \<longleftrightarrow> sb_id x = sb_id s" if "x \<in> set (bl_subscriptions db)" for x
    using that s(2) same by (auto simp: subscription_at_def)
  note upd = update_where_only[OF dist s(1) this]
  have ids: "map sb_id ?ss = map sb_id (bl_subscriptions db)" using keep(1) by simp
  have fs: "f s \<in> set ?ss" using s(1) by force
  show cur: "current_ok (subscription_set f s db) tenant (f s)"
    unfolding current_ok_def subscription_set_def using ok keep dist ids fs
    by (auto simp: current_ok_def simp del: map_map)
  have one: "single_mutable ?ss tenant"
    unfolding single_mutable_def
  proof (rule filter_unique)
    have "distinct (map sb_id ?ss)" unfolding ids by (rule dist)
    then show "distinct ?ss" by (rule conjunct1[OF iffD1[OF distinct_map]])
    show "x = f s" if "x \<in> set ?ss" "sb_tenant_id x = tenant \<and> mutable_status (sb_status x)" for x
      using cur that unfolding current_ok_def subscription_set_def by simp
  qed
  have "select_first (subscription_at tenant (sb_id s)) ?ss = Some (f s)"
    by (rule select_first_unique[of sb_id])
      (use dist ids fs keep in \<open>simp_all add: subscription_at_def del: map_map\<close>)
  with one show "update_subscription tenant (sb_id s) f db = Inr (f s, subscription_set f s db)"
    by (simp add: update_subscription_def upd subscription_set_def Let_def)
qed

section \<open>Notifications\<close>

definition notified :: "'a billing_db_scheme \<Rightarrow> string \<Rightarrow> string \<Rightarrow> bool" where
  "notified db tenant key \<longleftrightarrow>
     (\<exists>m\<in>set (bl_notifications db). bn_tenant_id m = tenant \<and> bn_notification_key m = key)"

definition notifying :: "string \<Rightarrow> string \<Rightarrow> (uuid \<Rightarrow> billing_notification) \<Rightarrow> bool" where
  "notifying tenant key mk \<longleftrightarrow> (\<forall>i. bn_tenant_id (mk i) = tenant \<and> bn_notification_key (mk i) = key)"

lemma create_notification:
  assumes "notifying tenant key mk"
  shows "notified (create_notification_if_absent mk db) tenant key"
    and "notified db t k \<Longrightarrow> notified (create_notification_if_absent mk db) t k"
    and "notified db tenant key \<Longrightarrow> create_notification_if_absent mk db = db"
    and "bl_subscriptions (create_notification_if_absent mk db) = bl_subscriptions db"
  using assms by (auto simp: create_notification_if_absent_def notified_def notifying_def Let_def list_ex_iff)

lemma descriptors_notifying:
  assumes "mk \<in> set (build_descriptors rt s ov)"
  shows "\<exists>key. notifying (sb_tenant_id s) key mk \<and> (\<forall>rt. \<exists>mk'\<in>set (build_descriptors rt s ov). notifying (sb_tenant_id s) key mk')"
  using assms by (auto simp: build_descriptors_def notifying_def lifecycle_notification_def split: if_splits)

lemma fold_notifications_subscriptions:
  "\<forall>mk\<in>set mks. \<exists>key. notifying tenant key mk \<Longrightarrow>
     bl_subscriptions (fold create_notification_if_absent mks db) = bl_subscriptions db"
  by (induction mks arbitrary: db) (auto simp: create_notification(4))

lemma fold_notifications_keep:
  "\<forall>mk\<in>set mks. \<exists>key. notifying tenant key mk \<Longrightarrow> notified db t k \<Longrightarrow>
     notified (fold create_notification_if_absent mks db) t k"
  by (induction mks arbitrary: db) (auto simp: create_notification(2))

lemma fold_notifications_add:
  "\<forall>mk\<in>set mks. \<exists>key. notifying tenant key mk \<Longrightarrow> mk \<in> set mks \<Longrightarrow> notifying tenant key mk \<Longrightarrow>
     notified (fold create_notification_if_absent mks db) tenant key"
proof (induction mks arbitrary: db)
  case (Cons a mks)
  then show ?case using create_notification(1)[of tenant key a db] fold_notifications_keep[of mks tenant] by auto
qed simp

lemma fold_notifications_idem:
  "\<forall>mk\<in>set mks. \<exists>key. notifying tenant key mk \<and> notified db tenant key \<Longrightarrow>
     fold create_notification_if_absent mks db = db"
  by (induction mks) (auto simp: create_notification(3))

text \<open>Queueing twice adds nothing the second time.\<close>

lemma queue_twice:
  "queue_lifecycle_notifications rt' s ov (queue_lifecycle_notifications rt s ov db) = queue_lifecycle_notifications rt s ov db"
  unfolding queue_lifecycle_notifications_def
proof (rule fold_notifications_idem)
  have all: "\<forall>mk\<in>set (build_descriptors rt s ov). \<exists>key. notifying (sb_tenant_id s) key mk"
    using descriptors_notifying by blast
  show "\<forall>mk\<in>set (build_descriptors rt' s ov). \<exists>key. notifying (sb_tenant_id s) key mk \<and>
      notified (fold create_notification_if_absent (build_descriptors rt s ov) db) (sb_tenant_id s) key"
  proof
    fix mk assume "mk \<in> set (build_descriptors rt' s ov)"
    from descriptors_notifying[OF this] obtain key where key: "notifying (sb_tenant_id s) key mk"
      "\<forall>rt. \<exists>mk'\<in>set (build_descriptors rt s ov). notifying (sb_tenant_id s) key mk'" by blast
    then obtain mk' where "mk' \<in> set (build_descriptors rt s ov)" "notifying (sb_tenant_id s) key mk'" by blast
    with fold_notifications_add[OF all] key(1)
    show "\<exists>key. notifying (sb_tenant_id s) key mk \<and>
      notified (fold create_notification_if_absent (build_descriptors rt s ov) db) (sb_tenant_id s) key" by blast
  qed
qed

lemma queue_subscriptions [simp]: "bl_subscriptions (queue_lifecycle_notifications rt s ov db) = bl_subscriptions db"
  unfolding queue_lifecycle_notifications_def
  using descriptors_notifying by (intro fold_notifications_subscriptions) blast

section \<open>Phases\<close>

abbreviation "days n \<equiv> n * 24 * 60 * 60 * (1000::int)"

text \<open>A subscription whose lapse began at the boundary \<open>b\<close>, as far as it has been noticed by the time \<open>t\<close>.\<close>

definition dated :: "int \<Rightarrow> int \<Rightarrow> subscription \<Rightarrow> bool" where
  "dated b t s \<longleftrightarrow>
     (case sb_status s of
        SubTrialing \<Rightarrow> get_renewal_boundary s = b \<and> sb_grace_period_ends_at s = None \<and>
          sb_restricted_at s = None \<and> sb_suspended_at s = None
      | SubActive \<Rightarrow> get_renewal_boundary s = b \<and> sb_grace_period_ends_at s = None \<and>
          sb_restricted_at s = None \<and> sb_suspended_at s = None
      | SubPastDue \<Rightarrow> sb_grace_period_ends_at s = Some (b + days 7) \<and> sb_restricted_at s = None \<and>
          sb_suspended_at s = None
      | SubRestricted \<Rightarrow> sb_grace_period_ends_at s = Some (b + days 7) \<and>
          (\<exists>r. sb_restricted_at s = Some r \<and> sb_suspended_at s = Some (r + days 7) \<and> b + days 7 < r \<and> r \<le> t)
      | SubSuspended \<Rightarrow> sb_grace_period_ends_at s = Some (b + days 7) \<and>
          (\<exists>r. sb_restricted_at s = Some r \<and> sb_suspended_at s = Some (r + days 7) \<and> b + days 7 < r \<and>
             r + days 7 \<le> t)
      | _ \<Rightarrow> False)"

fun phase_rank :: "subscription_status \<Rightarrow> nat" where
  "phase_rank SubPastDue = 1"
| "phase_rank SubRestricted = 2"
| "phase_rank SubSuspended = 3"
| "phase_rank _ = 0"

text \<open>What the calendar alone says about the status at the time \<open>now\<close>.\<close>

definition calendar_status :: "int \<Rightarrow> subscription \<Rightarrow> int \<Rightarrow> subscription_status" where
  "calendar_status b s now =
     (if phase_rank (sb_status s) < 2 then
        if now \<le> b \<or> sb_status s = SubPastDue \<and> now \<le> b + days 7 then sb_status s
        else if now \<le> b + days 7 then SubPastDue else SubRestricted
      else if reached (sb_suspended_at s) now then SubSuspended else SubRestricted)"

fun status_access :: "subscription_status \<Rightarrow> access_mode" where
  "status_access SubRestricted = AmReadOnly"
| "status_access SubSuspended = AmBillingOnly"
| "status_access SubCanceled = AmBillingOnly"
| "status_access SubExpired = AmBillingOnly"
| "status_access _ = AmFull"

lemmas lifecycle_simps = resolve_transition_def Let_def window_def grace_ends_def or_default_def or_else_def
  add_days_def BILLING_GRACE_PERIOD_DAYS_def BILLING_RESTRICTED_PERIOD_DAYS_def BILLING_EXPIRING_WINDOW_DAYS_def
  reached_def suspension_due_def

definition transitioned :: "runtime \<Rightarrow> subscription \<Rightarrow> subscription" where
  "transitioned rt s =
     (case resolve_transition s (rt_clock rt) of None \<Rightarrow> s | Some w \<Rightarrow> lifecycle_fields rt w s)"

lemma transition_fresh:
  assumes "dated b t s" and "phase_rank (sb_status s) = 0"
  shows "resolve_transition s now =
    (if now \<le> b then None
     else if now \<le> b + days 7 then Some (window SubPastDue (Some (b + days 7)) None None None)
     else Some (window SubRestricted (Some (b + days 7)) (Some now) (Some (now + days 7)) (Some ''renewal_required'')))"
  using assms by (cases "sb_status s") (simp_all add: dated_def lifecycle_simps)

lemma transition_past_due:
  assumes "dated b t s" and "sb_status s = SubPastDue"
  shows "resolve_transition s now =
    (if now \<le> b + days 7 then None
     else Some (window SubRestricted (Some (b + days 7)) (Some now) (Some (now + days 7)) (Some ''renewal_required'')))"
  using assms by (simp add: dated_def lifecycle_simps)

lemma transition_restricted:
  assumes "dated b t s" and "t \<le> now" and "sb_status s = SubRestricted"
  obtains r where "sb_grace_period_ends_at s = Some (b + days 7)" "sb_restricted_at s = Some r"
    "sb_suspended_at s = Some (r + days 7)" "b + days 7 < r" "r \<le> t"
    "resolve_transition s now =
      (if now < r + days 7 then None
       else Some (window SubSuspended (Some (b + days 7)) (Some r) (Some (r + days 7))
         (or_else (sb_suspension_reason s) (Some ''renewal_required''))))"
  using assms by (auto simp: dated_def resolve_transition_def Let_def grace_ends_def or_default_def)

lemma transition_suspended:
  assumes "dated b t s" and "t \<le> now" and "sb_status s = SubSuspended"
  shows "resolve_transition s now = None"
  using assms by (auto simp: dated_def resolve_transition_def Let_def grace_ends_def or_default_def)

lemma dated_later: "dated b t s \<Longrightarrow> t \<le> now \<Longrightarrow> dated b now s"
  by (cases "sb_status s") (auto simp: dated_def)

lemma dated_rank: "dated b t s \<Longrightarrow> phase_rank (sb_status s) = 0 \<or> sb_status s = SubPastDue \<or>
    sb_status s = SubRestricted \<or> sb_status s = SubSuspended"
  by (cases "sb_status s") (auto simp: dated_def)

lemma transition_dated:
  assumes d: "dated b t s" and t: "t \<le> rt_clock rt"
  shows "dated b (rt_clock rt) (transitioned rt s) \<and> sb_status (transitioned rt s) = calendar_status b s (rt_clock rt)"
  using dated_rank[OF d]
proof (elim disjE)
  assume r: "phase_rank (sb_status s) = 0"
  consider "rt_clock rt \<le> b" | "b < rt_clock rt" "rt_clock rt \<le> b + days 7" | "b + days 7 < rt_clock rt" by linarith
  then show ?thesis
    using d r dated_later[OF d t] transition_fresh[OF d r, of "rt_clock rt"]
    by cases (cases "sb_status s"; simp add: transitioned_def calendar_status_def lifecycle_fields_def window_def dated_def or_else_def)+
next
  assume r: "sb_status s = SubPastDue"
  show ?thesis
    using d r dated_later[OF d t] transition_past_due[OF d r, of "rt_clock rt"]
    by (simp add: transitioned_def calendar_status_def lifecycle_fields_def window_def dated_def or_else_def)
next
  assume r: "sb_status s = SubRestricted"
  from transition_restricted[OF d t r] obtain u where
    u: "sb_grace_period_ends_at s = Some (b + days 7)" "sb_restricted_at s = Some u" "sb_suspended_at s = Some (u + days 7)"
      "b + days 7 < u" "u \<le> t"
      "resolve_transition s (rt_clock rt) =
        (if rt_clock rt < u + days 7 then None
         else Some (window SubSuspended (Some (b + days 7)) (Some u) (Some (u + days 7))
           (or_else (sb_suspension_reason s) (Some ''renewal_required''))))" by blast
  show ?thesis
    using u r t by (simp add: transitioned_def calendar_status_def lifecycle_fields_def window_def dated_def or_else_def reached_def)
next
  assume r: "sb_status s = SubSuspended"
  show ?thesis using d r t dated_later[OF d t] transition_suspended[OF d t r]
    by (auto simp: transitioned_def calendar_status_def dated_def reached_def)
qed

lemma transition_done:
  assumes d: "dated b t s" and t: "t \<le> rt_clock rt"
  shows "resolve_transition (transitioned rt s) (rt_clock rt) = None"
proof -
  let ?s = "transitioned rt s"
  from transition_dated[OF d t] have s: "dated b (rt_clock rt) ?s" "sb_status ?s = calendar_status b s (rt_clock rt)" by auto
  from dated_rank[OF s(1)] show ?thesis
  proof (elim disjE)
    assume r: "phase_rank (sb_status ?s) = 0"
    have "rt_clock rt \<le> b" using s(2) r by (auto simp: calendar_status_def split: if_splits)
    then show ?thesis using transition_fresh[OF s(1) r, of "rt_clock rt"] by simp
  next
    assume r: "sb_status ?s = SubPastDue"
    have "rt_clock rt \<le> b + days 7" using s(2) r by (auto simp: calendar_status_def split: if_splits)
    then show ?thesis using transition_past_due[OF s(1) r, of "rt_clock rt"] by simp
  next
    assume r: "sb_status ?s = SubRestricted"
    show ?thesis
    proof (cases "sb_status s = SubRestricted")
      case True
      from transition_restricted[OF d t True] obtain u where u: "sb_suspended_at s = Some (u + days 7)"
        "resolve_transition s (rt_clock rt) =
          (if rt_clock rt < u + days 7 then None
           else Some (window SubSuspended (Some (b + days 7)) (Some u) (Some (u + days 7))
             (or_else (sb_suspension_reason s) (Some ''renewal_required''))))" by blast
      have "rt_clock rt < u + days 7" using s(2) r u(1) True by (auto simp: calendar_status_def reached_def split: if_splits)
      with u(2) show ?thesis by (simp add: transitioned_def)
    next
      case False
      have "phase_rank (sb_status s) < 2" using s(2) r False dated_rank[OF d] transition_suspended[OF d t] by (auto simp: transitioned_def)
      then have "resolve_transition s (rt_clock rt) = Some (window SubRestricted (Some (b + days 7)) (Some (rt_clock rt))
          (Some (rt_clock rt + days 7)) (Some ''renewal_required''))"
        using s(2) r dated_rank[OF d] transition_fresh[OF d, of "rt_clock rt"] transition_past_due[OF d, of "rt_clock rt"]
        by (auto simp: calendar_status_def split: if_splits)
      then have "sb_suspended_at ?s = Some (rt_clock rt + days 7)" "sb_restricted_at ?s = Some (rt_clock rt)"
        "sb_grace_period_ends_at ?s = Some (b + days 7)"
        by (simp_all add: transitioned_def lifecycle_fields_def window_def or_else_def)
      with r show ?thesis using s(1) by (simp add: dated_def resolve_transition_def Let_def grace_ends_def or_default_def)
    qed
  next
    assume r: "sb_status ?s = SubSuspended"
    show ?thesis by (rule transition_suspended[OF s(1) order_refl r])
  qed
qed

lemma access_dated:
  assumes d: "dated b (rt_clock rt) s" and fin: "resolve_transition s (rt_clock rt) = None"
  shows "ov_access_mode (build_overview s (rt_clock rt)) = status_access (sb_status s)"
  using dated_rank[OF d]
proof (elim disjE)
  assume r: "phase_rank (sb_status s) = 0"
  with d show ?thesis by (cases "sb_status s") (simp_all add: dated_def build_overview_def lifecycle_simps)
next
  assume "sb_status s = SubPastDue"
  with d show ?thesis by (simp add: dated_def build_overview_def lifecycle_simps)
next
  assume r: "sb_status s = SubRestricted"
  from transition_restricted[OF d order_refl r] obtain u where u: "sb_suspended_at s = Some (u + days 7)"
    "resolve_transition s (rt_clock rt) =
      (if rt_clock rt < u + days 7 then None
       else Some (window SubSuspended (Some (b + days 7)) (Some u) (Some (u + days 7))
         (or_else (sb_suspension_reason s) (Some ''renewal_required''))))" by blast
  have "rt_clock rt < u + days 7" using fin u(2) by (cases "rt_clock rt < u + days 7") simp_all
  then have "\<not> reached (suspension_due s) (rt_clock rt)" by (simp add: reached_def suspension_due_def or_else_def u(1))
  then show ?thesis using r by (simp add: build_overview_def Let_def)
next
  assume "sb_status s = SubSuspended"
  then show ?thesis by (simp add: build_overview_def Let_def)
qed

section \<open>\<open>ensureCurrentLifecycle\<close> on the database\<close>

lemma transitioned_keeps:
  "sb_id (transitioned rt s) = sb_id s" "sb_tenant_id (transitioned rt s) = sb_tenant_id s"
  "sb_features (transitioned rt s) = sb_features s" "sb_current_period_end (transitioned rt s) = sb_current_period_end s"
  "sb_plan_code (transitioned rt s) = sb_plan_code s"
  by (simp_all add: transitioned_def lifecycle_fields_def split: option.splits)

lemma dated_mutable: "dated b t s \<Longrightarrow> mutable_status (sb_status s)"
  by (cases "sb_status s") (simp_all add: dated_def mutable_status_def)

definition ensured_db :: "runtime \<Rightarrow> subscription \<Rightarrow> 'a billing_db_scheme \<Rightarrow> 'a billing_db_scheme" where
  "ensured_db rt s db =
     (let s' = transitioned rt s; ov = build_overview s' (rt_clock rt); db1 = subscription_set (transitioned rt) s db
      in if announces (ov_lifecycle_state ov) then queue_lifecycle_notifications rt s' ov db1 else db1)"

lemma subscription_set_same: "f s = s \<Longrightarrow> subscription_set f s db = db"
proof -
  assume "f s = s"
  then have "map (\<lambda>x. if x = s then f s else x) (bl_subscriptions db) = bl_subscriptions db"
    by (intro map_idI) auto
  then show ?thesis by (simp only: subscription_set_def) simp
qed

lemma ensure_current:
  assumes cur: "current_ok db tenant s" and d: "dated b t s" and t: "t \<le> rt_clock rt"
  shows "ensure_current_lifecycle rt tenant db =
      Inr (Some (transitioned rt s, build_overview (transitioned rt s) (rt_clock rt)), ensured_db rt s db)"
    and "current_ok (ensured_db rt s db) tenant (transitioned rt s)"
proof -
  have keep: "sb_id (transitioned rt s) = sb_id s" "sb_tenant_id (transitioned rt s) = tenant"
    "mutable_status (sb_status (transitioned rt s))"
    using cur dated_mutable[OF conjunct1[OF transition_dated[OF d t]]] by (simp_all add: transitioned_keeps current_ok_def)
  note upd = update_current[where f = "transitioned rt", OF cur keep]
  show "current_ok (ensured_db rt s db) tenant (transitioned rt s)"
    using upd(2) by (simp add: ensured_db_def Let_def current_ok_def)
  have "(case resolve_transition s (rt_clock rt) of None \<Rightarrow> Inr (s, db)
      | Some w \<Rightarrow> apply_lifecycle_window rt tenant (sb_id s) w db) =
      Inr (transitioned rt s, subscription_set (transitioned rt) s db)"
  proof (cases "resolve_transition s (rt_clock rt)")
    case None
    then have "transitioned rt s = s" by (simp add: transitioned_def)
    with None show ?thesis by (simp add: subscription_set_same)
  next
    case (Some w)
    have f: "lifecycle_fields rt w s = transitioned rt s" using Some by (simp add: transitioned_def)
    have "subscription_set (lifecycle_fields rt w) s db = subscription_set (transitioned rt) s db"
      using f by (simp add: subscription_set_def cong: map_cong if_cong)
    then show ?thesis
      using Some update_current(1)[OF cur, of "lifecycle_fields rt w"] keep unfolding f
      by (simp add: apply_lifecycle_window_def f)
  qed
  then show "ensure_current_lifecycle rt tenant db =
      Inr (Some (transitioned rt s, build_overview (transitioned rt s) (rt_clock rt)), ensured_db rt s db)"
    by (simp add: ensure_current_lifecycle_def lock_current[OF cur] ensured_db_def Let_def)
qed

text \<open>Requests of one tenant over time: each looks the lifecycle up, none looks back.\<close>

inductive lifecycle_run :: "string \<Rightarrow> int \<times> 'a billing_db_scheme \<Rightarrow> int \<times> 'a billing_db_scheme \<Rightarrow> bool"
  for tenant :: string where
  run_here: "lifecycle_run tenant x x"
| run_ensure: "lifecycle_run tenant x (t, db) \<Longrightarrow> t \<le> rt_clock rt \<Longrightarrow>
    ensure_current_lifecycle rt tenant db = Inr (r, db') \<Longrightarrow> lifecycle_run tenant x (rt_clock rt, db')"

lemma calendar_rank: "dated b t s \<Longrightarrow> t \<le> now \<Longrightarrow> phase_rank (sb_status s) \<le> phase_rank (calendar_status b s now)"
  by (cases "sb_status s") (auto simp: calendar_status_def dated_def reached_def)

lemma run_dated:
  assumes "lifecycle_run tenant x y" and "current_ok (snd x) tenant s" and "dated b (fst x) s"
  shows "\<exists>s'. current_ok (snd y) tenant s' \<and> dated b (fst y) s' \<and> fst x \<le> fst y \<and>
    phase_rank (sb_status s) \<le> phase_rank (sb_status s') \<and> sb_id s' = sb_id s \<and>
    sb_current_period_end s' = sb_current_period_end s"
  using assms
proof (induction rule: lifecycle_run.induct)
  case (run_here x)
  then show ?case by auto
next
  case (run_ensure x t db rt r db')
  then obtain s' where s': "current_ok db tenant s'" "dated b t s'" "fst x \<le> t"
    "phase_rank (sb_status s) \<le> phase_rank (sb_status s')" "sb_id s' = sb_id s"
    "sb_current_period_end s' = sb_current_period_end s" by auto
  note e = ensure_current[OF s'(1,2) run_ensure.hyps(2)]
  have "db' = ensured_db rt s' db" using e(1) run_ensure.hyps(3) by simp
  with e(2) transition_dated[OF s'(2) run_ensure.hyps(2)] calendar_rank[OF s'(2) run_ensure.hyps(2)] s'(3-6) run_ensure.hyps(2)
  show ?case by (intro exI[of _ "transitioned rt s'"]) (auto simp: transitioned_keeps)
qed

end
