(* ===== verification/Billing_Lifecycle_Claims.thy ===== *)
theory Billing_Lifecycle_Claims
  imports Billing_Lifecycle_Facts Outbox_Claims
begin

text \<open>The properties of the subscription's lifecycle, with witnesses on a school with one subscription.\<close>

section \<open>Examples\<close>

definition sub_rt :: "int \<Rightarrow> runtime" where
  "sub_rt now = ev_rt\<lparr>rt_clock := now, rt_now := now\<rparr>"

definition sub_example :: "subscription_status \<Rightarrow> subscription" where
  "sub_example st = \<lparr>sb_id = 4, sb_tenant_id = ''t1'', sb_plan_code = ''starter'', sb_status = st,
     sb_billing_phone_number = None, sb_currency_code = ''KES'', sb_features = [''students''], sb_limits = [],
     sb_seats_allocated = 1, sb_current_period_start = 0, sb_current_period_end = days 30, sb_trial_ends_at = None,
     sb_grace_period_ends_at = None, sb_restricted_at = None, sb_suspended_at = None, sb_suspension_reason = None,
     sb_activated_at = Some 0, sb_canceled_at = None, sb_last_invoice_at = None, sb_metadata = JNull,
     sb_created_at = 0, sb_updated_at = 0\<rparr>"

definition sub_db :: "subscription \<Rightarrow> billing_db" where
  "sub_db s = \<lparr>fd_idempotency_keys = [], fd_accounts = [], fd_transactions = [], fd_ledger_entries = [],
     fd_audit_logs = [], fd_sync_operations = [], ev_outbox = [], ev_runs = [], bl_subscriptions = [s],
     bl_invoices = [], bl_allocations = [], bl_credits = [], bl_notifications = [], bl_usage = [],
     bl_fee_structures = []\<rparr>"

lemma sub_current: "mutable_status st \<Longrightarrow> current_ok (sub_db (sub_example st)) ''t1'' (sub_example st)"
  by (simp add: current_ok_def sub_db_def sub_example_def)

lemma sub_dated: "dated (days 30) 0 (sub_example SubActive)"
  by (simp add: dated_def sub_example_def get_renewal_boundary_def)

section \<open>The calendar\<close>



text \<open>Looking the lifecycle up again at the same moment gives the same answer and changes nothing, the
  notifications included.\<close>

theorem ensure_current_idempotent:
  assumes "current_ok db tenant s" and "dated b t s" and "t \<le> rt_clock rt" and "rt_clock rt' = rt_clock rt"
    and "ensure_current_lifecycle rt tenant db = Inr (r, db')"
  shows "ensure_current_lifecycle rt' tenant db' = Inr (r, db')"
proof -
  let ?s = "transitioned rt s"
  note e = ensure_current[OF assms(1-3)]
  have db': "r = Some (?s, build_overview ?s (rt_clock rt))" "db' = ensured_db rt s db" using e(1) assms(5) by simp_all
  have d: "dated b (rt_clock rt) ?s" using transition_dated[OF assms(2,3)] by simp
  have same: "transitioned rt' ?s = ?s" using transition_done[OF assms(2,3)] assms(4) by (simp add: transitioned_def)
  have "ensured_db rt' ?s (ensured_db rt s db) = ensured_db rt s db"
    unfolding ensured_db_def[of rt'] same Let_def assms(4) subscription_set_same[where f = "transitioned rt'" and s = ?s, OF same]
    by (simp add: ensured_db_def Let_def queue_twice)
  then show ?thesis
    using ensure_current(1)[OF e(2) d, of rt'] assms(4) by (simp add: db' same)
qed

theorem ensure_current_idempotent_witness:
  "\<exists>r db'. ensure_current_lifecycle (sub_rt (days 40)) ''t1'' (sub_db (sub_example SubActive)) = Inr (r, db') \<and>
     ensure_current_lifecycle (sub_rt (days 40)) ''t1'' db' = Inr (r, db') \<and> r \<noteq> None"
proof -
  have t: "0 \<le> rt_clock (sub_rt (days 40))" by (simp add: sub_rt_def)
  have c: "current_ok (sub_db (sub_example SubActive)) ''t1'' (sub_example SubActive)"
    by (rule sub_current) (simp add: mutable_status_def)
  show ?thesis
    using ensure_current(1)[OF c sub_dated t] ensure_current_idempotent[OF c sub_dated t refl ensure_current(1)[OF c sub_dated t]]
    by blast
qed

text \<open>However often and whenever a tenant's requests look the lifecycle up, its subscription only moves
  forward, keeps full access up to seven days past the boundary of its period, and is not suspended before
  fourteen days past it.\<close>

theorem lifecycle_never_early:
  assumes "lifecycle_run tenant (t, db) (t', db')" and "current_ok db tenant s" and "dated b t s"
  shows "\<exists>s'. current_ok db' tenant s' \<and> sb_id s' = sb_id s \<and> phase_rank (sb_status s) \<le> phase_rank (sb_status s') \<and>
    (t' \<le> b + days 7 \<longrightarrow> status_access (sb_status s') = AmFull) \<and>
    (t' \<le> b + days 14 \<longrightarrow> status_access (sb_status s') \<noteq> AmBillingOnly)"
proof -
  obtain s' where s': "current_ok db' tenant s'" "dated b t' s'" "phase_rank (sb_status s) \<le> phase_rank (sb_status s')" "sb_id s' = sb_id s"
    using run_dated[OF assms(1)] assms(2,3) by auto
  have "(t' \<le> b + days 7 \<longrightarrow> status_access (sb_status s') = AmFull) \<and>
      (t' \<le> b + days 14 \<longrightarrow> status_access (sb_status s') \<noteq> AmBillingOnly)"
    using s'(2) by (cases "sb_status s'") (auto simp: dated_def)
  with s' show ?thesis by blast
qed

theorem lifecycle_never_early_witness:
  "\<exists>r db' s'. ensure_current_lifecycle (sub_rt (days 37)) ''t1'' (sub_db (sub_example SubActive)) = Inr (r, db') \<and>
     current_ok db' ''t1'' s' \<and> status_access (sb_status s') = AmFull"
proof -
  have t: "0 \<le> rt_clock (sub_rt (days 37))" by (simp add: sub_rt_def)
  have c: "current_ok (sub_db (sub_example SubActive)) ''t1'' (sub_example SubActive)"
    by (rule sub_current) (simp add: mutable_status_def)
  obtain r db' where e: "ensure_current_lifecycle (sub_rt (days 37)) ''t1'' (sub_db (sub_example SubActive)) = Inr (r, db')"
    using ensure_current(1)[OF c sub_dated t] by blast
  have "lifecycle_run ''t1'' (0, sub_db (sub_example SubActive)) (days 37, db')"
    using run_ensure[OF run_here t e] by (simp add: sub_rt_def)
  from lifecycle_never_early[OF this c sub_dated] e show ?thesis by auto
qed

section \<open>What the guard lets through\<close>

text \<open>The guard enforces the calendar: outside the paths that stay open, a request whose access is looked up
  afresh passes with every verb while the subscription is in its period or past due, only with a reading verb
  when it is restricted, and never when it is suspended.\<close>

theorem guard_enforces_calendar:
  assumes "current_ok db tenant s" and "dated b t s" and "t \<le> rt_clock rt"
    and "resolve_for_tenant rt None None tenant db = Inr (access, cache, db')"
    and "tenant \<noteq> []" and "\<not> is_always_allowed_path path"
  shows "lifecycle_guard (Some tenant) (Some access) verb path = Inr () \<longleftrightarrow>
    (case status_access (calendar_status b s (rt_clock rt)) of
       AmFull \<Rightarrow> True
     | AmReadOnly \<Rightarrow> js_upper verb = ''GET'' \<or> js_upper verb = ''HEAD'' \<or> js_upper verb = ''OPTIONS''
     | AmBillingOnly \<Rightarrow> False)"
proof -
  note e = ensure_current(1)[OF assms(1-3)]
  have "access = build_access_state (Some (transitioned rt s, build_overview (transitioned rt s) (rt_clock rt)))"
    using assms(4) by (simp add: resolve_for_tenant_def e Let_def)
  moreover have "ov_access_mode (build_overview (transitioned rt s) (rt_clock rt)) = status_access (calendar_status b s (rt_clock rt))"
    using access_dated[OF conjunct1[OF transition_dated[OF assms(2,3)]] transition_done[OF assms(2,3)]]
      transition_dated[OF assms(2,3)] by simp
  ultimately show ?thesis
    using assms(5,6) by (simp add: lifecycle_guard_def build_access_state_def truthy_def split: access_mode.splits)
qed

theorem guard_enforces_calendar_witness:
  "\<exists>access cache db'. resolve_for_tenant (sub_rt (days 40)) None None ''t1'' (sub_db (sub_example SubActive)) = Inr (access, cache, db') \<and>
     lifecycle_guard (Some ''t1'') (Some access) ''POST'' ''/students'' \<noteq> Inr () \<and>
     lifecycle_guard (Some ''t1'') (Some access) ''get'' ''/students'' = Inr ()"
proof -
  have t: "0 \<le> rt_clock (sub_rt (days 40))" by (simp add: sub_rt_def)
  have c: "current_ok (sub_db (sub_example SubActive)) ''t1'' (sub_example SubActive)"
    by (rule sub_current) (simp add: mutable_status_def)
  obtain access cache db' where r: "resolve_for_tenant (sub_rt (days 40)) None None ''t1'' (sub_db (sub_example SubActive)) = Inr (access, cache, db')"
    using ensure_current(1)[OF c sub_dated t] by (simp add: resolve_for_tenant_def Let_def)
  have p: "\<not> is_always_allowed_path ''/students''" by code_simp
  have s: "status_access (calendar_status (days 30) (sub_example SubActive) (rt_clock (sub_rt (days 40)))) = AmReadOnly"
    by (simp add: calendar_status_def sub_example_def sub_rt_def)
  have v: "js_upper ''get'' = ''GET''" "js_upper ''POST'' = ''POST''" by code_simp+
  show ?thesis
    using r guard_enforces_calendar[OF c sub_dated t r _ p, of "''POST''", unfolded s v]
      guard_enforces_calendar[OF c sub_dated t r _ p, of "''get''", unfolded s v] by simp
qed

section \<open>Ended subscriptions\<close>

text \<open>A subscription that was provisioned as canceled or expired gives access to billing only while its period
  runs, but comes back to life when the period ends: the first lookup in the seven days after it marks it past
  due and grants full access.\<close>

theorem ended_subscription_regains_access:
  assumes "sb_status s = SubCanceled \<or> sb_status s = SubExpired" and "sb_grace_period_ends_at s = None"
    and "bl_subscriptions db = [s]" and "sb_tenant_id s = tenant" and "sb_restricted_at s = None" and "sb_suspended_at s = None"
    and "sb_current_period_end s < rt_clock rt" and "rt_clock rt \<le> sb_current_period_end s + days 7"
  shows "ov_access_mode (build_overview s (sb_current_period_end s)) = AmBillingOnly \<and>
    (\<exists>s' ov db'. ensure_current_lifecycle rt tenant db = Inr (Some (s', ov), db') \<and>
       sb_status s' = SubPastDue \<and> ov_access_mode ov = AmFull)"
proof -
  have cur: "lock_current_by_tenant db tenant = Some s"
    using assms(3,4) by (simp add: lock_current_by_tenant_def first_row_def)
  have b: "get_renewal_boundary s = sb_current_period_end s" using assms(1) by (auto simp: get_renewal_boundary_def)
  have w: "resolve_transition s (rt_clock rt) = Some (window SubPastDue (Some (sb_current_period_end s + days 7)) None None None)"
    using assms(1,2,7,8) by (auto simp: resolve_transition_def Let_def b grace_ends_def or_default_def add_days_def BILLING_GRACE_PERIOD_DAYS_def)
  let ?w = "window SubPastDue (Some (sb_current_period_end s + days 7)) None None None"
  have f: "sb_id (lifecycle_fields rt ?w s) = sb_id s" "sb_tenant_id (lifecycle_fields rt ?w s) = tenant"
    "sb_status (lifecycle_fields rt ?w s) = SubPastDue" "sb_restricted_at (lifecycle_fields rt ?w s) = None"
    "sb_suspended_at (lifecycle_fields rt ?w s) = None"
    using assms(4-6) by (simp_all add: lifecycle_fields_def window_def or_else_def)
  have "apply_lifecycle_window rt tenant (sb_id s) ?w db =
      Inr (lifecycle_fields rt ?w s, db\<lparr>bl_subscriptions := [lifecycle_fields rt ?w s]\<rparr>)"
    using f assms(3,4) by (simp add: apply_lifecycle_window_def update_subscription_def Let_def update_where_def
        subscription_at_def single_mutable_def)
  moreover have "ov_access_mode (build_overview (lifecycle_fields rt ?w s) (rt_clock rt)) = AmFull"
    using f by (simp add: build_overview_def Let_def suspension_due_def or_else_def reached_def)
  moreover have "ov_access_mode (build_overview s (sb_current_period_end s)) = AmBillingOnly"
    using assms(1) by (auto simp: build_overview_def Let_def)
  ultimately show ?thesis using f(3) by (simp add: ensure_current_lifecycle_def cur w Let_def)
qed

theorem ended_subscription_regains_access_witness:
  "\<exists>s' ov db'. ensure_current_lifecycle (sub_rt (days 31)) ''t1'' (sub_db (sub_example SubCanceled)) = Inr (Some (s', ov), db') \<and>
     sb_status s' = SubPastDue \<and> ov_access_mode ov = AmFull"
  using ended_subscription_regains_access[of "sub_example SubCanceled" "sub_db (sub_example SubCanceled)" "''t1''" "sub_rt (days 31)"]
  by (simp add: sub_example_def sub_db_def sub_rt_def)

end
