(* ===== verification/Billing_Service.thy ===== *)
theory Billing_Service
  imports Billing_Lifecycle Fee_Allocation
begin

text \<open>
  The operations of \<open>BillingService\<close> and \<open>UsageMeterService\<close> that change state: subscriptions,
  invoices, fee structures and the invoices generated from them, renewals, the completion of a payment and
  metered usage. The random part of an invoice number is a parameter.
\<close>

definition BILLING_DEFAULT_CURRENCY_CODE :: string where
  "BILLING_DEFAULT_CURRENCY_CODE = ''KES''"

definition require_tenant_id :: "runtime \<Rightarrow> string result" where
  "require_tenant_id rt =
     (case rt_tenant_id rt of
        Some t \<Rightarrow> if t = [] then Inl (UnauthorizedException ''Tenant context is required for billing operations'') else Inr t
      | None \<Rightarrow> Inl (UnauthorizedException ''Tenant context is required for billing operations''))"

text \<open>\<open>value?.trim() || fallback\<close>\<close>

definition trim_or :: "string option \<Rightarrow> string option \<Rightarrow> string option" where
  "trim_or v fallback = or_else (read_string v) fallback"

definition resolve_timestamp :: "runtime \<Rightarrow> string \<Rightarrow> int result" where
  "resolve_timestamp rt v =
     (case rt_parse_date rt v of
        Some t \<Rightarrow> Inr t
      | None \<Rightarrow> Inl (ConflictException (''Invalid timestamp '' @ quoted v)))"

text \<open>\<open>dto.x ? this.resolveTimestamp(dto.x) : fallback\<close>\<close>

definition timestamp_or :: "runtime \<Rightarrow> string option \<Rightarrow> int \<Rightarrow> int result" where
  "timestamp_or rt v fallback =
     (case v of None \<Rightarrow> Inr fallback | Some s \<Rightarrow> if s = [] then Inr fallback else resolve_timestamp rt s)"

definition generate_invoice_number :: "runtime \<Rightarrow> string \<Rightarrow> string" where
  "generate_invoice_number rt random =
     ''INV-'' @ filter (\<lambda>c. c \<noteq> CHR ''-'') (iso_date (rt_clock rt)) @ ''-'' @ js_upper (take 8 random)"

section \<open>Subscriptions\<close>

record create_subscription_dto =
  sd_plan_code :: string
  sd_status :: "subscription_status option"
  sd_billing_phone_number :: "string option"
  sd_seats_allocated :: "int option"
  sd_metadata :: "(string \<times> json) list"

definition new_subscription :: "runtime \<Rightarrow> string \<Rightarrow> plan \<Rightarrow> create_subscription_dto \<Rightarrow> uuid \<Rightarrow> subscription" where
  "new_subscription rt tenant p dto i =
     (let now = rt_clock rt; ends = add_days now (pl_period_days p);
          status = or_default (sd_status dto) (pl_default_status p)
      in \<lparr>sb_id = i, sb_tenant_id = tenant, sb_plan_code = pl_code p, sb_status = status,
          sb_billing_phone_number = trim_or (sd_billing_phone_number dto) None,
          sb_currency_code = BILLING_DEFAULT_CURRENCY_CODE, sb_features = pl_features p,
          sb_limits = pl_limits p, sb_seats_allocated = or_default (sd_seats_allocated dto) 1,
          sb_current_period_start = now, sb_current_period_end = ends,
          sb_trial_ends_at = (if status = SubTrialing then Some ends else None),
          sb_grace_period_ends_at = None, sb_restricted_at = None, sb_suspended_at = None,
          sb_suspension_reason = None,
          sb_activated_at = (if status = SubActive then Some now else None), sb_canceled_at = None,
          sb_last_invoice_at = None,
          sb_metadata = JObj (json_merge (sd_metadata dto)
            [(''provisioned_by_request_id'', JStr (rt_request_id rt))]),
          sb_created_at = rt_now rt, sb_updated_at = rt_now rt\<rparr>)"

definition create_subscription ::
  "runtime \<Rightarrow> create_subscription_dto \<Rightarrow> 'a billing_db_scheme \<Rightarrow>
     ((subscription \<times> overview) \<times> 'a billing_db_scheme) result" where
  "create_subscription rt dto db =
     and_then (require_tenant_id rt) (\<lambda>tenant.
       case find_plan (sd_plan_code dto) of
         None \<Rightarrow> Inl (InternalServerErrorException ''Cannot read properties of undefined'')
       | Some p \<Rightarrow>
           and_then (create_subscription_row (new_subscription rt tenant p dto)
             (expire_current_subscriptions rt tenant db)) (\<lambda>(s, db').
           Inr ((s, build_overview s (rt_clock rt)), db')))"

definition require_billable_subscription :: "'a billing_db_scheme \<Rightarrow> string \<Rightarrow> subscription result" where
  "require_billable_subscription db tenant =
     (case lock_current_by_tenant db tenant of
        None \<Rightarrow> Inl (NotFoundException ''No subscription exists for this tenant'')
      | Some s \<Rightarrow>
          if sb_status s \<notin> set [SubTrialing, SubActive, SubPastDue, SubRestricted] then
            Inl (ConflictException (''Subscription is not billable while status is '' @ quoted (status_text (sb_status s))))
          else Inr s)"

section \<open>Invoices\<close>

definition invoice_row ::
  "runtime \<Rightarrow> subscription \<Rightarrow> string \<Rightarrow> string \<Rightarrow> int \<Rightarrow> string option \<Rightarrow> int \<Rightarrow> (string \<times> json) list \<Rightarrow> uuid \<Rightarrow> invoice" where
  "invoice_row rt s number description amount phone due meta i =
     \<lparr>iv_id = i, iv_tenant_id = sb_tenant_id s, iv_subscription_id = sb_id s, iv_invoice_number = number,
      iv_status = InvOpen, iv_currency_code = sb_currency_code s, iv_description = description,
      iv_subtotal_amount_minor = amount, iv_tax_amount_minor = 0, iv_total_amount_minor = amount,
      iv_amount_paid_minor = 0, iv_billing_phone_number = phone, iv_payment_intent_id = None,
      iv_issued_at = rt_clock rt, iv_due_at = due, iv_paid_at = None, iv_voided_at = None,
      iv_metadata = meta, iv_created_at = rt_now rt, iv_updated_at = rt_now rt\<rparr>"

record create_invoice_dto =
  id_description :: string
  id_total_amount_minor :: string
  id_billing_phone_number :: "string option"
  id_due_at :: "string option"
  id_metadata :: "(string \<times> json) list"

definition service_create_invoice ::
  "runtime \<Rightarrow> string \<Rightarrow> create_invoice_dto \<Rightarrow> 'a billing_db_scheme \<Rightarrow> (invoice \<times> 'a billing_db_scheme) result" where
  "service_create_invoice rt random dto db =
     and_then (require_tenant_id rt) (\<lambda>tenant.
     and_then (require_billable_subscription db tenant) (\<lambda>s.
     and_then (timestamp_or rt (id_due_at dto) (add_days (rt_clock rt) 7)) (\<lambda>due.
     and_then (pg_bigint (js_trim (id_total_amount_minor dto))) (\<lambda>amount.
     and_then (create_invoice (invoice_row rt s (generate_invoice_number rt random) (js_trim (id_description dto))
       amount (trim_or (id_billing_phone_number dto) (sb_billing_phone_number s)) due (id_metadata dto)) db) (\<lambda>(v, db1).
     Inr (v, mark_invoice_issued rt tenant (sb_id s) db1))))))"

definition resolve_renewal_amount_minor :: "subscription \<Rightarrow> string" where
  "resolve_renewal_amount_minor s =
     (let code = pl_code (plan_or_starter (sb_plan_code s))
      in if code = ''enterprise'' then ''750000'' else if code = ''growth'' then ''250000'' else ''150000'')"

definition renewal_metadata :: "int \<times> int \<Rightarrow> (string \<times> json) list" where
  "renewal_metadata w =
     [(''billing_reason'', JStr ''subscription_renewal''), (''renewal_window'', JStr (iso_date (fst w))),
      (''renewal_window_start_at'', JStr (iso_string (fst w))), (''renewal_window_end_at'', JStr (iso_string (snd w)))]"

definition ensure_renewal_invoice ::
  "runtime \<Rightarrow> string \<Rightarrow> 'a billing_db_scheme \<Rightarrow> (invoice \<times> 'a billing_db_scheme) result" where
  "ensure_renewal_invoice rt random db =
     and_then (require_tenant_id rt) (\<lambda>tenant.
     and_then (require_billable_subscription db tenant) (\<lambda>s.
     let w = get_next_renewal_window rt s;
         existing = find_latest_renewal_invoice db tenant (sb_id s) (iso_date (fst w));
         fresh = (\<lambda>_. and_then (pg_bigint (resolve_renewal_amount_minor s)) (\<lambda>amount.
           and_then (create_invoice (invoice_row rt s (generate_invoice_number rt random)
             (sb_plan_code s @ '' renewal'') amount (sb_billing_phone_number s) (snd w) (renewal_metadata w)) db) (\<lambda>(v, db1).
           Inr (v, mark_invoice_issued rt tenant (sb_id s) db1))))
     in case existing of
          Some v \<Rightarrow> if iv_status v \<in> set [InvOpen, InvPendingPayment, InvPaid] then Inr (v, db) else fresh ()
        | None \<Rightarrow> fresh ()))"

section \<open>Fee structures and their invoices\<close>

definition js_lower :: "string \<Rightarrow> string" where
  "js_lower s = map (\<lambda>c. let n = (of_char c :: nat) in if 65 \<le> n \<and> n \<le> 90 then char_of (n + 32) else c) s"

text \<open>Line items: code, label and amount; \<open>seen\<close> are the codes so far.\<close>

fun normalize_line_items ::
  "string list \<Rightarrow> (string \<times> string \<times> string) list \<Rightarrow> (string \<times> string \<times> string) list result" where
  "normalize_line_items seen [] = Inr []"
| "normalize_line_items seen ((c, l, a) # items) =
     (let code = js_lower (js_trim c); label = js_trim l; amount = js_trim a
      in if code = [] \<or> label = [] then Inl (BadRequestException ''Fee structure line items require code and label'')
         else if \<not> positive_numeral amount then
           Inl (BadRequestException ''Fee structure line item amounts must be positive minor units'')
         else if code \<in> set seen then Inl (ConflictException (''Duplicate fee line item code '' @ quoted code))
         else and_then (normalize_line_items (code # seen) items) (\<lambda>rest. Inr ((code, label, amount) # rest)))"

record create_fee_structure_dto =
  fd_name :: string
  fd_academic_year :: string
  fd_term :: string
  fd_grade_level :: string
  fd_class_name :: "string option"
  fd_status :: "fee_structure_status option"
  fd_due_days :: "int option"
  fd_line_items :: "(string \<times> string \<times> string) list"
  fd_metadata :: json

definition create_fee_structure ::
  "runtime \<Rightarrow> create_fee_structure_dto \<Rightarrow> 'a billing_db_scheme \<Rightarrow> (fee_structure \<times> 'a billing_db_scheme) result" where
  "create_fee_structure rt dto db =
     and_then (require_tenant_id rt) (\<lambda>tenant.
     and_then (normalize_line_items [] (fd_line_items dto)) (\<lambda>items.
     create_fee_structure_row (\<lambda>i.
       \<lparr>fs_id = i, fs_tenant_id = tenant, fs_name = js_trim (fd_name dto),
        fs_academic_year = js_trim (fd_academic_year dto), fs_term = js_trim (fd_term dto),
        fs_grade_level = js_trim (fd_grade_level dto), fs_class_name = read_string (fd_class_name dto),
        fs_currency_code = BILLING_DEFAULT_CURRENCY_CODE, fs_status = or_default (fd_status dto) FsActive,
        fs_due_days = or_default (fd_due_days dto) 14, fs_line_items = items,
        fs_total_amount_minor = sum_list (map (\<lambda>(_, _, a). int (parse_nat a)) items),
        fs_metadata = fd_metadata dto, fs_created_by_user_id = Some (rt_user_id rt),
        fs_created_at = rt_now rt, fs_updated_at = rt_now rt\<rparr>) db))"

definition archive_fee_structure ::
  "runtime \<Rightarrow> uuid \<Rightarrow> 'a billing_db_scheme \<Rightarrow> (fee_structure \<times> 'a billing_db_scheme) result" where
  "archive_fee_structure rt i db =
     and_then (require_tenant_id rt) (\<lambda>tenant.
       case archive_fee_structure_row rt tenant i db of
         (Some f, db') \<Rightarrow> Inr (f, db')
       | (None, _) \<Rightarrow> Inl (NotFoundException (''Fee structure '' @ quoted (uuid_text i) @ '' was not found'')))"

record bulk_student =
  bs_student_id :: string
  bs_student_name :: string
  bs_admission_number :: "string option"
  bs_class_name :: "string option"
  bs_guardian_phone :: "string option"

fun normalize_bulk_fee_students :: "string list \<Rightarrow> bulk_student list \<Rightarrow> bulk_student list result" where
  "normalize_bulk_fee_students seen [] = Inr []"
| "normalize_bulk_fee_students seen (x # xs) =
     (let n = \<lparr>bs_student_id = js_trim (bs_student_id x), bs_student_name = js_trim (bs_student_name x),
               bs_admission_number = read_string (bs_admission_number x),
               bs_class_name = read_string (bs_class_name x), bs_guardian_phone = read_string (bs_guardian_phone x)\<rparr>
      in if bs_student_id n = [] \<or> bs_student_name n = [] then
           Inl (BadRequestException ''Bulk invoice targets require student id and name'')
         else if bs_student_id n \<in> set seen then
           Inl (ConflictException (''Student '' @ quoted (bs_student_id n) @ '' appears more than once in the bulk invoice request''))
         else and_then (normalize_bulk_fee_students (bs_student_id n # seen) xs) (\<lambda>rest. Inr (n # rest)))"

text \<open>\<open>activeInvoiceByStudent\<close>, built from the tenant's invoices.\<close>

definition active_invoice_entry :: "string \<Rightarrow> invoice \<Rightarrow> (string \<times> uuid) option" where
  "active_invoice_entry structure v =
     (if iv_status v = InvVoid \<or> iv_status v = InvUncollectible then None
      else if read_string_metadata (iv_metadata v) ''fee_structure_id'' \<noteq> Some structure then None
      else map_option (\<lambda>student. (student, iv_id v)) (read_string_metadata (iv_metadata v) ''student_id''))"

definition active_invoices :: "string \<Rightarrow> invoice list \<Rightarrow> (string \<times> uuid) list" where
  "active_invoices structure vs = List.map_filter (active_invoice_entry structure) vs"

record bulk_dto =
  bd_fee_structure_id :: string
  bd_idempotency_key :: string
  bd_due_at :: "string option"
  bd_target_students :: "bulk_student list"
  bd_metadata :: "(string \<times> json) list"

definition bulk_metadata :: "bulk_dto \<Rightarrow> fee_structure \<Rightarrow> bulk_student \<Rightarrow> (string \<times> json) list" where
  "bulk_metadata dto f x =
     json_merge (bd_metadata dto)
       [(''billing_reason'', JStr ''fee_structure_bulk_generation''),
        (''fee_structure_id'', JStr (uuid_text (fs_id f))),
        (''idempotency_key'', JStr (js_trim (bd_idempotency_key dto))),
        (''academic_year'', JStr (fs_academic_year f)), (''term'', JStr (fs_term f)),
        (''grade_level'', JStr (fs_grade_level f)),
        (''class_name'', json_opt (or_else (bs_class_name x) (fs_class_name f))),
        (''student_id'', JStr (bs_student_id x)), (''student_name'', JStr (bs_student_name x)),
        (''admission_number'', json_opt (bs_admission_number x)),
        (''line_items'', JArr (map (\<lambda>(c, l, a). JObj [(''code'', JStr c), (''label'', JStr l),
           (''amount_minor'', JStr a)]) (fs_line_items f)))]"

text \<open>
  The loop over the students: the active invoices known so far, the invoices created and the students
  skipped with their invoices; \<open>random\<close> supplies a text per student.
\<close>

fun bulk_loop ::
  "runtime \<Rightarrow> (string \<Rightarrow> string) \<Rightarrow> bulk_dto \<Rightarrow> subscription \<Rightarrow> fee_structure \<Rightarrow> int \<Rightarrow> bulk_student list \<Rightarrow>
     (string \<times> uuid) list \<Rightarrow> 'a billing_db_scheme \<Rightarrow>
     (invoice list \<times> (string \<times> uuid) list \<times> 'a billing_db_scheme) result" where
  "bulk_loop rt random dto s f due [] active db = Inr ([], [], db)"
| "bulk_loop rt random dto s f due (x # xs) active db =
     (case map_of active (bs_student_id x) of
        Some i \<Rightarrow>
          and_then (bulk_loop rt random dto s f due xs active db) (\<lambda>(made, skipped, db').
          Inr (made, (bs_student_id x, i) # skipped, db'))
      | None \<Rightarrow>
          and_then (create_invoice (invoice_row rt s (generate_invoice_number rt (random (bs_student_id x)))
            (fs_name f @ '' - '' @ bs_student_name x) (fs_total_amount_minor f)
            (or_else (bs_guardian_phone x) (sb_billing_phone_number s)) due (bulk_metadata dto f x)) db) (\<lambda>(v, db1).
          and_then (bulk_loop rt random dto s f due xs ((bs_student_id x, iv_id v) # active)
            (mark_invoice_issued rt (sb_tenant_id s) (sb_id s) db1)) (\<lambda>(made, skipped, db').
          Inr (v # made, skipped, db'))))"

definition bulk_generate_fee_invoices ::
  "runtime \<Rightarrow> (string \<Rightarrow> string) \<Rightarrow> bulk_dto \<Rightarrow> 'a billing_db_scheme \<Rightarrow>
     (invoice list \<times> (string \<times> uuid) list \<times> 'a billing_db_scheme) result" where
  "bulk_generate_fee_invoices rt random dto db =
     (if js_trim (bd_fee_structure_id dto) = [] then
        Inl (BadRequestException ''Fee structure id is required for bulk invoice generation'')
      else
        and_then (require_tenant_id rt) (\<lambda>tenant.
        and_then (require_billable_subscription db tenant) (\<lambda>s.
        and_then (pg_uuid (js_trim (bd_fee_structure_id dto))) (\<lambda>i.
        case find_fee_structure db tenant i of
          None \<Rightarrow> Inl (NotFoundException (''Fee structure '' @ quoted (js_trim (bd_fee_structure_id dto)) @ '' was not found''))
        | Some f \<Rightarrow>
            if fs_status f \<noteq> FsActive then
              Inl (ConflictException (''Fee structure cannot generate invoices while status is '' @
                quoted (if fs_status f = FsDraft then ''draft'' else ''archived'')))
            else
              and_then (normalize_bulk_fee_students [] (bd_target_students dto)) (\<lambda>students.
              and_then (timestamp_or rt (bd_due_at dto) (add_days (rt_clock rt) (fs_due_days f))) (\<lambda>due.
              bulk_loop rt random dto s f due students
                (active_invoices (uuid_text (fs_id f)) (list_invoices db tenant None)) db))))))"

section \<open>Completion of a payment\<close>

definition handle_payment_intent_completed ::
  "runtime \<Rightarrow> (uuid \<Rightarrow> bool) \<Rightarrow> string \<Rightarrow> uuid \<Rightarrow> string \<Rightarrow> completed_intent option \<Rightarrow> uuid option \<Rightarrow>
     'a billing_db_scheme \<Rightarrow> 'a billing_db_scheme result" where
  "handle_payment_intent_completed rt locked tenant intent amount pi ledger db =
     (case (case pi of Some p \<Rightarrow> if cp_student_id p = None then None else Some p | None \<Rightarrow> None) of
        Some p \<Rightarrow> and_then (allocate_confirmed_payment rt locked tenant p amount ledger db) (\<lambda>(_, db'). Inr db')
      | None \<Rightarrow>
          (case lock_invoice_by_payment_intent db tenant intent of
             None \<Rightarrow> Inr db
           | Some v \<Rightarrow>
               if iv_status v = InvPaid then Inr db
               else
                 and_then (mark_invoice_paid rt tenant (iv_id v) amount db) (\<lambda>db1.
                 case lock_current_by_tenant db1 tenant of
                   None \<Rightarrow> Inr db1
                 | Some s \<Rightarrow>
                     if sb_id s \<noteq> iv_subscription_id v then Inr db1
                     else
                       (let w = get_next_renewal_window rt s
                        in and_then (restore_renewed_subscription rt tenant (sb_id s) (fst w) (snd w) (rt_clock rt) db1)
                             (\<lambda>(_, db2). Inr db2)))))"

section \<open>\<open>UsageMeterService\<close>\<close>

record record_usage_dto =
  ud_feature_key :: string
  ud_quantity :: string
  ud_unit :: "string option"
  ud_idempotency_key :: string
  ud_recorded_at :: "string option"
  ud_metadata :: json

definition read_positive_limit :: "json option \<Rightarrow> int option" where
  "read_positive_limit v =
     (let parse = (\<lambda>t. if digits_only t \<and> 0 < parse_nat t then Some (int (parse_nat t)) else None)
      in case v of Some (JNum t) \<Rightarrow> parse t | Some (JStr t) \<Rightarrow> parse (js_trim t) | _ \<Rightarrow> None)"

definition parse_positive_quantity :: "string \<Rightarrow> string \<Rightarrow> int result" where
  "parse_positive_quantity v feature =
     (if positive_numeral v then Inr (int (parse_nat v))
      else Inl (ConflictException (''Usage quantity for feature '' @ quoted feature @ '' must be a positive integer'')))"

definition assert_usage_limit ::
  "'a billing_db_scheme \<Rightarrow> string \<Rightarrow> subscription \<Rightarrow> string \<Rightarrow> int \<Rightarrow> unit result" where
  "assert_usage_limit db tenant s limit_key increment =
     (case read_positive_limit (map_of (sb_limits s) limit_key) of
        None \<Rightarrow> Inr ()
      | Some limit \<Rightarrow>
          guard (get_total_quantity db tenant (sb_id s) (sb_current_period_start s) (sb_current_period_end s) None + increment \<le> limit)
            (HttpException 402 (''Current subscription limit '' @ quoted limit_key @ '' has been reached'')))"

definition usage_row :: "string \<Rightarrow> subscription \<Rightarrow> record_usage_dto \<Rightarrow> int \<Rightarrow> int \<Rightarrow> uuid \<Rightarrow> usage_record" where
  "usage_row tenant s dto quantity recorded i =
     \<lparr>ur_id = i, ur_tenant_id = tenant, ur_subscription_id = sb_id s,
      ur_feature_key = js_trim (ud_feature_key dto), ur_quantity = quantity,
      ur_unit = or_default (read_string (ud_unit dto)) ''count'',
      ur_idempotency_key = js_trim (ud_idempotency_key dto), ur_recorded_at = recorded,
      ur_period_start = sb_current_period_start s, ur_period_end = sb_current_period_end s,
      ur_metadata = ud_metadata dto\<rparr>"

text \<open>\<open>context_access\<close> and \<open>cached\<close> as in \<open>resolve_for_tenant\<close>.\<close>

definition record_usage ::
  "runtime \<Rightarrow> access_state option \<Rightarrow> access_state option \<Rightarrow> record_usage_dto \<Rightarrow> 'a billing_db_scheme \<Rightarrow>
     (usage_record \<times> 'a billing_db_scheme) result" where
  "record_usage rt context_access cached dto db =
     and_then (case rt_tenant_id rt of
         Some t \<Rightarrow> if t = [] then Inl (UnauthorizedException ''Tenant context is required for billing usage metering'') else Inr t
       | None \<Rightarrow> Inl (UnauthorizedException ''Tenant context is required for billing usage metering'')) (\<lambda>tenant.
     and_then (resolve_for_tenant rt context_access cached tenant db) (\<lambda>(access, _, db1).
     case lock_current_by_tenant db tenant of
       None \<Rightarrow> Inl (NotFoundException ''No subscription exists for this tenant'')
     | Some s \<Rightarrow>
         if \<not> as_is_active access then Inl (ConflictException ''An active subscription is required to meter usage'')
         else
           (case find_usage_by_key db1 tenant (sb_id s) (js_trim (ud_idempotency_key dto)) of
              Some old \<Rightarrow> Inr (old, db1)
            | None \<Rightarrow>
                and_then (parse_positive_quantity (js_trim (ud_quantity dto)) (js_trim (ud_feature_key dto))) (\<lambda>quantity.
                and_then (assert_usage_limit db1 tenant s ''usage.events.monthly'' quantity) (\<lambda>_.
                and_then (timestamp_or rt (ud_recorded_at dto) (rt_clock rt)) (\<lambda>recorded.
                create_usage_record (usage_row tenant s dto quantity recorded) db1))))))"

end
