(* ===== verification/Uuid_Facts.thy ===== *)
theory Uuid_Facts
  imports Uuid
begin

text \<open>Printing and reading a \<open>uuid\<close> are inverse to each other.\<close>

definition hex_step :: "char \<Rightarrow> int \<Rightarrow> int" where
  "hex_step c n = (case hex_value c of None \<Rightarrow> n | Some d \<Rightarrow> n * 16 + int d)"

lemma hex_value_digit: "d < 16 \<Longrightarrow> hex_value (hex_digit d) = Some d"
  by (auto simp: hex_value_def hex_digit_def Let_def)

lemma hex_digit_nibble: "hex_value (hex_digit (nat (int n div 16 ^ i mod 16))) = Some (nat (int n div 16 ^ i mod 16))"
  by (rule hex_value_digit) (simp add: nat_less_iff)

lemma hex_step_digit: "hex_step (hex_digit (nat (x mod 16))) a = a * 16 + x mod 16"
proof -
  have "hex_value (hex_digit (nat (x mod 16))) = Some (nat (x mod 16))"
    by (rule hex_value_digit) (simp add: nat_less_iff)
  then show ?thesis by (simp add: hex_step_def)
qed

lemma hex_text_Suc: "hex_text lo (Suc (lo + k)) n = hex_digit (nat (int n div 16 ^ (lo + k) mod 16)) # hex_text lo (lo + k) n"
  by (simp add: hex_text_def)

lemma fold_hex_text:
  "fold hex_step (hex_text lo (lo + k) n) acc = acc * 16 ^ k + int n div 16 ^ lo mod 16 ^ k"
proof (induction k arbitrary: acc)
  case 0
  then show ?case by (simp add: hex_text_def)
next
  case (Suc k)
  let ?m = "int n div 16 ^ lo"
  have d: "int n div 16 ^ (lo + k) mod 16 = ?m div 16 ^ k mod 16"
    by (simp add: power_add zdiv_zmult2_eq)
  have "fold hex_step (hex_text lo (lo + Suc k) n) acc =
      (acc * 16 + ?m div 16 ^ k mod 16) * 16 ^ k + ?m mod 16 ^ k"
    by (simp add: hex_text_Suc Suc d hex_step_digit)
  also have "\<dots> = acc * 16 ^ Suc k + (16 ^ k * (?m div 16 ^ k mod 16) + ?m mod 16 ^ k)"
    by (simp add: algebra_simps)
  also have "16 ^ k * (?m div 16 ^ k mod 16) + ?m mod 16 ^ k = ?m mod (16 ^ k * 16)"
    by (simp only: zmod_zmult2_eq zero_le_numeral)
  finally show ?case by (simp only: power_Suc2)
qed

lemma uuid_value_fold: "uuid_value s = nat (fold hex_step s 0)"
  by (simp add: uuid_value_def hex_step_def[abs_def])

lemma fold_hex_text_upto: "lo + k = hi \<Longrightarrow> fold hex_step (hex_text lo hi n) acc = acc * 16 ^ k + int n div 16 ^ lo mod 16 ^ k"
  using fold_hex_text[of lo k n acc] by simp

lemma fold_hex_dash: "fold hex_step (CHR ''-'' # s) acc = fold hex_step s acc"
  by (simp add: hex_step_def hex_value_def Let_def)

lemma uuid_value_text: "n < 2 ^ 128 \<Longrightarrow> uuid_value (uuid_text n) = n"
proof -
  assume n: "n < 2 ^ 128"
  let ?n = "int n"
  have f: "fold hex_step (hex_text 24 32 n) a = a * 16 ^ 8 + ?n div 16 ^ 24 mod 16 ^ 8"
    "fold hex_step (hex_text 20 24 n) a = a * 16 ^ 4 + ?n div 16 ^ 20 mod 16 ^ 4"
    "fold hex_step (hex_text 16 20 n) a = a * 16 ^ 4 + ?n div 16 ^ 16 mod 16 ^ 4"
    "fold hex_step (hex_text 12 16 n) a = a * 16 ^ 4 + ?n div 16 ^ 12 mod 16 ^ 4"
    "fold hex_step (hex_text 0 12 n) a = a * 16 ^ 12 + ?n div 16 ^ 0 mod 16 ^ 12" for a
    by (rule fold_hex_text_upto, simp)+
  have top: "?n div 16 ^ 24 mod 16 ^ 8 = ?n div 16 ^ 24"
  proof -
    have "n < 16 ^ 8 * 16 ^ 24" using n by simp
    then have "n div 16 ^ 24 < 16 ^ 8" by (rule less_mult_imp_div_less)
    then have "int (n div 16 ^ 24) < int (16 ^ 8)" by (rule iffD2[OF of_nat_less_iff])
    then have "?n div 16 ^ 24 < 16 ^ 8" by (simp add: of_nat_div)
    then show ?thesis by (simp add: mod_pos_pos_trivial)
  qed
  have s: "fold hex_step (uuid_text n) 0 =
      ((((0 * 16 ^ 8 + ?n div 16 ^ 24) * 16 ^ 4 + ?n div 16 ^ 20 mod 16 ^ 4) * 16 ^ 4 + ?n div 16 ^ 16 mod 16 ^ 4) * 16 ^ 4 +
        ?n div 16 ^ 12 mod 16 ^ 4) * 16 ^ 12 + ?n div 16 ^ 0 mod 16 ^ 12"
    by (simp only: uuid_text_def fold_append comp_apply append_Cons append_Nil fold_hex_dash f top)
  have step: "i + k = j \<Longrightarrow> ?n div 16 ^ j * 16 ^ k + ?n div 16 ^ i mod 16 ^ k = ?n div 16 ^ i" for i j k :: nat
  proof -
    assume "i + k = j"
    then have "?n div 16 ^ j = ?n div 16 ^ i div 16 ^ k" by (auto simp only: power_add zdiv_zmult2_eq zero_le_power zero_le_numeral)
    then show ?thesis by (simp only: div_mult_mod_eq)
  qed
  have steps: "?n div 16 ^ 24 * 16 ^ 4 + ?n div 16 ^ 20 mod 16 ^ 4 = ?n div 16 ^ 20"
    "?n div 16 ^ 20 * 16 ^ 4 + ?n div 16 ^ 16 mod 16 ^ 4 = ?n div 16 ^ 16"
    "?n div 16 ^ 16 * 16 ^ 4 + ?n div 16 ^ 12 mod 16 ^ 4 = ?n div 16 ^ 12"
    "?n div 16 ^ 12 * 16 ^ 12 + ?n div 16 ^ 0 mod 16 ^ 12 = ?n div 16 ^ 0"
    by (rule step, simp)+
  have "fold hex_step (uuid_text n) 0 = ?n"
    unfolding s by (simp only: mult_zero_left add_0 steps power_0 div_by_1 div_mult_mod_eq)
  then show ?thesis by (simp add: uuid_value_fold)
qed

lemma length_hex_text [simp]: "length (hex_text lo hi n) = hi - lo"
  by (simp add: hex_text_def)

lemma length_uuid_text [simp]: "length (uuid_text n) = 36"
  by (simp add: uuid_text_def)

lemma hex_text_value: "c \<in> set (hex_text lo hi n) \<Longrightarrow> hex_value c \<noteq> None"
  by (auto simp: hex_text_def hex_digit_nibble)

lemma hex_not_space: "hex_value c \<noteq> None \<Longrightarrow> \<not> is_space c"
  by (auto simp: hex_value_def is_space_def Let_def)

lemma uuid_text_not_space: "c \<in> set (uuid_text n) \<Longrightarrow> \<not> is_space c"
  using hex_text_value hex_not_space by (auto simp: uuid_text_def is_space_def)

lemma trim_uuid_text [simp]: "js_trim (uuid_text n) = uuid_text n" "uuid_text n \<noteq> []"
proof -
  show ne: "uuid_text n \<noteq> []" using length_uuid_text[of n] by (metis list.size(3) zero_neq_numeral)
  show "js_trim (uuid_text n) = uuid_text n"
    using uuid_text_not_space[of _ n] ne by (intro js_trim_fixed) (simp add: hd_in_set last_in_set)
qed

lemma uuid_text_inj: "m < 2 ^ 128 \<Longrightarrow> n < 2 ^ 128 \<Longrightarrow> uuid_text m = uuid_text n \<Longrightarrow> m = n"
  by (metis uuid_value_text)

end
