(* ===== verification/Billing_Service_Facts.thy ===== *)
theory Billing_Service_Facts
  imports Billing_Service Billing_Lifecycle_Facts Uuid_Facts
begin

text \<open>What the operations of the billing service do to the tables, for the properties of \<open>Billing_Service_Claims\<close>.\<close>

section \<open>Updates of the current subscription\<close>

lemma update_where_current:
  assumes "current_ok db tenant s"
  shows "update_where (subscription_at tenant (sb_id s)) f (bl_subscriptions db) =
    map (\<lambda>x. if x = s then f s else x) (bl_subscriptions db)"
proof (rule update_where_only)
  show "distinct (map sb_id (bl_subscriptions db))" "s \<in> set (bl_subscriptions db)"
    using assms by (simp_all add: current_ok_def)
  show "subscription_at tenant (sb_id s) x \<longleftrightarrow> sb_id x = sb_id s" if "x \<in> set (bl_subscriptions db)" for x
    using assms that by (auto simp: current_ok_def subscription_at_def distinct_map dest: inj_onD)
qed

lemma current_other_tables: "bl_subscriptions db' = bl_subscriptions db \<Longrightarrow> current_ok db' tenant s = current_ok db tenant s"
  by (simp add: current_ok_def)

definition issued_fields :: "runtime \<Rightarrow> subscription \<Rightarrow> subscription" where
  "issued_fields rt s = s\<lparr>sb_last_invoice_at := Some (rt_now rt), sb_updated_at := rt_now rt\<rparr>"

lemma issued_current:
  assumes "current_ok db tenant s"
  shows "current_ok (mark_invoice_issued rt tenant (sb_id s) db) tenant (issued_fields rt s)"
proof -
  have "mark_invoice_issued rt tenant (sb_id s) db = subscription_set (issued_fields rt) s db"
    unfolding mark_invoice_issued_def subscription_set_def update_where_current[OF assms] by (simp add: issued_fields_def)
  then show ?thesis
    using update_current(2)[OF assms, of "issued_fields rt"] assms by (simp add: issued_fields_def current_ok_def)
qed

lemma mark_issued_tables [simp]:
  "bl_invoices (mark_invoice_issued rt t i db) = bl_invoices db"
  by (simp add: mark_invoice_issued_def)

section \<open>Bulk invoices\<close>

lemma create_invoice_Inr:
  assumes "create_invoice mk db = Inr (v, db')"
  shows "\<exists>i. v = mk i \<and> db' = db\<lparr>bl_invoices := bl_invoices db @ [v]\<rparr>"
  using assms by (auto simp: create_invoice_def Let_def and_then_eq_Inr)

definition has_active :: "string \<Rightarrow> string \<Rightarrow> invoice list \<Rightarrow> bool" where
  "has_active structure student vs \<longleftrightarrow> (\<exists>v\<in>set vs. \<exists>i. active_invoice_entry structure v = Some (student, i))"

lemma in_map_filter: "y \<in> set (List.map_filter f xs) \<longleftrightarrow> (\<exists>x\<in>set xs. f x = Some y)"
  by (induction xs) (auto simp: List.map_filter_simps split: option.splits)

lemma map_of_active: "map_of (active_invoices structure vs) k = None \<longleftrightarrow> \<not> has_active structure k vs"
proof -
  have "k \<in> fst ` set (active_invoices structure vs) \<longleftrightarrow> has_active structure k vs"
    unfolding active_invoices_def has_active_def image_iff Bex_def in_map_filter by force
  then show ?thesis by (simp add: map_of_eq_None_iff)
qed

lemma has_active_mono: "has_active structure k vs \<Longrightarrow> set vs \<subseteq> set ws \<Longrightarrow> has_active structure k ws"
  by (auto simp: has_active_def)

lemma set_list_invoices: "set (list_invoices db tenant None) = {v \<in> set (bl_invoices db). iv_tenant_id v = tenant}"
  by (auto simp: list_invoices_def)

lemma map_of_merge: "map_of new k = Some v \<Longrightarrow> map_of (json_merge old new) k = Some v"
  unfolding json_merge_def map_of_append
proof -
  assume a: "map_of new k = Some v"
  then have "k \<in> fst ` set new" by (metis domI dom_map_of_conv_image_fst)
  then have "map_of (filter (\<lambda>kv. fst kv \<notin> fst ` set new) old) k = None"
    unfolding map_of_eq_None_iff by force
  with a show "(map_of new ++ map_of (filter (\<lambda>kv. fst kv \<notin> fst ` set new) old)) k = Some v"
    by (simp add: map_add_def)
qed

lemma bulk_entry:
  assumes "js_trim (bs_student_id x) = bs_student_id x" and "bs_student_id x \<noteq> []"
  shows "active_invoice_entry (uuid_text (fs_id f)) (invoice_row rt s n d a ph due (bulk_metadata dto f x) i) =
    Some (bs_student_id x, i)"
proof -
  have "map_of (bulk_metadata dto f x) ''student_id'' = Some (JStr (bs_student_id x))"
    "map_of (bulk_metadata dto f x) ''fee_structure_id'' = Some (JStr (uuid_text (fs_id f)))"
    by (simp_all add: bulk_metadata_def map_of_merge)
  then have "read_string_metadata (bulk_metadata dto f x) ''student_id'' = Some (bs_student_id x)"
    "read_string_metadata (bulk_metadata dto f x) ''fee_structure_id'' = Some (uuid_text (fs_id f))"
    using assms by (simp_all add: read_string_metadata_def read_string_def)
  then show ?thesis by (simp add: active_invoice_entry_def invoice_row_def)
qed

definition normalized_students :: "bulk_student list \<Rightarrow> bool" where
  "normalized_students xs \<longleftrightarrow> (\<forall>x\<in>set xs. js_trim (bs_student_id x) = bs_student_id x \<and> bs_student_id x \<noteq> [])"

lemma normalize_bulk:
  assumes "normalize_bulk_fee_students seen xs = Inr ys"
  shows "normalized_students ys \<and> map bs_student_id ys = map (\<lambda>x. js_trim (bs_student_id x)) xs"
  using assms
proof (induction seen xs arbitrary: ys rule: normalize_bulk_fee_students.induct)
  case (2 seen x xs)
  let ?n = "\<lparr>bs_student_id = js_trim (bs_student_id x), bs_student_name = js_trim (bs_student_name x),
    bs_admission_number = read_string (bs_admission_number x),
    bs_class_name = read_string (bs_class_name x), bs_guardian_phone = read_string (bs_guardian_phone x)\<rparr>"
  from 2(2) have c: "js_trim (bs_student_id x) \<noteq> []" "js_trim (bs_student_id x) \<notin> set seen"
    "\<not> (bs_student_id ?n = [] \<or> bs_student_name ?n = [])" "\<not> bs_student_id ?n \<in> set seen"
    by (simp_all add: Let_def split: if_splits)
  with 2(2) obtain rest where rest: "normalize_bulk_fee_students (js_trim (bs_student_id x) # seen) xs = Inr rest"
      "ys = ?n # rest" by (auto simp add: Let_def and_then_eq_Inr)
  from 2(1)[OF refl c(3,4)] rest(1) have "normalized_students rest \<and>
      map bs_student_id rest = map (\<lambda>x. js_trim (bs_student_id x)) xs" by simp
  with c(1) rest(2) show ?case by (auto simp: normalized_students_def)
qed (simp add: normalized_students_def)

text \<open>One run of the loop: new invoices are appended, one for each student without an active one.\<close>

lemma bulk_loop_run:
  assumes "bulk_loop rt random dto s f due xs active db = Inr (made, skipped, db')"
    and "normalized_students xs" and "current_ok db (sb_tenant_id s) c" and "sb_id c = sb_id s"
  shows "bl_invoices db' = bl_invoices db @ made \<and> length made + length skipped = length xs \<and>
    (\<forall>v\<in>set made. iv_tenant_id v = sb_tenant_id s \<and> iv_total_amount_minor v = fs_total_amount_minor f) \<and>
    (\<forall>x\<in>set xs. map_of active (bs_student_id x) \<noteq> None \<or> has_active (uuid_text (fs_id f)) (bs_student_id x) made) \<and>
    bl_fee_structures db' = bl_fee_structures db \<and>
    (\<exists>c'. current_ok db' (sb_tenant_id s) c' \<and> sb_id c' = sb_id c \<and> sb_status c' = sb_status c)"
  using assms
proof (induction xs arbitrary: active db made skipped c)
  case Nil
  then show ?case by auto
next
  case (Cons x xs)
  show ?case
  proof (cases "map_of active (bs_student_id x)")
    case None
    from Cons.prems(1) None obtain v db1 made1 where
      cr: "create_invoice (invoice_row rt s (generate_invoice_number rt (random (bs_student_id x)))
            (fs_name f @ '' - '' @ bs_student_name x) (fs_total_amount_minor f)
            (or_else (bs_guardian_phone x) (sb_billing_phone_number s)) due (bulk_metadata dto f x)) db = Inr (v, db1)"
      and rest: "bulk_loop rt random dto s f due xs ((bs_student_id x, iv_id v) # active)
            (mark_invoice_issued rt (sb_tenant_id s) (sb_id s) db1) = Inr (made1, skipped, db')" and made: "made = v # made1"
      by (auto simp: and_then_eq_Inr)
    from create_invoice_Inr[OF cr] obtain i where
      v: "v = invoice_row rt s (generate_invoice_number rt (random (bs_student_id x))) (fs_name f @ '' - '' @ bs_student_name x)
        (fs_total_amount_minor f) (or_else (bs_guardian_phone x) (sb_billing_phone_number s)) due (bulk_metadata dto f x) i"
      and db1: "db1 = db\<lparr>bl_invoices := bl_invoices db @ [v]\<rparr>" by blast
    have e: "active_invoice_entry (uuid_text (fs_id f)) v = Some (bs_student_id x, i)"
      unfolding v by (rule bulk_entry) (use Cons.prems(2) in \<open>simp_all add: normalized_students_def\<close>)
    have "current_ok db1 (sb_tenant_id s) c" using Cons.prems(3) by (simp add: db1 current_ok_def)
    from issued_current[OF this, of rt] Cons.prems(4)
    have cur: "current_ok (mark_invoice_issued rt (sb_tenant_id s) (sb_id s) db1) (sb_tenant_id s) (issued_fields rt c)" by simp
    have id: "sb_id (issued_fields rt c) = sb_id s" using Cons.prems(4) by (simp add: issued_fields_def)
    have norm: "normalized_students xs" using Cons.prems(2) by (simp add: normalized_students_def)
    note IH = Cons.IH[OF rest norm cur id]
    have fs: "bl_fee_structures (mark_invoice_issued rt (sb_tenant_id s) (sb_id s) db1) = bl_fee_structures db"
      by (simp add: mark_invoice_issued_def db1)
    have "has_active (uuid_text (fs_id f)) k made1 \<Longrightarrow> has_active (uuid_text (fs_id f)) k made" for k
      by (auto simp: has_active_def made)
    moreover have "has_active (uuid_text (fs_id f)) (bs_student_id x) made" using e by (auto simp: has_active_def made)
    moreover have "iv_tenant_id v = sb_tenant_id s" "iv_total_amount_minor v = fs_total_amount_minor f"
      by (simp_all add: v invoice_row_def)
    ultimately show ?thesis using IH fs
      by (auto simp: db1 made issued_fields_def split: if_splits)
  next
    case (Some i)
    from Cons.prems(1) Some obtain skipped1 where
      rest: "bulk_loop rt random dto s f due xs active db = Inr (made, skipped1, db')" and sk: "skipped = (bs_student_id x, i) # skipped1"
      by (auto simp: and_then_eq_Inr)
    have norm: "normalized_students xs" using Cons.prems(2) by (simp add: normalized_students_def)
    from Cons.IH[OF rest norm Cons.prems(3,4)] Some show ?thesis by (auto simp: sk)
  qed
qed

lemma bulk_loop_skips:
  assumes "\<forall>x\<in>set xs. map_of active (bs_student_id x) \<noteq> None"
  shows "\<exists>skipped. bulk_loop rt random dto s f due xs active db = Inr ([], skipped, db) \<and> map fst skipped = map bs_student_id xs"
  using assms by (induction xs) auto

section \<open>Usage\<close>

lemma queue_usage [simp]: "bl_usage (fold create_notification_if_absent mks db) = bl_usage db"
  by (induction mks arbitrary: db) (simp_all add: create_notification_if_absent_def Let_def)

lemma ensure_usage: "ensure_current_lifecycle rt tenant db = Inr (r, db') \<Longrightarrow> bl_usage db' = bl_usage db"
  by (auto simp: ensure_current_lifecycle_def and_then_eq_Inr Let_def queue_lifecycle_notifications_def
      apply_lifecycle_window_def update_subscription_def split: option.splits if_splits)

lemma resolve_usage: "resolve_for_tenant rt c cached tenant db = Inr (a, w, db') \<Longrightarrow> bl_usage db' = bl_usage db"
  by (auto simp: resolve_for_tenant_def and_then_eq_Inr Let_def dest: ensure_usage split: option.splits if_splits)

end
