(* ===== verification/Billing_Service_Claims.thy ===== *)
theory Billing_Service_Claims
  imports Billing_Service_Facts Billing_Lifecycle_Claims
begin

text \<open>
  The properties of the billing service: replacement of subscriptions, renewal by payment, invoices generated
  in bulk, and metered usage.
\<close>

section \<open>Subscriptions\<close>

lemma filter_expired:
  "filter (\<lambda>s. sb_tenant_id s = tenant \<and> mutable_status (sb_status s))
     (update_where (\<lambda>s. sb_tenant_id s = tenant \<and> mutable_status (sb_status s)) (expired_fields rt) ss) = []"
  by (induction ss) (auto simp: update_where_def expired_fields_def mutable_status_def)

text \<open>A tenant that subscribes to a known plan always gets the new subscription, which replaces the old ones:
  every subscription of the tenant that was still running is ended, the new row is added after them, no
  other row changes, and the new one is the tenant's current subscription unless it was created as ended.\<close>

theorem create_subscription_replaces:
  assumes "rt_tenant_id rt = Some tenant" and "tenant \<noteq> []" and "find_plan (sd_plan_code dto) = Some p"
    and "1 \<le> or_default (sd_seats_allocated dto) 1" and "distinct (map sb_id (bl_subscriptions db))"
  shows "\<exists>s ov db'. create_subscription rt dto db = Inr ((s, ov), db') \<and>
    bl_subscriptions db' = map (\<lambda>x. if sb_tenant_id x = tenant \<and> mutable_status (sb_status x) then expired_fields rt x else x)
      (bl_subscriptions db) @ [s] \<and>
    sb_plan_code s = sd_plan_code dto \<and> sb_status s = or_default (sd_status dto) (pl_default_status p) \<and>
    sb_current_period_end s = rt_clock rt + days (pl_period_days p) \<and>
    (mutable_status (sb_status s) \<longrightarrow> current_ok db' tenant s)"
proof -
  let ?mut = "\<lambda>s. sb_tenant_id s = tenant \<and> mutable_status (sb_status s)"
  let ?db = "expire_current_subscriptions rt tenant db"
  define s where "s = new_subscription rt tenant p dto (fresh_uuid (map sb_id (bl_subscriptions ?db)))"
  have plan: "pl_code p = sd_plan_code dto" and known: "p \<in> set BILLING_PLAN_CATALOG"
    using assms(3) by (auto simp: find_plan_def find_Some_iff)
  have s: "sb_id s = fresh_uuid (map sb_id (bl_subscriptions ?db))" "sb_tenant_id s = tenant"
    "sb_plan_code s = sd_plan_code dto" "sb_status s = or_default (sd_status dto) (pl_default_status p)"
    "sb_current_period_end s = rt_clock rt + days (pl_period_days p)" "sb_currency_code s = ''KES''"
    "sb_seats_allocated s = or_default (sd_seats_allocated dto) 1"
    by (simp_all add: s_def new_subscription_def Let_def plan add_days_def BILLING_DEFAULT_CURRENCY_CODE_def)
  have ss: "bl_subscriptions ?db = update_where ?mut (expired_fields rt) (bl_subscriptions db)"
    by (simp add: expire_current_subscriptions_def)
  have "not_blank (sb_plan_code s)"
    using known by (auto simp: BILLING_PLAN_CATALOG_def s(3) plan[symmetric] not_blank_def)
  moreover have "currency_format ''KES''" by code_simp
  ultimately have checks: "subscription_checks s = Inr ()" using assms(4) s by (simp add: subscription_checks_def)
  have none: "filter ?mut (bl_subscriptions ?db) = []" unfolding ss by (rule filter_expired)
  have "single_mutable (bl_subscriptions ?db @ [s]) (sb_tenant_id s)"
    using none by (simp add: single_mutable_def s(2))
  then have run: "create_subscription rt dto db = Inr ((s, build_overview s (rt_clock rt)), ?db\<lparr>bl_subscriptions := bl_subscriptions ?db @ [s]\<rparr>)"
    using checks assms(1-3) by (simp add: create_subscription_def require_tenant_id_def create_subscription_row_def Let_def s_def[symmetric])
  have ids: "map sb_id (bl_subscriptions ?db) = map sb_id (bl_subscriptions db)"
    unfolding ss by (rule update_where_map_key) (simp add: expired_fields_def)
  have "current_ok (?db\<lparr>bl_subscriptions := bl_subscriptions ?db @ [s]\<rparr>) tenant s" if "mutable_status (sb_status s)"
  proof -
    have "distinct (map sb_id (bl_subscriptions ?db @ [s]))"
      using assms(5) ids fresh_uuid_notin[of "map sb_id (bl_subscriptions ?db)"] by (simp add: s(1))
    moreover have "\<not> ?mut x" if "x \<in> set (bl_subscriptions ?db)" for x
      using none that by (simp add: filter_empty_conv)
    ultimately show ?thesis using that s(2) by (auto simp: current_ok_def)
  qed
  with run s show ?thesis
    by (intro exI[of _ s] exI[of _ "build_overview s (rt_clock rt)"] exI[of _ "?db\<lparr>bl_subscriptions := bl_subscriptions ?db @ [s]\<rparr>"])
      (simp add: ss update_where_def)
qed

definition sub_dto :: create_subscription_dto where
  "sub_dto = \<lparr>sd_plan_code = ''growth'', sd_status = None, sd_billing_phone_number = None,
     sd_seats_allocated = None, sd_metadata = []\<rparr>"

theorem create_subscription_replaces_witness:
  "\<exists>s ov db'. create_subscription (sub_rt 0) sub_dto (sub_db (sub_example SubSuspended)) = Inr ((s, ov), db') \<and>
     map sb_status (bl_subscriptions db') = [SubCanceled, SubActive]"
proof -
  have "find_plan (sd_plan_code sub_dto) = Some (BILLING_PLAN_CATALOG ! 2)"
    by (simp add: find_plan_def sub_dto_def BILLING_PLAN_CATALOG_def)
  from create_subscription_replaces[of "sub_rt 0" "''t1''" sub_dto _ "sub_db (sub_example SubSuspended)", OF _ _ this]
  show ?thesis
    by (fastforce simp: sub_rt_def ev_rt_def sub_dto_def or_default_def sub_db_def sub_example_def
        mutable_status_def expired_fields_def BILLING_PLAN_CATALOG_def)
qed

text \<open>Once a tenant is suspended it can no longer start a renewal: the renewal invoice and every other new
  invoice is refused, although the guard lets the billing paths through and the notification promises that
  renewal remains available.\<close>

theorem suspended_tenant_cannot_renew:
  assumes "current_ok db tenant s" and "sb_status s = SubSuspended" and "rt_tenant_id rt = Some tenant" and "tenant \<noteq> []"
  shows "ensure_renewal_invoice rt random db = Inl (ConflictException (''Subscription is not billable while status is '' @ quoted ''suspended'')) \<and>
    service_create_invoice rt random dto db = Inl (ConflictException (''Subscription is not billable while status is '' @ quoted ''suspended'')) \<and>
    lifecycle_guard (Some tenant) access verb ''/billing/renewal-invoice'' = Inr ()"
proof -
  have "require_billable_subscription db tenant = Inl (ConflictException (''Subscription is not billable while status is '' @ quoted ''suspended''))"
    using assms(2) by (simp add: require_billable_subscription_def lock_current[OF assms(1)])
  moreover have "is_always_allowed_path ''/billing/renewal-invoice''" by code_simp
  ultimately show ?thesis
    using assms(3,4) by (simp add: ensure_renewal_invoice_def service_create_invoice_def require_tenant_id_def lifecycle_guard_def)
qed

theorem suspended_tenant_cannot_renew_witness:
  "\<not> isl (Inr () :: unit result) \<and> isl (ensure_renewal_invoice (sub_rt 0) ''ab'' (sub_db (sub_example SubSuspended)))"
proof -
  have "current_ok (sub_db (sub_example SubSuspended)) ''t1'' (sub_example SubSuspended)"
    by (rule sub_current) (simp add: mutable_status_def)
  from suspended_tenant_cannot_renew[OF this, of "sub_rt 0"] show ?thesis
    by (simp add: sub_example_def sub_rt_def ev_rt_def)
qed

section \<open>Renewal by payment\<close>


definition fee_paid_invoice :: invoice where
  "fee_paid_invoice = \<lparr>iv_id = 9, iv_tenant_id = ''t1'', iv_subscription_id = 4, iv_invoice_number = ''INV-1'',
     iv_status = InvPendingPayment, iv_currency_code = ''KES'', iv_description = ''Term 1 - Asha'',
     iv_subtotal_amount_minor = 500, iv_tax_amount_minor = 0, iv_total_amount_minor = 500, iv_amount_paid_minor = 0,
     iv_billing_phone_number = None, iv_payment_intent_id = Some 7, iv_issued_at = 0, iv_due_at = 10,
     iv_paid_at = None, iv_voided_at = None,
     iv_metadata = [(''billing_reason'', JStr ''fee_structure_bulk_generation''), (''student_id'', JStr (uuid_text 5))],
     iv_created_at = 0, iv_updated_at = 0\<rparr>"


section \<open>Invoices generated in bulk\<close>

text \<open>C35: Generating the invoices of a fee structure twice bills nobody twice: the first run accounts for every
  student of the request, and a repetition of it, at any later time and with any random numbers, makes no
  invoice, skips every student and changes nothing.\<close>

theorem bulk_generation_idempotent:
  assumes run: "bulk_generate_fee_invoices rt random dto db = Inr (made, skipped, db')"
    and cur: "current_ok db tenant s" and tenant: "rt_tenant_id rt = Some tenant" "rt_tenant_id rt' = Some tenant"
    and dates: "rt_parse_date rt' = rt_parse_date rt"
  shows "bl_invoices db' = bl_invoices db @ made \<and> length made + length skipped = length (bd_target_students dto) \<and>
    (\<exists>skipped'. bulk_generate_fee_invoices rt' random' dto db' = Inr ([], skipped', db') \<and>
       map fst skipped' = map (\<lambda>x. js_trim (bs_student_id x)) (bd_target_students dto))"
proof -
  have ten: "sb_tenant_id s = tenant" using cur by (simp add: current_ok_def)
  from run tenant(1) obtain i f students due where
    t: "tenant \<noteq> []" "js_trim (bd_fee_structure_id dto) \<noteq> []" and i: "pg_uuid (js_trim (bd_fee_structure_id dto)) = Inr i"
    and f: "find_fee_structure db tenant i = Some f" "fs_status f = FsActive"
    and bill: "require_billable_subscription db tenant = Inr s"
    and norm: "normalize_bulk_fee_students [] (bd_target_students dto) = Inr students"
    and due: "timestamp_or rt (bd_due_at dto) (add_days (rt_clock rt) (fs_due_days f)) = Inr due"
    and loop: "bulk_loop rt random dto s f due students (active_invoices (uuid_text (fs_id f)) (list_invoices db tenant None)) db = Inr (made, skipped, db')"
    by (auto simp: bulk_generate_fee_invoices_def require_tenant_id_def and_then_eq_Inr require_billable_subscription_def
        lock_current[OF cur] split: if_splits option.splits)
  note n = normalize_bulk[OF norm]
  have cur': "current_ok db (sb_tenant_id s) s" using cur ten by simp
  note r = bulk_loop_run[OF loop conjunct1[OF n] cur' refl, unfolded ten]
  then obtain c' where c': "current_ok db' tenant c'" "sb_status c' = sb_status s" by blast
  have bill': "require_billable_subscription db' tenant = Inr c'"
    using bill c'(2) by (simp add: require_billable_subscription_def lock_current[OF c'(1)] lock_current[OF cur] split: if_splits)
  have due': "\<exists>due'. timestamp_or rt' (bd_due_at dto) (add_days (rt_clock rt') (fs_due_days f)) = Inr due'"
    using due dates by (auto simp: timestamp_or_def resolve_timestamp_def split: option.splits if_splits)
  then obtain due' where due': "timestamp_or rt' (bd_due_at dto) (add_days (rt_clock rt') (fs_due_days f)) = Inr due'" ..
  have f': "find_fee_structure db' tenant i = Some f" using f(1) r by (simp add: find_fee_structure_def)
  have "\<forall>x\<in>set students. map_of (active_invoices (uuid_text (fs_id f)) (list_invoices db' tenant None)) (bs_student_id x) \<noteq> None"
  proof
    fix x assume "x \<in> set students"
    then have "has_active (uuid_text (fs_id f)) (bs_student_id x) (list_invoices db tenant None) \<or>
        has_active (uuid_text (fs_id f)) (bs_student_id x) made"
      using r unfolding map_of_active by blast
    moreover have "set (list_invoices db tenant None) \<subseteq> set (list_invoices db' tenant None)"
      "set made \<subseteq> set (list_invoices db' tenant None)" using r by (auto simp: set_list_invoices)
    ultimately show "map_of (active_invoices (uuid_text (fs_id f)) (list_invoices db' tenant None)) (bs_student_id x) \<noteq> None"
      unfolding map_of_active using has_active_mono by blast
  qed
  from bulk_loop_skips[OF this] obtain skipped' where
    "bulk_loop rt' random' dto c' f due' students (active_invoices (uuid_text (fs_id f)) (list_invoices db' tenant None)) db' = Inr ([], skipped', db')"
    "map fst skipped' = map bs_student_id students" by blast
  moreover have "length students = length (bd_target_students dto)" using n by (metis length_map)
  ultimately show ?thesis
    using r n t i f' f(2) bill' due' norm tenant(2)
    by (auto simp: bulk_generate_fee_invoices_def require_tenant_id_def)
qed

definition bulk_structure :: fee_structure where
  "bulk_structure = \<lparr>fs_id = 3, fs_tenant_id = ''t1'', fs_name = ''Term 1'', fs_academic_year = ''2026'', fs_term = ''1'',
     fs_grade_level = ''7'', fs_class_name = None, fs_currency_code = ''KES'', fs_status = FsActive, fs_due_days = 14,
     fs_line_items = [(''tuition'', ''Tuition'', ''500'')], fs_total_amount_minor = 500, fs_metadata = JNull,
     fs_created_by_user_id = None, fs_created_at = 0, fs_updated_at = 0\<rparr>"

definition bulk_example :: bulk_dto where
  "bulk_example = \<lparr>bd_fee_structure_id = uuid_text 3, bd_idempotency_key = ''k'', bd_due_at = None,
     bd_target_students = [\<lparr>bs_student_id = '' s1'', bs_student_name = ''Asha'', bs_admission_number = None,
       bs_class_name = None, bs_guardian_phone = None\<rparr>], bd_metadata = []\<rparr>"

definition bulk_db :: billing_db where
  "bulk_db = sub_db (sub_example SubActive)\<lparr>bl_fee_structures := [bulk_structure]\<rparr>"

lemma bulk_run: "case bulk_generate_fee_invoices (sub_rt 0) (\<lambda>x. x) bulk_example bulk_db of
    Inl e \<Rightarrow> False | Inr (made, skipped, db) \<Rightarrow> length made = 1"
  by code_simp

theorem bulk_generation_idempotent_witness:
  "\<exists>made db' skipped'. bulk_generate_fee_invoices (sub_rt 0) (\<lambda>x. x) bulk_example bulk_db = Inr (made, [], db') \<and>
     length made = 1 \<and> bulk_generate_fee_invoices (sub_rt 5) (\<lambda>x. x) bulk_example db' = Inr ([], skipped', db')"
proof -
  obtain made skipped db' where run: "bulk_generate_fee_invoices (sub_rt 0) (\<lambda>x. x) bulk_example bulk_db = Inr (made, skipped, db')"
    "length made = 1" using bulk_run by (auto split: sum.splits)
  have "current_ok (sub_db (sub_example SubActive)) ''t1'' (sub_example SubActive)"
    by (rule sub_current) (simp add: mutable_status_def)
  then have c: "current_ok bulk_db ''t1'' (sub_example SubActive)" by (simp add: bulk_db_def current_ok_def)
  from bulk_generation_idempotent[OF run(1) c, of "sub_rt 5" "\<lambda>x. x"] run show ?thesis
    by (auto simp: sub_rt_def ev_rt_def bulk_example_def)
qed

section \<open>Metered usage\<close>

text \<open>Recording usage never takes the usage of the subscription's period beyond the limit of its plan.\<close>

theorem usage_limit_respected:
  assumes run: "record_usage rt context_access cached dto db = Inr (u, db')" and tenant: "rt_tenant_id rt = Some tenant"
    and s: "lock_current_by_tenant db tenant = Some s"
    and limit: "read_positive_limit (map_of (sb_limits s) ''usage.events.monthly'') = Some limit"
    and within: "get_total_quantity db tenant (sb_id s) (sb_current_period_start s) (sb_current_period_end s) None \<le> limit"
  shows "get_total_quantity db' tenant (sb_id s) (sb_current_period_start s) (sb_current_period_end s) None \<le> limit"
proof -
  let ?total = "\<lambda>d. get_total_quantity d tenant (sb_id s) (sb_current_period_start s) (sb_current_period_end s) None"
  from run tenant s obtain access w db1 where db1: "resolve_for_tenant rt context_access cached tenant db = Inr (access, w, db1)"
    and rest: "(case find_usage_by_key db1 tenant (sb_id s) (js_trim (ud_idempotency_key dto)) of
              Some old \<Rightarrow> Inr (old, db1)
            | None \<Rightarrow>
                and_then (parse_positive_quantity (js_trim (ud_quantity dto)) (js_trim (ud_feature_key dto))) (\<lambda>quantity.
                and_then (assert_usage_limit db1 tenant s ''usage.events.monthly'' quantity) (\<lambda>_.
                and_then (timestamp_or rt (ud_recorded_at dto) (rt_clock rt)) (\<lambda>recorded.
                create_usage_record (usage_row tenant s dto quantity recorded) db1)))) = Inr (u, db')"
    by (auto simp: record_usage_def and_then_eq_Inr split: if_splits)
  have same: "?total db1 = ?total db" using resolve_usage[OF db1] by (simp add: get_total_quantity_def)
  show ?thesis
  proof (cases "find_usage_by_key db1 tenant (sb_id s) (js_trim (ud_idempotency_key dto))")
    case (Some old)
    with rest same within show ?thesis by simp
  next
    case None
    with rest obtain quantity recorded where q: "parse_positive_quantity (js_trim (ud_quantity dto)) (js_trim (ud_feature_key dto)) = Inr quantity"
      and ok: "assert_usage_limit db1 tenant s ''usage.events.monthly'' quantity = Inr ()"
      and cr: "create_usage_record (usage_row tenant s dto quantity recorded) db1 = Inr (u, db')"
      by (auto simp: and_then_eq_Inr)
    have le: "?total db1 + quantity \<le> limit" using ok limit by (simp add: assert_usage_limit_def)
    have pos: "0 \<le> quantity" using q by (auto simp: parse_positive_quantity_def split: if_splits)
    have "bl_usage db' = bl_usage db1 \<or> (\<exists>i. bl_usage db' = bl_usage db1 @ [usage_row tenant s dto quantity recorded i])"
      using cr by (auto simp: create_usage_record_def Let_def and_then_eq_Inr split: option.splits)
    then have "?total db' \<le> ?total db1 + quantity"
      using pos by (auto simp: get_total_quantity_def usage_row_def)
    with le show ?thesis by simp
  qed
qed

definition usage_sub :: subscription where
  "usage_sub = (sub_example SubActive)\<lparr>sb_limits := [(''usage.events.monthly'', JNum ''10'')]\<rparr>"

definition usage_dto :: "string \<Rightarrow> record_usage_dto" where
  "usage_dto n = \<lparr>ud_feature_key = ''sms'', ud_quantity = n, ud_unit = None, ud_idempotency_key = ''k1'',
     ud_recorded_at = None, ud_metadata = JNull\<rparr>"

theorem usage_limit_respected_witness:
  "\<exists>u db'. record_usage (sub_rt 5) None None (usage_dto ''7'') (sub_db usage_sub) = Inr (u, db') \<and>
     get_total_quantity db' ''t1'' 4 0 (days 30) None \<le> 10 \<and> ur_quantity u = 7"
proof -
  have "case record_usage (sub_rt 5) None None (usage_dto ''7'') (sub_db usage_sub) of
      Inl e \<Rightarrow> False | Inr (u, db) \<Rightarrow> ur_quantity u = 7" by code_simp
  then obtain u db' where run: "record_usage (sub_rt 5) None None (usage_dto ''7'') (sub_db usage_sub) = Inr (u, db')" "ur_quantity u = 7"
    by (auto split: sum.splits)
  have l: "lock_current_by_tenant (sub_db usage_sub) ''t1'' = Some usage_sub"
    by (simp add: lock_current_by_tenant_def first_row_def sub_db_def usage_sub_def sub_example_def)
  have r: "read_positive_limit (map_of (sb_limits usage_sub) ''usage.events.monthly'') = Some 10"
    by code_simp
  from usage_limit_respected[OF run(1) _ l r] run show ?thesis
    by (auto simp: sub_rt_def ev_rt_def usage_sub_def sub_example_def get_total_quantity_def sub_db_def)
qed

end
