(* ===== verification/Mpesa_Text.thy ===== *)
theory Mpesa_Text
  imports Iso_Time
begin

text \<open>
  The text conversions of \<open>modules/payments/services/mpesa.service.ts\<close>: phone numbers, amounts in
  minor units and in shillings, M-PESA dates, and the body of an STK callback. The callback's fields
  have the types that \<open>payments.types.ts\<close> declares; what the code tests at run time (a missing field, a
  result code that is not a number) stays an option. A metadata value is any JSON value.
\<close>

section \<open>Phone numbers\<close>

text \<open>\<open>value.replace(/\D/g, '')\<close>\<close>

definition only_digits :: "string \<Rightarrow> string" where
  "only_digits s = filter is_digit s"

text \<open>The patterns \<open>^254\d{9}$\<close>, \<open>^0\d{9}$\<close> and \<open>^[17]\d{8}$\<close>, on a string of digits.\<close>

definition international_phone :: "string \<Rightarrow> bool" where
  "international_phone d \<longleftrightarrow> take 3 d = ''254'' \<and> length d = 12"

definition national_phone :: "string \<Rightarrow> bool" where
  "national_phone d \<longleftrightarrow> take 1 d = ''0'' \<and> length d = 10"

definition subscriber_phone :: "string \<Rightarrow> bool" where
  "subscriber_phone d \<longleftrightarrow> (take 1 d = ''1'' \<or> take 1 d = ''7'') \<and> length d = 9"

definition normalize_phone_number :: "string \<Rightarrow> string result" where
  "normalize_phone_number v =
     (let d = only_digits v in
      if international_phone d then Inr d
      else if national_phone d then Inr (''254'' @ drop 1 d)
      else if subscriber_phone d then Inr (''254'' @ d)
      else Inl (BadRequestException (''Invalid Kenyan phone number '' @ quoted v)))"

text \<open>\<open>PiiEncryptionService.maskPhoneNumber\<close>\<close>

definition mask_phone_number :: "string option \<Rightarrow> string option" where
  "mask_phone_number v =
     (if \<not> truthy v then None
      else (let d = only_digits (the v) in
        if length d \<le> 4 then Some (replicate (length d) (CHR ''*''))
        else Some (take 4 d @ replicate (length d - 6) (CHR ''*'') @ drop (length d - 2) d)))"

section \<open>Amounts\<close>

definition mpesa_minor_amount :: "string \<Rightarrow> string result" where
  "mpesa_minor_amount v =
     (if positive_numeral (js_trim v) then Inr (js_trim v)
      else Inl (BadRequestException ''M-PESA amount must be a positive integer in minor units''))"

definition convert_minor_to_stk_amount :: "string \<Rightarrow> string result" where
  "convert_minor_to_stk_amount amount_minor =
     (let amount = parse_int amount_minor in
      if amount \<le> 0 then Inl (BadRequestException ''M-PESA payment amounts must be positive'')
      else if amount mod 100 \<noteq> 0 then Inl (BadRequestException ''M-PESA STK push only supports whole KES amounts'')
      else Inr (show_int (amount div 100)))"

text \<open>The text before the first dot, and the text between it and the next (\<open>split('.')\<close>).\<close>

definition before_dot :: "string \<Rightarrow> string" where
  "before_dot s = takeWhile (\<lambda>c. c \<noteq> CHR ''.'') s"

definition after_dot :: "string \<Rightarrow> string option" where
  "after_dot s = (case dropWhile (\<lambda>c. c \<noteq> CHR ''.'') s of [] \<Rightarrow> None | _ # t \<Rightarrow> Some t)"

text \<open>\<open>^\d+(?:\.\d{1,2})?$\<close>\<close>

definition decimal_amount :: "string \<Rightarrow> bool" where
  "decimal_amount s \<longleftrightarrow> digits_only (before_dot s) \<and>
     (case after_dot s of None \<Rightarrow> True
      | Some d \<Rightarrow> list_all is_digit d \<and> (length d = 1 \<or> length d = 2))"

text \<open>\<open>replace(/^0+(?=\d)/, '')\<close> of a string of digits.\<close>

fun strip_zeros :: "string \<Rightarrow> string" where
  "strip_zeros (c # d # cs) = (if c = CHR ''0'' then strip_zeros (d # cs) else c # d # cs)"
| "strip_zeros s = s"

definition convert_major_to_minor :: "string \<Rightarrow> string result" where
  "convert_major_to_minor amount =
     (let s = js_trim amount in
      if decimal_amount s then
        Inr (strip_zeros (before_dot s @ take 2 ((case after_dot s of None \<Rightarrow> [] | Some d \<Rightarrow> d) @ ''00'')))
      else Inl (BadRequestException (''Invalid M-PESA amount '' @ quoted amount)))"

section \<open>Dates\<close>

text \<open>
  \<open>Date.UTC(year, month, day, hour, minute, second)\<close>, the month counted from zero and any number of
  months, days or hours carried over; a year up to 99 means 1900 plus it.
\<close>

definition date_utc :: "int \<Rightarrow> int \<Rightarrow> int \<Rightarrow> int \<Rightarrow> int \<Rightarrow> int \<Rightarrow> int" where
  "date_utc year month day hour minute second =
     (let y = (if 0 \<le> year \<and> year \<le> 99 then 1900 + year else year)
      in (days_from_civil (y + month div 12, month mod 12 + 1, 1) + day - 1) * ms_per_day +
         hour * 3600000 + minute * 60000 + second * 1000)"

text \<open>The ISO text the code returns stands for this instant; \<open>getTime()\<close> is never \<open>NaN\<close> here.\<close>

definition parse_transaction_date :: "string \<Rightarrow> int result" where
  "parse_transaction_date v =
     (if length v = 14 \<and> list_all is_digit v then
        (let part = (\<lambda>i j. int (parse_nat (take (j - i) (drop i v))))
         in Inr (date_utc (part 0 4) (part 4 6 - 1) (part 6 8) (part 8 10 - 3) (part 10 12) (part 12 14)))
      else Inl (BadRequestException (''Invalid M-PESA transaction date '' @ quoted v)))"

section \<open>The callback\<close>

record metadata_item =
  mi_name :: string
  mi_value :: "json option"

record stk_callback =
  sk_merchant_request_id :: "string option"
  sk_checkout_request_id :: "string option"
  sk_result_code :: "int option"
  sk_result_desc :: "string option"
  sk_items :: "metadata_item option list"

datatype mpesa_status = MpesaSucceeded | MpesaFailed

record parsed_callback =
  pc_merchant_request_id :: string
  pc_checkout_request_id :: string
  pc_result_code :: int
  pc_result_desc :: string
  pc_status :: mpesa_status
  pc_amount_minor :: "string option"
  pc_mpesa_receipt_number :: "string option"
  pc_transaction_occurred_at :: "int option"
  pc_phone_number :: "string option"
  pc_metadata :: "(string \<times> json) list"

text \<open>\<open>String(value)\<close> of a JSON value; \<open>null\<close> inside an array prints nothing.\<close>

fun js_string :: "json \<Rightarrow> string" where
  "js_string JNull = ''null''"
| "js_string (JBool True) = ''true''"
| "js_string (JBool False) = ''false''"
| "js_string (JNum t) = t"
| "js_string (JStr s) = s"
| "js_string (JArr vs) = join '','' (map (\<lambda>v. if v = JNull then [] else js_string v) vs)"
| "js_string (JObj kvs) = ''[object Object]''"

text \<open>An assignment to a key of an object, which keeps the place of a key it already has.\<close>

fun set_key :: "string \<Rightarrow> json \<Rightarrow> (string \<times> json) list \<Rightarrow> (string \<times> json) list" where
  "set_key k v [] = [(k, v)]"
| "set_key k v ((k', v') # kvs) = (if k' = k then (k, v) # kvs else (k', v') # set_key k v kvs)"

definition to_metadata_map :: "metadata_item option list \<Rightarrow> (string \<times> json) list" where
  "to_metadata_map items = fold (\<lambda>item acc. case item of
       None \<Rightarrow> acc
     | Some i \<Rightarrow> if mi_name i = [] then acc
                 else set_key (mi_name i) (case mi_value i of None \<Rightarrow> JNull | Some v \<Rightarrow> v) acc) items []"

text \<open>\<open>value == null ? null : f(String(value))\<close>\<close>

definition read_metadata :: "(string \<times> json) list \<Rightarrow> string \<Rightarrow> (string \<Rightarrow> 'a result) \<Rightarrow> 'a option result" where
  "read_metadata kvs key f =
     (case map_of kvs key of
        None \<Rightarrow> Inr None
      | Some v \<Rightarrow> if v = JNull then Inr None else and_then (f (js_string v)) (\<lambda>x. Inr (Some x)))"

definition parse_callback_payload :: "stk_callback option \<Rightarrow> parsed_callback result" where
  "parse_callback_payload payload =
     (case payload of
        None \<Rightarrow> Inl (BadRequestException ''MPESA callback is missing request identifiers'')
      | Some c \<Rightarrow>
          if \<not> truthy (sk_merchant_request_id c) \<or> \<not> truthy (sk_checkout_request_id c) then
            Inl (BadRequestException ''MPESA callback is missing request identifiers'')
          else
            (case sk_result_code c of
               None \<Rightarrow> Inl (BadRequestException ''MPESA callback is missing result information'')
             | Some code \<Rightarrow>
                 if \<not> truthy (sk_result_desc c) then
                   Inl (BadRequestException ''MPESA callback is missing result information'')
                 else
                   (let kvs = to_metadata_map (sk_items c) in
                    and_then (read_metadata kvs ''Amount'' convert_major_to_minor) (\<lambda>amount.
                    and_then (read_metadata kvs ''MpesaReceiptNumber'' Inr) (\<lambda>receipt.
                    and_then (read_metadata kvs ''TransactionDate'' parse_transaction_date) (\<lambda>occurred.
                    and_then (read_metadata kvs ''PhoneNumber'' normalize_phone_number) (\<lambda>phone.
                      Inr \<lparr>pc_merchant_request_id = the (sk_merchant_request_id c),
                           pc_checkout_request_id = the (sk_checkout_request_id c),
                           pc_result_code = code, pc_result_desc = the (sk_result_desc c),
                           pc_status = (if code = 0 then MpesaSucceeded else MpesaFailed),
                           pc_amount_minor = amount, pc_mpesa_receipt_number = receipt,
                           pc_transaction_occurred_at = occurred, pc_phone_number = phone,
                           pc_metadata = kvs\<rparr>)))))))"

end
