(* ===== verification/Mpesa_Text_Claims.thy ===== *)
theory Mpesa_Text_Claims
  imports Mpesa_Text
begin

text \<open>
  Facts and properties of the M-PESA text conversions: normal forms of phone numbers, and amounts that
  survive the way to the gateway and back.
\<close>

lemma only_digits_digits [simp]: "list_all is_digit d \<Longrightarrow> only_digits d = d"
  by (simp add: only_digits_def list_all_iff filter_id_conv)

lemma list_all_only_digits [simp]: "list_all is_digit (only_digits s)"
  by (simp add: only_digits_def list_all_iff)

lemma only_digits_append [simp]: "only_digits (s @ t) = only_digits s @ only_digits t"
  by (simp add: only_digits_def)

lemma digits_254 [simp]: "list_all is_digit ''254''"
  by (simp add: is_digit_def)

lemma dot_not_digit [simp]: "\<not> is_digit CHR ''.''"
  by (simp add: is_digit_def)

lemma phone_shapes_digits:
  assumes "list_all is_digit d"
  shows "international_phone d \<Longrightarrow> normalize_phone_number d = Inr d"
    and "national_phone d \<Longrightarrow> international_phone (''254'' @ drop 1 d)"
    and "subscriber_phone d \<Longrightarrow> international_phone (''254'' @ d)"
proof -
  show "international_phone d \<Longrightarrow> normalize_phone_number d = Inr d"
    by (simp add: normalize_phone_number_def only_digits_digits[OF assms])
  show "national_phone d \<Longrightarrow> international_phone (''254'' @ drop 1 d)"
    unfolding national_phone_def international_phone_def by simp
  show "subscriber_phone d \<Longrightarrow> international_phone (''254'' @ d)"
    unfolding subscriber_phone_def international_phone_def by simp
qed

lemma normalize_phone_number_Inr:
  assumes "normalize_phone_number v = Inr p"
  shows "international_phone p" and "list_all is_digit p"
proof -
  let ?d = "only_digits v"
  have dr: "list_all is_digit (drop 1 ?d)" using list_all_only_digits[of v] by (auto simp: list_all_iff dest: in_set_dropD)
  consider (a) "international_phone ?d" "p = ?d" | (b) "national_phone ?d" "p = ''254'' @ drop 1 ?d"
    | (c) "subscriber_phone ?d" "p = ''254'' @ ?d"
    using assms unfolding normalize_phone_number_def Let_def
    by (cases "international_phone ?d"; cases "national_phone ?d"; cases "subscriber_phone ?d")
      (simp_all only: if_True if_False sum.inject sum.distinct simp_thms)
  then have "international_phone p \<and> list_all is_digit p"
  proof cases
    case a
    then show ?thesis by simp
  next
    case b
    then show ?thesis using phone_shapes_digits(2)[of ?d] dr digits_254
      by (simp only: list_all_append list_all_only_digits)
  next
    case c
    then show ?thesis using phone_shapes_digits(3)[of ?d] digits_254
      by (simp only: list_all_append list_all_only_digits)
  qed
  then show "international_phone p" and "list_all is_digit p" by auto
qed

lemma spellings:
  assumes "subscriber_phone s"
  shows "only_digits v = s \<Longrightarrow> normalize_phone_number v = Inr (''254'' @ s)"
    and "only_digits v = ''0'' @ s \<Longrightarrow> normalize_phone_number v = Inr (''254'' @ s)"
    and "only_digits v = ''254'' @ s \<Longrightarrow> normalize_phone_number v = Inr (''254'' @ s)"
  using assms
  by (simp_all add: normalize_phone_number_def international_phone_def national_phone_def subscriber_phone_def)

text \<open>C37: Phone numbers have one normal form: whatever \<open>normalizePhoneNumber\<close> accepts becomes the country
  code 254 followed by nine digits, the result is accepted unchanged, and the international, the national
  and the subscriber spelling of a number, with any punctuation in between, have the same normal form.\<close>

theorem phone_numbers_normal_form:
  "(normalize_phone_number v = Inr p \<longrightarrow>
      length p = 12 \<and> take 3 p = ''254'' \<and> list_all is_digit p \<and> normalize_phone_number p = Inr p) \<and>
   (subscriber_phone s \<and> only_digits w \<in> {s, ''0'' @ s, ''254'' @ s} \<longrightarrow>
      normalize_phone_number w = Inr (''254'' @ s))"
  using normalize_phone_number_Inr[of v p] phone_shapes_digits(1)[of p] spellings[of s w]
  by (simp add: international_phone_def) blast

theorem phone_numbers_normal_form_witness:
  "normalize_phone_number ''+254 712-345678'' = Inr ''254712345678'' \<and>
   normalize_phone_number ''254712345678'' = Inr ''254712345678'' \<and>
   normalize_phone_number ''0712 345 678'' = Inr ''254712345678''"
proof -
  have n: "normalize_phone_number ''+254 712-345678'' = Inr ''254712345678''" by code_simp
  have s: "subscriber_phone ''712345678''" "only_digits ''0712 345 678'' = ''0'' @ ''712345678''" by code_simp+
  show ?thesis
    using n s phone_numbers_normal_form[of "''+254 712-345678''" "''254712345678''" "''712345678''" "''0712 345 678''"]
    by simp
qed

section \<open>Amounts\<close>

lemma before_dot_digits:
  assumes "list_all is_digit s"
  shows "before_dot s = s" and "after_dot s = None"
proof -
  have "c \<noteq> CHR ''.''" if "c \<in> set s" for c using assms that dot_not_digit by (auto simp: list_all_iff)
  then have "takeWhile (\<lambda>c. c \<noteq> CHR ''.'') s = s" and "dropWhile (\<lambda>c. c \<noteq> CHR ''.'') s = []"
    by (auto simp: takeWhile_eq_all_conv dropWhile_eq_Nil_conv)
  then show "before_dot s = s" and "after_dot s = None"
    by (simp_all only: before_dot_def after_dot_def list.case)
qed

lemma before_dot_app:
  assumes "list_all is_digit s"
  shows "before_dot (s @ CHR ''.'' # t) = s" and "after_dot (s @ CHR ''.'' # t) = Some t"
proof -
  have "c \<noteq> CHR ''.''" if "c \<in> set s" for c using assms that dot_not_digit by (auto simp: list_all_iff)
  then show "before_dot (s @ CHR ''.'' # t) = s" and "after_dot (s @ CHR ''.'' # t) = Some t"
    by (simp_all add: before_dot_def after_dot_def)
qed

lemma strip_zeros_positive: "positive_numeral s \<Longrightarrow> strip_zeros s = s"
  by (cases s rule: strip_zeros.cases) (auto simp: positive_numeral_def)

lemma show_int_hundred: "0 < k \<Longrightarrow> show_int (100 * k) = show_int k @ ''00''"
proof -
  assume k: "0 < k"
  have z: "digit_char 0 = CHR ''0''" by (simp add: digit_char_def char_of_48)
  have "show_nat (10 * m) = show_nat m @ ''0''" if "0 < m" for m
    using that z by (subst show_nat.simps) simp
  from this[of "10 * nat k"] this[of "nat k"] k
  show ?thesis by (simp add: show_int_def nat_mult_distrib flip: mult.assoc)
qed

lemma convert_major_digits:
  assumes "positive_numeral a"
  shows "convert_major_to_minor a = Inr (a @ ''00'')"
    and "convert_major_to_minor (a @ ''.0'') = Inr (a @ ''00'')"
    and "convert_major_to_minor (a @ ''.00'') = Inr (a @ ''00'')"
proof -
  have d: "list_all is_digit a" "a \<noteq> []" using assms by (auto simp: positive_numeral_def)
  have sp: "\<not> is_space CHR ''0''" by (simp add: is_space_def)
  have h: "\<not> is_space (hd a)" "\<not> is_space (last a)" "a = [] \<or> hd (a @ t) = hd a" for t
    using d by (auto simp: list_all_iff intro!: is_digit_not_space)
  have t: "js_trim a = a" "js_trim (a @ ''.0'') = a @ ''.0''" "js_trim (a @ ''.00'') = a @ ''.00''"
    using h d(2) sp by (auto intro!: js_trim_fixed)
  have z: "is_digit CHR ''0''" by (simp add: is_digit_def)
  have s: "strip_zeros (a @ ''00'') = a @ ''00''"
    using assms by (intro strip_zeros_positive) (auto simp: positive_numeral_def z)
  note dots = before_dot_digits[OF d(1)] before_dot_app[OF d(1)]
  show "convert_major_to_minor a = Inr (a @ ''00'')"
    and "convert_major_to_minor (a @ ''.0'') = Inr (a @ ''00'')"
    and "convert_major_to_minor (a @ ''.00'') = Inr (a @ ''00'')"
    using s d z dots by (simp_all add: convert_major_to_minor_def t decimal_amount_def digits_only_def)
qed

text \<open>C36: An amount survives the trip to M-PESA and back: when an intent's amount in minor units is
  accepted for an STK push, the shillings sent to the gateway, reported back in the callback as a whole
  number or with one or two zero decimals, convert to exactly the intent's amount text, so the callback
  of the requested amount is never taken for an amount mismatch.\<close>

theorem stk_amount_round_trip:
  assumes "convert_minor_to_stk_amount (show_int n) = Inr a"
  shows "convert_major_to_minor a = Inr (show_int n) \<and>
    convert_major_to_minor (a @ ''.0'') = Inr (show_int n) \<and>
    convert_major_to_minor (a @ ''.00'') = Inr (show_int n)"
proof -
  have n: "0 < n" "n mod 100 = 0" and a: "a = show_int (n div 100)"
    using assms by (auto simp: convert_minor_to_stk_amount_def Let_def split: if_splits)
  have q: "n = 100 * (n div 100)" using n(2) mult_div_mod_eq[of 100 n] by linarith
  then have q': "0 < n div 100" using n(1) by linarith
  have p: "positive_numeral a" using q' a show_nat_positive by (simp add: show_int_def)
  have "a @ ''00'' = show_int n" using show_int_hundred[OF q'] q a by metis
  then show ?thesis using convert_major_digits[OF p] by simp
qed

theorem stk_amount_round_trip_witness:
  "convert_minor_to_stk_amount (show_int 1500) = Inr ''15'' \<and>
   convert_major_to_minor ''15'' = Inr (show_int 1500) \<and>
   convert_major_to_minor ''15.00'' = Inr (show_int 1500)"
proof -
  have "convert_minor_to_stk_amount (show_int 1500) = Inr ''15''" by code_simp
  with stk_amount_round_trip[OF this] show ?thesis by simp
qed

end
