(* ===== verification/Payments_Store.thy ===== *)
theory Payments_Store
  imports Mpesa_Text Billing_Store
begin

text \<open>
  The tables of \<open>modules/payments\<close> and their repositories: \<open>payment_intents\<close>, \<open>callback_logs\<close> and
  \<open>mpesa_transactions\<close>, with the constraints of \<open>payments-schema.service.ts\<close>. The phone number and
  the raw body are encrypted at rest; the rows here hold what \<open>mapEntity\<close> decrypts. The idempotency rows
  of payment intents lie in the same table as the ledger's, under a scope of their own; they are kept
  apart here because their stored response is an intent's.
\<close>

section \<open>Rows\<close>

datatype intent_status =
  PiPending | PiStkRequested | PiCallbackReceived | PiProcessing | PiCompleted | PiFailed | PiCancelled | PiExpired

fun intent_status_text :: "intent_status \<Rightarrow> string" where
  "intent_status_text PiPending = ''pending''"
| "intent_status_text PiStkRequested = ''stk_requested''"
| "intent_status_text PiCallbackReceived = ''callback_received''"
| "intent_status_text PiProcessing = ''processing''"
| "intent_status_text PiCompleted = ''completed''"
| "intent_status_text PiFailed = ''failed''"
| "intent_status_text PiCancelled = ''cancelled''"
| "intent_status_text PiExpired = ''expired''"

datatype payment_owner = OwnerTenant | OwnerPlatform

record payment_intent =
  in_id :: uuid
  in_tenant_id :: string
  in_idempotency_key_id :: uuid
  in_user_id :: "string option"
  in_student_id :: "uuid option"
  in_request_id :: "string option"
  in_external_reference :: "string option"
  in_account_reference :: string
  in_transaction_desc :: string
  in_phone_number :: string
  in_amount_minor :: int
  in_currency_code :: string
  in_payment_owner :: payment_owner
  in_mpesa_config_id :: "uuid option"
  in_payment_channel_id :: "uuid option"
  in_mpesa_short_code :: "string option"
  in_payment_channel_type :: "string option"
  in_ledger_debit_account_code :: "string option"
  in_ledger_credit_account_code :: "string option"
  in_status :: intent_status
  in_merchant_request_id :: "string option"
  in_checkout_request_id :: "string option"
  in_response_code :: "string option"
  in_response_description :: "string option"
  in_customer_message :: "string option"
  in_ledger_transaction_id :: "uuid option"
  in_failure_reason :: "string option"
  in_stk_requested_at :: "int option"
  in_callback_received_at :: "int option"
  in_completed_at :: "int option"
  in_expires_at :: "int option"
  in_metadata :: "(string \<times> json) list"
  in_created_at :: int
  in_updated_at :: int

datatype log_status = ClReceived | ClQueued | ClProcessing | ClProcessed | ClFailed | ClRejected | ClReplayed

text \<open>The JSON body of a callback: \<open>Body.stkCallback\<close>, if it has one.\<close>

type_synonym callback_body = "stk_callback option"

record callback_log =
  cl_id :: uuid
  cl_tenant_id :: string
  cl_merchant_request_id :: "string option"
  cl_checkout_request_id :: "string option"
  cl_mpesa_short_code :: "string option"
  cl_delivery_id :: string
  cl_request_fingerprint :: string
  cl_event_timestamp :: "int option"
  cl_signature :: "string option"
  cl_signature_verified :: bool
  cl_headers :: json
  cl_raw_body :: string
  cl_raw_payload :: "callback_body option"
  cl_source_ip :: "string option"
  cl_processing_status :: log_status
  cl_queue_job_id :: "string option"
  cl_failure_reason :: "string option"
  cl_queued_at :: "int option"
  cl_processed_at :: "int option"
  cl_created_at :: int
  cl_updated_at :: int

record mpesa_transaction =
  mt_id :: uuid
  mt_tenant_id :: string
  mt_payment_intent_id :: uuid
  mt_callback_log_id :: uuid
  mt_checkout_request_id :: string
  mt_merchant_request_id :: string
  mt_result_code :: int
  mt_result_desc :: string
  mt_status :: mpesa_status
  mt_transaction_id :: "string option"
  mt_mpesa_short_code :: "string option"
  mt_mpesa_receipt_number :: "string option"
  mt_amount_minor :: "int option"
  mt_phone_number :: "string option"
  mt_raw_payload :: "callback_body option"
  mt_transaction_occurred_at :: "int option"
  mt_ledger_transaction_id :: "uuid option"
  mt_processed_at :: "int option"
  mt_metadata :: "(string \<times> json) list"
  mt_created_at :: int
  mt_updated_at :: int

record intent_response =
  ir_payment_intent_id :: uuid
  ir_tenant_id :: string
  ir_student_id :: "uuid option"
  ir_status :: intent_status
  ir_amount_minor :: string
  ir_currency_code :: string
  ir_payment_owner :: payment_owner
  ir_mpesa_short_code :: "string option"
  ir_payment_channel_type :: "string option"
  ir_phone_number :: string
  ir_account_reference :: string
  ir_external_reference :: "string option"
  ir_merchant_request_id :: "string option"
  ir_checkout_request_id :: "string option"
  ir_response_code :: "string option"
  ir_response_description :: "string option"
  ir_customer_message :: "string option"
  ir_created_at :: int
  ir_updated_at :: int

record payments_db = billing_db +
  py_intents :: "payment_intent list"
  py_logs :: "callback_log list"
  py_transactions :: "mpesa_transaction list"
  py_keys :: "intent_response idem_row list"

section \<open>\<open>PaymentIntentsRepository\<close>\<close>

record create_intent_input =
  ni_tenant_id :: string
  ni_idempotency_key_id :: uuid
  ni_user_id :: "string option"
  ni_student_id :: "string option"
  ni_request_id :: "string option"
  ni_external_reference :: "string option"
  ni_account_reference :: string
  ni_transaction_desc :: string
  ni_phone_number :: string
  ni_amount_minor :: string
  ni_currency_code :: string
  ni_payment_owner :: "payment_owner option"
  ni_mpesa_config_id :: "uuid option"
  ni_payment_channel_id :: "uuid option"
  ni_mpesa_short_code :: "string option"
  ni_payment_channel_type :: "string option"
  ni_ledger_debit_account_code :: "string option"
  ni_ledger_credit_account_code :: "string option"
  ni_metadata :: "(string \<times> json) list"

definition intent_row ::
  "runtime \<Rightarrow> create_intent_input \<Rightarrow> uuid option \<Rightarrow> int \<Rightarrow> uuid \<Rightarrow> payment_intent" where
  "intent_row rt i student amount new_id =
     \<lparr>in_id = new_id, in_tenant_id = ni_tenant_id i, in_idempotency_key_id = ni_idempotency_key_id i,
      in_user_id = ni_user_id i, in_student_id = student, in_request_id = ni_request_id i,
      in_external_reference = ni_external_reference i, in_account_reference = ni_account_reference i,
      in_transaction_desc = ni_transaction_desc i, in_phone_number = ni_phone_number i,
      in_amount_minor = amount, in_currency_code = ni_currency_code i,
      in_payment_owner = or_default (ni_payment_owner i) OwnerTenant,
      in_mpesa_config_id = ni_mpesa_config_id i, in_payment_channel_id = ni_payment_channel_id i,
      in_mpesa_short_code = ni_mpesa_short_code i, in_payment_channel_type = ni_payment_channel_type i,
      in_ledger_debit_account_code = Some (or_default (ni_ledger_debit_account_code i) ''1110-MPESA-CLEARING''),
      in_ledger_credit_account_code = Some (or_default (ni_ledger_credit_account_code i) ''1100-AR-FEES''),
      in_status = PiPending, in_merchant_request_id = None, in_checkout_request_id = None,
      in_response_code = None, in_response_description = None, in_customer_message = None,
      in_ledger_transaction_id = None, in_failure_reason = None, in_stk_requested_at = None,
      in_callback_received_at = None, in_completed_at = None, in_expires_at = None,
      in_metadata = ni_metadata i, in_created_at = rt_now rt, in_updated_at = rt_now rt\<rparr>"

text \<open>
  The constraints a new row can violate, in the order PostgreSQL tests them. The foreign key to
  \<open>users\<close> is not modelled (the tables of the accounts are not).
\<close>

definition intent_constraints :: "'a payments_db_scheme \<Rightarrow> payment_intent \<Rightarrow> unit result" where
  "intent_constraints db r =
     and_then (guard (0 < in_amount_minor r) (PgError ''23514'' ''ck_payment_intents_amount_minor'')) (\<lambda>_.
     and_then (guard (currency_format (in_currency_code r)) (PgError ''23514'' ''ck_payment_intents_currency_code'')) (\<lambda>_.
     and_then (guard (\<not> list_ex (\<lambda>x. in_tenant_id x = in_tenant_id r \<and>
                          in_idempotency_key_id x = in_idempotency_key_id r) (py_intents db))
       (PgError ''23505'' ''uq_payment_intents_tenant_idempotency_key'')) (\<lambda>_.
     guard (list_ex (\<lambda>k. ik_tenant_id k = in_tenant_id r \<and> ik_id k = in_idempotency_key_id r) (py_keys db))
       (PgError ''23503'' ''fk_payment_intents_idempotency_key''))))"

text \<open>The cast of a nullable parameter.\<close>

definition cast_option :: "('a \<Rightarrow> 'b result) \<Rightarrow> 'a option \<Rightarrow> 'b option result" where
  "cast_option f v = (case v of None \<Rightarrow> Inr None | Some x \<Rightarrow> and_then (f x) (\<lambda>y. Inr (Some y)))"

definition create_pending ::
  "runtime \<Rightarrow> create_intent_input \<Rightarrow> 'a payments_db_scheme \<Rightarrow> (payment_intent \<times> 'a payments_db_scheme) result" where
  "create_pending rt i db =
     and_then (cast_option pg_uuid (ni_student_id i)) (\<lambda>student.
     and_then (pg_bigint (ni_amount_minor i)) (\<lambda>amount.
     let r = intent_row rt i student amount (fresh_uuid (map in_id (py_intents db)))
     in and_then (intent_constraints db r) (\<lambda>_.
        Inr (r, db\<lparr>py_intents := py_intents db @ [r]\<rparr>))))"

definition intent_at :: "string \<Rightarrow> uuid \<Rightarrow> payment_intent \<Rightarrow> bool" where
  "intent_at tenant i r \<longleftrightarrow> in_tenant_id r = tenant \<and> in_id r = i"

definition update_intents ::
  "(payment_intent \<Rightarrow> bool) \<Rightarrow> (payment_intent \<Rightarrow> payment_intent) \<Rightarrow> 'a payments_db_scheme \<Rightarrow> 'a payments_db_scheme" where
  "update_intents p f db = db\<lparr>py_intents := update_where p f (py_intents db)\<rparr>"

record stk_response =
  sr_merchant_request_id :: string
  sr_checkout_request_id :: string
  sr_response_code :: string
  sr_response_description :: "string option"
  sr_customer_message :: "string option"

definition stk_requested_fields :: "runtime \<Rightarrow> stk_response \<Rightarrow> int \<Rightarrow> payment_intent \<Rightarrow> payment_intent" where
  "stk_requested_fields rt resp expires_after r =
     r\<lparr>in_merchant_request_id := Some (sr_merchant_request_id resp),
       in_checkout_request_id := Some (sr_checkout_request_id resp),
       in_response_code := Some (sr_response_code resp),
       in_response_description := sr_response_description resp,
       in_customer_message := sr_customer_message resp,
       in_status := PiStkRequested, in_stk_requested_at := Some (rt_now rt),
       in_expires_at := Some (rt_now rt + 1000 * expires_after), in_updated_at := rt_now rt\<rparr>"

text \<open>The four unique indexes on the request ids: two per tenant, two over all tenants.\<close>

definition request_id_constraints :: "'a payments_db_scheme \<Rightarrow> payment_intent \<Rightarrow> unit result" where
  "request_id_constraints db r =
     (let others = filter (\<lambda>x. in_id x \<noteq> in_id r) (py_intents db);
          same = (\<lambda>f x. f x \<noteq> None \<and> f x = f r);
          own = (\<lambda>x. in_tenant_id x = in_tenant_id r)
      in
     and_then (guard (\<not> list_ex (\<lambda>x. own x \<and> same in_checkout_request_id x) others)
       (PgError ''23505'' ''uq_payment_intents_tenant_checkout_request_id'')) (\<lambda>_.
     and_then (guard (\<not> list_ex (\<lambda>x. own x \<and> same in_merchant_request_id x) others)
       (PgError ''23505'' ''uq_payment_intents_tenant_merchant_request_id'')) (\<lambda>_.
     and_then (guard (\<not> list_ex (\<lambda>x. same in_checkout_request_id x) others)
       (PgError ''23505'' ''ux_payment_intents_checkout_request_id'')) (\<lambda>_.
     guard (\<not> list_ex (\<lambda>x. same in_merchant_request_id x) others)
       (PgError ''23505'' ''ux_payment_intents_merchant_request_id'')))))"

definition mark_stk_requested ::
  "runtime \<Rightarrow> string \<Rightarrow> uuid \<Rightarrow> stk_response \<Rightarrow> int \<Rightarrow> 'a payments_db_scheme \<Rightarrow>
     (payment_intent \<times> 'a payments_db_scheme) result" where
  "mark_stk_requested rt tenant i resp expires_after db =
     (case select_first (intent_at tenant i) (py_intents db) of
        None \<Rightarrow> Inl (InternalServerErrorException ''TypeError: result.rows[0] is undefined'')
      | Some r \<Rightarrow>
          (let r' = stk_requested_fields rt resp expires_after r
           in and_then (request_id_constraints db r') (\<lambda>_.
              Inr (r', update_intents (intent_at tenant i) (stk_requested_fields rt resp expires_after) db))))"

text \<open>\<open>ORDER BY created_at DESC LIMIT 1\<close>\<close>

definition latest_intent :: "(payment_intent \<Rightarrow> bool) \<Rightarrow> 'a payments_db_scheme \<Rightarrow> payment_intent option" where
  "latest_intent p db = first_row (sort_key (\<lambda>r. - in_created_at r) (filter p (py_intents db)))"

definition lock_by_checkout_or_merchant_request_id ::
  "'a payments_db_scheme \<Rightarrow> string \<Rightarrow> string \<Rightarrow> string \<Rightarrow> payment_intent option" where
  "lock_by_checkout_or_merchant_request_id db tenant checkout merchant =
     latest_intent (\<lambda>r. in_tenant_id r = tenant \<and>
       (in_checkout_request_id r = Some checkout \<or> in_merchant_request_id r = Some merchant)) db"

definition find_intent_by_checkout_request_id ::
  "'a payments_db_scheme \<Rightarrow> string \<Rightarrow> string \<Rightarrow> payment_intent option" where
  "find_intent_by_checkout_request_id db tenant checkout =
     latest_intent (\<lambda>r. in_tenant_id r = tenant \<and> in_checkout_request_id r = Some checkout) db"

text \<open>\<open>CASE WHEN status IN ('completed', 'failed') THEN status ELSE ... END\<close>\<close>

definition unless_settled :: "intent_status \<Rightarrow> intent_status \<Rightarrow> intent_status" where
  "unless_settled new old = (if old = PiCompleted \<or> old = PiFailed then old else new)"

definition mark_callback_received :: "runtime \<Rightarrow> string \<Rightarrow> uuid \<Rightarrow> 'a payments_db_scheme \<Rightarrow> 'a payments_db_scheme" where
  "mark_callback_received rt tenant i =
     update_intents (intent_at tenant i)
       (\<lambda>r. r\<lparr>in_status := unless_settled PiCallbackReceived (in_status r),
              in_callback_received_at := Some (rt_now rt), in_updated_at := rt_now rt\<rparr>)"

definition mark_intent_processing :: "runtime \<Rightarrow> string \<Rightarrow> uuid \<Rightarrow> 'a payments_db_scheme \<Rightarrow> 'a payments_db_scheme" where
  "mark_intent_processing rt tenant i =
     update_intents (intent_at tenant i)
       (\<lambda>r. r\<lparr>in_status := unless_settled PiProcessing (in_status r), in_updated_at := rt_now rt\<rparr>)"

definition mark_intent_completed ::
  "runtime \<Rightarrow> string \<Rightarrow> uuid \<Rightarrow> uuid \<Rightarrow> 'a payments_db_scheme \<Rightarrow> 'a payments_db_scheme" where
  "mark_intent_completed rt tenant i ledger =
     update_intents (intent_at tenant i)
       (\<lambda>r. r\<lparr>in_status := PiCompleted, in_ledger_transaction_id := Some ledger,
              in_completed_at := Some (rt_now rt), in_updated_at := rt_now rt\<rparr>)"

definition mark_intent_failed ::
  "runtime \<Rightarrow> string \<Rightarrow> uuid \<Rightarrow> string \<Rightarrow> 'a payments_db_scheme \<Rightarrow> 'a payments_db_scheme" where
  "mark_intent_failed rt tenant i reason =
     update_intents (intent_at tenant i)
       (\<lambda>r. r\<lparr>in_status := PiFailed, in_failure_reason := Some reason,
              in_completed_at := Some (rt_now rt), in_updated_at := rt_now rt\<rparr>)"

text \<open>
  \<open>expireStalePendingIntents\<close>: the stale intents without a transaction row, the earliest expiry first,
  at most a batch; \<open>locked\<close> are the rows other transactions hold (\<open>SKIP LOCKED\<close>).
\<close>

definition stale_intent :: "runtime \<Rightarrow> string \<Rightarrow> 'a payments_db_scheme \<Rightarrow> payment_intent \<Rightarrow> bool" where
  "stale_intent rt tenant db r \<longleftrightarrow> in_tenant_id r = tenant \<and>
     (in_status r = PiStkRequested \<or> in_status r = PiCallbackReceived \<or> in_status r = PiProcessing) \<and>
     (case in_expires_at r of None \<Rightarrow> False | Some t \<Rightarrow> t \<le> rt_now rt) \<and>
     \<not> list_ex (\<lambda>m. mt_tenant_id m = in_tenant_id r \<and> mt_payment_intent_id m = in_id r) (py_transactions db)"

definition expired_intent_fields :: "runtime \<Rightarrow> string \<Rightarrow> payment_intent \<Rightarrow> payment_intent" where
  "expired_intent_fields rt reason r =
     r\<lparr>in_status := PiExpired, in_failure_reason := or_else (in_failure_reason r) (Some reason),
       in_completed_at := Some (rt_now rt), in_updated_at := rt_now rt\<rparr>"

definition expire_stale_pending_intents ::
  "runtime \<Rightarrow> (uuid \<Rightarrow> bool) \<Rightarrow> string \<Rightarrow> int \<Rightarrow> string \<Rightarrow> 'a payments_db_scheme \<Rightarrow>
     (payment_intent list \<times> 'a payments_db_scheme) result" where
  "expire_stale_pending_intents rt locked tenant batch reason db =
     and_then (guard (0 \<le> batch) (PgError ''2201W'' '''')) (\<lambda>_.
     let ids = map in_id (take (nat batch)
                 (sort_key (\<lambda>r. (or_default (in_expires_at r) 0, in_created_at r))
                   (filter (\<lambda>r. stale_intent rt tenant db r \<and> \<not> locked (in_id r)) (py_intents db))));
         hit = (\<lambda>r. in_tenant_id r = tenant \<and> in_id r \<in> set ids)
     in Inr (map (expired_intent_fields rt reason) (filter hit (py_intents db)),
             update_intents hit (expired_intent_fields rt reason) db))"

section \<open>\<open>CallbackLogsRepository\<close>\<close>

record create_log_input =
  cg_tenant_id :: string
  cg_merchant_request_id :: "string option"
  cg_checkout_request_id :: "string option"
  cg_mpesa_short_code :: "string option"
  cg_delivery_id :: string
  cg_request_fingerprint :: string
  cg_event_timestamp :: "int option"
  cg_signature :: "string option"
  cg_signature_verified :: bool
  cg_headers :: json
  cg_raw_body :: string
  cg_raw_payload :: "callback_body option"
  cg_source_ip :: "string option"

definition log_row :: "runtime \<Rightarrow> create_log_input \<Rightarrow> uuid \<Rightarrow> callback_log" where
  "log_row rt i new_id =
     \<lparr>cl_id = new_id, cl_tenant_id = cg_tenant_id i, cl_merchant_request_id = cg_merchant_request_id i,
      cl_checkout_request_id = cg_checkout_request_id i, cl_mpesa_short_code = cg_mpesa_short_code i,
      cl_delivery_id = cg_delivery_id i, cl_request_fingerprint = cg_request_fingerprint i,
      cl_event_timestamp = cg_event_timestamp i, cl_signature = cg_signature i,
      cl_signature_verified = cg_signature_verified i, cl_headers = cg_headers i,
      cl_raw_body = cg_raw_body i, cl_raw_payload = cg_raw_payload i, cl_source_ip = cg_source_ip i,
      cl_processing_status = ClReceived, cl_queue_job_id = None, cl_failure_reason = None,
      cl_queued_at = None, cl_processed_at = None, cl_created_at = rt_now rt, cl_updated_at = rt_now rt\<rparr>"

definition create_log ::
  "runtime \<Rightarrow> create_log_input \<Rightarrow> 'a payments_db_scheme \<Rightarrow> (callback_log \<times> 'a payments_db_scheme) result" where
  "create_log rt i db =
     and_then (guard (not_blank (cg_delivery_id i)) (PgError ''23514'' ''ck_callback_logs_delivery_id_not_blank'')) (\<lambda>_.
     and_then (guard (not_blank (cg_request_fingerprint i))
       (PgError ''23514'' ''ck_callback_logs_request_fingerprint_not_blank'')) (\<lambda>_.
     let r = log_row rt i (fresh_uuid (map cl_id (py_logs db)))
     in Inr (r, db\<lparr>py_logs := py_logs db @ [r]\<rparr>)))"

definition log_at :: "string \<Rightarrow> uuid \<Rightarrow> callback_log \<Rightarrow> bool" where
  "log_at tenant i l \<longleftrightarrow> cl_tenant_id l = tenant \<and> cl_id l = i"

definition find_log_by_id :: "'a payments_db_scheme \<Rightarrow> string \<Rightarrow> uuid \<Rightarrow> callback_log option" where
  "find_log_by_id db tenant i = select_first (log_at tenant i) (py_logs db)"

definition find_latest_log_by_checkout_request_id ::
  "'a payments_db_scheme \<Rightarrow> string \<Rightarrow> string \<Rightarrow> callback_log option" where
  "find_latest_log_by_checkout_request_id db tenant checkout =
     first_row (sort_key (\<lambda>l. - cl_created_at l)
       (filter (\<lambda>l. cl_tenant_id l = tenant \<and> cl_checkout_request_id l = Some checkout) (py_logs db)))"

definition update_logs ::
  "(callback_log \<Rightarrow> bool) \<Rightarrow> (callback_log \<Rightarrow> callback_log) \<Rightarrow> 'a payments_db_scheme \<Rightarrow> 'a payments_db_scheme" where
  "update_logs p f db = db\<lparr>py_logs := update_where p f (py_logs db)\<rparr>"

text \<open>\<open>markStatus\<close>: the status and the assignments of its \<open>extras\<close>.\<close>

definition mark_log_status ::
  "runtime \<Rightarrow> string \<Rightarrow> uuid \<Rightarrow> log_status \<Rightarrow> (callback_log \<Rightarrow> callback_log) \<Rightarrow> 'a payments_db_scheme \<Rightarrow> 'a payments_db_scheme" where
  "mark_log_status rt tenant i status extras =
     update_logs (log_at tenant i) (\<lambda>l. extras (l\<lparr>cl_processing_status := status, cl_updated_at := rt_now rt\<rparr>))"

definition mark_log_queued :: "runtime \<Rightarrow> string \<Rightarrow> uuid \<Rightarrow> string \<Rightarrow> 'a payments_db_scheme \<Rightarrow> 'a payments_db_scheme" where
  "mark_log_queued rt tenant i job = mark_log_status rt tenant i ClQueued
     (\<lambda>l. l\<lparr>cl_queue_job_id := Some job, cl_queued_at := Some (rt_now rt), cl_failure_reason := None\<rparr>)"

definition mark_log_processing :: "runtime \<Rightarrow> string \<Rightarrow> uuid \<Rightarrow> 'a payments_db_scheme \<Rightarrow> 'a payments_db_scheme" where
  "mark_log_processing rt tenant i = mark_log_status rt tenant i ClProcessing (\<lambda>l. l\<lparr>cl_failure_reason := None\<rparr>)"

definition mark_log_processed :: "runtime \<Rightarrow> string \<Rightarrow> uuid \<Rightarrow> 'a payments_db_scheme \<Rightarrow> 'a payments_db_scheme" where
  "mark_log_processed rt tenant i = mark_log_status rt tenant i ClProcessed
     (\<lambda>l. l\<lparr>cl_processed_at := Some (rt_now rt), cl_failure_reason := None\<rparr>)"

definition mark_log_failed :: "runtime \<Rightarrow> string \<Rightarrow> uuid \<Rightarrow> string \<Rightarrow> 'a payments_db_scheme \<Rightarrow> 'a payments_db_scheme" where
  "mark_log_failed rt tenant i reason = mark_log_status rt tenant i ClFailed
     (\<lambda>l. l\<lparr>cl_processed_at := Some (rt_now rt), cl_failure_reason := Some reason\<rparr>)"

definition mark_log_rejected :: "runtime \<Rightarrow> string \<Rightarrow> uuid \<Rightarrow> string \<Rightarrow> 'a payments_db_scheme \<Rightarrow> 'a payments_db_scheme" where
  "mark_log_rejected rt tenant i reason = mark_log_status rt tenant i ClRejected
     (\<lambda>l. l\<lparr>cl_processed_at := Some (rt_now rt), cl_failure_reason := Some reason\<rparr>)"

definition mark_log_replayed :: "runtime \<Rightarrow> string \<Rightarrow> uuid \<Rightarrow> 'a payments_db_scheme \<Rightarrow> 'a payments_db_scheme" where
  "mark_log_replayed rt tenant i = mark_log_status rt tenant i ClReplayed
     (\<lambda>l. l\<lparr>cl_processed_at := Some (rt_now rt), cl_failure_reason := None\<rparr>)"

text \<open>\<open>processing_status NOT IN ('processed', 'rejected', 'replayed')\<close>\<close>

definition open_log_for :: "string \<Rightarrow> string \<Rightarrow> callback_log \<Rightarrow> bool" where
  "open_log_for tenant checkout l \<longleftrightarrow> cl_tenant_id l = tenant \<and> cl_checkout_request_id l = Some checkout \<and>
     cl_processing_status l \<notin> {ClProcessed, ClRejected, ClReplayed}"

definition mark_logs_processed_by_checkout_request_id ::
  "runtime \<Rightarrow> string \<Rightarrow> string \<Rightarrow> 'a payments_db_scheme \<Rightarrow> 'a payments_db_scheme" where
  "mark_logs_processed_by_checkout_request_id rt tenant checkout =
     update_logs (open_log_for tenant checkout)
       (\<lambda>l. l\<lparr>cl_processing_status := ClProcessed,
              cl_processed_at := or_else (cl_processed_at l) (Some (rt_now rt)),
              cl_failure_reason := None, cl_updated_at := rt_now rt\<rparr>)"

definition mark_logs_failed_by_checkout_request_id ::
  "runtime \<Rightarrow> string \<Rightarrow> string \<Rightarrow> string \<Rightarrow> 'a payments_db_scheme \<Rightarrow> 'a payments_db_scheme" where
  "mark_logs_failed_by_checkout_request_id rt tenant checkout reason =
     update_logs (open_log_for tenant checkout)
       (\<lambda>l. l\<lparr>cl_processing_status := ClFailed,
              cl_processed_at := or_else (cl_processed_at l) (Some (rt_now rt)),
              cl_failure_reason := Some reason, cl_updated_at := rt_now rt\<rparr>)"

section \<open>\<open>MpesaTransactionsRepository\<close>\<close>

definition transaction_for :: "string \<Rightarrow> string \<Rightarrow> mpesa_transaction \<Rightarrow> bool" where
  "transaction_for tenant checkout m \<longleftrightarrow> mt_tenant_id m = tenant \<and> mt_checkout_request_id m = checkout"

definition mpesa_row ::
  "runtime \<Rightarrow> string \<Rightarrow> uuid \<Rightarrow> callback_log \<Rightarrow> parsed_callback \<Rightarrow> int option \<Rightarrow> uuid \<Rightarrow> mpesa_transaction" where
  "mpesa_row rt tenant intent l c amount new_id =
     \<lparr>mt_id = new_id, mt_tenant_id = tenant, mt_payment_intent_id = intent, mt_callback_log_id = cl_id l,
      mt_checkout_request_id = pc_checkout_request_id c, mt_merchant_request_id = pc_merchant_request_id c,
      mt_result_code = pc_result_code c, mt_result_desc = pc_result_desc c, mt_status = pc_status c,
      mt_transaction_id = pc_mpesa_receipt_number c, mt_mpesa_short_code = None,
      mt_mpesa_receipt_number = pc_mpesa_receipt_number c, mt_amount_minor = amount,
      mt_phone_number = pc_phone_number c, mt_raw_payload = cl_raw_payload l,
      mt_transaction_occurred_at = pc_transaction_occurred_at c, mt_ledger_transaction_id = None,
      mt_processed_at = None, mt_metadata = pc_metadata c, mt_created_at = rt_now rt, mt_updated_at = rt_now rt\<rparr>"

text \<open>\<open>ON CONFLICT ... DO UPDATE SET\<close>: the new row's fields over the old one's.\<close>

definition merge_mpesa_row :: "runtime \<Rightarrow> mpesa_transaction \<Rightarrow> mpesa_transaction \<Rightarrow> mpesa_transaction" where
  "merge_mpesa_row rt new old =
     old\<lparr>mt_payment_intent_id := mt_payment_intent_id new, mt_callback_log_id := mt_callback_log_id new,
         mt_merchant_request_id := mt_merchant_request_id new, mt_result_code := mt_result_code new,
         mt_result_desc := mt_result_desc new, mt_status := mt_status new,
         mt_transaction_id := or_else (mt_transaction_id new) (mt_transaction_id old),
         mt_mpesa_short_code := or_else (mt_mpesa_short_code new) (mt_mpesa_short_code old),
         mt_mpesa_receipt_number := or_else (mt_mpesa_receipt_number new) (mt_mpesa_receipt_number old),
         mt_amount_minor := or_else (mt_amount_minor new) (mt_amount_minor old),
         mt_phone_number := or_else (mt_phone_number new) (mt_phone_number old),
         mt_raw_payload := or_else (mt_raw_payload new) (mt_raw_payload old),
         mt_transaction_occurred_at := or_else (mt_transaction_occurred_at new) (mt_transaction_occurred_at old),
         mt_metadata := mt_metadata new, mt_updated_at := rt_now rt\<rparr>"

text \<open>The unique index on \<open>transaction_id\<close> over all tenants, and the foreign keys.\<close>

definition mpesa_constraints :: "'a payments_db_scheme \<Rightarrow> mpesa_transaction \<Rightarrow> unit result" where
  "mpesa_constraints db r =
     and_then (guard (mt_transaction_id r = None \<or>
         \<not> list_ex (\<lambda>x. mt_id x \<noteq> mt_id r \<and> mt_transaction_id x = mt_transaction_id r) (py_transactions db))
       (PgError ''23505'' ''ux_mpesa_transactions_transaction_id'')) (\<lambda>_.
     and_then (guard (list_ex (\<lambda>x. in_tenant_id x = mt_tenant_id r \<and> in_id x = mt_payment_intent_id r) (py_intents db))
       (PgError ''23503'' ''fk_mpesa_transactions_payment_intent'')) (\<lambda>_.
     guard (list_ex (\<lambda>l. cl_tenant_id l = mt_tenant_id r \<and> cl_id l = mt_callback_log_id r) (py_logs db))
       (PgError ''23503'' ''fk_mpesa_transactions_callback_log'')))"

definition upsert_from_callback ::
  "runtime \<Rightarrow> string \<Rightarrow> uuid \<Rightarrow> callback_log \<Rightarrow> parsed_callback \<Rightarrow> 'a payments_db_scheme \<Rightarrow>
     (mpesa_transaction \<times> 'a payments_db_scheme) result" where
  "upsert_from_callback rt tenant intent l c db =
     and_then (guard (fits_integer (pc_result_code c)) (PgError ''22003'' '''')) (\<lambda>_.
     and_then (cast_option pg_bigint (pc_amount_minor c)) (\<lambda>amount.
     let new = mpesa_row rt tenant intent l c amount (fresh_uuid (map mt_id (py_transactions db))) in
     case select_first (transaction_for tenant (pc_checkout_request_id c)) (py_transactions db) of
       None \<Rightarrow> and_then (mpesa_constraints db new) (\<lambda>_.
                Inr (new, db\<lparr>py_transactions := py_transactions db @ [new]\<rparr>))
     | Some old \<Rightarrow>
         (let r = merge_mpesa_row rt new old
          in and_then (mpesa_constraints db r) (\<lambda>_.
             Inr (r, db\<lparr>py_transactions := update_where (transaction_for tenant (pc_checkout_request_id c))
                            (merge_mpesa_row rt new) (py_transactions db)\<rparr>)))))"

definition attach_ledger_transaction ::
  "runtime \<Rightarrow> string \<Rightarrow> string \<Rightarrow> uuid \<Rightarrow> 'a payments_db_scheme \<Rightarrow> 'a payments_db_scheme" where
  "attach_ledger_transaction rt tenant checkout ledger db =
     db\<lparr>py_transactions := update_where (transaction_for tenant checkout)
          (\<lambda>m. m\<lparr>mt_ledger_transaction_id := Some ledger, mt_processed_at := Some (rt_now rt),
                 mt_updated_at := rt_now rt\<rparr>) (py_transactions db)\<rparr>"

definition find_mpesa_transaction :: "'a payments_db_scheme \<Rightarrow> string \<Rightarrow> string \<Rightarrow> mpesa_transaction option" where
  "find_mpesa_transaction db tenant checkout =
     select_first (transaction_for tenant checkout) (py_transactions db)"

end
