(* ===== verification/Fraud_Detection.thy ===== *)
theory Fraud_Detection
  imports Payments_Store
begin

text \<open>
  \<open>modules/security/fraud-detection.service.ts\<close>: the alerts a payment raises, each a line of the audit
  log. The counters live in Redis: \<open>counter key\<close> is what \<open>INCR\<close> answers, or the error of the
  connection. The configured numbers are integers.
\<close>

type_synonym redis_counter = "string \<Rightarrow> int result"

text \<open>\<open>emitAlert\<close>, whose structured log line is output only.\<close>

definition emit_alert ::
  "runtime \<Rightarrow> string \<Rightarrow> string \<Rightarrow> uuid \<Rightarrow> (string \<times> json) list \<Rightarrow> 'a payments_db_scheme \<Rightarrow> 'a payments_db_scheme result" where
  "emit_alert rt tenant action intent metadata db =
     record_audit rt (Some tenant) action ''payment_intent'' (Some intent) (JObj metadata) db"

definition alert_when ::
  "bool \<Rightarrow> ('a payments_db_scheme \<Rightarrow> 'a payments_db_scheme result) \<Rightarrow> 'a payments_db_scheme \<Rightarrow> 'a payments_db_scheme result" where
  "alert_when c alert db = (if c then alert db else Inr db)"

text \<open>\<open>BigInt(configService.get<string>(...) ?? '5000000')\<close> of a decimal text; another text is a SyntaxError.\<close>

definition high_value_threshold :: "runtime \<Rightarrow> int result" where
  "high_value_threshold rt =
     (let t = js_trim (or_default (rt_config rt ''security.fraudHighValueAmountMinor'') ''5000000'');
          signed = (t \<noteq> [] \<and> (hd t = CHR ''-'' \<or> hd t = CHR ''+''));
          digits = (if signed then tl t else t)
      in if t = [] then Inr 0
         else if digits_only digits then
           Inr (if hd t = CHR ''-'' then - int (parse_nat digits) else int (parse_nat digits))
         else Inl (InternalServerErrorException ''SyntaxError: Cannot convert to a BigInt''))"

definition fraud_window_seconds :: "runtime \<Rightarrow> int" where
  "fraud_window_seconds rt = config_number rt ''security.fraudVelocityWindowSeconds'' 900"

text \<open>\<open>loadRecentPaymentSignals\<close>: the latest 250 intents of the window.\<close>

definition recent_payment_signals :: "runtime \<Rightarrow> string \<Rightarrow> 'a payments_db_scheme \<Rightarrow> payment_intent list" where
  "recent_payment_signals rt tenant db =
     take 250 (sort_key (\<lambda>r. - in_created_at r)
       (filter (\<lambda>r. in_tenant_id r = tenant \<and> rt_now rt - 1000 * fraud_window_seconds rt \<le> in_created_at r)
         (py_intents db)))"

definition distinct_sorted :: "string list \<Rightarrow> string list" where
  "distinct_sorted xs = sort (js_uniq xs)"

definition inspect_payment_intent_creation ::
  "runtime \<Rightarrow> redis_counter \<Rightarrow> payment_intent \<Rightarrow> string \<Rightarrow> 'a payments_db_scheme \<Rightarrow> 'a payments_db_scheme result" where
  "inspect_payment_intent_creation rt counter p amount_minor db =
     (let tenant = in_tenant_id p; phone = in_phone_number p;
          masked = json_opt (mask_phone_number (Some phone));
          account = JStr (in_account_reference p) in
      and_then (high_value_threshold rt) (\<lambda>threshold.
      and_then (alert_when (threshold \<le> parse_int amount_minor)
        (emit_alert rt tenant ''fraud.payment.high_value_detected'' (in_id p)
          [(''severity'', JStr ''high''), (''amount_minor'', JStr amount_minor), (''account_reference'', account),
           (''external_reference'', json_opt (in_external_reference p)), (''phone_number_masked'', masked)]) db) (\<lambda>db1.
      and_then (counter (''fraud:velocity:payment-intent:'' @ tenant @ '':'' @ phone)) (\<lambda>velocity.
      and_then (alert_when (config_number rt ''security.fraudVelocityThreshold'' 5 \<le> velocity)
        (emit_alert rt tenant ''fraud.payment.velocity_detected'' (in_id p)
          [(''severity'', JStr ''medium''), (''velocity_count'', JNum (show_int velocity)),
           (''account_reference'', account), (''phone_number_masked'', masked)]) db1) (\<lambda>db2.
      let same_phone = filter (\<lambda>r. in_phone_number r = phone) (recent_payment_signals rt tenant db2);
          accounts = distinct_sorted (map in_account_reference same_phone);
          same_amount = distinct_sorted (map in_account_reference
            (filter (\<lambda>r. show_int (in_amount_minor r) = amount_minor) same_phone)) in
      and_then (alert_when (config_number rt ''security.fraudCrossAccountThreshold'' 3 \<le> int (length accounts))
        (emit_alert rt tenant ''fraud.payment.phone_reused_across_accounts'' (in_id p)
          [(''severity'', JStr ''medium''), (''account_reference'', account),
           (''distinct_account_references'', JNum (show_nat (length accounts))),
           (''account_references'', JArr (map JStr accounts)), (''phone_number_masked'', masked)]) db2) (\<lambda>db3.
      alert_when (config_number rt ''security.fraudRepeatedAmountThreshold'' 3 \<le> int (length same_amount))
        (emit_alert rt tenant ''fraud.payment.suspicious_pattern_detected'' (in_id p)
          [(''severity'', JStr ''high''), (''reason'', JStr ''repeated_amount_across_accounts''),
           (''amount_minor'', JStr amount_minor),
           (''distinct_account_references'', JNum (show_nat (length same_amount))),
           (''account_references'', JArr (map JStr same_amount)), (''phone_number_masked'', masked)]) db3))))))"

definition record_callback_failure ::
  "runtime \<Rightarrow> redis_counter \<Rightarrow> string \<Rightarrow> uuid \<Rightarrow> string \<Rightarrow> string \<Rightarrow> string option \<Rightarrow>
     'a payments_db_scheme \<Rightarrow> 'a payments_db_scheme result" where
  "record_callback_failure rt counter tenant intent checkout reason phone db =
     and_then (counter (''fraud:mpesa:callback-failure:'' @ tenant @ '':'' @ checkout)) (\<lambda>n.
       alert_when (config_number rt ''security.fraudCallbackFailureThreshold'' 3 \<le> n)
         (emit_alert rt tenant ''fraud.mpesa.callback_failures_detected'' intent
           [(''severity'', JStr ''medium''), (''checkout_request_id'', JStr checkout),
            (''failure_reason'', JStr reason), (''failure_count'', JNum (show_int n)),
            (''phone_number_masked'', json_opt (mask_phone_number phone))]) db)"

definition record_callback_mismatch ::
  "runtime \<Rightarrow> string \<Rightarrow> payment_intent \<Rightarrow> parsed_callback \<Rightarrow> 'a payments_db_scheme \<Rightarrow> 'a payments_db_scheme result" where
  "record_callback_mismatch rt failure_type p c db =
     emit_alert rt (in_tenant_id p) (''fraud.mpesa.'' @ failure_type) (in_id p)
       [(''severity'', JStr ''high''), (''checkout_request_id'', JStr (pc_checkout_request_id c)),
        (''expected_amount_minor'', JStr (show_int (in_amount_minor p))),
        (''received_amount_minor'', json_opt (pc_amount_minor c)),
        (''expected_phone_number_masked'', json_opt (mask_phone_number (Some (in_phone_number p)))),
        (''received_phone_number_masked'', json_opt (mask_phone_number (pc_phone_number c)))] db"

end
