(* ===== verification/Payments_Service.thy ===== *)
theory Payments_Service
  imports Fraud_Detection
begin

text \<open>
  \<open>MpesaService.createPaymentIntent\<close>: a payment intent under an idempotency key, its inspection, the STK
  push to the gateway and the stored response; and the sweep of \<open>mpesa-payment-recovery.service.ts\<close>. The
  gateway's answers, the resolved M-PESA configuration, base 64 and the Nairobi time are parameters.
\<close>

definition MPESA_PAYMENT_INTENT_SCOPE :: string where
  "MPESA_PAYMENT_INTENT_SCOPE = ''payments:mpesa:payment-intents:create''"

definition MPESA_PAYMENT_INTENT_REQUEST_METHOD :: string where
  "MPESA_PAYMENT_INTENT_REQUEST_METHOD = ''POST''"

definition MPESA_PAYMENT_INTENT_REQUEST_PATH :: string where
  "MPESA_PAYMENT_INTENT_REQUEST_PATH = ''/payments/mpesa/payment-intents''"

definition MPESA_DEFAULT_CURRENCY_CODE :: string where
  "MPESA_DEFAULT_CURRENCY_CODE = ''KES''"

definition MPESA_EXPIRED_PAYMENT_FAILURE_REASON :: string where
  "MPESA_EXPIRED_PAYMENT_FAILURE_REASON = ''M-PESA callback not received before expiry''"

section \<open>The gateway\<close>

text \<open>The part of \<open>ResolvedTenantMpesaConfig\<close> that the service reads.\<close>

record mpesa_config =
  mc_mpesa_config_id :: "uuid option"
  mc_payment_channel_id :: "uuid option"
  mc_shortcode :: string
  mc_till_number :: "string option"
  mc_passkey :: string
  mc_callback_url :: string
  mc_transaction_type :: string
  mc_ledger_debit_account_code :: string
  mc_ledger_credit_account_code :: string

record stk_push_request =
  sp_BusinessShortCode :: string
  sp_Password :: string
  sp_Timestamp :: string
  sp_TransactionType :: string
  sp_Amount :: string
  sp_PartyA :: string
  sp_PartyB :: string
  sp_PhoneNumber :: string
  sp_CallBackURL :: string
  sp_AccountReference :: string
  sp_TransactionDesc :: string

text \<open>An HTTP answer; its body as \<open>tryParseJson\<close> reads it.\<close>

record stk_body =
  kb_MerchantRequestID :: "string option"
  kb_CheckoutRequestID :: "string option"
  kb_ResponseCode :: "string option"
  kb_ResponseDescription :: "string option"
  kb_CustomerMessage :: "string option"

record http_response =
  hr_ok :: bool
  hr_status :: nat
  hr_text :: string
  hr_body :: "stk_body option"

record gateway =
  gw_config :: "string \<Rightarrow> payment_owner \<Rightarrow> mpesa_config result"
  gw_access_token :: "mpesa_config \<Rightarrow> string result"
  gw_fetch :: "mpesa_config \<Rightarrow> string \<Rightarrow> stk_push_request \<Rightarrow> http_response result"
  gw_base64 :: "string \<Rightarrow> string"
  gw_nairobi_timestamp :: "int \<Rightarrow> string"

definition build_stk_push_request ::
  "runtime \<Rightarrow> gateway \<Rightarrow> payment_intent \<Rightarrow> mpesa_config \<Rightarrow> stk_push_request result" where
  "build_stk_push_request rt gw p mc =
     (let timestamp = gw_nairobi_timestamp gw (rt_clock rt);
          password = gw_base64 gw (mc_shortcode mc @ mc_passkey mc @ timestamp)
      in and_then (convert_minor_to_stk_amount (show_int (in_amount_minor p))) (\<lambda>amount.
         Inr \<lparr>sp_BusinessShortCode = mc_shortcode mc, sp_Password = password, sp_Timestamp = timestamp,
              sp_TransactionType = mc_transaction_type mc, sp_Amount = amount, sp_PartyA = in_phone_number p,
              sp_PartyB = mc_shortcode mc, sp_PhoneNumber = in_phone_number p,
              sp_CallBackURL = mc_callback_url mc, sp_AccountReference = in_account_reference p,
              sp_TransactionDesc = in_transaction_desc p\<rparr>))"

definition read_stk_response :: "http_response \<Rightarrow> stk_response result" where
  "read_stk_response r =
     (case hr_body r of
        None \<Rightarrow> Inl (BadGatewayException (''M-PESA STK push request failed: '' @ show_nat (hr_status r) @ '' '' @ hr_text r))
      | Some b \<Rightarrow>
          if \<not> hr_ok r then
            Inl (BadGatewayException (''M-PESA STK push request failed: '' @ show_nat (hr_status r) @ '' '' @ hr_text r))
          else if \<not> truthy (kb_MerchantRequestID b) \<or> \<not> truthy (kb_CheckoutRequestID b) \<or> kb_ResponseCode b = None then
            Inl (BadGatewayException ''M-PESA STK push response was incomplete'')
          else if kb_ResponseCode b \<noteq> Some ''0'' then
            Inl (BadGatewayException (''M-PESA STK push was rejected: '' @
              or_default (kb_ResponseDescription b) ''undefined''))
          else
            Inr \<lparr>sr_merchant_request_id = the (kb_MerchantRequestID b),
                 sr_checkout_request_id = the (kb_CheckoutRequestID b), sr_response_code = ''0'',
                 sr_response_description = kb_ResponseDescription b, sr_customer_message = kb_CustomerMessage b\<rparr>)"

definition send_stk_push :: "runtime \<Rightarrow> gateway \<Rightarrow> payment_intent \<Rightarrow> mpesa_config \<Rightarrow> stk_response result" where
  "send_stk_push rt gw p mc =
     and_then (gw_access_token gw mc) (\<lambda>token.
     and_then (build_stk_push_request rt gw p mc) (\<lambda>request.
     and_then (gw_fetch gw mc token request) read_stk_response))"

section \<open>Creation of a payment intent\<close>

record intent_dto =
  dt_idempotency_key :: string
  dt_amount_minor :: string
  dt_phone_number :: string
  dt_student_id :: "string option"
  dt_account_reference :: string
  dt_transaction_desc :: string
  dt_external_reference :: "string option"
  dt_metadata :: "(string \<times> json) list option"

definition intent_hash_payload :: "intent_dto \<Rightarrow> json" where
  "intent_hash_payload dto =
     JObj [(''idempotency_key'', JStr (js_trim (dt_idempotency_key dto))),
           (''amount_minor'', JStr (js_trim (dt_amount_minor dto))),
           (''phone_number'', JStr (js_trim (dt_phone_number dto))),
           (''account_reference'', JStr (js_trim (dt_account_reference dto))),
           (''transaction_desc'', JStr (js_trim (dt_transaction_desc dto))),
           (''student_id'', json_opt (dt_student_id dto)),
           (''external_reference'', json_opt (map_option js_trim (dt_external_reference dto))),
           (''metadata'', JObj (or_default (dt_metadata dto) []))]"

definition intent_idempotency_hash :: "runtime \<Rightarrow> intent_dto \<Rightarrow> string" where
  "intent_idempotency_hash rt dto = rt_sha256 rt (stable_serialize (intent_hash_payload dto))"

definition require_mpesa_tenant_id :: "string \<Rightarrow> runtime \<Rightarrow> string result" where
  "require_mpesa_tenant_id purpose rt =
     (case rt_tenant_id rt of
        None \<Rightarrow> Inl (UnauthorizedException (''Tenant context is required for '' @ purpose))
      | Some t \<Rightarrow> if t = [] then Inl (UnauthorizedException (''Tenant context is required for '' @ purpose)) else Inr t)"

definition to_payment_intent_response :: "payment_intent \<Rightarrow> intent_response" where
  "to_payment_intent_response p =
     \<lparr>ir_payment_intent_id = in_id p, ir_tenant_id = in_tenant_id p, ir_student_id = in_student_id p,
      ir_status = in_status p, ir_amount_minor = show_int (in_amount_minor p),
      ir_currency_code = in_currency_code p, ir_payment_owner = in_payment_owner p,
      ir_mpesa_short_code = in_mpesa_short_code p, ir_payment_channel_type = in_payment_channel_type p,
      ir_phone_number = in_phone_number p, ir_account_reference = in_account_reference p,
      ir_external_reference = in_external_reference p, ir_merchant_request_id = in_merchant_request_id p,
      ir_checkout_request_id = in_checkout_request_id p, ir_response_code = in_response_code p,
      ir_response_description = in_response_description p, ir_customer_message = in_customer_message p,
      ir_created_at = in_created_at p, ir_updated_at = in_updated_at p\<rparr>"

definition pending_input ::
  "runtime \<Rightarrow> string \<Rightarrow> uuid \<Rightarrow> intent_dto \<Rightarrow> string \<Rightarrow> string \<Rightarrow> payment_owner \<Rightarrow> mpesa_config \<Rightarrow> create_intent_input" where
  "pending_input rt tenant key_id dto phone amount owner mc =
     \<lparr>ni_tenant_id = tenant, ni_idempotency_key_id = key_id, ni_user_id = acting_user rt,
      ni_student_id = dt_student_id dto, ni_request_id = Some (rt_request_id rt),
      ni_external_reference = read_string (dt_external_reference dto),
      ni_account_reference = js_trim (dt_account_reference dto),
      ni_transaction_desc = js_trim (dt_transaction_desc dto), ni_phone_number = phone,
      ni_amount_minor = amount, ni_currency_code = MPESA_DEFAULT_CURRENCY_CODE, ni_payment_owner = Some owner,
      ni_mpesa_config_id = mc_mpesa_config_id mc, ni_payment_channel_id = mc_payment_channel_id mc,
      ni_mpesa_short_code = Some (mc_shortcode mc),
      ni_payment_channel_type = Some (if truthy (mc_till_number mc) then ''mpesa_till'' else ''mpesa_paybill''),
      ni_ledger_debit_account_code = Some (mc_ledger_debit_account_code mc),
      ni_ledger_credit_account_code = Some (mc_ledger_credit_account_code mc),
      ni_metadata = or_default (dt_metadata dto) []\<rparr>"

definition intent_lock_input :: "runtime \<Rightarrow> string \<Rightarrow> intent_dto \<Rightarrow> string \<Rightarrow> string \<Rightarrow> lock_input" where
  "intent_lock_input rt tenant dto phone amount =
     \<lparr>li_tenant_id = tenant, li_user_id = acting_user rt, li_scope = MPESA_PAYMENT_INTENT_SCOPE,
      li_key = js_trim (dt_idempotency_key dto),
      li_request_hash = intent_idempotency_hash rt (dto\<lparr>dt_phone_number := phone, dt_amount_minor := amount\<rparr>),
      li_request_method = MPESA_PAYMENT_INTENT_REQUEST_METHOD,
      li_request_path = MPESA_PAYMENT_INTENT_REQUEST_PATH,
      li_ttl_seconds = config_number rt ''finance.idempotencyTtlSeconds'' 86400\<rparr>"

text \<open>The work under the locked key, and the whole transaction.\<close>

definition create_locked_intent ::
  "runtime \<Rightarrow> gateway \<Rightarrow> redis_counter \<Rightarrow> string \<Rightarrow> intent_dto \<Rightarrow> string \<Rightarrow> string \<Rightarrow> payment_owner \<Rightarrow> mpesa_config \<Rightarrow>
     uuid \<Rightarrow> 'a payments_db_scheme \<Rightarrow> (intent_response \<times> 'a payments_db_scheme) result" where
  "create_locked_intent rt gw counter tenant dto phone amount owner mc key_id db =
     and_then (create_pending rt (pending_input rt tenant key_id dto phone amount owner mc) db) (\<lambda>(p, db1).
     and_then (inspect_payment_intent_creation rt counter p amount db1) (\<lambda>db2.
     and_then (send_stk_push rt gw p mc) (\<lambda>stk.
     and_then (mark_stk_requested rt tenant (in_id p) stk
         (config_number rt ''mpesa.paymentIntentExpirySeconds'' 1800) db2) (\<lambda>(p', db3).
     let response = to_payment_intent_response p'
     in Inr (response, db3\<lparr>py_keys := mark_completed rt tenant key_id 201 response (py_keys db3)\<rparr>)))))"

definition create_payment_intent_callback ::
  "runtime \<Rightarrow> gateway \<Rightarrow> redis_counter \<Rightarrow> intent_dto \<Rightarrow> payment_owner option \<Rightarrow> 'a payments_db_scheme \<Rightarrow>
     (intent_response \<times> 'a payments_db_scheme) result" where
  "create_payment_intent_callback rt gw counter dto payment_owner db =
     and_then (require_mpesa_tenant_id ''M-PESA payments'' rt) (\<lambda>tenant.
     and_then (normalize_phone_number (dt_phone_number dto)) (\<lambda>phone.
     and_then (mpesa_minor_amount (dt_amount_minor dto)) (\<lambda>amount.
     let owner = or_default payment_owner OwnerTenant in
     and_then (gw_config gw tenant owner) (\<lambda>mc.
     and_then (intent_lock_request rt (intent_lock_input rt tenant dto phone amount) (py_keys db)) (\<lambda>(r, rows).
     case replay_body r of
       Some response \<Rightarrow> Inr (response, db\<lparr>py_keys := rows\<rparr>)
     | None \<Rightarrow> create_locked_intent rt gw counter tenant dto phone amount owner mc (ik_id r)
                 (db\<lparr>py_keys := rows\<rparr>))))))"

definition create_payment_intent ::
  "bool \<Rightarrow> runtime \<Rightarrow> gateway \<Rightarrow> redis_counter \<Rightarrow> intent_dto \<Rightarrow> payment_owner option \<Rightarrow> 'a payments_db_scheme \<Rightarrow>
     (intent_response \<times> 'a payments_db_scheme) result" where
  "create_payment_intent nested rt gw counter dto payment_owner db =
     with_request_transaction nested (deferred_balance_checks db)
       (create_payment_intent_callback rt gw counter dto payment_owner) db"

definition create_platform_payment_intent ::
  "bool \<Rightarrow> runtime \<Rightarrow> gateway \<Rightarrow> redis_counter \<Rightarrow> intent_dto \<Rightarrow> 'a payments_db_scheme \<Rightarrow>
     (intent_response \<times> 'a payments_db_scheme) result" where
  "create_platform_payment_intent nested rt gw counter dto db =
     create_payment_intent nested rt gw counter dto (Some OwnerPlatform) db"

section \<open>The sweep of stale intents\<close>

definition expire_stale_payment_intents ::
  "runtime \<Rightarrow> (uuid \<Rightarrow> bool) \<Rightarrow> 'a payments_db_scheme \<Rightarrow> (uuid list \<times> 'a payments_db_scheme) result" where
  "expire_stale_payment_intents rt locked db =
     and_then (require_mpesa_tenant_id ''MPESA payment recovery'' rt) (\<lambda>tenant.
     with_request_transaction False (deferred_balance_checks db)
       (\<lambda>db. and_then (expire_stale_pending_intents rt locked tenant
            (config_number rt ''mpesa.staleIntentSweepBatchSize'' 100)
            MPESA_EXPIRED_PAYMENT_FAILURE_REASON db) (\<lambda>(expired, db'). Inr (map in_id expired, db'))) db)"

end
