(* ===== verification/Payments_Processor.thy ===== *)
theory Payments_Processor
  imports Payments_Service Billing_Service Ledger
begin

text \<open>
  \<open>MpesaCallbackProcessorService\<close>: the worker's job that settles a logged callback. The callback is
  parsed again from its log; in one transaction the intent is locked, the M-PESA transaction recorded and,
  for a success, the money posted to the ledger, the intent completed, the fees or the subscription
  invoice settled and the event published. The statuses of the logs are written outside that transaction.
\<close>

definition AUTH_GUEST_ROLE :: string where
  "AUTH_GUEST_ROLE = ''guest''"

definition MPESA_LEDGER_IDEMPOTENCY_PREFIX :: string where
  "MPESA_LEDGER_IDEMPOTENCY_PREFIX = ''mpesa:checkout''"

section \<open>The job\<close>

record payment_job =
  pj_tenant_id :: string
  pj_checkout_request_id :: "string option"
  pj_callback_log_id :: "uuid option"
  pj_request_id :: string
  pj_trace_id :: "string option"
  pj_parent_span_id :: "string option"
  pj_user_id :: "string option"
  pj_role :: "string option"
  pj_session_id :: "string option"

datatype job_status = JobCompleted | JobFailed | JobDuplicate

record job_result =
  jr_job_id :: string
  jr_tenant_id :: string
  jr_checkout_request_id :: string
  jr_callback_log_id :: uuid
  jr_payment_intent_id :: "uuid option"
  jr_mpesa_transaction_id :: "uuid option"
  jr_ledger_transaction_id :: "uuid option"
  jr_status :: job_status
  jr_processed_at :: int
  jr_failure_reason :: "string option"

text \<open>What the worker uses of other parties: \<open>JSON.parse\<close>, Redis, the rows other transactions hold.\<close>

record worker_env =
  we_json_parse :: "string \<Rightarrow> callback_body result"
  we_counter :: redis_counter
  we_locked :: "uuid \<Rightarrow> bool"

text \<open>
  The request context of the job; outside a request a missing trace is the request's id and the span is
  new, here the one of \<open>rt\<close>.
\<close>

definition worker_context :: "runtime \<Rightarrow> payment_job \<Rightarrow> runtime" where
  "worker_context rt job =
     rt\<lparr>rt_request_id := pj_request_id job, rt_trace_id := or_default (pj_trace_id job) (pj_request_id job),
        rt_parent_span_id := pj_parent_span_id job, rt_tenant_id := Some (pj_tenant_id job),
        rt_user_id := or_default (pj_user_id job) AUTH_ANONYMOUS_USER_ID,
        rt_role := Some (or_default (pj_role job) AUTH_GUEST_ROLE), rt_session_id := pj_session_id job,
        rt_client_ip := None, rt_user_agent := Some ''system:mpesa-callback-processor''\<rparr>"

definition build_job_result ::
  "runtime \<Rightarrow> string \<Rightarrow> string \<Rightarrow> uuid \<Rightarrow> uuid \<Rightarrow> uuid \<Rightarrow> uuid option \<Rightarrow> job_status \<Rightarrow> string option \<Rightarrow> job_result" where
  "build_job_result rt job_id checkout log_id intent txn ledger status reason =
     \<lparr>jr_job_id = job_id, jr_tenant_id = or_default (rt_tenant_id rt) [], jr_checkout_request_id = checkout,
      jr_callback_log_id = log_id, jr_payment_intent_id = Some intent, jr_mpesa_transaction_id = Some txn,
      jr_ledger_transaction_id = ledger, jr_status = status, jr_processed_at = rt_clock rt,
      jr_failure_reason = reason\<rparr>"

section \<open>The callback of a job\<close>

definition read_callback_payload :: "worker_env \<Rightarrow> runtime \<Rightarrow> callback_log \<Rightarrow> parsed_callback result" where
  "read_callback_payload env rt l =
     (case cl_raw_payload l of
        Some body \<Rightarrow> parse_callback_payload body
      | None \<Rightarrow>
          (case and_then (we_json_parse env (cl_raw_body l)) parse_callback_payload of
             Inr c \<Rightarrow> Inr c
           | Inl e \<Rightarrow> Inl (BadRequestException (exn_message rt e))))"

definition require_checkout_request_id :: "string option \<Rightarrow> string result" where
  "require_checkout_request_id v =
     (case read_string v of
        None \<Rightarrow> Inl (BadRequestException ''checkout_request_id is required for payment processing'')
      | Some s \<Rightarrow> Inr s)"

definition get_required_callback_log :: "'a payments_db_scheme \<Rightarrow> string \<Rightarrow> uuid \<Rightarrow> callback_log result" where
  "get_required_callback_log db tenant i =
     (case find_log_by_id db tenant i of
        None \<Rightarrow> Inl (NotFoundException (''MPESA callback log '' @ quoted (uuid_text i) @ '' was not found''))
      | Some l \<Rightarrow> Inr l)"

definition get_latest_callback_log ::
  "'a payments_db_scheme \<Rightarrow> string \<Rightarrow> string \<Rightarrow> callback_log result" where
  "get_latest_callback_log db tenant checkout =
     (case find_latest_log_by_checkout_request_id db tenant checkout of
        None \<Rightarrow> Inl (NotFoundException
          (''MPESA callback log for checkout request '' @ quoted checkout @ '' was not found''))
      | Some l \<Rightarrow> Inr l)"

definition resolve_callback_log ::
  "worker_env \<Rightarrow> runtime \<Rightarrow> payment_job \<Rightarrow> 'a payments_db_scheme \<Rightarrow> (callback_log \<times> parsed_callback) result" where
  "resolve_callback_log env rt job db =
     and_then (case pj_callback_log_id job of
         Some i \<Rightarrow> get_required_callback_log db (pj_tenant_id job) i
       | None \<Rightarrow> and_then (require_checkout_request_id (pj_checkout_request_id job))
                  (get_latest_callback_log db (pj_tenant_id job))) (\<lambda>l.
     and_then (read_callback_payload env rt l) (\<lambda>c.
     if truthy (pj_checkout_request_id job) \<and> pj_checkout_request_id job \<noteq> Some (pc_checkout_request_id c) then
       Inl (BadRequestException (''Callback log '' @ quoted (uuid_text (cl_id l)) @
         '' does not match checkout request '' @ quoted (the (pj_checkout_request_id job))))
     else Inr (l, c)))"

section \<open>Settlement\<close>

definition is_terminal_payment_intent :: "intent_status \<Rightarrow> bool" where
  "is_terminal_payment_intent s \<longleftrightarrow> s = PiCompleted \<or> s = PiFailed \<or> s = PiCancelled \<or> s = PiExpired"

definition is_non_completable_payment_intent :: "intent_status \<Rightarrow> bool" where
  "is_non_completable_payment_intent s \<longleftrightarrow> s = PiFailed \<or> s = PiCancelled \<or> s = PiExpired"

definition lock_payment_intent ::
  "'a payments_db_scheme \<Rightarrow> string \<Rightarrow> parsed_callback \<Rightarrow> payment_intent result" where
  "lock_payment_intent db tenant c =
     (case lock_by_checkout_or_merchant_request_id db tenant (pc_checkout_request_id c) (pc_merchant_request_id c) of
        None \<Rightarrow> Inl (NotFoundException
          (''Payment intent for checkout request '' @ quoted (pc_checkout_request_id c) @ '' was not found''))
      | Some p \<Rightarrow> Inr p)"

text \<open>The alert is written, then the exception rolls it back with the rest of the transaction.\<close>

definition assert_callback_matches_intent ::
  "runtime \<Rightarrow> payment_intent \<Rightarrow> parsed_callback \<Rightarrow> 'a payments_db_scheme \<Rightarrow> unit result" where
  "assert_callback_matches_intent rt p c db =
     (if truthy (pc_amount_minor c) \<and> pc_amount_minor c \<noteq> Some (show_int (in_amount_minor p)) then
        and_then (record_callback_mismatch rt ''amount_mismatch'' p c db) (\<lambda>_.
          Inl (BadRequestException (''M-PESA callback amount mismatch for checkout request '' @
            quoted (pc_checkout_request_id c))))
      else if truthy (pc_phone_number c) \<and> pc_phone_number c \<noteq> Some (in_phone_number p) then
        and_then (record_callback_mismatch rt ''phone_mismatch'' p c db) (\<lambda>_.
          Inl (BadRequestException (''M-PESA callback phone number mismatch for checkout request '' @
            quoted (pc_checkout_request_id c))))
      else Inr ())"

definition require_mpesa_config :: "runtime \<Rightarrow> string \<Rightarrow> string result" where
  "require_mpesa_config rt key =
     (let v = or_default (rt_config rt key) []
      in if js_trim v = [] then Inl (BadRequestException (''Missing MPESA configuration value '' @ quoted key))
         else Inr v)"

text \<open>The two accounts of the posting, by the configured codes.\<close>

definition mpesa_ledger_accounts :: "runtime \<Rightarrow> string \<Rightarrow> 'a finance_db_scheme \<Rightarrow> (account \<times> account) result" where
  "mpesa_ledger_accounts rt tenant db =
     and_then (require_mpesa_config rt ''mpesa.ledgerDebitAccountCode'') (\<lambda>debit_code.
     and_then (require_mpesa_config rt ''mpesa.ledgerCreditAccountCode'') (\<lambda>credit_code.
     case (find_account_by_code db tenant debit_code, find_account_by_code db tenant credit_code) of
       (Some d, Some c) \<Rightarrow> Inr (d, c)
     | _ \<Rightarrow> Inl (NotFoundException ''Configured MPESA ledger accounts were not found in this tenant'')))"

definition uuid_opt_json :: "uuid option \<Rightarrow> json" where
  "uuid_opt_json v = json_opt (map_option uuid_text v)"

definition mpesa_post_input ::
  "payment_intent \<Rightarrow> parsed_callback \<Rightarrow> string \<Rightarrow> account \<Rightarrow> account \<Rightarrow> post_input" where
  "mpesa_post_input p c amount debit credit =
     \<lparr>pi_idempotency_key = MPESA_LEDGER_IDEMPOTENCY_PREFIX @ '':'' @ pc_checkout_request_id c,
      pi_reference = ''MPESA-'' @ pc_checkout_request_id c,
      pi_description = ''M-PESA payment '' @ or_default (in_external_reference p) (in_account_reference p),
      pi_effective_at = None, pi_posted_at = None,
      pi_metadata = Some (JObj
        [(''source'', JStr ''mpesa''), (''payment_intent_id'', JStr (uuid_text (in_id p))),
         (''student_id'', uuid_opt_json (in_student_id p)),
         (''checkout_request_id'', JStr (pc_checkout_request_id c)),
         (''merchant_request_id'', JStr (pc_merchant_request_id c)),
         (''mpesa_receipt_number'', json_opt (pc_mpesa_receipt_number c)),
         (''external_reference'', json_opt (in_external_reference p))]),
      pi_entries =
        [\<lparr>pe_account_id = ac_id debit, pe_direction = Debit, pe_amount_minor = amount,
          pe_currency_code = Some MPESA_DEFAULT_CURRENCY_CODE,
          pe_description = Some (''M-PESA funds received ('' @ pc_checkout_request_id c @ '')''),
          pe_metadata = Some (JObj [(''mpesa_receipt_number'', json_opt (pc_mpesa_receipt_number c))])\<rparr>,
         \<lparr>pe_account_id = ac_id credit, pe_direction = Credit, pe_amount_minor = amount,
          pe_currency_code = Some MPESA_DEFAULT_CURRENCY_CODE,
          pe_description = Some (''Customer deposit ('' @ in_account_reference p @ '')''),
          pe_metadata = Some (JObj
            [(''payment_intent_id'', JStr (uuid_text (in_id p))), (''student_id'', uuid_opt_json (in_student_id p)),
             (''account_reference'', JStr (in_account_reference p))])\<rparr>]\<rparr>"

text \<open>What billing reads of the intent.\<close>

definition completed_intent_of :: "payment_intent \<Rightarrow> completed_intent" where
  "completed_intent_of p =
     \<lparr>cp_id = in_id p, cp_tenant_id = in_tenant_id p, cp_student_id = in_student_id p, cp_user_id = in_user_id p,
      cp_external_reference = in_external_reference p, cp_account_reference = Some (in_account_reference p),
      cp_ledger_transaction_id = in_ledger_transaction_id p, cp_metadata = in_metadata p\<rparr>"

definition payment_completed_payload ::
  "runtime \<Rightarrow> payment_intent \<Rightarrow> parsed_callback \<Rightarrow> uuid \<Rightarrow> uuid \<Rightarrow> json" where
  "payment_completed_payload rt p c txn ledger =
     JObj [(''tenant_id'', JStr (in_tenant_id p)), (''payment_intent_id'', JStr (uuid_text (in_id p))),
       (''mpesa_transaction_id'', JStr (uuid_text txn)),
       (''checkout_request_id'', JStr (pc_checkout_request_id c)),
       (''merchant_request_id'', JStr (pc_merchant_request_id c)),
       (''ledger_transaction_id'', JStr (uuid_text ledger)),
       (''amount_minor'', JStr (or_default (pc_amount_minor c) (show_int (in_amount_minor p)))),
       (''currency_code'', JStr (in_currency_code p)), (''account_reference'', JStr (in_account_reference p)),
       (''external_reference'', json_opt (in_external_reference p)),
       (''mpesa_receipt_number'', json_opt (pc_mpesa_receipt_number c)),
       (''phone_number'', json_opt (pc_phone_number c)), (''completed_at'', JStr (iso_string (rt_clock rt)))]"

text \<open>The branch of a success on an intent that is still open: lines 506 to 600.\<close>

definition settle_payment ::
  "runtime \<Rightarrow> (uuid \<Rightarrow> bool) \<Rightarrow> string \<Rightarrow> payment_intent \<Rightarrow> parsed_callback \<Rightarrow> string \<Rightarrow> uuid \<Rightarrow>
     'a payments_db_scheme \<Rightarrow> (uuid \<times> 'a payments_db_scheme) result" where
  "settle_payment rt locked tenant p c amount txn db =
     (let db1 = mark_intent_processing rt tenant (in_id p) db in
      and_then (mpesa_ledger_accounts rt tenant db1) (\<lambda>(debit, credit).
      and_then (post_transaction True rt (mpesa_post_input p c amount debit credit) db1) (\<lambda>(posted, db2).
      let ledger = pt_transaction_id posted;
          db3 = attach_ledger_transaction rt tenant (pc_checkout_request_id c) ledger db2;
          db4 = mark_intent_completed rt tenant (in_id p) ledger db3 in
      and_then (handle_payment_intent_completed rt locked tenant (in_id p) amount
          (Some (completed_intent_of p)) (Some ledger) db4) (\<lambda>db5.
      and_then (publish_payment_completed rt (in_id p) (payment_completed_payload rt p c txn ledger) db5) (\<lambda>db6.
      Inr (ledger, db6))))))"

definition process_locked_payment ::
  "worker_env \<Rightarrow> runtime \<Rightarrow> string \<Rightarrow> callback_log \<Rightarrow> parsed_callback \<Rightarrow> string \<Rightarrow> 'a payments_db_scheme \<Rightarrow>
     (job_result \<times> 'a payments_db_scheme) result" where
  "process_locked_payment env rt tenant l c job_id db =
     and_then (lock_payment_intent db tenant c) (\<lambda>p.
     let checkout = pc_checkout_request_id c;
         db1 = (if is_terminal_payment_intent (in_status p) then db else mark_callback_received rt tenant (in_id p) db) in
     and_then (upsert_from_callback rt tenant (in_id p) l c db1) (\<lambda>(m, db2).
     let result = build_job_result rt job_id checkout (cl_id l) (in_id p) (mt_id m) in
     if pc_status c = MpesaFailed then
       and_then (record_callback_failure rt (we_counter env) tenant (in_id p) checkout (pc_result_desc c)
           (pc_phone_number c) db2) (\<lambda>db3.
         Inr (result None JobFailed (Some (pc_result_desc c)),
              mark_intent_failed rt tenant (in_id p) (pc_result_desc c) db3))
     else if \<not> truthy (pc_amount_minor c) then
       Inl (BadRequestException (''Successful M-PESA callback '' @ quoted checkout @ '' is missing amount metadata''))
     else
       and_then (assert_callback_matches_intent rt p c db2) (\<lambda>_.
       case mt_ledger_transaction_id m of
         Some ledger \<Rightarrow>
           Inr (result (Some ledger) JobDuplicate None,
                if in_status p \<noteq> PiCompleted then mark_intent_completed rt tenant (in_id p) ledger db2 else db2)
       | None \<Rightarrow>
           (case in_ledger_transaction_id p of
              Some ledger \<Rightarrow>
                Inr (result (Some ledger) JobDuplicate None,
                     attach_ledger_transaction rt tenant checkout ledger db2)
            | None \<Rightarrow>
                if is_non_completable_payment_intent (in_status p) then
                  Inr (result None JobFailed
                         (Some (or_default (in_failure_reason p)
                           (''Payment intent is already '' @ intent_status_text (in_status p) @
                            '' for checkout request '' @ quoted checkout))), db2)
                else
                  and_then (settle_payment rt (we_locked env) tenant p c (the (pc_amount_minor c)) (mt_id m) db2)
                    (\<lambda>(ledger, db3). Inr (result (Some ledger) JobCompleted None, db3))))))"

section \<open>The job's run\<close>

text \<open>
  \<open>processPaymentJobInternal\<close>. The run's state is what the database holds afterwards: the settlement is
  one transaction that commits or leaves nothing; the log's statuses before and after it stay.
\<close>

definition mark_job_failed ::
  "runtime \<Rightarrow> string \<Rightarrow> string option \<Rightarrow> uuid option \<Rightarrow> string \<Rightarrow> 'a payments_db_scheme \<Rightarrow> 'a payments_db_scheme" where
  "mark_job_failed rt tenant checkout log_id message db =
     (if truthy checkout then mark_logs_failed_by_checkout_request_id rt tenant (the checkout) message db
      else case log_id of Some i \<Rightarrow> mark_log_failed rt tenant i message db | None \<Rightarrow> db)"

definition process_payment_job ::
  "worker_env \<Rightarrow> runtime \<Rightarrow> payment_job \<Rightarrow> string \<Rightarrow> 'a payments_db_scheme \<Rightarrow>
     job_result result \<times> 'a payments_db_scheme" where
  "process_payment_job env rt0 job job_id db =
     (let rt = worker_context rt0 job; tenant = pj_tenant_id job in
      case resolve_callback_log env rt job db of
        Inl e \<Rightarrow> (Inl e, mark_job_failed rt tenant (pj_checkout_request_id job) (pj_callback_log_id job)
                         (exn_message rt e) db)
      | Inr (l, c) \<Rightarrow>
          (let db1 = mark_log_processing rt tenant (cl_id l) db in
           case with_request_transaction False (deferred_balance_checks db1)
                  (process_locked_payment env rt tenant l c job_id) db1 of
             Inl e \<Rightarrow> (Inl e, mark_job_failed rt tenant (Some (pc_checkout_request_id c)) (Some (cl_id l))
                              (exn_message rt e) db1)
           | Inr (res, db2) \<Rightarrow>
               (Inr res, mark_logs_processed_by_checkout_request_id rt tenant (pc_checkout_request_id c) db2)))"

text \<open>The older queue's entry point, \<open>process\<close>.\<close>

definition process_callback_job ::
  "worker_env \<Rightarrow> runtime \<Rightarrow> payment_job \<Rightarrow> 'a payments_db_scheme \<Rightarrow> unit result \<times> 'a payments_db_scheme" where
  "process_callback_job env rt job db =
     (case process_payment_job env rt (job\<lparr>pj_checkout_request_id := None\<rparr>)
             (case pj_callback_log_id job of Some i \<Rightarrow> uuid_text i | None \<Rightarrow> ''undefined'') db of
        (Inl e, db') \<Rightarrow> (Inl e, db') | (Inr _, db') \<Rightarrow> (Inr (), db'))"

end
