(* ===== verification/Payments_Facts.thy ===== *)
theory Payments_Facts
  imports Payments_Processor Ledger_Properties Uuid_Facts Mpesa_Text_Claims
begin

text \<open>
  What the payment operations do to the tables: the fields each one writes, the invariant of the payment
  tables, the steps of the component and the runs they make.
\<close>

section \<open>The transactions of stored responses\<close>

definition posted_in :: "'a finance_db_scheme \<Rightarrow> string \<Rightarrow> uuid \<Rightarrow> bool" where
  "posted_in db tenant i \<longleftrightarrow> (\<exists>t\<in>set (fd_transactions db). tx_tenant_id t = tenant \<and> tx_id t = i)"

definition responses_ok :: "'a finance_db_scheme \<Rightarrow> bool" where
  "responses_ok db \<longleftrightarrow> (\<forall>r\<in>set (fd_idempotency_keys db). \<forall>b.
     replay_body r = Some b \<longrightarrow> posted_in db (ik_tenant_id r) (pt_transaction_id b))"

lemma lock_request_bodies:
  assumes "lock_request u m rt i rows0 = Inr (r, rows')"
  shows "r \<in> set rows'" and "ik_tenant_id r = li_tenant_id i"
    and "x \<in> set rows' \<Longrightarrow> x \<in> set rows0 \<or> replay_body x = None"
proof -
  from assms obtain rows r0 where ins: "insert_if_absent rt i rows0 = Inr rows"
    and got: "get_locked_record rows (input_key i) = Some r0"
    by (auto simp: lock_request_def and_then_eq_Inr split: option.splits)
  have rows: "x \<in> set rows \<Longrightarrow> x \<in> set rows0 \<or> replay_body x = None" for x
    using ins by (auto simp: insert_if_absent_Inr replay_body_def split: if_splits)
  have r0: "r0 \<in> set rows" "ik_tenant_id r0 = li_tenant_id i"
    using get_locked_recordD[OF got] by (auto simp: row_key_def input_key_def)
  have upd: "r \<in> set rows' \<and> ik_tenant_id r = li_tenant_id i \<and>
      (x \<in> set rows' \<longrightarrow> x \<in> set rows \<or> replay_body x = None)"
    if "update_returning (at_id (li_tenant_id i) (ik_id r0)) f rows = Inr (r, rows')"
      and "\<And>y. replay_body (f y) = None" "\<And>y. ik_tenant_id (f y) = ik_tenant_id y" for f
    using that by (auto simp: update_returning_def set_update_where at_id_def split: option.splits
        dest!: select_first_Some)
  have "r \<in> set rows' \<and> ik_tenant_id r = li_tenant_id i \<and>
      (x \<in> set rows' \<longrightarrow> x \<in> set rows \<or> replay_body x = None)"
  proof -
    consider (a) "update_returning (at_id (li_tenant_id i) (ik_id r0)) (reset_fields rt i) rows = Inr (r, rows')"
      | (b) "update_returning (at_id (li_tenant_id i) (ik_id r0)) (relock_fields rt i) rows = Inr (r, rows')"
      | (c) "r = r0" "rows' = rows"
      using assms unfolding lock_request_def ins and_then_Inr got option.case reset_expired_record_def relock_record_def
      by (cases "ik_expires_at r0 \<le> rt_clock rt"; cases "ik_request_hash r0 \<noteq> li_request_hash i";
          cases "ik_status r0 = IkCompleted") simp_all
    then show ?thesis
    proof cases
      case a
      then show ?thesis by (rule upd) (simp_all add: reset_fields_def replay_body_def)
    next
      case b
      then show ?thesis by (rule upd) (simp_all add: relock_fields_def replay_body_def)
    next
      case c
      with r0 show ?thesis by simp
    qed
  qed
  then show "r \<in> set rows'" and "ik_tenant_id r = li_tenant_id i"
    and "x \<in> set rows' \<Longrightarrow> x \<in> set rows0 \<or> replay_body x = None" using rows[of x] by auto
qed

lemma completed_bodies:
  "x \<in> set (mark_completed rt tenant rid code b rows) \<Longrightarrow>
     x \<in> set rows \<or> (ik_tenant_id x = tenant \<and> replay_body x = Some b)"
  by (auto simp: mark_completed_def set_update_where at_id_def completed_fields_def replay_body_def)

lemma hydrated_id:
  "hydrate_posted_transaction rt tenant key t db = Inr resp \<Longrightarrow> pt_transaction_id resp = tx_id t"
  by (auto simp: hydrate_posted_transaction_def build_posted_transaction_def and_then_eq_Inr Let_def
      split: if_splits)

text \<open>A posting keeps both, and its response names a transaction of its tenant.\<close>

lemma post_responses:
  assumes post: "post_transaction_callback rt input db = Inr (resp, db')" and ok: "responses_ok db"
  shows "responses_ok db'" and "\<exists>tenant. rt_tenant_id rt = Some tenant \<and> posted_in db' tenant (pt_transaction_id resp)"
    and "posted_in db tenant i \<Longrightarrow> posted_in db' tenant i"
proof -
  have "responses_ok db' \<and> (\<exists>tenant. rt_tenant_id rt = Some tenant \<and> posted_in db' tenant (pt_transaction_id resp)) \<and>
      (posted_in db tenant i \<longrightarrow> posted_in db' tenant i)"
    using post
  proof (cases rule: post_cases)
    case (replay li r rows)
    note b = lock_request_bodies[OF replay(2)[unfolded finance_lock_request_def]]
    from b(1,2) replay(3) b(3)[of r] ok have "posted_in db (li_tenant_id li) (pt_transaction_id resp)"
      by (auto simp: responses_ok_def)
    moreover have "responses_ok db'" using b(3) ok replay(4) by (fastforce simp: responses_ok_def posted_in_def)
    ultimately show ?thesis using lock_input_ofD(2)[OF replay(1)] replay(4) by (auto simp: posted_in_def)
  next
    case (reuse tn li r rows plan t)
    note b = lock_request_bodies[OF reuse(3)[unfolded finance_lock_request_def]]
    have tn: "rt_tenant_id rt = Some tn" using reuse(1) by (auto simp: require_tenant_id_def split: option.splits if_splits)
    have p: "posted_in db tn (pt_transaction_id resp)"
      using reuse(6,7) hydrated_id[OF reuse(9)] by (auto simp: posted_in_def)
    have "responses_ok db'"
      using b(3) ok p reuse(11) by (fastforce simp: responses_ok_def posted_in_def dest: completed_bodies)
    with p tn reuse(11) show ?thesis by (auto simp: posted_in_def)
  next
    case (posted tn li r rows plan t es audits syncs)
    note b = lock_request_bodies[OF posted(3)[unfolded finance_lock_request_def]]
    have tn: "rt_tenant_id rt = Some tn" using posted(1) by (auto simp: require_tenant_id_def split: option.splits if_splits)
    have t: "tx_tenant_id t = tn" using create_row_for_Inr(2)[OF posted(7)] .
    have "pt_transaction_id resp = tx_id t"
      using posted(9) by (auto simp: build_posted_transaction_def and_then_eq_Inr)
    with t posted(10) have p: "posted_in db' tn (pt_transaction_id resp)" by (auto simp: posted_in_def)
    have mono: "posted_in db tenant i \<Longrightarrow> posted_in db' tenant i" for tenant i
      using posted(10) by (auto simp: posted_in_def)
    have "responses_ok db'"
      unfolding responses_ok_def
    proof (intro ballI allI impI)
      fix x c assume x: "x \<in> set (fd_idempotency_keys db')" "replay_body x = Some c"
      with posted(10) completed_bodies[of x rt tn "ik_id r" 201 resp rows]
      consider "x \<in> set rows" | "ik_tenant_id x = tn" "c = resp" by auto
      then show "posted_in db' (ik_tenant_id x) (pt_transaction_id c)"
      proof cases
        case 1
        with b(3) x(2) ok mono show ?thesis by (fastforce simp: responses_ok_def)
      next
        case 2
        with p show ?thesis by simp
      qed
    qed
    with p tn mono show ?thesis by blast
  qed
  then show "responses_ok db'" and "\<exists>tenant. rt_tenant_id rt = Some tenant \<and> posted_in db' tenant (pt_transaction_id resp)"
    and "posted_in db tenant i \<Longrightarrow> posted_in db' tenant i" by blast+
qed

section \<open>Frames\<close>

text \<open>Only the billing tables differ.\<close>

definition billing_only :: "'a billing_db_scheme \<Rightarrow> 'a billing_db_scheme \<Rightarrow> bool" where
  "billing_only db db' \<longleftrightarrow> (\<exists>ss vs as cs.
     db' = db\<lparr>bl_subscriptions := ss, bl_invoices := vs, bl_allocations := as, bl_credits := cs\<rparr>)"

lemma billing_onlyI:
  "db' = db\<lparr>bl_subscriptions := ss, bl_invoices := vs, bl_allocations := as, bl_credits := cs\<rparr> \<Longrightarrow> billing_only db db'"
  by (auto simp: billing_only_def)

lemma billing_only_refl [intro]: "billing_only db db"
  by (rule billing_onlyI[where ss = "bl_subscriptions db" and vs = "bl_invoices db" and
        as = "bl_allocations db" and cs = "bl_credits db"]) simp

lemma billing_only_steps [intro]:
  "billing_only db (db\<lparr>bl_subscriptions := ss\<rparr>)" "billing_only db (db\<lparr>bl_invoices := vs\<rparr>)"
  "billing_only db (db\<lparr>bl_allocations := as\<rparr>)" "billing_only db (db\<lparr>bl_credits := cs\<rparr>)"
proof -
  show "billing_only db (db\<lparr>bl_subscriptions := ss\<rparr>)"
    by (rule billing_onlyI[where ss = ss and vs = "bl_invoices db" and
        as = "bl_allocations db" and cs = "bl_credits db"]) simp
  show "billing_only db (db\<lparr>bl_invoices := vs\<rparr>)"
    by (rule billing_onlyI[where ss = "bl_subscriptions db" and vs = vs and
        as = "bl_allocations db" and cs = "bl_credits db"]) simp
  show "billing_only db (db\<lparr>bl_allocations := as\<rparr>)"
    by (rule billing_onlyI[where ss = "bl_subscriptions db" and vs = "bl_invoices db" and
        as = as and cs = "bl_credits db"]) simp
  show "billing_only db (db\<lparr>bl_credits := cs\<rparr>)"
    by (rule billing_onlyI[where ss = "bl_subscriptions db" and vs = "bl_invoices db" and
        as = "bl_allocations db" and cs = cs]) simp
qed

lemma billing_only_trans: "billing_only a b \<Longrightarrow> billing_only b c \<Longrightarrow> billing_only a c"
  unfolding billing_only_def by (elim exE, hypsubst, intro exI) simp

lemma billing_steps_only:
  "create_fee_credit mk db = Inr db' \<Longrightarrow> billing_only db db'"
  "create_fee_allocation mk2 db = Inr db' \<Longrightarrow> billing_only db db'"
  "apply_fee_invoice_payment rt tenant i intent n st db = Inr db' \<Longrightarrow> billing_only db db'"
  "mark_invoice_paid rt tenant i amount db = Inr db' \<Longrightarrow> billing_only db db'"
  "restore_renewed_subscription rt tenant i ps pe at db = Inr (s, db') \<Longrightarrow> billing_only db db'"
  by (auto simp: create_fee_credit_def create_fee_allocation_def apply_fee_invoice_payment_def mark_invoice_paid_def
      restore_renewed_subscription_def update_subscription_def and_then_eq_Inr Let_def split: option.splits)

lemma allocate_loop_only:
  "allocate_loop rt tenant student p ledger key vs r done0 db = Inr (r', done', db') \<Longrightarrow> billing_only db db'"
proof (induction vs arbitrary: r done0 db)
  case (Cons v vs)
  then show ?case
    by (auto simp: and_then_eq_Inr Let_def split: if_splits
        intro: billing_only_trans[OF billing_steps_only(3) billing_only_trans[OF billing_steps_only(2)]])
qed auto

lemma allocate_only:
  "allocate_confirmed_payment rt locked tenant p amount ledger db = Inr (res, db') \<Longrightarrow> billing_only db db'"
  by (auto simp: allocate_confirmed_payment_def and_then_eq_Inr Let_def split: option.splits if_splits
      intro: billing_only_trans[OF allocate_loop_only billing_steps_only(1)] dest: allocate_loop_only)

lemma handle_completed_only:
  assumes "handle_payment_intent_completed rt locked tenant intent amount p ledger db = Inr db'"
  shows "billing_only db db'"
proof (cases "case p of Some p \<Rightarrow> if cp_student_id p = None then None else Some p | None \<Rightarrow> None")
  case (Some q)
  with assms show ?thesis
    by (auto simp: handle_payment_intent_completed_def and_then_eq_Inr dest: allocate_only)
next
  case None
  with assms show ?thesis
    by (auto simp: handle_payment_intent_completed_def and_then_eq_Inr Let_def split: option.splits if_splits
        intro: billing_only_trans[OF billing_steps_only(4) billing_steps_only(5)] dest: billing_steps_only(4))
qed

lemma publish_Inr:
  assumes "publish rt None input db = Inr db'"
  shows "\<exists>tenant input'. rt_tenant_id rt = Some tenant \<and> pb_event_key input' = js_trim (pb_event_key input) \<and>
    create_event rt tenant input' db = Inr db'"
  using assms
  by (auto simp: publish_def require_event_text_def and_then_eq_Inr split: option.splits if_splits
      intro!: exI[where P = "\<lambda>x. pb_event_key x = _ \<and> _ x"])

lemma create_event_Inr:
  assumes "create_event rt tenant input db = Inr db'"
  shows "\<exists>es. db' = db\<lparr>ev_outbox := es\<rparr> \<and>
    (\<exists>e\<in>set es. oe_tenant_id e = tenant \<and> oe_event_key e = pb_event_key input)"
proof -
  let ?k = "same_event_key tenant (pb_event_key input)"
  show ?thesis
  proof (cases "select_first ?k (ev_outbox db)")
    case None
    let ?e = "new_event rt tenant input (fresh_uuid (map oe_id (ev_outbox db)))"
    have "db' = db\<lparr>ev_outbox := ev_outbox db @ [?e]\<rparr>"
      using None assms by (auto simp: create_event_def and_then_eq_Inr)
    then show ?thesis
      by (intro exI[of _ "ev_outbox db @ [?e]"] conjI bexI[of _ ?e]) (simp_all add: new_event_def)
  next
    case (Some e)
    let ?es = "update_where ?k (merge_headers rt input) (ev_outbox db)"
    have "db' = db\<lparr>ev_outbox := ?es\<rparr>"
      using Some assms by (auto simp: create_event_def and_then_eq_Inr)
    moreover have "merge_headers rt input e \<in> set ?es"
      using select_first_Some[OF Some] by (auto simp: set_update_where)
    ultimately show ?thesis using select_first_Some[OF Some]
      by (intro exI[of _ ?es] conjI bexI[of _ "merge_headers rt input e"])
        (simp_all add: merge_headers_def same_event_key_def)
  qed
qed

lemma publish_completed_Inr:
  assumes "publish_payment_completed rt i payload db = Inr db'"
  shows "\<exists>es. db' = db\<lparr>ev_outbox := es\<rparr> \<and>
    (\<exists>e\<in>set es. rt_tenant_id rt = Some (oe_tenant_id e) \<and> oe_event_key e = ''payment.completed:'' @ uuid_text i)"
proof -
  have trim: "js_trim (''payment.completed:'' @ uuid_text i) = ''payment.completed:'' @ uuid_text i"
    using uuid_text_not_space[of "last (uuid_text i)" i] by (intro js_trim_fixed) (simp add: is_space_def)
  from publish_Inr[OF assms[unfolded publish_payment_completed_def]]
  obtain tenant input where t: "rt_tenant_id rt = Some tenant"
    and k: "pb_event_key input = ''payment.completed:'' @ uuid_text i" and c: "create_event rt tenant input db = Inr db'"
    using trim by (simp only: publish_input.simps) blast
  from create_event_Inr[OF c] t show ?thesis unfolding k by auto
qed

lemma publish_completed_succeeds:
  assumes "rt_tenant_id rt = Some t" and "t \<noteq> []"
  shows "\<exists>db'. publish_payment_completed rt i payload db = Inr db'"
proof -
  have k: "js_trim (''payment.completed:'' @ uuid_text i) = ''payment.completed:'' @ uuid_text i"
    using uuid_text_not_space[of "last (uuid_text i)" i] by (intro js_trim_fixed) (simp add: is_space_def)
  have a: "js_trim ''payment'' = ''payment''" by code_simp
  have "\<exists>db'. create_event rt t input db = Inr db'"
    if "pb_event_key input = ''payment.completed:'' @ uuid_text i" "pb_event_name input = ''payment.completed''"
      "pb_aggregate_type input = ''payment''" for input
    using that by (simp add: create_event_def outbox_checks_def not_blank_def)
  with assms k a show ?thesis
    unfolding publish_payment_completed_def publish_def require_event_text_def by simp
qed

text \<open>A settlement, step by step.\<close>

lemma settle_payment_Inr:
  assumes "settle_payment rt locked tenant p c amount txn db = Inr (ledger, db')"
  obtains debit credit posted db2 ss vs as cs es where
    "mpesa_ledger_accounts rt tenant (mark_intent_processing rt tenant (in_id p) db) = Inr (debit, credit)"
    "post_transaction_callback rt (mpesa_post_input p c amount debit credit)
       (mark_intent_processing rt tenant (in_id p) db) = Inr (posted, db2)"
    "ledger = pt_transaction_id posted"
    "db' = (mark_intent_completed rt tenant (in_id p) ledger
         (attach_ledger_transaction rt tenant (pc_checkout_request_id c) ledger db2))
       \<lparr>bl_subscriptions := ss, bl_invoices := vs, bl_allocations := as, bl_credits := cs, ev_outbox := es\<rparr>"
    "\<exists>e\<in>set es. rt_tenant_id rt = Some (oe_tenant_id e) \<and>
       oe_event_key e = ''payment.completed:'' @ uuid_text (in_id p)"
proof -
  from assms obtain debit credit posted db2 db5 where
    s: "mpesa_ledger_accounts rt tenant (mark_intent_processing rt tenant (in_id p) db) = Inr (debit, credit)"
      "post_transaction_callback rt (mpesa_post_input p c amount debit credit)
        (mark_intent_processing rt tenant (in_id p) db) = Inr (posted, db2)"
      "ledger = pt_transaction_id posted"
    and h: "handle_payment_intent_completed rt locked tenant (in_id p) amount (Some (completed_intent_of p)) (Some ledger)
        (mark_intent_completed rt tenant (in_id p) ledger
          (attach_ledger_transaction rt tenant (pc_checkout_request_id c) ledger db2)) = Inr db5"
    and e: "publish_payment_completed rt (in_id p) (payment_completed_payload rt p c txn ledger) db5 = Inr db'"
    by (auto simp: settle_payment_def and_then_eq_Inr Let_def post_transaction_def with_request_transaction_Inr)
  from handle_completed_only[OF h] obtain ss vs as cs where
    "db5 = (mark_intent_completed rt tenant (in_id p) ledger
        (attach_ledger_transaction rt tenant (pc_checkout_request_id c) ledger db2))
      \<lparr>bl_subscriptions := ss, bl_invoices := vs, bl_allocations := as, bl_credits := cs\<rparr>"
    by (auto simp: billing_only_def)
  with publish_completed_Inr[OF e] show thesis using that[OF s, where ss = ss and vs = vs and as = as and cs = cs] by auto
qed

section \<open>A job\<close>

text \<open>A job that fails writes logs only; one that succeeds settles its callback between two writes of the logs.\<close>

lemma mark_job_failed_logs: "\<exists>ls. mark_job_failed rt tenant ck lid message db = db\<lparr>py_logs := ls\<rparr>"
  by (auto simp: mark_job_failed_def mark_logs_failed_by_checkout_request_id_def mark_log_failed_def mark_log_status_def
      update_logs_def intro: exI[of _ "py_logs db"] split: option.splits)

lemma mark_log_processing_logs: "\<exists>ls. mark_log_processing rt tenant i db = db\<lparr>py_logs := ls\<rparr>"
  by (auto simp: mark_log_processing_def mark_log_status_def update_logs_def)

lemma mark_logs_processed_logs: "\<exists>ls. mark_logs_processed_by_checkout_request_id rt tenant ck db = db\<lparr>py_logs := ls\<rparr>"
  by (auto simp: mark_logs_processed_by_checkout_request_id_def update_logs_def)

lemma job_cases [consumes 1, case_names failed succeeded]:
  assumes "process_payment_job env rt job job_id db = (res, db')"
  obtains (failed) e ls where "res = Inl e" "db' = db\<lparr>py_logs := ls\<rparr>"
  | (succeeded) x l c db2 ls where "res = Inr x" "resolve_callback_log env (worker_context rt job) job db = Inr (l, c)"
      "process_locked_payment env (worker_context rt job) (pj_tenant_id job) l c job_id
         (mark_log_processing (worker_context rt job) (pj_tenant_id job) (cl_id l) db) = Inr (x, db2)"
      "db' = db2\<lparr>py_logs := ls\<rparr>"
proof -
  let ?rt = "worker_context rt job" and ?t = "pj_tenant_id job"
  show thesis
  proof (cases "resolve_callback_log env ?rt job db")
    case (Inl e)
    with assms have "res = Inl e"
      "db' = mark_job_failed ?rt ?t (pj_checkout_request_id job) (pj_callback_log_id job) (exn_message ?rt e) db"
      by (simp_all add: process_payment_job_def Let_def)
    with failed mark_job_failed_logs show ?thesis by metis
  next
    case (Inr lc)
    obtain l c where lc: "lc = (l, c)" by force
    let ?db1 = "mark_log_processing ?rt ?t (cl_id l) db"
    obtain ls1 where ls1: "?db1 = db\<lparr>py_logs := ls1\<rparr>" using mark_log_processing_logs by blast
    show ?thesis
    proof (cases "with_request_transaction False (deferred_balance_checks ?db1) (process_locked_payment env ?rt ?t l c job_id) ?db1")
      case (Inl e)
      with assms Inr lc have "res = Inl e"
        "db' = mark_job_failed ?rt ?t (Some (pc_checkout_request_id c)) (Some (cl_id l)) (exn_message ?rt e) ?db1"
        by (simp_all add: process_payment_job_def Let_def)
      moreover obtain ls where
        "mark_job_failed ?rt ?t (Some (pc_checkout_request_id c)) (Some (cl_id l)) (exn_message ?rt e) ?db1 = ?db1\<lparr>py_logs := ls\<rparr>"
        using mark_job_failed_logs by blast
      ultimately show ?thesis using failed[of e ls] ls1 by simp
    next
      case two: (Inr r)
      obtain x db2 where r: "r = (x, db2)" by force
      from two r have p: "process_locked_payment env ?rt ?t l c job_id ?db1 = Inr (x, db2)"
        by (simp add: with_request_transaction_Inr)
      have "res = Inr x" "db' = mark_logs_processed_by_checkout_request_id ?rt ?t (pc_checkout_request_id c) db2"
        using assms Inr lc two r by (simp_all add: process_payment_job_def Let_def)
      with succeeded[OF _ _ p] Inr lc mark_logs_processed_logs show ?thesis by metis
    qed
  qed
qed

end
