(* ===== verification/Payments_Invariant.thy ===== *)
theory Payments_Invariant
  imports Payments_Facts
begin

text \<open>
  The invariant of the payment tables and its preservation by every operation that writes them; the
  component's step relation and its runs.
\<close>

section \<open>The invariant\<close>

definition intent_ok :: "'a finance_db_scheme \<Rightarrow> payment_intent \<Rightarrow> bool" where
  "intent_ok db p \<longleftrightarrow> 0 < in_amount_minor p \<and> (in_status p = PiCompleted \<longrightarrow> in_ledger_transaction_id p \<noteq> None) \<and>
     (\<forall>i. in_ledger_transaction_id p = Some i \<longrightarrow> posted_in db (in_tenant_id p) i)"

definition mpesa_ok :: "'a finance_db_scheme \<Rightarrow> mpesa_transaction \<Rightarrow> bool" where
  "mpesa_ok db m \<longleftrightarrow> (\<forall>i. mt_ledger_transaction_id m = Some i \<longrightarrow> posted_in db (mt_tenant_id m) i)"

definition mpesa_key :: "mpesa_transaction \<Rightarrow> string \<times> string" where
  "mpesa_key m = (mt_tenant_id m, mt_checkout_request_id m)"

definition tables_ok :: "'a payments_db_scheme \<Rightarrow> bool" where
  "tables_ok db \<longleftrightarrow> distinct (map in_id (py_intents db)) \<and> (\<forall>p\<in>set (py_intents db). intent_ok db p) \<and>
     distinct (map mpesa_key (py_transactions db)) \<and> (\<forall>m\<in>set (py_transactions db). mpesa_ok db m)"

definition payments_inv :: "'a payments_db_scheme \<Rightarrow> bool" where
  "payments_inv db \<longleftrightarrow> ledger_inv db \<and> responses_ok db \<and> tables_ok db"

section \<open>What keeps it\<close>

lemma tables_ok_intents:
  assumes "tables_ok db"
    and "\<And>r. r \<in> set (py_intents db) \<Longrightarrow> p r \<Longrightarrow> intent_ok db r \<Longrightarrow> intent_ok db (f r)" and "\<And>r. in_id (f r) = in_id r"
  shows "tables_ok (update_intents p f db)"
proof -
  have "intent_ok (update_intents p f db) r = intent_ok db r" "mpesa_ok (update_intents p f db) m = mpesa_ok db m" for r m
    by (simp_all add: intent_ok_def mpesa_ok_def posted_in_def update_intents_def)
  with assms show ?thesis
    by (auto simp: tables_ok_def update_intents_def update_where_map_key set_update_where)
qed

text \<open>Tables outside the invariant, and a ledger that only grows.\<close>

lemma tables_ok_mono:
  assumes "tables_ok db" and "py_intents db' = py_intents db" and "py_transactions db' = py_transactions db"
    and "\<And>t i. posted_in db t i \<Longrightarrow> posted_in db' t i"
  shows "tables_ok db'"
  using assms by (fastforce simp: tables_ok_def intent_ok_def mpesa_ok_def)

lemma payments_inv_other:
  assumes "payments_inv db" and "fd_idempotency_keys db' = fd_idempotency_keys db" and "fd_accounts db' = fd_accounts db"
    and "fd_transactions db' = fd_transactions db" and "fd_ledger_entries db' = fd_ledger_entries db"
    and "tables_ok db \<Longrightarrow> tables_ok db'"
  shows "payments_inv db'"
  using assms by (auto simp: payments_inv_def ledger_inv_def responses_ok_def posted_in_def txn_entries_def)

text \<open>The same tables, but for the logs, the keys, the audit log, the outbox and billing.\<close>

lemma payments_inv_frame:
  assumes "payments_inv db" and "fd_idempotency_keys db' = fd_idempotency_keys db" and "fd_accounts db' = fd_accounts db"
    and "fd_transactions db' = fd_transactions db" and "fd_ledger_entries db' = fd_ledger_entries db"
    and "py_intents db' = py_intents db" and "py_transactions db' = py_transactions db"
  shows "payments_inv db'"
proof (rule payments_inv_other[OF assms(1-5)])
  assume "tables_ok db"
  then show "tables_ok db'" by (rule tables_ok_mono) (simp_all add: assms posted_in_def)
qed

lemma payments_inv_intents:
  assumes "payments_inv db"
    and "\<And>r. r \<in> set (py_intents db) \<Longrightarrow> p r \<Longrightarrow> intent_ok db r \<Longrightarrow> intent_ok db (f r)" and "\<And>r. in_id (f r) = in_id r"
  shows "payments_inv (update_intents p f db)"
proof (rule payments_inv_other[OF assms(1)])
  assume "tables_ok db"
  then show "tables_ok (update_intents p f db)" by (rule tables_ok_intents) (use assms in auto)
qed (simp_all add: update_intents_def)

lemma payments_inv_marks [intro]:
  assumes "payments_inv db"
  shows "payments_inv (mark_callback_received rt tenant i db)"
    and "payments_inv (mark_intent_processing rt tenant i db)"
    and "payments_inv (mark_intent_failed rt tenant i reason db)"
    and "posted_in db tenant ledger \<Longrightarrow> payments_inv (mark_intent_completed rt tenant i ledger db)"
    and "payments_inv (update_logs q g db)"
  unfolding mark_callback_received_def mark_intent_processing_def mark_intent_failed_def mark_intent_completed_def
  by (auto intro!: payments_inv_intents[OF assms] payments_inv_frame[OF assms]
      simp: intent_ok_def unless_settled_def intent_at_def update_logs_def)

lemma attach_ledger_ok:
  assumes "payments_inv db" and "posted_in db tenant ledger"
  shows "payments_inv (attach_ledger_transaction rt tenant checkout ledger db)"
proof (rule payments_inv_other[OF assms(1)])
  assume ok: "tables_ok db"
  let ?db = "attach_ledger_transaction rt tenant checkout ledger db"
  have "intent_ok ?db r = intent_ok db r" "mpesa_ok ?db m = mpesa_ok db m" for r m
    by (simp_all add: intent_ok_def mpesa_ok_def posted_in_def attach_ledger_transaction_def)
  with ok assms(2) show "tables_ok ?db"
    by (auto simp: tables_ok_def attach_ledger_transaction_def update_where_map_key set_update_where mpesa_key_def
        mpesa_ok_def transaction_for_def)
qed (simp_all add: attach_ledger_transaction_def)

lemma record_audit_Inr:
  "record_audit rt t a k i md db = Inr db' \<Longrightarrow> \<exists>as. db' = db\<lparr>fd_audit_logs := as\<rparr>"
  by (auto simp: record_audit_def create_audit_log_def split: option.splits if_splits)

lemma alert_Inr:
  "alert_when c (emit_alert rt tenant action intent md) db = Inr db' \<Longrightarrow> \<exists>as. db' = db\<lparr>fd_audit_logs := as\<rparr>"
  using record_audit_Inr[of rt "Some tenant" action "''payment_intent''" "Some intent" "JObj md" db db']
  by (auto simp: alert_when_def emit_alert_def intro: exI[of _ "fd_audit_logs db"] split: if_splits)

lemma callback_failure_Inr:
  "record_callback_failure rt counter tenant i ck reason ph db = Inr db' \<Longrightarrow> \<exists>as. db' = db\<lparr>fd_audit_logs := as\<rparr>"
  by (auto simp: record_callback_failure_def and_then_eq_Inr dest: alert_Inr)

lemma inspection_Inr:
  assumes "inspect_payment_intent_creation rt counter p amount db = Inr db'"
  shows "\<exists>as. db' = db\<lparr>fd_audit_logs := as\<rparr>"
  using assms unfolding inspect_payment_intent_creation_def Let_def
  by (fastforce simp: and_then_eq_Inr dest!: alert_Inr)

section \<open>The record of a callback\<close>

text \<open>\<open>upsertFromCallback\<close> writes one row, whose ledger transaction is the one it had.\<close>

lemma upsert_Inr:
  assumes "upsert_from_callback rt tenant intent l c db = Inr (m, db')"
  obtains (inserted) "find_mpesa_transaction db tenant (pc_checkout_request_id c) = None"
      "mt_ledger_transaction_id m = None" "db' = db\<lparr>py_transactions := py_transactions db @ [m]\<rparr>"
      "transaction_for tenant (pc_checkout_request_id c) m" "mt_status m = pc_status c"
  | (updated) old new where "find_mpesa_transaction db tenant (pc_checkout_request_id c) = Some old"
      "m = merge_mpesa_row rt new old" "mt_ledger_transaction_id m = mt_ledger_transaction_id old"
      "db' = db\<lparr>py_transactions := update_where (transaction_for tenant (pc_checkout_request_id c))
                 (merge_mpesa_row rt new) (py_transactions db)\<rparr>" "mt_status new = pc_status c"
proof -
  from assms obtain amount where a: "(let new = mpesa_row rt tenant intent l c amount (fresh_uuid (map mt_id (py_transactions db))) in
     case select_first (transaction_for tenant (pc_checkout_request_id c)) (py_transactions db) of
       None \<Rightarrow> and_then (mpesa_constraints db new) (\<lambda>_.
                Inr (new, db\<lparr>py_transactions := py_transactions db @ [new]\<rparr>))
     | Some old \<Rightarrow>
         (let r = merge_mpesa_row rt new old
          in and_then (mpesa_constraints db r) (\<lambda>_.
             Inr (r, db\<lparr>py_transactions := update_where (transaction_for tenant (pc_checkout_request_id c))
                            (merge_mpesa_row rt new) (py_transactions db)\<rparr>)))) = Inr (m, db')"
    by (auto simp: upsert_from_callback_def and_then_eq_Inr)
  show thesis
  proof (cases "find_mpesa_transaction db tenant (pc_checkout_request_id c)")
    case None
    with a show ?thesis
      by (intro inserted) (auto simp: find_mpesa_transaction_def and_then_eq_Inr Let_def mpesa_row_def transaction_for_def)
  next
    case (Some old)
    with a show ?thesis
      by (intro updated[OF Some]) (auto simp: find_mpesa_transaction_def and_then_eq_Inr Let_def merge_mpesa_row_def mpesa_row_def)
  qed
qed

lemma upsert_ok:
  assumes inv: "payments_inv db" and up: "upsert_from_callback rt tenant intent l c db = Inr (m, db')"
  shows "payments_inv db'"
  using up
proof (cases rule: upsert_Inr)
  case inserted
  have k: "mpesa_key m \<notin> mpesa_key ` set (py_transactions db)"
    using inserted(1,4) by (auto simp: find_mpesa_transaction_def select_first_None transaction_for_def mpesa_key_def)
  show ?thesis
  proof (rule payments_inv_other[OF inv])
    assume "tables_ok db"
    then show "tables_ok db'" unfolding inserted(3)
      using k inserted(2) by (simp add: tables_ok_def intent_ok_def mpesa_ok_def posted_in_def)
  qed (simp_all add: inserted(3))
next
  case (updated old new)
  have keeps: "mpesa_key (merge_mpesa_row rt new x) = mpesa_key x"
    "mt_ledger_transaction_id (merge_mpesa_row rt new x) = mt_ledger_transaction_id x"
    "mt_tenant_id (merge_mpesa_row rt new x) = mt_tenant_id x" for x
    by (simp_all add: merge_mpesa_row_def mpesa_key_def)
  show ?thesis
  proof (rule payments_inv_other[OF inv])
    assume "tables_ok db"
    then show "tables_ok db'" unfolding updated(4)
      by (auto simp: tables_ok_def intent_ok_def mpesa_ok_def posted_in_def update_where_map_key keeps set_update_where)
  qed (simp_all add: updated(4))
qed

section \<open>The settlement of a callback\<close>

definition received :: "runtime \<Rightarrow> string \<Rightarrow> payment_intent \<Rightarrow> 'a payments_db_scheme \<Rightarrow> 'a payments_db_scheme" where
  "received rt tenant p db =
     (if is_terminal_payment_intent (in_status p) then db else mark_callback_received rt tenant (in_id p) db)"

lemma received_tables [simp]:
  "py_transactions (received rt tenant p db) = py_transactions db" "fd_transactions (received rt tenant p db) = fd_transactions db"
  "fd_ledger_entries (received rt tenant p db) = fd_ledger_entries db" "fd_accounts (received rt tenant p db) = fd_accounts db"
  "fd_idempotency_keys (received rt tenant p db) = fd_idempotency_keys db" "py_logs (received rt tenant p db) = py_logs db"
  "bl_invoices (received rt tenant p db) = bl_invoices db" "bl_allocations (received rt tenant p db) = bl_allocations db"
  "bl_credits (received rt tenant p db) = bl_credits db" "bl_subscriptions (received rt tenant p db) = bl_subscriptions db"
  "ev_outbox (received rt tenant p db) = ev_outbox db" "py_keys (received rt tenant p db) = py_keys db"
  by (simp_all add: received_def mark_callback_received_def update_intents_def)

lemma received_ok: "payments_inv db \<Longrightarrow> payments_inv (received rt tenant p db)"
  by (auto simp: received_def)

lemma first_row_sorted: "first_row (sort_key f xs) = Some x \<Longrightarrow> x \<in> set xs"
  by (metis first_row_def list.case_eq_if list.set_sel(1) option.distinct(1) option.inject set_sort)

lemma lock_payment_intentD:
  "lock_payment_intent db tenant c = Inr p \<Longrightarrow> p \<in> set (py_intents db) \<and> in_tenant_id p = tenant"
proof -
  assume a: "lock_payment_intent db tenant c = Inr p"
  let ?xs = "filter (\<lambda>r. in_tenant_id r = tenant \<and> (in_checkout_request_id r = Some (pc_checkout_request_id c) \<or>
    in_merchant_request_id r = Some (pc_merchant_request_id c))) (py_intents db)"
  have "first_row (sort_key (\<lambda>r. - in_created_at r) ?xs) = Some p"
    using a by (auto simp: lock_payment_intent_def lock_by_checkout_or_merchant_request_id_def latest_intent_def
        split: option.splits)
  from first_row_sorted[OF this] show ?thesis by auto
qed

text \<open>The outcomes of \<open>processLockedPayment\<close>.\<close>

lemma process_locked_cases [consumes 1, case_names failed known attached closed settled]:
  assumes "process_locked_payment env rt tenant l c job_id db = Inr (res, db')"
  obtains (failed) p m db2 as where
      "lock_payment_intent db tenant c = Inr p" "upsert_from_callback rt tenant (in_id p) l c (received rt tenant p db) = Inr (m, db2)"
      "pc_status c = MpesaFailed" "jr_status res = JobFailed" "jr_ledger_transaction_id res = None"
      "db' = mark_intent_failed rt tenant (in_id p) (pc_result_desc c) (db2\<lparr>fd_audit_logs := as\<rparr>)"
  | (known) p m db2 ledger where
      "lock_payment_intent db tenant c = Inr p" "upsert_from_callback rt tenant (in_id p) l c (received rt tenant p db) = Inr (m, db2)"
      "pc_status c = MpesaSucceeded" "mt_ledger_transaction_id m = Some ledger" "jr_status res = JobDuplicate"
      "pc_amount_minor c = Some (show_int (in_amount_minor p))"
      "jr_ledger_transaction_id res = Some ledger"
      "db' = (if in_status p \<noteq> PiCompleted then mark_intent_completed rt tenant (in_id p) ledger db2 else db2)"
  | (attached) p m db2 ledger where
      "lock_payment_intent db tenant c = Inr p" "upsert_from_callback rt tenant (in_id p) l c (received rt tenant p db) = Inr (m, db2)"
      "pc_status c = MpesaSucceeded" "mt_ledger_transaction_id m = None" "in_ledger_transaction_id p = Some ledger"
      "jr_status res = JobDuplicate" "pc_amount_minor c = Some (show_int (in_amount_minor p))" "db' = attach_ledger_transaction rt tenant (pc_checkout_request_id c) ledger db2"
  | (closed) p m db2 where
      "lock_payment_intent db tenant c = Inr p" "upsert_from_callback rt tenant (in_id p) l c (received rt tenant p db) = Inr (m, db2)"
      "pc_status c = MpesaSucceeded" "mt_ledger_transaction_id m = None" "in_ledger_transaction_id p = None"
      "is_non_completable_payment_intent (in_status p)" "jr_status res = JobFailed" "pc_amount_minor c = Some (show_int (in_amount_minor p))" "db' = db2"
  | (settled) p m db2 ledger where
      "lock_payment_intent db tenant c = Inr p" "upsert_from_callback rt tenant (in_id p) l c (received rt tenant p db) = Inr (m, db2)"
      "pc_status c = MpesaSucceeded" "mt_ledger_transaction_id m = None" "in_ledger_transaction_id p = None"
      "\<not> is_non_completable_payment_intent (in_status p)" "pc_amount_minor c = Some (show_int (in_amount_minor p))"
      "settle_payment rt (we_locked env) tenant p c (show_int (in_amount_minor p)) (mt_id m) db2 = Inr (ledger, db')"
      "jr_status res = JobCompleted" "jr_ledger_transaction_id res = Some ledger"
proof -
  from assms obtain p m db2 where p: "lock_payment_intent db tenant c = Inr p"
    and up: "upsert_from_callback rt tenant (in_id p) l c (received rt tenant p db) = Inr (m, db2)"
    by (auto simp: process_locked_payment_def and_then_eq_Inr Let_def received_def)
  note body = assms[unfolded process_locked_payment_def p and_then_Inr Let_def, folded received_def, unfolded up and_then_Inr prod.case]
  show thesis
  proof (cases "pc_status c")
    case MpesaFailed
    with body show ?thesis
      by (auto simp: and_then_eq_Inr build_job_result_def dest!: callback_failure_Inr intro!: failed[OF p up])
  next
    case MpesaSucceeded
    with body have t: "truthy (pc_amount_minor c)" and mt: "assert_callback_matches_intent rt p c db2 = Inr ()"
      by (auto simp: and_then_eq_Inr split: if_splits)
    have amount: "pc_amount_minor c = Some (show_int (in_amount_minor p))"
      using t mt by (auto simp: assert_callback_matches_intent_def and_then_eq_Inr split: if_splits)
    note body = body[unfolded MpesaSucceeded mt and_then_Inr]
    show ?thesis
    proof (cases "mt_ledger_transaction_id m")
      case (Some ledger)
      with body t amount show ?thesis
        by (intro known[OF p up MpesaSucceeded Some]) (auto simp: build_job_result_def)
    next
      case m: None
      show ?thesis
      proof (cases "in_ledger_transaction_id p")
        case (Some ledger)
        with body t m amount show ?thesis
          by (intro attached[OF p up MpesaSucceeded m Some]) (auto simp: build_job_result_def)
      next
        case i: None
        show ?thesis
        proof (cases "is_non_completable_payment_intent (in_status p)")
          case True
          with body t m i amount show ?thesis
            by (intro closed[OF p up MpesaSucceeded m i True]) (auto simp: build_job_result_def)
        next
          case False
          with body t m i amount show ?thesis
            by (auto simp: build_job_result_def and_then_eq_Inr intro!: settled[OF p up MpesaSucceeded m i False amount])
        qed
      qed
    qed
  qed
qed

lemma process_locked_settles:
  assumes "lock_payment_intent db tenant c = Inr p" and "i = in_id p"
    and "upsert_from_callback rt tenant i l c (received rt tenant p db) = Inr (m, db2)"
    and "pc_status c = MpesaSucceeded" and "pc_amount_minor c = Some amount" and "amount \<noteq> []"
    and "assert_callback_matches_intent rt p c db2 = Inr ()" and "mt_ledger_transaction_id m = None"
    and "in_ledger_transaction_id p = None" and "\<not> is_non_completable_payment_intent (in_status p)"
    and "settle_payment rt (we_locked env) tenant p c amount (mt_id m) db2 = Inr (ledger, db')"
  shows "\<exists>res. process_locked_payment env rt tenant l c job_id db = Inr (res, db')"
  using assms by (simp add: process_locked_payment_def Let_def truthy_def received_def)

section \<open>Every operation keeps the invariant\<close>

lemma post_frame:
  assumes "post_transaction_callback rt input db = Inr (resp, db')"
  shows "py_intents db' = py_intents (db :: 'a payments_db_scheme)" and "py_transactions db' = py_transactions db"
    and "py_logs db' = py_logs db" and "py_keys db' = py_keys db" and "ev_outbox db' = ev_outbox db"
  using assms by (cases rule: post_cases; simp)+

lemma post_ok:
  assumes inv: "payments_inv db" and post: "post_transaction_callback rt input db = Inr (resp, db')"
  shows "payments_inv db'"
proof -
  have "tables_ok db'"
    by (rule tables_ok_mono[of db]) (use inv post_frame[OF post] post_responses(3)[OF post] in \<open>auto simp: payments_inv_def\<close>)
  then show ?thesis
    using inv post_callback_inv[OF _ post] post_responses(1)[OF post] by (simp add: payments_inv_def)
qed

lemma settle_ok:
  assumes inv: "payments_inv db" and tenant: "rt_tenant_id rt = Some tenant"
    and st: "settle_payment rt locked tenant p c amount txn db = Inr (ledger, db')"
  shows "payments_inv db'"
  using st
proof (rule settle_payment_Inr)
  fix debit credit posted db2 ss vs as cs es
  assume post: "post_transaction_callback rt (mpesa_post_input p c amount debit credit)
      (mark_intent_processing rt tenant (in_id p) db) = Inr (posted, db2)"
    and l: "ledger = pt_transaction_id posted"
    and db': "db' = (mark_intent_completed rt tenant (in_id p) ledger
         (attach_ledger_transaction rt tenant (pc_checkout_request_id c) ledger db2))
       \<lparr>bl_subscriptions := ss, bl_invoices := vs, bl_allocations := as, bl_credits := cs, ev_outbox := es\<rparr>"
  have i2: "payments_inv db2" using post_ok[OF _ post] inv by auto
  have "responses_ok (mark_intent_processing rt tenant (in_id p) db)"
    using payments_inv_marks(2)[OF inv] by (simp add: payments_inv_def)
  from post_responses(2)[OF post this] tenant l have pin: "posted_in db2 tenant ledger" by simp
  have i3: "payments_inv (attach_ledger_transaction rt tenant (pc_checkout_request_id c) ledger db2)"
    by (rule attach_ledger_ok[OF i2 pin])
  have "posted_in (attach_ledger_transaction rt tenant (pc_checkout_request_id c) ledger db2) tenant ledger"
    using pin by (simp add: posted_in_def attach_ledger_transaction_def)
  from payments_inv_frame[OF payments_inv_marks(4)[OF i3 this], of db' rt "in_id p"] db'
  show "payments_inv db'" by simp
qed

lemma process_locked_ok:
  assumes inv: "payments_inv db" and tenant: "rt_tenant_id rt = Some tenant"
    and pl: "process_locked_payment env rt tenant l c job_id db = Inr (res, db')"
  shows "payments_inv db'"
  using pl
proof (cases rule: process_locked_cases)
  case (failed p m db2 as)
  have i2: "payments_inv db2" by (rule upsert_ok[OF received_ok[OF inv] failed(2)])
  have "payments_inv (db2\<lparr>fd_audit_logs := as\<rparr>)" by (rule payments_inv_frame[OF i2]) simp_all
  then show ?thesis unfolding failed(6) by auto
next
  case (known p m db2 ledger)
  have i2: "payments_inv db2" by (rule upsert_ok[OF received_ok[OF inv] known(2)])
  have m: "m \<in> set (py_transactions db2)" "mt_tenant_id m = tenant"
    using known(2) by (cases rule: upsert_Inr; force simp: transaction_for_def merge_mpesa_row_def find_mpesa_transaction_def
        set_update_where dest!: select_first_Some)+
  have "posted_in db2 tenant ledger"
    using i2 m known(4) by (auto simp: payments_inv_def tables_ok_def mpesa_ok_def)
  with i2 show ?thesis unfolding known(8) by auto
next
  case (attached p m db2 ledger)
  have i2: "payments_inv db2" by (rule upsert_ok[OF received_ok[OF inv] attached(2)])
  have "posted_in db tenant ledger"
    using inv lock_payment_intentD[OF attached(1)] attached(5) by (auto simp: payments_inv_def tables_ok_def intent_ok_def)
  moreover have "fd_transactions db2 = fd_transactions db" using attached(2) by (cases rule: upsert_Inr) simp_all
  ultimately have "posted_in db2 tenant ledger" by (simp add: posted_in_def)
  then show ?thesis unfolding attached(8) by (rule attach_ledger_ok[OF i2])
next
  case (closed p m db2)
  then show ?thesis using upsert_ok[OF received_ok[OF inv] closed(2)] by simp
next
  case (settled p m db2 ledger)
  have i2: "payments_inv db2" by (rule upsert_ok[OF received_ok[OF inv] settled(2)])
  then show ?thesis using settle_ok[OF _ tenant settled(8)] by simp
qed

lemma log_mark_ok:
  assumes "payments_inv db"
  shows "payments_inv (mark_log_status rt tenant i st g db)"
  using assms payments_inv_marks(5) by (auto simp: mark_log_status_def)

lemma worker_tenant [simp]: "rt_tenant_id (worker_context rt job) = Some (pj_tenant_id job)"
  by (simp add: worker_context_def)

lemma process_job_ok:
  assumes inv: "payments_inv db" and job: "process_payment_job env rt job job_id db = (res, db')"
  shows "payments_inv db'"
  using job
proof (cases rule: job_cases)
  case (failed e ls)
  then show ?thesis using payments_inv_frame[OF inv, of db'] by simp
next
  case (succeeded x l c db2 ls)
  have "payments_inv (mark_log_processing (worker_context rt job) (pj_tenant_id job) (cl_id l) db)"
    using log_mark_ok[OF inv] by (simp add: mark_log_processing_def)
  from process_locked_ok[OF this _ succeeded(3)] have "payments_inv db2" by simp
  from payments_inv_frame[OF this, of db'] succeeded(4) show ?thesis by simp
qed

lemma create_pending_Inr:
  assumes "create_pending rt i db = Inr (p, db')"
  shows "db' = db\<lparr>py_intents := py_intents db @ [p]\<rparr>" and "in_id p \<notin> in_id ` set (py_intents db)"
    and "0 < in_amount_minor p" and "in_status p = PiPending" and "in_ledger_transaction_id p = None"
    and "in_tenant_id p = ni_tenant_id i" and "pg_bigint (ni_amount_minor i) = Inr (in_amount_minor p)"
    and "in_phone_number p = ni_phone_number i"
  using assms fresh_uuid_notin[of "map in_id (py_intents db)"]
  by (auto simp: create_pending_def and_then_eq_Inr Let_def intent_constraints_def intent_row_def)

lemma create_pending_ok:
  assumes "payments_inv db" and cp: "create_pending rt i db = Inr (p, db')"
  shows "payments_inv db'"
proof (rule payments_inv_other[OF assms(1)])
  note c = create_pending_Inr[OF cp]
  show "tables_ok db'" if "tables_ok db"
    using that c(2-5) unfolding c(1) by (simp add: tables_ok_def intent_ok_def mpesa_ok_def posted_in_def)
qed (simp_all add: create_pending_Inr(1)[OF cp])

lemma mark_stk_requested_Inr:
  "mark_stk_requested rt tenant i resp ex db = Inr (p, db') \<Longrightarrow>
     db' = update_intents (intent_at tenant i) (stk_requested_fields rt resp ex) db"
  by (auto simp: mark_stk_requested_def and_then_eq_Inr Let_def split: option.splits)

lemma create_intent_ok:
  assumes inv: "payments_inv db" and c: "create_payment_intent nested rt gw counter dto owner db = Inr (resp, db')"
  shows "payments_inv db'"
proof -
  from c have cb: "create_payment_intent_callback rt gw counter dto owner db = Inr (resp, db')"
    by (simp add: create_payment_intent_def with_request_transaction_Inr)
  then obtain tenant phone amount mc r rows where
    body: "(case replay_body r of Some response \<Rightarrow> Inr (response, db\<lparr>py_keys := rows\<rparr>)
     | None \<Rightarrow> create_locked_intent rt gw counter tenant dto phone amount (or_default owner OwnerTenant) mc (ik_id r)
                 (db\<lparr>py_keys := rows\<rparr>)) = Inr (resp, db')"
    by (auto simp: create_payment_intent_callback_def and_then_eq_Inr Let_def)
  have k: "payments_inv (db\<lparr>py_keys := rows\<rparr>)" by (rule payments_inv_frame[OF inv]) simp_all
  show ?thesis
  proof (cases "replay_body r")
    case (Some b)
    with body k show ?thesis by simp
  next
    case None
    with body obtain p db1 db2 stk p' db3 where
      cp: "create_pending rt (pending_input rt tenant (ik_id r) dto phone amount (or_default owner OwnerTenant) mc)
            (db\<lparr>py_keys := rows\<rparr>) = Inr (p, db1)"
      and ins: "inspect_payment_intent_creation rt counter p amount db1 = Inr db2"
      and mk: "mark_stk_requested rt tenant (in_id p) stk (config_number rt ''mpesa.paymentIntentExpirySeconds'' 1800) db2 = Inr (p', db3)"
      and db': "db' = db3\<lparr>py_keys := mark_completed rt tenant (ik_id r) 201 (to_payment_intent_response p') (py_keys db3)\<rparr>"
      by (auto simp: create_locked_intent_def and_then_eq_Inr Let_def)
    have i1: "payments_inv db1" by (rule create_pending_ok[OF k cp])
    from inspection_Inr[OF ins] obtain as where "db2 = db1\<lparr>fd_audit_logs := as\<rparr>" by blast
    with payments_inv_frame[OF i1, of db2] have i2: "payments_inv db2" by simp
    have i3: "payments_inv db3"
      unfolding mark_stk_requested_Inr[OF mk]
      by (rule payments_inv_intents[OF i2]) (simp_all add: intent_ok_def stk_requested_fields_def)
    from db' payments_inv_frame[OF i3, of db'] show ?thesis by auto
  qed
qed

lemma expire_ok:
  assumes inv: "payments_inv db" and e: "expire_stale_payment_intents rt locked db = Inr (ids, db')"
  shows "payments_inv db'"
proof -
  from e obtain p reason where db': "db' = update_intents p (expired_intent_fields rt reason) db"
    by (auto simp: expire_stale_payment_intents_def expire_stale_pending_intents_def with_request_transaction_Inr
        and_then_eq_Inr Let_def)
  show ?thesis unfolding db'
    by (rule payments_inv_intents[OF inv]) (simp_all add: intent_ok_def expired_intent_fields_def)
qed

lemma create_log_ok:
  assumes "payments_inv db" and "create_log rt i db = Inr (l, db')"
  shows "payments_inv db'"
  using assms(2) by (auto simp: create_log_def and_then_eq_Inr Let_def intro!: payments_inv_frame[OF assms(1)])

section \<open>Steps and runs\<close>

text \<open>
  The operations in any order, by any caller and with any environment: the log of an incoming callback and
  its status, the creation of an intent, the sweep, a worker's job, and any other posting to the ledger. A
  refused operation changes nothing; a job changes the logs even when it fails.
\<close>

inductive payment_step :: "'a payments_db_scheme \<Rightarrow> 'a payments_db_scheme \<Rightarrow> bool" where
  log_step: "create_log rt i db = Inr (l, db') \<Longrightarrow> payment_step db db'"
| status_step: "payment_step db (mark_log_status rt tenant i st g db)"
| create_step: "create_payment_intent nested rt gw counter dto owner db = Inr (resp, db') \<Longrightarrow> payment_step db db'"
| sweep_step: "expire_stale_payment_intents rt locked db = Inr (ids, db') \<Longrightarrow> payment_step db db'"
| job_step: "process_payment_job env rt job job_id db = (res, db') \<Longrightarrow> payment_step db db'"
| post_step: "post_transaction nested rt input db = Inr (posted, db') \<Longrightarrow> payment_step db db'"

inductive_cases payment_stepE: "payment_step db db'"

inductive payment_run :: "'a payments_db_scheme \<Rightarrow> 'a payments_db_scheme \<Rightarrow> bool" where
  run_refl: "payment_run db db"
| run_step: "payment_run db db1 \<Longrightarrow> payment_step db1 db' \<Longrightarrow> payment_run db db'"

lemma payment_step_ok: "payment_step db db' \<Longrightarrow> payments_inv db \<Longrightarrow> payments_inv db'"
  by (induction rule: payment_step.induct)
    (auto simp: post_transaction_def with_request_transaction_Inr
      dest: create_log_ok log_mark_ok create_intent_ok expire_ok process_job_ok post_ok)

lemma payment_run_ok: "payment_run db db' \<Longrightarrow> payments_inv db \<Longrightarrow> payments_inv db'"
  by (induction rule: payment_run.induct) (auto dest: payment_step_ok)

end
