(* ===== verification/Payments_Settlement.thy ===== *)
theory Payments_Settlement
  imports Payments_Invariant
begin

text \<open>
  What a callback of a checkout does: the ledger transaction recorded for a checkout stays the one it is,
  a callback of a recorded checkout leaves the books alone, and the posting of a first success.
\<close>

section \<open>A settled checkout\<close>

definition recorded :: "'a payments_db_scheme \<Rightarrow> string \<Rightarrow> string \<Rightarrow> uuid \<Rightarrow> bool" where
  "recorded db tenant checkout ledger \<longleftrightarrow>
     (\<exists>m. find_mpesa_transaction db tenant checkout = Some m \<and> mt_ledger_transaction_id m = Some ledger)"

lemma recorded_cong: "py_transactions db' = py_transactions db \<Longrightarrow> recorded db' = recorded db"
  by (simp add: recorded_def find_mpesa_transaction_def fun_eq_iff)

lemma recorded_received [simp]: "recorded (received rt tenant p db) = recorded db"
  by (rule recorded_cong) simp

lemma find_updated:
  assumes "\<And>m. transaction_for t ck (f m) = transaction_for t ck m"
  shows "find_mpesa_transaction (db\<lparr>py_transactions := update_where p f (py_transactions db)\<rparr>) t ck =
    map_option (\<lambda>m. if p m then f m else m) (find_mpesa_transaction db t ck)"
  using assms by (simp add: find_mpesa_transaction_def select_first_update_where)

lemma found_key: "find_mpesa_transaction db t ck = Some m \<Longrightarrow> transaction_for t' ck' m \<longleftrightarrow> t' = t \<and> ck' = ck"
  by (auto simp: find_mpesa_transaction_def transaction_for_def dest!: select_first_Some)

lemma recorded_upsert:
  assumes rec: "recorded db t ck ledger" and up: "upsert_from_callback rt tenant i l c db = Inr (m, db')"
  shows "recorded db' t ck ledger"
    and "t = tenant \<Longrightarrow> ck = pc_checkout_request_id c \<Longrightarrow> mt_ledger_transaction_id m = Some ledger"
proof -
  have "recorded db' t ck ledger \<and> (t = tenant \<and> ck = pc_checkout_request_id c \<longrightarrow> mt_ledger_transaction_id m = Some ledger)"
    using up
  proof (cases rule: upsert_Inr)
    case inserted
    with rec show ?thesis by (auto simp: recorded_def find_mpesa_transaction_def select_first_append split: option.splits)
  next
    case (updated old new)
    have q: "transaction_for t ck (merge_mpesa_row rt new r) = transaction_for t ck r" for r
      by (simp add: transaction_for_def merge_mpesa_row_def)
    from rec obtain x where x: "find_mpesa_transaction db t ck = Some x" "mt_ledger_transaction_id x = Some ledger"
      by (auto simp: recorded_def)
    have "mt_ledger_transaction_id (merge_mpesa_row rt new x) = Some ledger" using x(2) by (simp add: merge_mpesa_row_def)
    with x have "recorded db' t ck ledger"
      unfolding updated(4) recorded_def find_updated[of t ck, OF q] by simp
    with x updated(1,3) show ?thesis by auto
  qed
  then show "recorded db' t ck ledger"
    and "t = tenant \<Longrightarrow> ck = pc_checkout_request_id c \<Longrightarrow> mt_ledger_transaction_id m = Some ledger" by auto
qed

lemma recorded_attach:
  assumes "recorded db t ck ledger" and "\<not> (t = tenant \<and> ck = checkout)"
  shows "recorded (attach_ledger_transaction rt tenant checkout i db) t ck ledger"
proof -
  let ?f = "\<lambda>m. m\<lparr>mt_ledger_transaction_id := Some i, mt_processed_at := Some (rt_now rt), mt_updated_at := rt_now rt\<rparr>"
  have q: "transaction_for t ck (?f r) = transaction_for t ck r" for r
    by (simp add: transaction_for_def)
  from assms(1) obtain x where x: "find_mpesa_transaction db t ck = Some x" "mt_ledger_transaction_id x = Some ledger"
    by (auto simp: recorded_def)
  have "\<not> transaction_for tenant checkout x" using assms(2) found_key[OF x(1)] by auto
  with x show ?thesis
    unfolding recorded_def attach_ledger_transaction_def find_updated[of t ck ?f, OF q] by simp
qed

lemma recorded_process:
  assumes rec: "recorded db t ck ledger" and pl: "process_locked_payment env rt tenant l c job_id db = Inr (res, db')"
  shows "recorded db' t ck ledger"
  using pl
proof (cases rule: process_locked_cases)
  case (failed p m db2 as)
  have "py_transactions db' = py_transactions db2"
    by (simp add: failed(6) mark_intent_failed_def update_intents_def)
  from recorded_cong[OF this] recorded_upsert(1)[OF _ failed(2)] rec show ?thesis by simp
next
  case (known p m db2 i)
  have "py_transactions db' = py_transactions db2"
    by (simp add: known(8) mark_intent_completed_def update_intents_def)
  from recorded_cong[OF this] recorded_upsert(1)[OF _ known(2)] rec show ?thesis by simp
next
  case (attached p m db2 i)
  have r2: "recorded db2 t ck ledger" using recorded_upsert(1)[OF _ attached(2)] rec by simp
  have "\<not> (t = tenant \<and> ck = pc_checkout_request_id c)"
    using recorded_upsert(2)[OF _ attached(2)] rec attached(4) by auto
  then show ?thesis unfolding attached(8) by (rule recorded_attach[OF r2])
next
  case (closed p m db2)
  then show ?thesis using recorded_upsert(1)[OF _ closed(2)] rec by simp
next
  case (settled p m db2 i)
  have r2: "recorded db2 t ck ledger" using recorded_upsert(1)[OF _ settled(2)] rec by simp
  have ne: "\<not> (t = tenant \<and> ck = pc_checkout_request_id c)"
    using recorded_upsert(2)[OF _ settled(2)] rec settled(4) by auto
  from settled(8) show ?thesis
  proof (rule settle_payment_Inr)
    fix debit credit posted db3 ss vs as cs es
    assume post: "post_transaction_callback rt (mpesa_post_input p c (show_int (in_amount_minor p)) debit credit)
        (mark_intent_processing rt tenant (in_id p) db2) = Inr (posted, db3)"
      and db': "db' = (mark_intent_completed rt tenant (in_id p) i
         (attach_ledger_transaction rt tenant (pc_checkout_request_id c) i db3))
       \<lparr>bl_subscriptions := ss, bl_invoices := vs, bl_allocations := as, bl_credits := cs, ev_outbox := es\<rparr>"
    have "py_transactions db3 = py_transactions db2"
      using post_frame(2)[OF post] by (simp add: mark_intent_processing_def update_intents_def)
    from recorded_cong[OF this] r2 have "recorded db3 t ck ledger" by simp
    from recorded_attach[OF this ne]
    have "recorded (attach_ledger_transaction rt tenant (pc_checkout_request_id c) i db3) t ck ledger" .
    with recorded_cong[of db' "attach_ledger_transaction rt tenant (pc_checkout_request_id c) i db3"] db'
    show ?thesis by (simp add: mark_intent_completed_def update_intents_def)
  qed
qed

lemma recorded_job:
  assumes rec: "recorded db t ck ledger" and job: "process_payment_job env rt job job_id db = (res, db')"
  shows "recorded db' t ck ledger"
  using job
proof (cases rule: job_cases)
  case (failed e ls)
  with rec recorded_cong[of db' db] show ?thesis by simp
next
  case (succeeded x l c db2 ls)
  have "recorded (mark_log_processing (worker_context rt job) (pj_tenant_id job) (cl_id l) db) t ck ledger"
    using rec recorded_cong[of "mark_log_processing (worker_context rt job) (pj_tenant_id job) (cl_id l) db" db]
    by (simp add: mark_log_processing_def mark_log_status_def update_logs_def)
  from recorded_process[OF this succeeded(3)] succeeded(4) recorded_cong[of db' db2] show ?thesis by simp
qed

lemma create_intent_transactions:
  assumes "create_payment_intent nested rt gw counter dto owner db = Inr (resp, db')"
  shows "py_transactions db' = py_transactions db"
  using assms
  by (auto simp: create_payment_intent_def with_request_transaction_Inr create_payment_intent_callback_def
      create_locked_intent_def and_then_eq_Inr Let_def update_intents_def split: option.splits
      dest!: create_pending_Inr(1) inspection_Inr mark_stk_requested_Inr)

lemma recorded_step:
  "payment_step db db' \<Longrightarrow> recorded db t ck ledger \<Longrightarrow> recorded db' t ck ledger"
proof (induction rule: payment_step.induct)
  case (log_step rt i db l db')
  then have "py_transactions db' = py_transactions db" by (auto simp: create_log_def and_then_eq_Inr Let_def)
  from recorded_cong[OF this] log_step(2) show ?case by simp
next
  case (status_step db rt tenant i st g)
  have "py_transactions (mark_log_status rt tenant i st g db) = py_transactions db"
    by (simp add: mark_log_status_def update_logs_def)
  from recorded_cong[OF this] status_step show ?case by simp
next
  case (create_step nested rt gw counter dto owner db resp db')
  from recorded_cong[OF create_intent_transactions[OF create_step(1)]] create_step(2) show ?case by simp
next
  case (sweep_step rt locked db ids db')
  then have "py_transactions db' = py_transactions db"
    by (auto simp: expire_stale_payment_intents_def expire_stale_pending_intents_def with_request_transaction_Inr
        and_then_eq_Inr Let_def update_intents_def)
  from recorded_cong[OF this] sweep_step(2) show ?case by simp
next
  case (job_step env rt job job_id db res db')
  then show ?case using recorded_job by blast
next
  case (post_step nested rt input db posted db')
  then have "post_transaction_callback rt input db = Inr (posted, db')"
    by (simp add: post_transaction_def with_request_transaction_Inr)
  from recorded_cong[OF post_frame(2)[OF this]] post_step(2) show ?case by simp
qed

lemma recorded_run: "payment_run db db' \<Longrightarrow> recorded db t ck ledger \<Longrightarrow> recorded db' t ck ledger"
  by (induction rule: payment_run.induct) (auto dest: recorded_step)

lemma upsert_tables:
  assumes "upsert_from_callback rt tenant i l c db = Inr (m, db')"
  obtains ts where "db' = db\<lparr>py_transactions := ts\<rparr>"
  using assms by (cases rule: upsert_Inr) auto

text \<open>A callback of a recorded checkout leaves the books as they are.\<close>

definition same_books :: "'a billing_db_scheme \<Rightarrow> 'a billing_db_scheme \<Rightarrow> bool" where
  "same_books db db' \<longleftrightarrow> fd_transactions db' = fd_transactions db \<and> fd_ledger_entries db' = fd_ledger_entries db \<and>
     bl_invoices db' = bl_invoices db \<and> bl_allocations db' = bl_allocations db \<and> bl_credits db' = bl_credits db \<and>
     bl_subscriptions db' = bl_subscriptions db \<and> ev_outbox db' = ev_outbox db"

lemma recorded_process_frame:
  assumes rec: "recorded db tenant (pc_checkout_request_id c) ledger"
    and pl: "process_locked_payment env rt tenant l c job_id db = Inr (res, db')"
  shows "same_books db db'"
proof -
  have up: "same_books db db2" if "upsert_from_callback rt tenant i l c (received rt tenant p db) = Inr (m, db2)" for i p m db2
    using that by (rule upsert_tables) (simp add: same_books_def)
  show ?thesis
    using pl
  proof (cases rule: process_locked_cases)
    case (failed p m db2 as)
    with up[OF failed(2)] show ?thesis by (simp add: same_books_def mark_intent_failed_def update_intents_def)
  next
    case (known p m db2 i)
    with up[OF known(2)] show ?thesis by (simp add: same_books_def mark_intent_completed_def update_intents_def)
  qed (use recorded_upsert(2) rec in \<open>auto dest: recorded_upsert(2)[rotated]\<close>)
qed

section \<open>A callback settles its payment\<close>

definition intent_with :: "'a payments_db_scheme \<Rightarrow> string \<Rightarrow> uuid \<Rightarrow> (payment_intent \<Rightarrow> bool) \<Rightarrow> bool" where
  "intent_with db tenant i q \<longleftrightarrow> (\<exists>r\<in>set (py_intents db). intent_at tenant i r \<and> q r)"

lemma intent_with_update:
  assumes "intent_with db tenant i q" and "\<And>r. intent_at tenant i (f r) = intent_at tenant i r"
    and "\<And>r. q r \<Longrightarrow> q' (f r)"
  shows "intent_with (update_intents (intent_at tenant i) f db) tenant i q'"
  using assms by (auto simp: intent_with_def update_intents_def set_update_where)

lemma upsert_found:
  assumes "upsert_from_callback rt tenant i l c db = Inr (m, db')"
  shows "find_mpesa_transaction db' tenant (pc_checkout_request_id c) = Some m" and "mt_status m = pc_status c"
    and "(\<And>ledger. \<not> recorded db tenant (pc_checkout_request_id c) ledger) \<Longrightarrow> mt_ledger_transaction_id m = None"
proof -
  have "find_mpesa_transaction db' tenant (pc_checkout_request_id c) = Some m \<and> mt_status m = pc_status c \<and>
    ((\<forall>ledger. \<not> recorded db tenant (pc_checkout_request_id c) ledger) \<longrightarrow> mt_ledger_transaction_id m = None)"
    using assms
  proof (cases rule: upsert_Inr)
    case inserted
    then show ?thesis by (simp add: find_mpesa_transaction_def select_first_append)
  next
    case (updated old new)
    have q: "transaction_for tenant (pc_checkout_request_id c) (merge_mpesa_row rt new r) =
        transaction_for tenant (pc_checkout_request_id c) r" for r
      by (simp add: transaction_for_def merge_mpesa_row_def)
    have "find_mpesa_transaction db' tenant (pc_checkout_request_id c) = Some m"
      unfolding updated(4) find_updated[of tenant "pc_checkout_request_id c", OF q] updated(1)
      using found_key[OF updated(1)] updated(2) by simp
    moreover have "mt_status m = pc_status c" using updated(2,5) by (simp add: merge_mpesa_row_def)
    ultimately show ?thesis using updated(1,3) by (auto simp: recorded_def)
  qed
  then show "find_mpesa_transaction db' tenant (pc_checkout_request_id c) = Some m" and "mt_status m = pc_status c"
    and "(\<And>ledger. \<not> recorded db tenant (pc_checkout_request_id c) ledger) \<Longrightarrow> mt_ledger_transaction_id m = None"
    by auto
qed

lemma mpesa_ledger_accounts_Inr:
  "mpesa_ledger_accounts rt tenant db = Inr (d, k) \<Longrightarrow> \<exists>dc kc.
     rt_config rt ''mpesa.ledgerDebitAccountCode'' = Some dc \<and> find_account_by_code db tenant dc = Some d \<and>
     rt_config rt ''mpesa.ledgerCreditAccountCode'' = Some kc \<and> find_account_by_code db tenant kc = Some k"
  by (auto simp: mpesa_ledger_accounts_def require_mpesa_config_def and_then_eq_Inr Let_def or_default_def js_trim_def
      split: option.splits if_splits)

text \<open>The ledger side of a settlement: one transaction, a debit and a credit of the amount.\<close>

lemma mpesa_posting:
  assumes inv: "payments_inv db" and post: "post_transaction_callback rt (mpesa_post_input p c (show_int n) d k) db = Inr (posted, db')"
    and tenant: "rt_tenant_id rt = Some tenant"
    and key: "\<forall>r\<in>set (fd_idempotency_keys db).
      row_key r \<noteq> (tenant, FINANCE_IDEMPOTENCY_SCOPE, js_trim (''mpesa:checkout:'' @ pc_checkout_request_id c))"
    and ref: "\<forall>t\<in>set (fd_transactions db).
      \<not> (tx_tenant_id t = tenant \<and> tx_reference t = js_trim (''MPESA-'' @ pc_checkout_request_id c))"
  shows "\<exists>t e1 e2. fd_transactions db' = fd_transactions db @ [t] \<and> fd_ledger_entries db' = fd_ledger_entries db @ [e1, e2] \<and>
    tx_tenant_id t = tenant \<and> tx_id t = pt_transaction_id posted \<and>
    le_transaction_id e1 = tx_id t \<and> le_account_id e1 = ac_id d \<and> le_direction e1 = Debit \<and> le_amount_minor e1 = n \<and>
    le_transaction_id e2 = tx_id t \<and> le_account_id e2 = ac_id k \<and> le_direction e2 = Credit \<and> le_amount_minor e2 = n"
proof -
  let ?input = "mpesa_post_input p c (show_int n) d k"
  from post_attempt[OF post] obtain li where li: "lock_input_of rt ?input = Inr li" by blast
  have ten: "li_tenant_id li = tenant" using lock_input_ofD(2)[OF li] tenant by simp
  have k: "li_key li = js_trim (''mpesa:checkout:'' @ pc_checkout_request_id c)"
    using li by (auto simp: lock_input_of_def and_then_eq_Inr require_non_empty_text_def mpesa_post_input_def
        MPESA_LEDGER_IDEMPOTENCY_PREFIX_def split: if_splits)
  have "input_key li = (tenant, FINANCE_IDEMPOTENCY_SCOPE, js_trim (''mpesa:checkout:'' @ pc_checkout_request_id c))"
    using ten k lock_input_ofD(3)[OF li] by (simp add: input_key_def)
  with key have fk: "get_locked_record (fd_idempotency_keys db) (input_key li) = None"
    unfolding get_locked_record_def select_first_None by simp
  have fr: "\<forall>t\<in>set (fd_transactions db). \<not> (tx_tenant_id t = li_tenant_id li \<and> tx_reference t = js_trim (pi_reference ?input))"
    using ref ten by (simp only: mpesa_post_input_def post_input.simps)
  have inv': "ledger_inv db" using inv by (simp add: payments_inv_def)
  have post': "post_transaction True rt ?input db = Inr (posted, db')"
    using post by (simp add: post_transaction_def with_request_transaction_def)
  from posting_writes_request[OF inv' post' li fk fr] obtain t es where
    w: "fd_transactions db' = fd_transactions db @ [t]" "fd_ledger_entries db' = fd_ledger_entries db @ es"
      "tx_tenant_id t = li_tenant_id li" "pt_transaction_id posted = tx_id t" "length es = length (pi_entries ?input)"
      "\<forall>k < length es. let e = es ! k; q = pi_entries ?input ! k in
       le_tenant_id e = tx_tenant_id t \<and> le_transaction_id e = tx_id t \<and> le_line_number e = k + 1 \<and>
       le_account_id e = pe_account_id q \<and> le_direction e = pe_direction q \<and>
       le_amount_minor e = parse_int (js_trim (pe_amount_minor q)) \<and> le_description e = pe_description q"
    by blast
  have "length es = 2" using w(5) by (simp add: mpesa_post_input_def)
  then obtain e1 e2 where es: "es = [e1, e2]" by (auto simp: length_Suc_conv numeral_2_eq_2)
  have e: "le_transaction_id (es ! i) = tx_id t \<and> le_account_id (es ! i) = pe_account_id (pi_entries ?input ! i) \<and>
      le_direction (es ! i) = pe_direction (pi_entries ?input ! i) \<and>
      le_amount_minor (es ! i) = parse_int (js_trim (pe_amount_minor (pi_entries ?input ! i)))" if "i < length es" for i
    using w(6)[rule_format, OF that] unfolding Let_def by (elim conjE, intro conjI)
  have q0: "pe_account_id (pi_entries ?input ! 0) = ac_id d" "pe_direction (pi_entries ?input ! 0) = Debit"
      "pe_amount_minor (pi_entries ?input ! 0) = show_int n"
    and q1: "pe_account_id (pi_entries ?input ! 1) = ac_id k" "pe_direction (pi_entries ?input ! 1) = Credit"
      "pe_amount_minor (pi_entries ?input ! 1) = show_int n"
    by (simp_all add: mpesa_post_input_def)
  have "le_transaction_id e1 = tx_id t" "le_account_id e1 = ac_id d" "le_direction e1 = Debit" "le_amount_minor e1 = n"
    using e[of 0] q0 unfolding es by simp_all
  moreover have "le_transaction_id e2 = tx_id t" "le_account_id e2 = ac_id k" "le_direction e2 = Credit" "le_amount_minor e2 = n"
    using e[of 1] q1 unfolding es by simp_all
  ultimately show ?thesis using w(1-4) ten unfolding es by (intro exI[of _ t] exI[of _ e1] exI[of _ e2]) simp
qed

text \<open>A success callback that is processed matches its intent.\<close>

lemma process_locked_matches:
  assumes pl: "process_locked_payment env rt tenant l c job_id (db :: 'a payments_db_scheme) = Inr (res, db')"
    and "lock_payment_intent db tenant c = Inr p" and "pc_status c = MpesaSucceeded"
  shows "\<exists>db2 :: 'a payments_db_scheme. assert_callback_matches_intent rt p c db2 = Inr ()"
  using assms by (auto simp: process_locked_payment_def and_then_eq_Inr Let_def split: if_splits)

end
