(* ===== verification/Payments_Examples.thy ===== *)
theory Payments_Examples
  imports Payments_Invariant Ledger_Examples
begin

text \<open>
  A school's payment of 15 shillings for the witnesses: the intent after its STK push, the callback of the
  gateway in its log, and the worker's run over it.
\<close>

definition pay_rt :: runtime where
  "pay_rt = ex_rt\<lparr>rt_config := (\<lambda>k. if k = ''mpesa.ledgerDebitAccountCode'' then Some ''1110''
     else if k = ''mpesa.ledgerCreditAccountCode'' then Some ''1100'' else None)\<rparr>"

definition pay_intent :: payment_intent where
  "pay_intent = \<lparr>in_id = 1, in_tenant_id = ''t1'', in_idempotency_key_id = 1, in_user_id = None,
     in_student_id = None, in_request_id = Some ''r0'', in_external_reference = None, in_account_reference = ''F1'',
     in_transaction_desc = ''Fees'', in_phone_number = ''254712345678'', in_amount_minor = 1500,
     in_currency_code = ''KES'', in_payment_owner = OwnerTenant, in_mpesa_config_id = None,
     in_payment_channel_id = None, in_mpesa_short_code = None, in_payment_channel_type = None,
     in_ledger_debit_account_code = None, in_ledger_credit_account_code = None, in_status = PiStkRequested,
     in_merchant_request_id = Some ''m1'', in_checkout_request_id = Some ''w1'', in_response_code = Some ''0'',
     in_response_description = None, in_customer_message = None, in_ledger_transaction_id = None,
     in_failure_reason = None, in_stk_requested_at = Some 900, in_callback_received_at = None,
     in_completed_at = None, in_expires_at = Some 1800900, in_metadata = [], in_created_at = 900, in_updated_at = 900\<rparr>"

definition pay_body :: stk_callback where
  "pay_body = \<lparr>sk_merchant_request_id = Some ''m1'', sk_checkout_request_id = Some ''w1'', sk_result_code = Some 0,
     sk_result_desc = Some ''ok'', sk_items = [Some \<lparr>mi_name = ''Amount'', mi_value = Some (JNum ''15'')\<rparr>,
       Some \<lparr>mi_name = ''MpesaReceiptNumber'', mi_value = Some (JStr ''R1'')\<rparr>]\<rparr>"

definition pay_log :: callback_log where
  "pay_log = \<lparr>cl_id = 1, cl_tenant_id = ''t1'', cl_merchant_request_id = Some ''m1'',
     cl_checkout_request_id = Some ''w1'', cl_mpesa_short_code = None, cl_delivery_id = ''d1'',
     cl_request_fingerprint = ''f1'', cl_event_timestamp = None, cl_signature = None, cl_signature_verified = True,
     cl_headers = JNull, cl_raw_body = [], cl_raw_payload = Some (Some pay_body), cl_source_ip = None,
     cl_processing_status = ClQueued, cl_queue_job_id = None, cl_failure_reason = None, cl_queued_at = None,
     cl_processed_at = None, cl_created_at = 950, cl_updated_at = 950\<rparr>"

definition pay_db :: payments_db where
  "pay_db = \<lparr>fd_idempotency_keys = [], fd_accounts = ex_accounts, fd_transactions = [],
     fd_ledger_entries = [], fd_audit_logs = [], fd_sync_operations = [], ev_outbox = [], ev_runs = [],
     bl_subscriptions = [], bl_invoices = [], bl_allocations = [], bl_credits = [], bl_notifications = [],
     bl_usage = [], bl_fee_structures = [], py_intents = [pay_intent], py_logs = [pay_log],
     py_transactions = [], py_keys = []\<rparr>"

definition pay_env :: worker_env where
  "pay_env = \<lparr>we_json_parse = (\<lambda>_. Inl (BadRequestException ''Unexpected token'')), we_counter = (\<lambda>_. Inr 1),
     we_locked = (\<lambda>_. False)\<rparr>"

definition pay_job :: payment_job where
  "pay_job = \<lparr>pj_tenant_id = ''t1'', pj_checkout_request_id = Some ''w1'', pj_callback_log_id = Some 1,
     pj_request_id = ''r1'', pj_trace_id = None, pj_parent_span_id = None, pj_user_id = None, pj_role = None,
     pj_session_id = None\<rparr>"

definition pay_callback :: parsed_callback where
  "pay_callback = \<lparr>pc_merchant_request_id = ''m1'', pc_checkout_request_id = ''w1'', pc_result_code = 0,
     pc_result_desc = ''ok'', pc_status = MpesaSucceeded, pc_amount_minor = Some ''1500'',
     pc_mpesa_receipt_number = Some ''R1'', pc_transaction_occurred_at = None, pc_phone_number = None,
     pc_metadata = [(''Amount'', JNum ''15''), (''MpesaReceiptNumber'', JStr ''R1'')]\<rparr>"

section \<open>The posting\<close>

definition pay_context :: runtime where
  "pay_context = worker_context pay_rt pay_job"

definition pay_input :: post_input where
  "pay_input = mpesa_post_input pay_intent pay_callback ''1500'' (ex_accounts ! 0) (ex_accounts ! 1)"

definition pay_lock_input :: lock_input where
  "pay_lock_input = \<lparr>li_tenant_id = ''t1'', li_user_id = None, li_scope = ''finance:ledger:post'',
     li_key = ''mpesa:checkout:w1'', li_request_hash = ''h'', li_request_method = ''POST'',
     li_request_path = ''/internal/finance/transactions'', li_ttl_seconds = 86400\<rparr>"

definition pay_key_row :: "posted_transaction idem_row" where
  "pay_key_row = \<lparr>ik_id = 1, ik_tenant_id = ''t1'', ik_user_id = None, ik_scope = ''finance:ledger:post'',
     ik_key = ''mpesa:checkout:w1'', ik_request_method = ''POST'',
     ik_request_path = ''/internal/finance/transactions'', ik_request_hash = ''h'', ik_status = IkInProgress,
     ik_response_status_code = None, ik_response_body = None, ik_locked_at = Some 1000, ik_completed_at = None,
     ik_expires_at = 86401000, ik_created_at = 1000, ik_updated_at = 1000\<rparr>"

definition pay_debit_metadata :: json where
  "pay_debit_metadata = JObj [(''mpesa_receipt_number'', JStr ''R1'')]"

definition pay_credit_metadata :: json where
  "pay_credit_metadata = JObj [(''payment_intent_id'', JStr (uuid_text 1)), (''student_id'', JNull),
     (''account_reference'', JStr ''F1'')]"

definition pay_plan :: posting_plan where
  "pay_plan = \<lparr>pp_currency_code = ''KES'', pp_entry_count = 2, pp_total_amount_minor = ''1500'',
     pp_entries = [\<lparr>ve_account_id = 1, ve_direction = Debit, ve_amount_minor = ''1500'', ve_currency_code = ''KES'',
       ve_description = Some ''M-PESA funds received (w1)'', ve_metadata = Some pay_debit_metadata, ve_line_number = 1\<rparr>,
      \<lparr>ve_account_id = 2, ve_direction = Credit, ve_amount_minor = ''1500'', ve_currency_code = ''KES'',
       ve_description = Some ''Customer deposit (F1)'', ve_metadata = Some pay_credit_metadata, ve_line_number = 2\<rparr>]\<rparr>"

lemma pay_lock_input: "lock_input_of pay_context pay_input = Inr pay_lock_input"
  by code_simp

lemma pay_locked: "finance_lock_request pay_context pay_lock_input [] = Inr (pay_key_row, [pay_key_row])"
  by code_simp

lemma pay_plan_ok: "build_posting_plan pay_input ex_accounts = Inr pay_plan"
  by code_simp

lemma pay_parts:
  "sort (js_uniq (map pe_account_id (pi_entries pay_input))) = [1, 2]"
  "lock_accounts_by_ids pay_db ''t1'' [1, 2] = ex_accounts"
  "Ledger.require_tenant_id pay_context = Inr ''t1''"
  "js_trim (pi_reference pay_input) = ''MPESA-w1''" "js_trim (pi_description pay_input) = ''M-PESA payment F1''"
  by code_simp+

definition pay_txn :: fin_transaction where
  "pay_txn = \<lparr>tx_id = 1, tx_tenant_id = ''t1'', tx_idempotency_key_id = 1, tx_reference = ''MPESA-w1'',
     tx_description = ''M-PESA payment F1'', tx_currency_code = ''KES'', tx_total_amount_minor = 1500,
     tx_entry_count = 2, tx_effective_at = 2000, tx_posted_at = 2000, tx_created_by_user_id = None,
     tx_request_id = ''r1'', tx_metadata = or_default (pi_metadata pay_input) JNull\<rparr>"

definition pay_entries :: "ledger_entry list" where
  "pay_entries =
     [\<lparr>le_id = 1, le_tenant_id = ''t1'', le_transaction_id = 1, le_account_id = 1, le_line_number = 1,
       le_direction = Debit, le_amount_minor = 1500, le_currency_code = ''KES'',
       le_description = Some ''M-PESA funds received (w1)'', le_metadata = pay_debit_metadata\<rparr>,
      \<lparr>le_id = 2, le_tenant_id = ''t1'', le_transaction_id = 1, le_account_id = 2, le_line_number = 2,
       le_direction = Credit, le_amount_minor = 1500, le_currency_code = ''KES'',
       le_description = Some ''Customer deposit (F1)'', le_metadata = pay_credit_metadata\<rparr>]"

text \<open>The tables during the job.\<close>

definition pay_log2 :: callback_log where
  "pay_log2 = pay_log\<lparr>cl_processing_status := ClProcessing, cl_updated_at := 1000\<rparr>"

definition pay_intent2 :: payment_intent where
  "pay_intent2 = pay_intent\<lparr>in_status := PiCallbackReceived, in_callback_received_at := Some 1000, in_updated_at := 1000\<rparr>"

definition pay_mpesa :: mpesa_transaction where
  "pay_mpesa = mpesa_row pay_context ''t1'' 1 pay_log pay_callback (Some 1500) 1"

definition pay_logged :: payments_db where
  "pay_logged = pay_db\<lparr>py_logs := [pay_log2]\<rparr>"

definition pay_recorded :: payments_db where
  "pay_recorded = pay_db\<lparr>py_logs := [pay_log2], py_intents := [pay_intent2], py_transactions := [pay_mpesa]\<rparr>"

definition pay_mid :: payments_db where
  "pay_mid = mark_intent_processing pay_context ''t1'' 1 pay_recorded"

definition pay_keyed :: payments_db where
  "pay_keyed = pay_mid\<lparr>fd_idempotency_keys := [pay_key_row]\<rparr>"

lemma pay_resolved: "resolve_callback_log pay_env pay_context pay_job pay_db = Inr (pay_log, pay_callback)"
  by code_simp

lemma pay_steps:
  "mark_log_processing pay_context ''t1'' 1 pay_db = pay_logged"
  "lock_payment_intent pay_logged ''t1'' pay_callback = Inr pay_intent"
  "lock_payment_intent pay_db ''t1'' pay_callback = Inr pay_intent"
  "upsert_from_callback pay_context ''t1'' 1 pay_log pay_callback (received pay_context ''t1'' pay_intent pay_logged) =
     Inr (pay_mpesa, pay_recorded)"
  by code_simp+

lemma pay_mid_sel [simp]:
  "fd_idempotency_keys pay_mid = []" "fd_accounts pay_mid = ex_accounts" "fd_transactions pay_mid = []"
  "fd_ledger_entries pay_mid = []" "ev_outbox pay_mid = []" "bl_invoices pay_mid = []"
  by (simp_all add: pay_mid_def pay_recorded_def pay_db_def mark_intent_processing_def update_intents_def)

lemma pay_create: "create_row_for pay_context ''t1'' ''MPESA-w1'' ''M-PESA payment F1'' pay_input pay_plan 1 pay_keyed =
    Inr (pay_txn, pay_keyed\<lparr>fd_transactions := [pay_txn]\<rparr>)"
  by code_simp

lemma pay_insert: "insert_entries ''t1'' 1 (pp_entries pay_plan) (pay_keyed\<lparr>fd_transactions := [pay_txn]\<rparr>) =
    Inr (pay_entries, pay_keyed\<lparr>fd_transactions := [pay_txn], fd_ledger_entries := pay_entries\<rparr>)"
  by code_simp

lemma pay_rendered: "\<exists>ps. traverse (render_entry (account_map ex_accounts)) (sort_key le_line_number pay_entries) = Inr ps"
  by (rule exI) code_simp

lemma pay_posted: "\<exists>posted db'. post_transaction_callback pay_context pay_input pay_mid = Inr (posted, db')"
proof -
  obtain ps where ps: "traverse (render_entry (account_map ex_accounts)) (sort_key le_line_number pay_entries) = Inr ps"
    using pay_rendered by blast
  have "fd_accounts pay_keyed = fd_accounts pay_db" by (simp add: pay_keyed_def pay_db_def)
  with pay_parts(2) have accounts: "lock_accounts_by_ids pay_keyed ''t1'' [1, 2] = ex_accounts"
    by (simp only: lock_accounts_by_ids_def)
  have nf: "find_by_reference TxOpen pay_keyed ''t1'' ''MPESA-w1'' = Inr None"
    by (simp add: find_by_reference_def pay_keyed_def)
  have key: "lock_idempotency_key pay_context pay_input pay_mid = Inr (pay_key_row, pay_keyed)"
    by (simp add: lock_idempotency_key_Inr pay_lock_input pay_locked pay_keyed_def)
  have row: "replay_body pay_key_row = None" "ik_id pay_key_row = 1" "tx_id pay_txn = 1"
    by (simp_all add: replay_body_def pay_key_row_def pay_txn_def)
  have texts: "require_non_empty_text (pi_reference pay_input) ''reference'' = Inr ''MPESA-w1''"
    "require_non_empty_text (pi_description pay_input) ''description'' = Inr ''M-PESA payment F1''"
    using pay_parts(4,5) by (simp_all add: require_non_empty_text_def)
  have "\<exists>r db'. post_new pay_context ''t1'' pay_input pay_plan 1 [1, 2] ex_accounts pay_txn
      (pay_keyed\<lparr>fd_transactions := [pay_txn]\<rparr>) = Inr (r, db')"
    unfolding post_new_def row pay_insert and_then_Inr prod.case build_posted_transaction_def ps Let_def by simp
  then obtain r db' where new: "post_new pay_context ''t1'' pay_input pay_plan 1 [1, 2] ex_accounts pay_txn
      (pay_keyed\<lparr>fd_transactions := [pay_txn]\<rparr>) = Inr (r, db')" by blast
  have len: "length ex_accounts = length [1, 2 :: uuid]" by (simp add: ex_accounts_def)
  have "post_locked pay_context ''t1'' ''MPESA-w1'' ''M-PESA payment F1'' pay_input pay_key_row pay_keyed = Inr (r, db')"
    unfolding post_locked_def pay_parts(1) Let_def accounts pay_plan_ok and_then_Inr nf option.case row pay_create sum.case
      prod.case new
    using len by simp
  then show ?thesis
    unfolding post_transaction_callback_def pay_parts(3) texts and_then_Inr key prod.case row by auto
qed

section \<open>The job\<close>

lemma pay_accounts: "mpesa_ledger_accounts pay_context ''t1'' pay_mid = Inr (ex_accounts ! 0, ex_accounts ! 1)"
  by code_simp

lemma pay_settled: "\<exists>ledger db'. settle_payment pay_context (\<lambda>_. False) ''t1'' pay_intent pay_callback ''1500'' 1 pay_recorded =
    Inr (ledger, db')"
proof -
  obtain posted db2 where post: "post_transaction_callback pay_context pay_input pay_mid = Inr (posted, db2)"
    using pay_posted by blast
  have inv: "bl_invoices db2 = []"
    using post by (cases rule: post_cases) simp_all
  let ?db4 = "mark_intent_completed pay_context ''t1'' 1 (pt_transaction_id posted)
    (attach_ledger_transaction pay_context ''t1'' ''w1'' (pt_transaction_id posted) db2)"
  have handled: "handle_payment_intent_completed pay_context (\<lambda>_. False) ''t1'' 1 ''1500''
      (Some (completed_intent_of pay_intent)) l ?db4 = Inr ?db4" for l
    using inv by (simp add: handle_payment_intent_completed_def completed_intent_of_def pay_intent_def
        lock_invoice_by_payment_intent_def mark_intent_completed_def update_intents_def attach_ledger_transaction_def)
  have ctx: "rt_tenant_id pay_context = Some ''t1''" by (simp add: pay_context_def pay_job_def)
  obtain db6 where pub: "publish_payment_completed pay_context 1
      (payment_completed_payload pay_context pay_intent pay_callback 1 (pt_transaction_id posted)) ?db4 = Inr db6"
    using publish_completed_succeeds[OF ctx] by blast
  have sel: "in_id pay_intent = 1" "pc_checkout_request_id pay_callback = ''w1''"
    by (simp_all add: pay_intent_def pay_callback_def)
  have "settle_payment pay_context (\<lambda>_. False) ''t1'' pay_intent pay_callback ''1500'' 1 pay_recorded =
      Inr (pt_transaction_id posted, db6)"
    unfolding settle_payment_def sel pay_mid_def[symmetric] Let_def pay_accounts and_then_Inr prod.case
      pay_input_def[symmetric] post_transaction_def with_request_transaction_def if_True post handled pub ..
  then show ?thesis by blast
qed

lemma pay_db_inv: "payments_inv pay_db"
  by (simp add: payments_inv_def ledger_inv_def pay_db_def idem_invar_def accounts_ok_def ex_accounts_def currency_format_def
      is_upper_letter_def responses_ok_def tables_ok_def intent_ok_def mpesa_ok_def pay_intent_def)

lemma pay_job_run: "\<exists>res db'. process_payment_job pay_env pay_rt pay_job job_id pay_db = (Inr res, db')"
proof -
  obtain ledger db' where st: "settle_payment pay_context (\<lambda>_. False) ''t1'' pay_intent pay_callback ''1500'' 1 pay_recorded =
      Inr (ledger, db')" using pay_settled by blast
  have sel: "in_id pay_intent = 1" "cl_id pay_log = 1" "pj_tenant_id pay_job = ''t1''" "mt_id pay_mpesa = 1"
    "mt_ledger_transaction_id pay_mpesa = None" "in_ledger_transaction_id pay_intent = None" "in_status pay_intent = PiStkRequested"
    "pc_status pay_callback = MpesaSucceeded" "pc_amount_minor pay_callback = Some ''1500''" "pc_phone_number pay_callback = None"
    "in_amount_minor pay_intent = 1500" "we_locked pay_env = (\<lambda>_. False)"
    by (simp_all add: pay_intent_def pay_log_def pay_job_def pay_mpesa_def mpesa_row_def pay_callback_def pay_env_def)
  have match: "assert_callback_matches_intent pay_context pay_intent pay_callback db = Inr ()" for db :: payments_db
    by (simp add: assert_callback_matches_intent_def sel ex_numerals truthy_def)
  have "\<exists>res. process_locked_payment pay_env pay_context ''t1'' pay_log pay_callback job_id pay_logged = Inr (res, db')"
    by (rule process_locked_settles[OF pay_steps(2) sel(1)[symmetric] pay_steps(4) sel(8,9), where ledger = ledger])
      (simp_all add: sel match is_non_completable_payment_intent_def st del: One_nat_def)
  then obtain res where pl: "process_locked_payment pay_env pay_context ''t1'' pay_log pay_callback job_id pay_logged = Inr (res, db')"
    by blast
  have "payments_inv pay_logged"
    by (rule payments_inv_frame[OF pay_db_inv]) (simp_all add: pay_logged_def)
  then have "payments_inv db'" by (rule process_locked_ok[OF _ _ pl]) (simp add: pay_context_def sel)
  then have chk: "deferred_balance_checks pay_logged db' = Inr ()" by (intro deferred_checks_ok) (simp add: payments_inv_def)
  show ?thesis
    unfolding process_payment_job_def Let_def pay_context_def[symmetric] sel pay_resolved sum.case prod.case sel
      pay_steps(1) with_request_transaction_def if_False pl and_then_Inr chk by simp
qed

end
