(* ===== verification/Payments_Claims.thy ===== *)
theory Payments_Claims
  imports Payments_Settlement Payments_Examples
begin

text \<open>The properties of M-PESA payments, with a school's payment of 15 shillings for the witnesses.\<close>

section \<open>A settled checkout\<close>

definition pay_paid_db :: payments_db where
  "pay_paid_db = pay_db\<lparr>py_transactions := [pay_mpesa\<lparr>mt_ledger_transaction_id := Some 7\<rparr>]\<rparr>"

text \<open>C11: A checkout is paid into the books at most once: once the M-PESA transaction of a checkout request
  carries a ledger transaction, it carries that one after any run of logged callbacks, jobs, new intents,
  sweeps and other postings, and every further job for a callback of this checkout, a success or a failure,
  redelivered or forged, leaves the ledger, the invoices, the fee allocations and credits, the subscriptions
  and the outbox exactly as they are.\<close>

theorem settled_checkout_never_posts_again:
  assumes "find_mpesa_transaction db tenant checkout = Some m" and "mt_ledger_transaction_id m = Some ledger"
    and "payment_run db db1" and "process_payment_job env rt job job_id db1 = (res, db2)"
    and "resolve_callback_log env (worker_context rt job) job db1 = Inr (l, c)"
    and "pj_tenant_id job = tenant" and "pc_checkout_request_id c = checkout"
  shows "fd_transactions db2 = fd_transactions db1 \<and> fd_ledger_entries db2 = fd_ledger_entries db1 \<and>
    bl_invoices db2 = bl_invoices db1 \<and> bl_allocations db2 = bl_allocations db1 \<and> bl_credits db2 = bl_credits db1 \<and>
    bl_subscriptions db2 = bl_subscriptions db1 \<and> ev_outbox db2 = ev_outbox db1 \<and>
    (\<exists>m'. find_mpesa_transaction db2 tenant checkout = Some m' \<and> mt_ledger_transaction_id m' = Some ledger)"
proof -
  have r1: "recorded db1 tenant checkout ledger"
    using recorded_run[OF assms(3)] assms(1,2) by (auto simp: recorded_def)
  have r2: "recorded db2 tenant checkout ledger" by (rule recorded_job[OF r1 assms(4)])
  from assms(4) show ?thesis
  proof (cases rule: job_cases)
    case (failed e ls)
    with r2 show ?thesis by (simp add: recorded_def)
  next
    case (succeeded x l' c' db3 ls)
    obtain ls' where mk: "mark_log_processing (worker_context rt job) (pj_tenant_id job) (cl_id l') db1 = db1\<lparr>py_logs := ls'\<rparr>"
      using mark_log_processing_logs by blast
    have "recorded (db1\<lparr>py_logs := ls'\<rparr>) tenant checkout ledger" using r1 recorded_cong[of "db1\<lparr>py_logs := ls'\<rparr>" db1] by simp
    with recorded_process_frame[OF _ succeeded(3)] mk succeeded(2) assms(5-7)
    have "same_books (db1\<lparr>py_logs := ls'\<rparr>) db3" by simp
    with succeeded(4) r2 show ?thesis by (simp add: recorded_def same_books_def)
  qed
qed

theorem settled_checkout_never_posts_again_witness:
  "fd_transactions (snd (process_payment_job pay_env pay_rt pay_job ''j'' pay_paid_db)) = fd_transactions pay_paid_db \<and>
    (\<exists>m'. find_mpesa_transaction (snd (process_payment_job pay_env pay_rt pay_job ''j'' pay_paid_db)) ''t1'' ''w1'' = Some m' \<and>
      mt_ledger_transaction_id m' = Some 7)"
proof -
  have found: "find_mpesa_transaction pay_paid_db ''t1'' ''w1'' = Some (pay_mpesa\<lparr>mt_ledger_transaction_id := Some 7\<rparr>)"
    by code_simp
  have resolved: "resolve_callback_log pay_env (worker_context pay_rt pay_job) pay_job pay_paid_db = Inr (pay_log, pay_callback)"
    by code_simp
  show ?thesis
    using settled_checkout_never_posts_again[OF found _ run_refl, of 7 pay_env pay_rt pay_job "''j''"
      "fst (process_payment_job pay_env pay_rt pay_job ''j'' pay_paid_db)"
      "snd (process_payment_job pay_env pay_rt pay_job ''j'' pay_paid_db)" pay_log pay_callback] resolved
    by (simp add: pay_job_def pay_callback_def)
qed

section \<open>A confirmed payment\<close>

text \<open>C10: A confirmed payment is booked: when a worker's job for a success callback of an open intent whose
  checkout has no ledger transaction yet succeeds, it reports the payment completed, and the ledger has
  exactly one new transaction of the tenant, a debit of the configured clearing account and a credit of the
  configured credit account, each of the intent's amount; the intent is completed and the M-PESA transaction
  succeeded, both carrying that ledger transaction, and the event of the completed payment is in the outbox.\<close>

theorem confirmed_payment_is_booked:
  assumes inv: "payments_inv db" and job: "process_payment_job env rt job job_id db = (Inr res, db')"
    and call: "resolve_callback_log env (worker_context rt job) job db = Inr (l, c)"
    and intent: "lock_payment_intent db tenant c = Inr p" and tenant: "pj_tenant_id job = tenant"
    and success: "pc_status c = MpesaSucceeded"
    and open_intent: "\<not> is_terminal_payment_intent (in_status p)" "in_ledger_transaction_id p = None"
    and new: "find_mpesa_transaction db tenant (pc_checkout_request_id c) = None"
    and key: "\<forall>r\<in>set (fd_idempotency_keys db).
      row_key r \<noteq> (tenant, FINANCE_IDEMPOTENCY_SCOPE, js_trim (''mpesa:checkout:'' @ pc_checkout_request_id c))"
    and ref: "\<forall>t\<in>set (fd_transactions db).
      \<not> (tx_tenant_id t = tenant \<and> tx_reference t = js_trim (''MPESA-'' @ pc_checkout_request_id c))"
  shows "jr_status res = JobCompleted \<and>
    (\<exists>t e1 e2 d k dc kc. fd_transactions db' = fd_transactions db @ [t] \<and>
       fd_ledger_entries db' = fd_ledger_entries db @ [e1, e2] \<and> tx_tenant_id t = tenant \<and>
       jr_ledger_transaction_id res = Some (tx_id t) \<and>
       rt_config rt ''mpesa.ledgerDebitAccountCode'' = Some dc \<and> find_account_by_code db tenant dc = Some d \<and>
       rt_config rt ''mpesa.ledgerCreditAccountCode'' = Some kc \<and> find_account_by_code db tenant kc = Some k \<and>
       le_account_id e1 = ac_id d \<and> le_direction e1 = Debit \<and> le_amount_minor e1 = in_amount_minor p \<and>
       le_account_id e2 = ac_id k \<and> le_direction e2 = Credit \<and> le_amount_minor e2 = in_amount_minor p \<and>
       (\<exists>p'\<in>set (py_intents db'). in_tenant_id p' = tenant \<and> in_id p' = in_id p \<and> in_status p' = PiCompleted \<and>
          in_ledger_transaction_id p' = Some (tx_id t)) \<and>
       (\<exists>m. find_mpesa_transaction db' tenant (pc_checkout_request_id c) = Some m \<and> mt_status m = MpesaSucceeded \<and>
          mt_ledger_transaction_id m = Some (tx_id t)) \<and>
       (\<exists>e\<in>set (ev_outbox db'). oe_tenant_id e = tenant \<and> oe_event_key e = ''payment.completed:'' @ uuid_text (in_id p)))"
  using job
proof (cases rule: job_cases)
  case (succeeded x l' c' db3 ls)
  let ?rt = "worker_context rt job" and ?ck = "pc_checkout_request_id c"
  obtain ls' where mk: "mark_log_processing ?rt tenant (cl_id l') db = db\<lparr>py_logs := ls'\<rparr>"
    using mark_log_processing_logs by blast
  let ?db = "db\<lparr>py_logs := ls'\<rparr>"
  have i0: "payments_inv ?db" by (rule payments_inv_frame[OF inv]) simp_all
  have c': "c' = c" using succeeded(2) call by simp
  have lock: "lock_payment_intent ?db tenant c = Inr p"
    using intent by (simp add: lock_payment_intent_def lock_by_checkout_or_merchant_request_id_def latest_intent_def)
  have none: "\<not> recorded (received ?rt tenant q ?db) tenant ?ck ledger" for q ledger
    using new recorded_cong[of ?db db] by (simp add: recorded_def)
  note pl = succeeded(3)[unfolded c' tenant, unfolded mk]
  from pl have "jr_status res = JobCompleted \<and> (\<exists>m db2 ledger.
      upsert_from_callback ?rt tenant (in_id p) l' c (received ?rt tenant p ?db) = Inr (m, db2) \<and>
      settle_payment ?rt (we_locked env) tenant p c (show_int (in_amount_minor p)) (mt_id m) db2 = Inr (ledger, db3) \<and>
      jr_ledger_transaction_id res = Some ledger)"
  proof (cases rule: process_locked_cases)
    case (settled q m db2 ledger)
    then show ?thesis using lock succeeded(1) by auto
  next
    case (known q m db2 ledger)
    then show ?thesis using upsert_found(3)[OF known(2)] none by simp
  next
    case (attached q m db2 ledger)
    then show ?thesis using lock open_intent by simp
  next
    case (closed q m db2)
    then show ?thesis using lock open_intent(1)
      by (auto simp: is_terminal_payment_intent_def is_non_completable_payment_intent_def)
  qed (use success in simp)
  then obtain m db2 ledger where up: "upsert_from_callback ?rt tenant (in_id p) l' c (received ?rt tenant p ?db) = Inr (m, db2)"
    and st: "settle_payment ?rt (we_locked env) tenant p c (show_int (in_amount_minor p)) (mt_id m) db2 = Inr (ledger, db3)"
    and res: "jr_status res = JobCompleted" "jr_ledger_transaction_id res = Some ledger" by blast
  obtain ts where db2: "db2 = (received ?rt tenant p ?db)\<lparr>py_transactions := ts\<rparr>" using up by (rule upsert_tables)
  have i2: "payments_inv db2" by (rule upsert_ok[OF received_ok[OF i0] up])
  from st show ?thesis
  proof (rule settle_payment_Inr)
    fix debit credit posted db4 ss vs as cs es
    let ?db2 = "mark_intent_processing ?rt tenant (in_id p) db2"
    assume accounts: "mpesa_ledger_accounts ?rt tenant ?db2 = Inr (debit, credit)"
      and post: "post_transaction_callback ?rt (mpesa_post_input p c (show_int (in_amount_minor p)) debit credit) ?db2 = Inr (posted, db4)"
      and l: "ledger = pt_transaction_id posted"
      and db3: "db3 = (mark_intent_completed ?rt tenant (in_id p) ledger (attach_ledger_transaction ?rt tenant ?ck ledger db4))
         \<lparr>bl_subscriptions := ss, bl_invoices := vs, bl_allocations := as, bl_credits := cs, ev_outbox := es\<rparr>"
      and ev: "\<exists>e\<in>set es. rt_tenant_id ?rt = Some (oe_tenant_id e) \<and> oe_event_key e = ''payment.completed:'' @ uuid_text (in_id p)"
    have same: "fd_transactions ?db2 = fd_transactions db" "fd_ledger_entries ?db2 = fd_ledger_entries db"
      "fd_idempotency_keys ?db2 = fd_idempotency_keys db" "fd_accounts ?db2 = fd_accounts db"
      "py_transactions ?db2 = ts"
      by (simp_all add: db2 mark_intent_processing_def update_intents_def)
    from mpesa_posting[OF payments_inv_marks(2)[OF i2] post, of tenant] key ref tenant same
    obtain t e1 e2 where led: "fd_transactions db4 = fd_transactions db @ [t]" "fd_ledger_entries db4 = fd_ledger_entries db @ [e1, e2]"
      "tx_tenant_id t = tenant" "tx_id t = ledger" "le_account_id e1 = ac_id debit" "le_direction e1 = Debit"
      "le_amount_minor e1 = in_amount_minor p" "le_account_id e2 = ac_id credit" "le_direction e2 = Credit"
      "le_amount_minor e2 = in_amount_minor p" using l by auto
    from mpesa_ledger_accounts_Inr[OF accounts] same(4) obtain dc kc where acc:
      "rt_config rt ''mpesa.ledgerDebitAccountCode'' = Some dc" "find_account_by_code db tenant dc = Some debit"
      "rt_config rt ''mpesa.ledgerCreditAccountCode'' = Some kc" "find_account_by_code db tenant kc = Some credit"
      by (auto simp: worker_context_def find_account_by_code_def)
    have "intent_with ?db tenant (in_id p) (\<lambda>_. True)"
      using lock_payment_intentD[OF intent] by (auto simp: intent_with_def intent_at_def)
    then have "intent_with (mark_callback_received ?rt tenant (in_id p) ?db) tenant (in_id p) (\<lambda>_. True)"
      unfolding mark_callback_received_def by (rule intent_with_update) (simp_all add: intent_at_def)
    then have "intent_with (received ?rt tenant p ?db) tenant (in_id p) (\<lambda>_. True)"
      using open_intent(1) by (simp add: received_def)
    then have "intent_with ?db2 tenant (in_id p) (\<lambda>_. True)"
      unfolding mark_intent_processing_def
      by (intro intent_with_update) (auto simp: db2 intent_with_def intent_at_def)
    then have "intent_with (attach_ledger_transaction ?rt tenant ?ck ledger db4) tenant (in_id p) (\<lambda>_. True)"
      using post_frame(1)[OF post] by (simp add: intent_with_def attach_ledger_transaction_def)
    then have "intent_with (mark_intent_completed ?rt tenant (in_id p) ledger (attach_ledger_transaction ?rt tenant ?ck ledger db4))
        tenant (in_id p) (\<lambda>r. in_status r = PiCompleted \<and> in_ledger_transaction_id r = Some ledger)"
      unfolding mark_intent_completed_def by (rule intent_with_update) (auto simp: intent_at_def)
    then have int: "\<exists>p'\<in>set (py_intents db'). in_tenant_id p' = tenant \<and> in_id p' = in_id p \<and> in_status p' = PiCompleted \<and>
        in_ledger_transaction_id p' = Some ledger"
      using db3 succeeded(4) by (auto simp: intent_with_def intent_at_def)
    have q: "transaction_for tenant ?ck (r\<lparr>mt_ledger_transaction_id := Some ledger, mt_processed_at := Some (rt_now ?rt),
        mt_updated_at := rt_now ?rt\<rparr>) = transaction_for tenant ?ck r" for r
      by (simp add: transaction_for_def)
    have f4: "find_mpesa_transaction db4 tenant ?ck = Some m" "mt_status m = MpesaSucceeded"
      using upsert_found(1,2)[OF up] post_frame(2)[OF post] same(5) db2 success by (simp_all add: find_mpesa_transaction_def)
    have "py_transactions db' = py_transactions (attach_ledger_transaction ?rt tenant ?ck ledger db4)"
      using db3 succeeded(4) by (simp add: mark_intent_completed_def update_intents_def)
    then have "find_mpesa_transaction db' tenant ?ck = find_mpesa_transaction (attach_ledger_transaction ?rt tenant ?ck ledger db4) tenant ?ck"
      by (simp add: find_mpesa_transaction_def)
    also have "\<dots> = Some (m\<lparr>mt_ledger_transaction_id := Some ledger, mt_processed_at := Some (rt_now ?rt), mt_updated_at := rt_now ?rt\<rparr>)"
      unfolding attach_ledger_transaction_def find_updated[of tenant ?ck, OF q] f4(1) using found_key[OF f4(1)] by simp
    finally have txn: "\<exists>m. find_mpesa_transaction db' tenant ?ck = Some m \<and> mt_status m = MpesaSucceeded \<and>
        mt_ledger_transaction_id m = Some ledger" using f4(2) by simp
    have out: "\<exists>e\<in>set (ev_outbox db'). oe_tenant_id e = tenant \<and> oe_event_key e = ''payment.completed:'' @ uuid_text (in_id p)"
      using ev db3 succeeded(4) tenant by auto
    have "fd_transactions db' = fd_transactions db4" "fd_ledger_entries db' = fd_ledger_entries db4"
      using db3 succeeded(4) by (simp_all add: mark_intent_completed_def update_intents_def attach_ledger_transaction_def)
    note booked = this[unfolded led(1,2)] led(3) res(2)[folded led(4)] acc led(5-10) int[folded led(4)] txn[folded led(4)] out
    show ?thesis
      by (intro conjI[OF res(1)] exI[of _ t] exI[of _ e1] exI[of _ e2] exI[of _ debit] exI[of _ credit] exI[of _ dc]
          exI[of _ kc], insert booked, intro conjI; assumption)
  qed
qed simp

theorem confirmed_payment_is_booked_witness:
  "\<exists>res db' t e1 e2. process_payment_job pay_env pay_rt pay_job ''j'' pay_db = (Inr res, db') \<and> jr_status res = JobCompleted \<and>
    fd_transactions db' = [t] \<and> fd_ledger_entries db' = [e1, e2] \<and> le_amount_minor e1 = 1500 \<and> le_direction e1 = Debit \<and>
    le_amount_minor e2 = 1500 \<and> le_direction e2 = Credit"
proof -
  obtain res db' where run: "process_payment_job pay_env pay_rt pay_job ''j'' pay_db = (Inr res, db')"
    using pay_job_run by blast
  have sel: "in_status pay_intent = PiStkRequested" "in_ledger_transaction_id pay_intent = None"
    "in_amount_minor pay_intent = 1500" "pc_status pay_callback = MpesaSucceeded" "pj_tenant_id pay_job = ''t1''"
    "fd_transactions pay_db = []" "fd_ledger_entries pay_db = []" "fd_idempotency_keys pay_db = []" "py_transactions pay_db = []"
    by (simp_all add: pay_intent_def pay_callback_def pay_job_def pay_db_def)
  from confirmed_payment_is_booked[OF pay_db_inv run pay_resolved[unfolded pay_context_def] pay_steps(3)]
  show ?thesis unfolding sel find_mpesa_transaction_def is_terminal_payment_intent_def
    using run by (auto simp: sel)
qed

section \<open>Runs of the component\<close>

text \<open>C12: However logs are written, intents created and swept, jobs run and other transactions posted, in any
  order and with any outcome, the payment tables stay sound: intents and checkouts are unique, amounts are
  positive, every ledger transaction that an intent or an M-PESA transaction carries exists for its tenant;
  so every completed intent is backed by a posted transaction of its tenant whose debits and credits balance.\<close>

theorem payment_runs_stay_sound:
  assumes "payments_inv db" and "payment_run db db'"
  shows "payments_inv db' \<and>
    (\<forall>p\<in>set (py_intents db'). in_status p = PiCompleted \<longrightarrow>
       (\<exists>t\<in>set (fd_transactions db'). tx_tenant_id t = in_tenant_id p \<and> in_ledger_transaction_id p = Some (tx_id t) \<and>
          balanced_rows t (txn_entries db' t)))"
proof -
  have inv: "payments_inv db'" by (rule payment_run_ok[OF assms(2,1)])
  then have "\<forall>p\<in>set (py_intents db'). intent_ok db' p" "\<forall>t\<in>set (fd_transactions db'). balanced_rows t (txn_entries db' t)"
    by (simp_all add: payments_inv_def tables_ok_def ledger_inv_def)
  with inv show ?thesis by (fastforce simp: intent_ok_def posted_in_def)
qed

theorem payment_runs_stay_sound_witness:
  "\<exists>res db'. process_payment_job pay_env pay_rt pay_job ''j'' pay_db = (Inr res, db') \<and> payment_run pay_db db' \<and> payments_inv db'"
proof -
  obtain res db' where run: "process_payment_job pay_env pay_rt pay_job ''j'' pay_db = (Inr res, db')"
    using pay_job_run by blast
  have "payment_run pay_db db'" by (rule run_step[OF run_refl job_step[OF run]])
  with payment_runs_stay_sound[OF pay_db_inv this] run show ?thesis by blast
qed

section \<open>Callbacks that do not settle\<close>

text \<open>A mismatched callback changes nothing but the statuses of its logs: when a success callback reports
  another amount than the intent's, or another phone number, the job fails and the intent, the M-PESA
  transactions, the ledger, the outbox, billing and the keys are as they were. The fraud alert that the
  check writes just before it throws is rolled back with the rest: the audit log is as it was too.\<close>

theorem mismatched_callback_leaves_no_trace:
  assumes job: "process_payment_job env rt job job_id db = (res, db')"
    and call: "resolve_callback_log env (worker_context rt job) job db = Inr (l, c)"
    and intent: "lock_payment_intent db (pj_tenant_id job) c = Inr p"
    and success: "pc_status c = MpesaSucceeded" and amount: "pc_amount_minor c = Some a" "a \<noteq> []"
    and mismatch: "a \<noteq> show_int (in_amount_minor p) \<or> pc_phone_number c = Some ph \<and> ph \<noteq> [] \<and> ph \<noteq> in_phone_number p"
  shows "(\<exists>e. res = Inl e) \<and> (\<exists>ls. db' = db\<lparr>py_logs := ls\<rparr>) \<and> fd_audit_logs db' = fd_audit_logs db"
  using job
proof (cases rule: job_cases)
  case (succeeded x l' c' db2 ls)
  let ?db = "mark_log_processing (worker_context rt job) (pj_tenant_id job) (cl_id l') db"
  obtain ls' where mk: "?db = db\<lparr>py_logs := ls'\<rparr>" using mark_log_processing_logs by blast
  have lock: "lock_payment_intent ?db (pj_tenant_id job) c = Inr p"
    using intent by (simp add: mk lock_payment_intent_def lock_by_checkout_or_merchant_request_id_def latest_intent_def)
  have "c' = c" using succeeded(2) call by simp
  with process_locked_matches[OF succeeded(3)[unfolded \<open>c' = c\<close>] lock success] amount mismatch
  show ?thesis by (auto simp: assert_callback_matches_intent_def and_then_eq_Inr truthy_def split: if_splits)
qed auto

definition pay_short_db :: payments_db where
  "pay_short_db = pay_db\<lparr>py_intents := [pay_intent\<lparr>in_amount_minor := 2000\<rparr>]\<rparr>"

theorem mismatched_callback_leaves_no_trace_witness:
  "\<exists>e. fst (process_payment_job pay_env pay_rt pay_job ''j'' pay_short_db) = Inl e"
proof -
  have call: "resolve_callback_log pay_env (worker_context pay_rt pay_job) pay_job pay_short_db = Inr (pay_log, pay_callback)"
    by code_simp
  have lock: "lock_payment_intent pay_short_db (pj_tenant_id pay_job) pay_callback = Inr (pay_intent\<lparr>in_amount_minor := 2000\<rparr>)"
    by code_simp
  have "''1500'' \<noteq> show_int (in_amount_minor (pay_intent\<lparr>in_amount_minor := 2000\<rparr>))" by code_simp
  then show ?thesis
    using mismatched_callback_leaves_no_trace[OF surjective_pairing call lock, of "''1500''" "[]"]
    by (simp add: pay_callback_def)
qed

text \<open>C14: A failure callback that comes after the payment was settled takes the settlement back without
  touching the books: the job reports a failed payment, the completed intent becomes failed, though it still
  carries its ledger transaction, and the M-PESA transaction becomes failed; the ledger, the invoices and
  the outbox keep the money as received.\<close>

theorem late_failure_unsettles_intent:
  assumes inv: "payments_inv db" and job: "process_payment_job env rt job job_id db = (Inr res, db')"
    and call: "resolve_callback_log env (worker_context rt job) job db = Inr (l, c)"
    and intent: "lock_payment_intent db (pj_tenant_id job) c = Inr p"
    and settled: "in_status p = PiCompleted" "in_ledger_transaction_id p = Some ledger"
    and failure: "pc_status c = MpesaFailed"
  shows "jr_status res = JobFailed \<and>
    (\<exists>p'\<in>set (py_intents db'). in_tenant_id p' = in_tenant_id p \<and> in_id p' = in_id p \<and> in_status p' = PiFailed \<and>
       in_ledger_transaction_id p' = Some ledger) \<and>
    (\<exists>m. find_mpesa_transaction db' (pj_tenant_id job) (pc_checkout_request_id c) = Some m \<and> mt_status m = MpesaFailed) \<and>
    fd_transactions db' = fd_transactions db \<and> fd_ledger_entries db' = fd_ledger_entries db \<and>
    bl_invoices db' = bl_invoices db \<and> ev_outbox db' = ev_outbox db"
  using job
proof (cases rule: job_cases)
  case (succeeded x l' c' db2 ls)
  let ?rt = "worker_context rt job" and ?t = "pj_tenant_id job"
  obtain ls' where mk: "mark_log_processing ?rt ?t (cl_id l') db = db\<lparr>py_logs := ls'\<rparr>"
    using mark_log_processing_logs by blast
  let ?db = "db\<lparr>py_logs := ls'\<rparr>"
  have lock: "lock_payment_intent ?db ?t c = Inr p"
    using intent by (simp add: lock_payment_intent_def lock_by_checkout_or_merchant_request_id_def latest_intent_def)
  have c': "c' = c" using succeeded(2) call by simp
  from succeeded(3)[unfolded c' mk] show ?thesis
  proof (cases rule: process_locked_cases)
    case (failed q m db3 as)
    have q: "q = p" using failed(1) lock by simp
    have rec: "received ?rt ?t p ?db = ?db" by (simp add: received_def is_terminal_payment_intent_def settled(1))
    note up = failed(2)[unfolded q rec]
    obtain ts where db3: "db3 = ?db\<lparr>py_transactions := ts\<rparr>" using up by (rule upsert_tables)
    have p: "p \<in> set (py_intents db)" "in_tenant_id p = ?t" using lock_payment_intentD[OF intent] by auto
    have "intent_with db3 ?t (in_id p) (\<lambda>r. in_ledger_transaction_id r = Some ledger)"
      using p settled(2) by (auto simp: intent_with_def intent_at_def db3)
    then have "intent_with (db3\<lparr>fd_audit_logs := as\<rparr>) ?t (in_id p) (\<lambda>r. in_ledger_transaction_id r = Some ledger)"
      by (simp add: intent_with_def)
    then have "intent_with db2 ?t (in_id p) (\<lambda>r. in_status r = PiFailed \<and> in_ledger_transaction_id r = Some ledger)"
      unfolding failed(6) q mark_intent_failed_def by (rule intent_with_update) (auto simp: intent_at_def)
    then have int: "\<exists>p'\<in>set (py_intents db'). in_tenant_id p' = in_tenant_id p \<and> in_id p' = in_id p \<and> in_status p' = PiFailed \<and>
        in_ledger_transaction_id p' = Some ledger"
      using succeeded(4) p(2) by (auto simp: intent_with_def intent_at_def)
    have txn: "find_mpesa_transaction db' ?t (pc_checkout_request_id c) = Some m"
      using upsert_found(1)[OF up] succeeded(4) failed(6) by (simp add: find_mpesa_transaction_def mark_intent_failed_def update_intents_def)
    from int txn upsert_found(2)[OF up] show ?thesis
      using succeeded(1,4) failed(4,6) failure by (simp add: db3 mark_intent_failed_def update_intents_def)
  qed (use failure in simp_all)
qed simp

definition pay_fail_body :: stk_callback where
  "pay_fail_body = \<lparr>sk_merchant_request_id = Some ''m1'', sk_checkout_request_id = Some ''w1'', sk_result_code = Some 1032,
     sk_result_desc = Some ''cancelled'', sk_items = []\<rparr>"

definition pay_done_db :: payments_db where
  "pay_done_db = pay_db\<lparr>fd_transactions := [pay_txn], fd_ledger_entries := pay_entries,
     py_intents := [pay_intent\<lparr>in_status := PiCompleted, in_ledger_transaction_id := Some 1\<rparr>],
     py_logs := [pay_log\<lparr>cl_raw_payload := Some (Some pay_fail_body)\<rparr>],
     py_transactions := [pay_mpesa\<lparr>mt_ledger_transaction_id := Some 1\<rparr>]\<rparr>"

lemma pay_done_inv: "payments_inv pay_done_db"
  by (simp add: payments_inv_def ledger_inv_def pay_done_db_def pay_db_def idem_invar_def accounts_ok_def ex_accounts_def
      currency_format_def is_upper_letter_def responses_ok_def tables_ok_def intent_ok_def mpesa_ok_def pay_intent_def
      pay_txn_def pay_entries_def pay_mpesa_def mpesa_row_def posted_in_def balanced_rows_def txn_entries_def
      direction_sum_def fits_bigint_def pay_log_def)

theorem late_failure_unsettles_intent_witness:
  "\<exists>res db'. process_payment_job pay_env pay_rt pay_job ''j'' pay_done_db = (Inr res, db') \<and> jr_status res = JobFailed \<and>
     fd_transactions db' = [pay_txn]"
proof -
  have ok: "case fst (process_payment_job pay_env pay_rt pay_job ''j'' pay_done_db) of Inr r \<Rightarrow> True | Inl _ \<Rightarrow> False"
    by code_simp
  have parts: "case resolve_callback_log pay_env (worker_context pay_rt pay_job) pay_job pay_done_db of
      Inr (l, c) \<Rightarrow> pc_status c = MpesaFailed \<and> lock_payment_intent pay_done_db (pj_tenant_id pay_job) c =
        Inr (pay_intent\<lparr>in_status := PiCompleted, in_ledger_transaction_id := Some 1\<rparr>)
    | Inl _ \<Rightarrow> False"
    by code_simp
  obtain res db' where run: "process_payment_job pay_env pay_rt pay_job ''j'' pay_done_db = (Inr res, db')"
    using ok by (cases "process_payment_job pay_env pay_rt pay_job ''j'' pay_done_db") (auto split: sum.splits)
  obtain l c where "resolve_callback_log pay_env (worker_context pay_rt pay_job) pay_job pay_done_db = Inr (l, c)"
    "lock_payment_intent pay_done_db (pj_tenant_id pay_job) c =
        Inr (pay_intent\<lparr>in_status := PiCompleted, in_ledger_transaction_id := Some 1\<rparr>)" "pc_status c = MpesaFailed"
    using parts by (auto split: sum.splits)
  from late_failure_unsettles_intent[OF pay_done_inv run this(1,2) _ _ this(3)]
  show ?thesis using run by (simp add: pay_done_db_def)
qed

end
