(* ===== verification/Payments_Intent_Claims.thy ===== *)
theory Payments_Intent_Claims
  imports Payments_Invariant Ledger_Examples
begin

text \<open>The properties of the creation of payment intents, with a school's payment of a shilling as the witness.\<close>

section \<open>A created intent\<close>

lemma create_intent_deferred:
  assumes "create_payment_intent_callback rt gw counter dto owner db = Inr (resp, db')"
  shows "fd_transactions db' = fd_transactions db" and "fd_ledger_entries db' = fd_ledger_entries db"
  using assms
  by (auto simp: create_payment_intent_callback_def create_locked_intent_def and_then_eq_Inr Let_def update_intents_def
      split: option.splits dest!: create_pending_Inr(1) inspection_Inr mark_stk_requested_Inr)

lemma create_locked_keys:
  assumes "create_locked_intent rt gw counter tenant dto phone amount owner mc i db = Inr (resp, db')"
  shows "py_keys db' = mark_completed rt tenant i 201 resp (py_keys db)"
  using assms
  by (auto simp: create_locked_intent_def and_then_eq_Inr Let_def update_intents_def
      dest!: create_pending_Inr(1) inspection_Inr mark_stk_requested_Inr)

text \<open>The response is stored under the key of the request.\<close>

lemma create_intent_stores:
  assumes inv: "idem_invar (py_keys db)" and c: "create_payment_intent False rt gw counter dto owner db = Inr (resp, db')"
    and tenant: "rt_tenant_id rt = Some t" and phone: "normalize_phone_number (dt_phone_number dto) = Inr ph"
    and amount: "mpesa_minor_amount (dt_amount_minor dto) = Inr a"
    and new: "get_locked_record (py_keys db) (input_key (intent_lock_input rt t dto ph a)) = None"
  shows "idem_invar (py_keys db')" and "valid_lock_input (intent_lock_input rt t dto ph a)" and "t \<noteq> []"
    and "stored_response (py_keys db') (input_key (intent_lock_input rt t dto ph a)) =
      Some (li_request_hash (intent_lock_input rt t dto ph a), expiry_after rt (intent_lock_input rt t dto ph a), resp)"
proof -
  let ?i = "intent_lock_input rt t dto ph a"
  have cb: "create_payment_intent_callback rt gw counter dto owner db = Inr (resp, db')"
    using c by (simp add: create_payment_intent_def with_request_transaction_Inr)
  show t: "t \<noteq> []" using cb tenant by (auto simp: create_payment_intent_callback_def require_mpesa_tenant_id_def)
  from cb tenant t phone amount obtain mc r rows where
    lock: "intent_lock_request rt ?i (py_keys db) = Inr (r, rows)" and
    body: "(case replay_body r of Some response \<Rightarrow> Inr (response, db\<lparr>py_keys := rows\<rparr>)
     | None \<Rightarrow> create_locked_intent rt gw counter t dto ph a (or_default owner OwnerTenant) mc (ik_id r)
                 (db\<lparr>py_keys := rows\<rparr>)) = Inr (resp, db')"
    by (auto simp: create_payment_intent_callback_def require_mpesa_tenant_id_def and_then_eq_Inr Let_def)
  have first: "ik_expires_at r = expiry_after rt ?i" "replay_body r = None"
    using lock_request_first_use[OF inv lock[unfolded intent_lock_request_def] new] by blast+
  have keys: "py_keys db' = mark_completed rt (li_tenant_id ?i) (ik_id r) 201 resp rows"
    using body first(2) create_locked_keys by (fastforce simp: intent_lock_input_def)
  show "idem_invar (py_keys db')"
    unfolding keys by (rule intent_idem.complete_invar[OF intent_idem.lock_invar[OF inv lock]])
  show "valid_lock_input ?i" by (rule intent_idem.lock_valid[OF lock])
  show "stored_response (py_keys db') (input_key ?i) = Some (li_request_hash ?i, expiry_after rt ?i, resp)"
    unfolding keys using intent_idem.complete_stored[OF inv lock first(2)] first(1) by simp
qed

lemma create_intent_row:
  assumes fresh: "distinct (map in_id (py_intents db))"
    and c: "create_locked_intent rt gw counter t dto ph a owner mc i db = Inr (resp, db')" and amount: "pg_bigint a = Inr n"
  shows "\<exists>p. py_intents db' = py_intents db @ [p] \<and> in_tenant_id p = t \<and> in_amount_minor p = n \<and> in_phone_number p = ph \<and>
    in_status p = PiStkRequested \<and> in_ledger_transaction_id p = None \<and> resp = to_payment_intent_response p"
proof -
  from c obtain p db1 db2 stk p' db3 ex where
    cp: "create_pending rt (pending_input rt t i dto ph a owner mc) db = Inr (p, db1)"
    and ins: "inspect_payment_intent_creation rt counter p a db1 = Inr db2"
    and mk: "mark_stk_requested rt t (in_id p) stk ex db2 = Inr (p', db3)"
    and db': "py_intents db' = py_intents db3" "resp = to_payment_intent_response p'"
    by (auto simp: create_locked_intent_def and_then_eq_Inr Let_def)
  note p = create_pending_Inr[OF cp]
  from inspection_Inr[OF ins] have d2: "py_intents db2 = py_intents db @ [p]" using p(1) by auto
  let ?f = "stk_requested_fields rt stk ex"
  have old: "select_first (intent_at t (in_id p)) (py_intents db) = None"
    using p(2) unfolding select_first_None intent_at_def by (metis image_eqI)
  have at: "intent_at t (in_id p) p" using p(6) by (simp add: intent_at_def pending_input_def)
  have "select_first (intent_at t (in_id p)) (py_intents db2) = Some p"
    unfolding d2 select_first_append old using at by simp
  then have p': "p' = ?f p" using mk by (auto simp: mark_stk_requested_def and_then_eq_Inr Let_def)
  have "py_intents db3 = py_intents db @ [?f p]"
    using update_where_last[of "py_intents db" "intent_at t (in_id p)" p ?f] old at
    unfolding mark_stk_requested_Inr[OF mk] select_first_None by (simp add: update_intents_def d2)
  with db' p' p(5-8) amount show ?thesis
    by (intro exI[of _ "?f p"]) (simp add: stk_requested_fields_def pending_input_def)
qed

text \<open>C13: A payment intent is created once: the first request under a key adds one intent of the normalised
  phone number and amount that awaits its callback, and answers with it. A repeated request before the key
  expires, which may write the same phone number and amount in another accepted form, is answered with the
  stored response and writes nothing, whatever the gateway and the fraud counters would say, so that the
  phone is not asked to pay twice. The payment owner is not part of what is compared: the repeated request
  is answered the same when it asks for the other owner.\<close>

theorem create_payment_intent_replays:
  assumes inv: "payments_inv db" "idem_invar (py_keys db)"
    and first: "create_payment_intent False rt gw counter dto owner db = Inr (resp, db')"
    and tenant: "rt_tenant_id rt = Some t" and phone: "normalize_phone_number (dt_phone_number dto) = Inr ph"
    and amount: "mpesa_minor_amount (dt_amount_minor dto) = Inr a" "pg_bigint a = Inr n"
    and new: "\<forall>r\<in>set (py_keys db). row_key r \<noteq> (t, MPESA_PAYMENT_INTENT_SCOPE, js_trim (dt_idempotency_key dto))"
    and again: "rt_tenant_id rt2 = Some t" "rt_sha256 rt2 = rt_sha256 rt"
      "rt_clock rt2 < rt_now rt + 1000 * config_number rt ''finance.idempotencyTtlSeconds'' 86400"
      "normalize_phone_number phone2 = Inr ph" "mpesa_minor_amount amount2 = Inr a"
      "gw_config gw2 t (or_default owner2 OwnerTenant) = Inr mc"
  shows "(\<exists>p. py_intents db' = py_intents db @ [p] \<and> in_tenant_id p = t \<and> in_amount_minor p = n \<and> in_phone_number p = ph \<and>
       in_status p = PiStkRequested \<and> in_ledger_transaction_id p = None \<and> resp = to_payment_intent_response p) \<and>
    create_payment_intent False rt2 gw2 counter2 (dto\<lparr>dt_phone_number := phone2, dt_amount_minor := amount2\<rparr>) owner2 db' =
      Inr (resp, db')"
proof
  let ?i = "intent_lock_input rt t dto ph a" and ?dto = "dto\<lparr>dt_phone_number := phone2, dt_amount_minor := amount2\<rparr>"
  let ?j = "intent_lock_input rt2 t ?dto ph a"
  have none: "get_locked_record (py_keys db) (input_key ?i) = None"
    using new by (auto simp: get_locked_record_def select_first_None input_key_def intent_lock_input_def)
  note st = create_intent_stores[OF inv(2) first tenant phone amount(1) none]
  have same: "input_key ?j = input_key ?i" "li_request_hash ?j = li_request_hash ?i" "valid_lock_input ?j"
    using st(2) again(2) by (simp_all add: input_key_def intent_lock_input_def valid_lock_input_def intent_idempotency_hash_def
        intent_hash_payload_def)
  have "rt_clock rt2 < expiry_after rt ?i" using again(3) by (simp add: expiry_after_def intent_lock_input_def)
  from intent_idem.lock_hit[OF st(1) same(3) _ this, of resp] st(4) same(1,2)
  obtain r where hit: "intent_lock_request rt2 ?j (py_keys db') = Inr (r, py_keys db')" "replay_body r = Some resp" by auto
  have "create_payment_intent_callback rt2 gw2 counter2 ?dto owner2 db' = Inr (resp, db')"
    using again st(3) hit by (simp add: create_payment_intent_callback_def require_mpesa_tenant_id_def Let_def)
  then show "create_payment_intent False rt2 gw2 counter2 ?dto owner2 db' = Inr (resp, db')"
    by (simp add: create_payment_intent_def with_request_transaction_def deferred_balance_checks_def)
  have cb: "create_payment_intent_callback rt gw counter dto owner db = Inr (resp, db')"
    using first by (simp add: create_payment_intent_def with_request_transaction_Inr)
  then obtain mc r rows where
    lock: "intent_lock_request rt ?i (py_keys db) = Inr (r, rows)" and
    body: "(case replay_body r of Some response \<Rightarrow> Inr (response, db\<lparr>py_keys := rows\<rparr>)
     | None \<Rightarrow> create_locked_intent rt gw counter t dto ph a (or_default owner OwnerTenant) mc (ik_id r)
                 (db\<lparr>py_keys := rows\<rparr>)) = Inr (resp, db')"
    using tenant phone amount(1) st(3)
    by (auto simp: create_payment_intent_callback_def require_mpesa_tenant_id_def and_then_eq_Inr Let_def)
  have "replay_body r = None"
    using lock_request_first_use(2)[OF inv(2) lock[unfolded intent_lock_request_def] none] .
  then have locked: "create_locked_intent rt gw counter t dto ph a (or_default owner OwnerTenant) mc (ik_id r)
      (db\<lparr>py_keys := rows\<rparr>) = Inr (resp, db')" using body by simp
  have "distinct (map in_id (py_intents (db\<lparr>py_keys := rows\<rparr>)))" using inv(1) by (simp add: payments_inv_def tables_ok_def)
  from create_intent_row[OF this locked amount(2)]
  show "\<exists>p. py_intents db' = py_intents db @ [p] \<and> in_tenant_id p = t \<and> in_amount_minor p = n \<and> in_phone_number p = ph \<and>
       in_status p = PiStkRequested \<and> in_ledger_transaction_id p = None \<and> resp = to_payment_intent_response p" by simp
qed

text \<open>A bursar's request; with this threshold the payment is also reported as a high value.\<close>

definition new_rt :: runtime where
  "new_rt = ex_rt\<lparr>rt_config := (\<lambda>k. if k = ''security.fraudHighValueAmountMinor'' then Some ''90'' else None)\<rparr>"

definition new_gateway :: gateway where
  "new_gateway = \<lparr>gw_config = (\<lambda>_ _. Inr \<lparr>mc_mpesa_config_id = None, mc_payment_channel_id = None, mc_shortcode = ''600'',
       mc_till_number = None, mc_passkey = ''k'', mc_callback_url = ''u'', mc_transaction_type = ''CustomerPayBillOnline'',
       mc_ledger_debit_account_code = ''1110'', mc_ledger_credit_account_code = ''1100''\<rparr>),
     gw_access_token = (\<lambda>_. Inr ''token''),
     gw_fetch = (\<lambda>_ _ _. Inr \<lparr>hr_ok = True, hr_status = 200, hr_text = [], hr_body = Some \<lparr>kb_MerchantRequestID = Some ''m1'',
       kb_CheckoutRequestID = Some ''w1'', kb_ResponseCode = Some ''0'', kb_ResponseDescription = None,
       kb_CustomerMessage = None\<rparr>\<rparr>),
     gw_base64 = (\<lambda>s. s), gw_nairobi_timestamp = (\<lambda>_. ''20250101000000'')\<rparr>"

definition new_dto :: intent_dto where
  "new_dto = \<lparr>dt_idempotency_key = ''k1'', dt_amount_minor = ''100'', dt_phone_number = ''254712345678'',
     dt_student_id = None, dt_account_reference = ''F1'', dt_transaction_desc = ''Fees'', dt_external_reference = None,
     dt_metadata = None\<rparr>"

definition new_db :: payments_db where
  "new_db = \<lparr>fd_idempotency_keys = [], fd_accounts = [], fd_transactions = [],
     fd_ledger_entries = [], fd_audit_logs = [], fd_sync_operations = [], ev_outbox = [], ev_runs = [],
     bl_subscriptions = [], bl_invoices = [], bl_allocations = [], bl_credits = [], bl_notifications = [],
     bl_usage = [], bl_fee_structures = [], py_intents = [], py_logs = [], py_transactions = [], py_keys = []\<rparr>"

definition down_gateway :: gateway where
  "down_gateway = new_gateway\<lparr>gw_access_token := (\<lambda>_. Inl (BadGatewayException ''down''))\<rparr>"

lemma new_db_inv: "payments_inv new_db" "idem_invar (py_keys new_db)"
  by (simp_all add: payments_inv_def ledger_inv_def new_db_def idem_invar_def accounts_ok_def responses_ok_def tables_ok_def)

theorem create_payment_intent_replays_witness:
  "\<exists>resp db'. create_payment_intent False new_rt new_gateway (\<lambda>_. Inr 1) new_dto None new_db = Inr (resp, db') \<and>
     create_payment_intent False new_rt down_gateway (\<lambda>_. Inr 1)
       (new_dto\<lparr>dt_phone_number := ''0712 345 678'', dt_amount_minor := '' 100''\<rparr>) (Some OwnerPlatform) db' = Inr (resp, db')"
proof -
  have ok: "case create_payment_intent False new_rt new_gateway (\<lambda>_. Inr 1) new_dto None new_db of Inr _ \<Rightarrow> True | Inl _ \<Rightarrow> False"
    by code_simp
  then obtain resp db' where run: "create_payment_intent False new_rt new_gateway (\<lambda>_. Inr 1) new_dto None new_db = Inr (resp, db')"
    by (auto split: sum.splits)
  have texts: "normalize_phone_number (dt_phone_number new_dto) = Inr ''254712345678''"
    "mpesa_minor_amount (dt_amount_minor new_dto) = Inr ''100''" "pg_bigint ''100'' = Inr 100"
    "normalize_phone_number ''0712 345 678'' = Inr ''254712345678''" "mpesa_minor_amount '' 100'' = Inr ''100''"
    by code_simp+
  have gw: "\<exists>mc. gw_config down_gateway ''t1'' (or_default (Some OwnerPlatform) OwnerTenant) = Inr mc"
    by (simp add: down_gateway_def new_gateway_def)
  have rt: "rt_tenant_id new_rt = Some ''t1''"
    "rt_clock new_rt < rt_now new_rt + 1000 * config_number new_rt ''finance.idempotencyTtlSeconds'' 86400"
    by (simp_all add: new_rt_def ex_rt_def config_number_def)
  have keys: "\<forall>r\<in>set (py_keys new_db). row_key r \<noteq> (''t1'', MPESA_PAYMENT_INTENT_SCOPE, js_trim (dt_idempotency_key new_dto))"
    by (simp add: new_db_def)
  from gw obtain mc where "gw_config down_gateway ''t1'' (or_default (Some OwnerPlatform) OwnerTenant) = Inr mc" by blast
  from create_payment_intent_replays[OF new_db_inv run rt(1) texts(1-3) keys rt(1) refl rt(2) texts(4,5) this] run
  show ?thesis by blast
qed

end
