(* ===== verification/Sync.thy ===== *)
theory Sync
  imports Finance_Store Uuid
begin

text \<open>
  Offline synchronisation (\<open>modules/sync\<close>): the devices of a tenant, the cursors they acknowledge and the
  log of operations the server writes, which the devices pull by version. The devices' pushes are answered
  by the conflict resolver, which refuses every change to finance.
\<close>

definition SYNC_DEFAULT_PULL_LIMIT :: int where
  "SYNC_DEFAULT_PULL_LIMIT = 200"

definition SYNC_MAX_PULL_LIMIT :: int where
  "SYNC_MAX_PULL_LIMIT = 500"

definition SYNC_SUPPORTED_ENTITIES :: "string list" where
  "SYNC_SUPPORTED_ENTITIES = [''finance'']"

section \<open>Tables\<close>

record sync_device =
  sd_id :: uuid
  sd_tenant_id :: string
  sd_device_id :: string
  sd_platform :: string
  sd_app_version :: "string option"
  sd_metadata :: "(string \<times> json) list"
  sd_last_seen_at :: int
  sd_last_push_at :: "int option"
  sd_last_pull_at :: "int option"
  sd_created_at :: int
  sd_updated_at :: int

record sync_cursor =
  sc_tenant_id :: string
  sc_device_id :: string
  sc_entity :: string
  sc_last_version :: int
  sc_updated_at :: int

record sync_db = finance_db +
  sy_devices :: "sync_device list"
  sy_cursors :: "sync_cursor list"

section \<open>Requests and responses\<close>

record cursor_dto =
  cu_entity :: string
  cu_last_version :: string

record device_dto =
  dv_device_id :: string
  dv_platform :: string
  dv_app_version :: "string option"
  dv_metadata :: "(string \<times> json) list option"

record push_operation =
  po_op_id :: string
  po_entity :: string
  po_version :: int
  po_payload :: json

record push_dto = device_dto +
  pu_cursors :: "cursor_dto list option"
  pu_operations :: "push_operation list"

record pull_dto = device_dto +
  pl_cursors :: "cursor_dto list option"
  pl_entities :: "string list option"
  pl_limit :: "int option"

text \<open>
  The validation pipe trims the texts and refuses a body whose class-validator rules fail; the services see
  only bodies that pass.
\<close>

definition opt_all :: "('a \<Rightarrow> bool) \<Rightarrow> 'a option \<Rightarrow> bool" where
  "opt_all P v = (case v of None \<Rightarrow> True | Some x \<Rightarrow> P x)"

definition trimmed_between :: "nat \<Rightarrow> nat \<Rightarrow> string \<Rightarrow> bool" where
  "trimmed_between lo hi s \<longleftrightarrow> js_trim s = s \<and> lo \<le> length s \<and> length s \<le> hi"

definition device_dto_valid :: "'a device_dto_scheme \<Rightarrow> bool" where
  "device_dto_valid dto \<longleftrightarrow> trimmed_between 3 128 (dv_device_id dto) \<and> trimmed_between 2 64 (dv_platform dto) \<and>
     opt_all (trimmed_between 0 64) (dv_app_version dto)"

definition cursor_dto_valid :: "cursor_dto \<Rightarrow> bool" where
  "cursor_dto_valid c \<longleftrightarrow> cu_entity c \<in> set SYNC_SUPPORTED_ENTITIES \<and> digits_only (cu_last_version c)"

definition push_operation_valid :: "push_operation \<Rightarrow> bool" where
  "push_operation_valid p \<longleftrightarrow> uuid_shape (po_op_id p) \<and> po_entity p \<in> set SYNC_SUPPORTED_ENTITIES \<and> 1 \<le> po_version p \<and>
     (case po_payload p of JObj _ \<Rightarrow> True | _ \<Rightarrow> False)"

definition push_dto_valid :: "push_dto \<Rightarrow> bool" where
  "push_dto_valid dto \<longleftrightarrow> device_dto_valid dto \<and>
     opt_all (\<lambda>cs. length cs \<le> 50 \<and> list_all cursor_dto_valid cs) (pu_cursors dto) \<and>
     1 \<le> length (pu_operations dto) \<and> length (pu_operations dto) \<le> 200 \<and> list_all push_operation_valid (pu_operations dto)"

definition pull_dto_valid :: "pull_dto \<Rightarrow> bool" where
  "pull_dto_valid dto \<longleftrightarrow> device_dto_valid dto \<and>
     opt_all (\<lambda>cs. length cs \<le> 50 \<and> list_all cursor_dto_valid cs) (pl_cursors dto) \<and>
     opt_all (\<lambda>es. length es \<le> 10 \<and> list_all (\<lambda>e. e \<in> set SYNC_SUPPORTED_ENTITIES) es) (pl_entities dto) \<and>
     opt_all (\<lambda>l. 1 \<le> l \<and> l \<le> SYNC_MAX_PULL_LIMIT) (pl_limit dto)"

datatype push_status = OpApplied | OpDuplicate | OpRejected

record push_result =
  pr_op_id :: string
  pr_entity :: string
  pr_status :: push_status
  pr_client_version :: int
  pr_server_version :: "string option"
  pr_reason :: string
  pr_conflict_policy :: string
  pr_server_state :: "json option"

record push_response =
  ps_device :: sync_device
  ps_results :: "push_result list"
  ps_cursors :: "cursor_dto list"

record pull_response =
  pq_operations :: "sync_operation list"
  pq_cursors :: "cursor_dto list"
  pq_has_more :: bool

section \<open>\<open>SyncDevicesRepository\<close>\<close>

record device_input =
  dx_tenant_id :: string
  dx_device_id :: string
  dx_platform :: string
  dx_app_version :: "string option"
  dx_metadata :: "(string \<times> json) list"

definition device_at :: "string \<Rightarrow> string \<Rightarrow> sync_device \<Rightarrow> bool" where
  "device_at tenant device d \<longleftrightarrow> sd_tenant_id d = tenant \<and> sd_device_id d = device"

definition device_row :: "runtime \<Rightarrow> device_input \<Rightarrow> uuid \<Rightarrow> sync_device" where
  "device_row rt i new_id =
     \<lparr>sd_id = new_id, sd_tenant_id = dx_tenant_id i, sd_device_id = dx_device_id i, sd_platform = dx_platform i,
      sd_app_version = dx_app_version i, sd_metadata = dx_metadata i, sd_last_seen_at = rt_now rt,
      sd_last_push_at = None, sd_last_pull_at = None, sd_created_at = rt_now rt, sd_updated_at = rt_now rt\<rparr>"

definition seen_device :: "runtime \<Rightarrow> device_input \<Rightarrow> sync_device \<Rightarrow> sync_device" where
  "seen_device rt i d =
     d\<lparr>sd_platform := dx_platform i, sd_app_version := dx_app_version i, sd_metadata := dx_metadata i,
       sd_last_seen_at := rt_now rt, sd_updated_at := rt_now rt\<rparr>"

definition upsert_device ::
  "runtime \<Rightarrow> device_input \<Rightarrow> 'a sync_db_scheme \<Rightarrow> (sync_device \<times> 'a sync_db_scheme) result" where
  "upsert_device rt i db =
     and_then (guard (not_blank (dx_device_id i)) (PgError ''23514'' ''ck_sync_devices_device_id_not_blank'')) (\<lambda>_.
     and_then (guard (not_blank (dx_platform i)) (PgError ''23514'' ''ck_sync_devices_platform_not_blank'')) (\<lambda>_.
     case select_first (device_at (dx_tenant_id i) (dx_device_id i)) (sy_devices db) of
       Some d \<Rightarrow> Inr (seen_device rt i d, db\<lparr>sy_devices :=
                   update_where (device_at (dx_tenant_id i) (dx_device_id i)) (seen_device rt i) (sy_devices db)\<rparr>)
     | None \<Rightarrow> (let d = device_row rt i (fresh_uuid (map sd_id (sy_devices db)))
               in Inr (d, db\<lparr>sy_devices := sy_devices db @ [d]\<rparr>))))"

definition mark_push :: "runtime \<Rightarrow> string \<Rightarrow> string \<Rightarrow> 'a sync_db_scheme \<Rightarrow> 'a sync_db_scheme" where
  "mark_push rt tenant device db =
     db\<lparr>sy_devices := update_where (device_at tenant device)
       (\<lambda>d. d\<lparr>sd_last_seen_at := rt_now rt, sd_last_push_at := Some (rt_now rt), sd_updated_at := rt_now rt\<rparr>)
       (sy_devices db)\<rparr>"

definition mark_pull :: "runtime \<Rightarrow> string \<Rightarrow> string \<Rightarrow> 'a sync_db_scheme \<Rightarrow> 'a sync_db_scheme" where
  "mark_pull rt tenant device db =
     db\<lparr>sy_devices := update_where (device_at tenant device)
       (\<lambda>d. d\<lparr>sd_last_seen_at := rt_now rt, sd_last_pull_at := Some (rt_now rt), sd_updated_at := rt_now rt\<rparr>)
       (sy_devices db)\<rparr>"

section \<open>\<open>SyncCursorsRepository\<close>\<close>

definition cursor_at :: "string \<Rightarrow> string \<Rightarrow> string \<Rightarrow> sync_cursor \<Rightarrow> bool" where
  "cursor_at tenant device entity c \<longleftrightarrow> sc_tenant_id c = tenant \<and> sc_device_id c = device \<and> sc_entity c = entity"

text \<open>
  The CHECK constraints are tested on the row of the INSERT, before the conflict is; the reference to the
  device (\<open>fk_sync_cursors_device\<close>) when a row is inserted.
\<close>

definition upsert_cursor ::
  "runtime \<Rightarrow> string \<Rightarrow> string \<Rightarrow> string \<Rightarrow> string \<Rightarrow> 'a sync_db_scheme \<Rightarrow> 'a sync_db_scheme result" where
  "upsert_cursor rt tenant device entity last_version db =
     and_then (pg_bigint last_version) (\<lambda>v.
     and_then (guard (entity = ''finance'') (PgError ''23514'' ''ck_sync_cursors_entity'')) (\<lambda>_.
     and_then (guard (0 \<le> v) (PgError ''23514'' ''ck_sync_cursors_last_version_non_negative'')) (\<lambda>_.
     case select_first (cursor_at tenant device entity) (sy_cursors db) of
       Some c \<Rightarrow> Inr (db\<lparr>sy_cursors := update_where (cursor_at tenant device entity)
                   (\<lambda>c. c\<lparr>sc_last_version := max (sc_last_version c) v, sc_updated_at := rt_now rt\<rparr>) (sy_cursors db)\<rparr>)
     | None \<Rightarrow>
         and_then (guard (list_ex (device_at tenant device) (sy_devices db)) (PgError ''23503'' ''fk_sync_cursors_device''))
           (\<lambda>_. Inr (db\<lparr>sy_cursors := sy_cursors db @
             [\<lparr>sc_tenant_id = tenant, sc_device_id = device, sc_entity = entity, sc_last_version = v,
               sc_updated_at = rt_now rt\<rparr>]\<rparr>)))))"

definition get_cursor_map ::
  "'a sync_db_scheme \<Rightarrow> string \<Rightarrow> string \<Rightarrow> string list \<Rightarrow> string \<Rightarrow> string option" where
  "get_cursor_map db tenant device entities entity =
     (if entity \<in> set entities
      then map_option (\<lambda>c. show_int (sc_last_version c)) (select_first (cursor_at tenant device entity) (sy_cursors db))
      else None)"

section \<open>\<open>SyncOperationLogsRepository\<close>\<close>

definition find_by_op_id :: "'a finance_db_scheme \<Rightarrow> string \<Rightarrow> string \<Rightarrow> sync_operation option result" where
  "find_by_op_id db tenant op_id =
     and_then (pg_uuid op_id) (\<lambda>i.
     Inr (select_first (\<lambda>r. so_tenant_id r = tenant \<and> so_op_id r = i) (fd_sync_operations db)))"

definition fetch_by_entity_since_version ::
  "'a finance_db_scheme \<Rightarrow> string \<Rightarrow> string \<Rightarrow> string \<Rightarrow> int \<Rightarrow> sync_operation list result" where
  "fetch_by_entity_since_version db tenant entity after limit =
     and_then (pg_bigint after) (\<lambda>v.
     Inr (take (nat limit) (sort_key so_version
       (filter (\<lambda>r. so_tenant_id r = tenant \<and> so_entity r = entity \<and> v < int (so_version r)) (fd_sync_operations db)))))"

definition get_latest_version_by_entities ::
  "'a finance_db_scheme \<Rightarrow> string \<Rightarrow> string list \<Rightarrow> string \<Rightarrow> string option" where
  "get_latest_version_by_entities db tenant entities entity =
     (let vs = map so_version (filter (\<lambda>r. so_tenant_id r = tenant \<and> so_entity r = entity) (fd_sync_operations db))
      in if entity \<in> set entities \<and> vs \<noteq> [] then Some (show_nat (fold max vs 0)) else None)"

section \<open>\<open>SyncOperationLogService\<close> and the conflict resolver\<close>

definition get_latest_cursors :: "'a finance_db_scheme \<Rightarrow> string \<Rightarrow> string list \<Rightarrow> cursor_dto list" where
  "get_latest_cursors db tenant entities =
     map (\<lambda>e. \<lparr>cu_entity = e,
       cu_last_version = or_default (get_latest_version_by_entities db tenant entities e) ''0''\<rparr>) entities"

definition ensure_supported_entity :: "string \<Rightarrow> unit result" where
  "ensure_supported_entity entity =
     guard (entity \<in> set SYNC_SUPPORTED_ENTITIES) (BadRequestException (''Unsupported sync entity '' @ quoted entity))"

definition resolver_apply_operation :: "push_operation \<Rightarrow> push_result" where
  "resolver_apply_operation o' =
     \<lparr>pr_op_id = po_op_id o', pr_entity = po_entity o', pr_status = OpRejected, pr_client_version = po_version o',
      pr_server_version = None,
      pr_reason = ''Finance is server authoritative and cannot be mutated from offline devices'',
      pr_conflict_policy = ''server-authoritative'', pr_server_state = None\<rparr>"

section \<open>\<open>SyncService\<close>\<close>

definition require_sync_tenant_id :: "runtime \<Rightarrow> string result" where
  "require_sync_tenant_id rt =
     (case rt_tenant_id rt of
        Some t \<Rightarrow> if t = [] then Inl (UnauthorizedException ''Tenant context is required for sync operations'') else Inr t
      | None \<Rightarrow> Inl (UnauthorizedException ''Tenant context is required for sync operations''))"

definition device_input_of :: "string \<Rightarrow> 'a device_dto_scheme \<Rightarrow> device_input" where
  "device_input_of tenant dto =
     \<lparr>dx_tenant_id = tenant, dx_device_id = js_trim (dv_device_id dto), dx_platform = js_trim (dv_platform dto),
      dx_app_version = read_string (dv_app_version dto), dx_metadata = or_default (dv_metadata dto) []\<rparr>"

definition register_device ::
  "bool \<Rightarrow> runtime \<Rightarrow> 'b device_dto_scheme \<Rightarrow> 'a sync_db_scheme \<Rightarrow> (sync_device \<times> 'a sync_db_scheme) result" where
  "register_device nested rt dto db =
     with_request_transaction nested (deferred_balance_checks db)
       (\<lambda>db. and_then (require_sync_tenant_id rt) (\<lambda>tenant. upsert_device rt (device_input_of tenant dto) db)) db"

fun acknowledge_cursors ::
  "runtime \<Rightarrow> string \<Rightarrow> string \<Rightarrow> cursor_dto list \<Rightarrow> 'a sync_db_scheme \<Rightarrow> 'a sync_db_scheme result" where
  "acknowledge_cursors rt tenant device [] db = Inr db"
| "acknowledge_cursors rt tenant device (c # cs) db =
     and_then (ensure_supported_entity (cu_entity c)) (\<lambda>_.
     and_then (upsert_cursor rt tenant device (cu_entity c) (cu_last_version c) db) (\<lambda>db1.
     acknowledge_cursors rt tenant device cs db1))"

definition push_operation_result :: "'a finance_db_scheme \<Rightarrow> string \<Rightarrow> push_operation \<Rightarrow> push_result result" where
  "push_operation_result db tenant o' =
     and_then (ensure_supported_entity (po_entity o')) (\<lambda>_.
     and_then (find_by_op_id db tenant (po_op_id o')) (\<lambda>found.
     Inr (case found of
            Some old \<Rightarrow>
              \<lparr>pr_op_id = po_op_id o', pr_entity = po_entity o', pr_status = OpDuplicate,
               pr_client_version = po_version o', pr_server_version = Some (show_nat (so_version old)),
               pr_reason = ''Operation has already been applied'', pr_conflict_policy = ''server-authoritative'',
               pr_server_state = None\<rparr>
          | None \<Rightarrow> resolver_apply_operation o')))"

definition push_callback :: "runtime \<Rightarrow> push_dto \<Rightarrow> 'a sync_db_scheme \<Rightarrow> (push_response \<times> 'a sync_db_scheme) result" where
  "push_callback rt dto db =
     and_then (require_sync_tenant_id rt) (\<lambda>tenant.
     and_then (upsert_device rt (device_input_of tenant dto) db) (\<lambda>(device, db1).
     and_then (acknowledge_cursors rt tenant (dv_device_id dto) (or_default (pu_cursors dto) []) db1) (\<lambda>db2.
     and_then (traverse (push_operation_result db2 tenant) (pu_operations dto)) (\<lambda>results.
     let db3 = mark_push rt tenant (dv_device_id dto) db2
     in Inr (\<lparr>ps_device = device, ps_results = results,
              ps_cursors = get_latest_cursors db3 tenant SYNC_SUPPORTED_ENTITIES\<rparr>, db3)))))"

definition push_request ::
  "bool \<Rightarrow> runtime \<Rightarrow> push_dto \<Rightarrow> 'a sync_db_scheme \<Rightarrow> (push_response \<times> 'a sync_db_scheme) result" where
  "push_request nested rt dto db =
     with_request_transaction nested (deferred_balance_checks db) (push_callback rt dto) db"

definition normalize_entities :: "string list option \<Rightarrow> string list result" where
  "normalize_entities entities =
     (case entities of
        Some es \<Rightarrow> if es = [] then Inr SYNC_SUPPORTED_ENTITIES
                  else traverse (\<lambda>e. and_then (ensure_supported_entity e) (\<lambda>_. Inr e)) es
      | None \<Rightarrow> Inr SYNC_SUPPORTED_ENTITIES)"

text \<open>\<open>BigInt(text)\<close> of a version; another text than a number is a SyntaxError.\<close>

definition big_int :: "string \<Rightarrow> int result" where
  "big_int s =
     (let t = js_trim s; digits = (if t \<noteq> [] \<and> hd t = CHR ''-'' then tl t else t)
      in if t = [] then Inr 0
         else if digits_only digits then Inr (parse_int t)
         else Inl (InternalServerErrorException ''SyntaxError: Cannot convert to a BigInt''))"

definition max_version :: "string \<Rightarrow> string \<Rightarrow> string result" where
  "max_version left right =
     and_then (big_int left) (\<lambda>l. and_then (big_int right) (\<lambda>r. Inr (if r \<le> l then left else right)))"

fun to_cursor_map :: "cursor_dto list \<Rightarrow> (string \<Rightarrow> string option) \<Rightarrow> (string \<Rightarrow> string option) result" where
  "to_cursor_map [] m = Inr m"
| "to_cursor_map (c # cs) m =
     and_then (ensure_supported_entity (cu_entity c)) (\<lambda>_.
     and_then (max_version (or_default (m (cu_entity c)) ''0'') (cu_last_version c)) (\<lambda>v.
     to_cursor_map cs (m(cu_entity c \<mapsto> v))))"

fun effective_cursors ::
  "(string \<Rightarrow> string option) \<Rightarrow> (string \<Rightarrow> string option) \<Rightarrow> string list \<Rightarrow> (string \<Rightarrow> string option) \<Rightarrow>
     (string \<Rightarrow> string option) result" where
  "effective_cursors stored provided [] m = Inr m"
| "effective_cursors stored provided (e # es) m =
     and_then (max_version (or_default (stored e) ''0'') (or_default (provided e) ''0'')) (\<lambda>v.
     effective_cursors stored provided es (m(e \<mapsto> v)))"

fun advance_cursors :: "sync_operation list \<Rightarrow> (string \<Rightarrow> string option) \<Rightarrow> (string \<Rightarrow> string option)" where
  "advance_cursors [] m = m"
| "advance_cursors (o' # os) m = advance_cursors os (m(so_entity o' \<mapsto> show_nat (so_version o')))"

definition pull_callback :: "runtime \<Rightarrow> pull_dto \<Rightarrow> 'a sync_db_scheme \<Rightarrow> (pull_response \<times> 'a sync_db_scheme) result" where
  "pull_callback rt dto db =
     and_then (require_sync_tenant_id rt) (\<lambda>tenant.
     and_then (upsert_device rt (device_input_of tenant dto) db) (\<lambda>(device, db1).
     and_then (acknowledge_cursors rt tenant (dv_device_id dto) (or_default (pl_cursors dto) []) db1) (\<lambda>db2.
     and_then (normalize_entities (pl_entities dto)) (\<lambda>entities.
     and_then (to_cursor_map (or_default (pl_cursors dto) []) (\<lambda>_. None)) (\<lambda>provided.
     and_then (effective_cursors (get_cursor_map db2 tenant (dv_device_id dto) entities) provided entities (\<lambda>_. None))
       (\<lambda>effective.
     let limit = or_default (pl_limit dto) SYNC_DEFAULT_PULL_LIMIT in
     and_then (traverse (\<lambda>e. fetch_by_entity_since_version db2 tenant e (or_default (effective e) ''0'') (limit + 1)) entities)
       (\<lambda>sets.
     let merged = sort_key so_version (concat sets);
         has_more = (limit < int (length merged) \<or> list_ex (\<lambda>s. limit < int (length s)) sets);
         operations = take (nat limit) merged;
         next_map = advance_cursors operations effective;
         db3 = mark_pull rt tenant (dv_device_id dto) db2
     in Inr (\<lparr>pq_operations = operations,
              pq_cursors = map (\<lambda>e. \<lparr>cu_entity = e, cu_last_version = or_default (next_map e) ''0''\<rparr>) entities,
              pq_has_more = has_more\<rparr>, db3))))))))"

definition pull_request ::
  "bool \<Rightarrow> runtime \<Rightarrow> pull_dto \<Rightarrow> 'a sync_db_scheme \<Rightarrow> (pull_response \<times> 'a sync_db_scheme) result" where
  "pull_request nested rt dto db =
     with_request_transaction nested (deferred_balance_checks db) (pull_callback rt dto) db"

end
