(* ===== verification/Sync_Facts.thy ===== *)
theory Sync_Facts
  imports Sync
begin

text \<open>
  What a request does to the cursors, and what a pull returns in terms of the operations after a version.
\<close>

section \<open>Versions as numbers\<close>

lemma pg_bigint_value: "pg_bigint s = Inr v \<longleftrightarrow>
    (let t = js_trim s; digits = (if t \<noteq> [] \<and> hd t = CHR ''-'' then tl t else t)
     in digits_only digits \<and> fits_bigint (parse_int t) \<and> v = parse_int t)"
  by (auto simp: pg_bigint_def Let_def and_then_eq_Inr)

lemma big_int_of_pg: "pg_bigint s = Inr v \<Longrightarrow> big_int s = Inr v"
  by (auto simp: pg_bigint_value big_int_def Let_def digits_only_def split: if_splits)

lemma big_int_digits: "digits_only s \<Longrightarrow> big_int s = Inr (int (parse_nat s))"
proof -
  assume d: "digits_only s"
  then have n: "s \<noteq> []" by (simp add: digits_only_def)
  with d have h: "is_digit (hd s)" "is_digit (last s)" by (auto simp: digits_only_def list_all_iff)
  then have "js_trim s = s" by (intro js_trim_fixed) (simp add: is_digit_not_space)
  moreover have "hd s \<noteq> CHR ''-''" using h(1) by (auto simp: is_digit_def)
  moreover note n d
  ultimately show ?thesis by (auto simp: big_int_def Let_def parse_int_def split: list.splits)
qed

lemma digits_value:
  assumes "digits_only s"
  shows "js_trim s = s" and "0 \<le> parse_int s" and "fits_bigint (parse_int s) \<Longrightarrow> pg_bigint s = Inr (parse_int s)"
proof -
  from assms have n: "s \<noteq> []" and h: "is_digit (hd s)" "is_digit (last s)" by (auto simp: digits_only_def list_all_iff)
  then show t: "js_trim s = s" by (intro js_trim_fixed) (simp add: is_digit_not_space)
  have m: "hd s \<noteq> CHR ''-''" using h(1) by (auto simp: is_digit_def)
  with n show "0 \<le> parse_int s" by (auto simp: parse_int_def split: list.splits)
  show "pg_bigint s = Inr (parse_int s)" if "fits_bigint (parse_int s)"
    using that assms m t by (simp add: pg_bigint_def Let_def)
qed

lemma big_int_show_int: "0 \<le> n \<Longrightarrow> big_int (show_int n) = Inr n"
  using big_int_digits[of "show_nat (nat n)"] by (simp add: show_int_def digits_only_def)

lemma max_version_value:
  "pg_bigint x = Inr m \<Longrightarrow> pg_bigint y = Inr n \<Longrightarrow> \<exists>z. max_version x y = Inr z \<and> pg_bigint z = Inr (max m n)"
  by (auto simp: max_version_def big_int_of_pg)

section \<open>Cursors\<close>

definition stored_cursor :: "'a sync_db_scheme \<Rightarrow> string \<Rightarrow> string \<Rightarrow> int" where
  "stored_cursor db tenant device =
     (case select_first (cursor_at tenant device ''finance'') (sy_cursors db) of None \<Rightarrow> 0 | Some c \<Rightarrow> sc_last_version c)"

definition cursor_value :: "cursor_dto \<Rightarrow> int" where
  "cursor_value c = parse_int (js_trim (cu_last_version c))"

definition acked :: "cursor_dto list \<Rightarrow> int \<Rightarrow> int" where
  "acked cs v = fold (\<lambda>c. max (cursor_value c)) cs v"

definition cursors_ok :: "'a sync_db_scheme \<Rightarrow> bool" where
  "cursors_ok db \<longleftrightarrow> (\<forall>c\<in>set (sy_cursors db). 0 \<le> sc_last_version c \<and> fits_bigint (sc_last_version c))"

lemma acked_ge: "v \<le> acked cs v"
  by (induction cs arbitrary: v) (auto simp: acked_def intro: order_trans[OF max.cobounded2])

lemma acked_simps [simp]: "acked [] v = v" "acked (c # cs) v = acked cs (max (cursor_value c) v)"
  by (simp_all add: acked_def)

lemma acked_max: "acked cs (max u v) = max u (acked cs v)"
  by (induction cs arbitrary: v) (simp_all add: max.left_commute)

lemma acked_mono: "u \<le> v \<Longrightarrow> acked cs u \<le> acked cs v"
  using acked_max[of cs v u] by (simp add: max_absorb1)

lemma stored_fits: "cursors_ok db \<Longrightarrow> 0 \<le> stored_cursor db t d \<and> fits_bigint (stored_cursor db t d)"
  by (auto simp: fits_bigint_def cursors_ok_def stored_cursor_def dest!: select_first_Some split: option.splits)

lemma upsert_cursor_Inr:
  assumes "upsert_cursor rt t d e s db = Inr db'"
  obtains cs where "db' = db\<lparr>sy_cursors := cs\<rparr>"
    and "e = ''finance''" and "pg_bigint s = Inr (parse_int (js_trim s))" and "0 \<le> parse_int (js_trim s)"
    and "stored_cursor db' t d = max (stored_cursor db t d) (parse_int (js_trim s))"
    and "\<And>t' d'. (t', d') \<noteq> (t, d) \<Longrightarrow> stored_cursor db' t' d' = stored_cursor db t' d'"
    and "cursors_ok db \<Longrightarrow> cursors_ok db'"
proof -
  let ?v = "parse_int (js_trim s)"
  from assms have e: "e = ''finance''" and v: "pg_bigint s = Inr ?v" "0 \<le> ?v" "fits_bigint ?v"
    by (auto simp: upsert_cursor_def and_then_eq_Inr pg_bigint_value Let_def)
  let ?f = "\<lambda>c. c\<lparr>sc_last_version := max (sc_last_version c) ?v, sc_updated_at := rt_now rt\<rparr>"
  have at: "cursor_at t' d' ''finance'' (?f c) = cursor_at t' d' ''finance'' c" for t' d' c by (simp add: cursor_at_def)
  show thesis
  proof (cases "select_first (cursor_at t d ''finance'') (sy_cursors db)")
    case (Some c)
    with assms e v have db': "db' = db\<lparr>sy_cursors := update_where (cursor_at t d ''finance'') ?f (sy_cursors db)\<rparr>"
      by (simp add: upsert_cursor_def)
    have sel: "select_first (cursor_at t' d' ''finance'') (sy_cursors db') =
        map_option (\<lambda>x. if cursor_at t d ''finance'' x then ?f x else x) (select_first (cursor_at t' d' ''finance'') (sy_cursors db))" for t' d'
      unfolding db' by simp (rule select_first_update_where, rule at)
    show ?thesis
    proof (rule that[OF db' e v(1,2)])
      show "stored_cursor db' t d = max (stored_cursor db t d) ?v"
        using select_first_Some[OF Some] by (simp add: stored_cursor_def sel Some)
      show "stored_cursor db' t' d' = stored_cursor db t' d'" if "(t', d') \<noteq> (t, d)" for t' d'
        using that by (auto simp: stored_cursor_def sel cursor_at_def dest!: select_first_Some split: option.splits)
      show "cursors_ok db'" if "cursors_ok db"
        using that v(2,3) by (auto simp: cursors_ok_def db' set_update_where max_def)
    qed
  next
    case None
    let ?c = "\<lparr>sc_tenant_id = t, sc_device_id = d, sc_entity = ''finance'', sc_last_version = ?v, sc_updated_at = rt_now rt\<rparr>"
    from None assms e v have db': "db' = db\<lparr>sy_cursors := sy_cursors db @ [?c]\<rparr>" by (auto simp: upsert_cursor_def and_then_eq_Inr)
    show ?thesis
    proof (rule that[OF db' e v(1,2)])
      show "stored_cursor db' t d = max (stored_cursor db t d) ?v"
        using None v(2) by (simp add: stored_cursor_def db' select_first_append cursor_at_def)
      show "stored_cursor db' t' d' = stored_cursor db t' d'" if "(t', d') \<noteq> (t, d)" for t' d'
        using that by (auto simp: stored_cursor_def db' select_first_append cursor_at_def split: option.splits)
      show "cursors_ok db'" if "cursors_ok db"
        using that v(2,3) by (simp add: cursors_ok_def db')
    qed
  qed
qed

lemma acknowledge_cursors_Inr:
  "acknowledge_cursors rt t d cs db = Inr db' \<Longrightarrow>
     (\<exists>xs. db' = db\<lparr>sy_cursors := xs\<rparr>) \<and>
     (\<forall>c\<in>set cs. cu_entity c = ''finance'' \<and> pg_bigint (cu_last_version c) = Inr (cursor_value c) \<and> 0 \<le> cursor_value c) \<and>
     stored_cursor db' t d = acked cs (stored_cursor db t d) \<and>
     (\<forall>t' d'. (t', d') \<noteq> (t, d) \<longrightarrow> stored_cursor db' t' d' = stored_cursor db t' d') \<and>
     (cursors_ok db \<longrightarrow> cursors_ok db')"
proof (induction rt t d cs db rule: acknowledge_cursors.induct)
  case (1 rt t d db)
  then show ?case by (auto intro: exI[of _ "sy_cursors db"])
next
  case (2 rt t d c cs db)
  from 2(2) obtain db1 where e: "ensure_supported_entity (cu_entity c) = Inr ()"
    and u: "upsert_cursor rt t d (cu_entity c) (cu_last_version c) db = Inr db1"
    and rest: "acknowledge_cursors rt t d cs db1 = Inr db'"
    by (auto simp: and_then_eq_Inr)
  note IH = 2(1)[OF rest]
  from u show ?case
  proof (rule upsert_cursor_Inr)
    fix xs
    assume "db1 = db\<lparr>sy_cursors := xs\<rparr>" and "cu_entity c = ''finance''"
      and "pg_bigint (cu_last_version c) = Inr (parse_int (js_trim (cu_last_version c)))"
      and "0 \<le> parse_int (js_trim (cu_last_version c))"
      and "stored_cursor db1 t d = max (stored_cursor db t d) (parse_int (js_trim (cu_last_version c)))"
      and "\<And>t' d'. (t', d') \<noteq> (t, d) \<Longrightarrow> stored_cursor db1 t' d' = stored_cursor db t' d'"
      and "cursors_ok db \<Longrightarrow> cursors_ok db1"
    with IH show ?thesis by (auto simp: cursor_value_def max.commute)
  qed
qed

section \<open>Operations after a version\<close>

definition later_ops :: "'a finance_db_scheme \<Rightarrow> string \<Rightarrow> int \<Rightarrow> sync_operation list" where
  "later_ops db tenant c =
     sort_key so_version (filter (\<lambda>r. so_tenant_id r = tenant \<and> so_entity r = ''finance'' \<and> c < int (so_version r))
       (fd_sync_operations db))"

definition versions_distinct :: "'a finance_db_scheme \<Rightarrow> string \<Rightarrow> bool" where
  "versions_distinct db tenant \<longleftrightarrow>
     distinct (map so_version (filter (\<lambda>r. so_tenant_id r = tenant \<and> so_entity r = ''finance'') (fd_sync_operations db)))"

lemma insort_key_snoc: "k x \<le> k r \<Longrightarrow> insort_key k x (ys @ [r]) = insort_key k x ys @ [r]"
  by (induction ys) auto

lemma sort_key_snoc: "\<forall>x\<in>set xs. k x \<le> k r \<Longrightarrow> sort_key k (xs @ [r]) = sort_key k xs @ [r]"
  by (induction xs) (simp_all add: insort_key_snoc)

lemma set_later_ops: "set (later_ops db t c) =
    {r \<in> set (fd_sync_operations db). so_tenant_id r = t \<and> so_entity r = ''finance'' \<and> c < int (so_version r)}"
  by (auto simp: later_ops_def)

lemma sorted_later_ops: "sorted (map so_version (later_ops db t c))"
  by (simp add: later_ops_def)

lemma later_ops_filter: "c \<le> c' \<Longrightarrow> later_ops db t c' = filter (\<lambda>r. c' < int (so_version r)) (later_ops db t c)"
  by (auto simp: later_ops_def filter_sort intro!: arg_cong[where f = "sort_key so_version"] filter_cong)

lemma distinct_later_ops:
  assumes "versions_distinct db t" shows "distinct (map so_version (later_ops db t c))"
proof -
  let ?xs = "filter (\<lambda>r. so_tenant_id r = t \<and> so_entity r = ''finance'') (fd_sync_operations db)"
  have "later_ops db t c = sort_key so_version (filter (\<lambda>r. c < int (so_version r)) ?xs)"
    by (simp add: later_ops_def conj_ac)
  moreover have "distinct (map so_version (filter (\<lambda>r. c < int (so_version r)) ?xs))"
    using assms unfolding versions_distinct_def by (rule distinct_map_filter)
  ultimately show ?thesis by (simp add: distinct_map)
qed

text \<open>A page and the operations after its last version are the whole list.\<close>

lemma filter_after_page:
  assumes "sorted (map k xs)" and "distinct (map k xs)" and "0 < n" and "n \<le> length xs"
  shows "filter (\<lambda>r. k (last (take n xs)) < (k r :: nat)) xs = drop n xs"
proof -
  let ?l = "last (take n xs)"
  have l: "take n xs = butlast (take n xs) @ [?l]" using assms(3,4) by (metis append_butlast_last_id length_greater_0_conv less_le_trans list.size(3) take_eq_Nil neq0_conv)
  have srt: "sorted (map k (take n xs) @ map k (drop n xs))" and dst: "distinct (map k (take n xs) @ map k (drop n xs))"
    using assms(1,2) by (simp_all flip: map_append)
  have "filter (\<lambda>r. k ?l < k r) (take n xs) = []"
  proof -
    have "sorted (map k (butlast (take n xs)) @ [k ?l])"
      using srt l by (metis map_append sorted_append list.map(1,2))
    then show ?thesis by (subst l) (auto simp: sorted_append filter_empty_conv)
  qed
  moreover have "filter (\<lambda>r. k ?l < k r) (drop n xs) = drop n xs"
  proof -
    have "?l \<in> set (take n xs)" using l by (metis in_set_conv_decomp)
    then have "\<forall>r\<in>set (drop n xs). k ?l \<le> k r \<and> k ?l \<noteq> k r"
      using srt dst by (auto simp: sorted_append)
    then show ?thesis by (auto simp: filter_id_conv le_neq_implies_less)
  qed
  ultimately show ?thesis by (metis append_Nil append_take_drop_id filter_append)
qed

lemma later_ops_after_page:
  assumes "versions_distinct db t" and "0 < n" and "n \<le> length (later_ops db t c)"
  shows "later_ops db t (int (so_version (last (take n (later_ops db t c))))) = drop n (later_ops db t c)"
proof -
  let ?l = "last (take n (later_ops db t c))"
  have "take n (later_ops db t c) \<noteq> []" using assms(2,3) by auto
  then have "?l \<in> set (later_ops db t c)" by (intro in_set_takeD[OF last_in_set])
  then have "c \<le> int (so_version ?l)" unfolding set_later_ops by simp
  from later_ops_filter[OF this, of db t]
  have "later_ops db t (int (so_version ?l)) = filter (\<lambda>r. so_version ?l < so_version r) (later_ops db t c)"
    unfolding of_nat_less_iff .
  also note filter_after_page[OF sorted_later_ops distinct_later_ops[OF assms(1)] assms(2,3)]
  finally show ?thesis .
qed

section \<open>Requests that pass validation\<close>

lemma trimmed_not_blank: "trimmed_between lo hi s \<Longrightarrow> 0 < lo \<Longrightarrow> not_blank s"
proof -
  assume a: "trimmed_between lo hi s" "0 < lo"
  then have n: "s \<noteq> []" and t: "js_trim s = s" by (auto simp: trimmed_between_def)
  have "\<not> is_space (hd s)"
  proof
    assume "is_space (hd s)"
    then have "length (dropWhile is_space s) \<le> length (tl s)" using n by (cases s) (auto intro: length_dropWhile_le)
    then have "length (js_trim s) \<le> length (tl s)"
      using length_dropWhile_le[of is_space "rev (dropWhile is_space s)"] by (simp add: js_trim_def)
    with t n show False by (cases s) auto
  qed
  then have "hd s \<noteq> CHR '' ''" by (auto simp: is_space_def)
  with n show ?thesis by (auto simp: not_blank_def list_ex_iff intro!: bexI[of _ "hd s"])
qed

lemma upsert_device_ok:
  assumes "device_dto_valid dto"
  obtains d db' where "upsert_device rt (device_input_of t dto) db = Inr (d, db')"
    and "db' = db\<lparr>sy_devices := sy_devices db'\<rparr>"
    and "list_ex (device_at t (dv_device_id dto)) (sy_devices db')"
    and "device_at t (dv_device_id dto) d"
proof -
  let ?i = "device_input_of t dto"
  from assms have dt: "js_trim (dv_device_id dto) = dv_device_id dto" "js_trim (dv_platform dto) = dv_platform dto"
    and nb: "not_blank (dv_device_id dto)" "not_blank (dv_platform dto)"
    by (auto simp: device_dto_valid_def trimmed_between_def intro: trimmed_not_blank)
  have i: "dx_tenant_id ?i = t" "dx_device_id ?i = dv_device_id dto" "dx_platform ?i = dv_platform dto"
    by (simp_all add: device_input_of_def dt)
  show thesis
  proof (cases "select_first (device_at t (dv_device_id dto)) (sy_devices db)")
    case None
    let ?d = "device_row rt ?i (fresh_uuid (map sd_id (sy_devices db)))"
    show ?thesis
      by (rule that[of ?d "db\<lparr>sy_devices := sy_devices db @ [?d]\<rparr>"])
        (use None nb i in \<open>simp_all add: upsert_device_def Let_def device_at_def device_row_def\<close>)
  next
    case (Some d)
    note d = select_first_Some[OF Some]
    let ?rows = "update_where (device_at t (dv_device_id dto)) (seen_device rt ?i) (sy_devices db)"
    have at: "device_at t (dv_device_id dto) (seen_device rt ?i d)" using d by (simp add: device_at_def seen_device_def)
    moreover have "seen_device rt ?i d \<in> set ?rows" using d by (simp add: set_update_where)
    ultimately have "list_ex (device_at t (dv_device_id dto)) ?rows" by (auto simp: list_ex_iff)
    with at Some nb i show ?thesis
      by (intro that[of "seen_device rt ?i d" "db\<lparr>sy_devices := ?rows\<rparr>"]) (simp_all add: upsert_device_def)
  qed
qed

lemma acknowledge_cursors_ok:
  assumes "list_all cursor_dto_valid cs" and "list_all (\<lambda>c. fits_bigint (cursor_value c)) cs"
    and "list_ex (device_at t d) (sy_devices db)"
  obtains db' where "acknowledge_cursors rt t d cs db = Inr db'" and "sy_devices db' = sy_devices db"
  using assms
proof (induction cs arbitrary: db thesis)
  case (Cons c cs)
  from Cons.prems have c: "cu_entity c = ''finance''" "digits_only (cu_last_version c)" "fits_bigint (cursor_value c)"
    by (auto simp: cursor_dto_valid_def SYNC_SUPPORTED_ENTITIES_def)
  then have "pg_bigint (cu_last_version c) = Inr (cursor_value c)" and "0 \<le> cursor_value c"
    using digits_value[OF c(2)] by (simp_all add: cursor_value_def)
  then obtain db1 where u: "upsert_cursor rt t d (cu_entity c) (cu_last_version c) db = Inr db1"
    and dev: "sy_devices db1 = sy_devices db"
    using c Cons.prems(4) by (cases "select_first (cursor_at t d ''finance'') (sy_cursors db)")
      (auto simp: upsert_cursor_def)
  obtain db' where "acknowledge_cursors rt t d cs db1 = Inr db'" "sy_devices db' = sy_devices db1"
    using Cons.IH[of db1] Cons.prems dev by auto
  with u dev c Cons.prems(1) show ?case by (auto simp: ensure_supported_entity_def SYNC_SUPPORTED_ENTITIES_def)
qed simp

section \<open>What a pull returns\<close>

definition single_entity :: "pull_dto \<Rightarrow> bool" where
  "single_entity dto \<longleftrightarrow> or_default (pl_entities dto) [] \<in> {[], [''finance'']}"

definition pull_limit :: "pull_dto \<Rightarrow> nat" where
  "pull_limit dto = nat (or_default (pl_limit dto) SYNC_DEFAULT_PULL_LIMIT)"

text \<open>The version after which a request of the device is answered.\<close>

definition effective_cursor :: "'a sync_db_scheme \<Rightarrow> string \<Rightarrow> pull_dto \<Rightarrow> int" where
  "effective_cursor db tenant dto = acked (or_default (pl_cursors dto) []) (stored_cursor db tenant (dv_device_id dto))"

lemma normalize_single: "single_entity dto \<Longrightarrow> normalize_entities (pl_entities dto) = Inr [''finance'']"
  by (auto simp: single_entity_def normalize_entities_def or_default_def ensure_supported_entity_def
      SYNC_SUPPORTED_ENTITIES_def split: option.splits)

lemma pg_bigint_zero [simp]: "pg_bigint ''0'' = Inr 0"
  by code_simp

lemma to_cursor_map_value:
  assumes "\<forall>c\<in>set cs. cu_entity c = ''finance'' \<and> pg_bigint (cu_last_version c) = Inr (cursor_value c)"
    and "pg_bigint (or_default (m ''finance'') ''0'') = Inr v"
  shows "\<exists>m'. to_cursor_map cs m = Inr m' \<and> pg_bigint (or_default (m' ''finance'') ''0'') = Inr (acked cs v)"
  using assms
proof (induction cs arbitrary: m v)
  case (Cons c cs)
  then have e: "cu_entity c = ''finance''" and b: "pg_bigint (cu_last_version c) = Inr (cursor_value c)" by simp_all
  from max_version_value[OF Cons.prems(2) b]
  obtain z where z: "max_version (or_default (m ''finance'') ''0'') (cu_last_version c) = Inr z"
    "pg_bigint z = Inr (max v (cursor_value c))" by blast
  have "\<exists>m'. to_cursor_map cs (m(''finance'' \<mapsto> z)) = Inr m' \<and>
      pg_bigint (or_default (m' ''finance'') ''0'') = Inr (acked cs (max (cursor_value c) v))"
    by (rule Cons.IH) (use Cons.prems(1) z in \<open>simp_all add: or_default_def max.commute\<close>)
  moreover have "to_cursor_map (c # cs) m = to_cursor_map cs (m(''finance'' \<mapsto> z))"
    using e z by (simp add: ensure_supported_entity_def SYNC_SUPPORTED_ENTITIES_def)
  ultimately show ?case by (simp only: acked_simps)
qed simp

lemma stored_text: "cursors_ok db \<Longrightarrow>
    pg_bigint (or_default (get_cursor_map db t d [''finance''] ''finance'') ''0'') = Inr (stored_cursor db t d)"
  using stored_fits[of db t d]
  by (auto simp: get_cursor_map_def stored_cursor_def or_default_def pg_bigint_show split: option.splits)

lemma advance_finance: "\<forall>r\<in>set ops. so_entity r = ''finance'' \<Longrightarrow> advance_cursors ops m ''finance'' =
    (if ops = [] then m ''finance'' else Some (show_nat (so_version (last ops))))"
  by (induction ops arbitrary: m) auto

text \<open>A pull after the cursors were acknowledged in \<open>db2\<close>: what it reads and returns.\<close>

lemma fetch_page:
  assumes "pg_bigint after = Inr c"
  shows "fetch_by_entity_since_version db t ''finance'' after (limit + 1) = Inr (take (nat (limit + 1)) (later_ops db t c))"
  by (simp add: fetch_by_entity_since_version_def assms later_ops_def)

lemma later_ops_cong: "fd_sync_operations db = fd_sync_operations db' \<Longrightarrow> later_ops db t c = later_ops db' t c"
  by (simp add: later_ops_def)

lemma page_facts:
  assumes "0 \<le> limit"
  shows "take (nat limit) (sort_key so_version (concat [take (nat (limit + 1)) (later_ops db t c)])) =
      take (nat limit) (later_ops db t c)"
    and "limit < int (length (take (nat (limit + 1)) (later_ops db t c))) \<longleftrightarrow> nat limit < length (later_ops db t c)"
proof -
  have "sort_key so_version (take n (later_ops db t c)) = take n (later_ops db t c)" for n
    using sorted_later_ops[of db t c] by (intro sort_key_id_if_sorted) (metis sorted_wrt_take take_map)
  then show "take (nat limit) (sort_key so_version (concat [take (nat (limit + 1)) (later_ops db t c)])) =
      take (nat limit) (later_ops db t c)"
    using assms by (simp add: min_def)
  show "limit < int (length (take (nat (limit + 1)) (later_ops db t c))) \<longleftrightarrow> nat limit < length (later_ops db t c)"
    using assms by auto
qed

lemma effective_text:
  assumes "cursors_ok db" and "stored_cursor db t d = acked cs v" and "0 \<le> v"
    and "\<forall>c\<in>set cs. cu_entity c = ''finance'' \<and> pg_bigint (cu_last_version c) = Inr (cursor_value c)"
  shows "\<exists>provided effective z. to_cursor_map cs (\<lambda>_. None) = Inr provided \<and>
      effective_cursors (get_cursor_map db t d [''finance'']) provided [''finance''] (\<lambda>_. None) = Inr effective \<and>
      effective ''finance'' = Some z \<and> pg_bigint z = Inr (acked cs v)"
proof -
  obtain m' where m': "to_cursor_map cs (\<lambda>_. None) = Inr m'"
    "pg_bigint (or_default (m' ''finance'') ''0'') = Inr (acked cs 0)"
    using to_cursor_map_value[of cs "\<lambda>_. None" 0] assms(4) by (auto simp: or_default_def)
  have "max (acked cs v) (acked cs 0) = acked cs v"
    using acked_max[of cs v 0] acked_mono[of 0 v cs] assms(3) by simp
  with max_version_value[OF stored_text[OF assms(1), of t d] m'(2)] assms(2) m'(1) show ?thesis by auto
qed

lemma pull_callback_Inr:
  assumes pull: "pull_callback rt dto db = Inr (resp, db')" and t: "rt_tenant_id rt = Some t"
    and one: "single_entity dto" and lim: "0 \<le> or_default (pl_limit dto) SYNC_DEFAULT_PULL_LIMIT" and inv: "cursors_ok db"
  defines "c \<equiv> effective_cursor db t dto"
  shows "pq_operations resp = take (pull_limit dto) (later_ops db t c)"
    and "pq_has_more resp \<longleftrightarrow> pull_limit dto < length (later_ops db t c)"
    and "\<exists>s. pq_cursors resp = [\<lparr>cu_entity = ''finance'', cu_last_version = s\<rparr>] \<and>
           (if pq_operations resp = [] then pg_bigint s = Inr c else s = show_nat (so_version (last (pq_operations resp))))"
    and "stored_cursor db' t (dv_device_id dto) = c" and "cursors_ok db'"
    and "db' = db\<lparr>sy_devices := sy_devices db', sy_cursors := sy_cursors db'\<rparr>"
proof -
  let ?d = "dv_device_id dto" and ?cs = "or_default (pl_cursors dto) []"
  let ?limit = "or_default (pl_limit dto) SYNC_DEFAULT_PULL_LIMIT"
  from pull t one obtain dev db1 db2 provided effective sets where
    up: "upsert_device rt (device_input_of t dto) db = Inr (dev, db1)"
    and ack: "acknowledge_cursors rt t ?d ?cs db1 = Inr db2"
    and prov: "to_cursor_map ?cs (\<lambda>_. None) = Inr provided"
    and eff: "effective_cursors (get_cursor_map db2 t ?d [''finance'']) provided [''finance''] (\<lambda>_. None) = Inr effective"
    and sets: "traverse (\<lambda>e. fetch_by_entity_since_version db2 t e (or_default (effective e) ''0'') (?limit + 1))
        [''finance''] = Inr sets"
    and resp: "pq_operations resp = take (nat ?limit) (sort_key so_version (concat sets))"
      "pq_has_more resp \<longleftrightarrow> ?limit < int (length (sort_key so_version (concat sets))) \<or>
         list_ex (\<lambda>s. ?limit < int (length s)) sets"
      "pq_cursors resp = [\<lparr>cu_entity = ''finance'',
         cu_last_version = or_default (advance_cursors (pq_operations resp) effective ''finance'') ''0''\<rparr>]"
    and db': "db' = mark_pull rt t ?d db2"
    by (auto simp: pull_callback_def and_then_eq_Inr require_sync_tenant_id_def normalize_single Let_def
        split: if_splits simp del: traverse.simps to_cursor_map.simps effective_cursors.simps)
  have db1: "db1 = db\<lparr>sy_devices := sy_devices db1\<rparr>"
    using up by (auto simp: upsert_device_def and_then_eq_Inr Let_def split: option.splits)
  have inv1: "cursors_ok db1" by (subst db1) (use inv in \<open>simp add: cursors_ok_def\<close>)
  have st1: "stored_cursor db1 t ?d = stored_cursor db t ?d" by (subst db1) (simp add: stored_cursor_def)
  note a = acknowledge_cursors_Inr[OF ack]
  have c: "stored_cursor db2 t ?d = c" using a st1 by (simp add: c_def effective_cursor_def)
  have inv2: "cursors_ok db2" using a inv1 by simp
  have db2: "db2 = db1\<lparr>sy_cursors := sy_cursors db2\<rparr>" using a by auto
  have log: "fd_sync_operations db2 = fd_sync_operations db" by (subst db2, subst db1) simp
  have "stored_cursor db2 t ?d = acked ?cs (stored_cursor db t ?d)"
    using c by (simp add: c_def effective_cursor_def)
  from effective_text[OF inv2 this] a stored_fits[OF inv, of t ?d] prov eff
  obtain z where e: "effective ''finance'' = Some z" and pg: "pg_bigint z = Inr c"
    by (auto simp: c_def effective_cursor_def simp del: effective_cursors.simps)
  have sets': "sets = [take (nat (?limit + 1)) (later_ops db t c)]"
    using sets e fetch_page[OF pg, of db2 t ?limit] later_ops_cong[OF log, of t c] by (simp add: or_default_def)
  show ops: "pq_operations resp = take (pull_limit dto) (later_ops db t c)"
    unfolding resp(1) sets' pull_limit_def by (rule page_facts(1)[OF lim])
  show "pq_has_more resp \<longleftrightarrow> pull_limit dto < length (later_ops db t c)"
    unfolding resp(2) sets' pull_limit_def using page_facts(2)[OF lim, of db t c] by simp
  have fin: "\<forall>r\<in>set (pq_operations resp). so_entity r = ''finance''"
    unfolding ops by (auto dest!: in_set_takeD simp: set_later_ops)
  show "\<exists>s. pq_cursors resp = [\<lparr>cu_entity = ''finance'', cu_last_version = s\<rparr>] \<and>
           (if pq_operations resp = [] then pg_bigint s = Inr c else s = show_nat (so_version (last (pq_operations resp))))"
    unfolding resp(3) advance_finance[OF fin] using e pg by (simp add: or_default_def)
  show "stored_cursor db' t ?d = c" "cursors_ok db'"
    using c inv2 by (simp_all add: db' mark_pull_def stored_cursor_def cursors_ok_def)
  show "db' = db\<lparr>sy_devices := sy_devices db', sy_cursors := sy_cursors db'\<rparr>"
    unfolding db' by (simp add: mark_pull_def) (subst db2, subst db1, simp)
qed

lemma version_text: "big_int (show_nat n) = Inr (int n)"
  using big_int_show_int[of "int n"] by (simp add: show_int_def)

lemma cursor_value_version: "cursor_value \<lparr>cu_entity = e, cu_last_version = show_nat n\<rparr> = int n"
  using digits_value(1)[of "show_nat n"] parse_show_int[of "int n"]
  by (simp add: cursor_value_def digits_only_def show_int_def)

text \<open>A request that passes validation is answered.\<close>

lemma valid_limit:
  assumes "pull_dto_valid dto"
  shows "0 \<le> or_default (pl_limit dto) SYNC_DEFAULT_PULL_LIMIT" and "0 < pull_limit dto"
  using assms by (auto simp: pull_dto_valid_def opt_all_def or_default_def SYNC_DEFAULT_PULL_LIMIT_def pull_limit_def
      split: option.splits)

definition cursors_fit :: "pull_dto \<Rightarrow> bool" where
  "cursors_fit dto \<longleftrightarrow> list_all (\<lambda>c. fits_bigint (cursor_value c)) (or_default (pl_cursors dto) [])"

lemma deferred_checks_same:
  "fd_transactions db' = fd_transactions db \<Longrightarrow> fd_ledger_entries db' = fd_ledger_entries db \<Longrightarrow>
     deferred_balance_checks db db' = Inr ()"
  by (simp add: deferred_balance_checks_def)

lemma pull_callback_ok:
  assumes v: "pull_dto_valid dto" and one: "single_entity dto" and t: "rt_tenant_id rt = Some t" "t \<noteq> []"
    and fit: "cursors_fit dto" and inv: "cursors_ok db"
  shows "\<exists>resp db'. pull_callback rt dto db = Inr (resp, db')"
proof -
  let ?d = "dv_device_id dto" and ?cs = "or_default (pl_cursors dto) []"
  from v have dv: "device_dto_valid dto" and cv: "list_all cursor_dto_valid ?cs"
    by (auto simp: pull_dto_valid_def opt_all_def or_default_def split: option.splits)
  obtain dev db1 where up: "upsert_device rt (device_input_of t dto) db = Inr (dev, db1)"
    and db1: "db1 = db\<lparr>sy_devices := sy_devices db1\<rparr>" and dev: "list_ex (device_at t ?d) (sy_devices db1)"
    using upsert_device_ok[OF dv] by metis
  obtain db2 where ack: "acknowledge_cursors rt t ?d ?cs db1 = Inr db2"
    using acknowledge_cursors_ok[OF cv _ dev] fit by (auto simp: cursors_fit_def)
  have inv1: "cursors_ok db1" by (subst db1) (use inv in \<open>simp add: cursors_ok_def\<close>)
  note a = acknowledge_cursors_Inr[OF ack]
  from a inv1 have inv2: "cursors_ok db2" and st: "stored_cursor db2 t ?d = acked ?cs (stored_cursor db1 t ?d)" by auto
  from effective_text[OF inv2 st] a stored_fits[OF inv1, of t ?d] obtain provided effective z where
    eff: "to_cursor_map ?cs (\<lambda>_. None) = Inr provided"
      "effective_cursors (get_cursor_map db2 t ?d [''finance'']) provided [''finance''] (\<lambda>_. None) = Inr effective"
      "effective ''finance'' = Some z" "pg_bigint z = Inr (acked ?cs (stored_cursor db1 t ?d))"
    by (auto simp del: effective_cursors.simps)
  have "\<exists>sets. traverse (\<lambda>e. fetch_by_entity_since_version db2 t e (or_default (effective e) ''0'')
      (or_default (pl_limit dto) SYNC_DEFAULT_PULL_LIMIT + 1)) [''finance''] = Inr sets"
    using eff(3,4) by (simp add: fetch_page or_default_def)
  with up ack eff(1,2) t normalize_single[OF one] show ?thesis
    by (auto simp: pull_callback_def require_sync_tenant_id_def Let_def
        simp del: traverse.simps to_cursor_map.simps effective_cursors.simps)
qed

lemma pull_request_Inr:
  assumes "pull_request nested rt dto db = Inr (resp, db')"
  shows "pull_callback rt dto db = Inr (resp, db')"
  using assms by (simp add: pull_request_def with_request_transaction_Inr)

lemma pull_request_ok:
  assumes v: "pull_dto_valid dto" and one: "single_entity dto" and t: "rt_tenant_id rt = Some t" "t \<noteq> []"
    and fit: "cursors_fit dto" and inv: "cursors_ok db"
  obtains resp db' where "pull_request nested rt dto db = Inr (resp, db')"
proof -
  from pull_callback_ok[OF assms] obtain resp db' where p: "pull_callback rt dto db = Inr (resp, db')" by blast
  note lim = valid_limit(1)[OF v]
  have db': "db' = db\<lparr>sy_devices := sy_devices db', sy_cursors := sy_cursors db'\<rparr>"
    by (rule pull_callback_Inr(6)[OF p t(1) one lim inv])
  have "deferred_balance_checks db db' = Inr ()" by (rule deferred_checks_same; subst db'; simp)
  with p show thesis by (intro that[of resp db']) (simp add: pull_request_def with_request_transaction_Inr)
qed

section \<open>Requests naming an entity more than once\<close>

lemma effective_cursors_finance:
  "effective_cursors stored provided es m = Inr m' \<Longrightarrow> \<forall>e\<in>set es. e = ''finance'' \<Longrightarrow> es \<noteq> [] \<Longrightarrow>
     \<exists>z. max_version (or_default (stored ''finance'') ''0'') (or_default (provided ''finance'') ''0'') = Inr z \<and>
       m' ''finance'' = Some z"
proof (induction es arbitrary: m)
  case (Cons e es)
  then obtain z where z: "max_version (or_default (stored ''finance'') ''0'') (or_default (provided ''finance'') ''0'') = Inr z"
    and rest: "effective_cursors stored provided es (m(''finance'' \<mapsto> z)) = Inr m'"
    by (auto simp: and_then_eq_Inr)
  show ?case
  proof (cases es)
    case Nil
    with z rest show ?thesis by auto
  next
    case (Cons a list)
    with Cons.IH[OF rest] Cons.prems(2) show ?thesis by auto
  qed
qed simp

lemma ensured_entities: "traverse (\<lambda>e. and_then (ensure_supported_entity e) (\<lambda>_. Inr e)) xs = Inr es \<Longrightarrow>
    es = xs \<and> (\<forall>e\<in>set xs. e = ''finance'')"
  by (induction xs arbitrary: es) (auto simp: and_then_eq_Inr ensure_supported_entity_def SYNC_SUPPORTED_ENTITIES_def)

lemma normalized_finance: "normalize_entities x = Inr es \<Longrightarrow> es \<noteq> [] \<and> (\<forall>e\<in>set es. e = ''finance'')"
  by (auto simp: normalize_entities_def SYNC_SUPPORTED_ENTITIES_def split: option.splits if_splits dest!: ensured_entities)

lemma get_cursor_map_finance:
  "''finance'' \<in> set es \<Longrightarrow> get_cursor_map db t d es ''finance'' = get_cursor_map db t d [''finance''] ''finance''"
  by (simp add: get_cursor_map_def)

text \<open>Whatever entities a pull names, it delivers operations after its cursor only, and changes cursors and devices only.\<close>

lemma pull_callback_after:
  assumes pull: "pull_callback rt dto db = Inr (resp, db')" and t: "rt_tenant_id rt = Some t" and inv: "cursors_ok db"
  shows "set (pq_operations resp) \<subseteq> set (later_ops db t (effective_cursor db t dto))"
    and "stored_cursor db' t (dv_device_id dto) = effective_cursor db t dto"
    and "(t', d') \<noteq> (t, dv_device_id dto) \<Longrightarrow> stored_cursor db' t' d' = stored_cursor db t' d'"
    and "cursors_ok db'" and "db' = db\<lparr>sy_devices := sy_devices db', sy_cursors := sy_cursors db'\<rparr>"
proof -
  let ?d = "dv_device_id dto" and ?cs = "or_default (pl_cursors dto) []" and ?c = "effective_cursor db t dto"
  from pull t obtain dev db1 db2 entities provided effective sets limit where
    up: "upsert_device rt (device_input_of t dto) db = Inr (dev, db1)"
    and ack: "acknowledge_cursors rt t ?d ?cs db1 = Inr db2"
    and ent: "normalize_entities (pl_entities dto) = Inr entities"
    and prov: "to_cursor_map ?cs (\<lambda>_. None) = Inr provided"
    and eff: "effective_cursors (get_cursor_map db2 t ?d entities) provided entities (\<lambda>_. None) = Inr effective"
    and sets: "traverse (\<lambda>e. fetch_by_entity_since_version db2 t e (or_default (effective e) ''0'') (limit + 1)) entities = Inr sets"
    and resp: "pq_operations resp = take (nat limit) (sort_key so_version (concat sets))"
    and db': "db' = mark_pull rt t ?d db2"
    by (auto simp: pull_callback_def and_then_eq_Inr require_sync_tenant_id_def Let_def
        split: if_splits simp del: traverse.simps to_cursor_map.simps effective_cursors.simps)
  have db1: "db1 = db\<lparr>sy_devices := sy_devices db1\<rparr>"
    using up by (auto simp: upsert_device_def and_then_eq_Inr Let_def split: option.splits)
  have inv1: "cursors_ok db1" by (subst db1) (use inv in \<open>simp add: cursors_ok_def\<close>)
  have st1: "stored_cursor db1 x y = stored_cursor db x y" for x y by (subst db1) (simp add: stored_cursor_def)
  note a = acknowledge_cursors_Inr[OF ack]
  have c: "stored_cursor db2 t ?d = ?c" using a st1 by (simp add: effective_cursor_def)
  have inv2: "cursors_ok db2" using a inv1 by simp
  have db2: "db2 = db1\<lparr>sy_cursors := sy_cursors db2\<rparr>" using a by auto
  have log: "fd_sync_operations db2 = fd_sync_operations db" by (subst db2, subst db1) simp
  note fin = normalized_finance[OF ent]
  have st: "stored_cursor db2 t ?d = acked ?cs (stored_cursor db t ?d)" using c by (simp add: effective_cursor_def)
  have mem: "''finance'' \<in> set entities" using fin by (cases entities) auto
  obtain z where mz: "max_version (or_default (get_cursor_map db2 t ?d [''finance''] ''finance'') ''0'')
      (or_default (provided ''finance'') ''0'') = Inr z" and z: "effective ''finance'' = Some z"
    using effective_cursors_finance[OF eff] fin get_cursor_map_finance[OF mem, of db2 t ?d] by auto
  from effective_text[OF inv2 st] a stored_fits[OF inv, of t ?d] prov mz have pg: "pg_bigint z = Inr ?c"
    by (auto simp: effective_cursor_def)
  have "\<exists>n. s = take n (later_ops db t ?c)" if "s \<in> set sets" for s
  proof -
    from traverse_in[OF sets that] fin z obtain e where
      "fetch_by_entity_since_version db2 t ''finance'' z (limit + 1) = Inr s" by (auto simp: or_default_def)
    then show ?thesis using fetch_page[OF pg, of db2 t limit] later_ops_cong[OF log, of t ?c] by auto
  qed
  then show "set (pq_operations resp) \<subseteq> set (later_ops db t ?c)"
    unfolding resp by (fastforce dest!: in_set_takeD)
  show "stored_cursor db' t ?d = ?c" "cursors_ok db'"
    using c inv2 by (simp_all add: db' mark_pull_def stored_cursor_def cursors_ok_def)
  show "stored_cursor db' t' d' = stored_cursor db t' d'" if "(t', d') \<noteq> (t, ?d)"
    using a st1 that by (simp add: db' mark_pull_def stored_cursor_def)
  show "db' = db\<lparr>sy_devices := sy_devices db', sy_cursors := sy_cursors db'\<rparr>"
    unfolding db' by (simp add: mark_pull_def) (subst db2, subst db1, simp)
qed

section \<open>Registration and push\<close>

lemma register_device_Inr:
  assumes "register_device nested rt dto db = Inr (d, db')"
  shows "db' = db\<lparr>sy_devices := sy_devices db'\<rparr>"
  using assms by (auto simp: register_device_def with_request_transaction_Inr and_then_eq_Inr upsert_device_def Let_def
      split: option.splits)

lemma push_callback_Inr:
  assumes push: "push_callback rt dto db = Inr (resp, db')" and t: "rt_tenant_id rt = Some t"
  shows "traverse (push_operation_result db t) (pu_operations dto) = Inr (ps_results resp)"
    and "stored_cursor db' t (dv_device_id dto) =
           acked (or_default (pu_cursors dto) []) (stored_cursor db t (dv_device_id dto))"
    and "(t', d') \<noteq> (t, dv_device_id dto) \<Longrightarrow> stored_cursor db' t' d' = stored_cursor db t' d'"
    and "cursors_ok db \<Longrightarrow> cursors_ok db'" and "db' = db\<lparr>sy_devices := sy_devices db', sy_cursors := sy_cursors db'\<rparr>"
proof -
  let ?d = "dv_device_id dto" and ?cs = "or_default (pu_cursors dto) []"
  from push t obtain dev db1 db2 where
    up: "upsert_device rt (device_input_of t dto) db = Inr (dev, db1)"
    and ack: "acknowledge_cursors rt t ?d ?cs db1 = Inr db2"
    and res: "traverse (push_operation_result db2 t) (pu_operations dto) = Inr (ps_results resp)"
    and db': "db' = mark_push rt t ?d db2"
    by (auto simp: push_callback_def and_then_eq_Inr require_sync_tenant_id_def Let_def split: if_splits)
  have db1: "db1 = db\<lparr>sy_devices := sy_devices db1\<rparr>"
    using up by (auto simp: upsert_device_def and_then_eq_Inr Let_def split: option.splits)
  have st1: "stored_cursor db1 x y = stored_cursor db x y" for x y by (subst db1) (simp add: stored_cursor_def)
  note a = acknowledge_cursors_Inr[OF ack]
  have db2: "db2 = db1\<lparr>sy_cursors := sy_cursors db2\<rparr>" using a by auto
  have "fd_sync_operations db2 = fd_sync_operations db" by (subst db2, subst db1) simp
  then have "push_operation_result db2 = push_operation_result db"
    by (intro ext) (simp add: push_operation_result_def find_by_op_id_def)
  with res show "traverse (push_operation_result db t) (pu_operations dto) = Inr (ps_results resp)" by simp
  show "stored_cursor db' t ?d = acked ?cs (stored_cursor db t ?d)"
    using a st1 by (simp add: db' mark_push_def stored_cursor_def)
  show "stored_cursor db' t' d' = stored_cursor db t' d'" if "(t', d') \<noteq> (t, ?d)"
    using a st1 that by (simp add: db' mark_push_def stored_cursor_def)
  show "cursors_ok db'" if "cursors_ok db"
  proof -
    have "cursors_ok db1" by (subst db1) (use that in \<open>simp add: cursors_ok_def\<close>)
    then show ?thesis using a by (simp add: db' mark_push_def cursors_ok_def)
  qed
  show "db' = db\<lparr>sy_devices := sy_devices db', sy_cursors := sy_cursors db'\<rparr>"
    unfolding db' by (simp add: mark_push_def) (subst db2, subst db1, simp)
qed

end
