(* ===== verification/Sync_Claims.thy ===== *)
theory Sync_Claims
  imports Sync_Facts Ledger_Examples
begin

text \<open>
  What the devices can rely on: a pull returns the next page after the device's cursor, repeated pulls end
  and deliver everything once, a push changes no finance record, and a posted transaction reaches the devices.
  The last part follows the requests of all devices and the commits of the server as steps.
\<close>

section \<open>A school with two devices\<close>

definition sy_op :: "nat \<Rightarrow> sync_operation" where
  "sy_op v = \<lparr>so_op_id = v, so_tenant_id = ''t1'', so_device_id = SYNC_SERVER_DEVICE_ID, so_entity = ''finance'',
     so_version = v, so_transaction_id = v, so_reference = ''R'', so_description = ''D'', so_total_amount_minor = ''5'',
     so_currency_code = ''KES'', so_entry_count = 2, so_posted_at = 0, so_metadata = JObj []\<rparr>"

definition sy_db :: "nat list \<Rightarrow> sync_db" where
  "sy_db vs = \<lparr>fd_idempotency_keys = [], fd_accounts = ex_accounts, fd_transactions = [], fd_ledger_entries = [],
     fd_audit_logs = [], fd_sync_operations = map sy_op vs, sy_devices = [], sy_cursors = []\<rparr>"

definition sy_pull :: "cursor_dto list \<Rightarrow> int \<Rightarrow> pull_dto" where
  "sy_pull cs n = \<lparr>dv_device_id = ''dev'', dv_platform = ''web'', dv_app_version = None, dv_metadata = None,
     pl_cursors = Some cs, pl_entities = None, pl_limit = Some n\<rparr>"

definition sy_cursor :: "string \<Rightarrow> cursor_dto" where
  "sy_cursor v = \<lparr>cu_entity = ''finance'', cu_last_version = v\<rparr>"

lemma sy_op_sel: "so_op_id (sy_op v) = v" "so_tenant_id (sy_op v) = ''t1''" "so_entity (sy_op v) = ''finance''" "so_version (sy_op v) = v"
  by (simp_all add: sy_op_def)

lemma sy_pull_ok: "pull_dto_valid (sy_pull [] 2)" "single_entity (sy_pull [] 2)" "cursors_fit (sy_pull [] 2)"
  by code_simp+

lemma sy_db_ok: "cursors_ok (sy_db vs)" "rt_tenant_id ex_rt = Some ''t1''" "''t1'' \<noteq> []"
  by (simp_all add: cursors_ok_def sy_db_def ex_rt_def)

section \<open>One pull\<close>

text \<open>A pull of a request that passes validation is answered with the first page, in version order, of the
  operations after the device's cursor (the greatest of its stored cursor and the ones it acknowledges), says
  there is more exactly when the page does not end them, returns the cursor of the page's last operation, and
  stores the acknowledged cursor.\<close>

theorem pull_returns_next_page:
  assumes "pull_dto_valid dto" and "single_entity dto" and "rt_tenant_id rt = Some t" and "t \<noteq> []"
    and "cursors_fit dto" and "cursors_ok db"
  shows "\<exists>resp db'. pull_request nested rt dto db = Inr (resp, db') \<and>
    pq_operations resp = take (pull_limit dto) (later_ops db t (effective_cursor db t dto)) \<and>
    (pq_has_more resp \<longleftrightarrow> pull_limit dto < length (later_ops db t (effective_cursor db t dto))) \<and>
    map cu_entity (pq_cursors resp) = [''finance''] \<and>
    map (big_int \<circ> cu_last_version) (pq_cursors resp) =
      [Inr (if pq_operations resp = [] then effective_cursor db t dto else int (so_version (last (pq_operations resp))))] \<and>
    stored_cursor db' t (dv_device_id dto) = effective_cursor db t dto"
proof -
  obtain resp db' where p: "pull_request nested rt dto db = Inr (resp, db')"
    using pull_request_ok[OF assms] by blast
  have lim: "0 \<le> or_default (pl_limit dto) SYNC_DEFAULT_PULL_LIMIT" by (rule valid_limit(1)[OF assms(1)])
  note r = pull_callback_Inr[OF pull_request_Inr[OF p] assms(3,2) lim assms(6)]
  from r(3) have "map cu_entity (pq_cursors resp) = [''finance'']"
    and "map (big_int \<circ> cu_last_version) (pq_cursors resp) =
      [Inr (if pq_operations resp = [] then effective_cursor db t dto else int (so_version (last (pq_operations resp))))]"
    by (auto simp: big_int_of_pg version_text split: if_splits)
  with p r(1,2,4) show ?thesis by (intro exI[of _ resp] exI[of _ db']) simp
qed

theorem pull_returns_next_page_witness:
  "\<exists>resp db'. pull_request False ex_rt (sy_pull [] 2) (sy_db [3, 1, 2]) = Inr (resp, db') \<and>
     map so_version (pq_operations resp) = [1, 2] \<and> pq_has_more resp"
proof -
  have "map so_version (take (pull_limit (sy_pull [] 2)) (later_ops (sy_db [3, 1, 2]) ''t1''
          (effective_cursor (sy_db [3, 1, 2]) ''t1'' (sy_pull [] 2)))) = [1, 2]"
    and "pull_limit (sy_pull [] 2) < length (later_ops (sy_db [3, 1, 2]) ''t1''
          (effective_cursor (sy_db [3, 1, 2]) ''t1'' (sy_pull [] 2)))"
    by code_simp+
  with pull_returns_next_page[OF sy_pull_ok(1,2) sy_db_ok(2) _ sy_pull_ok(3) sy_db_ok(1), of False "[3, 1, 2]"]
  show ?thesis by auto
qed

section \<open>Pulling until there is no more\<close>

text \<open>A device repeating its pull with the cursors of the answer while the answer says there is more.\<close>

partial_function (option) pull_all ::
  "runtime \<Rightarrow> pull_dto \<Rightarrow> 'a sync_db_scheme \<Rightarrow> (sync_operation list \<times> 'a sync_db_scheme) result option" where
  "pull_all rt dto db =
     (case pull_request False rt dto db of
        Inl e \<Rightarrow> Some (Inl e)
      | Inr (resp, db1) \<Rightarrow>
          if pq_has_more resp
          then Option.bind (pull_all rt (dto\<lparr>pl_cursors := Some (pq_cursors resp)\<rparr>) db1)
                 (\<lambda>r. Some (and_then r (\<lambda>(ops, db2). Inr (pq_operations resp @ ops, db2))))
          else Some (Inr (pq_operations resp, db1)))"

text \<open>The request after a page that has more.\<close>

lemma next_request:
  assumes v: "pull_dto_valid dto" and one: "single_entity dto" and t: "rt_tenant_id rt = Some t" and inv: "cursors_ok db"
    and pull: "pull_request False rt dto db = Inr (resp, db')" and more: "pq_has_more resp"
    and fit: "list_all (\<lambda>r. fits_bigint (int (so_version r))) (fd_sync_operations db)"
    and dist: "versions_distinct db t"
  defines "dto' \<equiv> dto\<lparr>pl_cursors := Some (pq_cursors resp)\<rparr>"
  shows "pull_dto_valid dto'" and "single_entity dto'" and "cursors_fit dto'" and "cursors_ok db'"
    and "later_ops db' t (effective_cursor db' t dto') = drop (pull_limit dto) (later_ops db t (effective_cursor db t dto))"
    and "pq_operations resp = take (pull_limit dto) (later_ops db t (effective_cursor db t dto))"
    and "pull_limit dto < length (later_ops db t (effective_cursor db t dto))"
    and "fd_sync_operations db' = fd_sync_operations db" and "0 < pull_limit dto"
proof -
  note lim = valid_limit[OF v]
  let ?c = "effective_cursor db t dto"
  note r = pull_callback_Inr[OF pull_request_Inr[OF pull] t one lim(1) inv]
  show ops: "pq_operations resp = take (pull_limit dto) (later_ops db t ?c)" by (rule r(1))
  show len: "pull_limit dto < length (later_ops db t ?c)" using r(2) more by simp
  show "0 < pull_limit dto" by (rule lim(2))
  with ops len have ne: "pq_operations resp \<noteq> []" by auto
  let ?v = "so_version (last (pq_operations resp))"
  have cs: "pq_cursors resp = [\<lparr>cu_entity = ''finance'', cu_last_version = show_nat ?v\<rparr>]" using r(3) ne by auto
  show log: "fd_sync_operations db' = fd_sync_operations db" by (subst r(6)) simp
  show "cursors_ok db'" by (rule r(5))
  show "pull_dto_valid dto'" using v
    by (simp add: dto'_def pull_dto_valid_def device_dto_valid_def opt_all_def cs cursor_dto_valid_def digits_only_def
        SYNC_SUPPORTED_ENTITIES_def)
  show "single_entity dto'" using one by (simp add: dto'_def single_entity_def)
  have cv: "cursor_value \<lparr>cu_entity = ''finance'', cu_last_version = show_nat ?v\<rparr> = int ?v"
    by (rule cursor_value_version)
  have last: "last (pq_operations resp) \<in> set (later_ops db t ?c)"
    using ne unfolding ops by (intro in_set_takeD[OF last_in_set])
  then show "cursors_fit dto'" using fit
    by (simp add: dto'_def cursors_fit_def or_default_def cs cv list_all_iff set_later_ops)
  have "effective_cursor db' t dto' = max (int ?v) ?c"
    using r(4) by (simp add: dto'_def effective_cursor_def or_default_def cs cv)
  also have "\<dots> = int ?v" using last by (simp add: set_later_ops)
  finally show "later_ops db' t (effective_cursor db' t dto') = drop (pull_limit dto) (later_ops db t ?c)"
    using later_ops_after_page[OF dist lim(2) less_imp_le[OF len]] later_ops_cong[OF log] unfolding ops by simp
qed

lemma pull_all_complete:
  assumes "pull_dto_valid dto" and "single_entity dto" and "rt_tenant_id rt = Some t" and "t \<noteq> []"
    and "cursors_fit dto" and "cursors_ok db" and "versions_distinct db t"
    and "list_all (\<lambda>r. fits_bigint (int (so_version r))) (fd_sync_operations db)"
  shows "\<exists>db'. pull_all rt dto db = Some (Inr (later_ops db t (effective_cursor db t dto), db'))"
  using assms
proof (induction "length (later_ops db t (effective_cursor db t dto))" arbitrary: db dto rule: less_induct)
  case less
  let ?c = "effective_cursor db t dto"
  obtain resp db1 where p: "pull_request False rt dto db = Inr (resp, db1)"
    using pull_request_ok[OF less.prems(1-6)] by blast
  note r = pull_callback_Inr[OF pull_request_Inr[OF p] less.prems(3,2) valid_limit(1)[OF less.prems(1)] less.prems(6)]
  show ?case
  proof (cases "pq_has_more resp")
    case False
    with r(1,2) have "pq_operations resp = later_ops db t ?c" by simp
    with p False show ?thesis by (subst pull_all.simps) simp
  next
    case True
    let ?dto = "dto\<lparr>pl_cursors := Some (pq_cursors resp)\<rparr>"
    note n = next_request[OF less.prems(1,2,3,6) p True less.prems(8,7)]
    have "versions_distinct db1 t" using less.prems(7) n(8) by (simp add: versions_distinct_def)
    moreover have "length (later_ops db1 t (effective_cursor db1 t ?dto)) < length (later_ops db t ?c)"
      using n(5,7,9) by simp
    ultimately obtain db2 where "pull_all rt ?dto db1 = Some (Inr (later_ops db1 t (effective_cursor db1 t ?dto), db2))"
      using less.hyps[of db1 ?dto] n(1,2,3,4,8) less.prems(3,4,8) by auto
    then have "pull_all rt dto db = Some (Inr (pq_operations resp @ later_ops db1 t (effective_cursor db1 t ?dto), db2))"
      using p True by (subst pull_all.simps) simp
    then show ?thesis unfolding n(5,6) by simp
  qed
qed



section \<open>Push\<close>

text \<open>C40: A push of a device changes device and cursor rows only: no finance record and no operation; every
  operation it sends is answered, in order, as a duplicate when the tenant's log has its identifier and as
  rejected otherwise, and none is applied.\<close>

theorem push_never_mutates_finance:
  assumes "push_request nested rt dto db = Inr (resp, db')" and "rt_tenant_id rt = Some t"
  shows "db' = db\<lparr>sy_devices := sy_devices db', sy_cursors := sy_cursors db'\<rparr> \<and>
    map pr_op_id (ps_results resp) = map po_op_id (pu_operations dto) \<and>
    map pr_status (ps_results resp) =
      map (\<lambda>p. if \<exists>r\<in>set (fd_sync_operations db). so_tenant_id r = t \<and> pg_uuid (po_op_id p) = Inr (so_op_id r)
               then OpDuplicate else OpRejected) (pu_operations dto)"
proof -
  have p: "push_callback rt dto db = Inr (resp, db')" using assms(1) by (simp add: push_request_def with_request_transaction_Inr)
  note r = push_callback_Inr[OF p assms(2)]
  have one: "pr_op_id y = po_op_id x \<and> pr_status y =
      (if \<exists>r\<in>set (fd_sync_operations db). so_tenant_id r = t \<and> pg_uuid (po_op_id x) = Inr (so_op_id r)
       then OpDuplicate else OpRejected)" if "push_operation_result db t x = Inr y" for x y
    using that by (auto simp: push_operation_result_def find_by_op_id_def and_then_eq_Inr resolver_apply_operation_def
        select_first_None split: option.splits dest!: select_first_Some)
  have "list_all2 (\<lambda>x y. pr_op_id y = po_op_id x \<and> pr_status y =
      (if \<exists>r\<in>set (fd_sync_operations db). so_tenant_id r = t \<and> pg_uuid (po_op_id x) = Inr (so_op_id r)
       then OpDuplicate else OpRejected)) (pu_operations dto) (ps_results resp)"
    using r(1) unfolding traverse_Inr_iff by (rule list_all2_mono) (rule one)
  then have "map pr_op_id (ps_results resp) = map po_op_id (pu_operations dto) \<and>
    map pr_status (ps_results resp) =
      map (\<lambda>p. if \<exists>r\<in>set (fd_sync_operations db). so_tenant_id r = t \<and> pg_uuid (po_op_id p) = Inr (so_op_id r)
               then OpDuplicate else OpRejected) (pu_operations dto)"
    by (induction rule: list_all2_induct) simp_all
  with r(5) show ?thesis by blast
qed

definition sy_push_op :: "char \<Rightarrow> push_operation" where
  "sy_push_op d = \<lparr>po_op_id = ''00000000-0000-0000-0000-00000000000'' @ [d], po_entity = ''finance'', po_version = 1,
     po_payload = JObj []\<rparr>"

definition sy_push :: push_dto where
  "sy_push = \<lparr>dv_device_id = ''dev'', dv_platform = ''web'', dv_app_version = None, dv_metadata = None,
     pu_cursors = None, pu_operations = [sy_push_op (CHR ''1''), sy_push_op (CHR ''2'')]\<rparr>"

theorem push_never_mutates_finance_witness:
  "\<exists>resp db'. push_request False ex_rt sy_push (sy_db [1]) = Inr (resp, db') \<and>
     map pr_status (ps_results resp) = [OpDuplicate, OpRejected] \<and> fd_sync_operations db' = [sy_op 1]"
proof -
  have "case push_request False ex_rt sy_push (sy_db [1]) of Inl _ \<Rightarrow> False | Inr _ \<Rightarrow> True" by code_simp
  then obtain resp db' where p: "push_request False ex_rt sy_push (sy_db [1]) = Inr (resp, db')"
    by (auto split: sum.splits)
  note r = push_never_mutates_finance[OF p sy_db_ok(2)]
  have "pg_uuid (po_op_id (sy_push_op (CHR ''1''))) = Inr 1" and "pg_uuid (po_op_id (sy_push_op (CHR ''2''))) = Inr 2"
    by code_simp+
  then have "map pr_status (ps_results resp) = [OpDuplicate, OpRejected]"
    using r by (simp add: sy_push_def sy_db_def sy_op_def)
  moreover have "fd_sync_operations db' = fd_sync_operations (sy_db [1])"
    using arg_cong[OF conjunct1[OF r], of fd_sync_operations] by simp
  ultimately show ?thesis using p by (auto simp: sy_db_def)
qed

section \<open>The requests of all devices as steps\<close>

text \<open>
  The server commits operations in any order of their versions: the IDENTITY column numbers a row when it is
  inserted, and two transactions may commit the other way round.
\<close>

datatype sync_event =
    Registered
  | Pushed
  | Pulled string string "sync_operation list"
  | Logged sync_operation

inductive sync_step :: "sync_db \<Rightarrow> sync_event \<Rightarrow> sync_db \<Rightarrow> bool" where
  step_register: "register_device nested rt (dto :: device_dto) db = Inr (d, db') \<Longrightarrow> sync_step db Registered db'"
| step_push: "push_request nested rt dto db = Inr (resp, db') \<Longrightarrow> sync_step db Pushed db'"
| step_pull: "pull_request nested rt dto db = Inr (resp, db') \<Longrightarrow> rt_tenant_id rt = Some t \<Longrightarrow>
    sync_step db (Pulled t (dv_device_id dto) (pq_operations resp)) db'"
| step_log: "sync_step db (Logged r) (db\<lparr>fd_sync_operations := fd_sync_operations db @ [r]\<rparr>)"

inductive_cases sync_stepE: "sync_step db ev db'"

inductive sync_run :: "sync_db \<Rightarrow> sync_event list \<Rightarrow> sync_db \<Rightarrow> bool" where
  run_none: "sync_run db [] db"
| run_step: "sync_step db ev db1 \<Longrightarrow> sync_run db1 evs db2 \<Longrightarrow> sync_run db (ev # evs) db2"

inductive_cases sync_run_ConsE: "sync_run db (ev # evs) db'"

lemma push_needs_tenant: "push_callback rt dto db = Inr (resp, db') \<Longrightarrow> \<exists>t. rt_tenant_id rt = Some t"
  by (auto simp: push_callback_def and_then_eq_Inr require_sync_tenant_id_def split: option.splits)

lemma step_cursors:
  assumes "sync_step db ev db'" and inv: "cursors_ok db"
  shows "cursors_ok db' \<and> stored_cursor db t d \<le> stored_cursor db' t d"
  using assms(1)
proof (cases rule: sync_step.cases)
  case (step_register nested rt dto dv)
  note db' = register_device_Inr[OF step_register(2)]
  show ?thesis by (subst db', subst db') (use inv in \<open>simp add: cursors_ok_def stored_cursor_def\<close>)
next
  case (step_push nested rt dto resp)
  then have p: "push_callback rt dto db = Inr (resp, db')" by (simp add: push_request_def with_request_transaction_Inr)
  obtain t' where t': "rt_tenant_id rt = Some t'" using push_needs_tenant[OF p] by blast
  note r = push_callback_Inr[OF p t']
  show ?thesis using r(4) inv r(2) r(3)[of t d] acked_ge by (cases "(t, d) = (t', dv_device_id dto)") auto
next
  case (step_pull nested rt dto resp t')
  note r = pull_callback_after[OF pull_request_Inr[OF step_pull(2)] step_pull(3) inv]
  show ?thesis
    using r(4) r(2) r(3)[of t d] acked_ge by (cases "(t, d) = (t', dv_device_id dto)") (auto simp: effective_cursor_def)
qed (use inv in \<open>simp add: cursors_ok_def stored_cursor_def\<close>)

lemma step_pulled_after:
  assumes "sync_step db (Pulled t d ops) db'" and "cursors_ok db" and "r \<in> set ops"
  shows "stored_cursor db t d < int (so_version r)"
  using assms(1)
proof (cases rule: sync_step.cases)
  case (step_pull nested rt dto resp)
  note a = pull_callback_after(1)[OF pull_request_Inr[OF step_pull(3)] step_pull(4) assms(2)]
  have "stored_cursor db t d \<le> effective_cursor db t dto" using step_pull(1) by (simp add: effective_cursor_def acked_ge)
  moreover have "effective_cursor db t dto < int (so_version r)"
    using a assms(3) step_pull(2) by (auto simp: set_later_ops)
  ultimately show ?thesis by simp
qed

text \<open>C39: Whatever the devices and the server do, in any order, the stored cursor of a device never goes back, and
  no later answer to the device contains an operation at or before it. An operation that commits after a greater
  version has been acknowledged is therefore never delivered to that device.\<close>

theorem acknowledged_never_delivered:
  assumes "sync_run db evs db'" and "cursors_ok db"
  shows "stored_cursor db t d \<le> stored_cursor db' t d \<and>
    (\<forall>ops. Pulled t d ops \<in> set evs \<longrightarrow> (\<forall>r\<in>set ops. stored_cursor db t d < int (so_version r)))"
  using assms
proof (induction rule: sync_run.induct)
  case (run_step db ev db1 evs db2)
  note c = step_cursors[OF run_step(1,4)]
  have "stored_cursor db t d < int (so_version r)" if "Pulled t d ops \<in> set (ev # evs)" "r \<in> set ops" for ops r
  proof (cases "ev = Pulled t d ops")
    case True
    then show ?thesis using step_pulled_after[of db t d ops db1 r] run_step(1,4) that(2) by simp
  next
    case False
    then show ?thesis using run_step.IH c[of t d] that by fastforce
  qed
  then show ?case using run_step.IH c[of t d] by fastforce
qed simp

text \<open>Version 2 commits and is acknowledged, then version 1 commits: the device never receives it.\<close>

lemma sy_pull_step:
  assumes "cursors_ok db" and "cs \<in> {[], [sy_cursor ''2'']}"
  shows "\<exists>ops db'. sync_step db (Pulled ''t1'' ''dev'' ops) db' \<and> cursors_ok db' \<and>
    fd_sync_operations db' = fd_sync_operations db \<and>
    stored_cursor db' ''t1'' ''dev'' = max (if cs = [] then 0 else 2) (stored_cursor db ''t1'' ''dev'')"
proof -
  have v: "pull_dto_valid (sy_pull cs 2)" and o1: "single_entity (sy_pull cs 2)" and f: "cursors_fit (sy_pull cs 2)"
    using assms(2) by (auto; code_simp)+
  have "cursor_value (sy_cursor ''2'') = 2" by code_simp
  then have c: "effective_cursor db ''t1'' (sy_pull cs 2) = max (if cs = [] then 0 else 2) (stored_cursor db ''t1'' ''dev'')"
    using assms(2) stored_fits[OF assms(1), of "''t1''" "''dev''"] by (auto simp: effective_cursor_def sy_pull_def or_default_def)
  obtain resp db' where p: "pull_request False ex_rt (sy_pull cs 2) db = Inr (resp, db')"
    using pull_request_ok[OF v o1 sy_db_ok(2) _ f assms(1)] by blast
  note r = pull_callback_after[OF pull_request_Inr[OF p] sy_db_ok(2) assms(1)]
  have "sync_step db (Pulled ''t1'' ''dev'' (pq_operations resp)) db'"
    using step_pull[OF p sy_db_ok(2)] by (simp add: sy_pull_def)
  moreover have "fd_sync_operations db' = fd_sync_operations db" using arg_cong[OF r(5), of fd_sync_operations] by simp
  moreover have "stored_cursor db' ''t1'' ''dev'' = max (if cs = [] then 0 else 2) (stored_cursor db ''t1'' ''dev'')"
    using r(2) c by (simp add: sy_pull_def)
  ultimately show ?thesis using r(4) by blast
qed

theorem acknowledged_never_delivered_witness:
  "\<exists>ops1 ops2 ops3 db1 db2. sync_run (sy_db [2]) [Pulled ''t1'' ''dev'' ops1, Pulled ''t1'' ''dev'' ops2, Logged (sy_op 1)] db1 \<and>
     sy_op 1 \<in> set (fd_sync_operations db1) \<and> sync_run db1 [Pulled ''t1'' ''dev'' ops3] db2 \<and> sy_op 1 \<notin> set ops3"
proof -
  obtain ops1 dba where a: "sync_step (sy_db [2]) (Pulled ''t1'' ''dev'' ops1) dba" "cursors_ok dba"
    using sy_pull_step[OF sy_db_ok(1), of "[]" "[2]"] by blast
  obtain ops2 dbb where b: "sync_step dba (Pulled ''t1'' ''dev'' ops2) dbb" "cursors_ok dbb"
    "2 \<le> stored_cursor dbb ''t1'' ''dev''" using sy_pull_step[OF a(2), of "[sy_cursor ''2'']"] by auto
  let ?db1 = "dbb\<lparr>fd_sync_operations := fd_sync_operations dbb @ [sy_op 1]\<rparr>"
  have ok: "cursors_ok ?db1" and st: "2 \<le> stored_cursor ?db1 ''t1'' ''dev''"
    using b(2,3) by (simp_all add: cursors_ok_def stored_cursor_def)
  obtain ops3 db2 where c: "sync_step ?db1 (Pulled ''t1'' ''dev'' ops3) db2" using sy_pull_step[OF ok, of "[]"] by blast
  then have run: "sync_run ?db1 [Pulled ''t1'' ''dev'' ops3] db2" by (blast intro: run_step run_none)
  have "sy_op 1 \<notin> set ops3"
    using acknowledged_never_delivered[OF run ok, of "''t1''" "''dev''"] st by (auto simp: sy_op_def)
  moreover have "sync_run (sy_db [2]) [Pulled ''t1'' ''dev'' ops1, Pulled ''t1'' ''dev'' ops2, Logged (sy_op 1)] ?db1"
    using a(1) b(1) step_log[of dbb "sy_op 1"] by (blast intro: run_step run_none)
  ultimately show ?thesis using run by fastforce
qed

section \<open>From a posting to the devices\<close>

lemma posted_operation:
  fixes db :: "'a sync_db_scheme"
  assumes "post_transaction nested prt input db = Inr (posted, db1)" and "rt_tenant_id prt = Some t"
    and "fd_transactions db1 \<noteq> fd_transactions db"
  obtains r where "fd_sync_operations db1 = fd_sync_operations db @ [r]" and "so_tenant_id r = t"
    and "so_entity r = ''finance''" and "so_version r = fresh_uuid (map so_version (fd_sync_operations db))"
    and "so_transaction_id r = pt_transaction_id posted" and "sy_cursors db1 = sy_cursors db"
proof -
  have "post_transaction_callback prt input db = Inr (posted, db1)"
    using assms(1) by (simp add: post_transaction_def with_request_transaction_Inr)
  then show thesis
  proof (cases rule: post_cases)
    case (posted tn lj r rows plan tx es audits syncs)
    have "tn = t" using posted(1) assms(2) by (auto simp: require_tenant_id_def split: if_splits)
    with posted(11) obtain s where "syncs = [s]" "so_tenant_id s = t" "so_entity s = ''finance''"
      "so_version s = fresh_uuid (map so_version (fd_sync_operations db))" "so_transaction_id s = pt_transaction_id posted"
      by blast
    with posted(10) show ?thesis by (intro that[of s]) simp_all
  qed (use assms(3) in simp_all)
qed

lemma later_ops_posted:
  assumes "fd_sync_operations db1 = fd_sync_operations db @ [r]" and "so_tenant_id r = t" and "so_entity r = ''finance''"
    and "so_version r = fresh_uuid (map so_version (fd_sync_operations db))" and "c < int (so_version r)"
  shows "later_ops db1 t c = later_ops db t c @ [r]" and "versions_distinct db t \<Longrightarrow> versions_distinct db1 t"
proof -
  have less: "so_version x < so_version r" if "x \<in> set (fd_sync_operations db)" for x
    using that fold_max_ge[of "so_version x" "map so_version (fd_sync_operations db)" 0]
    by (simp add: assms(4) fresh_uuid_def)
  then show "later_ops db1 t c = later_ops db t c @ [r]"
    unfolding later_ops_def assms(1) using assms(2,3,5) by (simp add: sort_key_snoc less_imp_le)
  show "versions_distinct db1 t" if "versions_distinct db t"
    using that less assms(1,2,3) by (fastforce simp: versions_distinct_def)
qed

text \<open>A posted transaction reaches the devices: a device whose cursor is below the new operation's version and
  that pulls until there is no more receives, after the operations it had not seen, one more, the operation of that
  transaction.\<close>

theorem posted_transaction_reaches_devices:
  assumes "post_transaction nested prt input db = Inr (posted, db1)" and "rt_tenant_id prt = Some t"
    and "fd_transactions db1 \<noteq> fd_transactions db"
    and "pull_dto_valid dto" and "single_entity dto" and "cursors_fit dto" and "rt_tenant_id rt = Some t" and "t \<noteq> []"
    and "cursors_ok db" and "versions_distinct db t"
    and "list_all (\<lambda>r. fits_bigint (int (so_version r))) (fd_sync_operations db1)"
    and "effective_cursor db t dto < int (fresh_uuid (map so_version (fd_sync_operations db)))"
  shows "\<exists>r db2. pull_all rt dto db1 = Some (Inr (later_ops db t (effective_cursor db t dto) @ [r], db2)) \<and>
    so_transaction_id r = pt_transaction_id posted"
proof -
  from posted_operation[OF assms(1-3)] obtain r where r: "fd_sync_operations db1 = fd_sync_operations db @ [r]"
    "so_tenant_id r = t" "so_entity r = ''finance''" "so_version r = fresh_uuid (map so_version (fd_sync_operations db))"
    "so_transaction_id r = pt_transaction_id posted" "sy_cursors db1 = sy_cursors db" by blast
  have c: "effective_cursor db1 t dto = effective_cursor db t dto" and ok: "cursors_ok db1"
    using r(6) assms(9) by (simp_all add: effective_cursor_def stored_cursor_def cursors_ok_def)
  note l = later_ops_posted[OF r(1-4)]
  have "\<exists>db2. pull_all rt dto db1 = Some (Inr (later_ops db1 t (effective_cursor db1 t dto), db2))"
    by (rule pull_all_complete) (use assms ok l(2) r(4) in auto)
  with c l(1)[of "effective_cursor db t dto"] r(4,5) assms(12) show ?thesis by auto
qed

definition sy_locked :: sync_db where
  "sy_locked = (sy_db [])\<lparr>fd_idempotency_keys := [ex_idem_row]\<rparr>"

lemma sy_post: "\<exists>posted db1. post_transaction True ex_rt ex_input (sy_db []) = Inr (posted, db1) \<and>
    fd_transactions db1 = [ex_txn]"
proof -
  have ps: "traverse (render_entry (account_map ex_accounts)) (sort_key le_line_number ex_entries) =
      Inr (pt_entries ex_response)"
    by code_simp
  have texts: "require_tenant_id ex_rt = Inr ''t1''"
    "require_non_empty_text (pi_reference ex_input) ''reference'' = Inr ''REF-1''"
    "require_non_empty_text (pi_description ex_input) ''description'' = Inr ''Fees''"
    "sort (js_uniq (map pe_account_id (pi_entries ex_input))) = [1, 2]"
    "lock_accounts_by_ids sy_locked ''t1'' [1, 2] = ex_accounts"
    "find_by_reference TxOpen sy_locked ''t1'' ''REF-1'' = Inr None"
    "lock_idempotency_key ex_rt ex_input (sy_db []) = Inr (ex_idem_row, sy_locked)"
    "create_row_for ex_rt ''t1'' ''REF-1'' ''Fees'' ex_input ex_plan 1 sy_locked =
       Inr (ex_txn, sy_locked\<lparr>fd_transactions := [ex_txn]\<rparr>)"
    "insert_entries ''t1'' 1 (pp_entries ex_plan) (sy_locked\<lparr>fd_transactions := [ex_txn]\<rparr>) =
       Inr (ex_entries, sy_locked\<lparr>fd_transactions := [ex_txn], fd_ledger_entries := ex_entries\<rparr>)"
    by code_simp+
  have row: "replay_body ex_idem_row = None" "ik_id ex_idem_row = 1" "tx_id ex_txn = 1"
    by (simp_all add: replay_body_def ex_idem_row_def ex_txn_def)
  have "\<exists>r db1. post_new ex_rt ''t1'' ex_input ex_plan 1 [1, 2] ex_accounts ex_txn
      (sy_locked\<lparr>fd_transactions := [ex_txn]\<rparr>) = Inr (r, db1) \<and> fd_transactions db1 = [ex_txn]"
    unfolding post_new_def row texts and_then_Inr prod.case build_posted_transaction_def ps Let_def
    by (simp add: record_server_operation_def record_finance_transaction_posted_def create_audit_log_def idem_mark_completed_def)
  then obtain r db1 where new: "post_new ex_rt ''t1'' ex_input ex_plan 1 [1, 2] ex_accounts ex_txn
      (sy_locked\<lparr>fd_transactions := [ex_txn]\<rparr>) = Inr (r, db1)" and txs: "fd_transactions db1 = [ex_txn]" by blast
  have len: "length ex_accounts = length [1, 2 :: uuid]" by (simp add: ex_accounts_def)
  have "post_locked ex_rt ''t1'' ''REF-1'' ''Fees'' ex_input ex_idem_row sy_locked = Inr (r, db1)"
    unfolding post_locked_def texts Let_def ex_plan_ok and_then_Inr option.case row sum.case prod.case new
    using len by simp
  then show ?thesis
    unfolding post_transaction_def with_request_transaction_def if_True post_transaction_callback_def texts and_then_Inr
      prod.case row using txs by auto
qed

theorem posted_transaction_reaches_devices_witness:
  "\<exists>posted db1 db2 r. post_transaction True ex_rt ex_input (sy_db []) = Inr (posted, db1) \<and>
     pull_all ex_rt (sy_pull [] 2) db1 = Some (Inr ([r], db2)) \<and> so_transaction_id r = pt_transaction_id posted"
proof -
  obtain posted db1 where p: "post_transaction True ex_rt ex_input (sy_db []) = Inr (posted, db1)"
    and "fd_transactions db1 = [ex_txn]" using sy_post by blast
  then have tx: "fd_transactions db1 \<noteq> fd_transactions (sy_db [])" by (simp add: sy_db_def)
  from posted_operation[OF p sy_db_ok(2) tx] obtain r where "fd_sync_operations db1 = [r]" "so_version r = 1"
    by (auto simp: sy_db_def fresh_uuid_def)
  then have fit: "list_all (\<lambda>r. fits_bigint (int (so_version r))) (fd_sync_operations db1)" by (simp add: fits_bigint_def)
  have dist: "versions_distinct (sy_db []) ''t1''" and eff: "effective_cursor (sy_db []) ''t1'' (sy_pull [] 2) <
      int (fresh_uuid (map so_version (fd_sync_operations (sy_db []))))"
    and none: "later_ops (sy_db []) ''t1'' (effective_cursor (sy_db []) ''t1'' (sy_pull [] 2)) = []"
    by code_simp+
  from posted_transaction_reaches_devices[OF p sy_db_ok(2) tx sy_pull_ok(1,2,3) sy_db_ok(2) _ sy_db_ok(1) dist fit eff] none
    p show ?thesis by auto
qed

end
