(* ===== verification/Ledger_Success.thy ===== *)
theory Ledger_Success
  imports Ledger_Claims
begin

text \<open>
  The ledger accepts every request it should: under the invariant, a posting whose key and reference are new
  and whose plan is valid is never refused by a constraint, a missing row or the deferred trigger.
\<close>

section \<open>The idempotency key\<close>

lemma lock_request_succeeds:
  assumes inv: "idem_invar (rows :: 'r idem_row list)" and "valid_lock_input i" and new: "get_locked_record rows (input_key i) = None"
  shows "\<exists>r rows'. lock_request u m rt i rows = Inr (r, rows') \<and> ik_id r = fresh_uuid (map ik_id rows)"
proof -
  let ?new = "new_idem_row rt i (fresh_uuid (map ik_id rows)) :: 'r idem_row"
  have "input_key i \<notin> set (map row_key rows)" using new by (auto simp: get_locked_record_def select_first_None)
  with assms(2) have ins: "insert_if_absent rt i rows = Inr (rows @ [?new])" by (simp add: insert_if_absent_Inr)
  then have inv': "idem_invar (rows @ [?new])" by (rule insert_if_absent_invar[OF inv])
  have found: "get_locked_record (rows @ [?new]) (input_key i) = Some ?new"
    using new by (simp add: get_locked_record_def select_first_append)
  have "select_first (at_id (li_tenant_id i) (ik_id ?new)) (rows @ [?new]) = Some ?new"
    using update_found_row(1)[OF inv' found, of "\<lambda>r. r"] by (simp add: input_key_def)
  moreover have "ik_request_hash ?new = li_request_hash i" by (simp add: new_idem_row_def)
  ultimately show ?thesis
    by (simp add: lock_request_def ins found reset_expired_record_def relock_record_def update_returning_def)
qed

section \<open>The rows\<close>

lemma amount_le_sum:
  assumes "v \<in> set vs" and "\<forall>v\<in>set vs. 0 < parse_int (ve_amount_minor v)"
  shows "parse_int (ve_amount_minor v) \<le> amount_sum (ve_direction v) vs"
  unfolding amount_sum_def
  by (rule member_le_sum_list) (use assms in \<open>auto intro: less_imp_le\<close>)

lemma insert_entries_succeeds:
  assumes "\<forall>v\<in>set vs. fits_integer (int (ve_line_number v)) \<and> fits_bigint (parse_int (ve_amount_minor v)) \<and>
      0 < parse_int (ve_amount_minor v) \<and> currency_format (ve_currency_code v) \<and>
      (ve_direction v = Debit \<or> ve_direction v = Credit) \<and>
      (\<exists>a\<in>set (fd_accounts db). ac_tenant_id a = tenant \<and> ac_id a = ve_account_id v)"
    and "\<exists>t\<in>set (fd_transactions db). tx_tenant_id t = tenant \<and> tx_id t = txn"
    and "distinct (map ve_line_number vs)"
    and "\<forall>e\<in>set (fd_ledger_entries db). le_tenant_id e = tenant \<and> le_transaction_id e = txn \<longrightarrow>
      le_line_number e \<notin> ve_line_number ` set vs"
  shows "\<exists>rs db'. insert_entries tenant txn vs db = Inr (rs, db')"
  using assms
proof (induction vs arbitrary: db)
  case (Cons v vs)
  let ?r = "entry_row tenant txn v (fresh_uuid (map le_id (fd_ledger_entries db)))"
  have ok: "entry_constraints db ?r = Inr ()"
    using Cons.prems by (auto simp: entry_constraints_def and_then_eq_Inr list_ex_iff)
  have "\<exists>rs db'. insert_entries tenant txn vs (db\<lparr>fd_ledger_entries := fd_ledger_entries db @ [?r]\<rparr>) = Inr (rs, db')"
    by (rule Cons.IH) (use Cons.prems in auto)
  then show ?case by (auto simp: Let_def ok)
qed simp

lemma account_map_found: "a \<in> set accounts \<Longrightarrow> \<exists>b. account_map accounts (ac_id a) = Some b"
proof -
  assume "a \<in> set accounts"
  then have "(ac_id a, a) \<in> set (rev (map (\<lambda>a. (ac_id a, a)) accounts))" by simp
  then show ?thesis unfolding account_map_def by (metis weak_map_of_SomeI)
qed

lemma build_posted_succeeds:
  assumes "\<forall>e\<in>set es. le_account_id e \<in> ac_id ` set accounts"
  shows "\<exists>resp. build_posted_transaction rt tenant key t accounts es balances = Inr resp"
proof -
  have "\<exists>y. render_entry (account_map accounts) e = Inr y" if "e \<in> set (sort_key le_line_number es)" for e
    using assms that account_map_found[of _ accounts] by (fastforce simp: render_entry_def)
  then obtain g where "\<And>e. e \<in> set (sort_key le_line_number es) \<Longrightarrow> render_entry (account_map accounts) e = Inr (g e)" by metis
  then have "traverse (render_entry (account_map accounts)) (sort_key le_line_number es) = Inr (map g (sort_key le_line_number es))"
    by (rule traverse_cong_map)
  then show ?thesis unfolding build_posted_transaction_def by simp
qed

section \<open>The posting\<close>

text \<open>A request the ledger has no reason to refuse.\<close>

definition postable :: "runtime \<Rightarrow> post_input \<Rightarrow> 'a finance_db_scheme \<Rightarrow> lock_input \<Rightarrow> posting_plan \<Rightarrow> bool" where
  "postable rt input db li plan \<longleftrightarrow>
     lock_input_of rt input = Inr li \<and> valid_lock_input li \<and>
     js_trim (pi_reference input) \<noteq> [] \<and> js_trim (pi_description input) \<noteq> [] \<and>
     get_locked_record (fd_idempotency_keys db) (input_key li) = None \<and>
     list_all (\<lambda>t. \<not> (tx_tenant_id t = li_tenant_id li \<and> tx_reference t = js_trim (pi_reference input))) (fd_transactions db) \<and>
     build_posting_plan input
       (lock_accounts_by_ids db (li_tenant_id li) (sort (js_uniq (map pe_account_id (pi_entries input))))) = Inr plan \<and>
     (\<exists>ms. resolve_timestamp rt (pi_effective_at input) = Inr ms) \<and>
     (\<exists>ms. resolve_timestamp rt (pi_posted_at input) = Inr ms) \<and>
     fits_bigint (parse_int (pp_total_amount_minor plan)) \<and> fits_integer (int (pp_entry_count plan))"

text \<open>The foreign key from transactions to idempotency keys.\<close>

definition posting_fks :: "'a finance_db_scheme \<Rightarrow> bool" where
  "posting_fks db \<longleftrightarrow> list_all (\<lambda>t. tx_idempotency_key_id t \<in> ik_id ` set (fd_idempotency_keys db)) (fd_transactions db)"

lemma locked_accounts:
  "set (lock_accounts_by_ids db t ids) = {a \<in> set (fd_accounts db). ac_tenant_id a = t \<and> ac_id a \<in> set ids}"
  by (auto simp: lock_accounts_by_ids_def Let_def dest: arg_cong[where f = set])

lemma locked_accounts_distinct:
  "distinct (map ac_id (fd_accounts db)) \<Longrightarrow> distinct (map ac_id (lock_accounts_by_ids db t ids))"
  by (auto simp: lock_accounts_by_ids_def Let_def distinct_map inj_on_def)

text \<open>What a plan over the locked accounts says of the rows to insert.\<close>

lemma plan_rows_ok:
  assumes inv: "ledger_inv db"
    and plan: "build_posting_plan input (lock_accounts_by_ids db t (sort (js_uniq (map pe_account_id (pi_entries input))))) = Inr plan"
    and fits: "fits_bigint (parse_int (pp_total_amount_minor plan))" "fits_integer (int (pp_entry_count plan))"
  defines "accounts \<equiv> lock_accounts_by_ids db t (sort (js_uniq (map pe_account_id (pi_entries input))))"
  shows "length accounts = length (sort (js_uniq (map pe_account_id (pi_entries input))))"
    and "currency_format (pp_currency_code plan)" and "0 < parse_int (pp_total_amount_minor plan)"
    and "v \<in> set (pp_entries plan) \<Longrightarrow> fits_integer (int (ve_line_number v)) \<and> fits_bigint (parse_int (ve_amount_minor v)) \<and>
      0 < parse_int (ve_amount_minor v) \<and> currency_format (ve_currency_code v) \<and>
      (ve_direction v = Debit \<or> ve_direction v = Credit)"
    and "v \<in> set (pp_entries plan) \<Longrightarrow> \<exists>a\<in>set accounts. ac_id a = ve_account_id v"
proof -
  note plan = plan[folded accounts_def] and pl = build_posting_plan_Inr[OF plan[folded accounts_def]]
  have acc: "distinct (map ac_id accounts)" "\<forall>a\<in>set accounts. currency_format (ac_currency_code a)"
    "ac_id ` set accounts \<subseteq> pe_account_id ` set (pi_entries input)"
    using inv by (auto simp: ledger_inv_def accounts_ok_def locked_accounts accounts_def intro: locked_accounts_distinct)
  show "length accounts = length (sort (js_uniq (map pe_account_id (pi_entries input))))"
    by (rule plan_account_ids[OF plan acc(1,3)])
  have "pi_entries input \<noteq> []" using pl(1,2) by (auto simp: plan_ok_def)
  then obtain a where "a \<in> set accounts" "js_upper (ac_currency_code a) = pp_currency_code plan"
    using plan_accounts[OF plan hd_in_set] by blast
  then show cur: "currency_format (pp_currency_code plan)" using acc(2) js_upper_currency[of "ac_currency_code a"] by auto
  have pos: "\<forall>v\<in>set (pp_entries plan). 0 < parse_int (ve_amount_minor v)"
    using pl(1) unfolding plan_ok_def by (blast dest: parse_int_positive)
  have sum: "parse_int (pp_total_amount_minor plan) = amount_sum (ve_direction v) (pp_entries plan)" if "v \<in> set (pp_entries plan)" for v
    using that pl(1) by (auto simp: plan_ok_def)
  have le: "parse_int (ve_amount_minor v) \<le> parse_int (pp_total_amount_minor plan)" if "v \<in> set (pp_entries plan)" for v
    using amount_le_sum[OF that pos] sum[OF that] by simp
  show "0 < parse_int (pp_total_amount_minor plan)"
    using le[of "hd (pp_entries plan)"] pos pl(1) by (cases "pp_entries plan") (auto simp: plan_ok_def)
  assume v: "v \<in> set (pp_entries plan)"
  have "ve_line_number v \<in> set (map Suc [0..<length (pp_entries plan)])"
    using v pl(1) unfolding plan_ok_def by (metis image_eqI set_map)
  then have "fits_integer (int (ve_line_number v))" using fits(2) pl(1) by (auto simp: fits_integer_def plan_ok_def)
  moreover have "fits_bigint (parse_int (ve_amount_minor v))" using le[OF v] pos v fits(1) by (auto simp: fits_bigint_def)
  ultimately show "fits_integer (int (ve_line_number v)) \<and> fits_bigint (parse_int (ve_amount_minor v)) \<and>
      0 < parse_int (ve_amount_minor v) \<and> currency_format (ve_currency_code v) \<and>
      (ve_direction v = Debit \<or> ve_direction v = Credit)"
    using v pos pl(1) cur by (auto simp: plan_ok_def)
  obtain k where "k < length (pi_entries input)" "v = pp_entries plan ! k" using v pl(2) by (auto simp: in_set_conv_nth)
  with pl(3)[of k] have "\<exists>e\<in>set (pi_entries input). ve_account_id v = pe_account_id e"
    by (auto simp: validate_entry_Inr intro!: bexI[of _ "pi_entries input ! k"])
  then show "\<exists>a\<in>set accounts. ac_id a = ve_account_id v" using plan_accounts[OF plan] by metis
qed

lemma new_key_lock:
  assumes inv: "idem_invar rows0" and "valid_lock_input li" and new: "get_locked_record rows0 (input_key li) = None"
  obtains r rows where "finance_lock_request rt li rows0 = Inr (r, rows)" and "ik_id r = fresh_uuid (map ik_id rows0)"
    and "r \<in> set rows" and "ik_tenant_id r = li_tenant_id li" and "replay_body r = None"
proof -
  obtain r rows where lock: "finance_lock_request rt li rows0 = Inr (r, rows)" and rid: "ik_id r = fresh_uuid (map ik_id rows0)"
    using lock_request_succeeds[OF assms] unfolding finance_lock_request_def by metis
  moreover have "r \<in> set rows" "ik_tenant_id r = li_tenant_id li"
    using get_locked_recordD[OF finance_lock_Inr(3)[OF inv lock]] by (auto simp: row_key_def input_key_def)
  moreover have "replay_body r = None" using lock_request_first_use(2)[OF inv lock[unfolded finance_lock_request_def] new] .
  ultimately show ?thesis by (rule that)
qed

text \<open>The rows of a fresh posting go in.\<close>

lemma fresh_rows_go_in:
  assumes inv: "ledger_inv db" and fks: "posting_fks db"
    and plan: "build_posting_plan input (lock_accounts_by_ids db t (sort (js_uniq (map pe_account_id (pi_entries input))))) = Inr plan"
    and fits: "fits_bigint (parse_int (pp_total_amount_minor plan))" "fits_integer (int (pp_entry_count plan))"
    and fresh: "\<forall>x\<in>set (fd_transactions db). \<not> (tx_tenant_id x = t \<and> tx_reference x = reference)"
    and r: "ik_id r = fresh_uuid (map ik_id (fd_idempotency_keys db))" "r \<in> set rows" "ik_tenant_id r = t"
    and ts: "resolve_timestamp rt (pi_effective_at input) = Inr eff" "resolve_timestamp rt (pi_posted_at input) = Inr posted"
  shows "\<exists>x db1 rs db2. create_row_for rt t reference description input plan (ik_id r) (db\<lparr>fd_idempotency_keys := rows\<rparr>) = Inr (x, db1) \<and>
    insert_entries t (tx_id x) (pp_entries plan) db1 = Inr (rs, db2)"
proof -
  note rows_ok = plan_rows_ok[OF inv plan fits]
  have pl: "plan_ok plan" by (rule build_posting_plan_Inr(1)[OF plan])
  have "tx_idempotency_key_id y \<noteq> ik_id r" if "y \<in> set (fd_transactions db)" for y
    using fks that fresh_uuid_notin[of "map ik_id (fd_idempotency_keys db)"] unfolding posting_fks_def list_all_iff r(1) set_map by metis
  then have "\<exists>x db1. create_row_for rt t reference description input plan (ik_id r) (db\<lparr>fd_idempotency_keys := rows\<rparr>) = Inr (x, db1)"
    using fits rows_ok(2,3) pl fresh r(2,3)
    by (auto simp: create_row_for_def ts create_transaction_row_Inr transaction_constraints_Inr transaction_row_def plan_ok_def)
  then obtain x db1 where cr: "create_row_for rt t reference description input plan (ik_id r) (db\<lparr>fd_idempotency_keys := rows\<rparr>) = Inr (x, db1)"
    by blast
  note row = create_row_for_Inr[OF cr, simplified]
  have "tx_id x \<notin> set (map tx_id (fd_transactions db))" unfolding row(1) by (rule fresh_uuid_notin)
  then have none: "txn_entries db x = []" by (rule entries_of_fresh_transaction[OF inv])
  have "\<exists>rs db2. insert_entries t (tx_id x) (pp_entries plan) db1 = Inr (rs, db2)"
  proof (rule insert_entries_succeeds)
    show "distinct (map ve_line_number (pp_entries plan))" using pl by (auto simp: plan_ok_def distinct_map)
    show "\<forall>e\<in>set (fd_ledger_entries db1). le_tenant_id e = t \<and> le_transaction_id e = tx_id x \<longrightarrow>
        le_line_number e \<notin> ve_line_number ` set (pp_entries plan)"
      using none row by (auto simp: txn_entries_def filter_empty_conv)
    have "\<exists>a\<in>set (fd_accounts db1). ac_tenant_id a = t \<and> ac_id a = ve_account_id v" if "v \<in> set (pp_entries plan)" for v
      using rows_ok(5)[OF that] row by (auto simp: locked_accounts)
    then show "\<forall>v\<in>set (pp_entries plan). fits_integer (int (ve_line_number v)) \<and> fits_bigint (parse_int (ve_amount_minor v)) \<and>
      0 < parse_int (ve_amount_minor v) \<and> currency_format (ve_currency_code v) \<and>
      (ve_direction v = Debit \<or> ve_direction v = Credit) \<and>
      (\<exists>a\<in>set (fd_accounts db1). ac_tenant_id a = t \<and> ac_id a = ve_account_id v)"
      using rows_ok(4) by blast
  qed (use row in auto)
  with cr show ?thesis by blast
qed

lemma post_succeeds:
  assumes inv: "ledger_inv db" and fks: "posting_fks db" and p: "postable rt input db li plan"
  shows "\<exists>resp db'. post_transaction nested rt input db = Inr (resp, db')"
proof -
  define t where "t = li_tenant_id li"
  let ?ids = "sort (js_uniq (map pe_account_id (pi_entries input)))"
  let ?accounts = "lock_accounts_by_ids db t ?ids"
  let ?ref = "js_trim (pi_reference input)" and ?desc = "js_trim (pi_description input)"
  note req = p[unfolded postable_def, folded t_def]
  have li: "lock_input_of rt input = Inr li" "valid_lock_input li" and plan: "build_posting_plan input ?accounts = Inr plan"
    and ref: "?ref \<noteq> []" "?desc \<noteq> []" and new: "get_locked_record (fd_idempotency_keys db) (input_key li) = None"
    and fits: "fits_bigint (parse_int (pp_total_amount_minor plan))" "fits_integer (int (pp_entry_count plan))"
    using req by blast+
  obtain eff posted where ts: "resolve_timestamp rt (pi_effective_at input) = Inr eff" "resolve_timestamp rt (pi_posted_at input) = Inr posted"
    using req by blast
  have fresh: "\<forall>x\<in>set (fd_transactions db). \<not> (tx_tenant_id x = t \<and> tx_reference x = ?ref)"
    using req by (auto simp: list_all_iff)
  obtain r rows where lock: "finance_lock_request rt li (fd_idempotency_keys db) = Inr (r, rows)"
    and r: "ik_id r = fresh_uuid (map ik_id (fd_idempotency_keys db))" "r \<in> set rows" "ik_tenant_id r = t" and none: "replay_body r = None"
    using new_key_lock[OF _ li(2) new, of rt] inv unfolding ledger_inv_def t_def by blast
  let ?db = "db\<lparr>fd_idempotency_keys := rows\<rparr>"
  obtain x db1 rs db2 where cr: "create_row_for rt t ?ref ?desc input plan (ik_id r) ?db = Inr (x, db1)"
    and ins: "insert_entries t (tx_id x) (pp_entries plan) db1 = Inr (rs, db2)"
    using fresh_rows_go_in[OF inv fks plan fits fresh r ts] by blast
  have "\<forall>e\<in>set rs. le_account_id e \<in> ac_id ` set ?accounts"
  proof
    fix e assume "e \<in> set rs"
    then obtain v where "v \<in> set (pp_entries plan)" "le_account_id e = ve_account_id v"
      using inserted_rows(1)[OF insert_entries_Inr(2)[OF ins]] by (auto simp: list_all2_conv_all_nth in_set_conv_nth) (metis nth_mem)
    with plan_rows_ok(5)[OF inv plan fits, of v] show "le_account_id e \<in> ac_id ` set ?accounts" by (metis image_eqI)
  qed
  then obtain resp where "build_posted_transaction rt t (pi_idempotency_key input) x ?accounts rs (calculate_balances db2 t ?ids) = Inr resp"
    using build_posted_succeeds by blast
  then have new_ok: "\<exists>db'. post_new rt t input plan (ik_id r) ?ids ?accounts x db1 = Inr (resp, db')"
    by (simp add: post_new_def ins Let_def)
  have same: "lock_accounts_by_ids ?db t ?ids = ?accounts" by (simp add: lock_accounts_by_ids_def Let_def)
  have unused: "find_by_reference TxOpen ?db t ?ref = Inr None"
    using fresh by (simp add: find_by_reference_def select_first_None)
  have "post_locked rt t ?ref ?desc input r ?db =
      post_new rt t input plan (ik_id r) ?ids ?accounts x db1"
    by (simp add: post_locked_def Let_def same plan plan_rows_ok(1)[OF inv plan fits] unused cr)
  moreover have "post_transaction_callback rt input db =
      post_locked rt t ?ref ?desc input r ?db"
    using ref lock_input_ofD(1)[OF li(1), folded t_def]
    by (simp add: post_transaction_callback_def require_non_empty_text_def lock_idempotency_key_def li(1) lock none)
  ultimately show ?thesis using new_ok by (auto simp: post_transaction_Inr[OF inv])
qed

section \<open>Accepted\<close>

lemma lock_keeps_ids:
  assumes "lock_request u m rt li rows0 = Inr (r, rows)"
  shows "ik_id ` set rows0 \<subseteq> ik_id ` set rows"
proof -
  have "map ik_id (update_where q f xs) = map ik_id xs" if "\<And>r. ik_id (f r) = ik_id r" for q f and xs :: "'a idem_row list"
    using that by (rule update_where_map_key)
  then have "ik_id ` set (update_where q f xs) = ik_id ` set xs" if "\<And>r. ik_id (f r) = ik_id r" for q f and xs :: "'a idem_row list"
    using that by (metis set_map)
  with assms show ?thesis
    by (auto simp: lock_request_def and_then_eq_Inr insert_if_absent_Inr reset_expired_record_def relock_record_def
        update_returning_def split: option.splits if_splits)
qed

lemma mark_completed_ids [simp]: "ik_id ` set (mark_completed rt t i c b rows) = ik_id ` set rows"
  unfolding mark_completed_def by (metis (no_types, lifting) idem_fields_keep(5) set_map update_where_map_key)

lemma posting_keeps_fks:
  assumes "post_transaction_callback rt input db = Inr (resp, db')" and "posting_fks db"
  shows "posting_fks db'"
  using assms(1)
proof (cases rule: post_cases)
  case (replay li r rows)
  then show ?thesis using assms(2) lock_keeps_ids[OF replay(2)[unfolded finance_lock_request_def]]
    by (auto simp: posting_fks_def list_all_iff)
next
  case (reuse t li r rows)
  then show ?thesis using assms(2) lock_keeps_ids[OF reuse(3)[unfolded finance_lock_request_def]]
    by (auto simp: posting_fks_def list_all_iff)
next
  case (posted t li r rows plan x)
  have "tx_idempotency_key_id x \<in> ik_id ` set rows"
    using create_row_for_Inr(9)[OF posted(7)] by (auto simp: transaction_constraints_Inr intro: rev_image_eqI)
  then show ?thesis using assms(2) lock_keeps_ids[OF posted(3)[unfolded finance_lock_request_def]] posted(10)
    by (auto simp: posting_fks_def list_all_iff)
qed

text \<open>C6: A request whose texts, accounts, amounts and timestamps are valid and whose key and reference are new is
  always posted: under the tables' invariant no constraint, no missing row and not the deferred trigger refuses
  it, and the tables stay such that the same holds of the next request.\<close>

theorem valid_postings_are_accepted:
  assumes "ledger_inv db" and "posting_fks db" and "postable rt input db li plan"
  shows "\<exists>resp db'. post_transaction nested rt input db = Inr (resp, db') \<and> ledger_inv db' \<and> posting_fks db' \<and>
    stored_response (fd_idempotency_keys db') (input_key li) = Some (li_request_hash li, expiry_after rt li, resp)"
proof -
  obtain resp db' where post: "post_transaction nested rt input db = Inr (resp, db')" using post_succeeds[OF assms] by blast
  then have cb: "post_transaction_callback rt input db = Inr (resp, db')" by (simp add: post_transaction_Inr[OF assms(1)])
  have "lock_input_of rt input = Inr li" "get_locked_record (fd_idempotency_keys db) (input_key li) = None"
    using assms(3) by (simp_all add: postable_def)
  then show ?thesis using post post_callback_inv[OF assms(1) cb] posting_keeps_fks[OF cb assms(2)]
      post_first_use_stored(1)[OF assms(1) cb] by blast
qed

theorem valid_postings_are_accepted_witness:
  "\<exists>resp db'. post_transaction False ex_rt ex_input ex_db = Inr (resp, db') \<and> posting_fks db'"
proof -
  have parts: "valid_lock_input ex_lock_input" "js_trim (pi_reference ex_input) \<noteq> []" "js_trim (pi_description ex_input) \<noteq> []"
    "sort (js_uniq (map pe_account_id (pi_entries ex_input))) = [1, 2]" "lock_accounts_by_ids ex_db ''t1'' [1, 2] = ex_accounts"
    "pp_entry_count ex_plan = 2" "pp_total_amount_minor ex_plan = ''1500''" "li_tenant_id ex_lock_input = ''t1''"
    "resolve_timestamp ex_rt (pi_effective_at ex_input) = Inr 2000" "resolve_timestamp ex_rt (pi_posted_at ex_input) = Inr 2000"
    by code_simp+
  have empty: "fd_idempotency_keys ex_db = []" "fd_transactions ex_db = []" by (simp_all add: ex_db_def)
  have "postable ex_rt ex_input ex_db ex_lock_input ex_plan"
    unfolding postable_def parts empty
    by (simp add: ex_lock_input ex_plan_ok ex_numerals parts get_locked_record_def fits_bigint_def fits_integer_def)
  moreover have "posting_fks ex_db" by (simp add: posting_fks_def empty)
  ultimately show ?thesis using valid_postings_are_accepted[OF ex_db_inv, of ex_rt ex_input ex_lock_input ex_plan False] by blast
qed

end
