(* ===== verification/Manual_Payments.thy ===== *)
theory Manual_Payments
  imports Fee_Allocation Ledger
begin

text \<open>
  Fees received over the counter (\<open>modules/billing/manual-fee-payment.service.ts\<close>): cash, cheques and
  transfers, from the receipt over its clearing, which posts to the ledger and spreads the amount over the
  student's invoices, to a cheque's bounce or the reversal of a cleared payment.
\<close>

datatype fee_payment_method = PayCash | PayCheque | PayBankDeposit | PayEft | PayMpesaC2b

datatype fee_payment_status = FpReceived | FpDeposited | FpCleared | FpBounced | FpReversed

datatype fee_allocation_type = AllocInvoice | AllocCredit

fun method_text :: "fee_payment_method \<Rightarrow> string" where
  "method_text PayCash = ''cash''"
| "method_text PayCheque = ''cheque''"
| "method_text PayBankDeposit = ''bank_deposit''"
| "method_text PayEft = ''eft''"
| "method_text PayMpesaC2b = ''mpesa_c2b''"

text \<open>\<open>payment_method.replace('_', ' ')\<close>\<close>

fun method_words :: "fee_payment_method \<Rightarrow> string" where
  "method_words PayBankDeposit = ''bank deposit''"
| "method_words PayMpesaC2b = ''mpesa c2b''"
| "method_words m = method_text m"

fun fee_status_text :: "fee_payment_status \<Rightarrow> string" where
  "fee_status_text FpReceived = ''received''"
| "fee_status_text FpDeposited = ''deposited''"
| "fee_status_text FpCleared = ''cleared''"
| "fee_status_text FpBounced = ''bounced''"
| "fee_status_text FpReversed = ''reversed''"

definition DEFAULT_CURRENCY_CODE :: string where
  "DEFAULT_CURRENCY_CODE = ''KES''"

definition DEFAULT_FEE_CONTROL_ACCOUNT_CODE :: string where
  "DEFAULT_FEE_CONTROL_ACCOUNT_CODE = ''1100-AR-FEES''"

fun default_asset_account :: "fee_payment_method \<Rightarrow> string" where
  "default_asset_account PayCash = ''1010-CASH-ON-HAND''"
| "default_asset_account PayMpesaC2b = ''1110-MPESA-CLEARING''"
| "default_asset_account m = ''1120-BANK-CLEARING''"

section \<open>Tables\<close>

record manual_payment =
  mf_id :: uuid
  mf_tenant_id :: string
  mf_idempotency_key :: string
  mf_receipt_number :: string
  mf_payment_method :: fee_payment_method
  mf_status :: fee_payment_status
  mf_student_id :: "uuid option"
  mf_invoice_id :: "uuid option"
  mf_amount_minor :: int
  mf_currency_code :: string
  mf_payer_name :: "string option"
  mf_received_at :: int
  mf_deposited_at :: "int option"
  mf_cleared_at :: "int option"
  mf_bounced_at :: "int option"
  mf_reversed_at :: "int option"
  mf_cheque_number :: "string option"
  mf_drawer_bank :: "string option"
  mf_deposit_reference :: "string option"
  mf_external_reference :: "string option"
  mf_asset_account_code :: string
  mf_fee_control_account_code :: string
  mf_ledger_transaction_id :: "uuid option"
  mf_reversal_ledger_transaction_id :: "uuid option"
  mf_notes :: "string option"
  mf_metadata :: "(string \<times> json) list"
  mf_created_by_user_id :: "uuid option"
  mf_created_at :: int
  mf_updated_at :: int

record manual_allocation =
  ma_id :: uuid
  ma_tenant_id :: string
  ma_manual_payment_id :: uuid
  ma_invoice_id :: "uuid option"
  ma_student_id :: "uuid option"
  ma_allocation_type :: fee_allocation_type
  ma_amount_minor :: int
  ma_metadata :: "(string \<times> json) list"
  ma_created_at :: int

record manual_db = billing_db +
  mf_payments :: "manual_payment list"
  mf_allocations :: "manual_allocation list"

text \<open>
  The unique indexes of the allocations. PostgreSQL infers the arbiter of \<open>ON CONFLICT (columns)\<close>: an index
  over exactly these columns, and a partial one only when the clause repeats its predicate; without an arbiter
  the statement is refused (42P10).
\<close>

record unique_index =
  ui_columns :: "string list"
  ui_predicate :: "string option"

definition manual_allocation_indexes :: "unique_index list" where
  "manual_allocation_indexes =
     [\<lparr>ui_columns = [''id''], ui_predicate = None\<rparr>,
      \<lparr>ui_columns = [''tenant_id'', ''id''], ui_predicate = None\<rparr>,
      \<lparr>ui_columns = [''tenant_id'', ''manual_payment_id'', ''invoice_id'', ''allocation_type''],
       ui_predicate = Some ''invoice_id IS NOT NULL''\<rparr>]"

definition infers_arbiter :: "unique_index list \<Rightarrow> string list \<Rightarrow> bool" where
  "infers_arbiter indexes columns \<longleftrightarrow>
     list_ex (\<lambda>i. set (ui_columns i) = set columns \<and> ui_predicate i = None) indexes"

text \<open>
  What the services get from outside: the schema's indexes, the rows other transactions hold
  (\<open>FOR UPDATE SKIP LOCKED\<close>) and \<open>randomUUID()\<close>.
\<close>

record manual_env =
  me_indexes :: "unique_index list"
  me_locked :: "uuid \<Rightarrow> bool"
  me_random_uuid :: string

section \<open>\<open>ManualFeePaymentsRepository\<close>\<close>

record manual_payment_input =
  mi_tenant_id :: string
  mi_idempotency_key :: string
  mi_receipt_number :: string
  mi_payment_method :: fee_payment_method
  mi_status :: fee_payment_status
  mi_student_id :: "string option"
  mi_invoice_id :: "string option"
  mi_amount_minor :: string
  mi_currency_code :: string
  mi_payer_name :: "string option"
  mi_received_at :: int
  mi_cheque_number :: "string option"
  mi_drawer_bank :: "string option"
  mi_deposit_reference :: "string option"
  mi_external_reference :: "string option"
  mi_asset_account_code :: string
  mi_fee_control_account_code :: string
  mi_notes :: "string option"
  mi_metadata :: "(string \<times> json) list"
  mi_created_by_user_id :: "string option"

text \<open>The cast \<open>$n::uuid\<close> of a nullable parameter.\<close>

definition pg_uuid_opt :: "string option \<Rightarrow> uuid option result" where
  "pg_uuid_opt v = (case v of None \<Rightarrow> Inr None | Some s \<Rightarrow> and_then (pg_uuid s) (\<lambda>i. Inr (Some i)))"

definition filled :: "string option \<Rightarrow> bool" where
  "filled v = (case v of None \<Rightarrow> False | Some s \<Rightarrow> not_blank s)"

definition manual_payment_checks :: "manual_payment \<Rightarrow> unit result" where
  "manual_payment_checks p =
     and_then (guard (mf_tenant_id p \<noteq> ''global'') (PgError ''23514'' ''ck_manual_fee_payments_tenant_id_non_global'')) (\<lambda>_.
     and_then (guard (not_blank (mf_idempotency_key p))
       (PgError ''23514'' ''ck_manual_fee_payments_idempotency_key_not_blank'')) (\<lambda>_.
     and_then (guard (not_blank (mf_receipt_number p))
       (PgError ''23514'' ''ck_manual_fee_payments_receipt_number_not_blank'')) (\<lambda>_.
     and_then (guard (0 < mf_amount_minor p) (PgError ''23514'' ''ck_manual_fee_payments_amount'')) (\<lambda>_.
     and_then (guard (currency_format (mf_currency_code p)) (PgError ''23514'' ''ck_manual_fee_payments_currency'')) (\<lambda>_.
     and_then (guard (mf_student_id p \<noteq> None \<or> mf_invoice_id p \<noteq> None)
       (PgError ''23514'' ''ck_manual_fee_payments_target'')) (\<lambda>_.
     guard (mf_payment_method p \<noteq> PayCheque \<or> filled (mf_cheque_number p) \<and> filled (mf_drawer_bank p))
       (PgError ''23514'' ''ck_manual_fee_payments_cheque_fields'')))))))"

definition manual_payment_row ::
  "runtime \<Rightarrow> manual_payment_input \<Rightarrow> uuid option \<Rightarrow> uuid option \<Rightarrow> int \<Rightarrow> uuid option \<Rightarrow> uuid \<Rightarrow> manual_payment" where
  "manual_payment_row rt i student invoice_id amount creator new_id =
     \<lparr>mf_id = new_id, mf_tenant_id = mi_tenant_id i, mf_idempotency_key = mi_idempotency_key i,
      mf_receipt_number = mi_receipt_number i, mf_payment_method = mi_payment_method i, mf_status = mi_status i,
      mf_student_id = student, mf_invoice_id = invoice_id, mf_amount_minor = amount,
      mf_currency_code = mi_currency_code i, mf_payer_name = mi_payer_name i, mf_received_at = mi_received_at i,
      mf_deposited_at = None, mf_cleared_at = None, mf_bounced_at = None, mf_reversed_at = None,
      mf_cheque_number = mi_cheque_number i, mf_drawer_bank = mi_drawer_bank i,
      mf_deposit_reference = mi_deposit_reference i, mf_external_reference = mi_external_reference i,
      mf_asset_account_code = mi_asset_account_code i, mf_fee_control_account_code = mi_fee_control_account_code i,
      mf_ledger_transaction_id = None, mf_reversal_ledger_transaction_id = None, mf_notes = mi_notes i,
      mf_metadata = mi_metadata i, mf_created_by_user_id = creator, mf_created_at = rt_now rt, mf_updated_at = rt_now rt\<rparr>"

definition payment_key_at :: "string \<Rightarrow> string \<Rightarrow> manual_payment \<Rightarrow> bool" where
  "payment_key_at tenant key p \<longleftrightarrow> mf_tenant_id p = tenant \<and> mf_idempotency_key p = key"

text \<open>
  \<open>create\<close>: the row of the key when there is one (its \<open>updated_at\<close> is set by the table's trigger), else the
  new row.
\<close>

definition create_manual_payment_row ::
  "runtime \<Rightarrow> manual_payment_input \<Rightarrow> 'a manual_db_scheme \<Rightarrow> (manual_payment \<times> 'a manual_db_scheme) result" where
  "create_manual_payment_row rt i db =
     and_then (pg_uuid_opt (mi_student_id i)) (\<lambda>student.
     and_then (pg_uuid_opt (mi_invoice_id i)) (\<lambda>invoice_id.
     and_then (pg_bigint (mi_amount_minor i)) (\<lambda>amount.
     and_then (pg_uuid_opt (mi_created_by_user_id i)) (\<lambda>creator.
     let p = manual_payment_row rt i student invoice_id amount creator (fresh_uuid (map mf_id (mf_payments db)));
         at = payment_key_at (mi_tenant_id i) (mi_idempotency_key i)
     in and_then (manual_payment_checks p) (\<lambda>_.
        case select_first at (mf_payments db) of
          Some old \<Rightarrow> Inr (old\<lparr>mf_updated_at := rt_now rt\<rparr>,
            db\<lparr>mf_payments := update_where at (\<lambda>q. q\<lparr>mf_updated_at := rt_now rt\<rparr>) (mf_payments db)\<rparr>)
        | None \<Rightarrow>
            and_then (guard (\<not> list_ex (\<lambda>q. mf_tenant_id q = mf_tenant_id p \<and> mf_receipt_number q = mf_receipt_number p)
                (mf_payments db)) (PgError ''23505'' ''uq_manual_fee_payments_receipt_number'')) (\<lambda>_.
            and_then (guard (case invoice_id of None \<Rightarrow> True
                | Some v \<Rightarrow> list_ex (invoice_at (mi_tenant_id i) v) (bl_invoices db))
                (PgError ''23503'' ''fk_manual_fee_payments_invoice'')) (\<lambda>_.
            Inr (p, db\<lparr>mf_payments := mf_payments db @ [p]\<rparr>))))))))"

definition payment_id_at :: "string \<Rightarrow> uuid \<Rightarrow> manual_payment \<Rightarrow> bool" where
  "payment_id_at tenant i p \<longleftrightarrow> mf_tenant_id p = tenant \<and> mf_id p = i"

definition list_manual_payment_rows ::
  "'a manual_db_scheme \<Rightarrow> string \<Rightarrow> fee_payment_status option \<Rightarrow> manual_payment list" where
  "list_manual_payment_rows db tenant st =
     sort_key (\<lambda>p. (- mf_received_at p, - mf_created_at p))
       (filter (\<lambda>p. mf_tenant_id p = tenant \<and> (case st of None \<Rightarrow> True | Some x \<Rightarrow> mf_status p = x)) (mf_payments db))"

text \<open>\<open>findById\<close> and \<open>lockById\<close>.\<close>

definition find_manual_payment :: "'a manual_db_scheme \<Rightarrow> string \<Rightarrow> string \<Rightarrow> manual_payment option result" where
  "find_manual_payment db tenant payment_id =
     and_then (pg_uuid payment_id) (\<lambda>i. Inr (select_first (payment_id_at tenant i) (mf_payments db)))"

text \<open>\<open>UPDATE ... WHERE tenant_id, id RETURNING\<close>; \<open>mapPayment\<close> of no row throws.\<close>

definition update_manual_payment ::
  "string \<Rightarrow> uuid \<Rightarrow> (manual_payment \<Rightarrow> manual_payment) \<Rightarrow> 'a manual_db_scheme \<Rightarrow>
     (manual_payment \<times> 'a manual_db_scheme) result" where
  "update_manual_payment tenant i f db =
     (let ps = update_where (payment_id_at tenant i) f (mf_payments db)
      in case select_first (payment_id_at tenant i) ps of
           None \<Rightarrow> Inl (InternalServerErrorException ''Cannot read properties of undefined'')
         | Some p \<Rightarrow> Inr (p, db\<lparr>mf_payments := ps\<rparr>))"

definition status_fields ::
  "runtime \<Rightarrow> string option \<Rightarrow> string option \<Rightarrow> (string \<times> json) list \<Rightarrow> manual_payment \<Rightarrow> manual_payment" where
  "status_fields rt deposit_reference notes meta p =
     p\<lparr>mf_deposit_reference := or_else deposit_reference (mf_deposit_reference p), mf_notes := or_else notes (mf_notes p),
       mf_metadata := json_merge (mf_metadata p) meta, mf_updated_at := rt_now rt\<rparr>"

definition mark_deposited ::
  "runtime \<Rightarrow> string \<Rightarrow> uuid \<Rightarrow> int \<Rightarrow> string option \<Rightarrow> string option \<Rightarrow> (string \<times> json) list \<Rightarrow>
     'a manual_db_scheme \<Rightarrow> (manual_payment \<times> 'a manual_db_scheme) result" where
  "mark_deposited rt tenant i deposited_at deposit_reference notes meta =
     update_manual_payment tenant i (\<lambda>p. (status_fields rt deposit_reference notes meta p)
       \<lparr>mf_status := FpDeposited, mf_deposited_at := Some deposited_at\<rparr>)"

definition mark_bounced ::
  "runtime \<Rightarrow> string \<Rightarrow> uuid \<Rightarrow> int \<Rightarrow> string option \<Rightarrow> (string \<times> json) list \<Rightarrow>
     'a manual_db_scheme \<Rightarrow> (manual_payment \<times> 'a manual_db_scheme) result" where
  "mark_bounced rt tenant i bounced_at notes meta =
     update_manual_payment tenant i (\<lambda>p. (status_fields rt None notes meta p)
       \<lparr>mf_status := FpBounced, mf_bounced_at := Some bounced_at\<rparr>)"

definition mark_cleared ::
  "runtime \<Rightarrow> string \<Rightarrow> uuid \<Rightarrow> uuid \<Rightarrow> int \<Rightarrow> string option \<Rightarrow> string option \<Rightarrow> (string \<times> json) list \<Rightarrow>
     'a manual_db_scheme \<Rightarrow> (manual_payment \<times> 'a manual_db_scheme) result" where
  "mark_cleared rt tenant i ledger cleared_at deposit_reference notes meta =
     update_manual_payment tenant i (\<lambda>p. (status_fields rt deposit_reference notes meta p)
       \<lparr>mf_status := FpCleared, mf_cleared_at := Some cleared_at, mf_ledger_transaction_id := Some ledger\<rparr>)"

definition mark_reversed ::
  "runtime \<Rightarrow> string \<Rightarrow> uuid \<Rightarrow> uuid \<Rightarrow> int \<Rightarrow> string option \<Rightarrow> (string \<times> json) list \<Rightarrow>
     'a manual_db_scheme \<Rightarrow> (manual_payment \<times> 'a manual_db_scheme) result" where
  "mark_reversed rt tenant i ledger reversed_at notes meta =
     update_manual_payment tenant i (\<lambda>p. (status_fields rt None notes meta p)
       \<lparr>mf_status := FpReversed, mf_reversed_at := Some reversed_at, mf_reversal_ledger_transaction_id := Some ledger\<rparr>)"

definition same_allocation :: "manual_allocation \<Rightarrow> manual_allocation \<Rightarrow> bool" where
  "same_allocation a b \<longleftrightarrow> ma_tenant_id a = ma_tenant_id b \<and> ma_manual_payment_id a = ma_manual_payment_id b \<and>
     ma_invoice_id a = ma_invoice_id b \<and> ma_invoice_id a \<noteq> None \<and> ma_allocation_type a = ma_allocation_type b"

definition create_manual_allocation ::
  "manual_env \<Rightarrow> (uuid \<Rightarrow> manual_allocation) \<Rightarrow> 'a manual_db_scheme \<Rightarrow> 'a manual_db_scheme result" where
  "create_manual_allocation env mk db =
     and_then (guard (infers_arbiter (me_indexes env) [''tenant_id'', ''manual_payment_id'', ''invoice_id'', ''allocation_type''])
       (PgError ''42P10'' '''')) (\<lambda>_.
     let a = mk (fresh_uuid (map ma_id (mf_allocations db)))
     in and_then (guard (fits_bigint (ma_amount_minor a)) (PgError ''22003'' '''')) (\<lambda>_.
        and_then (guard (ma_tenant_id a \<noteq> ''global'')
          (PgError ''23514'' ''ck_manual_fee_payment_allocations_tenant_id_non_global'')) (\<lambda>_.
        and_then (guard (0 < ma_amount_minor a) (PgError ''23514'' ''ck_manual_fee_payment_allocations_amount'')) (\<lambda>_.
        and_then (guard (ma_allocation_type a \<noteq> AllocInvoice \<or> ma_invoice_id a \<noteq> None)
          (PgError ''23514'' ''ck_manual_fee_payment_allocations_invoice_target'')) (\<lambda>_.
        Inr (if list_ex (same_allocation a) (mf_allocations db)
             then db else db\<lparr>mf_allocations := mf_allocations db @ [a]\<rparr>))))))"

definition list_manual_allocations :: "'a manual_db_scheme \<Rightarrow> string \<Rightarrow> uuid \<Rightarrow> manual_allocation list" where
  "list_manual_allocations db tenant payment =
     sort_key (\<lambda>a. (ma_created_at a, int (ma_id a)))
       (filter (\<lambda>a. ma_tenant_id a = tenant \<and> ma_manual_payment_id a = payment) (mf_allocations db))"

section \<open>\<open>InvoicesRepository\<close>, the manual payments' part\<close>

definition lock_manual_fee_invoice :: "'a billing_db_scheme \<Rightarrow> string \<Rightarrow> uuid \<Rightarrow> invoice option" where
  "lock_manual_fee_invoice db tenant i =
     select_first (\<lambda>v. invoice_at tenant i v \<and> (iv_status v = InvOpen \<or> iv_status v = InvPendingPayment) \<and>
       iv_amount_paid_minor v < iv_total_amount_minor v) (bl_invoices db)"

definition manual_payment_fields :: "runtime \<Rightarrow> int \<Rightarrow> int \<Rightarrow> invoice_status \<Rightarrow> invoice \<Rightarrow> invoice" where
  "manual_payment_fields rt amount next_paid st v =
     v\<lparr>iv_amount_paid_minor := next_paid, iv_status := st,
       iv_paid_at := (if st = InvPaid then Some (rt_now rt) else iv_paid_at v),
       iv_metadata := json_merge (iv_metadata v) [(''last_manual_payment_amount_minor'', JStr (show_int amount))],
       iv_updated_at := rt_now rt\<rparr>"

definition apply_manual_fee_invoice_payment ::
  "runtime \<Rightarrow> string \<Rightarrow> uuid \<Rightarrow> int \<Rightarrow> int \<Rightarrow> invoice_status \<Rightarrow> 'a billing_db_scheme \<Rightarrow> 'a billing_db_scheme result" where
  "apply_manual_fee_invoice_payment rt tenant i amount next_paid st db =
     and_then (guard (fits_bigint next_paid) (PgError ''22003'' '''')) (\<lambda>_.
     and_then (guard (0 \<le> next_paid) (PgError ''23514'' ''ck_invoices_amount_paid_non_negative'')) (\<lambda>_.
     Inr (db\<lparr>bl_invoices := update_where (invoice_at tenant i) (manual_payment_fields rt amount next_paid st)
            (bl_invoices db)\<rparr>)))"

definition manual_reversal_fields :: "runtime \<Rightarrow> int \<Rightarrow> invoice_status \<Rightarrow> invoice \<Rightarrow> invoice" where
  "manual_reversal_fields rt amount st v =
     v\<lparr>iv_amount_paid_minor := max (iv_amount_paid_minor v - amount) 0,
       iv_status := (if max (iv_amount_paid_minor v - amount) 0 = 0 then st else InvPendingPayment),
       iv_paid_at := None,
       iv_metadata := json_merge (iv_metadata v) [(''last_manual_reversal_amount_minor'', JStr (show_int amount))],
       iv_updated_at := rt_now rt\<rparr>"

text \<open>\<open>mapRow(result.rows[0])\<close> throws when no invoice has the id.\<close>

definition reverse_manual_fee_invoice_payment ::
  "runtime \<Rightarrow> string \<Rightarrow> uuid \<Rightarrow> int \<Rightarrow> invoice_status \<Rightarrow> 'a billing_db_scheme \<Rightarrow> 'a billing_db_scheme result" where
  "reverse_manual_fee_invoice_payment rt tenant i amount st db =
     (if list_ex (invoice_at tenant i) (bl_invoices db)
      then Inr (db\<lparr>bl_invoices := update_where (invoice_at tenant i) (manual_reversal_fields rt amount st) (bl_invoices db)\<rparr>)
      else Inl (InternalServerErrorException ''Cannot read properties of undefined''))"

end
