(* ===== verification/Manual_Payments_Service.thy ===== *)
theory Manual_Payments_Service
  imports Manual_Payments
begin

text \<open>
  \<open>ManualFeePaymentService\<close>: the operations on a manual payment, each in one transaction. The posting to the
  ledger runs in the same transaction.
\<close>

record create_manual_dto =
  cm_idempotency_key :: string
  cm_payment_method :: fee_payment_method
  cm_amount_minor :: string
  cm_student_id :: "string option"
  cm_invoice_id :: "string option"
  cm_payer_name :: "string option"
  cm_received_at :: "string option"
  cm_cheque_number :: "string option"
  cm_drawer_bank :: "string option"
  cm_deposit_reference :: "string option"
  cm_external_reference :: "string option"
  cm_asset_account_code :: "string option"
  cm_fee_control_account_code :: "string option"
  cm_notes :: "string option"
  cm_metadata :: "(string \<times> json) list option"

record update_manual_dto =
  um_occurred_at :: "string option"
  um_deposit_reference :: "string option"
  um_notes :: "string option"
  um_metadata :: "(string \<times> json) list option"

definition require_manual_tenant_id :: "runtime \<Rightarrow> string result" where
  "require_manual_tenant_id rt =
     (case rt_tenant_id rt of
        Some t \<Rightarrow> if t = [] then Inl (UnauthorizedException ''Tenant context is required for manual fee payments'') else Inr t
      | None \<Rightarrow> Inl (UnauthorizedException ''Tenant context is required for manual fee payments''))"

definition assert_has_allocation_target :: "string option \<Rightarrow> string option \<Rightarrow> unit result" where
  "assert_has_allocation_target student invoice_id =
     guard (truthy student \<or> truthy invoice_id)
       (BadRequestException ''Manual fee payment requires a student or invoice target'')"

definition assert_method_requirements :: "create_manual_dto \<Rightarrow> unit result" where
  "assert_method_requirements dto =
     (if cm_payment_method dto = PayCheque then
        and_then (guard (read_string (cm_cheque_number dto) \<noteq> None)
          (BadRequestException ''Cheque number is required for cheque payments'')) (\<lambda>_.
        guard (read_string (cm_drawer_bank dto) \<noteq> None)
          (BadRequestException ''Drawer bank is required for cheque payments''))
      else Inr ())"

definition resolve_asset_account_code :: "fee_payment_method \<Rightarrow> string option \<Rightarrow> string" where
  "resolve_asset_account_code m code = or_default (read_string code) (default_asset_account m)"

definition normalize_manual_amount :: "string \<Rightarrow> string result" where
  "normalize_manual_amount v =
     (if positive_numeral (js_trim v) then Inr (js_trim v)
      else Inl (BadRequestException ''Manual fee amount must be a positive integer in minor units''))"

text \<open>\<open>resolveTimestamp\<close>: the same function as the ledger's, with the milliseconds for the ISO text.\<close>

definition resolve_manual_timestamp :: "runtime \<Rightarrow> string option \<Rightarrow> int result" where
  "resolve_manual_timestamp rt v =
     (if truthy v then
        (case rt_parse_date rt (the v) of
           None \<Rightarrow> Inl (BadRequestException (''Invalid timestamp '' @ quoted (the v))) | Some ms \<Rightarrow> Inr ms)
      else Inr (rt_clock rt))"

definition generate_receipt_number :: "runtime \<Rightarrow> string \<Rightarrow> string" where
  "generate_receipt_number rt random_uuid =
     ''RCT-'' @ filter (\<lambda>c. c \<noteq> CHR ''-'') (iso_date (rt_clock rt)) @ ''-'' @ js_upper (take 8 random_uuid)"

definition require_manual_account :: "'a finance_db_scheme \<Rightarrow> string \<Rightarrow> string \<Rightarrow> account result" where
  "require_manual_account db tenant code =
     (case find_account_by_code db tenant code of
        Some a \<Rightarrow> Inr a
      | None \<Rightarrow> Inl (NotFoundException
          (''Finance account '' @ quoted code @ '' is required before manual payments can be posted'')))"

definition require_locked_payment :: "'a manual_db_scheme \<Rightarrow> string \<Rightarrow> string \<Rightarrow> manual_payment result" where
  "require_locked_payment db tenant payment_id =
     and_then (find_manual_payment db tenant payment_id) (\<lambda>found.
     case found of Some p \<Rightarrow> Inr p
     | None \<Rightarrow> Inl (NotFoundException (''Manual fee payment '' @ quoted payment_id @ '' was not found'')))"

section \<open>The two postings\<close>

definition payment_targets_json :: "manual_payment \<Rightarrow> (string \<times> json) list" where
  "payment_targets_json p =
     [(''student_id'', json_opt (map_option uuid_text (mf_student_id p))),
      (''invoice_id'', json_opt (map_option uuid_text (mf_invoice_id p)))]"

definition manual_entry :: "account \<Rightarrow> entry_direction \<Rightarrow> manual_payment \<Rightarrow> string \<Rightarrow> (string \<times> json) list \<Rightarrow> posting_entry" where
  "manual_entry a dir p description meta =
     \<lparr>pe_account_id = ac_id a, pe_direction = dir, pe_amount_minor = show_int (mf_amount_minor p),
      pe_currency_code = Some (mf_currency_code p), pe_description = Some description, pe_metadata = Some (JObj meta)\<rparr>"

definition receipt_posting :: "manual_payment \<Rightarrow> update_manual_dto \<Rightarrow> account \<Rightarrow> account \<Rightarrow> int \<Rightarrow> post_input" where
  "receipt_posting p dto asset fee effective_at =
     \<lparr>pi_idempotency_key = ''manual-fee-payment:'' @ uuid_text (mf_id p) @ '':clear'',
      pi_reference = ''MANUAL-'' @ mf_receipt_number p,
      pi_description = ''Manual '' @ method_words (mf_payment_method p) @ '' fee receipt '' @ mf_receipt_number p,
      pi_effective_at = Some (iso_string effective_at), pi_posted_at = None,
      pi_metadata = Some (JObj
        ([(''source'', JStr ''manual_fee_payment''), (''manual_payment_id'', JStr (uuid_text (mf_id p))),
          (''receipt_number'', JStr (mf_receipt_number p)), (''payment_method'', JStr (method_text (mf_payment_method p)))] @
         payment_targets_json p)),
      pi_entries =
        [manual_entry asset Debit p (''Manual receipt '' @ mf_receipt_number p)
           [(''payment_method'', JStr (method_text (mf_payment_method p))),
            (''deposit_reference'', json_opt (or_else (um_deposit_reference dto) (mf_deposit_reference p)))],
         manual_entry fee Credit p (''Fee balance settled by '' @ mf_receipt_number p) (payment_targets_json p)]\<rparr>"

definition reversal_posting :: "manual_payment \<Rightarrow> update_manual_dto \<Rightarrow> account \<Rightarrow> account \<Rightarrow> int \<Rightarrow> post_input" where
  "reversal_posting p dto asset fee effective_at =
     \<lparr>pi_idempotency_key = ''manual-fee-payment:'' @ uuid_text (mf_id p) @ '':reverse'',
      pi_reference = ''REV-MANUAL-'' @ mf_receipt_number p,
      pi_description = ''Reversal for manual fee receipt '' @ mf_receipt_number p,
      pi_effective_at = Some (iso_string effective_at), pi_posted_at = None,
      pi_metadata = Some (JObj
        [(''source'', JStr ''manual_fee_payment_reversal''), (''manual_payment_id'', JStr (uuid_text (mf_id p))),
         (''original_ledger_transaction_id'', json_opt (map_option uuid_text (mf_ledger_transaction_id p))),
         (''receipt_number'', JStr (mf_receipt_number p)), (''reason'', json_opt (um_notes dto))]),
      pi_entries =
        [manual_entry fee Debit p (''Reverse fee settlement '' @ mf_receipt_number p)
           [(''manual_payment_id'', JStr (uuid_text (mf_id p)))],
         manual_entry asset Credit p (''Reverse received funds '' @ mf_receipt_number p)
           [(''manual_payment_id'', JStr (uuid_text (mf_id p)))]]\<rparr>"

definition post_receipt_transaction ::
  "runtime \<Rightarrow> manual_payment \<Rightarrow> update_manual_dto \<Rightarrow> 'a manual_db_scheme \<Rightarrow>
     (posted_transaction \<times> 'a manual_db_scheme) result" where
  "post_receipt_transaction rt p dto db =
     and_then (require_manual_account db (mf_tenant_id p) (mf_asset_account_code p)) (\<lambda>asset.
     and_then (require_manual_account db (mf_tenant_id p) (mf_fee_control_account_code p)) (\<lambda>fee.
     and_then (resolve_manual_timestamp rt (or_else (um_occurred_at dto) (Some (iso_string (mf_received_at p))))) (\<lambda>effective_at.
     post_transaction True rt (receipt_posting p dto asset fee effective_at) db)))"

definition post_reversal_transaction ::
  "runtime \<Rightarrow> manual_payment \<Rightarrow> update_manual_dto \<Rightarrow> 'a manual_db_scheme \<Rightarrow>
     (posted_transaction \<times> 'a manual_db_scheme) result" where
  "post_reversal_transaction rt p dto db =
     and_then (require_manual_account db (mf_tenant_id p) (mf_asset_account_code p)) (\<lambda>asset.
     and_then (require_manual_account db (mf_tenant_id p) (mf_fee_control_account_code p)) (\<lambda>fee.
     and_then (resolve_manual_timestamp rt (um_occurred_at dto)) (\<lambda>effective_at.
     post_transaction True rt (reversal_posting p dto asset fee effective_at) db)))"

section \<open>Allocation\<close>

definition invoice_student_id :: "invoice \<Rightarrow> string option" where
  "invoice_student_id v = read_string_metadata (iv_metadata v) ''student_id''"

definition resolve_invoices_for_allocation ::
  "manual_env \<Rightarrow> manual_payment \<Rightarrow> 'a manual_db_scheme \<Rightarrow> invoice list result" where
  "resolve_invoices_for_allocation env p db =
     (case mf_invoice_id p of
        Some i \<Rightarrow>
          (case lock_manual_fee_invoice db (mf_tenant_id p) i of
             None \<Rightarrow> Inl (NotFoundException (''Invoice '' @ quoted (uuid_text i) @ '' was not found''))
           | Some v \<Rightarrow>
               if mf_student_id p \<noteq> None \<and> invoice_student_id v \<noteq> map_option uuid_text (mf_student_id p)
               then Inl (BadRequestException ''Manual payment student does not match invoice student'')
               else Inr [v])
      | None \<Rightarrow>
          (case mf_student_id p of
             None \<Rightarrow> Inl (BadRequestException ''Manual fee allocation requires a student or invoice'')
           | Some s \<Rightarrow> Inr (find_fee_invoices_for_allocation db (me_locked env) (mf_tenant_id p) (uuid_text s) None)))"

definition manual_allocation_row ::
  "runtime \<Rightarrow> manual_payment \<Rightarrow> uuid option \<Rightarrow> uuid option \<Rightarrow> fee_allocation_type \<Rightarrow> int \<Rightarrow> (string \<times> json) list \<Rightarrow>
     uuid \<Rightarrow> manual_allocation" where
  "manual_allocation_row rt p invoice_id student kind amount meta new_id =
     \<lparr>ma_id = new_id, ma_tenant_id = mf_tenant_id p, ma_manual_payment_id = mf_id p, ma_invoice_id = invoice_id,
      ma_student_id = student, ma_allocation_type = kind, ma_amount_minor = amount, ma_metadata = meta,
      ma_created_at = rt_now rt\<rparr>"

fun allocate_manual_loop ::
  "runtime \<Rightarrow> manual_env \<Rightarrow> manual_payment \<Rightarrow> invoice list \<Rightarrow> int \<Rightarrow> nat \<Rightarrow> 'a manual_db_scheme \<Rightarrow>
     (int \<times> nat \<times> 'a manual_db_scheme) result" where
  "allocate_manual_loop rt env p [] remaining n db = Inr (remaining, n, db)"
| "allocate_manual_loop rt env p (v # vs) remaining n db =
     (if remaining \<le> 0 then Inr (remaining, n, db)
      else
        (let paid = iv_amount_paid_minor v; balance = iv_total_amount_minor v - paid
         in if balance \<le> 0 then allocate_manual_loop rt env p vs remaining n db
            else
              (let applied = (if remaining < balance then remaining else balance);
                   next_paid = paid + applied;
                   next_status = (if iv_total_amount_minor v \<le> next_paid then InvPaid else InvPendingPayment)
               in and_then (apply_manual_fee_invoice_payment rt (mf_tenant_id p) (iv_id v) applied next_paid next_status db) (\<lambda>db1.
                  and_then (case mf_student_id p of Some s \<Rightarrow> Inr (Some s) | None \<Rightarrow> pg_uuid_opt (invoice_student_id v)) (\<lambda>student.
                  and_then (create_manual_allocation env
                    (manual_allocation_row rt p (Some (iv_id v)) student AllocInvoice applied
                      [(''receipt_number'', JStr (mf_receipt_number p)),
                       (''invoice_status'', JStr (if next_status = InvPaid then ''paid'' else ''pending_payment''))]) db1) (\<lambda>db2.
                  allocate_manual_loop rt env p vs (remaining - applied) (Suc n) db2))))))"

definition allocate_cleared_payment ::
  "runtime \<Rightarrow> manual_env \<Rightarrow> manual_payment \<Rightarrow> 'a manual_db_scheme \<Rightarrow> (nat \<times> 'a manual_db_scheme) result" where
  "allocate_cleared_payment rt env p db =
     and_then (resolve_invoices_for_allocation env p db) (\<lambda>invoices.
     and_then (allocate_manual_loop rt env p invoices (mf_amount_minor p) 0 db) (\<lambda>(remaining, n, db1).
     if 0 < remaining
     then and_then (create_manual_allocation env
            (manual_allocation_row rt p None (mf_student_id p) AllocCredit remaining
              [(''receipt_number'', JStr (mf_receipt_number p)), (''reason'', JStr ''manual_payment_overage'')]) db1)
            (\<lambda>db2. Inr (Suc n, db2))
     else Inr (n, db1)))"

section \<open>The operations\<close>

definition clear_locked_payment ::
  "runtime \<Rightarrow> manual_env \<Rightarrow> manual_payment \<Rightarrow> update_manual_dto \<Rightarrow> 'a manual_db_scheme \<Rightarrow>
     (manual_payment \<times> 'a manual_db_scheme) result" where
  "clear_locked_payment rt env p dto db =
     (if mf_status p = FpCleared then Inr (p, db)
      else if mf_status p \<noteq> FpReceived \<and> mf_status p \<noteq> FpDeposited then
        Inl (ConflictException (''Manual payment cannot be cleared while status is '' @ quoted (fee_status_text (mf_status p))))
      else
        and_then (post_receipt_transaction rt p dto db) (\<lambda>(posted, db1).
        and_then (allocate_cleared_payment rt env p db1) (\<lambda>(n, db2).
        and_then (resolve_manual_timestamp rt (um_occurred_at dto)) (\<lambda>cleared_at.
        mark_cleared rt (mf_tenant_id p) (mf_id p) (pt_transaction_id posted) cleared_at
          (read_string (um_deposit_reference dto)) (read_string (um_notes dto))
          (json_merge (or_default (um_metadata dto) []) [(''allocation_count'', JNum (show_nat n))]) db2))))"

definition create_manual_fee_payment ::
  "bool \<Rightarrow> runtime \<Rightarrow> manual_env \<Rightarrow> create_manual_dto \<Rightarrow> 'a manual_db_scheme \<Rightarrow>
     (manual_payment \<times> 'a manual_db_scheme) result" where
  "create_manual_fee_payment nested rt env dto db =
     and_then (require_manual_tenant_id rt) (\<lambda>tenant.
     with_request_transaction nested (deferred_balance_checks db) (\<lambda>db.
       and_then (assert_has_allocation_target (cm_student_id dto) (cm_invoice_id dto)) (\<lambda>_.
       and_then (assert_method_requirements dto) (\<lambda>_.
       and_then (normalize_manual_amount (cm_amount_minor dto)) (\<lambda>amount.
       and_then (resolve_manual_timestamp rt (cm_received_at dto)) (\<lambda>received_at.
       and_then (create_manual_payment_row rt
         \<lparr>mi_tenant_id = tenant, mi_idempotency_key = js_trim (cm_idempotency_key dto),
          mi_receipt_number = generate_receipt_number rt (me_random_uuid env), mi_payment_method = cm_payment_method dto,
          mi_status = FpReceived, mi_student_id = cm_student_id dto, mi_invoice_id = cm_invoice_id dto,
          mi_amount_minor = amount, mi_currency_code = DEFAULT_CURRENCY_CODE, mi_payer_name = read_string (cm_payer_name dto),
          mi_received_at = received_at, mi_cheque_number = read_string (cm_cheque_number dto),
          mi_drawer_bank = read_string (cm_drawer_bank dto), mi_deposit_reference = read_string (cm_deposit_reference dto),
          mi_external_reference = read_string (cm_external_reference dto),
          mi_asset_account_code = resolve_asset_account_code (cm_payment_method dto) (cm_asset_account_code dto),
          mi_fee_control_account_code =
            or_default (read_string (cm_fee_control_account_code dto)) DEFAULT_FEE_CONTROL_ACCOUNT_CODE,
          mi_notes = read_string (cm_notes dto), mi_metadata = or_default (cm_metadata dto) [],
          mi_created_by_user_id = acting_user rt\<rparr> db) (\<lambda>(p, db1).
       if mf_status p = FpCleared \<or> mf_status p = FpReversed \<or> mf_payment_method p = PayCheque then Inr (p, db1)
       else clear_locked_payment rt env p
         \<lparr>um_occurred_at = cm_received_at dto, um_deposit_reference = cm_deposit_reference dto,
          um_notes = cm_notes dto, um_metadata = Some [(''cleared_on_create'', JBool True)]\<rparr> db1)))))) db)"

definition list_manual_fee_payments ::
  "runtime \<Rightarrow> fee_payment_status option \<Rightarrow> 'a manual_db_scheme \<Rightarrow> manual_payment list result" where
  "list_manual_fee_payments rt st db =
     and_then (require_manual_tenant_id rt) (\<lambda>tenant. Inr (list_manual_payment_rows db tenant st))"

definition get_manual_fee_payment :: "runtime \<Rightarrow> string \<Rightarrow> 'a manual_db_scheme \<Rightarrow> manual_payment result" where
  "get_manual_fee_payment rt payment_id db =
     and_then (require_manual_tenant_id rt) (\<lambda>tenant. require_locked_payment db tenant payment_id)"

text \<open>An operation on the locked payment, in a transaction of its own.\<close>

definition on_locked_payment ::
  "bool \<Rightarrow> runtime \<Rightarrow> string \<Rightarrow>
     (string \<Rightarrow> manual_payment \<Rightarrow> 'a manual_db_scheme \<Rightarrow> (manual_payment \<times> 'a manual_db_scheme) result) \<Rightarrow>
     'a manual_db_scheme \<Rightarrow> (manual_payment \<times> 'a manual_db_scheme) result" where
  "on_locked_payment nested rt payment_id body db =
     with_request_transaction nested (deferred_balance_checks db) (\<lambda>db.
       and_then (require_manual_tenant_id rt) (\<lambda>tenant.
       and_then (require_locked_payment db tenant payment_id) (\<lambda>p. body tenant p db))) db"

definition deposit_manual_fee_payment ::
  "bool \<Rightarrow> runtime \<Rightarrow> string \<Rightarrow> update_manual_dto \<Rightarrow> 'a manual_db_scheme \<Rightarrow>
     (manual_payment \<times> 'a manual_db_scheme) result" where
  "deposit_manual_fee_payment nested rt payment_id dto =
     on_locked_payment nested rt payment_id (\<lambda>tenant p db.
       if mf_payment_method p \<noteq> PayCheque then
         Inl (BadRequestException ''Only cheque receipts can be marked as deposited'')
       else if mf_status p \<noteq> FpReceived then
         Inl (ConflictException (''Cheque receipt cannot be deposited while status is '' @ quoted (fee_status_text (mf_status p))))
       else
         and_then (resolve_manual_timestamp rt (um_occurred_at dto)) (\<lambda>deposited_at.
         mark_deposited rt tenant (mf_id p) deposited_at (read_string (um_deposit_reference dto))
           (read_string (um_notes dto)) (or_default (um_metadata dto) []) db))"

definition clear_manual_fee_payment ::
  "bool \<Rightarrow> runtime \<Rightarrow> manual_env \<Rightarrow> string \<Rightarrow> update_manual_dto \<Rightarrow> 'a manual_db_scheme \<Rightarrow>
     (manual_payment \<times> 'a manual_db_scheme) result" where
  "clear_manual_fee_payment nested rt env payment_id dto =
     on_locked_payment nested rt payment_id (\<lambda>tenant p db. clear_locked_payment rt env p dto db)"

definition bounce_manual_fee_payment ::
  "bool \<Rightarrow> runtime \<Rightarrow> string \<Rightarrow> update_manual_dto \<Rightarrow> 'a manual_db_scheme \<Rightarrow>
     (manual_payment \<times> 'a manual_db_scheme) result" where
  "bounce_manual_fee_payment nested rt payment_id dto =
     on_locked_payment nested rt payment_id (\<lambda>tenant p db.
       if mf_payment_method p \<noteq> PayCheque then Inl (BadRequestException ''Only cheque receipts can bounce'')
       else if mf_status p \<noteq> FpReceived \<and> mf_status p \<noteq> FpDeposited then
         Inl (ConflictException (''Cheque receipt cannot bounce while status is '' @ quoted (fee_status_text (mf_status p))))
       else
         and_then (resolve_manual_timestamp rt (um_occurred_at dto)) (\<lambda>bounced_at.
         mark_bounced rt tenant (mf_id p) bounced_at (read_string (um_notes dto)) (or_default (um_metadata dto) []) db))"

fun reverse_allocations ::
  "runtime \<Rightarrow> string \<Rightarrow> manual_allocation list \<Rightarrow> 'a manual_db_scheme \<Rightarrow> 'a manual_db_scheme result" where
  "reverse_allocations rt tenant [] db = Inr db"
| "reverse_allocations rt tenant (a # as) db =
     (case ma_invoice_id a of
        Some i \<Rightarrow>
          if ma_allocation_type a \<noteq> AllocInvoice then reverse_allocations rt tenant as db
          else and_then (reverse_manual_fee_invoice_payment rt tenant i (ma_amount_minor a) InvOpen db) (\<lambda>db1.
               reverse_allocations rt tenant as db1)
      | None \<Rightarrow> reverse_allocations rt tenant as db)"

definition reverse_manual_fee_payment ::
  "bool \<Rightarrow> runtime \<Rightarrow> string \<Rightarrow> update_manual_dto \<Rightarrow> 'a manual_db_scheme \<Rightarrow>
     (manual_payment \<times> 'a manual_db_scheme) result" where
  "reverse_manual_fee_payment nested rt payment_id dto =
     on_locked_payment nested rt payment_id (\<lambda>tenant p db.
       if mf_status p \<noteq> FpCleared then
         Inl (ConflictException (''Only cleared manual payments can be reversed; current status is '' @
           quoted (fee_status_text (mf_status p))))
       else
         and_then (post_reversal_transaction rt p dto db) (\<lambda>(posted, db1).
         and_then (reverse_allocations rt tenant (list_manual_allocations db1 tenant (mf_id p)) db1) (\<lambda>db2.
         and_then (resolve_manual_timestamp rt (um_occurred_at dto)) (\<lambda>reversed_at.
         mark_reversed rt tenant (mf_id p) (pt_transaction_id posted) reversed_at (read_string (um_notes dto))
           (or_default (um_metadata dto) []) db2))))"

end
