(* ===== verification/Manual_Payments_Facts.thy ===== *)
theory Manual_Payments_Facts
  imports Manual_Payments_Service Ledger_Properties
begin

text \<open>
  What the operations on a manual payment do to the tables: the row's status, the allocations, and the
  invoices as a function of the allocations.
\<close>

section \<open>Postings and rows\<close>

lemma post_manual_frame:
  assumes "post_transaction nested rt input db = Inr (resp, db')"
  shows "mf_payments db' = mf_payments (db :: 'a manual_db_scheme)" and "mf_allocations db' = mf_allocations db"
    and "bl_invoices db' = bl_invoices db"
proof -
  have "post_transaction_callback rt input db = Inr (resp, db')"
    using assms by (simp add: post_transaction_def with_request_transaction_Inr)
  then show "mf_payments db' = mf_payments db" and "mf_allocations db' = mf_allocations db" and "bl_invoices db' = bl_invoices db"
    by (cases rule: post_cases; simp)+
qed

lemma update_manual_payment_Inr:
  "update_manual_payment t i f db = Inr (p, db') \<Longrightarrow>
     db' = db\<lparr>mf_payments := update_where (payment_id_at t i) f (mf_payments db)\<rparr> \<and> p \<in> set (mf_payments db')"
  by (auto simp: update_manual_payment_def Let_def split: option.splits dest: select_first_Some)

lemma status_fields_simps [simp]:
  "mf_id (status_fields rt d n m p) = mf_id p" "mf_tenant_id (status_fields rt d n m p) = mf_tenant_id p"
  "mf_status (status_fields rt d n m p) = mf_status p" "mf_amount_minor (status_fields rt d n m p) = mf_amount_minor p"
  "mf_payment_method (status_fields rt d n m p) = mf_payment_method p"
  "mf_receipt_number (status_fields rt d n m p) = mf_receipt_number p"
  "mf_idempotency_key (status_fields rt d n m p) = mf_idempotency_key p"
  by (simp_all add: status_fields_def)

lemma find_manual_payment_Some:
  "find_manual_payment db t s = Inr (Some p) \<Longrightarrow> p \<in> set (mf_payments db) \<and> mf_tenant_id p = t"
  by (auto simp: find_manual_payment_def and_then_eq_Inr payment_id_at_def dest: select_first_Some)

lemma require_locked_payment_Inr:
  "require_locked_payment db t s = Inr p \<Longrightarrow> p \<in> set (mf_payments db) \<and> mf_tenant_id p = t"
  by (auto simp: require_locked_payment_def and_then_eq_Inr split: option.splits dest: find_manual_payment_Some)

lemma on_locked_payment_Inr:
  assumes "on_locked_payment nested rt payment_id body db = Inr (q, db')"
  obtains t p where "require_manual_tenant_id rt = Inr t" and "require_locked_payment db t payment_id = Inr p"
    and "body t p db = Inr (q, db')"
  using assms by (auto simp: on_locked_payment_def with_request_transaction_Inr and_then_eq_Inr)

section \<open>Allocations\<close>

lemma create_manual_allocation_Inr:
  assumes "create_manual_allocation env mk db = Inr db'"
  shows "infers_arbiter (me_indexes env) [''tenant_id'', ''manual_payment_id'', ''invoice_id'', ''allocation_type'']"
    and "let a = mk (fresh_uuid (map ma_id (mf_allocations db))) in 0 < ma_amount_minor a \<and>
      db' = (if list_ex (same_allocation a) (mf_allocations db) then db
             else db\<lparr>mf_allocations := mf_allocations db @ [a]\<rparr>)"
  using assms by (auto simp: create_manual_allocation_def Let_def and_then_eq_Inr)

definition paid_alloc :: "runtime \<Rightarrow> manual_allocation \<Rightarrow> invoice \<Rightarrow> invoice" where
  "paid_alloc rt a v =
     (if Some (iv_id v) = ma_invoice_id a \<and> iv_tenant_id v = ma_tenant_id a
      then manual_payment_fields rt (ma_amount_minor a) (iv_amount_paid_minor v + ma_amount_minor a)
             (if iv_total_amount_minor v \<le> iv_amount_paid_minor v + ma_amount_minor a then InvPaid else InvPendingPayment) v
      else v)"

definition reversed_alloc :: "runtime \<Rightarrow> manual_allocation \<Rightarrow> invoice \<Rightarrow> invoice" where
  "reversed_alloc rt a v =
     (if Some (iv_id v) = ma_invoice_id a \<and> ma_allocation_type a = AllocInvoice \<and> iv_tenant_id v = ma_tenant_id a
      then manual_reversal_fields rt (ma_amount_minor a) InvOpen v else v)"

definition allocated :: "manual_allocation list \<Rightarrow> invoice \<Rightarrow> int" where
  "allocated as v = sum_list (map ma_amount_minor
     (filter (\<lambda>a. ma_invoice_id a = Some (iv_id v) \<and> ma_tenant_id a = iv_tenant_id v) as))"

lemma paid_alloc_simps [simp]:
  "iv_id (paid_alloc rt a v) = iv_id v" "iv_tenant_id (paid_alloc rt a v) = iv_tenant_id v"
  "iv_total_amount_minor (paid_alloc rt a v) = iv_total_amount_minor v"
  "iv_amount_paid_minor (paid_alloc rt a v) = iv_amount_paid_minor v +
     (if Some (iv_id v) = ma_invoice_id a \<and> iv_tenant_id v = ma_tenant_id a then ma_amount_minor a else 0)"
  by (simp_all add: paid_alloc_def manual_payment_fields_def)

lemma reversed_alloc_simps [simp]:
  "iv_id (reversed_alloc rt a v) = iv_id v" "iv_tenant_id (reversed_alloc rt a v) = iv_tenant_id v"
  "iv_total_amount_minor (reversed_alloc rt a v) = iv_total_amount_minor v"
  by (simp_all add: reversed_alloc_def manual_reversal_fields_def)

lemma fold_paid_alloc [simp]:
  "iv_id (fold (paid_alloc rt) as v) = iv_id v" "iv_tenant_id (fold (paid_alloc rt) as v) = iv_tenant_id v"
  "iv_total_amount_minor (fold (paid_alloc rt) as v) = iv_total_amount_minor v"
  by (induction as arbitrary: v) simp_all

lemma fold_paid_amount: "iv_amount_paid_minor (fold (paid_alloc rt) as v) = iv_amount_paid_minor v + allocated as v"
  by (induction as arbitrary: v) (auto simp: allocated_def)

lemma fold_reversed_alloc [simp]:
  "iv_id (fold (reversed_alloc rt) as v) = iv_id v" "iv_tenant_id (fold (reversed_alloc rt) as v) = iv_tenant_id v"
  "iv_total_amount_minor (fold (reversed_alloc rt) as v) = iv_total_amount_minor v"
  by (induction as arbitrary: v) simp_all

text \<open>Taking the allocations back subtracts their sum, down to nothing.\<close>

lemma fold_reversed_amount:
  assumes "\<forall>a\<in>set as. 0 \<le> ma_amount_minor a \<and> (ma_invoice_id a \<noteq> None \<longrightarrow> ma_allocation_type a = AllocInvoice)"
    and "0 \<le> iv_amount_paid_minor v"
  shows "iv_amount_paid_minor (fold (reversed_alloc rt) as v) = max (iv_amount_paid_minor v - allocated as v) 0"
  using assms
proof (induction as arbitrary: v)
  case (Cons a as)
  let ?hit = "ma_invoice_id a = Some (iv_id v) \<and> ma_tenant_id a = iv_tenant_id v"
  have nn: "0 \<le> allocated as v" unfolding allocated_def by (rule sum_list_nonneg) (use Cons.prems(1) in auto)
  have same: "allocated as (reversed_alloc rt a v) = allocated as v" by (simp add: allocated_def)
  show ?case
  proof (cases ?hit)
    case True
    then have t: "ma_allocation_type a = AllocInvoice" using Cons.prems(1) by auto
    have amount: "iv_amount_paid_minor (reversed_alloc rt a v) = max (iv_amount_paid_minor v - ma_amount_minor a) 0"
      using True t by (simp add: reversed_alloc_def manual_reversal_fields_def)
    have "iv_amount_paid_minor (fold (reversed_alloc rt) as (reversed_alloc rt a v)) =
        max (max (iv_amount_paid_minor v - ma_amount_minor a) 0 - allocated as v) 0"
      using Cons.IH[of "reversed_alloc rt a v"] Cons.prems(1) amount same by simp
    moreover have "allocated (a # as) v = ma_amount_minor a + allocated as v" using True by (simp add: allocated_def)
    ultimately show ?thesis using nn by auto
  next
    case False
    then have "reversed_alloc rt a v = v" by (auto simp: reversed_alloc_def)
    moreover have "allocated (a # as) v = allocated as v" using False by (auto simp: allocated_def)
    ultimately show ?thesis using Cons.IH[of v] Cons.prems by simp
  qed
qed (simp add: allocated_def)

lemma apply_manual_Inr:
  "apply_manual_fee_invoice_payment rt t i amount next_paid st db = Inr db' \<Longrightarrow>
     db' = db\<lparr>bl_invoices := update_where (invoice_at t i) (manual_payment_fields rt amount next_paid st) (bl_invoices db)\<rparr>"
  by (auto simp: apply_manual_fee_invoice_payment_def and_then_eq_Inr)

text \<open>
  The allocations \<open>as\<close> a loop over the invoices \<open>ids\<close> adds, the invoices as their effect, and what remains.
\<close>

definition spreads ::
  "runtime \<Rightarrow> manual_payment \<Rightarrow> uuid set \<Rightarrow> 'a manual_db_scheme \<Rightarrow> int \<Rightarrow> int \<Rightarrow> 'a manual_db_scheme \<Rightarrow>
     manual_allocation list \<Rightarrow> bool" where
  "spreads rt p ids db remaining remaining' db' as \<longleftrightarrow>
     db' = db\<lparr>mf_allocations := mf_allocations db @ as, bl_invoices := map (fold (paid_alloc rt) as) (bl_invoices db)\<rparr> \<and>
     remaining = remaining' + sum_list (map ma_amount_minor as) \<and> 0 \<le> remaining' \<and>
     (\<forall>a\<in>set as. 0 < ma_amount_minor a \<and> ma_manual_payment_id a = mf_id p \<and> ma_tenant_id a = mf_tenant_id p \<and>
        ma_allocation_type a = AllocInvoice \<and> ma_invoice_id a \<in> Some ` ids) \<and>
     distinct (map ma_invoice_id as) \<and>
     (\<forall>v\<in>set (bl_invoices db). 0 < allocated as v \<longrightarrow> iv_amount_paid_minor v + allocated as v \<le> iv_total_amount_minor v)"

lemma spreads_none: "0 \<le> remaining \<Longrightarrow> spreads rt p ids db remaining remaining db []"
  by (simp add: spreads_def allocated_def)

lemma spreads_mono: "spreads rt p ids db r r' db' as \<Longrightarrow> ids \<subseteq> ids' \<Longrightarrow> spreads rt p ids' db r r' db' as"
  unfolding spreads_def by blast

lemma spreads_Cons:
  assumes rest: "spreads rt p ids db2 (remaining - ma_amount_minor a) r' db' as"
    and a: "0 < ma_amount_minor a" "ma_manual_payment_id a = mf_id p" "ma_tenant_id a = mf_tenant_id p"
      "ma_allocation_type a = AllocInvoice" "ma_invoice_id a = Some i" "i \<notin> ids"
    and db2: "db2 = db\<lparr>mf_allocations := mf_allocations db @ [a], bl_invoices := map (paid_alloc rt a) (bl_invoices db)\<rparr>"
    and v: "\<And>w. w \<in> set (bl_invoices db) \<Longrightarrow> iv_id w = i \<Longrightarrow> iv_tenant_id w = mf_tenant_id p \<Longrightarrow>
      iv_amount_paid_minor w + ma_amount_minor a \<le> iv_total_amount_minor w"
  shows "spreads rt p (insert i ids) db remaining r' db' (a # as)"
proof -
  from rest a(5,6) have fresh: "ma_invoice_id b \<noteq> Some i" if "b \<in> set as" for b
    using that by (auto simp: spreads_def)
  have none: "allocated as w = 0" if "iv_id w = i" for w
    using fresh that by (simp add: allocated_def filter_empty_conv)
  have "iv_amount_paid_minor w + allocated (a # as) w \<le> iv_total_amount_minor w"
    if w: "w \<in> set (bl_invoices db)" and pos: "0 < allocated (a # as) w" for w
  proof (cases "iv_id w = i \<and> iv_tenant_id w = mf_tenant_id p")
    case True
    then show ?thesis using v[OF w] none[of w] a by (simp add: allocated_def)
  next
    case False
    then have "allocated (a # as) w = allocated as w" and "paid_alloc rt a w = w"
      using a by (auto simp: allocated_def paid_alloc_def)
    moreover have "paid_alloc rt a w \<in> set (bl_invoices db2)" using w by (simp add: db2)
    ultimately show ?thesis using rest pos by (auto simp: spreads_def)
  qed
  moreover have "distinct (map ma_invoice_id (a # as))" using rest fresh a(5) by (auto simp: spreads_def)
  ultimately show ?thesis using rest a(1-5) by (auto simp: spreads_def db2 comp_def)
qed

lemma invoice_update_as_paid:
  assumes "distinct (map iv_id vs)" and "v \<in> set vs" and "iv_tenant_id v = ma_tenant_id a" and "ma_invoice_id a = Some (iv_id v)"
  shows "update_where (invoice_at (ma_tenant_id a) (iv_id v))
      (manual_payment_fields rt (ma_amount_minor a) (iv_amount_paid_minor v + ma_amount_minor a)
        (if iv_total_amount_minor v \<le> iv_amount_paid_minor v + ma_amount_minor a then InvPaid else InvPendingPayment)) vs =
    map (paid_alloc rt a) vs"
  unfolding update_where_def
proof (rule map_cong[OF refl])
  fix w assume w: "w \<in> set vs"
  have "w = v" if "iv_id w = iv_id v" using assms(1,2) w that by (auto simp: distinct_map dest: inj_onD)
  then show "(if invoice_at (ma_tenant_id a) (iv_id v) w
      then manual_payment_fields rt (ma_amount_minor a) (iv_amount_paid_minor v + ma_amount_minor a)
        (if iv_total_amount_minor v \<le> iv_amount_paid_minor v + ma_amount_minor a then InvPaid else InvPendingPayment) w
      else w) = paid_alloc rt a w"
    using assms(3,4) by (auto simp: paid_alloc_def invoice_at_def)
qed

lemma allocate_manual_loop_Inr:
  assumes "allocate_manual_loop rt env p vs remaining n db = Inr (remaining', n', db')"
    and "distinct (map iv_id (bl_invoices db))" and "distinct (map iv_id vs)"
    and "\<forall>v\<in>set vs. v \<in> set (bl_invoices db) \<and> iv_tenant_id v = mf_tenant_id p"
    and "\<forall>a\<in>set (mf_allocations db). ma_manual_payment_id a = mf_id p \<longrightarrow> ma_invoice_id a \<notin> Some ` iv_id ` set vs"
    and "0 \<le> remaining"
  shows "\<exists>as. spreads rt p (iv_id ` set vs) db remaining remaining' db' as"
  using assms
proof (induction vs arbitrary: remaining n db)
  case Nil
  then show ?case using spreads_none by fastforce
next
  case (Cons v vs)
  let ?paid = "iv_amount_paid_minor v" and ?total = "iv_total_amount_minor v"
  let ?applied = "if remaining < ?total - ?paid then remaining else ?total - ?paid"
  let ?st = "if ?total \<le> ?paid + ?applied then InvPaid else InvPendingPayment"
  consider "remaining \<le> 0" | "0 < remaining" "?total - ?paid \<le> 0" | "0 < remaining" "0 < ?total - ?paid" by linarith
  then show ?case
  proof cases
    case 1
    with Cons.prems(1,6) have "spreads rt p (iv_id ` set (v # vs)) db remaining remaining' db' []"
      using spreads_none[of remaining rt p "iv_id ` set (v # vs)" db] by simp
    then show ?thesis by blast
  next
    case 2
    then have "allocate_manual_loop rt env p vs remaining n db = Inr (remaining', n', db')" using Cons.prems(1) by simp
    from Cons.IH[OF this Cons.prems(2)] Cons.prems(3,4,5,6)
    obtain as where "spreads rt p (iv_id ` set vs) db remaining remaining' db' as" by fastforce
    from spreads_mono[OF this, of "iv_id ` set (v # vs)"] show ?thesis by auto
  next
    case 3
    let ?meta = "[(''receipt_number'', JStr (mf_receipt_number p)),
      (''invoice_status'', JStr (if ?st = InvPaid then ''paid'' else ''pending_payment''))]"
    obtain db1 student db2 where
      app: "apply_manual_fee_invoice_payment rt (mf_tenant_id p) (iv_id v) ?applied (?paid + ?applied) ?st db = Inr db1"
      and cr: "create_manual_allocation env (manual_allocation_row rt p (Some (iv_id v)) student AllocInvoice ?applied ?meta) db1 = Inr db2"
      and rest: "allocate_manual_loop rt env p vs (remaining - ?applied) (Suc n) db2 = Inr (remaining', n', db')"
      using Cons.prems(1) 3 by (auto simp: Let_def and_then_eq_Inr simp del: if_split)
    let ?a = "manual_allocation_row rt p (Some (iv_id v)) student AllocInvoice ?applied ?meta (fresh_uuid (map ma_id (mf_allocations db)))"
    have a: "ma_invoice_id ?a = Some (iv_id v)" "ma_tenant_id ?a = mf_tenant_id p" "ma_amount_minor ?a = ?applied"
      "ma_manual_payment_id ?a = mf_id p" "ma_allocation_type ?a = AllocInvoice"
      by (simp_all only: manual_allocation_row_def manual_allocation.simps)
    have v: "v \<in> set (bl_invoices db)" "iv_tenant_id v = ma_tenant_id ?a" using Cons.prems(4) a(2) by simp_all
    have db1: "db1 = db\<lparr>bl_invoices := map (paid_alloc rt ?a) (bl_invoices db)\<rparr>"
      using apply_manual_Inr[OF app] invoice_update_as_paid[OF Cons.prems(2) v a(1), of rt] unfolding a by simp
    have new: "\<not> list_ex (same_allocation ?a) (mf_allocations db1)"
      using Cons.prems(5) unfolding db1 by (auto simp: list_ex_iff same_allocation_def a simp del: if_split)
    then have db2: "db2 = db\<lparr>mf_allocations := mf_allocations db @ [?a], bl_invoices := map (paid_alloc rt ?a) (bl_invoices db)\<rparr>"
      using create_manual_allocation_Inr(2)[OF cr] by (simp add: Let_def db1)
    have "iv_id v \<notin> iv_id ` set vs" using Cons.prems(3) by simp
    then have other: "\<forall>w\<in>set vs. iv_id w \<noteq> iv_id v" by (metis image_eqI)
    have "\<exists>as. spreads rt p (iv_id ` set vs) db2 (remaining - ?applied) remaining' db' as"
    proof (rule Cons.IH[OF rest])
      show "distinct (map iv_id (bl_invoices db2))" using Cons.prems(2) by (simp add: db2 comp_def)
      show "\<forall>w\<in>set vs. w \<in> set (bl_invoices db2) \<and> iv_tenant_id w = mf_tenant_id p"
      proof
        fix w assume w: "w \<in> set vs"
        then have "paid_alloc rt ?a w = w" using other by (auto simp: paid_alloc_def a(1))
        then have "w \<in> paid_alloc rt ?a ` set (bl_invoices db)" using Cons.prems(4) w by (metis image_eqI list.set_intros(2))
        then show "w \<in> set (bl_invoices db2) \<and> iv_tenant_id w = mf_tenant_id p" using Cons.prems(4) w by (simp add: db2)
      qed
      show "\<forall>b\<in>set (mf_allocations db2). ma_manual_payment_id b = mf_id p \<longrightarrow> ma_invoice_id b \<notin> Some ` iv_id ` set vs"
        using Cons.prems(5) other unfolding db2 by (auto simp: a(1))
    qed (use Cons.prems(3) 3 in auto)
    then obtain as where sp: "spreads rt p (iv_id ` set vs) db2 (remaining - ma_amount_minor ?a) remaining' db' as"
      unfolding a(3) by blast
    have pos: "0 < ma_amount_minor ?a" unfolding a(3) using 3 by auto
    have notin: "iv_id v \<notin> iv_id ` set vs" using Cons.prems(3) by simp
    have "iv_amount_paid_minor w + ma_amount_minor ?a \<le> iv_total_amount_minor w"
      if "w \<in> set (bl_invoices db)" "iv_id w = iv_id v" for w
    proof -
      have "w = v" using that v(1) Cons.prems(2) by (auto simp: distinct_map dest: inj_onD)
      then show ?thesis unfolding a(3) by auto
    qed
    then have "spreads rt p (insert (iv_id v) (iv_id ` set vs)) db remaining remaining' db' (?a # as)"
      by (rule spreads_Cons[OF sp pos a(4,2,5,1) notin db2])
    then show ?thesis by auto
  qed
qed

section \<open>Clearing\<close>

lemma resolve_invoices_Inr:
  assumes "resolve_invoices_for_allocation env p db = Inr vs"
  shows "\<forall>v\<in>set vs. v \<in> set (bl_invoices db) \<and> iv_tenant_id v = mf_tenant_id p"
    and "distinct (map iv_id (bl_invoices db)) \<Longrightarrow> distinct (map iv_id vs)"
proof -
  consider v where "vs = [v]" "v \<in> set (bl_invoices db)" "iv_tenant_id v = mf_tenant_id p"
    | s where "vs = find_fee_invoices_for_allocation db (me_locked env) (mf_tenant_id p) s None"
    using assms by (auto simp: resolve_invoices_for_allocation_def lock_manual_fee_invoice_def invoice_at_def
        split: option.splits if_splits dest!: select_first_Some)
  then have "(\<forall>v\<in>set vs. v \<in> set (bl_invoices db) \<and> iv_tenant_id v = mf_tenant_id p) \<and>
      (distinct (map iv_id (bl_invoices db)) \<longrightarrow> distinct (map iv_id vs))"
  proof cases
    case 2
    have "distinct (map iv_id vs)" if "distinct (map iv_id (bl_invoices db))"
    proof -
      have "distinct vs" using that unfolding 2 find_fee_invoices_for_allocation_def by (simp add: distinct_map)
      moreover have "inj_on iv_id (set vs)" using that unfolding 2 find_fee_invoices_for_allocation_def
        by (auto simp: distinct_map intro: inj_on_subset)
      ultimately show ?thesis by (simp add: distinct_map)
    qed
    moreover have "\<forall>v\<in>set vs. v \<in> set (bl_invoices db) \<and> iv_tenant_id v = mf_tenant_id p"
      unfolding 2 by (auto simp: find_fee_invoices_for_allocation_def open_for_allocation_def)
    ultimately show ?thesis by blast
  qed simp
  then show "\<forall>v\<in>set vs. v \<in> set (bl_invoices db) \<and> iv_tenant_id v = mf_tenant_id p"
    and "distinct (map iv_id (bl_invoices db)) \<Longrightarrow> distinct (map iv_id vs)" by blast+
qed

definition payment_unallocated :: "'a manual_db_scheme \<Rightarrow> uuid \<Rightarrow> bool" where
  "payment_unallocated db i \<longleftrightarrow> (\<forall>a\<in>set (mf_allocations db). ma_manual_payment_id a \<noteq> i)"

text \<open>What a clearing adds: allocations that sum to the amount, each invoice at most once.\<close>

definition cleared_allocations :: "manual_payment \<Rightarrow> invoice list \<Rightarrow> manual_allocation list \<Rightarrow> bool" where
  "cleared_allocations p vs as \<longleftrightarrow>
     sum_list (map ma_amount_minor as) = mf_amount_minor p \<and> distinct (map ma_invoice_id as) \<and>
     (\<forall>a\<in>set as. 0 < ma_amount_minor a \<and> ma_manual_payment_id a = mf_id p \<and> ma_tenant_id a = mf_tenant_id p \<and>
        (ma_invoice_id a \<noteq> None \<longrightarrow> ma_allocation_type a = AllocInvoice \<and>
          (\<exists>v\<in>set vs. ma_invoice_id a = Some (iv_id v) \<and> iv_tenant_id v = mf_tenant_id p))) \<and>
     (\<forall>v\<in>set vs. 0 < allocated as v \<longrightarrow> iv_amount_paid_minor v + allocated as v \<le> iv_total_amount_minor v)"

lemma allocate_cleared_Inr:
  assumes al: "allocate_cleared_payment rt env p db = Inr (n, db')"
    and ids: "distinct (map iv_id (bl_invoices db))" and fresh: "payment_unallocated db (mf_id p)" and pos: "0 \<le> mf_amount_minor p"
  shows "\<exists>as. db' = db\<lparr>mf_allocations := mf_allocations db @ as, bl_invoices := map (fold (paid_alloc rt) as) (bl_invoices db)\<rparr> \<and>
    cleared_allocations p (bl_invoices db) as"
proof -
  from al obtain vs remaining m db1 where vs: "resolve_invoices_for_allocation env p db = Inr vs"
    and loop: "allocate_manual_loop rt env p vs (mf_amount_minor p) 0 db = Inr (remaining, m, db1)"
    and rest: "(if 0 < remaining
       then and_then (create_manual_allocation env (manual_allocation_row rt p None (mf_student_id p) AllocCredit remaining
              [(''receipt_number'', JStr (mf_receipt_number p)), (''reason'', JStr ''manual_payment_overage'')]) db1)
            (\<lambda>db2. Inr (Suc m, db2))
       else Inr (m, db1)) = Inr (n, db')"
    by (auto simp: allocate_cleared_payment_def and_then_eq_Inr)
  note res = resolve_invoices_Inr[OF vs]
  obtain as where sp: "spreads rt p (iv_id ` set vs) db (mf_amount_minor p) remaining db1 as"
    using allocate_manual_loop_Inr[OF loop ids res(2)[OF ids] res(1) _ pos] fresh by (auto simp: payment_unallocated_def)
  then have target: "\<exists>v\<in>set (bl_invoices db). ma_invoice_id a = Some (iv_id v) \<and> iv_tenant_id v = mf_tenant_id p" if "a \<in> set as" for a
    using res(1) that by (fastforce simp: spreads_def)
  show ?thesis
  proof (cases "0 < remaining")
    case False
    with rest sp target show ?thesis by (auto simp: spreads_def cleared_allocations_def intro!: exI[of _ as])
  next
    case True
    let ?a = "manual_allocation_row rt p None (mf_student_id p) AllocCredit remaining
        [(''receipt_number'', JStr (mf_receipt_number p)), (''reason'', JStr ''manual_payment_overage'')]
        (fresh_uuid (map ma_id (mf_allocations db1)))"
    have a: "ma_invoice_id ?a = None" "ma_tenant_id ?a = mf_tenant_id p" "ma_amount_minor ?a = remaining" "ma_manual_payment_id ?a = mf_id p"
      by (simp_all add: manual_allocation_row_def)
    have none: "\<not> list_ex (same_allocation ?a) xs" for xs by (auto simp: list_ex_iff same_allocation_def a)
    have "create_manual_allocation env (manual_allocation_row rt p None (mf_student_id p) AllocCredit remaining
        [(''receipt_number'', JStr (mf_receipt_number p)), (''reason'', JStr ''manual_payment_overage'')]) db1 = Inr db'"
      using rest True by (auto simp: and_then_eq_Inr)
    from create_manual_allocation_Inr(2)[OF this]
    have "db' = db1\<lparr>mf_allocations := mf_allocations db1 @ [?a]\<rparr>" by (simp add: Let_def none)
    moreover have "fold (paid_alloc rt) (as @ [?a]) = fold (paid_alloc rt) as"
      by (intro ext) (simp add: paid_alloc_def a)
    ultimately have "db' = db\<lparr>mf_allocations := mf_allocations db @ as @ [?a],
        bl_invoices := map (fold (paid_alloc rt) (as @ [?a])) (bl_invoices db)\<rparr>"
      using sp by (simp add: spreads_def)
    moreover have "allocated (as @ [?a]) v = allocated as v" for v by (simp add: allocated_def a)
    moreover have "None \<notin> ma_invoice_id ` set as" using sp by (auto simp: spreads_def)
    ultimately show ?thesis using sp True a target
      by (intro exI[of _ "as @ [?a]"]) (auto simp: spreads_def cleared_allocations_def)
  qed
qed

lemma clear_locked_Inr:
  assumes "clear_locked_payment rt env p dto db = Inr (q, db')" and "mf_status p \<noteq> FpCleared"
  obtains posted db1 n db2 cleared_at where "mf_status p = FpReceived \<or> mf_status p = FpDeposited"
    and "post_receipt_transaction rt p dto db = Inr (posted, db1)"
    and "allocate_cleared_payment rt env p db1 = Inr (n, db2)"
    and "mark_cleared rt (mf_tenant_id p) (mf_id p) (pt_transaction_id posted) cleared_at
          (read_string (um_deposit_reference dto)) (read_string (um_notes dto))
          (json_merge (or_default (um_metadata dto) []) [(''allocation_count'', JNum (show_nat n))]) db2 = Inr (q, db')"
  using assms by (auto simp: clear_locked_payment_def and_then_eq_Inr split: if_splits)

section \<open>The schema's indexes\<close>

lemma schema_has_no_arbiter:
  "\<not> infers_arbiter manual_allocation_indexes [''tenant_id'', ''manual_payment_id'', ''invoice_id'', ''allocation_type'']"
  by code_simp

lemma no_allocation_is_created: "me_indexes env = manual_allocation_indexes \<Longrightarrow>
    create_manual_allocation env mk db = Inl (PgError ''42P10'' '''')"
  by (simp add: create_manual_allocation_def schema_has_no_arbiter)

lemma blocked_loop:
  "allocate_manual_loop rt env p vs remaining n db = Inr (r, m, db') \<Longrightarrow> me_indexes env = manual_allocation_indexes \<Longrightarrow>
     r = remaining"
  by (induction vs arbitrary: n db) (auto simp: Let_def and_then_eq_Inr no_allocation_is_created split: if_splits)

lemma schema_blocks_clearing:
  assumes "me_indexes env = manual_allocation_indexes" and "0 < mf_amount_minor p" and "mf_status p \<noteq> FpCleared"
  shows "clear_locked_payment rt env p dto db \<noteq> Inr (q, db')"
proof
  assume "clear_locked_payment rt env p dto db = Inr (q, db')"
  then show False
  proof (rule clear_locked_Inr[OF _ assms(3)])
    fix db1 n db2
    assume "allocate_cleared_payment rt env p db1 = Inr (n, db2)"
    then show False using assms(1,2)
      by (auto simp: allocate_cleared_payment_def and_then_eq_Inr no_allocation_is_created split: if_splits
          dest: blocked_loop)
  qed
qed

end
