(* ===== verification/Manual_Payments_Runs.thy ===== *)
theory Manual_Payments_Runs
  imports Manual_Payments_Facts "HOL-Library.Multiset"
begin

text \<open>
  Runs of operations on the manual payments of a database: each operation is one transaction that commits or
  leaves nothing. How a payment's status moves, and what a reversal does to the invoices.
\<close>

datatype manual_action =
    DoCreate create_manual_dto
  | DoDeposit string update_manual_dto
  | DoClear string update_manual_dto
  | DoBounce string update_manual_dto
  | DoReverse string update_manual_dto

fun manual_act ::
  "runtime \<Rightarrow> manual_env \<Rightarrow> manual_action \<Rightarrow> 'a manual_db_scheme \<Rightarrow> (manual_payment \<times> 'a manual_db_scheme) result" where
  "manual_act rt env (DoCreate dto) = create_manual_fee_payment False rt env dto"
| "manual_act rt env (DoDeposit i dto) = deposit_manual_fee_payment False rt i dto"
| "manual_act rt env (DoClear i dto) = clear_manual_fee_payment False rt env i dto"
| "manual_act rt env (DoBounce i dto) = bounce_manual_fee_payment False rt i dto"
| "manual_act rt env (DoReverse i dto) = reverse_manual_fee_payment False rt i dto"

definition manual_step ::
  "runtime \<times> manual_env \<times> manual_action \<Rightarrow> 'a manual_db_scheme \<Rightarrow> 'a manual_db_scheme" where
  "manual_step s db = (case s of (rt, env, act) \<Rightarrow> (case manual_act rt env act db of Inl _ \<Rightarrow> db | Inr (_, db') \<Rightarrow> db'))"

definition manual_run ::
  "(runtime \<times> manual_env \<times> manual_action) list \<Rightarrow> 'a manual_db_scheme \<Rightarrow> 'a manual_db_scheme" where
  "manual_run ss db = fold manual_step ss db"

section \<open>The way of a payment's status\<close>

definition status_path :: "fee_payment_method \<Rightarrow> fee_payment_status \<Rightarrow> fee_payment_status \<Rightarrow> bool" where
  "status_path m s s' \<longleftrightarrow> s' = s \<or>
     (case s of
        FpReceived \<Rightarrow> s' \<in> {FpDeposited, FpBounced} \<longrightarrow> m = PayCheque
      | FpDeposited \<Rightarrow> s' \<in> {FpCleared, FpReversed} \<or> s' = FpBounced \<and> m = PayCheque
      | FpCleared \<Rightarrow> s' = FpReversed
      | _ \<Rightarrow> False)"

definition advances :: "manual_payment \<Rightarrow> manual_payment \<Rightarrow> bool" where
  "advances p p' \<longleftrightarrow> mf_id p' = mf_id p \<and> mf_tenant_id p' = mf_tenant_id p \<and> mf_payment_method p' = mf_payment_method p \<and>
     mf_amount_minor p' = mf_amount_minor p \<and> mf_receipt_number p' = mf_receipt_number p \<and>
     mf_idempotency_key p' = mf_idempotency_key p \<and> status_path (mf_payment_method p) (mf_status p) (mf_status p')"

definition progress :: "manual_payment list \<Rightarrow> manual_payment list \<Rightarrow> bool" where
  "progress ps ps' \<longleftrightarrow> distinct (map mf_id ps') \<and> (\<forall>p\<in>set ps. \<exists>p'\<in>set ps'. advances p p')"

lemma status_path_refl [simp]: "status_path m s s"
  by (simp add: status_path_def)

lemma status_path_trans: "status_path m s1 s2 \<Longrightarrow> status_path m s2 s3 \<Longrightarrow> status_path m s1 s3"
  by (cases s1; cases s2; auto simp: status_path_def)

lemma advances_refl [simp]: "advances p p"
  by (simp add: advances_def)

lemma advances_trans: "advances p q \<Longrightarrow> advances q r \<Longrightarrow> advances p r"
  by (auto simp: advances_def intro: status_path_trans)

lemma progress_refl: "distinct (map mf_id ps) \<Longrightarrow> progress ps ps"
  unfolding progress_def by (blast intro: advances_refl)

lemma progress_trans: "progress ps qs \<Longrightarrow> progress qs rs \<Longrightarrow> progress ps rs"
  unfolding progress_def by (blast intro: advances_trans)

lemma progress_update:
  assumes "distinct (map mf_id ps)" and "\<And>q. mf_id (f q) = mf_id q"
    and adv: "\<And>q. q \<in> set ps \<Longrightarrow> at q \<Longrightarrow> advances q (f q)"
  shows "progress ps (update_where at f ps)"
proof -
  have "map mf_id (update_where at f ps) = map mf_id ps" by (rule update_where_map_key) (rule assms(2))
  moreover have "\<exists>q'\<in>set (update_where at f ps). advances q q'" if q: "q \<in> set ps" for q
    using adv[OF q] q by (intro bexI[of _ "if at q then f q else q"]) (auto simp: set_update_where)
  ultimately show ?thesis using assms(1) by (simp add: progress_def)
qed

lemma mark_progress:
  assumes "update_manual_payment t (mf_id p) f db = Inr (q, db')" and "distinct (map mf_id (mf_payments db))"
    and "p \<in> set (mf_payments db)" "mf_tenant_id p = t" and "advances p (f p)" and "\<And>q. mf_id (f q) = mf_id q"
  shows "progress (mf_payments db) (mf_payments db')"
proof -
  have "q' = p" if "q' \<in> set (mf_payments db)" "payment_id_at t (mf_id p) q'" for q'
    using assms(2,3) that by (auto simp: payment_id_at_def distinct_map dest: inj_onD)
  then have "progress (mf_payments db) (update_where (payment_id_at t (mf_id p)) f (mf_payments db))"
    by (intro progress_update[OF assms(2,6)]) (use assms(5) in blast)
  then show ?thesis using update_manual_payment_Inr[OF assms(1)] by simp
qed

lemma allocate_loop_payments:
  "allocate_manual_loop rt env p vs remaining n db = Inr (r, m, db') \<Longrightarrow> mf_payments db' = mf_payments db"
proof (induction vs arbitrary: remaining n db)
  case (Cons v vs)
  show ?case using Cons.prems
    by (auto simp: Let_def and_then_eq_Inr split: if_splits dest!: Cons.IH apply_manual_Inr create_manual_allocation_Inr(2))
qed simp

lemma allocate_cleared_payments:
  "allocate_cleared_payment rt env p db = Inr (n, db') \<Longrightarrow> mf_payments db' = mf_payments db"
  by (auto simp: allocate_cleared_payment_def and_then_eq_Inr Let_def split: if_splits
      dest!: allocate_loop_payments create_manual_allocation_Inr(2))

lemma clear_locked_progress:
  assumes cl: "clear_locked_payment rt env p dto db = Inr (q, db')" and ids: "distinct (map mf_id (mf_payments db))"
    and p: "p \<in> set (mf_payments db)"
  shows "progress (mf_payments db) (mf_payments db')"
proof (cases "mf_status p = FpCleared")
  case True
  with cl show ?thesis using progress_refl[OF ids] by (simp add: clear_locked_payment_def)
next
  case False
  from cl False show ?thesis
  proof (rule clear_locked_Inr)
    fix posted db1 n db2 cleared_at
    assume s: "mf_status p = FpReceived \<or> mf_status p = FpDeposited"
      and post: "post_receipt_transaction rt p dto db = Inr (posted, db1)"
      and al: "allocate_cleared_payment rt env p db1 = Inr (n, db2)"
      and mark: "mark_cleared rt (mf_tenant_id p) (mf_id p) (pt_transaction_id posted) cleared_at
          (read_string (um_deposit_reference dto)) (read_string (um_notes dto))
          (json_merge (or_default (um_metadata dto) []) [(''allocation_count'', JNum (show_nat n))]) db2 = Inr (q, db')"
    from post have "mf_payments db1 = mf_payments db"
      by (auto simp: post_receipt_transaction_def and_then_eq_Inr dest: post_manual_frame(1))
    with allocate_cleared_payments[OF al] have same: "mf_payments db2 = mf_payments db" by simp
    show "progress (mf_payments db) (mf_payments db')"
      using mark_progress[OF mark[unfolded mark_cleared_def], unfolded same, OF ids p refl] s
      by (auto simp: advances_def status_path_def)
  qed
qed

lemma reverse_allocations_payments:
  "reverse_allocations rt t as db = Inr db' \<Longrightarrow> mf_payments db' = mf_payments db"
  by (induction rt t as db rule: reverse_allocations.induct)
    (auto simp: and_then_eq_Inr reverse_manual_fee_invoice_payment_def split: option.splits if_splits)

lemma create_row_cases:
  assumes "create_manual_payment_row rt i db = Inr (p, db')"
  obtains (old) q where "q \<in> set (mf_payments db)" and "p = q\<lparr>mf_updated_at := rt_now rt\<rparr>"
    and "db' = db\<lparr>mf_payments := update_where (payment_key_at (mi_tenant_id i) (mi_idempotency_key i))
           (\<lambda>q. q\<lparr>mf_updated_at := rt_now rt\<rparr>) (mf_payments db)\<rparr>"
    and "payment_key_at (mi_tenant_id i) (mi_idempotency_key i) q"
  | (new) "mf_id p = fresh_uuid (map mf_id (mf_payments db))" and "mf_status p = mi_status i" and "0 < mf_amount_minor p"
    and "mf_payment_method p = mi_payment_method i" and "db' = db\<lparr>mf_payments := mf_payments db @ [p]\<rparr>"
proof (cases "select_first (payment_key_at (mi_tenant_id i) (mi_idempotency_key i)) (mf_payments db)")
  case None
  with assms show ?thesis
    by (intro new) (auto simp: create_manual_payment_row_def and_then_eq_Inr Let_def manual_payment_checks_def manual_payment_row_def)
next
  case (Some q)
  with assms select_first_Some[OF Some] show ?thesis
    by (intro old[of q]) (auto simp: create_manual_payment_row_def and_then_eq_Inr Let_def)
qed

lemma create_row_progress:
  assumes cr: "create_manual_payment_row rt i db = Inr (p, db')" and ids: "distinct (map mf_id (mf_payments db))"
  shows "progress (mf_payments db) (mf_payments db')" and "p \<in> set (mf_payments db')"
  using cr
proof (induct rule: create_row_cases)
  case (old q)
  {
    case 1
    show ?case unfolding old(3) by (simp, rule progress_update[OF ids]) (simp_all add: advances_def)
  next
    case 2
    show ?case using old(1,2,4) unfolding old(3) by (auto simp: set_update_where)
  }
next
  case new
  {
    case 1
    show ?case unfolding new(5) using ids new(1) fresh_uuid_notin[of "map mf_id (mf_payments db)"]
      by (auto simp: progress_def intro: advances_refl)
  next
    case 2
    show ?case by (simp add: new(5))
  }
qed

lemma manual_act_progress:
  assumes act: "manual_act rt env a db = Inr (q, db')" and ids: "distinct (map mf_id (mf_payments db))"
  shows "progress (mf_payments db) (mf_payments db')"
proof (cases a)
  case (DoCreate dto)
  with act obtain i p db1 where cr: "create_manual_payment_row rt i db = Inr (p, db1)"
    and rest: "(if mf_status p = FpCleared \<or> mf_status p = FpReversed \<or> mf_payment_method p = PayCheque then Inr (p, db1)
       else clear_locked_payment rt env p
         \<lparr>um_occurred_at = cm_received_at dto, um_deposit_reference = cm_deposit_reference dto,
          um_notes = cm_notes dto, um_metadata = Some [(''cleared_on_create'', JBool True)]\<rparr> db1) = Inr (q, db')"
    by (auto simp: create_manual_fee_payment_def with_request_transaction_Inr and_then_eq_Inr)
  note c = create_row_progress[OF cr ids]
  have ids1: "distinct (map mf_id (mf_payments db1))" using c(1) by (simp add: progress_def)
  have "progress (mf_payments db1) (mf_payments db')"
    using rest progress_refl[OF ids1] clear_locked_progress[OF _ ids1 c(2)] by (auto split: if_splits)
  with c(1) show ?thesis by (rule progress_trans)
next
  case (DoClear i dto)
  with act show ?thesis
    by (auto simp: clear_manual_fee_payment_def elim!: on_locked_payment_Inr dest!: require_locked_payment_Inr
        intro: clear_locked_progress[OF _ ids])
next
  case (DoDeposit i dto)
  with act obtain t p d where p: "p \<in> set (mf_payments db)" "mf_tenant_id p = t" "mf_payment_method p = PayCheque" "mf_status p = FpReceived"
    and m: "mark_deposited rt t (mf_id p) d (read_string (um_deposit_reference dto))
           (read_string (um_notes dto)) (or_default (um_metadata dto) []) db = Inr (q, db')"
    by (auto simp: deposit_manual_fee_payment_def and_then_eq_Inr elim!: on_locked_payment_Inr dest!: require_locked_payment_Inr
        split: if_splits)
  show ?thesis using mark_progress[OF m[unfolded mark_deposited_def] ids p(1,2)] p(3,4) by (auto simp: advances_def status_path_def)
next
  case (DoBounce i dto)
  with act obtain t p d where p: "p \<in> set (mf_payments db)" "mf_tenant_id p = t" "mf_payment_method p = PayCheque"
      "mf_status p = FpReceived \<or> mf_status p = FpDeposited"
    and m: "mark_bounced rt t (mf_id p) d (read_string (um_notes dto)) (or_default (um_metadata dto) []) db = Inr (q, db')"
    by (auto simp: bounce_manual_fee_payment_def and_then_eq_Inr elim!: on_locked_payment_Inr dest!: require_locked_payment_Inr
        split: if_splits)
  show ?thesis using mark_progress[OF m[unfolded mark_bounced_def] ids p(1,2)] p(3,4) by (auto simp: advances_def status_path_def)
next
  case (DoReverse i dto)
  with act obtain t p posted db1 db2 d where p: "p \<in> set (mf_payments db)" "mf_tenant_id p = t" "mf_status p = FpCleared"
    and post: "post_reversal_transaction rt p dto db = Inr (posted, db1)"
    and rev: "reverse_allocations rt t (list_manual_allocations db1 t (mf_id p)) db1 = Inr db2"
    and m: "mark_reversed rt t (mf_id p) (pt_transaction_id posted) d (read_string (um_notes dto))
           (or_default (um_metadata dto) []) db2 = Inr (q, db')"
    by (auto simp: reverse_manual_fee_payment_def and_then_eq_Inr elim!: on_locked_payment_Inr dest!: require_locked_payment_Inr
        split: if_splits)
  have same: "mf_payments db2 = mf_payments db"
    using post reverse_allocations_payments[OF rev]
    by (auto simp: post_reversal_transaction_def and_then_eq_Inr dest: post_manual_frame(1))
  show ?thesis using mark_progress[OF m[unfolded mark_reversed_def], unfolded same, OF ids p(1,2)] p(3)
    by (auto simp: advances_def status_path_def)
qed

lemma manual_run_progress: "distinct (map mf_id (mf_payments db)) \<Longrightarrow> progress (mf_payments db) (mf_payments (manual_run ss db))"
proof (induction ss arbitrary: db)
  case Nil
  then show ?case by (simp add: manual_run_def progress_refl)
next
  case (Cons s ss)
  have step: "progress (mf_payments db) (mf_payments (manual_step s db))"
    using manual_act_progress[OF _ Cons.prems] progress_refl[OF Cons.prems]
    by (auto simp: manual_step_def split: prod.splits sum.splits)
  then have "distinct (map mf_id (mf_payments (manual_step s db)))" by (simp add: progress_def)
  from progress_trans[OF step Cons.IH[OF this]] show ?case by (simp add: manual_run_def)
qed

section \<open>Under the schema's indexes\<close>

definition never_cleared :: "manual_payment list \<Rightarrow> bool" where
  "never_cleared ps \<longleftrightarrow> (\<forall>p\<in>set ps. 0 < mf_amount_minor p \<and> mf_status p \<in> {FpReceived, FpDeposited, FpBounced})"

lemma marked_never_cleared:
  assumes "update_manual_payment t i f db = Inr (q, db')" and "never_cleared (mf_payments db)"
    and "\<And>p. mf_amount_minor (f p) = mf_amount_minor p" and "\<And>p. mf_status (f p) \<in> {FpDeposited, FpBounced}"
  shows "never_cleared (mf_payments db') \<and> db' = db\<lparr>mf_payments := mf_payments db'\<rparr>"
  using update_manual_payment_Inr[OF assms(1)] assms(2-4) by (auto simp: never_cleared_def set_update_where)

lemma blocked_act:
  assumes act: "manual_act rt env a db = Inr (q, db')" and env: "me_indexes env = manual_allocation_indexes"
    and inv: "never_cleared (mf_payments db)"
  shows "never_cleared (mf_payments db') \<and> db' = db\<lparr>mf_payments := mf_payments db'\<rparr>"
proof (cases a)
  case (DoCreate dto)
  with act obtain i p db1 where cr: "create_manual_payment_row rt i db = Inr (p, db1)" and st: "mi_status i = FpReceived"
    and rest: "(if mf_status p = FpCleared \<or> mf_status p = FpReversed \<or> mf_payment_method p = PayCheque then Inr (p, db1)
       else clear_locked_payment rt env p
         \<lparr>um_occurred_at = cm_received_at dto, um_deposit_reference = cm_deposit_reference dto,
          um_notes = cm_notes dto, um_metadata = Some [(''cleared_on_create'', JBool True)]\<rparr> db1) = Inr (q, db')"
    by (fastforce simp: create_manual_fee_payment_def with_request_transaction_Inr and_then_eq_Inr)
  from cr have n: "never_cleared (mf_payments db1) \<and> db1 = db\<lparr>mf_payments := mf_payments db1\<rparr> \<and>
      0 < mf_amount_minor p \<and> mf_status p \<noteq> FpCleared"
    by (cases rule: create_row_cases) (use inv st in \<open>auto simp: never_cleared_def set_update_where\<close>)
  then have "db' = db1" using rest by (auto simp: schema_blocks_clearing[OF env] split: if_splits)
  with n show ?thesis by simp
next
  case (DoClear i dto)
  with act obtain p where p: "p \<in> set (mf_payments db)" and cl: "clear_locked_payment rt env p dto db = Inr (q, db')"
    by (auto simp: clear_manual_fee_payment_def elim!: on_locked_payment_Inr dest!: require_locked_payment_Inr)
  have "0 < mf_amount_minor p \<and> mf_status p \<noteq> FpCleared" using inv p by (auto simp: never_cleared_def)
  then show ?thesis using schema_blocks_clearing[OF env] cl by blast
next
  case (DoDeposit i dto)
  with act obtain t d and p :: manual_payment where "mark_deposited rt t (mf_id p) d (read_string (um_deposit_reference dto))
      (read_string (um_notes dto)) (or_default (um_metadata dto) []) db = Inr (q, db')"
    by (fastforce simp: deposit_manual_fee_payment_def and_then_eq_Inr elim!: on_locked_payment_Inr split: if_splits)
  from marked_never_cleared[OF this[unfolded mark_deposited_def] inv] show ?thesis by simp
next
  case (DoBounce i dto)
  with act obtain t d and p :: manual_payment where
    "mark_bounced rt t (mf_id p) d (read_string (um_notes dto)) (or_default (um_metadata dto) []) db = Inr (q, db')"
    by (fastforce simp: bounce_manual_fee_payment_def and_then_eq_Inr elim!: on_locked_payment_Inr split: if_splits)
  from marked_never_cleared[OF this[unfolded mark_bounced_def] inv] show ?thesis by simp
next
  case (DoReverse i dto)
  with act obtain p where "p \<in> set (mf_payments db)" "mf_status p = FpCleared"
    by (auto simp: reverse_manual_fee_payment_def elim!: on_locked_payment_Inr dest!: require_locked_payment_Inr split: if_splits)
  with inv show ?thesis by (auto simp: never_cleared_def)
qed

lemma blocked_run:
  assumes "\<forall>(rt, env, a)\<in>set ss. me_indexes env = manual_allocation_indexes" and "never_cleared (mf_payments db)"
  shows "never_cleared (mf_payments (manual_run ss db)) \<and> manual_run ss db = db\<lparr>mf_payments := mf_payments (manual_run ss db)\<rparr>"
  using assms
proof (induction ss arbitrary: db)
  case (Cons s ss)
  obtain rt env a where s: "s = (rt, env, a)" by (cases s) auto
  have "never_cleared (mf_payments (manual_step s db)) \<and> manual_step s db = db\<lparr>mf_payments := mf_payments (manual_step s db)\<rparr>"
    using Cons.prems blocked_act[of rt env a db] by (auto simp: manual_step_def s split: sum.splits)
  then obtain ps where ps: "manual_step s db = db\<lparr>mf_payments := ps\<rparr>" "never_cleared ps" by auto
  have "never_cleared (mf_payments (manual_run ss (manual_step s db))) \<and>
      manual_run ss (manual_step s db) = (manual_step s db)\<lparr>mf_payments := mf_payments (manual_run ss (manual_step s db))\<rparr>"
    by (rule Cons.IH) (use Cons.prems(1) ps in auto)
  then show ?case unfolding ps(1) by (simp add: manual_run_def ps(1))
qed (simp add: manual_run_def)

section \<open>Taking a payment back\<close>

lemma reverse_allocations_Inr:
  "reverse_allocations rt t as db = Inr db' \<Longrightarrow> \<forall>a\<in>set as. ma_tenant_id a = t \<Longrightarrow>
     db' = db\<lparr>bl_invoices := map (fold (reversed_alloc rt) as) (bl_invoices db)\<rparr>"
proof (induction as arbitrary: db)
  case (Cons a as)
  have a: "ma_tenant_id a = t" using Cons.prems(2) by simp
  show ?case
  proof (cases "ma_invoice_id a \<noteq> None \<and> ma_allocation_type a = AllocInvoice")
    case True
    then obtain i db1 where i: "ma_invoice_id a = Some i"
      and r: "reverse_manual_fee_invoice_payment rt t i (ma_amount_minor a) InvOpen db = Inr db1"
      and rest: "reverse_allocations rt t as db1 = Inr db'"
      using Cons.prems(1) by (auto simp: and_then_eq_Inr)
    have "db1 = db\<lparr>bl_invoices := map (reversed_alloc rt a) (bl_invoices db)\<rparr>"
      using r True i a by (auto simp: reverse_manual_fee_invoice_payment_def update_where_def reversed_alloc_def invoice_at_def
          split: if_splits)
    with Cons.IH[OF rest] Cons.prems(2) show ?thesis by simp
  next
    case False
    then have "reverse_allocations rt t as db = Inr db'" using Cons.prems(1) by (auto split: option.splits)
    moreover have "reversed_alloc rt a = id" using False by (auto simp: reversed_alloc_def fun_eq_iff)
    ultimately show ?thesis using Cons.IH Cons.prems(2) by simp
  qed
qed simp

lemma allocated_sorted: "allocated (sort_key k as) v = allocated as v"
proof -
  have "mset (map ma_amount_minor (filter P (sort_key k as))) = mset (map ma_amount_minor (filter P as))" for P by simp
  then have "sum_list (map ma_amount_minor (filter P (sort_key k as))) = sum_list (map ma_amount_minor (filter P as))" for P
    by (metis sum_mset_sum_list)
  then show ?thesis unfolding allocated_def .
qed

lemma list_new_allocations:
  assumes "payment_unallocated db i" and "mf_allocations db' = mf_allocations db @ as"
    and "\<forall>a\<in>set as. ma_manual_payment_id a = i \<and> ma_tenant_id a = t"
  shows "list_manual_allocations db' t i = sort_key (\<lambda>a. (ma_created_at a, int (ma_id a))) as"
proof -
  have "filter (\<lambda>a. ma_tenant_id a = t \<and> ma_manual_payment_id a = i) (mf_allocations db) = []"
    using assms(1) by (auto simp: payment_unallocated_def filter_empty_conv)
  moreover have "filter (\<lambda>a. ma_tenant_id a = t \<and> ma_manual_payment_id a = i) as = as"
    using assms(3) by (auto simp: filter_id_conv)
  ultimately show ?thesis by (simp add: list_manual_allocations_def assms(2))
qed

lemma reversed_after_paid:
  assumes as: "\<forall>a\<in>set as. 0 < ma_amount_minor a \<and> (ma_invoice_id a \<noteq> None \<longrightarrow> ma_allocation_type a = AllocInvoice)"
    and v: "0 \<le> iv_amount_paid_minor v"
  shows "iv_amount_paid_minor (fold (reversed_alloc rt') (sort_key k as) (fold (paid_alloc rt) as v)) = iv_amount_paid_minor v"
proof -
  let ?w = "fold (paid_alloc rt) as v"
  have same: "allocated as ?w = allocated as v" by (simp add: allocated_def)
  have nn: "0 \<le> allocated as v" unfolding allocated_def by (rule sum_list_nonneg) (use as in auto)
  have "iv_amount_paid_minor (fold (reversed_alloc rt') (sort_key k as) ?w) =
      max (iv_amount_paid_minor ?w - allocated (sort_key k as) ?w) 0"
    by (rule fold_reversed_amount) (use as v nn in \<open>auto simp: fold_paid_amount less_imp_le\<close>)
  with v show ?thesis by (simp add: allocated_sorted same fold_paid_amount)
qed

end
