(* ===== verification/Manual_Payments_Books.thy ===== *)
theory Manual_Payments_Books
  imports Manual_Payments_Runs Ledger_Success
begin

text \<open>
  The two postings of a manual payment in the ledger: under keys and references nobody used before, a clearing
  moves the amount from the fee control account to the asset account, and a reversal moves it back.
\<close>

definition unused :: "string \<Rightarrow> string \<Rightarrow> 'a finance_db_scheme \<Rightarrow> bool" where
  "unused key reference db \<longleftrightarrow> list_all (\<lambda>r. ik_key r \<noteq> key) (fd_idempotency_keys db) \<and>
     list_all (\<lambda>t. tx_reference t \<noteq> reference) (fd_transactions db)"

lemma unused_iff: "unused key reference db \<longleftrightarrow>
    key \<notin> ik_key ` set (fd_idempotency_keys db) \<and> reference \<notin> tx_reference ` set (fd_transactions db)"
  by (auto simp: unused_def list_all_iff)

lemma ik_key_update:
  assumes "\<And>r. row_key (f r) = row_key r"
  shows "ik_key ` set (update_where q f rows) = ik_key ` set rows"
proof -
  have "map row_key (update_where q f rows) = map row_key rows" by (rule update_where_map_key) (rule assms)
  then have "(snd \<circ> snd) ` set (map row_key (update_where q f rows)) = (snd \<circ> snd) ` set (map row_key rows)" by simp
  then show ?thesis by (simp add: image_image row_key_def)
qed

lemma lock_keys:
  assumes "lock_request u m rt li rows0 = Inr (r, rows)"
  shows "ik_key ` set rows \<subseteq> insert (li_key li) (ik_key ` set rows0)"
proof -
  obtain rows1 where ins: "insert_if_absent rt li rows0 = Inr rows1"
    using assms by (auto simp: lock_request_def and_then_eq_Inr)
  then have "ik_key ` set rows = ik_key ` set rows1"
    using assms
    by (simp add: lock_request_def reset_expired_record_def relock_record_def update_returning_def split: option.splits if_splits)
      (force simp: ik_key_update)+
  with ins show ?thesis by (auto simp: insert_if_absent_Inr new_idem_row_def)
qed

lemma mark_completed_keys: "ik_key ` set (mark_completed rt t i c b rows) = ik_key ` set rows"
  unfolding mark_completed_def by (rule ik_key_update) simp

lemma lock_input_key: "lock_input_of rt input = Inr li \<Longrightarrow> li_key li = js_trim (pi_idempotency_key input)"
  by (auto simp: lock_input_of_def and_then_eq_Inr require_non_empty_text_def split: if_splits)

lemma post_unused:
  assumes cb: "post_transaction_callback rt input db = Inr (resp, db')" and un: "unused k ref db"
    and ne: "k \<noteq> js_trim (pi_idempotency_key input)" "ref \<noteq> js_trim (pi_reference input)"
  shows "unused k ref db'"
  using cb
proof (cases rule: post_cases)
  case (replay li r rows)
  then show ?thesis using un ne(1) lock_keys[OF replay(2)[unfolded finance_lock_request_def]] lock_input_key[OF replay(1)]
    by (auto simp: unused_iff)
next
  case (reuse t li r rows)
  have "ik_key ` set (fd_idempotency_keys db') \<subseteq> insert (li_key li) (ik_key ` set (fd_idempotency_keys db))"
    using lock_keys[OF reuse(3)[unfolded finance_lock_request_def]] by (simp add: reuse(11) mark_completed_keys)
  then show ?thesis using un ne(1) lock_input_key[OF reuse(2)] by (auto simp: unused_iff reuse(11))
next
  case (posted t li r rows plan x)
  have "ik_key ` set (fd_idempotency_keys db') \<subseteq> insert (li_key li) (ik_key ` set (fd_idempotency_keys db))"
    using lock_keys[OF posted(3)[unfolded finance_lock_request_def]] by (simp add: posted(10) mark_completed_keys)
  moreover have "tx_reference x = js_trim (pi_reference input)" using create_row_for_Inr(4)[OF posted(7)] .
  ultimately show ?thesis using un ne lock_input_key[OF posted(2)] by (auto simp: unused_iff posted(10))
qed

definition movements :: "ledger_entry list \<Rightarrow> (uuid \<times> entry_direction \<times> int) list" where
  "movements es = map (\<lambda>e. (le_account_id e, le_direction e, le_amount_minor e)) es"

lemma fresh_post_movements:
  assumes inv: "ledger_inv db" and post: "post_transaction nested rt input db = Inr (resp, db')"
    and un: "unused (js_trim (pi_idempotency_key input)) (js_trim (pi_reference input)) db"
  shows "\<exists>es. fd_ledger_entries db' = fd_ledger_entries db @ es \<and>
    movements es = map (\<lambda>q. (pe_account_id q, pe_direction q, parse_int (js_trim (pe_amount_minor q)))) (pi_entries input)"
proof -
  have cb: "post_transaction_callback rt input db = Inr (resp, db')" using post by (simp add: post_transaction_Inr[OF inv])
  obtain li where li: "lock_input_of rt input = Inr li" using post_attempt[OF cb] by blast
  have "get_locked_record (fd_idempotency_keys db) (input_key li) = None"
    using un lock_input_key[OF li]
    by (auto simp: unused_def list_all_iff get_locked_record_def select_first_None row_key_def input_key_def)
  moreover have "\<forall>t\<in>set (fd_transactions db). \<not> (tx_tenant_id t = li_tenant_id li \<and> tx_reference t = js_trim (pi_reference input))"
    using un by (auto simp: unused_def list_all_iff)
  ultimately obtain es where es: "fd_ledger_entries db' = fd_ledger_entries db @ es" "length es = length (pi_entries input)"
    and nth: "\<forall>k < length es. let e = es ! k; q = pi_entries input ! k in le_account_id e = pe_account_id q \<and>
      le_direction e = pe_direction q \<and> le_amount_minor e = parse_int (js_trim (pe_amount_minor q))"
    using posting_writes_request[OF inv post li] by (auto simp: Let_def)
  have "movements es = map (\<lambda>q. (pe_account_id q, pe_direction q, parse_int (js_trim (pe_amount_minor q)))) (pi_entries input)"
    unfolding movements_def by (rule nth_equalityI) (use es(2) nth in \<open>auto simp: Let_def\<close>)
  with es(1) show ?thesis by blast
qed

section \<open>Receipt and reversal\<close>

definition clear_key :: "manual_payment \<Rightarrow> string" where
  "clear_key p = ''manual-fee-payment:'' @ uuid_text (mf_id p) @ '':clear''"

definition reverse_key :: "manual_payment \<Rightarrow> string" where
  "reverse_key p = ''manual-fee-payment:'' @ uuid_text (mf_id p) @ '':reverse''"

definition clear_reference :: "manual_payment \<Rightarrow> string" where
  "clear_reference p = js_trim (''MANUAL-'' @ mf_receipt_number p)"

definition reverse_reference :: "manual_payment \<Rightarrow> string" where
  "reverse_reference p = js_trim (''REV-MANUAL-'' @ mf_receipt_number p)"

lemma manual_keys:
  "js_trim (pi_idempotency_key (receipt_posting p dto asset fee e)) = clear_key p"
  "js_trim (pi_idempotency_key (reversal_posting p dto asset fee e)) = reverse_key p"
  "js_trim (pi_reference (receipt_posting p dto asset fee e)) = clear_reference p"
  "js_trim (pi_reference (reversal_posting p dto asset fee e)) = reverse_reference p"
  by (simp_all add: receipt_posting_def reversal_posting_def clear_key_def reverse_key_def clear_reference_def
      reverse_reference_def js_trim_fixed is_space_def)

lemma js_trim_hd: "s \<noteq> [] \<Longrightarrow> \<not> is_space (hd s) \<Longrightarrow> js_trim s \<noteq> [] \<and> hd (js_trim s) = hd s"
proof -
  assume s: "s \<noteq> []" "\<not> is_space (hd s)"
  then obtain c r where c: "s = c # r" "\<not> is_space c" by (cases s) auto
  then have "js_trim s = rev (dropWhile is_space (rev r @ [c]))" by (simp add: js_trim_def)
  also have "\<dots> = c # rev (dropWhile is_space (rev r))"
    using c(2) by (induction "rev r" arbitrary: r) (auto simp: dropWhile_append)
  finally show ?thesis using c(1) by simp
qed

lemma manual_keys_differ: "clear_key p \<noteq> reverse_key p" "clear_reference p \<noteq> reverse_reference p"
proof -
  show "clear_key p \<noteq> reverse_key p" by (simp add: clear_key_def reverse_key_def)
  have "hd (clear_reference p) = CHR ''M''" "hd (reverse_reference p) = CHR ''R''"
    using js_trim_hd[of "''MANUAL-'' @ mf_receipt_number p"] js_trim_hd[of "''REV-MANUAL-'' @ mf_receipt_number p"]
    by (simp_all add: clear_reference_def reverse_reference_def is_space_def)
  then show "clear_reference p \<noteq> reverse_reference p" by auto
qed

end
