(* ===== verification/Manual_Payments_Effects.thy ===== *)
theory Manual_Payments_Effects
  imports Manual_Payments_Books
begin

text \<open>
  A clearing and a reversal as a whole: the rows, the invoices and the ledger entries they leave.
\<close>

lemma ledger_inv_cong:
  assumes "fd_idempotency_keys db' = fd_idempotency_keys db" "fd_accounts db' = fd_accounts db"
    "fd_transactions db' = fd_transactions db" "fd_ledger_entries db' = fd_ledger_entries db"
  shows "ledger_inv db' = ledger_inv db"
  using assms by (simp add: ledger_inv_def txn_entries_def cong: ball_cong)

lemma find_manual_payment_update:
  assumes "find_manual_payment db t i = Inr (Some p)" and "\<And>p. mf_tenant_id (f p) = mf_tenant_id p" "\<And>p. mf_id (f p) = mf_id p"
  shows "update_manual_payment t (mf_id p) f db =
      Inr (f p, db\<lparr>mf_payments := update_where (payment_id_at t (mf_id p)) f (mf_payments db)\<rparr>)"
    and "mf_payments db' = update_where (payment_id_at t (mf_id p)) f (mf_payments db) \<Longrightarrow> find_manual_payment db' t i = Inr (Some (f p))"
proof -
  from assms(1) obtain u where u: "pg_uuid i = Inr u" "select_first (payment_id_at t u) (mf_payments db) = Some p"
    by (auto simp: find_manual_payment_def and_then_eq_Inr)
  then have id: "u = mf_id p" "payment_id_at t u p" by (auto simp: payment_id_at_def dest: select_first_Some)
  have "select_first (payment_id_at t (mf_id p)) (update_where (payment_id_at t (mf_id p)) f (mf_payments db)) = Some (f p)"
    using u(2) id by (subst select_first_update_where) (auto simp: payment_id_at_def assms(2,3))
  then show "update_manual_payment t (mf_id p) f db =
      Inr (f p, db\<lparr>mf_payments := update_where (payment_id_at t (mf_id p)) f (mf_payments db)\<rparr>)"
    and "mf_payments db' = update_where (payment_id_at t (mf_id p)) f (mf_payments db) \<Longrightarrow> find_manual_payment db' t i = Inr (Some (f p))"
    using u(1) id(1) by (simp_all add: update_manual_payment_def find_manual_payment_def)
qed

lemma status_fields_codes [simp]:
  "mf_asset_account_code (status_fields rt d n m p) = mf_asset_account_code p"
  "mf_fee_control_account_code (status_fields rt d n m p) = mf_fee_control_account_code p"
  by (simp_all add: status_fields_def)

lemma post_accounts:
  assumes "post_transaction nested rt input db = Inr (resp, db')"
  shows "fd_accounts db' = fd_accounts db"
proof -
  have "post_transaction_callback rt input db = Inr (resp, db')"
    using assms by (simp add: post_transaction_def with_request_transaction_Inr)
  then show ?thesis by (cases rule: post_cases; simp)
qed

text \<open>The payment as the request finds it.\<close>

definition payment_at :: "runtime \<Rightarrow> string \<Rightarrow> 'a manual_db_scheme \<Rightarrow> manual_payment \<Rightarrow> bool" where
  "payment_at rt i db p \<longleftrightarrow> (\<exists>t. require_manual_tenant_id rt = Inr t \<and> find_manual_payment db t i = Inr (Some p))"

definition manual_tables :: "'a manual_db_scheme \<Rightarrow> bool" where
  "manual_tables db \<longleftrightarrow> ledger_inv db \<and> distinct (map iv_id (bl_invoices db)) \<and> list_all (\<lambda>v. 0 \<le> iv_amount_paid_minor v) (bl_invoices db)"

definition moves_for :: "'a finance_db_scheme \<Rightarrow> manual_payment \<Rightarrow> (account \<Rightarrow> account \<Rightarrow> (uuid \<times> entry_direction \<times> int) list) \<Rightarrow>
    'b finance_db_scheme \<Rightarrow> bool" where
  "moves_for db p m db' \<longleftrightarrow> (\<exists>asset fee es. find_account_by_code db (mf_tenant_id p) (mf_asset_account_code p) = Some asset \<and>
     find_account_by_code db (mf_tenant_id p) (mf_fee_control_account_code p) = Some fee \<and>
     fd_ledger_entries db' = fd_ledger_entries db @ es \<and> movements es = m asset fee)"

definition receipt_moves :: "manual_payment \<Rightarrow> account \<Rightarrow> account \<Rightarrow> (uuid \<times> entry_direction \<times> int) list" where
  "receipt_moves p asset fee = [(ac_id asset, Debit, mf_amount_minor p), (ac_id fee, Credit, mf_amount_minor p)]"

definition reversal_moves :: "manual_payment \<Rightarrow> account \<Rightarrow> account \<Rightarrow> (uuid \<times> entry_direction \<times> int) list" where
  "reversal_moves p asset fee = [(ac_id fee, Debit, mf_amount_minor p), (ac_id asset, Credit, mf_amount_minor p)]"

lemma require_manual_account_Inr:
  "require_manual_account db t code = Inr a \<longleftrightarrow> find_account_by_code db t code = Some a"
  by (simp add: require_manual_account_def split: option.splits)

lemma receipt_posted:
  assumes post: "post_receipt_transaction rt p dto db = Inr (posted, db')" and inv: "ledger_inv db"
    and un: "unused (clear_key p) (clear_reference p) db"
  shows "ledger_inv db'" and "moves_for db p (receipt_moves p) db'"
    and "unused (reverse_key p) (reverse_reference p) db \<Longrightarrow> unused (reverse_key p) (reverse_reference p) db'"
    and "mf_payments db' = mf_payments db" "mf_allocations db' = mf_allocations db" "bl_invoices db' = bl_invoices db"
    and "fd_accounts db' = fd_accounts db"
proof -
  obtain asset fee e where acc: "find_account_by_code db (mf_tenant_id p) (mf_asset_account_code p) = Some asset"
      "find_account_by_code db (mf_tenant_id p) (mf_fee_control_account_code p) = Some fee"
    and po: "post_transaction True rt (receipt_posting p dto asset fee e) db = Inr (posted, db')"
    using post by (auto simp: post_receipt_transaction_def and_then_eq_Inr require_manual_account_Inr)
  have cb: "post_transaction_callback rt (receipt_posting p dto asset fee e) db = Inr (posted, db')"
    using po by (simp add: post_transaction_Inr[OF inv])
  show "ledger_inv db'" by (rule post_callback_inv[OF inv cb])
  show "moves_for db p (receipt_moves p) db'"
    using fresh_post_movements[OF inv po, unfolded manual_keys, OF un] acc
    by (auto simp: moves_for_def receipt_moves_def receipt_posting_def manual_entry_def)
  show "unused (reverse_key p) (reverse_reference p) db'" if "unused (reverse_key p) (reverse_reference p) db"
    using post_unused[OF cb that, unfolded manual_keys] manual_keys_differ[of p] by simp
qed (use post post_manual_frame post_accounts in \<open>auto simp: post_receipt_transaction_def and_then_eq_Inr\<close>)

lemma reversal_posted:
  assumes post: "post_reversal_transaction rt p dto db = Inr (posted, db')" and inv: "ledger_inv db"
    and un: "unused (reverse_key p) (reverse_reference p) db"
  shows "ledger_inv db'" and "moves_for db p (reversal_moves p) db'"
    and "mf_payments db' = mf_payments db" "mf_allocations db' = mf_allocations db" "bl_invoices db' = bl_invoices db"
proof -
  obtain asset fee e where acc: "find_account_by_code db (mf_tenant_id p) (mf_asset_account_code p) = Some asset"
      "find_account_by_code db (mf_tenant_id p) (mf_fee_control_account_code p) = Some fee"
    and po: "post_transaction True rt (reversal_posting p dto asset fee e) db = Inr (posted, db')"
    using post by (auto simp: post_reversal_transaction_def and_then_eq_Inr require_manual_account_Inr)
  show "ledger_inv db'" using po by (auto simp: post_transaction_Inr[OF inv] intro: post_callback_inv[OF inv])
  show "moves_for db p (reversal_moves p) db'"
    using fresh_post_movements[OF inv po, unfolded manual_keys, OF un] acc
    by (auto simp: moves_for_def reversal_moves_def reversal_posting_def manual_entry_def)
qed (use post post_manual_frame in \<open>auto simp: post_reversal_transaction_def and_then_eq_Inr\<close>)

section \<open>Clearing\<close>

definition cleared_fields :: "runtime \<Rightarrow> uuid \<Rightarrow> int \<Rightarrow> string option \<Rightarrow> string option \<Rightarrow> (string \<times> json) list \<Rightarrow>
    manual_payment \<Rightarrow> manual_payment" where
  "cleared_fields rt ledger at d n meta p =
     (status_fields rt d n meta p)\<lparr>mf_status := FpCleared, mf_cleared_at := Some at, mf_ledger_transaction_id := Some ledger\<rparr>"

lemma cleared_payment:
  assumes cl: "clear_manual_fee_payment nested rt env i dto db = Inr (q, db')" and p: "payment_at rt i db p"
    and st: "mf_status p \<noteq> FpCleared" and tabs: "manual_tables db" and un: "payment_unallocated db (mf_id p)"
    and pos: "0 < mf_amount_minor p" and key: "unused (clear_key p) (clear_reference p) db"
  shows "\<exists>as ledger at d n meta. cleared_allocations p (bl_invoices db) as \<and> mf_allocations db' = mf_allocations db @ as \<and>
    bl_invoices db' = map (fold (paid_alloc rt) as) (bl_invoices db) \<and> q = cleared_fields rt ledger at d n meta p \<and>
    mf_payments db' = update_where (payment_id_at (mf_tenant_id p) (mf_id p)) (cleared_fields rt ledger at d n meta) (mf_payments db) \<and>
    ledger_inv db' \<and> moves_for db p (receipt_moves p) db' \<and> fd_accounts db' = fd_accounts db \<and>
    (unused (reverse_key p) (reverse_reference p) db \<longrightarrow> unused (reverse_key p) (reverse_reference p) db')"
proof -
  from p obtain t where t: "require_manual_tenant_id rt = Inr t" and found: "find_manual_payment db t i = Inr (Some p)"
    by (auto simp: payment_at_def)
  then have tp: "mf_tenant_id p = t" by (simp add: find_manual_payment_Some)
  from cl t found have "clear_locked_payment rt env p dto db = Inr (q, db')"
    by (auto simp: clear_manual_fee_payment_def require_locked_payment_def elim!: on_locked_payment_Inr)
  then show ?thesis
  proof (rule clear_locked_Inr[OF _ st])
    fix posted db1 n db2 at
    assume post: "post_receipt_transaction rt p dto db = Inr (posted, db1)"
      and al: "allocate_cleared_payment rt env p db1 = Inr (n, db2)"
      and mark: "mark_cleared rt (mf_tenant_id p) (mf_id p) (pt_transaction_id posted) at
          (read_string (um_deposit_reference dto)) (read_string (um_notes dto))
          (json_merge (or_default (um_metadata dto) []) [(''allocation_count'', JNum (show_nat n))]) db2 = Inr (q, db')"
    let ?d = "read_string (um_deposit_reference dto)" and ?n = "read_string (um_notes dto)"
      and ?meta = "json_merge (or_default (um_metadata dto) []) [(''allocation_count'', JNum (show_nat n))]"
    let ?f = "cleared_fields rt (pt_transaction_id posted) at ?d ?n ?meta"
    have inv: "ledger_inv db" and ids: "distinct (map iv_id (bl_invoices db))" using tabs by (simp_all add: manual_tables_def)
    note po = receipt_posted[OF post inv key]
    have "payment_unallocated db1 (mf_id p)" using un by (simp add: payment_unallocated_def po)
    then obtain as where db2: "db2 = db1\<lparr>mf_allocations := mf_allocations db1 @ as, bl_invoices := map (fold (paid_alloc rt) as) (bl_invoices db1)\<rparr>"
      and as: "cleared_allocations p (bl_invoices db1) as"
      using allocate_cleared_Inr[OF al] ids pos by (auto simp: po)
    have "find_manual_payment db2 t i = Inr (Some p)" using found by (simp add: find_manual_payment_def db2 po)
    from find_manual_payment_update(1)[OF this, of ?f] mark
    have q: "q = ?f p" and db': "db' = db2\<lparr>mf_payments := update_where (payment_id_at t (mf_id p)) ?f (mf_payments db2)\<rparr>"
      by (auto simp: mark_cleared_def tp cleared_fields_def[abs_def])
    have "ledger_inv db'" using po(1) by (subst ledger_inv_cong[of _ db1]) (simp_all add: db' db2)
    moreover have "moves_for db p (receipt_moves p) db'" using po(2) by (simp add: moves_for_def db' db2)
    moreover have "unused (reverse_key p) (reverse_reference p) db \<longrightarrow> unused (reverse_key p) (reverse_reference p) db'"
      using po(3) by (simp add: unused_def db' db2)
    ultimately show ?thesis using as q
      by (intro exI[of _ as] exI[of _ "pt_transaction_id posted"] exI[of _ at] exI[of _ ?d] exI[of _ ?n] exI[of _ ?meta])
        (simp add: db' db2 po tp)
  qed
qed

section \<open>Reversal\<close>

lemma cleared_fields_simps [simp]:
  "mf_id (cleared_fields rt l at d n m p) = mf_id p" "mf_tenant_id (cleared_fields rt l at d n m p) = mf_tenant_id p"
  "mf_status (cleared_fields rt l at d n m p) = FpCleared" "mf_amount_minor (cleared_fields rt l at d n m p) = mf_amount_minor p"
  "mf_receipt_number (cleared_fields rt l at d n m p) = mf_receipt_number p"
  "mf_asset_account_code (cleared_fields rt l at d n m p) = mf_asset_account_code p"
  "mf_fee_control_account_code (cleared_fields rt l at d n m p) = mf_fee_control_account_code p"
  "mf_ledger_transaction_id (cleared_fields rt l at d n m p) = Some l"
  by (simp_all add: cleared_fields_def)

lemma cleared_fields_keys [simp]:
  "reverse_key (cleared_fields rt l at d n m p) = reverse_key p"
  "reverse_reference (cleared_fields rt l at d n m p) = reverse_reference p"
  "reversal_moves (cleared_fields rt l at d n m p) = reversal_moves p"
  "moves_for db (cleared_fields rt l at d n m p) mv db' = moves_for db p mv db'"
  by (simp_all add: reverse_key_def reverse_reference_def reversal_moves_def[abs_def] moves_for_def)

lemma reversed_payment:
  assumes rv: "reverse_manual_fee_payment nested rt i dto db = Inr (q, db')" and p: "payment_at rt i db p"
    and inv: "ledger_inv db" and key: "unused (reverse_key p) (reverse_reference p) db"
    and allocs: "list_manual_allocations db (mf_tenant_id p) (mf_id p) = as" "\<forall>a\<in>set as. ma_tenant_id a = mf_tenant_id p"
  shows "mf_status q = FpReversed \<and> mf_id q = mf_id p \<and> bl_invoices db' = map (fold (reversed_alloc rt) as) (bl_invoices db) \<and>
    mf_allocations db' = mf_allocations db \<and> ledger_inv db' \<and> moves_for db p (reversal_moves p) db'"
proof -
  from p obtain t where t: "require_manual_tenant_id rt = Inr t" and found: "find_manual_payment db t i = Inr (Some p)"
    by (auto simp: payment_at_def)
  then have tp: "mf_tenant_id p = t" by (simp add: find_manual_payment_Some)
  from rv t found obtain posted db1 db2 at where
    post: "post_reversal_transaction rt p dto db = Inr (posted, db1)"
    and rev: "reverse_allocations rt t (list_manual_allocations db1 t (mf_id p)) db1 = Inr db2"
    and mark: "mark_reversed rt t (mf_id p) (pt_transaction_id posted) at (read_string (um_notes dto)) (or_default (um_metadata dto) []) db2 =
        Inr (q, db')"
    by (auto simp: reverse_manual_fee_payment_def require_locked_payment_def and_then_eq_Inr elim!: on_locked_payment_Inr split: if_splits)
  note po = reversal_posted[OF post inv key]
  have "list_manual_allocations db1 t (mf_id p) = as" using allocs(1) by (simp add: list_manual_allocations_def po tp)
  with rev have "reverse_allocations rt t as db1 = Inr db2" by simp
  from reverse_allocations_Inr[OF this] allocs(2)
  have db2: "db2 = db1\<lparr>bl_invoices := map (fold (reversed_alloc rt) as) (bl_invoices db)\<rparr>" by (simp add: tp po)
  have "find_manual_payment db2 t i = Inr (Some p)" using found by (simp add: find_manual_payment_def db2 po)
  from find_manual_payment_update(1)[OF this] mark[unfolded mark_reversed_def]
  have q: "mf_status q = FpReversed" "mf_id q = mf_id p"
    and db': "bl_invoices db' = bl_invoices db2" "mf_allocations db' = mf_allocations db2" "fd_idempotency_keys db' = fd_idempotency_keys db2"
      "fd_accounts db' = fd_accounts db2" "fd_transactions db' = fd_transactions db2" "fd_ledger_entries db' = fd_ledger_entries db2"
    by (auto simp: status_fields_def)
  have "ledger_inv db'" using po(1) by (subst ledger_inv_cong[of _ db1]) (simp_all add: db' db2)
  moreover have "moves_for db p (reversal_moves p) db'" using po(2) by (simp add: moves_for_def db' db2)
  ultimately show ?thesis using q db' by (simp add: db2 po)
qed

lemma moves_append:
  assumes "moves_for db p m1 db1" and "moves_for db1 p m2 db2" and "fd_accounts db1 = fd_accounts db"
  shows "moves_for db p (\<lambda>asset fee. m1 asset fee @ m2 asset fee) db2"
  using assms by (auto simp: moves_for_def movements_def find_account_by_code_def)

lemma cleared_then_reversed:
  assumes cl: "clear_manual_fee_payment nested rt env i dto db = Inr (q, db1)"
    and rv: "reverse_manual_fee_payment nested' rt' i dto' db1 = Inr (q', db2)"
    and same: "rt_tenant_id rt' = rt_tenant_id rt" and p: "payment_at rt i db p"
    and st: "mf_status p \<noteq> FpCleared" and tabs: "manual_tables db" and un: "payment_unallocated db (mf_id p)"
    and pos: "0 < mf_amount_minor p" and key: "unused (clear_key p) (clear_reference p) db"
    and key': "unused (reverse_key p) (reverse_reference p) db"
  shows "map iv_amount_paid_minor (bl_invoices db2) = map iv_amount_paid_minor (bl_invoices db) \<and>
    map iv_id (bl_invoices db2) = map iv_id (bl_invoices db) \<and> mf_status q' = FpReversed \<and> mf_id q' = mf_id p \<and> ledger_inv db2 \<and>
    moves_for db p (\<lambda>asset fee. receipt_moves p asset fee @ reversal_moves p asset fee) db2"
proof -
  obtain as l at d n m where as: "cleared_allocations p (bl_invoices db) as" and al: "mf_allocations db1 = mf_allocations db @ as"
    and inv1: "bl_invoices db1 = map (fold (paid_alloc rt) as) (bl_invoices db)" 
    and ps: "mf_payments db1 = update_where (payment_id_at (mf_tenant_id p) (mf_id p)) (cleared_fields rt l at d n m) (mf_payments db)"
    and li: "ledger_inv db1" and mv: "moves_for db p (receipt_moves p) db1" "fd_accounts db1 = fd_accounts db"
    and k1: "unused (reverse_key p) (reverse_reference p) db1"
    using cleared_payment[OF cl p st tabs un pos key] key' by blast
  let ?q = "cleared_fields rt l at d n m p"
  from p obtain t where t: "require_manual_tenant_id rt = Inr t" and found: "find_manual_payment db t i = Inr (Some p)"
    by (auto simp: payment_at_def)
  then have tp: "mf_tenant_id p = t" by (simp add: find_manual_payment_Some)
  have "find_manual_payment db1 t i = Inr (Some ?q)"
    by (rule find_manual_payment_update(2)[OF found]) (simp_all add: ps tp)
  then have p1: "payment_at rt' i db1 ?q" using t same by (auto simp: payment_at_def require_manual_tenant_id_def)
  have mine: "\<forall>a\<in>set as. ma_manual_payment_id a = mf_id p \<and> ma_tenant_id a = mf_tenant_id p"
    using as by (simp add: cleared_allocations_def)
  let ?k = "\<lambda>a. (ma_created_at a, int (ma_id a))"
  have listed: "list_manual_allocations db1 (mf_tenant_id ?q) (mf_id ?q) = sort_key ?k as"
    using list_new_allocations[OF un al mine] by simp
  have "\<forall>a\<in>set (sort_key ?k as). ma_tenant_id a = mf_tenant_id ?q" using mine by simp
  note r = reversed_payment[OF rv p1 li _ listed this, simplified, OF k1]
  have "iv_amount_paid_minor (fold (reversed_alloc rt') (sort_key ?k as) (fold (paid_alloc rt) as v)) = iv_amount_paid_minor v"
    if "v \<in> set (bl_invoices db)" for v
    by (rule reversed_after_paid) (use as tabs that in \<open>auto simp: cleared_allocations_def manual_tables_def list_all_iff\<close>)
  then show ?thesis using r moves_append[OF mv(1) _ mv(2)] by (auto simp: inv1)
qed

end
