(* ===== verification/Manual_Payments_Examples.thy ===== *)
theory Manual_Payments_Examples
  imports Manual_Payments_Effects
begin

text \<open>
  A school's cash receipt of 5 over an invoice of 3, and a cheque, for the witnesses: the clearing and the
  reversal computed.
\<close>

definition mp_rt :: runtime where
  "mp_rt = ex_rt\<lparr>rt_parse_date := (\<lambda>_. Some 7)\<rparr>"

definition mp_env :: manual_env where
  "mp_env = \<lparr>me_indexes = [\<lparr>ui_columns = [''tenant_id'', ''manual_payment_id'', ''invoice_id'', ''allocation_type''],
     ui_predicate = None\<rparr>], me_locked = (\<lambda>_. False), me_random_uuid = ''abcdefgh''\<rparr>"

definition mp_invoice :: invoice where
  "mp_invoice = \<lparr>iv_id = 4, iv_tenant_id = ''t1'', iv_subscription_id = 1, iv_invoice_number = ''I'', iv_status = InvOpen,
     iv_currency_code = ''KES'', iv_description = ''D'', iv_subtotal_amount_minor = 3, iv_tax_amount_minor = 0,
     iv_total_amount_minor = 3, iv_amount_paid_minor = 0, iv_billing_phone_number = None, iv_payment_intent_id = None,
     iv_issued_at = 0, iv_due_at = 0, iv_paid_at = None, iv_voided_at = None, iv_metadata = [], iv_created_at = 0,
     iv_updated_at = 0\<rparr>"

definition mp_payment :: "uuid \<Rightarrow> fee_payment_method \<Rightarrow> manual_payment" where
  "mp_payment i m = \<lparr>mf_id = i, mf_tenant_id = ''t1'', mf_idempotency_key = ''k'' @ show_nat i, mf_receipt_number = ''R'' @ show_nat i,
     mf_payment_method = m, mf_status = FpReceived, mf_student_id = None, mf_invoice_id = Some 4, mf_amount_minor = 5,
     mf_currency_code = ''KES'', mf_payer_name = None, mf_received_at = 0, mf_deposited_at = None, mf_cleared_at = None,
     mf_bounced_at = None, mf_reversed_at = None, mf_cheque_number = Some ''1'', mf_drawer_bank = Some ''B'',
     mf_deposit_reference = None, mf_external_reference = None, mf_asset_account_code = ''1110'',
     mf_fee_control_account_code = ''1100'', mf_ledger_transaction_id = None, mf_reversal_ledger_transaction_id = None,
     mf_notes = None, mf_metadata = [], mf_created_by_user_id = None, mf_created_at = 0, mf_updated_at = 0\<rparr>"

definition mp_db :: manual_db where
  "mp_db = \<lparr>fd_idempotency_keys = [], fd_accounts = ex_accounts, fd_transactions = [], fd_ledger_entries = [],
     fd_audit_logs = [], fd_sync_operations = [], ev_outbox = [], ev_runs = [], bl_subscriptions = [],
     bl_invoices = [mp_invoice], bl_allocations = [], bl_credits = [], bl_notifications = [], bl_usage = [],
     bl_fee_structures = [], mf_payments = [mp_payment 1 PayEft, mp_payment 2 PayCheque], mf_allocations = []\<rparr>"

definition mp_dto :: update_manual_dto where
  "mp_dto = \<lparr>um_occurred_at = None, um_deposit_reference = None, um_notes = None, um_metadata = None\<rparr>"

lemma mp_payment_fields:
  "mf_id (mp_payment i m) = i" "mf_tenant_id (mp_payment i m) = ''t1''" "mf_status (mp_payment i m) = FpReceived"
  "mf_amount_minor (mp_payment i m) = 5" "mf_payment_method (mp_payment i m) = m" "mf_invoice_id (mp_payment i m) = Some 4"
  "mf_student_id (mp_payment i m) = None"
  by (simp_all add: mp_payment_def)

lemma mp_db_tables:
  "mf_payments mp_db = [mp_payment 1 PayEft, mp_payment 2 PayCheque]" "mf_allocations mp_db = []" "bl_invoices mp_db = [mp_invoice]"
  "fd_accounts mp_db = ex_accounts" "fd_transactions mp_db = []" "fd_idempotency_keys mp_db = []"
  by (simp_all add: mp_db_def)

section \<open>The two postings\<close>

definition mp_cash :: account where "mp_cash = hd ex_accounts"
definition mp_fee :: account where "mp_fee = last ex_accounts"

definition mp_p :: manual_payment where "mp_p = mp_payment 1 PayEft"

definition mp_lock :: "string \<Rightarrow> lock_input" where
  "mp_lock key = \<lparr>li_tenant_id = ''t1'', li_user_id = Some ''u1'', li_scope = ''finance:ledger:post'',
     li_key = key, li_request_hash = ''h'', li_request_method = ''POST'',
     li_request_path = ''/internal/finance/transactions'', li_ttl_seconds = 86400\<rparr>"

definition mp_plan :: "post_input \<Rightarrow> posting_plan" where
  "mp_plan input = \<lparr>pp_currency_code = ''KES'', pp_entry_count = 2, pp_total_amount_minor = ''5'',
     pp_entries = (case traverse (validate_entry (account_map ex_accounts)) (zip [0..<2] (pi_entries input)) of
        Inr es \<Rightarrow> es | Inl _ \<Rightarrow> [])\<rparr>"

abbreviation mp_receipt :: post_input where "mp_receipt \<equiv> receipt_posting mp_p mp_dto mp_cash mp_fee 7"
abbreviation mp_reversal :: "manual_payment \<Rightarrow> post_input" where "mp_reversal q \<equiv> reversal_posting q mp_dto mp_cash mp_fee 2000"

lemma mp_texts:
  "js_upper (js_trim ''KES'') = ''KES'' \<and> js_upper ''KES'' = ''KES'' \<and> show_int 5 = ''5'' \<and> parse_int ''5'' = 5 \<and>
   normalize_minor_amount ''5'' = Inr ''5''"
  by code_simp

lemma mp_plan_fits: "parse_int (pp_total_amount_minor (mp_plan input)) = 5" "pp_entry_count (mp_plan input) = 2"
  using mp_texts by (simp_all add: mp_plan_def)

lemma mp_account_map: "account_map ex_accounts 1 = Some mp_cash" "account_map ex_accounts 2 = Some mp_fee" "ac_id mp_cash = 1" "ac_id mp_fee = 2"
  by (simp_all add: account_map_def ex_accounts_def mp_cash_def mp_fee_def)

lemma mp_active: "ac_is_active a" "ac_allow_manual_entries a" "ac_currency_code a = ''KES''" if "a \<in> {mp_cash, mp_fee}"
  using that by (auto simp: ex_accounts_def mp_cash_def mp_fee_def)

text \<open>Two entries of the payment's amount over the two accounts make a plan.\<close>

lemma mp_built:
  assumes "pi_entries input = [manual_entry a Debit mp_p d1 m1, manual_entry b Credit mp_p d2 m2]"
    and "a = mp_cash \<and> b = mp_fee \<or> a = mp_fee \<and> b = mp_cash"
  shows "build_posting_plan input ex_accounts = Inr (mp_plan input)" and "\<exists>js. traverse hash_entry (pi_entries input) = Inr js"
    and "sort (js_uniq (map pe_account_id (pi_entries input))) = [1, 2]"
proof -
  note t = mp_texts[THEN conjunct1] mp_texts[THEN conjunct2, THEN conjunct1] mp_texts[THEN conjunct2, THEN conjunct2, THEN conjunct1]
    mp_texts[THEN conjunct2, THEN conjunct2, THEN conjunct2, THEN conjunct1] mp_texts[THEN conjunct2, THEN conjunct2, THEN conjunct2, THEN conjunct2]
  have p: "mf_currency_code mp_p = ''KES''" "mf_amount_minor mp_p = 5" by (simp_all add: mp_p_def mp_payment_def)
  have range: "[0..<2] = [0, 1 :: nat]" by (simp add: upt_rec)
  show "build_posting_plan input ex_accounts = Inr (mp_plan input)"
    using assms(2) by (auto simp: build_posting_plan_def assms(1) mp_plan_def range manual_entry_def validate_entry_def mp_account_map mp_active p t
        js_uniq_def upt_rec simp del: One_nat_def)
  show "\<exists>js. traverse hash_entry (pi_entries input) = Inr js"
    by (simp add: assms(1) manual_entry_def hash_entry_def p t)
  show "sort (js_uniq (map pe_account_id (pi_entries input))) = [1, 2]"
    using assms(2) by (auto simp: assms(1) manual_entry_def mp_account_map js_uniq_def simp del: One_nat_def)
qed

lemma mp_receipt_built:
  "build_posting_plan mp_receipt ex_accounts = Inr (mp_plan mp_receipt)" "\<exists>js. traverse hash_entry (pi_entries mp_receipt) = Inr js"
  "sort (js_uniq (map pe_account_id (pi_entries mp_receipt))) = [1, 2]"
  by (rule mp_built[where a = mp_cash and b = mp_fee]; simp add: receipt_posting_def)+

lemma mp_reversal_built:
  "build_posting_plan (mp_reversal mp_p) ex_accounts = Inr (mp_plan (mp_reversal mp_p))"
  "\<exists>js. traverse hash_entry (pi_entries (mp_reversal mp_p)) = Inr js"
  "sort (js_uniq (map pe_account_id (pi_entries (mp_reversal mp_p)))) = [1, 2]"
  by (rule mp_built[where a = mp_fee and b = mp_cash]; simp add: reversal_posting_def)+

lemma mp_lock_valid: "valid_lock_input (mp_lock k) \<longleftrightarrow> not_blank k"
proof -
  have "not_blank ''finance:ledger:post'' \<and> list_all is_upper_letter ''POST'' \<and> not_blank ''/internal/finance/transactions'' \<and> not_blank ''h''"
    by code_simp
  then show ?thesis by (simp add: valid_lock_input_def mp_lock_def)
qed

lemma mp_keys_valid: "valid_lock_input (mp_lock (clear_key p))" "valid_lock_input (mp_lock (reverse_key p))"
  by (simp_all add: mp_lock_valid clear_key_def reverse_key_def not_blank_def)

lemma mp_lock_input:
  assumes "\<exists>js. traverse hash_entry (pi_entries input) = Inr js" and "js_trim (pi_idempotency_key input) = k" "k \<noteq> []"
  shows "lock_input_of mp_rt input = Inr (mp_lock k)"
proof -
  have rt: "require_tenant_id mp_rt = Inr ''t1''" "acting_user mp_rt = Some ''u1''" "rt_config_number mp_rt = (\<lambda>_. None)" "rt_sha256 mp_rt = (\<lambda>_. ''h'')"
    by (simp_all add: mp_rt_def ex_rt_def require_tenant_id_def acting_user_def AUTH_ANONYMOUS_USER_ID_def)
  show ?thesis using assms
    by (auto simp: lock_input_of_def require_non_empty_text_def build_idempotency_hash_def hash_payload_def rt mp_lock_def
        FINANCE_IDEMPOTENCY_SCOPE_def FINANCE_REQUEST_METHOD_def FINANCE_REQUEST_PATH_def)
qed

lemma mp_reversal_entries: "pi_entries (mp_reversal (cleared_fields rt l at d n m p)) = pi_entries (mp_reversal p)"
  by (simp add: reversal_posting_def manual_entry_def cleared_fields_def status_fields_def)

lemma mp_receipt_lock: "lock_input_of mp_rt mp_receipt = Inr (mp_lock (clear_key mp_p))"
  by (rule mp_lock_input[OF mp_receipt_built(2)]) (simp_all add: manual_keys clear_key_def)

lemma mp_reversal_lock: "lock_input_of mp_rt (mp_reversal (cleared_fields rt l at d n m mp_p)) = Inr (mp_lock (reverse_key mp_p))"
  by (rule mp_lock_input) (use mp_reversal_built(2) in \<open>simp_all add: manual_keys mp_reversal_entries reverse_key_def\<close>)

lemma mp_accounts_used: "lock_accounts_by_ids mp_db ''t1'' [1, 2] = ex_accounts"
  by (simp add: lock_accounts_by_ids_def Let_def mp_db_tables ex_accounts_def js_uniq_def)

lemma mp_times: "resolve_timestamp mp_rt (Some s) = Inr (if s = [] then 2000 else 7)" "resolve_timestamp mp_rt None = Inr 2000"
  by (simp_all add: resolve_timestamp_def mp_rt_def ex_rt_def)

lemma unused_key_none:
  "unused k ref db \<Longrightarrow> get_locked_record (fd_idempotency_keys db) (input_key (mp_lock k)) = None"
  by (auto simp: unused_def list_all_iff get_locked_record_def select_first_None row_key_def input_key_def mp_lock_def)

lemma mp_postable:
  assumes "lock_input_of mp_rt input = Inr (mp_lock k)" and "valid_lock_input (mp_lock k)" and "unused k (js_trim (pi_reference input)) db"
    and "fd_accounts db = ex_accounts" and "build_posting_plan input ex_accounts = Inr plan"
    and "sort (js_uniq (map pe_account_id (pi_entries input))) = [1, 2]"
    and "js_trim (pi_reference input) \<noteq> []" "js_trim (pi_description input) \<noteq> []"
    and "parse_int (pp_total_amount_minor plan) = 5" "pp_entry_count plan = 2" and "pi_posted_at input = None" "pi_effective_at input = Some s"
  shows "postable mp_rt input db (mp_lock k) plan"
proof -
  have "lock_accounts_by_ids db ''t1'' [1, 2] = lock_accounts_by_ids mp_db ''t1'' [1, 2]"
    using assms(4) by (simp add: lock_accounts_by_ids_def Let_def mp_db_tables)
  then have "lock_accounts_by_ids db ''t1'' [1, 2] = ex_accounts" using mp_accounts_used by (rule trans)
  moreover have "li_tenant_id (mp_lock k) = ''t1''" by (simp add: mp_lock_def)
  ultimately show ?thesis using assms unused_key_none[OF assms(3)]
    by (auto simp: postable_def mp_times fits_bigint_def fits_integer_def unused_def list_all_iff simp del: One_nat_def)
qed

section \<open>Cleared and reversed\<close>

lemma mp_start:
  "manual_tables mp_db" "payment_unallocated mp_db (mf_id mp_p)" "0 < mf_amount_minor mp_p" "mf_status mp_p \<noteq> FpCleared"
  "unused (clear_key mp_p) (clear_reference mp_p) mp_db" "unused (reverse_key mp_p) (reverse_reference mp_p) mp_db" "posting_fks mp_db"
  by (simp_all add: manual_tables_def mp_db_tables ledger_inv_def mp_db_def idem_invar_def accounts_ok_def ex_accounts_def
      currency_format_def is_upper_letter_def mp_invoice_def payment_unallocated_def mp_p_def mp_payment_fields unused_def posting_fks_def)

lemma mp_payment_at: "payment_at mp_rt (uuid_text 1) mp_db mp_p"
proof -
  have "require_manual_tenant_id mp_rt = Inr ''t1''" by (simp add: require_manual_tenant_id_def mp_rt_def ex_rt_def)
  moreover have "pg_uuid (uuid_text 1) = Inr 1" by code_simp
  then have "find_manual_payment mp_db ''t1'' (uuid_text 1) = Inr (Some mp_p)"
    by (simp add: find_manual_payment_def mp_db_tables payment_id_at_def mp_payment_fields mp_p_def)
  ultimately show ?thesis by (auto simp: payment_at_def)
qed

lemma mp_accounts:
  "find_account_by_code db ''t1'' ''1110'' = Some mp_cash" "find_account_by_code db ''t1'' ''1100'' = Some mp_fee"
  if "fd_accounts db = ex_accounts" for db :: "'a finance_db_scheme"
  using that by (simp_all add: find_account_by_code_def ex_accounts_def mp_cash_def mp_fee_def)

lemma mp_codes: "mf_asset_account_code mp_p = ''1110''" "mf_fee_control_account_code mp_p = ''1100''" "mf_tenant_id mp_p = ''t1''"
  by (simp_all add: mp_p_def mp_payment_def)

lemma mp_received: "mf_status mp_p = FpReceived"
  by (simp add: mp_p_def mp_payment_fields)

lemma mp_receipt_posted: "\<exists>posted db1. post_receipt_transaction mp_rt mp_p mp_dto mp_db = Inr (posted, db1) \<and> posting_fks db1"
proof -
  have inv: "ledger_inv mp_db" using mp_start(1) by (simp add: manual_tables_def)
  have texts: "js_trim (pi_reference mp_receipt) \<noteq> []" "js_trim (pi_description mp_receipt) \<noteq> []"
    "pi_posted_at mp_receipt = None" "pi_effective_at mp_receipt = Some (iso_string 7)"
    by (simp_all add: receipt_posting_def is_space_def js_trim_hd[THEN conjunct1])
  have "postable mp_rt mp_receipt mp_db (mp_lock (clear_key mp_p)) (mp_plan mp_receipt)"
    by (rule mp_postable[OF mp_receipt_lock mp_keys_valid(1) _ _ mp_receipt_built(1,3) texts(1,2) mp_plan_fits texts(3,4)])
      (use mp_start(5) in \<open>simp_all add: manual_keys mp_db_tables\<close>)
  then obtain posted db1 where po: "post_transaction True mp_rt mp_receipt mp_db = Inr (posted, db1)"
    using post_succeeds[OF inv mp_start(7)] by blast
  moreover have "resolve_manual_timestamp mp_rt (or_else (um_occurred_at mp_dto) (Some (iso_string (mf_received_at mp_p)))) = Inr 7"
    by (simp add: resolve_manual_timestamp_def mp_rt_def mp_dto_def or_else_def truthy_def iso_string_def Let_def)
  ultimately have "post_receipt_transaction mp_rt mp_p mp_dto mp_db = Inr (posted, db1)"
    by (simp add: post_receipt_transaction_def require_manual_account_def mp_codes mp_accounts mp_db_tables)
  moreover have "posting_fks db1" using posting_keeps_fks[OF _ mp_start(7)] po by (simp add: post_transaction_Inr[OF inv])
  ultimately show ?thesis by blast
qed

lemma mp_allocated:
  assumes "bl_invoices db1 = [mp_invoice]" and "mf_allocations db1 = []"
  shows "\<exists>n db2. allocate_cleared_payment mp_rt mp_env mp_p db1 = Inr (n, db2)"
proof -
  have arb: "infers_arbiter (me_indexes mp_env) [''tenant_id'', ''manual_payment_id'', ''invoice_id'', ''allocation_type'']" by code_simp
  have inv: "invoice_student_id mp_invoice = None" "iv_id mp_invoice = 4" "iv_tenant_id mp_invoice = ''t1''" "iv_total_amount_minor mp_invoice = 3"
    "iv_amount_paid_minor mp_invoice = 0" "iv_status mp_invoice = InvOpen" by code_simp+
  show ?thesis
    by (simp add: allocate_cleared_payment_def resolve_invoices_for_allocation_def lock_manual_fee_invoice_def assms inv invoice_at_def
        mp_p_def mp_payment_fields Let_def apply_manual_fee_invoice_payment_def fits_bigint_def pg_uuid_opt_def create_manual_allocation_def
        arb manual_allocation_row_def)
qed

lemma mp_cleared:
  "\<exists>q db1. clear_manual_fee_payment True mp_rt mp_env (uuid_text 1) mp_dto mp_db = Inr (q, db1) \<and> posting_fks db1"
proof -
  obtain posted db1 where po: "post_receipt_transaction mp_rt mp_p mp_dto mp_db = Inr (posted, db1)" and fks: "posting_fks db1"
    using mp_receipt_posted by blast
  have inv: "ledger_inv mp_db" using mp_start(1) by (simp add: manual_tables_def)
  note r = receipt_posted[OF po inv mp_start(5)]
  obtain n db2 where al: "allocate_cleared_payment mp_rt mp_env mp_p db1 = Inr (n, db2)"
    using mp_allocated[of db1] by (auto simp: r mp_db_tables)
  have "payment_unallocated db1 (mf_id mp_p)" "distinct (map iv_id (bl_invoices db1))"
    using mp_start(1,2) by (simp_all add: payment_unallocated_def r manual_tables_def)
  then have db2: "mf_payments db2 = mf_payments mp_db" "fd_transactions db2 = fd_transactions db1"
      "fd_idempotency_keys db2 = fd_idempotency_keys db1"
    using allocate_cleared_Inr[OF al] mp_start(3) by (auto simp: r)
  from mp_payment_at obtain t where t: "require_manual_tenant_id mp_rt = Inr t" and found: "find_manual_payment mp_db t (uuid_text 1) = Inr (Some mp_p)"
    by (auto simp: payment_at_def)
  have found2: "find_manual_payment db2 t (uuid_text 1) = Inr (Some mp_p)" using found by (simp add: find_manual_payment_def db2)
  have tp: "mf_tenant_id mp_p = t" using found by (simp add: find_manual_payment_Some)
  have "resolve_manual_timestamp mp_rt (um_occurred_at mp_dto) = Inr 2000"
    by (simp add: resolve_manual_timestamp_def mp_rt_def ex_rt_def mp_dto_def truthy_def)
  then have "\<exists>q db3. clear_locked_payment mp_rt mp_env mp_p mp_dto mp_db = Inr (q, db3) \<and> posting_fks db3"
    using mp_start(4) fks find_manual_payment_update(1)[OF found2, of "cleared_fields mp_rt (pt_transaction_id posted) 2000
        (read_string (um_deposit_reference mp_dto)) (read_string (um_notes mp_dto))
        (json_merge (or_default (um_metadata mp_dto) []) [(''allocation_count'', JNum (show_nat n))])"]
    by (simp add: clear_locked_payment_def po al mark_cleared_def tp cleared_fields_def[abs_def] posting_fks_def db2 mp_received)
  then show ?thesis
    by (simp add: clear_manual_fee_payment_def on_locked_payment_def with_request_transaction_def t require_locked_payment_def found
        del: One_nat_def)
qed

definition invoice_keys :: "invoice list \<Rightarrow> (uuid \<times> string) set" where
  "invoice_keys vs = set (map (\<lambda>v. (iv_id v, iv_tenant_id v)) vs)"

lemma reverse_allocations_succeeds:
  "\<forall>a\<in>set as. \<forall>i. ma_invoice_id a = Some i \<longrightarrow> (i, t) \<in> invoice_keys (bl_invoices db) \<Longrightarrow> \<exists>db'. reverse_allocations rt t as db = Inr db'"
proof (induction as arbitrary: db)
  case (Cons a as)
  show ?case
  proof (cases "ma_invoice_id a \<noteq> None \<and> ma_allocation_type a = AllocInvoice")
    case True
    then obtain i where i: "ma_invoice_id a = Some i" and v: "(i, t) \<in> invoice_keys (bl_invoices db)" using Cons.prems by auto
    let ?db = "db\<lparr>bl_invoices := update_where (invoice_at t i) (manual_reversal_fields rt (ma_amount_minor a) InvOpen) (bl_invoices db)\<rparr>"
    have r: "reverse_manual_fee_invoice_payment rt t i (ma_amount_minor a) InvOpen db = Inr ?db"
      using v by (auto simp: reverse_manual_fee_invoice_payment_def list_ex_iff invoice_at_def invoice_keys_def)
    have "invoice_keys (bl_invoices ?db) = invoice_keys (bl_invoices db)"
      unfolding invoice_keys_def by (simp add: update_where_map_key manual_reversal_fields_def del: set_map)
    then have "\<exists>db'. reverse_allocations rt t as ?db = Inr db'" by (intro Cons.IH) (use Cons.prems in auto)
    then show ?thesis using i True by (simp add: r)
  next
    case False
    with Cons show ?thesis by (auto split: option.splits)
  qed
qed simp

lemma mp_reversed:
  "\<exists>q db1 q' db2. clear_manual_fee_payment True mp_rt mp_env (uuid_text 1) mp_dto mp_db = Inr (q, db1) \<and>
     reverse_manual_fee_payment True mp_rt (uuid_text 1) mp_dto db1 = Inr (q', db2)"
proof -
  obtain q db1 where c: "clear_manual_fee_payment True mp_rt mp_env (uuid_text 1) mp_dto mp_db = Inr (q, db1)" and fks: "posting_fks db1"
    using mp_cleared by blast
  obtain as l at d n m where as: "cleared_allocations mp_p (bl_invoices mp_db) as" "mf_allocations db1 = mf_allocations mp_db @ as"
    and vs: "bl_invoices db1 = map (fold (paid_alloc mp_rt) as) (bl_invoices mp_db)"
    and ps: "mf_payments db1 = update_where (payment_id_at (mf_tenant_id mp_p) (mf_id mp_p)) (cleared_fields mp_rt l at d n m) (mf_payments mp_db)"
    and inv: "ledger_inv db1" and acc: "fd_accounts db1 = ex_accounts" and k1: "unused (reverse_key mp_p) (reverse_reference mp_p) db1"
    using cleared_payment[OF c mp_payment_at mp_start(4,1,2,3,5)] mp_start(6) unfolding mp_db_tables by blast
  let ?q = "cleared_fields mp_rt l at d n m mp_p"
  have texts: "js_trim (pi_reference (mp_reversal ?q)) \<noteq> []" "js_trim (pi_description (mp_reversal ?q)) \<noteq> []"
    "pi_posted_at (mp_reversal ?q) = None" "pi_effective_at (mp_reversal ?q) = Some (iso_string 2000)"
    by (simp_all add: reversal_posting_def is_space_def js_trim_hd[THEN conjunct1])
  have plan: "build_posting_plan (mp_reversal ?q) ex_accounts = Inr (mp_plan (mp_reversal mp_p))"
    using mp_reversal_built(1) unfolding build_posting_plan_def mp_reversal_entries .
  have used: "sort (js_uniq (map pe_account_id (pi_entries (mp_reversal ?q)))) = [1, 2]"
    using mp_reversal_built(3) unfolding mp_reversal_entries .
  have "postable mp_rt (mp_reversal ?q) db1 (mp_lock (reverse_key mp_p)) (mp_plan (mp_reversal mp_p))"
    by (rule mp_postable[OF mp_reversal_lock mp_keys_valid(2) _ acc plan used texts(1,2) mp_plan_fits texts(3,4)])
      (use k1 in \<open>simp add: manual_keys\<close>)
  then obtain posted db2 where po: "post_transaction True mp_rt (mp_reversal ?q) db1 = Inr (posted, db2)"
    using post_succeeds[OF inv fks] by blast
  from mp_payment_at obtain t where t: "require_manual_tenant_id mp_rt = Inr t" and found: "find_manual_payment mp_db t (uuid_text 1) = Inr (Some mp_p)"
    by (auto simp: payment_at_def)
  have tp: "mf_tenant_id mp_p = t" "t = ''t1''" using found mp_codes by (simp_all add: find_manual_payment_Some)
  have found1: "find_manual_payment db1 t (uuid_text 1) = Inr (Some ?q)"
    by (rule find_manual_payment_update(2)[OF found]) (simp_all add: ps tp)
  have time: "resolve_manual_timestamp mp_rt (um_occurred_at mp_dto) = Inr 2000"
    by (simp add: resolve_manual_timestamp_def mp_rt_def ex_rt_def mp_dto_def truthy_def)
  have post: "post_reversal_transaction mp_rt ?q mp_dto db1 = Inr (posted, db2)"
    using po acc by (simp add: post_reversal_transaction_def require_manual_account_def mp_codes mp_accounts time)
  note r = reversal_posted[OF post inv, simplified, OF k1]
  let ?as = "list_manual_allocations db2 t (mf_id ?q)"
  have "\<exists>db3. reverse_allocations mp_rt t ?as db2 = Inr db3"
  proof (rule reverse_allocations_succeeds)
    have "invoice_keys (bl_invoices db2) = {(4, ''t1'')}" by (simp add: r vs mp_db_tables invoice_keys_def mp_invoice_def)
    moreover have "i = 4" if "a \<in> set as" "ma_invoice_id a = Some i" for a i
      using as(1) that by (force simp: cleared_allocations_def mp_db_tables mp_invoice_def)
    ultimately show "\<forall>a\<in>set ?as. \<forall>i. ma_invoice_id a = Some i \<longrightarrow> (i, t) \<in> invoice_keys (bl_invoices db2)"
      using as(2) by (auto simp: list_manual_allocations_def r mp_db_tables tp)
  qed
  then obtain db3 where rev: "reverse_allocations mp_rt t ?as db2 = Inr db3" by blast
  have "mf_payments db3 = mf_payments db1" using reverse_allocations_payments[OF rev] by (simp add: r)
  then have found3: "find_manual_payment db3 t (uuid_text 1) = Inr (Some ?q)" using found1 by (simp add: find_manual_payment_def)
  have "\<exists>q' db4. reverse_manual_fee_payment True mp_rt (uuid_text 1) mp_dto db1 = Inr (q', db4)"
    using rev find_manual_payment_update(1)[OF found3, of "\<lambda>p. (status_fields mp_rt None (read_string (um_notes mp_dto)) (or_default (um_metadata mp_dto) []) p)
       \<lparr>mf_status := FpReversed, mf_reversed_at := Some 2000, mf_reversal_ledger_transaction_id := Some (pt_transaction_id posted)\<rparr>"]
    by (simp add: reverse_manual_fee_payment_def on_locked_payment_def with_request_transaction_def t require_locked_payment_def found1 post time
        mark_reversed_def del: One_nat_def)
  with c show ?thesis by blast
qed

end
