(* ===== verification/Manual_Payments_Claims.thy ===== *)
theory Manual_Payments_Claims
  imports Manual_Payments_Examples
begin

text \<open>
  What a school can rely on for fees received over the counter, and what the schema makes impossible.
\<close>

section \<open>Clearing and reversal\<close>





section \<open>Runs\<close>

text \<open>C20: Over any run of operations a payment keeps its identity, method, amount, receipt number and key, and its status
  only moves forward: a receipt of anything but a cheque is never deposited or bounced, a bounced or reversed
  payment never moves again, and only a cleared one is reversed.\<close>

theorem payment_status_moves_forward:
  assumes "distinct (map mf_id (mf_payments db))" and "p \<in> set (mf_payments db)"
  shows "\<exists>p'. p' \<in> set (mf_payments (manual_run ss db)) \<and> mf_id p' = mf_id p \<and> mf_tenant_id p' = mf_tenant_id p \<and>
    mf_payment_method p' = mf_payment_method p \<and> mf_amount_minor p' = mf_amount_minor p \<and>
    mf_receipt_number p' = mf_receipt_number p \<and> mf_idempotency_key p' = mf_idempotency_key p \<and>
    status_path (mf_payment_method p) (mf_status p) (mf_status p') \<and> distinct (map mf_id (mf_payments (manual_run ss db)))"
proof -
  have "progress (mf_payments db) (mf_payments (manual_run ss db))" by (rule manual_run_progress[OF assms(1)])
  with assms(2) obtain p' where "p' \<in> set (mf_payments (manual_run ss db))" "advances p p'"
    and "distinct (map mf_id (mf_payments (manual_run ss db)))" by (auto simp: progress_def)
  then show ?thesis by (intro exI[of _ p']) (simp add: advances_def)
qed

theorem payment_status_moves_forward_witness:
  "\<exists>p'. p' \<in> set (mf_payments (manual_run [(mp_rt, mp_env, DoDeposit (uuid_text 2) mp_dto), (mp_rt, mp_env, DoBounce (uuid_text 1) mp_dto)] mp_db)) \<and>
     mf_id p' = 2 \<and> mf_amount_minor p' = 5 \<and> status_path PayCheque FpReceived (mf_status p')"
proof -
  have "distinct (map mf_id (mf_payments mp_db))" "mp_payment 2 PayCheque \<in> set (mf_payments mp_db)"
    by (simp_all add: mp_db_tables mp_payment_fields)
  from payment_status_moves_forward[OF this, of "[(mp_rt, mp_env, DoDeposit (uuid_text 2) mp_dto), (mp_rt, mp_env, DoBounce (uuid_text 1) mp_dto)]"]
  show ?thesis by (auto simp: mp_payment_fields)
qed

section \<open>The schema's indexes\<close>


definition mp_schema_env :: manual_env where
  "mp_schema_env = mp_env\<lparr>me_indexes := manual_allocation_indexes\<rparr>"


end
