(* ===== verification/Pii_Encryption.thy ===== *)
theory Pii_Encryption
  imports Mpesa_Text
begin

text \<open>
  \<open>modules/security/pii-encryption.service.ts\<close>: the envelope \<open>enc:v1:iv:tag:ciphertext\<close> around AES-256-GCM.
  The cipher itself (node's crypto, with the key and the random initialisation vector of the call) is a
  parameter: \<open>cp_seal text aad\<close> gives the three parts in base64, \<open>cp_open\<close> the text or, when the
  authentication fails, nothing.
\<close>

record cipher =
  cp_seal :: "string \<Rightarrow> string \<Rightarrow> string \<times> string \<times> string"
  cp_open :: "string \<times> string \<times> string \<Rightarrow> string \<Rightarrow> string option"

definition ENCRYPTION_PREFIX :: string where
  "ENCRYPTION_PREFIX = ''enc:v1''"

text \<open>\<open>split(c)\<close>\<close>

fun js_split :: "char \<Rightarrow> string \<Rightarrow> string list" where
  "js_split c [] = [[]]"
| "js_split c (x # xs) =
     (if x = c then [] # js_split c xs
      else (case js_split c xs of [] \<Rightarrow> [[x]] | p # ps \<Rightarrow> (x # p) # ps))"

text \<open>Element \<open>i\<close> of a destructured array; a missing one counts as empty in the checks below.\<close>

definition split_part :: "string list \<Rightarrow> nat \<Rightarrow> string" where
  "split_part ps i = (if i < length ps then ps ! i else [])"

definition is_encrypted :: "string \<Rightarrow> bool" where
  "is_encrypted v \<longleftrightarrow> take 7 v = ENCRYPTION_PREFIX @ '':''"

definition pii_encrypt :: "cipher \<Rightarrow> string \<Rightarrow> string \<Rightarrow> string" where
  "pii_encrypt c v aad =
     (if is_encrypted v then v
      else (case cp_seal c v aad of (iv, tag, ciphertext) \<Rightarrow> join '':'' [ENCRYPTION_PREFIX, iv, tag, ciphertext]))"

definition pii_decrypt :: "cipher \<Rightarrow> string \<Rightarrow> string \<Rightarrow> string result" where
  "pii_decrypt c v aad =
     (if \<not> is_encrypted v then Inr v
      else
        (let ps = js_split (CHR '':'') v; iv = split_part ps 2; tag = split_part ps 3; ciphertext = split_part ps 4
         in if split_part ps 1 \<noteq> ''v1'' \<or> iv = [] \<or> tag = [] \<or> ciphertext = []
            then Inl (InternalServerErrorException ''Encrypted PII payload is malformed'')
            else (case cp_open c (iv, tag, ciphertext) aad of
                    None \<Rightarrow> Inl (InternalServerErrorException ''Unsupported state or unable to authenticate data'')
                  | Some t \<Rightarrow> Inr t)))"

definition pii_encrypt_nullable :: "cipher \<Rightarrow> string option \<Rightarrow> string \<Rightarrow> string option" where
  "pii_encrypt_nullable c v aad = map_option (\<lambda>s. pii_encrypt c s aad) v"

definition pii_decrypt_nullable :: "cipher \<Rightarrow> string option \<Rightarrow> string \<Rightarrow> string option result" where
  "pii_decrypt_nullable c v aad =
     (case v of None \<Rightarrow> Inr None | Some s \<Rightarrow> and_then (pii_decrypt c s aad) (\<lambda>t. Inr (Some t)))"

definition pii_mask_phone_number :: "string option \<Rightarrow> string option" where
  "pii_mask_phone_number v =
     (if \<not> truthy v then None
      else
        (let digits = only_digits (the v); n = length digits
         in if n \<le> 4 then Some (replicate n (CHR ''*''))
            else Some (take 4 digits @ replicate (n - 6) (CHR ''*'') @ drop (n - 2) digits)))"

section \<open>What the documentation of the cipher promises\<close>

text \<open>
  Base64 text has no colon; the vector and the tag are never empty and the ciphertext is as long as the text;
  what was sealed under some associated data opens under it, and under no other.
\<close>

definition authenticated_cipher :: "cipher \<Rightarrow> bool" where
  "authenticated_cipher c \<longleftrightarrow>
     (\<forall>v aad iv tag ciphertext. cp_seal c v aad = (iv, tag, ciphertext) \<longrightarrow>
        CHR '':'' \<notin> set iv \<union> set tag \<union> set ciphertext \<and> iv \<noteq> [] \<and> tag \<noteq> [] \<and> (ciphertext = [] \<longleftrightarrow> v = []) \<and>
        (\<forall>aad'. cp_open c (iv, tag, ciphertext) aad' = (if aad' = aad then Some v else None)))"

lemma js_split_plain: "c \<notin> set s \<Longrightarrow> js_split c s = [s]"
  by (induction s) auto

lemma js_split_append: "c \<notin> set s \<Longrightarrow> js_split c (s @ c # t) = s # js_split c t"
  by (induction s) auto

lemma sealed_is_encrypted: "\<not> is_encrypted v \<Longrightarrow> is_encrypted (pii_encrypt c v aad)"
  by (simp add: pii_encrypt_def ENCRYPTION_PREFIX_def is_encrypted_def split: prod.splits)

lemma decrypt_encrypt:
  assumes "authenticated_cipher c" and "\<not> is_encrypted v" and "v \<noteq> []"
  shows "pii_decrypt c (pii_encrypt c v aad) aad' =
    (if aad' = aad then Inr v
     else Inl (InternalServerErrorException ''Unsupported state or unable to authenticate data''))"
proof -
  obtain iv tag ct where s: "cp_seal c v aad = (iv, tag, ct)" by (cases "cp_seal c v aad")
  have p: "CHR '':'' \<notin> set iv" "CHR '':'' \<notin> set tag" "CHR '':'' \<notin> set ct" "iv \<noteq> []" "tag \<noteq> []" "ct \<noteq> []"
    and o: "cp_open c (iv, tag, ct) aad' = (if aad' = aad then Some v else None)"
    using assms s by (auto simp: authenticated_cipher_def)
  have e: "pii_encrypt c v aad = ''enc'' @ CHR '':'' # ''v1'' @ CHR '':'' # iv @ CHR '':'' # tag @ CHR '':'' # ct"
    using assms(2) s by (simp add: pii_encrypt_def ENCRYPTION_PREFIX_def)
  have "js_split (CHR '':'') (pii_encrypt c v aad) = [''enc'', ''v1'', iv, tag, ct]"
    unfolding e by (subst js_split_append, simp)+ (simp add: js_split_plain p js_split_append)
  then show ?thesis
    using sealed_is_encrypted[OF assms(2), of c aad] p o by (simp add: pii_decrypt_def split_part_def Let_def)
qed

end
