(* ===== verification/Tenant_Finance.thy ===== *)
theory Tenant_Finance
  imports Pii_Encryption Payments_Service Manual_Payments
begin

text \<open>
  \<open>modules/tenant-finance\<close>: the M-PESA configuration, bank accounts, payment channels and ledger accounts of a
  school. Every table has row level security (\<open>tenant_id = current_setting('app.tenant_id')\<close>), so a statement
  sees and writes the rows of the session's tenant only, whatever its \<open>WHERE\<close> clause says; \<open>in_session\<close> is
  that policy. The tables of the payments module, which the dashboard counts, are a second argument.
\<close>

datatype finance_status = TfDraft | TfActive | TfInactive | TfRevoked

datatype channel_status = ChActive | ChInactive | ChTesting

datatype channel_type = ChMpesaPaybill | ChMpesaTill | ChBankAccount | ChManualBankDeposit

datatype mpesa_environment = Sandbox | Production

fun environment_text :: "mpesa_environment \<Rightarrow> string" where
  "environment_text Sandbox = ''sandbox''"
| "environment_text Production = ''production''"

fun channel_status_text :: "channel_status \<Rightarrow> string" where
  "channel_status_text ChActive = ''active''"
| "channel_status_text ChInactive = ''inactive''"
| "channel_status_text ChTesting = ''testing''"

section \<open>Tables\<close>

record tenant_accounts =
  tfa_id :: uuid
  tfa_tenant_id :: string
  tfa_mpesa_clearing_account_code :: string
  tfa_fee_control_account_code :: string
  tfa_currency_code :: string
  tfa_status :: finance_status
  tfa_created_at :: int
  tfa_updated_at :: int

record tenant_config =
  tcf_id :: uuid
  tcf_tenant_id :: string
  tcf_shortcode :: string
  tcf_paybill_number :: "string option"
  tcf_till_number :: "string option"
  tcf_consumer_key :: string
  tcf_consumer_secret :: string
  tcf_passkey :: string
  tcf_initiator_name :: "string option"
  tcf_environment :: mpesa_environment
  tcf_callback_url :: string
  tcf_status :: finance_status
  tcf_credential_version :: int
  tcf_rotated_at :: "int option"
  tcf_created_at :: int
  tcf_updated_at :: int

record tenant_bank =
  tba_id :: uuid
  tba_tenant_id :: string
  tba_bank_name :: string
  tba_branch_name :: "string option"
  tba_account_name :: string
  tba_account_number :: string
  tba_account_number_hash :: string
  tba_currency :: string
  tba_status :: finance_status
  tba_created_at :: int
  tba_updated_at :: int

record tenant_channel =
  tch_id :: uuid
  tch_tenant_id :: string
  tch_channel_type :: channel_type
  tch_name :: string
  tch_mpesa_config_id :: "uuid option"
  tch_bank_account_id :: "uuid option"
  tch_status :: channel_status
  tch_metadata :: "(string \<times> json) list"
  tch_created_at :: int
  tch_updated_at :: int

record tenant_finance_db = manual_db +
  tf_accounts :: "tenant_accounts list"
  tf_configs :: "tenant_config list"
  tf_banks :: "tenant_bank list"
  tf_channels :: "tenant_channel list"

text \<open>The row level security policy of these tables, and its \<open>WITH CHECK\<close> on a written row.\<close>

definition in_session :: "runtime \<Rightarrow> string \<Rightarrow> bool" where
  "in_session rt tenant \<longleftrightarrow> or_default (rt_tenant_id rt) [] = tenant"

definition rls_check :: "runtime \<Rightarrow> string \<Rightarrow> unit result" where
  "rls_check rt tenant = guard (in_session rt tenant) (PgError ''42501'' ''row-level security policy'')"

section \<open>\<open>TenantFinanceConfigRepository\<close>\<close>

text \<open>\<open>mapMpesaConfig\<close>: the row with its secrets in clear.\<close>

definition mpesa_secret_aad :: "string \<Rightarrow> string \<Rightarrow> string \<Rightarrow> string" where
  "mpesa_secret_aad tenant shortcode field = ''tenant_mpesa_configs:'' @ tenant @ '':'' @ shortcode @ '':'' @ field"

definition map_mpesa_config :: "cipher \<Rightarrow> tenant_config \<Rightarrow> tenant_config result" where
  "map_mpesa_config c r =
     (let open_field = (\<lambda>v field. pii_decrypt c v (mpesa_secret_aad (tcf_tenant_id r) (tcf_shortcode r) field))
      in and_then (open_field (tcf_consumer_key r) ''consumer_key'') (\<lambda>key.
         and_then (open_field (tcf_consumer_secret r) ''consumer_secret'') (\<lambda>secret.
         and_then (open_field (tcf_passkey r) ''passkey'') (\<lambda>passkey.
         Inr (r\<lparr>tcf_consumer_key := key, tcf_consumer_secret := secret, tcf_passkey := passkey\<rparr>)))))"

text \<open>\<open>ORDER BY updated_at DESC LIMIT 1\<close> and the mapping of the row.\<close>

definition latest_config :: "cipher \<Rightarrow> tenant_config list \<Rightarrow> tenant_config option result" where
  "latest_config c rows =
     (case first_row (sort_key (\<lambda>r. - tcf_updated_at r) rows) of
        None \<Rightarrow> Inr None | Some r \<Rightarrow> and_then (map_mpesa_config c r) (\<lambda>m. Inr (Some m)))"

definition active_config :: "runtime \<Rightarrow> tenant_config \<Rightarrow> bool" where
  "active_config rt r \<longleftrightarrow> in_session rt (tcf_tenant_id r) \<and> tcf_status r = TfActive"

definition answers_to :: "string \<Rightarrow> tenant_config \<Rightarrow> bool" where
  "answers_to code r \<longleftrightarrow> tcf_shortcode r = code \<or> tcf_paybill_number r = Some code \<or> tcf_till_number r = Some code"

definition find_active_config_for_tenant ::
  "cipher \<Rightarrow> runtime \<Rightarrow> 'a tenant_finance_db_scheme \<Rightarrow> string \<Rightarrow> tenant_config option result" where
  "find_active_config_for_tenant c rt db tenant =
     latest_config c (filter (\<lambda>r. active_config rt r \<and> tcf_tenant_id r = tenant) (tf_configs db))"

definition find_config_for_tenant_by_shortcode ::
  "cipher \<Rightarrow> runtime \<Rightarrow> 'a tenant_finance_db_scheme \<Rightarrow> string \<Rightarrow> string \<Rightarrow> tenant_config option result" where
  "find_config_for_tenant_by_shortcode c rt db tenant code =
     latest_config c (filter (\<lambda>r. active_config rt r \<and> tcf_tenant_id r = tenant \<and> answers_to code r) (tf_configs db))"

definition find_active_config_by_shortcode ::
  "cipher \<Rightarrow> runtime \<Rightarrow> 'a tenant_finance_db_scheme \<Rightarrow> string \<Rightarrow> tenant_config option result" where
  "find_active_config_by_shortcode c rt db code =
     latest_config c (filter (\<lambda>r. active_config rt r \<and> answers_to code r) (tf_configs db))"

definition find_financial_accounts ::
  "runtime \<Rightarrow> 'a tenant_finance_db_scheme \<Rightarrow> string \<Rightarrow> tenant_accounts option" where
  "find_financial_accounts rt db tenant =
     first_row (sort_key (\<lambda>a. - tfa_updated_at a)
       (filter (\<lambda>a. in_session rt (tfa_tenant_id a) \<and> tfa_tenant_id a = tenant \<and> tfa_status a = TfActive) (tf_accounts db)))"

definition find_active_channel ::
  "runtime \<Rightarrow> 'a tenant_finance_db_scheme \<Rightarrow> string \<Rightarrow> uuid \<Rightarrow> tenant_channel option" where
  "find_active_channel rt db tenant config_id =
     first_row (sort_key (\<lambda>c. - tch_updated_at c)
       (filter (\<lambda>c. in_session rt (tch_tenant_id c) \<and> tch_tenant_id c = tenant \<and>
          tch_mpesa_config_id c = Some config_id \<and> tch_status c = ChActive) (tf_channels db)))"

definition find_tenant_by_payment_request ::
  "runtime \<Rightarrow> 'p payments_db_scheme \<Rightarrow> string \<Rightarrow> string \<Rightarrow> string option" where
  "find_tenant_by_payment_request rt pay checkout merchant =
     map_option in_tenant_id (first_row (sort_key (\<lambda>i. - in_created_at i)
       (filter (\<lambda>i. in_session rt (in_tenant_id i) \<and>
          (in_checkout_request_id i = Some checkout \<or> in_merchant_request_id i = Some merchant)) (py_intents pay))))"

text \<open>\<open>upsertFinancialAccounts\<close>; the arbiter is the partial index over the active rows.\<close>

definition upsert_financial_accounts ::
  "runtime \<Rightarrow> string \<Rightarrow> string \<Rightarrow> string \<Rightarrow> string \<Rightarrow> 'a tenant_finance_db_scheme \<Rightarrow> 'a tenant_finance_db_scheme result" where
  "upsert_financial_accounts rt tenant clearing fee currency db =
     and_then (rls_check rt tenant) (\<lambda>_.
     and_then (guard (currency_format currency) (PgError ''23514'' ''ck_tenant_financial_accounts_currency'')) (\<lambda>_.
     let at = (\<lambda>a. tfa_tenant_id a = tenant \<and> tfa_status a = TfActive)
     in Inr (if list_ex at (tf_accounts db)
             then db\<lparr>tf_accounts := update_where at (\<lambda>a. a\<lparr>tfa_mpesa_clearing_account_code := clearing,
                    tfa_fee_control_account_code := fee, tfa_currency_code := currency, tfa_updated_at := rt_now rt\<rparr>)
                    (tf_accounts db)\<rparr>
             else db\<lparr>tf_accounts := tf_accounts db @
                    [\<lparr>tfa_id = fresh_uuid (map tfa_id (tf_accounts db)), tfa_tenant_id = tenant,
                      tfa_mpesa_clearing_account_code = clearing, tfa_fee_control_account_code = fee,
                      tfa_currency_code = currency, tfa_status = TfActive, tfa_created_at = rt_now rt,
                      tfa_updated_at = rt_now rt\<rparr>]\<rparr>)))"

text \<open>\<open>upsertMpesaConfig\<close>: by the tenant's shortcode; the secrets are sealed under the tenant and the shortcode.\<close>

record config_input =
  ci_tenant_id :: string
  ci_shortcode :: string
  ci_paybill_number :: "string option"
  ci_till_number :: "string option"
  ci_consumer_key :: string
  ci_consumer_secret :: string
  ci_passkey :: string
  ci_initiator_name :: "string option"
  ci_environment :: mpesa_environment
  ci_callback_url :: string
  ci_status :: finance_status

definition config_row :: "cipher \<Rightarrow> runtime \<Rightarrow> config_input \<Rightarrow> uuid \<Rightarrow> tenant_config" where
  "config_row c rt i new_id =
     (let seal_field = (\<lambda>v field. pii_encrypt c v (mpesa_secret_aad (ci_tenant_id i) (ci_shortcode i) field))
      in \<lparr>tcf_id = new_id, tcf_tenant_id = ci_tenant_id i, tcf_shortcode = ci_shortcode i,
          tcf_paybill_number = ci_paybill_number i, tcf_till_number = ci_till_number i,
          tcf_consumer_key = seal_field (ci_consumer_key i) ''consumer_key'',
          tcf_consumer_secret = seal_field (ci_consumer_secret i) ''consumer_secret'',
          tcf_passkey = seal_field (ci_passkey i) ''passkey'', tcf_initiator_name = ci_initiator_name i,
          tcf_environment = ci_environment i, tcf_callback_url = ci_callback_url i, tcf_status = ci_status i,
          tcf_credential_version = 1, tcf_rotated_at = None, tcf_created_at = rt_now rt, tcf_updated_at = rt_now rt\<rparr>)"

definition config_checks :: "tenant_config \<Rightarrow> unit result" where
  "config_checks r =
     and_then (guard (not_blank (tcf_shortcode r)) (PgError ''23514'' ''ck_tenant_mpesa_configs_shortcode_not_blank'')) (\<lambda>_.
     and_then (guard (tcf_paybill_number r \<noteq> None \<or> tcf_till_number r \<noteq> None)
       (PgError ''23514'' ''ck_tenant_mpesa_configs_receiving_channel'')) (\<lambda>_.
     guard (take 8 (tcf_callback_url r) = ''https://'') (PgError ''23514'' ''ck_tenant_mpesa_configs_callback_url'')))"

text \<open>The index over the shortcodes of the active rows spans the tenants.\<close>

definition active_shortcode_free :: "tenant_config \<Rightarrow> tenant_config list \<Rightarrow> bool" where
  "active_shortcode_free r rows \<longleftrightarrow> tcf_status r = TfActive \<longrightarrow>
     \<not> list_ex (\<lambda>q. tcf_id q \<noteq> tcf_id r \<and> tcf_status q = TfActive \<and> tcf_shortcode q = tcf_shortcode r) rows"

definition config_key :: "string \<Rightarrow> string \<Rightarrow> tenant_config \<Rightarrow> bool" where
  "config_key tenant code r \<longleftrightarrow> tcf_tenant_id r = tenant \<and> tcf_shortcode r = code"

text \<open>The \<open>DO UPDATE SET\<close> clause, from the row proposed for insertion (\<open>EXCLUDED\<close>).\<close>

definition config_conflict :: "runtime \<Rightarrow> tenant_config \<Rightarrow> tenant_config \<Rightarrow> tenant_config" where
  "config_conflict rt new old =
     old\<lparr>tcf_paybill_number := tcf_paybill_number new, tcf_till_number := tcf_till_number new,
         tcf_consumer_key := tcf_consumer_key new, tcf_consumer_secret := tcf_consumer_secret new,
         tcf_passkey := tcf_passkey new, tcf_initiator_name := tcf_initiator_name new,
         tcf_environment := tcf_environment new, tcf_callback_url := tcf_callback_url new, tcf_status := tcf_status new,
         tcf_credential_version := tcf_credential_version old + 1,
         tcf_rotated_at := (if tcf_consumer_key old \<noteq> tcf_consumer_key new \<or> tcf_consumer_secret old \<noteq> tcf_consumer_secret new
             \<or> tcf_passkey old \<noteq> tcf_passkey new then Some (rt_now rt) else tcf_rotated_at old),
         tcf_updated_at := rt_now rt\<rparr>"

definition upsert_config_row ::
  "cipher \<Rightarrow> runtime \<Rightarrow> config_input \<Rightarrow> 'a tenant_finance_db_scheme \<Rightarrow> (tenant_config \<times> 'a tenant_finance_db_scheme) result" where
  "upsert_config_row c rt i db =
     (let new = config_row c rt i (fresh_uuid (map tcf_id (tf_configs db))); at = config_key (ci_tenant_id i) (ci_shortcode i)
      in and_then (rls_check rt (ci_tenant_id i)) (\<lambda>_.
         and_then (config_checks new) (\<lambda>_.
         case select_first at (tf_configs db) of
           Some old \<Rightarrow>
             (let r = config_conflict rt new old
              in and_then (guard (fits_integer (tcf_credential_version r)) (PgError ''22003'' '''')) (\<lambda>_.
                 and_then (guard (active_shortcode_free r (tf_configs db))
                   (PgError ''23505'' ''ux_tenant_mpesa_configs_active_shortcode'')) (\<lambda>_.
                 and_then (map_mpesa_config c r) (\<lambda>m.
                 Inr (m, db\<lparr>tf_configs := update_where at (config_conflict rt new) (tf_configs db)\<rparr>)))))
         | None \<Rightarrow>
             and_then (guard (active_shortcode_free new (tf_configs db))
               (PgError ''23505'' ''ux_tenant_mpesa_configs_active_shortcode'')) (\<lambda>_.
             and_then (map_mpesa_config c new) (\<lambda>m.
             Inr (m, db\<lparr>tf_configs := tf_configs db @ [new]\<rparr>))))))"

text \<open>
  \<open>ensureMpesaPaymentChannel\<close>. The arbiter is the partial index over the active channels of a configuration:
  a row proposed with another status conflicts with nothing and is inserted beside the active one.
\<close>

definition ensure_mpesa_channel ::
  "runtime \<Rightarrow> string \<Rightarrow> uuid \<Rightarrow> channel_type \<Rightarrow> string \<Rightarrow> channel_status \<Rightarrow> 'a tenant_finance_db_scheme \<Rightarrow>
     (tenant_channel \<times> 'a tenant_finance_db_scheme) result" where
  "ensure_mpesa_channel rt tenant config_id kind name st db =
     (let new = \<lparr>tch_id = fresh_uuid (map tch_id (tf_channels db)), tch_tenant_id = tenant, tch_channel_type = kind,
            tch_name = name, tch_mpesa_config_id = Some config_id, tch_bank_account_id = None, tch_status = st,
            tch_metadata = [], tch_created_at = rt_now rt, tch_updated_at = rt_now rt\<rparr>;
          at = (\<lambda>c. tch_tenant_id c = tenant \<and> tch_mpesa_config_id c = Some config_id \<and> tch_status c = ChActive);
          f = (\<lambda>c. c\<lparr>tch_channel_type := kind, tch_name := name, tch_status := st, tch_updated_at := rt_now rt\<rparr>)
      in and_then (rls_check rt tenant) (\<lambda>_.
         and_then (guard (not_blank name) (PgError ''23514'' ''ck_tenant_payment_channels_name_not_blank'')) (\<lambda>_.
         and_then (guard (list_ex (\<lambda>r. tcf_tenant_id r = tenant \<and> tcf_id r = config_id) (tf_configs db))
           (PgError ''23503'' ''fk_tenant_payment_channels_mpesa_config'')) (\<lambda>_.
         case (if st = ChActive then select_first at (tf_channels db) else None) of
           Some old \<Rightarrow> Inr (f old, db\<lparr>tf_channels := update_where at f (tf_channels db)\<rparr>)
         | None \<Rightarrow> Inr (new, db\<lparr>tf_channels := tf_channels db @ [new]\<rparr>)))))"

definition bank_account_aad :: "string \<Rightarrow> string" where
  "bank_account_aad tenant = ''tenant_bank_accounts:'' @ tenant @ '':account_number''"

definition hash_account_number :: "runtime \<Rightarrow> string \<Rightarrow> string \<Rightarrow> string" where
  "hash_account_number rt tenant account_number =
     rt_sha256 rt (tenant @ '':'' @ filter (\<lambda>x. \<not> is_space x) account_number)"

definition map_bank_account :: "cipher \<Rightarrow> tenant_bank \<Rightarrow> tenant_bank result" where
  "map_bank_account c r =
     and_then (pii_decrypt c (tba_account_number r) (bank_account_aad (tba_tenant_id r))) (\<lambda>n.
     Inr (r\<lparr>tba_account_number := n\<rparr>))"

record bank_input =
  bi_tenant_id :: string
  bi_bank_name :: string
  bi_branch_name :: "string option"
  bi_account_name :: string
  bi_account_number :: string
  bi_currency :: string
  bi_status :: finance_status

definition bank_row :: "cipher \<Rightarrow> runtime \<Rightarrow> bank_input \<Rightarrow> uuid \<Rightarrow> tenant_bank" where
  "bank_row c rt i new_id =
     \<lparr>tba_id = new_id, tba_tenant_id = bi_tenant_id i, tba_bank_name = bi_bank_name i, tba_branch_name = bi_branch_name i,
      tba_account_name = bi_account_name i,
      tba_account_number = pii_encrypt c (bi_account_number i) (bank_account_aad (bi_tenant_id i)),
      tba_account_number_hash = hash_account_number rt (bi_tenant_id i) (bi_account_number i),
      tba_currency = bi_currency i, tba_status = bi_status i, tba_created_at = rt_now rt, tba_updated_at = rt_now rt\<rparr>"

definition bank_checks :: "tenant_bank \<Rightarrow> unit result" where
  "bank_checks r =
     and_then (guard (not_blank (tba_bank_name r)) (PgError ''23514'' ''ck_tenant_bank_accounts_bank_name_not_blank'')) (\<lambda>_.
     and_then (guard (not_blank (tba_account_name r)) (PgError ''23514'' ''ck_tenant_bank_accounts_account_name_not_blank'')) (\<lambda>_.
     guard (currency_format (tba_currency r)) (PgError ''23514'' ''ck_tenant_bank_accounts_currency'')))"

definition create_bank_account_row ::
  "cipher \<Rightarrow> runtime \<Rightarrow> bank_input \<Rightarrow> 'a tenant_finance_db_scheme \<Rightarrow> (tenant_bank \<times> 'a tenant_finance_db_scheme) result" where
  "create_bank_account_row c rt i db =
     (let new = bank_row c rt i (fresh_uuid (map tba_id (tf_banks db)));
          at = (\<lambda>r. tba_tenant_id r = tba_tenant_id new \<and> tba_account_number_hash r = tba_account_number_hash new);
          f = (\<lambda>r. r\<lparr>tba_bank_name := tba_bank_name new, tba_branch_name := tba_branch_name new,
                 tba_account_name := tba_account_name new, tba_account_number := tba_account_number new,
                 tba_currency := tba_currency new, tba_status := tba_status new, tba_updated_at := rt_now rt\<rparr>)
      in and_then (rls_check rt (bi_tenant_id i)) (\<lambda>_.
         and_then (bank_checks new) (\<lambda>_.
         case select_first at (tf_banks db) of
           Some old \<Rightarrow> and_then (map_bank_account c (f old)) (\<lambda>m.
             Inr (m, db\<lparr>tf_banks := update_where at f (tf_banks db)\<rparr>))
         | None \<Rightarrow> and_then (map_bank_account c new) (\<lambda>m. Inr (m, db\<lparr>tf_banks := tf_banks db @ [new]\<rparr>)))))"

definition update_channel_status_row ::
  "runtime \<Rightarrow> string \<Rightarrow> string \<Rightarrow> channel_status \<Rightarrow> 'a tenant_finance_db_scheme \<Rightarrow> 'a tenant_finance_db_scheme result" where
  "update_channel_status_row rt tenant channel_id st db =
     and_then (pg_uuid channel_id) (\<lambda>i.
     let at = (\<lambda>c. in_session rt (tch_tenant_id c) \<and> tch_tenant_id c = tenant \<and> tch_id c = i)
     in and_then (guard (st = ChActive \<longrightarrow> \<not> list_ex (\<lambda>c. at c \<and> tch_mpesa_config_id c \<noteq> None \<and>
            list_ex (\<lambda>d. tch_id d \<noteq> i \<and> tch_tenant_id d = tenant \<and> tch_mpesa_config_id d = tch_mpesa_config_id c \<and>
              tch_status d = ChActive) (tf_channels db)) (tf_channels db))
          (PgError ''23505'' ''ux_tenant_payment_channels_active_mpesa_config'')) (\<lambda>_.
        Inr (db\<lparr>tf_channels := update_where at (\<lambda>c. c\<lparr>tch_status := st, tch_updated_at := rt_now rt\<rparr>) (tf_channels db)\<rparr>)))"

section \<open>The summary\<close>

definition mask_secret :: "string \<Rightarrow> string" where
  "mask_secret v =
     (let n = length v
      in if n \<le> 6 then replicate n (CHR ''*'')
         else take 3 v @ replicate (max 4 (n - 6)) (CHR ''*'') @ drop (n - 3) v)"

definition mask_account_number :: "string \<Rightarrow> string" where
  "mask_account_number v =
     (let t = filter (\<lambda>x. \<not> is_space x) v; n = length t
      in if n \<le> 4 then replicate n (CHR ''*'') else replicate (n - 4) (CHR ''*'') @ drop (n - 4) t)"

definition list_configs :: "cipher \<Rightarrow> runtime \<Rightarrow> 'a tenant_finance_db_scheme \<Rightarrow> string \<Rightarrow> tenant_config list result" where
  "list_configs c rt db tenant =
     traverse (map_mpesa_config c) (sort_key (\<lambda>r. (if tcf_status r = TfActive then 0 else 1 :: int, - tcf_updated_at r))
       (filter (\<lambda>r. in_session rt (tcf_tenant_id r) \<and> tcf_tenant_id r = tenant) (tf_configs db)))"

definition list_banks :: "cipher \<Rightarrow> runtime \<Rightarrow> 'a tenant_finance_db_scheme \<Rightarrow> string \<Rightarrow> tenant_bank list result" where
  "list_banks c rt db tenant =
     traverse (map_bank_account c) (sort_key (\<lambda>r. (if tba_status r = TfActive then 0 else 1 :: int, tba_bank_name r, tba_account_name r))
       (filter (\<lambda>r. in_session rt (tba_tenant_id r) \<and> tba_tenant_id r = tenant) (tf_banks db)))"

fun channel_type_text :: "channel_type \<Rightarrow> string" where
  "channel_type_text ChMpesaPaybill = ''mpesa_paybill''"
| "channel_type_text ChMpesaTill = ''mpesa_till''"
| "channel_type_text ChBankAccount = ''bank_account''"
| "channel_type_text ChManualBankDeposit = ''manual_bank_deposit''"

definition list_channels :: "runtime \<Rightarrow> 'a tenant_finance_db_scheme \<Rightarrow> string \<Rightarrow> tenant_channel list" where
  "list_channels rt db tenant =
     sort_key (\<lambda>c. (if tch_status c = ChActive then 0 else 1 :: int, channel_type_text (tch_channel_type c), tch_name c))
       (filter (\<lambda>c. in_session rt (tch_tenant_id c) \<and> tch_tenant_id c = tenant) (tf_channels db))"

end
