(* ===== verification/Tenant_Finance_Service.thy ===== *)
theory Tenant_Finance_Service
  imports Tenant_Finance
begin

text \<open>
  \<open>TenantFinanceConfigService\<close>: the configuration a payment is collected with, resolved by the tenant or by the
  shortcode of a callback, and the operations of a school's finance settings. \<open>getSummary\<close> and its dashboard
  read the tables of the payments module.
\<close>

section \<open>Resolving a configuration\<close>

record resolved_config =
  rc_owner :: payment_owner
  rc_tenant_id :: string
  rc_mpesa_config_id :: "uuid option"
  rc_payment_channel_id :: "uuid option"
  rc_shortcode :: string
  rc_paybill_number :: "string option"
  rc_till_number :: "string option"
  rc_consumer_key :: string
  rc_consumer_secret :: string
  rc_passkey :: string
  rc_initiator_name :: "string option"
  rc_environment :: mpesa_environment
  rc_base_url :: string
  rc_callback_url :: string
  rc_transaction_type :: string
  rc_ledger_debit_account_code :: string
  rc_ledger_credit_account_code :: string

definition resolve_base_url :: "runtime \<Rightarrow> mpesa_environment \<Rightarrow> string" where
  "resolve_base_url rt env =
     (if env = Production then or_default (rt_config rt ''mpesa.productionBaseUrl'') ''https://api.safaricom.co.ke''
      else or_default (or_else (rt_config rt ''mpesa.sandboxBaseUrl'') (rt_config rt ''mpesa.baseUrl''))
             ''https://sandbox.safaricom.co.ke'')"

definition clearing_account_code :: "runtime \<Rightarrow> tenant_accounts option \<Rightarrow> string" where
  "clearing_account_code rt a = (case a of Some a \<Rightarrow> tfa_mpesa_clearing_account_code a
     | None \<Rightarrow> or_default (rt_config rt ''mpesa.ledgerDebitAccountCode'') ''1110-MPESA-CLEARING'')"

definition fee_control_account_code :: "runtime \<Rightarrow> tenant_accounts option \<Rightarrow> string" where
  "fee_control_account_code rt a = (case a of Some a \<Rightarrow> tfa_fee_control_account_code a
     | None \<Rightarrow> or_default (rt_config rt ''mpesa.ledgerCreditAccountCode'') ''1100-AR-FEES'')"

text \<open>The rest of both \<open>resolveMpesaConfigForTenant\<close> and \<open>resolveMpesaConfigByShortcode\<close>.\<close>

definition resolved_from :: "runtime \<Rightarrow> 'a tenant_finance_db_scheme \<Rightarrow> tenant_config \<Rightarrow> resolved_config" where
  "resolved_from rt db m =
     (let t = tcf_tenant_id m; a = find_financial_accounts rt db t; ch = find_active_channel rt db t (tcf_id m)
      in \<lparr>rc_owner = OwnerTenant, rc_tenant_id = t, rc_mpesa_config_id = Some (tcf_id m),
          rc_payment_channel_id = map_option tch_id ch, rc_shortcode = tcf_shortcode m,
          rc_paybill_number = tcf_paybill_number m, rc_till_number = tcf_till_number m,
          rc_consumer_key = tcf_consumer_key m, rc_consumer_secret = tcf_consumer_secret m, rc_passkey = tcf_passkey m,
          rc_initiator_name = tcf_initiator_name m, rc_environment = tcf_environment m,
          rc_base_url = resolve_base_url rt (tcf_environment m), rc_callback_url = tcf_callback_url m,
          rc_transaction_type = (if truthy (tcf_till_number m) then ''CustomerBuyGoodsOnline'' else ''CustomerPayBillOnline''),
          rc_ledger_debit_account_code = clearing_account_code rt a,
          rc_ledger_credit_account_code = fee_control_account_code rt a\<rparr>)"

definition resolve_mpesa_config_for_tenant ::
  "cipher \<Rightarrow> runtime \<Rightarrow> 'a tenant_finance_db_scheme \<Rightarrow> string \<Rightarrow> resolved_config result" where
  "resolve_mpesa_config_for_tenant c rt db tenant =
     and_then (find_active_config_for_tenant c rt db tenant) (\<lambda>found.
     case found of Some m \<Rightarrow> Inr ((resolved_from rt db m)\<lparr>rc_tenant_id := tenant\<rparr>)
     | None \<Rightarrow> Inl (NotFoundException
         (''Tenant '' @ quoted tenant @ '' does not have an active school-owned MPESA configuration'')))"

definition resolve_mpesa_config_by_shortcode ::
  "cipher \<Rightarrow> runtime \<Rightarrow> 'a tenant_finance_db_scheme \<Rightarrow> string \<Rightarrow> resolved_config result" where
  "resolve_mpesa_config_by_shortcode c rt db shortcode =
     (let code = js_trim shortcode
      in if code = [] then Inl (BadRequestException ''MPESA shortcode is required'')
         else and_then (find_active_config_by_shortcode c rt db code) (\<lambda>found.
           case found of Some m \<Rightarrow> Inr (resolved_from rt db m)
           | None \<Rightarrow> Inl (NotFoundException
               (''No active school-owned MPESA configuration was found for shortcode '' @ quoted code))))"

definition require_config :: "runtime \<Rightarrow> string \<Rightarrow> string result" where
  "require_config rt key =
     (let v = or_default (rt_config rt key) []
      in if js_trim v = [] then Inl (BadGatewayException (''Missing MPESA configuration value '' @ quoted key)) else Inr v)"

text \<open>\<open>value.includes('sandbox')\<close>\<close>

fun text_includes :: "string \<Rightarrow> string \<Rightarrow> bool" where
  "text_includes [] w \<longleftrightarrow> w = []"
| "text_includes (x # xs) w \<longleftrightarrow> take (length w) (x # xs) = w \<or> text_includes xs w"

definition infer_environment :: "string \<Rightarrow> mpesa_environment" where
  "infer_environment url = (if text_includes url ''sandbox'' then Sandbox else Production)"

definition resolve_platform_mpesa_config :: "runtime \<Rightarrow> string \<Rightarrow> resolved_config result" where
  "resolve_platform_mpesa_config rt tenant =
     and_then (require_config rt ''mpesa.shortCode'') (\<lambda>code.
     and_then (require_config rt ''mpesa.consumerKey'') (\<lambda>key.
     and_then (require_config rt ''mpesa.consumerSecret'') (\<lambda>secret.
     and_then (require_config rt ''mpesa.passkey'') (\<lambda>passkey.
     and_then (require_config rt ''mpesa.baseUrl'') (\<lambda>base_url.
     and_then (require_config rt ''mpesa.callbackUrl'') (\<lambda>callback_url.
     Inr \<lparr>rc_owner = OwnerPlatform, rc_tenant_id = tenant, rc_mpesa_config_id = None, rc_payment_channel_id = None,
          rc_shortcode = code, rc_paybill_number = Some code, rc_till_number = None, rc_consumer_key = key,
          rc_consumer_secret = secret, rc_passkey = passkey, rc_initiator_name = None,
          rc_environment = infer_environment base_url, rc_base_url = base_url, rc_callback_url = callback_url,
          rc_transaction_type = or_default (rt_config rt ''mpesa.transactionType'') ''CustomerPayBillOnline'',
          rc_ledger_debit_account_code = clearing_account_code rt None,
          rc_ledger_credit_account_code = fee_control_account_code rt None\<rparr>))))))"

text \<open>The configuration that the payment intents are requested with (\<open>MpesaService.resolvePaymentConfig\<close>).\<close>

definition payment_config :: "resolved_config \<Rightarrow> mpesa_config" where
  "payment_config r =
     \<lparr>mc_mpesa_config_id = rc_mpesa_config_id r, mc_payment_channel_id = rc_payment_channel_id r,
      mc_shortcode = rc_shortcode r, mc_till_number = rc_till_number r, mc_passkey = rc_passkey r,
      mc_callback_url = rc_callback_url r, mc_transaction_type = rc_transaction_type r,
      mc_ledger_debit_account_code = rc_ledger_debit_account_code r,
      mc_ledger_credit_account_code = rc_ledger_credit_account_code r\<rparr>"

section \<open>The tenant of a callback\<close>

definition code_text :: "json \<Rightarrow> string option" where
  "code_text v = (case v of JStr s \<Rightarrow> Some (js_trim s) | JNum s \<Rightarrow> Some (js_trim s) | _ \<Rightarrow> None)"

definition shortcode_keys :: "string list" where
  "shortcode_keys =
     [''BusinessShortCode'', ''ShortCode'', ''shortcode'', ''PayBillNumber'', ''paybill_number'', ''TillNumber'', ''till_number'']"

definition own_shortcode :: "(string \<times> json) list \<Rightarrow> string option" where
  "own_shortcode kvs = (case List.map_filter (\<lambda>k. Option.bind (map_of kvs k) code_text) shortcode_keys of
     [] \<Rightarrow> None | s # _ \<Rightarrow> Some s)"

lemma map_of_size: "map_of kvs k = Some v \<Longrightarrow> size v < size (JObj kvs)"
proof -
  assume "map_of kvs k = Some v"
  then have "(k, v) \<in> set kvs" by (rule map_of_SomeD)
  then have "size_prod (\<lambda>_. 0) size (k, v) \<le> size_list (size_prod (\<lambda>_. 0) size) kvs"
    by (rule size_list_estimation') simp
  then show ?thesis by simp
qed

function extract_shortcode :: "json \<Rightarrow> string option" where
  "extract_shortcode (JObj kvs) =
     (case own_shortcode kvs of
        Some s \<Rightarrow> Some s
      | None \<Rightarrow>
          (let body = (case map_of kvs ''Body'' of None \<Rightarrow> None | Some v \<Rightarrow> extract_shortcode v)
           in if truthy body then body
              else
                (let res = (case map_of kvs ''Result'' of None \<Rightarrow> None | Some v \<Rightarrow> extract_shortcode v)
                 in if truthy res then res
                    else
                      (let meta = (case map_of kvs ''CallbackMetadata'' of None \<Rightarrow> None | Some v \<Rightarrow> extract_shortcode v)
                       in if truthy meta then meta else None))))"
| "extract_shortcode JNull = None"
| "extract_shortcode (JBool b) = None"
| "extract_shortcode (JNum n) = None"
| "extract_shortcode (JStr s) = None"
| "extract_shortcode (JArr vs) = None"
  by pat_completeness auto
termination by (relation "measure size") (auto dest: map_of_size simp del: json.size)

definition resolve_tenant_for_callback ::
  "cipher \<Rightarrow> runtime \<Rightarrow> 'p payments_db_scheme \<Rightarrow> 'a tenant_finance_db_scheme \<Rightarrow> json \<Rightarrow> string option \<Rightarrow> string option \<Rightarrow>
     string option \<Rightarrow> (string \<times> string option) result" where
  "resolve_tenant_for_callback c rt pay db payload checkout merchant fallback =
     (let code = extract_shortcode payload; fb = (case fallback of None \<Rightarrow> None | Some f \<Rightarrow> if js_trim f = [] then None else Some (js_trim f));
          by_request = (if truthy checkout \<and> truthy merchant
            then find_tenant_by_payment_request rt pay (the checkout) (the merchant) else None);
          rest = (if truthy by_request then Inr (the by_request, code)
                  else case fb of Some f \<Rightarrow> Inr (f, code)
                    | None \<Rightarrow> Inl (BadRequestException ''Unable to resolve tenant for MPESA callback''))
      in case fb of
           Some f \<Rightarrow>
             if truthy code then
               and_then (find_config_for_tenant_by_shortcode c rt db f (the code)) (\<lambda>config.
               if config \<noteq> None then Inr (f, code) else rest)
             else rest
         | None \<Rightarrow> rest)"

definition assert_callback_belongs_to_tenant ::
  "cipher \<Rightarrow> runtime \<Rightarrow> 'p payments_db_scheme \<Rightarrow> 'a tenant_finance_db_scheme \<Rightarrow> string \<Rightarrow> json \<Rightarrow> string \<Rightarrow> string \<Rightarrow> unit result" where
  "assert_callback_belongs_to_tenant c rt pay db tenant payload checkout merchant =
     (let code = extract_shortcode payload
      in and_then
           (if truthy code then
              and_then (find_config_for_tenant_by_shortcode c rt db tenant (the code)) (\<lambda>config.
              guard (config \<noteq> None) (BadRequestException
                (''MPESA callback shortcode '' @ quoted (the code) @ '' is not active for tenant '' @ quoted tenant)))
            else Inr ()) (\<lambda>_.
         let found = find_tenant_by_payment_request rt pay checkout merchant
         in guard (\<not> (truthy found \<and> the found \<noteq> tenant)) (BadRequestException
              (''MPESA callback '' @ quoted checkout @ '' belongs to tenant '' @ quoted (the found) @ '', not '' @ quoted tenant))))"

section \<open>The summary and its dashboard\<close>

record config_summary =
  cs_id :: uuid
  cs_tenant_id :: string
  cs_shortcode :: string
  cs_paybill_number :: "string option"
  cs_till_number :: "string option"
  cs_initiator_name :: "string option"
  cs_environment :: mpesa_environment
  cs_callback_url :: string
  cs_status :: finance_status
  cs_created_at :: int
  cs_updated_at :: int
  cs_consumer_key_masked :: string
  cs_consumer_secret_masked :: string
  cs_passkey_masked :: string

record bank_summary =
  bks_id :: uuid
  bks_tenant_id :: string
  bks_bank_name :: string
  bks_branch_name :: "string option"
  bks_account_name :: string
  bks_currency :: string
  bks_status :: finance_status
  bks_created_at :: int
  bks_updated_at :: int
  bks_account_number_masked :: string

record finance_dashboard =
  dh_todays_collections_minor :: string
  dh_pending_reconciliations :: nat
  dh_failed_callbacks :: nat
  dh_unmatched_payments :: nat
  dh_mpesa_status :: string
  dh_reconciliation_status :: string

record finance_summary =
  fsm_tenant_id :: string
  fsm_mpesa_configs :: "config_summary list"
  fsm_bank_accounts :: "bank_summary list"
  fsm_payment_channels :: "tenant_channel list"
  fsm_financial_accounts :: "tenant_accounts option"
  fsm_dashboard :: finance_dashboard

definition config_summary_of :: "tenant_config \<Rightarrow> config_summary" where
  "config_summary_of r =
     \<lparr>cs_id = tcf_id r, cs_tenant_id = tcf_tenant_id r, cs_shortcode = tcf_shortcode r,
      cs_paybill_number = tcf_paybill_number r, cs_till_number = tcf_till_number r, cs_initiator_name = tcf_initiator_name r,
      cs_environment = tcf_environment r, cs_callback_url = tcf_callback_url r, cs_status = tcf_status r,
      cs_created_at = tcf_created_at r, cs_updated_at = tcf_updated_at r,
      cs_consumer_key_masked = mask_secret (tcf_consumer_key r),
      cs_consumer_secret_masked = mask_secret (tcf_consumer_secret r), cs_passkey_masked = mask_secret (tcf_passkey r)\<rparr>"

definition bank_summary_of :: "tenant_bank \<Rightarrow> bank_summary" where
  "bank_summary_of r =
     \<lparr>bks_id = tba_id r, bks_tenant_id = tba_tenant_id r, bks_bank_name = tba_bank_name r, bks_branch_name = tba_branch_name r,
      bks_account_name = tba_account_name r, bks_currency = tba_currency r, bks_status = tba_status r,
      bks_created_at = tba_created_at r, bks_updated_at = tba_updated_at r,
      bks_account_number_masked = mask_account_number (tba_account_number r)\<rparr>"

text \<open>Midnight in Nairobi (three hours ahead of UTC all year).\<close>

definition nairobi_midnight :: "int \<Rightarrow> int" where
  "nairobi_midnight now = (now + 3 * 3600000) div ms_per_day * ms_per_day - 3 * 3600000"

definition load_dashboard :: "runtime \<Rightarrow> 'p payments_db_scheme \<Rightarrow> string \<Rightarrow> finance_dashboard" where
  "load_dashboard rt pay tenant =
     (let mine = (\<lambda>t. in_session rt t \<and> t = tenant);
          succeeded = filter (\<lambda>t. mine (mt_tenant_id t) \<and> mt_status t = MpesaSucceeded) (py_transactions pay);
          today = filter (\<lambda>t. nairobi_midnight (rt_now rt) \<le>
            or_default (or_else (mt_transaction_occurred_at t) (mt_processed_at t)) (mt_created_at t)) succeeded
      in \<lparr>dh_todays_collections_minor = show_int (sum_list (List.map_filter mt_amount_minor today)),
          dh_pending_reconciliations = length (filter (\<lambda>i. mine (in_tenant_id i) \<and>
            in_status i \<in> {PiStkRequested, PiCallbackReceived, PiProcessing}) (py_intents pay)),
          dh_failed_callbacks = length (filter (\<lambda>l. mine (cl_tenant_id l) \<and>
            cl_processing_status l \<in> {ClFailed, ClRejected}) (py_logs pay)),
          dh_unmatched_payments = length (filter (\<lambda>t. mt_ledger_transaction_id t = None) succeeded),
          dh_mpesa_status = ''inactive'', dh_reconciliation_status = ''balanced''\<rparr>)"

definition finance_summary_of ::
  "cipher \<Rightarrow> runtime \<Rightarrow> 'p payments_db_scheme \<Rightarrow> 'a tenant_finance_db_scheme \<Rightarrow> string \<Rightarrow> finance_summary result" where
  "finance_summary_of c rt pay db tenant =
     and_then (list_configs c rt db tenant) (\<lambda>configs.
     and_then (list_banks c rt db tenant) (\<lambda>banks.
     let d = load_dashboard rt pay tenant
     in Inr \<lparr>fsm_tenant_id = tenant, fsm_mpesa_configs = map config_summary_of configs,
          fsm_bank_accounts = map bank_summary_of banks, fsm_payment_channels = list_channels rt db tenant,
          fsm_financial_accounts = find_financial_accounts rt db tenant,
          fsm_dashboard = d\<lparr>dh_mpesa_status :=
              (if list_ex (\<lambda>r. tcf_status r = TfActive) configs then ''active'' else ''inactive''),
            dh_reconciliation_status :=
              (if dh_pending_reconciliations d = 0 \<and> dh_failed_callbacks d = 0 \<and> dh_unmatched_payments d = 0
               then ''balanced'' else ''attention_required'')\<rparr>\<rparr>))"

section \<open>The operations\<close>

record mpesa_config_dto =
  md_shortcode :: string
  md_paybill_number :: "string option"
  md_till_number :: "string option"
  md_consumer_key :: string
  md_consumer_secret :: string
  md_passkey :: string
  md_initiator_name :: "string option"
  md_environment :: mpesa_environment
  md_callback_url :: string
  md_status :: "finance_status option"
  md_mpesa_clearing_account_code :: "string option"
  md_fee_control_account_code :: "string option"

definition config_input_of :: "string \<Rightarrow> mpesa_config_dto \<Rightarrow> config_input" where
  "config_input_of tenant d =
     \<lparr>ci_tenant_id = tenant, ci_shortcode = md_shortcode d, ci_paybill_number = md_paybill_number d,
      ci_till_number = md_till_number d, ci_consumer_key = md_consumer_key d, ci_consumer_secret = md_consumer_secret d,
      ci_passkey = md_passkey d, ci_initiator_name = md_initiator_name d, ci_environment = md_environment d,
      ci_callback_url = md_callback_url d, ci_status = or_default (md_status d) TfActive\<rparr>"

definition channel_name :: "tenant_config \<Rightarrow> string" where
  "channel_name m =
     (if truthy (tcf_till_number m) then ''M-PESA Till '' @ the (tcf_till_number m)
      else ''M-PESA Paybill '' @ or_default (tcf_paybill_number m) (tcf_shortcode m))"

definition upsert_mpesa_config ::
  "cipher \<Rightarrow> runtime \<Rightarrow> 'p payments_db_scheme \<Rightarrow> string \<Rightarrow> mpesa_config_dto \<Rightarrow> 'a tenant_finance_db_scheme \<Rightarrow>
     (finance_summary \<times> 'a tenant_finance_db_scheme) result" where
  "upsert_mpesa_config c rt pay tenant d db =
     and_then (upsert_config_row c rt (config_input_of tenant d) db) (\<lambda>(m, db1).
     and_then
       (if truthy (md_mpesa_clearing_account_code d) \<or> truthy (md_fee_control_account_code d)
        then upsert_financial_accounts rt tenant
               (or_default (md_mpesa_clearing_account_code d) ''1110-MPESA-CLEARING'')
               (or_default (md_fee_control_account_code d) ''1100-AR-FEES'') ''KES'' db1
        else Inr db1) (\<lambda>db2.
     and_then (ensure_mpesa_channel rt tenant (tcf_id m) (if truthy (tcf_till_number m) then ChMpesaTill else ChMpesaPaybill)
       (channel_name m) (if md_status d = Some TfActive \<or> md_status d = None then ChActive else ChInactive) db2) (\<lambda>(ch, db3).
     and_then (record_audit rt (Some tenant) ''tenant_finance.mpesa_config.upserted'' ''tenant_mpesa_config'' (Some (tcf_id m))
       (JObj [(''shortcode'', JStr (tcf_shortcode m)), (''paybill_number'', json_opt (tcf_paybill_number m)),
          (''till_number'', json_opt (tcf_till_number m)), (''environment'', JStr (environment_text (tcf_environment m))),
          (''channel_id'', JStr (uuid_text (tch_id ch)))]) db3) (\<lambda>db4.
     and_then (finance_summary_of c rt pay db4 tenant) (\<lambda>s. Inr (s, db4))))))"

record bank_dto =
  bd_bank_name :: string
  bd_branch_name :: "string option"
  bd_account_name :: string
  bd_account_number :: string
  bd_currency :: string
  bd_status :: "finance_status option"

fun finance_status_text :: "finance_status \<Rightarrow> string" where
  "finance_status_text TfDraft = ''draft''"
| "finance_status_text TfActive = ''active''"
| "finance_status_text TfInactive = ''inactive''"
| "finance_status_text TfRevoked = ''revoked''"

definition create_bank_account ::
  "cipher \<Rightarrow> runtime \<Rightarrow> string \<Rightarrow> bank_dto \<Rightarrow> 'a tenant_finance_db_scheme \<Rightarrow> 'a tenant_finance_db_scheme result" where
  "create_bank_account c rt tenant d db =
     and_then (create_bank_account_row c rt
       \<lparr>bi_tenant_id = tenant, bi_bank_name = bd_bank_name d, bi_branch_name = bd_branch_name d,
        bi_account_name = bd_account_name d, bi_account_number = bd_account_number d, bi_currency = bd_currency d,
        bi_status = or_default (bd_status d) TfActive\<rparr> db) (\<lambda>(b, db1).
     record_audit rt (Some tenant) ''tenant_finance.bank_account.upserted'' ''tenant_bank_account'' (Some (tba_id b))
       (JObj [(''bank_name'', JStr (tba_bank_name b)), (''branch_name'', json_opt (tba_branch_name b)),
          (''account_name'', JStr (tba_account_name b)), (''currency'', JStr (tba_currency b)),
          (''status'', JStr (finance_status_text (tba_status b)))]) db1)"

text \<open>The audit row's \<open>resource_id\<close> is the id of the request, whether or not a channel has it.\<close>

definition update_payment_channel_status ::
  "runtime \<Rightarrow> string \<Rightarrow> string \<Rightarrow> channel_status \<Rightarrow> 'a tenant_finance_db_scheme \<Rightarrow> 'a tenant_finance_db_scheme result" where
  "update_payment_channel_status rt tenant channel_id st db =
     and_then (update_channel_status_row rt tenant channel_id st db) (\<lambda>db1.
     and_then (pg_uuid channel_id) (\<lambda>i.
     record_audit rt (Some tenant) ''tenant_finance.payment_channel.status_updated'' ''tenant_payment_channel'' (Some i)
       (JObj [(''status'', JStr (channel_status_text st))]) db1))"

end
