(* ===== verification/Tenant_Finance_Claims.thy ===== *)
theory Tenant_Finance_Claims
  imports Tenant_Finance_Service
begin

text \<open>
  The settings a school stores are the settings its payments are collected with, and what a deactivation leaves.
\<close>

lemma first_row_least:
  assumes "r \<in> set rows" and "P r" and "\<And>x. x \<in> set rows \<Longrightarrow> P x \<Longrightarrow> x \<noteq> r \<Longrightarrow> key r < key x"
  shows "first_row (sort_key key (filter P rows)) = Some (r :: 'r)"
proof -
  let ?s = "sort_key key (filter P rows)"
  have "r \<in> set ?s" using assms(1,2) by simp
  then obtain y ys where s: "?s = y # ys" by (cases ?s) auto
  have "y = r"
  proof (rule ccontr)
    assume "y \<noteq> r"
    moreover have "y \<in> set ?s" by (simp only: s) simp
    ultimately have "key r < key y" using assms(3) by auto
    moreover have "sorted (map key ?s)" by simp
    then have "key y \<le> key r" using \<open>r \<in> set ?s\<close> s by (auto simp del: sorted_sort_key)
    ultimately show False by simp
  qed
  then show ?thesis by (simp only: s first_row_def) simp
qed

text \<open>The row of the settings is in clear what was stored.\<close>

definition stored_config :: "config_input \<Rightarrow> runtime \<Rightarrow> tenant_config \<Rightarrow> tenant_config \<Rightarrow> bool" where
  "stored_config i rt r m \<longleftrightarrow> tcf_tenant_id r = ci_tenant_id i \<and> tcf_shortcode r = ci_shortcode i \<and>
     tcf_paybill_number r = ci_paybill_number i \<and> tcf_till_number r = ci_till_number i \<and> tcf_status r = ci_status i \<and>
     tcf_updated_at r = rt_now rt \<and> tcf_tenant_id m = ci_tenant_id i \<and> tcf_shortcode m = ci_shortcode i \<and>
     tcf_consumer_key m = ci_consumer_key i \<and> tcf_consumer_secret m = ci_consumer_secret i \<and> tcf_passkey m = ci_passkey i \<and>
     tcf_callback_url m = ci_callback_url i \<and> tcf_environment m = ci_environment i \<and> tcf_till_number m = ci_till_number i"

definition clear_text :: "string \<Rightarrow> bool" where
  "clear_text s \<longleftrightarrow> s \<noteq> [] \<and> \<not> is_encrypted s"

lemma upsert_config_stored:
  assumes c: "authenticated_cipher c" and up: "upsert_config_row c rt i db = Inr (m, db')"
    and secrets: "clear_text (ci_consumer_key i)" "clear_text (ci_consumer_secret i)" "clear_text (ci_passkey i)"
    and keys: "distinct (map (\<lambda>r. (tcf_tenant_id r, tcf_shortcode r)) (tf_configs db))"
  shows "\<exists>r\<in>set (tf_configs db'). map_mpesa_config c r = Inr m \<and> stored_config i rt r m \<and>
    (\<forall>x\<in>set (tf_configs db'). x \<noteq> r \<longrightarrow> x \<in> set (tf_configs db)) \<and> in_session rt (ci_tenant_id i) \<and>
    (\<exists>rows. db' = db\<lparr>tf_configs := rows\<rparr>)"
proof -
  let ?new = "config_row c rt i (fresh_uuid (map tcf_id (tf_configs db)))" and ?at = "config_key (ci_tenant_id i) (ci_shortcode i)"
  have dec: "pii_decrypt c (pii_encrypt c v a) a = Inr v" if "clear_text v" for v a
    using decrypt_encrypt[OF c, of v a a] that by (simp add: clear_text_def)
  have session: "in_session rt (ci_tenant_id i)" using up by (simp add: upsert_config_row_def Let_def and_then_eq_Inr rls_check_def)
  show ?thesis
  proof (cases "select_first ?at (tf_configs db)")
    case None
    with up have m: "map_mpesa_config c ?new = Inr m" and db': "db' = db\<lparr>tf_configs := tf_configs db @ [?new]\<rparr>"
      by (auto simp: upsert_config_row_def Let_def and_then_eq_Inr)
    have "stored_config i rt ?new m" using m dec secrets
      by (auto simp: stored_config_def config_row_def map_mpesa_config_def Let_def)
    with m db' session show ?thesis by auto
  next
    case (Some old)
    let ?r = "config_conflict rt ?new old"
    from up Some have m: "map_mpesa_config c ?r = Inr m"
      and db': "db' = db\<lparr>tf_configs := update_where ?at (config_conflict rt ?new) (tf_configs db)\<rparr>"
      by (auto simp: upsert_config_row_def Let_def and_then_eq_Inr)
    have old: "old \<in> set (tf_configs db)" "?at old" using select_first_Some[OF Some] by auto
    have "stored_config i rt ?r m" using m dec secrets old(2)
      by (auto simp: stored_config_def config_conflict_def config_row_def map_mpesa_config_def Let_def config_key_def)
    moreover have "x = old" if "x \<in> set (tf_configs db)" "?at x" for x
      using keys that old inj_onD[of "\<lambda>r. (tcf_tenant_id r, tcf_shortcode r)" "set (tf_configs db)" x old]
      by (simp add: distinct_map config_key_def)
    then have "\<forall>x\<in>set (tf_configs db'). x \<noteq> ?r \<longrightarrow> x \<in> set (tf_configs db)" by (auto simp: db' set_update_where)
    moreover have "?r \<in> set (tf_configs db')" using old by (auto simp: db' set_update_where)
    ultimately show ?thesis using m session db' by blast
  qed
qed

lemma accounts_frame: "upsert_financial_accounts rt t a f cur db = Inr db' \<Longrightarrow> tf_configs db' = tf_configs db \<and> tf_channels db' = tf_channels db"
  by (auto simp: upsert_financial_accounts_def and_then_eq_Inr Let_def split: if_splits)

lemma channel_frame: "ensure_mpesa_channel rt t i k n st db = Inr (ch, db') \<Longrightarrow> tf_configs db' = tf_configs db"
  by (auto simp: ensure_mpesa_channel_def and_then_eq_Inr Let_def split: if_splits option.splits)

lemma audit_frame: "record_audit rt t a k i j (db :: 'a tenant_finance_db_scheme) = Inr db' \<Longrightarrow>
    tf_configs db' = tf_configs db \<and> tf_channels db' = tf_channels db"
  by (auto simp: record_audit_def create_audit_log_def split: option.splits if_splits)

lemma upsert_mpesa_config_Inr:
  assumes "upsert_mpesa_config c rt pay t d db = Inr (s, db' :: 'a tenant_finance_db_scheme)"
  obtains m ch and db1 db2 db3 :: "'a tenant_finance_db_scheme"
  where "upsert_config_row c rt (config_input_of t d) db = Inr (m, db1)"
    and "tf_configs db2 = tf_configs db1" and "tf_channels db2 = tf_channels db1"
    and "ensure_mpesa_channel rt t (tcf_id m) (if truthy (tcf_till_number m) then ChMpesaTill else ChMpesaPaybill)
       (channel_name m) (if md_status d = Some TfActive \<or> md_status d = None then ChActive else ChInactive) db2 = Inr (ch, db3)"
    and "tf_configs db' = tf_configs db1" and "tf_channels db' = tf_channels db3"
proof -
  from assms obtain m db1 db2 db3 ch where
      1: "upsert_config_row c rt (config_input_of t d) db = Inr (m, db1)"
    and 2: "(if truthy (md_mpesa_clearing_account_code d) \<or> truthy (md_fee_control_account_code d)
        then upsert_financial_accounts rt t
               (or_default (md_mpesa_clearing_account_code d) ''1110-MPESA-CLEARING'')
               (or_default (md_fee_control_account_code d) ''1100-AR-FEES'') ''KES'' db1
        else Inr db1) = Inr db2"
    and 3: "ensure_mpesa_channel rt t (tcf_id m) (if truthy (tcf_till_number m) then ChMpesaTill else ChMpesaPaybill)
       (channel_name m) (if md_status d = Some TfActive \<or> md_status d = None then ChActive else ChInactive) db2 = Inr (ch, db3)"
    and 4: "record_audit rt (Some t) ''tenant_finance.mpesa_config.upserted'' ''tenant_mpesa_config'' (Some (tcf_id m))
       (JObj [(''shortcode'', JStr (tcf_shortcode m)), (''paybill_number'', json_opt (tcf_paybill_number m)),
          (''till_number'', json_opt (tcf_till_number m)), (''environment'', JStr (environment_text (tcf_environment m))),
          (''channel_id'', JStr (uuid_text (tch_id ch)))]) db3 = Inr db'"
    by (auto simp: upsert_mpesa_config_def and_then_eq_Inr)
  have "tf_configs db2 = tf_configs db1" "tf_channels db2 = tf_channels db1"
    using 2 by (auto split: if_splits dest: accounts_frame)
  then show ?thesis using that[OF 1 _ _ 3] audit_frame[OF 4] channel_frame[OF 3] by simp
qed

section \<open>A cipher with these laws\<close>

fun colon_free :: "string \<Rightarrow> string" where
  "colon_free [] = []"
| "colon_free (c # s) =
     (if c = CHR '':'' then CHR ''%'' # CHR ''c'' # colon_free s
      else if c = CHR ''%'' then CHR ''%'' # CHR ''%'' # colon_free s else c # colon_free s)"

fun with_colons :: "string \<Rightarrow> string" where
  "with_colons (c # d # s) =
     (if c = CHR ''%'' then (if d = CHR ''c'' then CHR '':'' else d) # with_colons s else c # with_colons (d # s))"
| "with_colons s = s"

lemma colon_free [simp]: "CHR '':'' \<notin> set (colon_free s)" "colon_free s = [] \<longleftrightarrow> s = []"
  by (induction s rule: colon_free.induct) auto

lemma with_colons_Cons: "c \<noteq> CHR ''%'' \<Longrightarrow> with_colons (c # s) = c # with_colons s"
  by (cases s) auto

lemma with_colons_colon_free [simp]: "with_colons (colon_free s) = s"
  by (induction s rule: colon_free.induct) (auto simp: with_colons_Cons)

definition plain_cipher :: cipher where
  "plain_cipher = \<lparr>cp_seal = (\<lambda>v aad. (''i'', CHR ''t'' # colon_free aad, colon_free v)),
     cp_open = (\<lambda>(iv, tag, ciphertext) aad. if tag = CHR ''t'' # colon_free aad then Some (with_colons ciphertext) else None)\<rparr>"

lemma colon_free_inject: "colon_free a = colon_free b \<longleftrightarrow> a = b"
  by (metis with_colons_colon_free)

lemma plain_cipher_ok: "authenticated_cipher plain_cipher"
  by (auto simp: authenticated_cipher_def plain_cipher_def colon_free_inject)

section \<open>The stored settings are the ones in use\<close>

text \<open>C25: What a school stores is what its payments use: after its settings are stored as active, the configuration
  resolved for the school, and the one resolved by the shortcode, the paybill or the till of a callback in the school's
  session, has the school's id and, in clear, the keys, the secret and the passkey that were given, whatever other
  settings the school or other schools have, as long as those are older.\<close>

theorem stored_settings_are_used:
  assumes "authenticated_cipher c" and "upsert_mpesa_config c rt pay t d db = Inr (s, db')"
    and "md_status d = None \<or> md_status d = Some TfActive"
    and "clear_text (md_consumer_key d)" and "clear_text (md_consumer_secret d)" and "clear_text (md_passkey d)"
    and "distinct (map (\<lambda>r. (tcf_tenant_id r, tcf_shortcode r)) (tf_configs db))"
    and "\<forall>r\<in>set (tf_configs db). tcf_updated_at r < rt_now rt" and "rt_tenant_id rt' = rt_tenant_id rt"
    and "js_trim code \<noteq> []" and "md_shortcode d = js_trim code \<or> md_paybill_number d = Some (js_trim code) \<or> md_till_number d = Some (js_trim code)"
  shows "\<exists>r. resolve_mpesa_config_for_tenant c rt' db' t = Inr r \<and> resolve_mpesa_config_by_shortcode c rt' db' code = Inr r \<and>
    rc_tenant_id r = t \<and> rc_owner r = OwnerTenant \<and> rc_shortcode r = md_shortcode d \<and> rc_consumer_key r = md_consumer_key d \<and>
    rc_consumer_secret r = md_consumer_secret d \<and> rc_passkey r = md_passkey d \<and> rc_callback_url r = md_callback_url d \<and>
    rc_transaction_type r = (if truthy (md_till_number d) then ''CustomerBuyGoodsOnline'' else ''CustomerPayBillOnline'')"
proof -
  from assms(2) obtain m ch and db1 db2 db3 :: "'a tenant_finance_db_scheme"
  where up: "upsert_config_row c rt (config_input_of t d) db = Inr (m, db1)" and cfg: "tf_configs db' = tf_configs db1"
    by (rule upsert_mpesa_config_Inr)
  let ?i = "config_input_of t d"
  have i: "ci_tenant_id ?i = t" "ci_shortcode ?i = md_shortcode d" "ci_paybill_number ?i = md_paybill_number d"
    "ci_till_number ?i = md_till_number d" "ci_consumer_key ?i = md_consumer_key d" "ci_consumer_secret ?i = md_consumer_secret d"
    "ci_passkey ?i = md_passkey d" "ci_callback_url ?i = md_callback_url d" "ci_status ?i = TfActive"
    using assms(3) by (auto simp: config_input_of_def or_default_def)
  from upsert_config_stored[OF assms(1) up] assms(4-7) i obtain r where r: "r \<in> set (tf_configs db')" "map_mpesa_config c r = Inr m"
    and st: "stored_config ?i rt r m" and old: "\<And>x. x \<in> set (tf_configs db') \<Longrightarrow> x \<noteq> r \<Longrightarrow> tcf_updated_at x < rt_now rt"
    and session: "in_session rt t" using assms(8) cfg by fastforce
  have session': "in_session rt' t" using session assms(9) by (simp add: in_session_def)
  have act: "active_config rt' r" using st session' i by (simp add: active_config_def stored_config_def)
  have least: "latest_config c (filter P (tf_configs db')) = Inr (Some m)" if "P r" for P
  proof -
    have "first_row (sort_key (\<lambda>r. - tcf_updated_at r) (filter P (tf_configs db'))) = Some r"
      by (rule first_row_least[where P=P, OF r(1) that]) (use old st in \<open>simp add: stored_config_def\<close>)
    with r(2) show ?thesis by (simp add: latest_config_def)
  qed
  have "find_active_config_for_tenant c rt' db' t = Inr (Some m)"
    unfolding find_active_config_for_tenant_def using act st i by (intro least) (simp add: stored_config_def)
  moreover have "find_active_config_by_shortcode c rt' db' (js_trim code) = Inr (Some m)"
    unfolding find_active_config_by_shortcode_def using act st i assms(11) by (intro least) (auto simp: stored_config_def answers_to_def)
  ultimately show ?thesis using st i assms(10)
    by (auto simp: resolve_mpesa_config_for_tenant_def resolve_mpesa_config_by_shortcode_def resolved_from_def Let_def stored_config_def)
qed

definition tf_rt :: runtime where
  "tf_rt = \<lparr>rt_tenant_id = Some ''t1'', rt_user_id = ''u'', rt_request_id = ''r'', rt_trace_id = '''', rt_span_id = '''',
     rt_parent_span_id = None, rt_role = None, rt_session_id = None, rt_client_ip = None, rt_user_agent = None,
     rt_now = 9, rt_clock = 9, rt_sha256 = (\<lambda>s. s), rt_parse_date = (\<lambda>s. Some 7), rt_collate = (\<lambda>a b. True),
     rt_pg_message = (\<lambda>a b. ''''), rt_config = (\<lambda>k. None), rt_config_number = (\<lambda>k. None)\<rparr>"

definition tf_db :: tenant_finance_db where
  "tf_db =
     \<lparr>fd_idempotency_keys = [], fd_accounts = [], fd_transactions = [], fd_ledger_entries = [], fd_audit_logs = [],
      fd_sync_operations = [], ev_outbox = [], ev_runs = [], bl_subscriptions = [], bl_invoices = [], bl_allocations = [],
      bl_credits = [], bl_notifications = [], bl_usage = [], bl_fee_structures = [], mf_payments = [], mf_allocations = [],
      tf_accounts = [], tf_configs = [], tf_banks = [], tf_channels = []\<rparr>"

definition tf_pay :: payments_db where
  "tf_pay =
     \<lparr>fd_idempotency_keys = [], fd_accounts = [], fd_transactions = [], fd_ledger_entries = [], fd_audit_logs = [],
      fd_sync_operations = [], ev_outbox = [], ev_runs = [], bl_subscriptions = [], bl_invoices = [], bl_allocations = [],
      bl_credits = [], bl_notifications = [], bl_usage = [], bl_fee_structures = [], py_intents = [], py_logs = [],
      py_transactions = [], py_keys = []\<rparr>"

definition tf_dto :: "finance_status option \<Rightarrow> mpesa_config_dto" where
  "tf_dto st = \<lparr>md_shortcode = ''600100'', md_paybill_number = Some ''600200'', md_till_number = None, md_consumer_key = ''key'',
     md_consumer_secret = ''secret'', md_passkey = ''pass'', md_initiator_name = None, md_environment = Sandbox,
     md_callback_url = ''https://x'', md_status = st, md_mpesa_clearing_account_code = None, md_fee_control_account_code = None\<rparr>"

lemma tf_texts: "clear_text ''key''" "clear_text ''secret''" "clear_text ''pass''"
  by (simp_all add: clear_text_def is_encrypted_def ENCRYPTION_PREFIX_def)

lemma tf_open: "clear_text v \<Longrightarrow> pii_decrypt plain_cipher (pii_encrypt plain_cipher v a) a = Inr v"
  using decrypt_encrypt[OF plain_cipher_ok, of v a a] by (simp add: clear_text_def)

lemma tf_upserted: "\<exists>s db'. upsert_mpesa_config plain_cipher tf_rt tf_pay ''t1'' (tf_dto st) tf_db = Inr (s, db')"
  by (simp add: upsert_mpesa_config_def upsert_config_row_def Let_def rls_check_def in_session_def or_default_def config_input_of_def
      config_checks_def config_row_def not_blank_def active_shortcode_free_def map_mpesa_config_def tf_open tf_texts
      ensure_mpesa_channel_def channel_name_def truthy_def record_audit_def create_audit_log_def finance_summary_of_def
      list_configs_def list_banks_def tf_rt_def tf_dto_def tf_db_def del: One_nat_def)

theorem stored_settings_are_used_witness:
  "\<exists>s db' r. upsert_mpesa_config plain_cipher tf_rt tf_pay ''t1'' (tf_dto None) tf_db = Inr (s, db') \<and>
     resolve_mpesa_config_by_shortcode plain_cipher tf_rt db' ''600200'' = Inr r \<and> rc_consumer_secret r = ''secret'' \<and> rc_tenant_id r = ''t1''"
proof -
  obtain s db' where up: "upsert_mpesa_config plain_cipher tf_rt tf_pay ''t1'' (tf_dto None) tf_db = Inr (s, db')"
    using tf_upserted by blast
  have t: "js_trim ''600200'' = ''600200''" by (simp add: js_trim_def is_space_def)
  from stored_settings_are_used[OF plain_cipher_ok up, of tf_rt "''600200''"] up show ?thesis
    by (auto simp: tf_dto_def tf_texts tf_db_def t)
qed

section \<open>Deactivation\<close>

text \<open>Storing the settings with any other status than active leaves every payment channel as it was, an active channel
  of the configuration included, and adds one more, inactive, each time: the insert's arbiter is the index over the
  active channels, with which a row proposed as inactive never conflicts.\<close>

theorem deactivation_keeps_channels:
  assumes "upsert_mpesa_config c rt pay t d db = Inr (s, db')" and "md_status d = Some st" and "st \<noteq> TfActive"
  shows "\<exists>n. tf_channels db' = tf_channels db @ [n] \<and> tch_status n = ChInactive \<and> tch_tenant_id n = t"
proof -
  from assms(1) obtain m ch and db1 db2 db3 :: "'a tenant_finance_db_scheme"
  where up: "upsert_config_row c rt (config_input_of t d) db = Inr (m, db1)" and "tf_channels db2 = tf_channels db1"
    and en: "ensure_mpesa_channel rt t (tcf_id m) (if truthy (tcf_till_number m) then ChMpesaTill else ChMpesaPaybill)
       (channel_name m) (if md_status d = Some TfActive \<or> md_status d = None then ChActive else ChInactive) db2 = Inr (ch, db3)"
    and "tf_channels db' = tf_channels db3"
    by (rule upsert_mpesa_config_Inr)
  moreover have "tf_channels db1 = tf_channels db"
    using up by (auto simp: upsert_config_row_def Let_def and_then_eq_Inr split: option.splits)
  ultimately show ?thesis using assms(2,3)
    by (auto simp: ensure_mpesa_channel_def Let_def and_then_eq_Inr split: if_splits)
qed

theorem deactivation_keeps_channels_witness:
  "\<exists>s db' n. upsert_mpesa_config plain_cipher tf_rt tf_pay ''t1'' (tf_dto (Some TfInactive)) tf_db = Inr (s, db') \<and>
     tf_channels db' = [n] \<and> tch_status n = ChInactive"
proof -
  obtain s db' where up: "upsert_mpesa_config plain_cipher tf_rt tf_pay ''t1'' (tf_dto (Some TfInactive)) tf_db = Inr (s, db')"
    using tf_upserted by blast
  from deactivation_keeps_channels[OF up, of TfInactive] up show ?thesis by (auto simp: tf_dto_def tf_db_def)
qed

end
