(* ===== verification/Mpesa_C2b.thy ===== *)
theory Mpesa_C2b
  imports Tenant_Finance_Service Manual_Payments_Service
begin

text \<open>
  Payments a parent makes to the school's paybill without a request of the school's
  (\<open>payments/services/mpesa-c2b.service.ts\<close>): Safaricom asks whether to accept one and then confirms it. A
  confirmation is recorded once per receipt number, matched to an invoice or a student by the reference the
  parent typed, and booked as a manual payment; what cannot be matched waits for an accountant.
\<close>

datatype c2b_status = CbPendingReview | CbMatched | CbRejected

fun c2b_status_text :: "c2b_status \<Rightarrow> string" where
  "c2b_status_text CbPendingReview = ''pending_review''"
| "c2b_status_text CbMatched = ''matched''"
| "c2b_status_text CbRejected = ''rejected''"

record c2b_payment =
  cb_id :: uuid
  cb_tenant_id :: string
  cb_mpesa_config_id :: "uuid option"
  cb_payment_channel_id :: "uuid option"
  cb_trans_id :: string
  cb_transaction_type :: string
  cb_business_short_code :: string
  cb_bill_ref_number :: "string option"
  cb_invoice_number :: "string option"
  cb_amount_minor :: int
  cb_currency_code :: string
  cb_phone_number :: "string option"
  cb_payer_name :: "string option"
  cb_org_account_balance :: "string option"
  cb_third_party_trans_id :: "string option"
  cb_status :: c2b_status
  cb_matched_invoice_id :: "uuid option"
  cb_matched_student_id :: "uuid option"
  cb_manual_fee_payment_id :: "uuid option"
  cb_ledger_transaction_id :: "uuid option"
  cb_received_at :: int
  cb_matched_at :: "int option"
  cb_raw_payload :: json
  cb_metadata :: "(string \<times> json) list"
  cb_created_at :: int
  cb_updated_at :: int

text \<open>The columns of \<open>students\<close> that the matching reads.\<close>

record student_ref =
  sr_id :: uuid
  sr_tenant_id :: string
  sr_admission_number :: string
  sr_active :: bool
  sr_created_at :: int

record c2b_db = tenant_finance_db +
  c2_payments :: "c2b_payment list"
  c2_students :: "student_ref list"

section \<open>The payload\<close>

record parsed_c2b =
  pr_transaction_type :: string
  pr_trans_id :: string
  pr_occurred_at :: int
  pr_amount_minor :: string
  pr_business_short_code :: string
  pr_bill_ref_number :: "string option"
  pr_invoice_number :: "string option"
  pr_org_account_balance :: "string option"
  pr_third_party_trans_id :: "string option"
  pr_phone_number :: "string option"
  pr_payer_name :: "string option"
  pr_metadata :: "(string \<times> json) list"

definition optional_text :: "json option \<Rightarrow> string option" where
  "optional_text v = (case v of
       Some (JStr s) \<Rightarrow> if js_trim s = [] then None else Some (js_trim s)
     | Some (JNum s) \<Rightarrow> if js_trim s = [] then None else Some (js_trim s)
     | _ \<Rightarrow> None)"

definition require_text :: "json option \<Rightarrow> string \<Rightarrow> string result" where
  "require_text v field = (case optional_text v of
       Some t \<Rightarrow> Inr t | None \<Rightarrow> Inl (BadRequestException (field @ '' is required'')))"

definition parse_c2b_amount :: "json option \<Rightarrow> string result" where
  "parse_c2b_amount v =
     and_then (require_text v ''TransAmount'') (\<lambda>t.
     let s = filter (\<lambda>c. c \<noteq> CHR '','') t
     in if \<not> decimal_amount s then Inl (BadRequestException ''TransAmount must be a positive monetary amount'')
        else
          (let fractional = (case after_dot s of None \<Rightarrow> [] | Some d \<Rightarrow> d);
               amount = int (parse_nat (before_dot s)) * 100 + int (parse_nat (take 2 (fractional @ ''00'')))
           in if amount \<le> 0 then Inl (BadRequestException ''TransAmount must be greater than zero'')
              else Inr (show_int amount)))"

definition parse_safaricom_timestamp :: "string \<Rightarrow> int result" where
  "parse_safaricom_timestamp v =
     (if length v = 14 \<and> list_all is_digit v then
        (let part = (\<lambda>i j. int (parse_nat (take (j - i) (drop i v))))
         in Inr (date_utc (part 0 4) (part 4 6 - 1) (part 6 8) (part 8 10 - 3) (part 10 12) (part 12 14)))
      else Inl (BadRequestException ''TransTime must use Safaricom yyyyMMddHHmmss format''))"

definition c2b_core_keys :: "string list" where
  "c2b_core_keys =
     [''TransactionType'', ''TransID'', ''TransTime'', ''TransAmount'', ''BusinessShortCode'', ''BillRefNumber'',
      ''InvoiceNumber'', ''OrgAccountBalance'', ''ThirdPartyTransID'', ''MSISDN'', ''FirstName'', ''MiddleName'', ''LastName'']"

definition extract_extra_metadata :: "(string \<times> json) list \<Rightarrow> (string \<times> json) list" where
  "extract_extra_metadata kvs = filter (\<lambda>kv. fst kv \<notin> set c2b_core_keys) kvs"

text \<open>\<open>[first, middle, last].filter(Boolean).join(' ') || null\<close>\<close>

definition payer_name_of :: "string option list \<Rightarrow> string option" where
  "payer_name_of names = nullif_empty (Some (join '' '' (List.map_filter id names)))"

text \<open>An array is an object without these properties; it fails at the first one.\<close>

definition payload_fields :: "json \<Rightarrow> (string \<times> json) list option" where
  "payload_fields payload = (case payload of JObj kvs \<Rightarrow> Some kvs | JArr vs \<Rightarrow> Some [] | _ \<Rightarrow> None)"

definition parse_c2b_payload :: "json \<Rightarrow> parsed_c2b result" where
  "parse_c2b_payload payload =
     (case payload_fields payload of
        None \<Rightarrow> Inl (BadRequestException ''M-PESA C2B payload must be an object'')
      | Some kvs \<Rightarrow>
          (let field = map_of kvs
           in and_then (require_text (field ''TransactionType'') ''TransactionType'') (\<lambda>kind.
              and_then (require_text (field ''TransID'') ''TransID'') (\<lambda>trans_id.
              and_then (require_text (field ''TransTime'') ''TransTime'') (\<lambda>trans_time.
              and_then (parse_c2b_amount (field ''TransAmount'')) (\<lambda>amount.
              and_then (require_text (field ''BusinessShortCode'') ''BusinessShortCode'') (\<lambda>code.
              and_then (parse_safaricom_timestamp trans_time) (\<lambda>occurred.
              Inr \<lparr>pr_transaction_type = kind, pr_trans_id = trans_id, pr_occurred_at = occurred,
                   pr_amount_minor = amount, pr_business_short_code = code,
                   pr_bill_ref_number = optional_text (field ''BillRefNumber''),
                   pr_invoice_number = optional_text (field ''InvoiceNumber''),
                   pr_org_account_balance = optional_text (field ''OrgAccountBalance''),
                   pr_third_party_trans_id = optional_text (field ''ThirdPartyTransID''),
                   pr_phone_number = optional_text (field ''MSISDN''),
                   pr_payer_name = payer_name_of [optional_text (field ''FirstName''), optional_text (field ''MiddleName''),
                     optional_text (field ''LastName'')],
                   pr_metadata = extract_extra_metadata kvs\<rparr>))))))))"

section \<open>\<open>MpesaC2bPaymentsRepository\<close>\<close>

definition c2b_at :: "string \<Rightarrow> string \<Rightarrow> c2b_payment \<Rightarrow> bool" where
  "c2b_at tenant trans_id r \<longleftrightarrow> cb_tenant_id r = tenant \<and> cb_trans_id r = trans_id"

definition c2b_id_at :: "string \<Rightarrow> uuid \<Rightarrow> c2b_payment \<Rightarrow> bool" where
  "c2b_id_at tenant i r \<longleftrightarrow> cb_tenant_id r = tenant \<and> cb_id r = i"

definition find_c2b_by_trans_id :: "'a c2b_db_scheme \<Rightarrow> string \<Rightarrow> string \<Rightarrow> c2b_payment option" where
  "find_c2b_by_trans_id db tenant trans_id = select_first (c2b_at tenant trans_id) (c2_payments db)"

definition list_c2b_rows :: "'a c2b_db_scheme \<Rightarrow> string \<Rightarrow> c2b_status option \<Rightarrow> c2b_payment list" where
  "list_c2b_rows db tenant st =
     sort_key (\<lambda>r. (- cb_received_at r, - cb_created_at r))
       (filter (\<lambda>r. cb_tenant_id r = tenant \<and> (case st of None \<Rightarrow> True | Some x \<Rightarrow> cb_status r = x)) (c2_payments db))"

definition lock_c2b_by_id :: "'a c2b_db_scheme \<Rightarrow> string \<Rightarrow> string \<Rightarrow> c2b_payment option result" where
  "lock_c2b_by_id db tenant payment_id =
     and_then (pg_uuid payment_id) (\<lambda>i. Inr (select_first (c2b_id_at tenant i) (c2_payments db)))"

definition c2b_checks :: "c2b_payment \<Rightarrow> unit result" where
  "c2b_checks r =
     and_then (guard (not_blank (cb_trans_id r)) (PgError ''23514'' ''ck_mpesa_c2b_payments_trans_id_not_blank'')) (\<lambda>_.
     and_then (guard (not_blank (cb_business_short_code r))
       (PgError ''23514'' ''ck_mpesa_c2b_payments_business_short_code_not_blank'')) (\<lambda>_.
     and_then (guard (0 < cb_amount_minor r) (PgError ''23514'' ''ck_mpesa_c2b_payments_amount_minor'')) (\<lambda>_.
     guard (currency_format (cb_currency_code r)) (PgError ''23514'' ''ck_mpesa_c2b_payments_currency''))))"

definition received_row ::
  "runtime \<Rightarrow> string \<Rightarrow> resolved_config \<Rightarrow> parsed_c2b \<Rightarrow> json \<Rightarrow> int \<Rightarrow> uuid \<Rightarrow> c2b_payment" where
  "received_row rt tenant config p payload amount new_id =
     \<lparr>cb_id = new_id, cb_tenant_id = tenant, cb_mpesa_config_id = rc_mpesa_config_id config,
      cb_payment_channel_id = rc_payment_channel_id config, cb_trans_id = pr_trans_id p,
      cb_transaction_type = pr_transaction_type p, cb_business_short_code = pr_business_short_code p,
      cb_bill_ref_number = pr_bill_ref_number p, cb_invoice_number = pr_invoice_number p, cb_amount_minor = amount,
      cb_currency_code = DEFAULT_CURRENCY_CODE, cb_phone_number = pr_phone_number p, cb_payer_name = pr_payer_name p,
      cb_org_account_balance = pr_org_account_balance p, cb_third_party_trans_id = pr_third_party_trans_id p,
      cb_status = CbPendingReview, cb_matched_invoice_id = None, cb_matched_student_id = None,
      cb_manual_fee_payment_id = None, cb_ledger_transaction_id = None, cb_received_at = pr_occurred_at p,
      cb_matched_at = None, cb_raw_payload = payload, cb_metadata = pr_metadata p, cb_created_at = rt_now rt,
      cb_updated_at = rt_now rt\<rparr>"

text \<open>\<open>createReceived\<close>: the new row, or the row that has the receipt number already.\<close>

definition create_received ::
  "runtime \<Rightarrow> string \<Rightarrow> resolved_config \<Rightarrow> parsed_c2b \<Rightarrow> json \<Rightarrow> 'a c2b_db_scheme \<Rightarrow>
     (c2b_payment \<times> bool \<times> 'a c2b_db_scheme) result" where
  "create_received rt tenant config p payload db =
     and_then (pg_bigint (pr_amount_minor p)) (\<lambda>amount.
     let r = received_row rt tenant config p payload amount (fresh_uuid (map cb_id (c2_payments db)))
     in and_then (c2b_checks r) (\<lambda>_.
        case find_c2b_by_trans_id db tenant (pr_trans_id p) of
          Some old \<Rightarrow> Inr (old, False, db)
        | None \<Rightarrow>
            and_then (guard (case cb_mpesa_config_id r of None \<Rightarrow> True
                | Some i \<Rightarrow> list_ex (\<lambda>q. tcf_tenant_id q = tenant \<and> tcf_id q = i) (tf_configs db))
                (PgError ''23503'' ''fk_mpesa_c2b_payments_mpesa_config'')) (\<lambda>_.
            and_then (guard (case cb_payment_channel_id r of None \<Rightarrow> True
                | Some i \<Rightarrow> list_ex (\<lambda>q. tch_tenant_id q = tenant \<and> tch_id q = i) (tf_channels db))
                (PgError ''23503'' ''fk_mpesa_c2b_payments_payment_channel'')) (\<lambda>_.
            Inr (r, True, db\<lparr>c2_payments := c2_payments db @ [r]\<rparr>)))))"

text \<open>\<open>UPDATE ... WHERE tenant_id, id RETURNING\<close>; \<open>mapRow\<close> of no row throws.\<close>

definition update_c2b ::
  "string \<Rightarrow> uuid \<Rightarrow> (c2b_payment \<Rightarrow> c2b_payment) \<Rightarrow> 'a c2b_db_scheme \<Rightarrow> (c2b_payment \<times> 'a c2b_db_scheme) result" where
  "update_c2b tenant i f db =
     (let rows = update_where (c2b_id_at tenant i) f (c2_payments db)
      in case select_first (c2b_id_at tenant i) rows of
           None \<Rightarrow> Inl (InternalServerErrorException ''Cannot read properties of undefined'')
         | Some r \<Rightarrow> Inr (r, db\<lparr>c2_payments := rows\<rparr>))"

definition matched_fields ::
  "runtime \<Rightarrow> uuid option \<Rightarrow> uuid option \<Rightarrow> uuid \<Rightarrow> uuid option \<Rightarrow> (string \<times> json) list \<Rightarrow> c2b_payment \<Rightarrow> c2b_payment" where
  "matched_fields rt inv_id st manual ledger meta r =
     r\<lparr>cb_status := CbMatched, cb_matched_invoice_id := inv_id, cb_matched_student_id := st,
       cb_manual_fee_payment_id := Some manual, cb_ledger_transaction_id := ledger, cb_matched_at := Some (rt_now rt),
       cb_metadata := json_merge (cb_metadata r) meta, cb_updated_at := rt_now rt\<rparr>"

definition mark_matched ::
  "runtime \<Rightarrow> string \<Rightarrow> uuid \<Rightarrow> string option \<Rightarrow> string option \<Rightarrow> uuid \<Rightarrow> uuid option \<Rightarrow> (string \<times> json) list \<Rightarrow>
     'a c2b_db_scheme \<Rightarrow> (c2b_payment \<times> 'a c2b_db_scheme) result" where
  "mark_matched rt tenant i invoice_id student_id manual ledger meta db =
     and_then (pg_uuid_opt invoice_id) (\<lambda>inv_id.
     and_then (pg_uuid_opt student_id) (\<lambda>st.
     and_then (guard (case ledger of None \<Rightarrow> True
         | Some l \<Rightarrow> list_ex (\<lambda>t. tx_tenant_id t = tenant \<and> tx_id t = l) (fd_transactions db))
         (PgError ''23503'' ''fk_mpesa_c2b_payments_ledger_transaction'')) (\<lambda>_.
     update_c2b tenant i (matched_fields rt inv_id st manual ledger meta) db)))"

definition review_fields :: "runtime \<Rightarrow> string \<Rightarrow> (string \<times> json) list \<Rightarrow> c2b_payment \<Rightarrow> c2b_payment" where
  "review_fields rt reason meta r =
     r\<lparr>cb_status := CbPendingReview,
       cb_metadata := json_merge (json_merge (cb_metadata r) [(''review_reason'', JStr reason)]) meta, cb_updated_at := rt_now rt\<rparr>"

definition mark_pending_review ::
  "runtime \<Rightarrow> string \<Rightarrow> uuid \<Rightarrow> string \<Rightarrow> (string \<times> json) list \<Rightarrow> 'a c2b_db_scheme \<Rightarrow>
     (c2b_payment \<times> 'a c2b_db_scheme) result" where
  "mark_pending_review rt tenant i reason meta = update_c2b tenant i (review_fields rt reason meta)"

definition mark_rejected ::
  "runtime \<Rightarrow> string \<Rightarrow> uuid \<Rightarrow> string \<Rightarrow> (string \<times> json) list \<Rightarrow> 'a c2b_db_scheme \<Rightarrow>
     (c2b_payment \<times> 'a c2b_db_scheme) result" where
  "mark_rejected rt tenant i reason meta =
     update_c2b tenant i (\<lambda>r. r\<lparr>cb_status := CbRejected,
       cb_metadata := json_merge (json_merge (cb_metadata r) [(''rejection_reason'', JStr reason)]) meta, cb_updated_at := rt_now rt\<rparr>)"

text \<open>\<open>InvoicesRepository.findManualFeeInvoiceTargetByReference\<close>\<close>

definition find_invoice_by_reference :: "'a billing_db_scheme \<Rightarrow> string \<Rightarrow> string \<Rightarrow> invoice option" where
  "find_invoice_by_reference db tenant reference =
     (let ref = js_trim reference
      in first_row (sort_key (\<lambda>v. (iv_due_at v, iv_issued_at v, iv_created_at v))
           (filter (\<lambda>v. iv_tenant_id v = tenant \<and>
              (iv_invoice_number v = ref \<or> json_field (iv_metadata v) ''external_reference'' = Some ref \<or>
               json_field (iv_metadata v) ''account_reference'' = Some ref \<or> uuid_shape ref \<and> iv_id v = uuid_value ref) \<and>
              (iv_status v = InvOpen \<or> iv_status v = InvPendingPayment) \<and>
              iv_amount_paid_minor v < iv_total_amount_minor v) (bl_invoices db))))"

definition find_student_by_admission_number :: "'a c2b_db_scheme \<Rightarrow> string \<Rightarrow> string \<Rightarrow> uuid option" where
  "find_student_by_admission_number db tenant reference =
     map_option sr_id (first_row (sort_key (\<lambda>s. - sr_created_at s)
       (filter (\<lambda>s. sr_tenant_id s = tenant \<and> sr_admission_number s = reference \<and> sr_active s) (c2_students db))))"

end
