(* ===== verification/Mpesa_C2b_Service.thy ===== *)
theory Mpesa_C2b_Service
  imports Mpesa_C2b
begin

text \<open>
  \<open>MpesaC2bService\<close>: validation, confirmation and the accountant's reconciliation. A confirmation resolves the
  school by the paybill's shortcode in the session of the request, then works in a transaction of its own in
  the school's context; booking the manual payment runs inside it.
\<close>

record c2b_confirmation =
  cc_accepted :: bool
  cc_duplicate :: bool
  cc_status :: c2b_status
  cc_tenant_id :: string
  cc_mpesa_c2b_payment_id :: uuid
  cc_manual_fee_payment_id :: "uuid option"
  cc_ledger_transaction_id :: "uuid option"

text \<open>The request context inside \<open>runInTenantContext\<close>, when the request has one.\<close>

definition tenant_runtime :: "runtime \<Rightarrow> string \<Rightarrow> runtime" where
  "tenant_runtime rt tenant = rt\<lparr>rt_tenant_id := Some tenant\<rparr>"

definition or_code :: "string \<Rightarrow> string \<Rightarrow> string" where
  "or_code code d = (if code = [] then d else code)"

record allocation_target =
  at_invoice_id :: "string option"
  at_student_id :: "string option"
  at_matching_strategy :: string

text \<open>\<open>resolveAllocationTarget\<close>: the text the parent typed names an invoice or else a student.\<close>

definition c2b_reference :: "parsed_c2b \<Rightarrow> string option" where
  "c2b_reference p = or_else (read_string (pr_bill_ref_number p)) (read_string (pr_invoice_number p))"

definition resolve_allocation_target :: "'a c2b_db_scheme \<Rightarrow> string \<Rightarrow> parsed_c2b \<Rightarrow> allocation_target" where
  "resolve_allocation_target db tenant p =
     (case c2b_reference p of
        None \<Rightarrow> \<lparr>at_invoice_id = None, at_student_id = None, at_matching_strategy = ''missing_reference''\<rparr>
      | Some reference \<Rightarrow>
          (case find_invoice_by_reference db tenant reference of
             Some v \<Rightarrow> \<lparr>at_invoice_id = Some (uuid_text (iv_id v)), at_student_id = invoice_student_id v,
                        at_matching_strategy = ''invoice_reference''\<rparr>
           | None \<Rightarrow>
               (case find_student_by_admission_number db tenant reference of
                  Some s \<Rightarrow> \<lparr>at_invoice_id = None, at_student_id = Some (uuid_text s),
                             at_matching_strategy = ''student_admission_number''\<rparr>
                | None \<Rightarrow> \<lparr>at_invoice_id = None, at_student_id = None, at_matching_strategy = ''unmatched_reference''\<rparr>)))"

definition c2b_key :: "string \<Rightarrow> string \<Rightarrow> string" where
  "c2b_key tenant trans_id = ''mpesa-c2b:'' @ tenant @ '':'' @ trans_id"

text \<open>The manual payment of a C2B payment, of its confirmation or of its reconciliation.\<close>

definition c2b_manual_dto :: "c2b_payment \<Rightarrow> resolved_config \<Rightarrow> string option \<Rightarrow> string option \<Rightarrow> string \<Rightarrow> string \<Rightarrow> string \<Rightarrow> create_manual_dto" where
  "c2b_manual_dto r config invoice_id student_id amount notes source =
     \<lparr>cm_idempotency_key = c2b_key (cb_tenant_id r) (cb_trans_id r), cm_payment_method = PayMpesaC2b,
      cm_amount_minor = amount, cm_student_id = student_id, cm_invoice_id = invoice_id,
      cm_payer_name = or_else (cb_payer_name r) (cb_phone_number r), cm_received_at = Some (iso_string (cb_received_at r)),
      cm_cheque_number = None, cm_drawer_bank = None, cm_deposit_reference = Some (cb_trans_id r),
      cm_external_reference = Some (cb_trans_id r),
      cm_asset_account_code = Some (or_code (rc_ledger_debit_account_code config) ''1110-MPESA-CLEARING''),
      cm_fee_control_account_code = Some (or_code (rc_ledger_credit_account_code config) ''1100-AR-FEES''),
      cm_notes = Some notes,
      cm_metadata = Some
        [(''source'', JStr source), (''mpesa_c2b_payment_id'', JStr (uuid_text (cb_id r))),
         (''business_short_code'', JStr (cb_business_short_code r)), (''bill_ref_number'', json_opt (cb_bill_ref_number r)),
         (''invoice_number'', json_opt (cb_invoice_number r)), (''phone_number'', json_opt (cb_phone_number r))]\<rparr>"

definition paybill_notes :: "c2b_payment \<Rightarrow> string" where
  "paybill_notes r = ''M-PESA Paybill '' @ cb_business_short_code r @ '' payment '' @ cb_trans_id r"

definition duplicate_confirmation :: "string \<Rightarrow> c2b_payment \<Rightarrow> c2b_confirmation" where
  "duplicate_confirmation tenant r =
     \<lparr>cc_accepted = True, cc_duplicate = True, cc_status = cb_status r, cc_tenant_id = tenant,
      cc_mpesa_c2b_payment_id = cb_id r, cc_manual_fee_payment_id = cb_manual_fee_payment_id r,
      cc_ledger_transaction_id = cb_ledger_transaction_id r\<rparr>"

text \<open>The transaction of \<open>processConfirmation\<close>, in the school's context.\<close>

definition confirm_in_tenant ::
  "runtime \<Rightarrow> manual_env \<Rightarrow> string \<Rightarrow> resolved_config \<Rightarrow> parsed_c2b \<Rightarrow> json \<Rightarrow> 'a c2b_db_scheme \<Rightarrow>
     (c2b_confirmation \<times> 'a c2b_db_scheme) result" where
  "confirm_in_tenant rt env tenant config p payload db =
     (case find_c2b_by_trans_id db tenant (pr_trans_id p) of
        Some old \<Rightarrow> Inr (duplicate_confirmation tenant old, db)
      | None \<Rightarrow>
          and_then (create_received rt tenant config p payload db) (\<lambda>(r, inserted, db1).
          if \<not> inserted then Inr (duplicate_confirmation tenant r, db1)
          else
            (let target = resolve_allocation_target db1 tenant p
             in if \<not> truthy (at_invoice_id target) \<and> \<not> truthy (at_student_id target) then
                  and_then (mark_pending_review rt tenant (cb_id r) ''no_invoice_or_student_match''
                    [(''bill_ref_number'', json_opt (pr_bill_ref_number p)),
                     (''invoice_number'', json_opt (pr_invoice_number p))] db1) (\<lambda>(q, db2).
                  Inr (\<lparr>cc_accepted = True, cc_duplicate = False, cc_status = cb_status q, cc_tenant_id = tenant,
                        cc_mpesa_c2b_payment_id = cb_id q, cc_manual_fee_payment_id = None,
                        cc_ledger_transaction_id = None\<rparr>, db2))
                else
                  and_then (create_manual_fee_payment True rt env
                    (c2b_manual_dto r config (at_invoice_id target) (at_student_id target) (pr_amount_minor p)
                       (paybill_notes r) ''mpesa_c2b'') db1) (\<lambda>(m, db2).
                  and_then (mark_matched rt tenant (cb_id r) (at_invoice_id target) (at_student_id target) (mf_id m)
                    (mf_ledger_transaction_id m) [(''matching_strategy'', JStr (at_matching_strategy target))] db2) (\<lambda>(q, db3).
                  Inr (\<lparr>cc_accepted = True, cc_duplicate = False, cc_status = cb_status q, cc_tenant_id = tenant,
                        cc_mpesa_c2b_payment_id = cb_id q, cc_manual_fee_payment_id = cb_manual_fee_payment_id q,
                        cc_ledger_transaction_id = cb_ledger_transaction_id q\<rparr>, db3))))))"

definition process_confirmation ::
  "cipher \<Rightarrow> runtime \<Rightarrow> manual_env \<Rightarrow> json \<Rightarrow> 'a c2b_db_scheme \<Rightarrow> (c2b_confirmation \<times> 'a c2b_db_scheme) result" where
  "process_confirmation c rt env payload db =
     and_then (parse_c2b_payload payload) (\<lambda>p.
     and_then (resolve_mpesa_config_by_shortcode c rt db (pr_business_short_code p)) (\<lambda>config.
     with_request_transaction False (deferred_balance_checks db)
       (confirm_in_tenant (tenant_runtime rt (rc_tenant_id config)) env (rc_tenant_id config) config p payload) db))"

datatype gateway_response = C2bAccepted | C2bRejected

definition validate_payment :: "cipher \<Rightarrow> runtime \<Rightarrow> json \<Rightarrow> 'a c2b_db_scheme \<Rightarrow> gateway_response" where
  "validate_payment c rt payload db =
     (case and_then (parse_c2b_payload payload) (\<lambda>p. resolve_mpesa_config_by_shortcode c rt db (pr_business_short_code p)) of
        Inl _ \<Rightarrow> C2bRejected | Inr _ \<Rightarrow> C2bAccepted)"

definition require_c2b_tenant_id :: "runtime \<Rightarrow> string result" where
  "require_c2b_tenant_id rt =
     (case rt_tenant_id rt of
        Some t \<Rightarrow> if t = [] then Inl (UnauthorizedException ''Tenant context is required for M-PESA C2B payments'') else Inr t
      | None \<Rightarrow> Inl (UnauthorizedException ''Tenant context is required for M-PESA C2B payments''))"

definition list_c2b_payments :: "runtime \<Rightarrow> c2b_status option \<Rightarrow> 'a c2b_db_scheme \<Rightarrow> c2b_payment list result" where
  "list_c2b_payments rt st db = and_then (require_c2b_tenant_id rt) (\<lambda>tenant. Inr (list_c2b_rows db tenant st))"

record reconcile_dto =
  rd_invoice_id :: "string option"
  rd_student_id :: "string option"
  rd_notes :: "string option"

text \<open>The student of the chosen invoice, which the accountant's choice must not contradict.\<close>

definition reconcile_student :: "'a c2b_db_scheme \<Rightarrow> string \<Rightarrow> reconcile_dto \<Rightarrow> string option result" where
  "reconcile_student db tenant dto =
     (if truthy (rd_invoice_id dto) then
        and_then (pg_uuid (the (rd_invoice_id dto))) (\<lambda>i.
        case lock_manual_fee_invoice db tenant i of
          None \<Rightarrow> Inl (NotFoundException
            (''Invoice '' @ quoted (the (rd_invoice_id dto)) @ '' was not found or has no balance''))
        | Some v \<Rightarrow>
            (let owner = invoice_student_id v
             in if truthy (rd_student_id dto) \<and> truthy owner \<and> rd_student_id dto \<noteq> owner
                then Inl (BadRequestException ''Selected student does not match the selected invoice'')
                else Inr (or_else (rd_student_id dto) owner)))
      else Inr (rd_student_id dto))"

definition reconcile_locked ::
  "cipher \<Rightarrow> runtime \<Rightarrow> manual_env \<Rightarrow> string \<Rightarrow> c2b_payment \<Rightarrow> reconcile_dto \<Rightarrow> 'a c2b_db_scheme \<Rightarrow>
     (c2b_payment \<times> 'a c2b_db_scheme) result" where
  "reconcile_locked c rt env tenant r dto db =
     (if cb_status r = CbMatched then Inr (r, db)
      else if cb_status r \<noteq> CbPendingReview then
        Inl (ConflictException (''M-PESA C2B payment cannot be reconciled while status is '' @ quoted (c2b_status_text (cb_status r))))
      else
        and_then (guard (truthy (rd_invoice_id dto) \<or> truthy (rd_student_id dto))
          (BadRequestException ''Reconciliation requires an invoice or student target'')) (\<lambda>_.
        and_then (reconcile_student db tenant dto) (\<lambda>student.
        and_then (resolve_mpesa_config_by_shortcode c rt db (cb_business_short_code r)) (\<lambda>config.
        and_then (guard (rc_tenant_id config = tenant)
          (BadRequestException ''M-PESA C2B payment shortcode does not belong to this tenant'')) (\<lambda>_.
        and_then (create_manual_fee_payment True rt env
          (c2b_manual_dto r config (rd_invoice_id dto) student (show_int (cb_amount_minor r))
             (or_default (read_string (rd_notes dto)) (paybill_notes r)) ''mpesa_c2b_manual_reconciliation'') db) (\<lambda>(m, db1).
        mark_matched rt tenant (cb_id r) (rd_invoice_id dto) student (mf_id m) (mf_ledger_transaction_id m)
          [(''matching_strategy'', JStr ''manual_accountant_review'')] db1))))))"

definition reconcile_pending_payment ::
  "bool \<Rightarrow> cipher \<Rightarrow> runtime \<Rightarrow> manual_env \<Rightarrow> string \<Rightarrow> reconcile_dto \<Rightarrow> 'a c2b_db_scheme \<Rightarrow>
     (c2b_payment \<times> 'a c2b_db_scheme) result" where
  "reconcile_pending_payment nested c rt env payment_id dto db =
     and_then (require_c2b_tenant_id rt) (\<lambda>tenant.
     with_request_transaction nested (deferred_balance_checks db) (\<lambda>db.
       and_then (lock_c2b_by_id db tenant payment_id) (\<lambda>found.
       case found of
         None \<Rightarrow> Inl (NotFoundException (''M-PESA C2B payment '' @ quoted payment_id @ '' was not found''))
       | Some r \<Rightarrow> reconcile_locked c rt env tenant r dto db)) db)"

end
