(* ===== verification/Mpesa_C2b_Facts.thy ===== *)
theory Mpesa_C2b_Facts
  imports Mpesa_C2b_Service Manual_Payments_Runs
begin

text \<open>
  What the booking of a manual payment does to the tables of the C2B payments (nothing) and to the identities
  of the manual payments (at most one new one, under the key of the request), and the invariant that ties the
  two tables together.
\<close>

section \<open>The identities of the manual payments\<close>

type_synonym payment_view = "uuid \<times> string \<times> string \<times> int"

definition view :: "manual_payment \<Rightarrow> payment_view" where
  "view p = (mf_id p, mf_tenant_id p, mf_idempotency_key p, mf_amount_minor p)"

definition views :: "'a manual_db_scheme \<Rightarrow> payment_view list" where
  "views db = map view (mf_payments db)"

text \<open>Two databases with the same identities and the same tables beyond those of the manual payments.\<close>

definition same_books :: "'a manual_db_scheme \<Rightarrow> 'a manual_db_scheme \<Rightarrow> bool" where
  "same_books db db' \<longleftrightarrow> views db' = views db \<and> manual_db.more db' = manual_db.more db"

lemma same_books_refl [simp]: "same_books db db"
  by (simp add: same_books_def)

lemma same_books_trans: "same_books a b \<Longrightarrow> same_books b c \<Longrightarrow> same_books a c"
  by (simp add: same_books_def)

lemma post_same_books:
  assumes "post_transaction nested rt input db = Inr (resp, db')"
  shows "same_books (db :: 'a manual_db_scheme) db'"
proof -
  have "post_transaction_callback rt input db = Inr (resp, db')"
    using assms by (simp add: post_transaction_def with_request_transaction_Inr)
  then show ?thesis by (cases rule: post_cases) (simp_all add: same_books_def views_def)
qed

lemma receipt_same_books: "post_receipt_transaction rt p dto db = Inr (posted, db') \<Longrightarrow> same_books db db'"
  by (auto simp: post_receipt_transaction_def and_then_eq_Inr intro: post_same_books)

lemma reversal_same_books: "post_reversal_transaction rt p dto db = Inr (posted, db') \<Longrightarrow> same_books db db'"
  by (auto simp: post_reversal_transaction_def and_then_eq_Inr intro: post_same_books)

lemma allocation_same_books: "create_manual_allocation env mk db = Inr db' \<Longrightarrow> same_books db db'"
  by (auto simp: same_books_def views_def Let_def dest!: create_manual_allocation_Inr(2))

lemma invoice_same_books:
  "apply_manual_fee_invoice_payment rt t i a n st (db :: 'a manual_db_scheme) = Inr db' \<Longrightarrow> same_books db db'"
  "reverse_manual_fee_invoice_payment rt t i a st (db :: 'a manual_db_scheme) = Inr db' \<Longrightarrow> same_books db db'"
  by (auto simp: apply_manual_fee_invoice_payment_def reverse_manual_fee_invoice_payment_def and_then_eq_Inr same_books_def
      views_def split: if_splits)

lemma loop_same_books: "allocate_manual_loop rt env p vs remaining n db = Inr (r, m, db') \<Longrightarrow> same_books db db'"
proof (induction vs arbitrary: remaining n db)
  case (Cons v vs)
  show ?case using Cons.prems
    by (auto simp: Let_def and_then_eq_Inr split: if_splits
        dest!: Cons.IH allocation_same_books invoice_same_books(1) intro: same_books_trans)
qed simp

lemma allocate_same_books: "allocate_cleared_payment rt env p db = Inr (n, db') \<Longrightarrow> same_books db db'"
  by (auto simp: allocate_cleared_payment_def and_then_eq_Inr split: if_splits
      dest!: loop_same_books allocation_same_books intro: same_books_trans)

lemma reverse_same_books: "reverse_allocations rt t as db = Inr db' \<Longrightarrow> same_books db db'"
  by (induction rt t as db rule: reverse_allocations.induct)
    (auto simp: and_then_eq_Inr split: option.splits if_splits dest!: invoice_same_books(2) intro: same_books_trans)

lemma update_same_books:
  assumes "update_manual_payment t i f db = Inr (q, db')" and "\<And>p. view (f p) = view p"
  shows "same_books db db' \<and> q \<in> set (mf_payments db') \<and> mf_id q = i"
proof -
  have v: "view (if P p then f p else p) = view p" for p P using assms(2) by simp
  have "map view (update_where (payment_id_at t i) f (mf_payments db)) = map view (mf_payments db)"
    by (rule update_where_map_key) (rule assms(2))
  with assms(1) show ?thesis
    by (auto simp: update_manual_payment_def Let_def same_books_def views_def payment_id_at_def split: option.splits
        dest: select_first_Some)
qed

lemma status_view [simp]: "view (status_fields rt d n m p) = view p"
  by (simp add: view_def)

lemma marks_same_books:
  "mark_deposited rt t i d x n m db = Inr (q, db') \<Longrightarrow> same_books db db'"
  "mark_bounced rt t i d n m db = Inr (q, db') \<Longrightarrow> same_books db db'"
  "mark_reversed rt t i l d n m db = Inr (q, db') \<Longrightarrow> same_books db db'"
  "mark_cleared rt t i l d x n m db = Inr (q, db') \<Longrightarrow> same_books db db' \<and> q \<in> set (mf_payments db') \<and> mf_id q = i"
  by (simp_all add: mark_deposited_def mark_bounced_def mark_reversed_def mark_cleared_def)
    (drule update_same_books, simp add: view_def, simp)+

lemma clear_same_books:
  assumes "clear_locked_payment rt env p dto db = Inr (q, db')" and "p \<in> set (mf_payments db)"
  shows "same_books db db' \<and> q \<in> set (mf_payments db') \<and> mf_id q = mf_id p"
proof (cases "mf_status p = FpCleared")
  case True
  with assms show ?thesis by (simp add: clear_locked_payment_def)
next
  case False
  from assms(1) False show ?thesis
    by (rule clear_locked_Inr)
      (blast dest: allocate_same_books marks_same_books(4) receipt_same_books intro: same_books_trans)
qed

section \<open>Creating a manual payment\<close>

text \<open>The booking of a request: the payment its key has, or a new one.\<close>

definition books_under :: "string \<Rightarrow> string \<Rightarrow> int \<Rightarrow> payment_view \<Rightarrow> 'a manual_db_scheme \<Rightarrow> 'a manual_db_scheme \<Rightarrow> bool" where
  "books_under tenant key amount v db db' \<longleftrightarrow> manual_db.more db' = manual_db.more db \<and> fst v = fresh_uuid (map fst (views db)) \<and>
     snd v = (tenant, key, amount) \<and> views db' = views db @ [v] \<and>
     (\<forall>w\<in>set (views db). fst (snd w) = tenant \<longrightarrow> fst (snd (snd w)) \<noteq> key)"

definition finds_under :: "string \<Rightarrow> string \<Rightarrow> payment_view \<Rightarrow> 'a manual_db_scheme \<Rightarrow> 'a manual_db_scheme \<Rightarrow> bool" where
  "finds_under tenant key v db db' \<longleftrightarrow> same_books db db' \<and> v \<in> set (views db) \<and>
     fst (snd v) = tenant \<and> fst (snd (snd v)) = key"

lemma fst_views: "map fst (views db) = map mf_id (mf_payments db)"
  by (simp add: views_def view_def comp_def)

lemma create_row_books:
  assumes "create_manual_payment_row rt i db = Inr (p, db')"
  shows "p \<in> set (mf_payments db') \<and>
    (finds_under (mi_tenant_id i) (mi_idempotency_key i) (view p) db db' \<or>
     (\<exists>amount. pg_bigint (mi_amount_minor i) = Inr amount \<and>
        books_under (mi_tenant_id i) (mi_idempotency_key i) amount (view p) db db'))"
proof (cases "select_first (payment_key_at (mi_tenant_id i) (mi_idempotency_key i)) (mf_payments db)")
  case None
  with assms show ?thesis
    by (auto simp: create_manual_payment_row_def and_then_eq_Inr Let_def manual_payment_row_def books_under_def view_def views_def
        comp_def select_first_None payment_key_at_def)
next
  case (Some q)
  let ?at = "payment_key_at (mi_tenant_id i) (mi_idempotency_key i)"
  have v: "map view (update_where ?at (\<lambda>q. q\<lparr>mf_updated_at := rt_now rt\<rparr>) (mf_payments db)) = views db"
    by (subst update_where_map_key) (simp_all add: view_def views_def)
  have q: "q \<in> set (mf_payments db)" "?at q" using select_first_Some[OF Some] by auto
  from assms Some have p: "p = q\<lparr>mf_updated_at := rt_now rt\<rparr>"
    and db': "db' = db\<lparr>mf_payments := update_where ?at (\<lambda>q. q\<lparr>mf_updated_at := rt_now rt\<rparr>) (mf_payments db)\<rparr>"
    by (auto simp: create_manual_payment_row_def and_then_eq_Inr Let_def)
  have "view p = view q" by (simp add: p view_def)
  then have "finds_under (mi_tenant_id i) (mi_idempotency_key i) (view p) db db'" using q v
    by (auto simp: finds_under_def db' same_books_def views_def payment_key_at_def view_def)
  moreover have "p \<in> set (mf_payments db')" using q by (auto simp: db' p set_update_where)
  ultimately show ?thesis by simp
qed

lemma same_books_view:
  assumes "same_books db db'" and "distinct (map fst (views db))" and "p \<in> set (mf_payments db)"
    and "q \<in> set (mf_payments db')" and "mf_id q = mf_id p"
  shows "view q = view p"
proof -
  have "view q \<in> set (views db)" "view p \<in> set (views db)"
    using assms(1,3,4) by (auto simp: same_books_def views_def) (metis image_eqI list.set_map)
  moreover have "fst (view q) = fst (view p)" using assms(5) by (simp add: view_def)
  ultimately show ?thesis using assms(2) by (auto simp: distinct_map dest: inj_onD)
qed

lemma create_manual_Inr:
  assumes "create_manual_fee_payment nested rt env dto db = Inr (m, db')"
  obtains t i p db1 where "require_manual_tenant_id rt = Inr t" and "create_manual_payment_row rt i db = Inr (p, db1)"
    and "mi_tenant_id i = t" and "mi_idempotency_key i = js_trim (cm_idempotency_key dto)"
    and "normalize_manual_amount (cm_amount_minor dto) = Inr (mi_amount_minor i)"
    and "mi_status i = FpReceived" and "mi_payment_method i = cm_payment_method dto"
    and "(if mf_status p = FpCleared \<or> mf_status p = FpReversed \<or> mf_payment_method p = PayCheque then Inr (p, db1)
       else clear_locked_payment rt env p
         \<lparr>um_occurred_at = cm_received_at dto, um_deposit_reference = cm_deposit_reference dto,
          um_notes = cm_notes dto, um_metadata = Some [(''cleared_on_create'', JBool True)]\<rparr> db1) = Inr (m, db')"
  using assms by (fastforce simp: create_manual_fee_payment_def with_request_transaction_Inr and_then_eq_Inr)

lemma create_manual_books:
  assumes "create_manual_fee_payment nested rt env dto db = Inr (m, db')" and "distinct (map fst (views db))"
    and "require_manual_tenant_id rt = Inr tenant"
  shows "finds_under tenant (js_trim (cm_idempotency_key dto)) (view m) db db' \<or>
     (\<exists>amount. pg_bigint (js_trim (cm_amount_minor dto)) = Inr amount \<and>
        books_under tenant (js_trim (cm_idempotency_key dto)) amount (view m) db db')"
proof -
  from assms(1) obtain t i p db1 where t: "require_manual_tenant_id rt = Inr t"
    and cr: "create_manual_payment_row rt i db = Inr (p, db1)"
    and it: "mi_tenant_id i = t" and i2: "mi_idempotency_key i = js_trim (cm_idempotency_key dto)"
    and i3: "normalize_manual_amount (cm_amount_minor dto) = Inr (mi_amount_minor i)"
    and rest: "(if mf_status p = FpCleared \<or> mf_status p = FpReversed \<or> mf_payment_method p = PayCheque then Inr (p, db1)
       else clear_locked_payment rt env p
         \<lparr>um_occurred_at = cm_received_at dto, um_deposit_reference = cm_deposit_reference dto,
          um_notes = cm_notes dto, um_metadata = Some [(''cleared_on_create'', JBool True)]\<rparr> db1) = Inr (m, db')"
    by (rule create_manual_Inr)
  have i1: "mi_tenant_id i = tenant" using t it assms(3) by simp
  have i': "mi_amount_minor i = js_trim (cm_amount_minor dto)"
    using i3 by (simp add: normalize_manual_amount_def split: if_splits)
  have p: "p \<in> set (mf_payments db1)" using create_row_books[OF cr] by simp
  have c: "same_books db1 db' \<and> m \<in> set (mf_payments db') \<and> mf_id m = mf_id p"
    using rest p clear_same_books[OF _ p] by (auto split: if_splits)
  from create_row_books[OF cr, unfolded i1 i2 i'] show ?thesis
  proof (elim conjE disjE exE)
    assume f: "finds_under tenant (js_trim (cm_idempotency_key dto)) (view p) db db1"
    then have "distinct (map fst (views db1))" using assms(2) by (simp add: finds_under_def same_books_def)
    from same_books_view[OF conjunct1[OF c] this p] c have "view m = view p" by simp
    then show ?thesis using f c by (auto simp: finds_under_def intro: same_books_trans)
  next
    fix amount
    assume a: "pg_bigint (js_trim (cm_amount_minor dto)) = Inr amount"
      and b: "books_under tenant (js_trim (cm_idempotency_key dto)) amount (view p) db db1"
    then have "distinct (map fst (views db1))" using assms(2) fresh_uuid_notin[of "map fst (views db)"]
      by (auto simp: books_under_def)
    from same_books_view[OF conjunct1[OF c] this p] c have "view m = view p" by simp
    then show ?thesis using a b c by (auto simp: books_under_def same_books_def)
  qed
qed

end
