(* ===== verification/Mpesa_C2b_Runs.thy ===== *)
theory Mpesa_C2b_Runs
  imports Mpesa_C2b_Facts
begin

text \<open>
  Runs of confirmations, reconciliations and over-the-counter operations, in any order and by any tenants, and
  the invariant they keep: a receipt number is recorded once per school, a matched payment has a manual payment
  of its own with the same amount, and a waiting one has none.
\<close>

datatype c2b_action =
    Confirm json
  | Reconcile string reconcile_dto
  | Counter manual_action

fun c2b_act ::
  "cipher \<Rightarrow> runtime \<Rightarrow> manual_env \<Rightarrow> c2b_action \<Rightarrow> 'a c2b_db_scheme \<Rightarrow> 'a c2b_db_scheme result" where
  "c2b_act c rt env (Confirm payload) db = and_then (process_confirmation c rt env payload db) (\<lambda>(r, db'). Inr db')"
| "c2b_act c rt env (Reconcile i dto) db = and_then (reconcile_pending_payment False c rt env i dto db) (\<lambda>(r, db'). Inr db')"
| "c2b_act c rt env (Counter a) db = and_then (manual_act rt env a db) (\<lambda>(r, db'). Inr db')"

definition c2b_step :: "cipher \<times> runtime \<times> manual_env \<times> c2b_action \<Rightarrow> 'a c2b_db_scheme \<Rightarrow> 'a c2b_db_scheme" where
  "c2b_step s db = (case s of (c, rt, env, act) \<Rightarrow> (case c2b_act c rt env act db of Inl _ \<Rightarrow> db | Inr db' \<Rightarrow> db'))"

definition c2b_run :: "(cipher \<times> runtime \<times> manual_env \<times> c2b_action) list \<Rightarrow> 'a c2b_db_scheme \<Rightarrow> 'a c2b_db_scheme" where
  "c2b_run ss db = fold c2b_step ss db"

text \<open>The keys of the confirmations are not used over the counter.\<close>

definition reserved_key :: "string \<Rightarrow> bool" where
  "reserved_key k \<longleftrightarrow> take 10 k = ''mpesa-c2b:''"

fun own_key :: "c2b_action \<Rightarrow> bool" where
  "own_key (Counter (DoCreate dto)) \<longleftrightarrow> \<not> reserved_key (js_trim (cm_idempotency_key dto))"
| "own_key a \<longleftrightarrow> True"

section \<open>The invariant\<close>

definition c2b_key_of :: "c2b_payment \<Rightarrow> string \<times> string" where
  "c2b_key_of r = (cb_tenant_id r, cb_trans_id r)"

definition booking_key :: "c2b_payment \<Rightarrow> string" where
  "booking_key r = c2b_key (cb_tenant_id r) (cb_trans_id r)"

definition view_key :: "payment_view \<Rightarrow> string \<times> string" where
  "view_key v = (fst (snd v), fst (snd (snd v)))"

definition row_ok :: "payment_view list \<Rightarrow> c2b_payment \<Rightarrow> bool" where
  "row_ok vs r \<longleftrightarrow> 0 < cb_amount_minor r \<and> cb_trans_id r \<noteq> [] \<and> js_trim (cb_trans_id r) = cb_trans_id r \<and>
     (case cb_manual_fee_payment_id r of
        None \<Rightarrow> cb_status r \<noteq> CbMatched \<and> (\<forall>v\<in>set vs. view_key v \<noteq> (cb_tenant_id r, booking_key r))
      | Some m \<Rightarrow> cb_status r = CbMatched \<and> (m, cb_tenant_id r, booking_key r, cb_amount_minor r) \<in> set vs)"

definition books_ok :: "payment_view list \<Rightarrow> c2b_payment list \<Rightarrow> bool" where
  "books_ok vs rows \<longleftrightarrow> distinct (map cb_id rows) \<and> distinct (map c2b_key_of rows) \<and>
     distinct (map fst vs) \<and> distinct (map view_key vs) \<and> (\<forall>r\<in>set rows. row_ok vs r) \<and>
     (\<forall>v\<in>set vs. reserved_key (snd (view_key v)) \<longrightarrow> (\<exists>r\<in>set rows. view_key v = (cb_tenant_id r, booking_key r)))"

definition c2b_ok :: "'a c2b_db_scheme \<Rightarrow> bool" where
  "c2b_ok db \<longleftrightarrow> books_ok (views db) (c2_payments db)"

lemma reserved_c2b_key [simp]: "reserved_key (c2b_key t x)"
  by (simp add: reserved_key_def c2b_key_def)

lemma c2b_key_inject [simp]: "c2b_key t x = c2b_key t y \<longleftrightarrow> x = y"
  by (simp add: c2b_key_def)

lemma c2b_key_trim:
  assumes "x \<noteq> []" and "js_trim x = x"
  shows "js_trim (c2b_key t x) = c2b_key t x"
proof (rule js_trim_fixed)
  have "\<not> is_space (last x)"
  proof
    assume "is_space (last x)"
    then obtain ys y where x: "x = ys @ [y]" "is_space y" using assms(1) by (cases x rule: rev_cases) auto
    have "length (js_trim (ys @ [y])) \<le> length ys"
    proof -
      have "length (dropWhile is_space (rev (dropWhile is_space (ys @ [y])))) \<le> length ys"
      proof (cases "dropWhile is_space (ys @ [y]) = []")
        case False
        then obtain zs where z: "dropWhile is_space (ys @ [y]) = zs @ [y]" "length zs \<le> length ys"
          using x(2) length_dropWhile_le[of is_space ys]
          by (cases "\<forall>a\<in>set ys. is_space a") (auto simp: dropWhile_append)
        show ?thesis using x(2) z(2) length_dropWhile_le[of is_space "rev zs"] by (simp add: z(1))
      qed simp
      then show ?thesis by (simp add: js_trim_def)
    qed
    then show False using assms(2) x(1) by simp
  qed
  then show "c2b_key t x = [] \<or> \<not> is_space (hd (c2b_key t x)) \<and> \<not> is_space (last (c2b_key t x))"
    using assms(1) by (simp add: c2b_key_def is_space_def)
qed

lemma books_reserved:
  assumes "books_ok vs rows" and "v \<in> set vs" and "reserved_key (snd (view_key v))"
  obtains r where "r \<in> set rows" and "view_key v = (cb_tenant_id r, booking_key r)"
  using assms by (auto simp: books_ok_def)

lemma reserved_booking_key [simp]: "reserved_key (booking_key r)"
  by (simp add: booking_key_def)

lemma booking_keys_differ: "c2b_key_of q \<noteq> c2b_key_of r \<Longrightarrow> (cb_tenant_id q, booking_key q) \<noteq> (cb_tenant_id r, booking_key r)"
  by (auto simp: c2b_key_of_def booking_key_def)

text \<open>The transitions of the two tables that keep it.\<close>

lemma books_new_view:
  assumes "books_ok vs rows" and "fst v \<notin> set (map fst vs)" and "view_key v \<notin> view_key ` set vs"
    and "\<not> reserved_key (snd (view_key v))"
  shows "books_ok (vs @ [v]) rows"
proof -
  have "view_key v \<noteq> (cb_tenant_id r, booking_key r)" for r using assms(4) by (auto simp: booking_key_def)
  with assms show ?thesis by (auto simp: books_ok_def row_ok_def split: option.splits)
qed

lemma books_new_row:
  assumes "books_ok vs rows" and "cb_id r \<notin> set (map cb_id rows)" and "c2b_key_of r \<notin> c2b_key_of ` set rows"
    and "0 < cb_amount_minor r" and "cb_trans_id r \<noteq> []" and "js_trim (cb_trans_id r) = cb_trans_id r"
    and "cb_manual_fee_payment_id r = None" and "cb_status r \<noteq> CbMatched"
  shows "books_ok vs (rows @ [r])"
proof -
  have "view_key v \<noteq> (cb_tenant_id r, booking_key r)" if v_in: "v \<in> set vs" for v
  proof
    assume v: "view_key v = (cb_tenant_id r, booking_key r)"
    then obtain q where "q \<in> set rows" "view_key v = (cb_tenant_id q, booking_key q)"
      using books_reserved[OF assms(1) v_in] by auto
    then show False using v assms(3) booking_keys_differ[of q r] by (auto simp: image_iff)
  qed
  with assms show ?thesis by (auto simp: books_ok_def row_ok_def)
qed

lemma books_match:
  assumes ok: "books_ok vs rows" and r: "r \<in> set rows" and "cb_manual_fee_payment_id r = None"
    and v: "v = (m, cb_tenant_id r, booking_key r, cb_amount_minor r)" and "m \<notin> set (map fst vs)"
    and f: "cb_id (f r) = cb_id r" "c2b_key_of (f r) = c2b_key_of r" "cb_amount_minor (f r) = cb_amount_minor r"
      "cb_manual_fee_payment_id (f r) = Some m" "cb_status (f r) = CbMatched"
  shows "books_ok (vs @ [v]) (update_where (c2b_id_at (cb_tenant_id r) (cb_id r)) f rows)"
proof -
  have ids: "distinct (map cb_id rows)" and keys: "distinct (map c2b_key_of rows)" using ok by (simp_all add: books_ok_def)
  have u: "update_where (c2b_id_at (cb_tenant_id r) (cb_id r)) f rows = map (\<lambda>x. if x = r then f r else x) rows"
    by (rule update_where_only[OF ids r]) (use ids r in \<open>auto simp: c2b_id_at_def distinct_map dest: inj_onD\<close>)
  have kr: "view_key w \<noteq> view_key v" if "w \<in> set vs" for w
    using ok r assms(3) that by (auto simp: books_ok_def row_ok_def v view_key_def)
  have "row_ok (vs @ [v]) x" if "x \<in> set rows" "x \<noteq> r" for x
  proof -
    have "c2b_key_of x \<noteq> c2b_key_of r" using keys r that by (auto simp: distinct_map dest: inj_onD)
    then have "view_key v \<noteq> (cb_tenant_id x, booking_key x)" by (auto simp: v view_key_def booking_key_def c2b_key_of_def)
    then show ?thesis using ok that by (auto simp: books_ok_def row_ok_def split: option.splits)
  qed
  moreover have "row_ok (vs @ [v]) (f r)"
    using f ok r by (auto simp: books_ok_def row_ok_def v booking_key_def c2b_key_of_def)
  ultimately have rows: "\<forall>x\<in>set (map (\<lambda>x. if x = r then f r else x) rows). row_ok (vs @ [v]) x" by auto
  have same: "map cb_id (map (\<lambda>x. if x = r then f r else x) rows) = map cb_id rows"
    "map c2b_key_of (map (\<lambda>x. if x = r then f r else x) rows) = map c2b_key_of rows" using f(1,2) by auto
  have res: "\<exists>x\<in>set (map (\<lambda>x. if x = r then f r else x) rows). view_key w = (cb_tenant_id x, booking_key x)"
    if w: "w \<in> set (vs @ [v])" "reserved_key (snd (view_key w))" for w
  proof -
    obtain x where x: "x \<in> set rows" "view_key w = (cb_tenant_id x, booking_key x)"
    proof (cases "w = v")
      case True
      show ?thesis by (rule that[OF r]) (simp add: True v view_key_def)
    next
      case False
      with w have "w \<in> set vs" by simp
      from books_reserved[OF ok this w(2)] that show ?thesis by blast
    qed
    have "(cb_tenant_id (f r), booking_key (f r)) = (cb_tenant_id r, booking_key r)" using f(2) by (simp add: c2b_key_of_def booking_key_def)
    with x show ?thesis by (intro bexI[of _ "if x = r then f r else x"]) auto
  qed
  have "view_key v \<notin> view_key ` set vs" using kr by (metis imageE)
  then have "distinct (map view_key (vs @ [v]))" using ok by (simp add: books_ok_def)
  moreover have "distinct (map fst (vs @ [v]))" using ok assms(5) by (simp add: books_ok_def v)
  ultimately show ?thesis unfolding u books_ok_def same using ids keys rows res by blast
qed

section \<open>The operations keep it\<close>

text \<open>The tables of the C2B payments lie beyond those of the manual payments.\<close>

lemma more_c2b: "manual_db.more db' = manual_db.more (db :: 'a c2b_db_scheme) \<Longrightarrow> c2_payments db' = c2_payments db"
  by (cases db, cases db') simp

lemma same_books_c2b: "same_books db db' \<Longrightarrow> c2b_ok (db :: 'a c2b_db_scheme) = c2b_ok db' \<and> c2_payments db' = c2_payments db"
  using more_c2b[of db' db] by (auto simp: same_books_def c2b_ok_def)

lemma update_c2b_Inr:
  assumes "update_c2b t i f db = Inr (q, db')"
  shows "db' = db\<lparr>c2_payments := update_where (c2b_id_at t i) f (c2_payments db)\<rparr> \<and> q \<in> set (c2_payments db') \<and>
    c2b_id_at t i q"
  using assms by (auto simp: update_c2b_def Let_def split: option.splits dest: select_first_Some)

lemma views_c2b [simp]: "views (db\<lparr>c2_payments := rows\<rparr>) = views db"
  by (simp add: views_def)

text \<open>How a C2B payment may change: a waiting one may be matched, and its identity and amount stay.\<close>

definition c2b_advances :: "c2b_payment \<Rightarrow> c2b_payment \<Rightarrow> bool" where
  "c2b_advances r r' \<longleftrightarrow> cb_id r' = cb_id r \<and> cb_tenant_id r' = cb_tenant_id r \<and> cb_trans_id r' = cb_trans_id r \<and>
     cb_amount_minor r' = cb_amount_minor r \<and> (cb_status r = CbMatched \<longrightarrow> r' = r)"

definition c2b_progress :: "c2b_payment list \<Rightarrow> c2b_payment list \<Rightarrow> bool" where
  "c2b_progress rows rows' \<longleftrightarrow> (\<forall>r\<in>set rows. \<exists>r'\<in>set rows'. c2b_advances r r')"

lemma c2b_advances_refl [simp]: "c2b_advances r r"
  by (simp add: c2b_advances_def)

lemma c2b_progress_refl [simp]: "c2b_progress rows rows"
  by (auto simp: c2b_progress_def intro: c2b_advances_refl)

lemma c2b_progress_trans: "c2b_progress a b \<Longrightarrow> c2b_progress b c \<Longrightarrow> c2b_progress a c"
  unfolding c2b_progress_def c2b_advances_def by (metis (no_types))

lemma c2b_progress_append [simp]: "c2b_progress rows (rows @ qs)"
  by (auto simp: c2b_progress_def intro: c2b_advances_refl)

lemma c2b_progress_update:
  "(\<And>r. r \<in> set rows \<Longrightarrow> P r \<Longrightarrow> c2b_advances r (f r)) \<Longrightarrow> c2b_progress rows (update_where P f rows)"
  unfolding c2b_progress_def
proof
  fix r assume adv: "\<And>r. r \<in> set rows \<Longrightarrow> P r \<Longrightarrow> c2b_advances r (f r)" and r: "r \<in> set rows"
  show "\<exists>r'\<in>set (update_where P f rows). c2b_advances r r'"
    using adv[OF r] r by (intro bexI[of _ "if P r then f r else r"]) (auto simp: set_update_where)
qed

text \<open>A new payment of the counter, and the booking of a waiting C2B payment.\<close>

lemma counter_keeps:
  assumes "c2b_ok db" and "books_under tenant key amount v db db'" and "\<not> reserved_key key"
  shows "c2b_ok (db' :: 'a c2b_db_scheme) \<and> c2_payments db' = c2_payments db"
proof -
  have d: "views db' = views db @ [v]" "snd v = (tenant, key, amount)" "fst v = fresh_uuid (map fst (views db))"
    "\<forall>w\<in>set (views db). fst (snd w) = tenant \<longrightarrow> fst (snd (snd w)) \<noteq> key"
    and c: "c2_payments db' = c2_payments db"
    using assms(2) more_c2b[of db' db] by (auto simp: books_under_def)
  have "fst v \<notin> set (map fst (views db))" unfolding d(3) by (rule fresh_uuid_notin)
  moreover have "view_key v \<notin> view_key ` set (views db)" using d(2,4) by (auto simp: view_key_def)
  ultimately have "books_ok (views db @ [v]) (c2_payments db)"
    using assms(1,3) d(2) by (intro books_new_view) (simp_all add: c2b_ok_def view_key_def)
  then show ?thesis by (simp add: c2b_ok_def d(1) c)
qed

lemma booking_keeps:
  assumes ok: "c2b_ok db" and r: "r \<in> set (c2_payments db)" and none: "cb_manual_fee_payment_id r = None"
    and cr: "create_manual_fee_payment nested rt env (c2b_manual_dto r config i s a n src) db = Inr (m, db1)"
    and tenant: "require_manual_tenant_id rt = Inr (cb_tenant_id r)"
    and amount: "\<And>n. pg_bigint (js_trim a) = Inr n \<Longrightarrow> n = cb_amount_minor r"
    and mark: "mark_matched rt' (cb_tenant_id r) (cb_id r) i s (mf_id m) l meta db1 = Inr (q, db')"
  shows "c2b_ok db' \<and> c2b_progress (c2_payments db) (c2_payments db') \<and>
    q \<in> set (c2_payments db') \<and> c2b_key_of q = c2b_key_of r \<and> cb_status q = CbMatched"
proof -
  have ids: "distinct (map fst (views db))" and rok: "row_ok (views db) r" and cids: "distinct (map cb_id (c2_payments db))"
    using ok r by (simp_all add: c2b_ok_def books_ok_def)
  have key: "js_trim (cm_idempotency_key (c2b_manual_dto r config i s a n src)) = booking_key r"
    "cm_amount_minor (c2b_manual_dto r config i s a n src) = a"
    using rok by (simp_all add: c2b_manual_dto_def booking_key_def row_ok_def c2b_key_trim)
  have nof: "\<not> finds_under (cb_tenant_id r) (booking_key r) (view m) db db1"
    using rok none by (auto simp: finds_under_def row_ok_def view_key_def)
  from create_manual_books[OF cr ids tenant, unfolded key] nof amount
  have b: "books_under (cb_tenant_id r) (booking_key r) (cb_amount_minor r) (view m) db db1" by auto
  then have v: "view m = (mf_id m, cb_tenant_id r, booking_key r, cb_amount_minor r)"
    "views db1 = views db @ [view m]" "mf_id m = fresh_uuid (map fst (views db))" and c: "c2_payments db1 = c2_payments db"
    using more_c2b[of db1 db] by (auto simp: books_under_def view_def)
  from mark obtain v s where "update_c2b (cb_tenant_id r) (cb_id r) (matched_fields rt' v s (mf_id m) l meta) db1 = Inr (q, db')"
    by (auto simp: mark_matched_def and_then_eq_Inr matched_fields_def)
  then obtain f where f: "\<And>x. cb_id (f x) = cb_id x" "\<And>x. c2b_key_of (f x) = c2b_key_of x"
      "\<And>x. cb_amount_minor (f x) = cb_amount_minor x" "\<And>x. cb_manual_fee_payment_id (f x) = Some (mf_id m)"
      "\<And>x. cb_status (f x) = CbMatched"
    and u: "update_c2b (cb_tenant_id r) (cb_id r) f db1 = Inr (q, db')"
    by (rule that[rotated -1]) (simp_all add: matched_fields_def c2b_key_of_def)
  have db': "db' = db1\<lparr>c2_payments := update_where (c2b_id_at (cb_tenant_id r) (cb_id r)) f (c2_payments db)\<rparr>"
    "q \<in> set (c2_payments db')" "cb_id q = cb_id r" using update_c2b_Inr[OF u] c by (auto simp: c2b_id_at_def)
  have "books_ok (views db @ [view m]) (update_where (c2b_id_at (cb_tenant_id r) (cb_id r)) f (c2_payments db))"
    by (rule books_match[where f=f, OF _ r none v(1) _ f(1) f(2) f(3) f(4) f(5)])
      (use ok fresh_uuid_notin[of "map fst (views db)"] in \<open>simp_all add: c2b_ok_def v(3)\<close>)
  then have "c2b_ok db'" by (simp add: c2b_ok_def db' v(2))
  moreover have "c2b_progress (c2_payments db) (c2_payments db')" unfolding db'
  proof (simp, rule c2b_progress_update)
    fix x assume x: "x \<in> set (c2_payments db)" "c2b_id_at (cb_tenant_id r) (cb_id r) x"
    then have "x = r" using cids r by (auto simp: c2b_id_at_def distinct_map dest: inj_onD)
    moreover have "cb_status r \<noteq> CbMatched" using rok none by (simp add: row_ok_def)
    ultimately show "c2b_advances x (f x)" using f[of x] by (simp add: c2b_advances_def c2b_key_of_def)
  qed
  moreover have "c2b_key_of q = c2b_key_of r \<and> cb_status q = CbMatched"
  proof -
    obtain x where x: "x \<in> set (c2_payments db)" "q = f x \<or> q = x \<and> \<not> c2b_id_at (cb_tenant_id r) (cb_id r) x"
      using db'(1,2) by (auto simp: set_update_where)
    then have "q = f x" using update_c2b_Inr[OF u] by auto
    moreover have "x = r" using x(1) r cids db'(3) f(1)[of x] \<open>q = f x\<close> by (auto simp: distinct_map dest: inj_onD)
    ultimately show ?thesis using f by simp
  qed
  ultimately show ?thesis using db'(2) by simp
qed

text \<open>A waiting payment is kept for review.\<close>

lemma review_keeps:
  assumes ok: "c2b_ok db" and r: "r \<in> set (c2_payments db)" and none: "cb_manual_fee_payment_id r = None"
    and mp: "mark_pending_review rt (cb_tenant_id r) (cb_id r) reason meta db = Inr (q, db')"
  shows "c2b_ok db' \<and> c2b_progress (c2_payments db) (c2_payments db') \<and> q \<in> set (c2_payments db') \<and>
    q = review_fields rt reason meta r"
proof -
  let ?at = "c2b_id_at (cb_tenant_id r) (cb_id r)" and ?f = "review_fields rt reason meta"
  have "update_c2b (cb_tenant_id r) (cb_id r) ?f db = Inr (q, db')"
    using mp by (simp add: mark_pending_review_def)
  then have db': "db' = db\<lparr>c2_payments := update_where ?at ?f (c2_payments db)\<rparr>" and q: "q \<in> set (c2_payments db')" "?at q"
    by (auto dest!: update_c2b_Inr)
  have rows: "\<forall>x\<in>set (c2_payments db). row_ok (views db) x" and ids: "distinct (map cb_id (c2_payments db))"
    using ok by (simp_all add: c2b_ok_def books_ok_def)
  have only: "x = r" if "x \<in> set (c2_payments db)" "?at x" for x
    using that ids r by (auto simp: c2b_id_at_def distinct_map dest: inj_onD)
  have "q = ?f r" using q only by (auto simp: db' set_update_where)
  have st: "cb_status r \<noteq> CbMatched" using rows r none by (auto simp: row_ok_def)
  have "c2b_progress (c2_payments db) (c2_payments db')" unfolding db'
    by (simp, rule c2b_progress_update, drule (1) only) (use st in \<open>simp add: c2b_advances_def review_fields_def\<close>)
  moreover have "row_ok (views db) (?f r)"
    using rows r none by (auto simp: row_ok_def review_fields_def booking_key_def)
  then have rows': "\<forall>x\<in>set (c2_payments db'). row_ok (views db) x"
    using rows only by (auto simp: db' set_update_where)
  have same: "map cb_id (c2_payments db') = map cb_id (c2_payments db)"
    "map c2b_key_of (c2_payments db') = map c2b_key_of (c2_payments db)"
    unfolding db' by (simp_all add: update_where_map_key review_fields_def c2b_key_of_def)
  have "\<exists>x\<in>set (c2_payments db'). v = (cb_tenant_id x, booking_key x)"
    if "x \<in> set (c2_payments db)" "v = (cb_tenant_id x, booking_key x)" for v x
    using that by (intro bexI[of _ "if ?at x then ?f x else x"])
      (auto simp: db' set_update_where review_fields_def booking_key_def)
  moreover have "views db' = views db" by (simp add: db')
  ultimately show ?thesis using ok rows' same q(1) \<open>q = ?f r\<close> by (simp add: c2b_ok_def books_ok_def) metis
qed

lemma require_text_Inr: "require_text v field = Inr t \<Longrightarrow> t \<noteq> [] \<and> js_trim t = t"
  by (auto simp: require_text_def optional_text_def split: option.splits json.splits if_splits)

lemma parse_c2b_amount_Inr: "parse_c2b_amount v = Inr t \<Longrightarrow> \<exists>n>0. t = show_int n"
  by (auto simp: parse_c2b_amount_def and_then_eq_Inr Let_def not_le simp del: take_append split: if_splits)

lemma parse_c2b_Inr:
  assumes "parse_c2b_payload payload = Inr p"
  shows "pr_trans_id p \<noteq> [] \<and> js_trim (pr_trans_id p) = pr_trans_id p \<and> (\<exists>n>0. pr_amount_minor p = show_int n)"
proof -
  obtain kvs where "payload_fields payload = Some kvs" using assms by (auto simp: parse_c2b_payload_def split: option.splits)
  with assms have t: "require_text (map_of kvs ''TransID'') ''TransID'' = Inr (pr_trans_id p)"
    and a: "parse_c2b_amount (map_of kvs ''TransAmount'') = Inr (pr_amount_minor p)"
    by (auto simp: parse_c2b_payload_def and_then_eq_Inr Let_def)
  show ?thesis using require_text_Inr[OF t] parse_c2b_amount_Inr[OF a] by simp
qed

lemma create_manual_tenant:
  "create_manual_fee_payment nested rt env dto db = Inr r \<Longrightarrow> \<exists>t. require_manual_tenant_id rt = Inr t"
  by (cases r) (auto simp: create_manual_fee_payment_def and_then_eq_Inr)

lemma require_manual_tenant_runtime:
  "require_manual_tenant_id (tenant_runtime rt t) = Inr t' \<Longrightarrow> t' = t"
  by (auto simp: require_manual_tenant_id_def tenant_runtime_def split: if_splits)

lemma pg_bigint_show_Inr: "pg_bigint (show_int i) = Inr n \<Longrightarrow> n = i"
  by (simp add: pg_bigint_show split: if_splits)

lemma create_received_Inr:
  assumes cr: "create_received rt t config p payload db = Inr (r, inserted, db1)" and parsed: "parse_c2b_payload payload' = Inr p"
    and new: "find_c2b_by_trans_id db t (pr_trans_id p) = None" and ok: "c2b_ok db"
  shows "inserted \<and> c2b_ok db1 \<and> c2_payments db1 = c2_payments db @ [r] \<and> db1 = db\<lparr>c2_payments := c2_payments db @ [r]\<rparr> \<and>
    cb_tenant_id r = t \<and> cb_trans_id r = pr_trans_id p \<and> cb_manual_fee_payment_id r = None \<and> cb_status r = CbPendingReview \<and>
    cb_ledger_transaction_id r = None \<and> pr_amount_minor p = show_int (cb_amount_minor r)"
proof -
  obtain n where n: "n > 0" "pr_amount_minor p = show_int n" and tr: "pr_trans_id p \<noteq> []" "js_trim (pr_trans_id p) = pr_trans_id p"
    using parse_c2b_Inr[OF parsed] by auto
  from cr new have r: "r = received_row rt t config p payload n (fresh_uuid (map cb_id (c2_payments db)))"
    and db1: "inserted" "db1 = db\<lparr>c2_payments := c2_payments db @ [r]\<rparr>"
    by (auto simp: create_received_def and_then_eq_Inr Let_def n(2) dest: pg_bigint_show_Inr)
  have "books_ok (views db) (c2_payments db @ [r])"
  proof (rule books_new_row)
    show "cb_id r \<notin> set (map cb_id (c2_payments db))" by (simp add: r received_row_def del: set_map)
    show "c2b_key_of r \<notin> c2b_key_of ` set (c2_payments db)"
      using new by (auto simp: r received_row_def c2b_key_of_def find_c2b_by_trans_id_def select_first_None c2b_at_def)
  qed (use ok n tr in \<open>simp_all add: r received_row_def c2b_ok_def\<close>)
  then show ?thesis using db1 n(2) by (simp add: c2b_ok_def r received_row_def)
qed

lemma confirm_keeps:
  assumes cf: "confirm_in_tenant (tenant_runtime rt t) env t config p payload db = Inr (res, db')"
    and parsed: "parse_c2b_payload payload' = Inr p" and ok: "c2b_ok db"
  shows "c2b_ok db' \<and> c2b_progress (c2_payments db) (c2_payments db') \<and>
    (\<exists>r\<in>set (c2_payments db'). c2b_at t (pr_trans_id p) r \<and> duplicate_confirmation t r = res\<lparr>cc_duplicate := True\<rparr>)"
proof (cases "find_c2b_by_trans_id db t (pr_trans_id p)")
  case (Some old)
  with cf ok show ?thesis
    by (auto simp: confirm_in_tenant_def duplicate_confirmation_def find_c2b_by_trans_id_def dest!: select_first_Some)
next
  case None
  let ?rt = "tenant_runtime rt t"
  from cf None obtain r inserted db1 where cr: "create_received ?rt t config p payload db = Inr (r, inserted, db1)"
    by (auto simp: confirm_in_tenant_def and_then_eq_Inr split: if_splits)
  note c = create_received_Inr[OF cr parsed None ok]
  have ins: inserted and ok1: "c2b_ok db1" and t: "cb_tenant_id r = t" "cb_manual_fee_payment_id r = None" "cb_trans_id r = pr_trans_id p"
    and led: "cb_ledger_transaction_id r = None" and amt: "pr_amount_minor p = show_int (cb_amount_minor r)" using c by blast+
  have prog: "c2b_progress (c2_payments db) (c2_payments db1)" and r: "r \<in> set (c2_payments db1)" using c by simp_all
  define target where "target = resolve_allocation_target db1 t p"
  show ?thesis
  proof (cases "\<not> truthy (at_invoice_id target) \<and> \<not> truthy (at_student_id target)")
    case True
    with cf None cr ins obtain q where mp: "mark_pending_review ?rt t (cb_id r) ''no_invoice_or_student_match''
          [(''bill_ref_number'', json_opt (pr_bill_ref_number p)), (''invoice_number'', json_opt (pr_invoice_number p))] db1 = Inr (q, db')"
      and res: "res = \<lparr>cc_accepted = True, cc_duplicate = False, cc_status = cb_status q, cc_tenant_id = t,
          cc_mpesa_c2b_payment_id = cb_id q, cc_manual_fee_payment_id = None, cc_ledger_transaction_id = None\<rparr>"
      by (auto simp: confirm_in_tenant_def and_then_eq_Inr target_def[symmetric] Let_def)
    note k = review_keeps[OF ok1 r t(2) mp[folded t(1)]]
    then have "c2b_at t (pr_trans_id p) q \<and> duplicate_confirmation t q = res\<lparr>cc_duplicate := True\<rparr>"
      using t led by (simp add: res duplicate_confirmation_def c2b_at_def review_fields_def)
    then show ?thesis using k c2b_progress_trans[OF prog] by blast
  next
    case False
    with cf None cr ins obtain m db2 q where
        cm: "create_manual_fee_payment True ?rt env (c2b_manual_dto r config (at_invoice_id target) (at_student_id target)
               (pr_amount_minor p) (paybill_notes r) ''mpesa_c2b'') db1 = Inr (m, db2)"
      and mm: "mark_matched ?rt t (cb_id r) (at_invoice_id target) (at_student_id target) (mf_id m)
               (mf_ledger_transaction_id m) [(''matching_strategy'', JStr (at_matching_strategy target))] db2 = Inr (q, db')"
      and res: "res = \<lparr>cc_accepted = True, cc_duplicate = False, cc_status = cb_status q, cc_tenant_id = t,
          cc_mpesa_c2b_payment_id = cb_id q, cc_manual_fee_payment_id = cb_manual_fee_payment_id q,
          cc_ledger_transaction_id = cb_ledger_transaction_id q\<rparr>"
      by (auto simp: confirm_in_tenant_def and_then_eq_Inr target_def[symmetric] Let_def)
    have "require_manual_tenant_id ?rt = Inr (cb_tenant_id r)"
      using create_manual_tenant[OF cm] require_manual_tenant_runtime t(1) by blast
    moreover have "\<And>n. pg_bigint (js_trim (pr_amount_minor p)) = Inr n \<Longrightarrow> n = cb_amount_minor r"
      using amt pg_bigint_show_Inr by simp
    ultimately have k: "c2b_ok db' \<and> c2b_progress (c2_payments db1) (c2_payments db') \<and> q \<in> set (c2_payments db') \<and>
        c2b_key_of q = c2b_key_of r"
      using booking_keeps[OF ok1 r t(2) cm _ _ mm[folded t(1)]] by blast
    then have "c2b_at t (pr_trans_id p) q \<and> duplicate_confirmation t q = res\<lparr>cc_duplicate := True\<rparr>"
      using t by (simp add: res duplicate_confirmation_def c2b_at_def c2b_key_of_def)
    then show ?thesis using k c2b_progress_trans[OF prog] by blast
  qed
qed

lemma reconcile_keeps:
  assumes rc: "reconcile_pending_payment nested c rt env i dto db = Inr (q, db')" and ok: "c2b_ok db"
  shows "c2b_ok db' \<and> c2b_progress (c2_payments db) (c2_payments db') \<and> q \<in> set (c2_payments db') \<and> cb_status q = CbMatched"
proof -
  from rc obtain t r where t: "require_c2b_tenant_id rt = Inr t" and lk: "lock_c2b_by_id db t i = Inr (Some r)"
    and rl: "reconcile_locked c rt env t r dto db = Inr (q, db')"
    by (auto simp: reconcile_pending_payment_def with_request_transaction_Inr and_then_eq_Inr split: option.splits)
  have r: "r \<in> set (c2_payments db)" "cb_tenant_id r = t"
    using lk by (auto simp: lock_c2b_by_id_def and_then_eq_Inr c2b_id_at_def dest!: select_first_Some)
  show ?thesis
  proof (cases "cb_status r = CbMatched")
    case True
    with rl ok r show ?thesis by (simp add: reconcile_locked_def)
  next
    case False
    with rl obtain s config m db1 where
        cm: "create_manual_fee_payment True rt env (c2b_manual_dto r config (rd_invoice_id dto) s (show_int (cb_amount_minor r))
               (or_default (read_string (rd_notes dto)) (paybill_notes r)) ''mpesa_c2b_manual_reconciliation'') db = Inr (m, db1)"
      and mm: "mark_matched rt (cb_tenant_id r) (cb_id r) (rd_invoice_id dto) s (mf_id m) (mf_ledger_transaction_id m)
               [(''matching_strategy'', JStr ''manual_accountant_review'')] db1 = Inr (q, db')"
      by (auto simp: reconcile_locked_def and_then_eq_Inr r(2) split: if_splits)
    have none: "cb_manual_fee_payment_id r = None"
      using ok r False by (auto simp: c2b_ok_def books_ok_def row_ok_def split: option.splits)
    have "require_manual_tenant_id rt = Inr (cb_tenant_id r)"
      using t r(2) by (auto simp: require_c2b_tenant_id_def require_manual_tenant_id_def split: option.splits if_splits)
    moreover have "\<And>n. pg_bigint (js_trim (show_int (cb_amount_minor r))) = Inr n \<Longrightarrow> n = cb_amount_minor r"
      using pg_bigint_show_Inr by simp
    ultimately show ?thesis using booking_keeps[OF ok r(1) none cm _ _ mm] by blast
  qed
qed

lemma manual_act_books:
  assumes act: "manual_act rt env a db = Inr (q, db')" and ids: "distinct (map fst (views db))"
  shows "same_books db db' \<or> (\<exists>dto tenant amount v. a = DoCreate dto \<and>
    books_under tenant (js_trim (cm_idempotency_key dto)) amount v db db')"
proof (cases a)
  case (DoCreate dto)
  with act have cr: "create_manual_fee_payment False rt env dto db = Inr (q, db')" by simp
  from create_manual_tenant[OF cr] obtain t where "require_manual_tenant_id rt = Inr t" by blast
  from create_manual_books[OF cr ids this] DoCreate show ?thesis unfolding finds_under_def by blast
next
  case (DoClear i dto)
  with act show ?thesis
    by (auto simp: clear_manual_fee_payment_def elim!: on_locked_payment_Inr dest!: require_locked_payment_Inr clear_same_books)
next
  case (DoDeposit i dto)
  with act show ?thesis
    by (auto simp: deposit_manual_fee_payment_def and_then_eq_Inr elim!: on_locked_payment_Inr split: if_splits
        dest: marks_same_books(1))
next
  case (DoBounce i dto)
  with act show ?thesis
    by (auto simp: bounce_manual_fee_payment_def and_then_eq_Inr elim!: on_locked_payment_Inr split: if_splits
        dest: marks_same_books(2))
next
  case (DoReverse i dto)
  with act obtain t p posted db1 db2 d n m where
      post: "post_reversal_transaction rt p dto db = Inr (posted, db1)"
    and rev: "reverse_allocations rt t (list_manual_allocations db1 t (mf_id p)) db1 = Inr db2"
    and mk: "mark_reversed rt t (mf_id p) (pt_transaction_id posted) d n m db2 = Inr (q, db')"
    by (auto simp: reverse_manual_fee_payment_def and_then_eq_Inr elim!: on_locked_payment_Inr split: if_splits)
  show ?thesis using reversal_same_books[OF post] reverse_same_books[OF rev] marks_same_books(3)[OF mk]
    by (blast intro: same_books_trans)
qed

lemma process_keeps:
  assumes pc: "process_confirmation c rt env payload db = Inr (res, db')" and ok: "c2b_ok db"
  shows "c2b_ok db' \<and> c2b_progress (c2_payments db) (c2_payments db') \<and>
    (\<exists>p config. parse_c2b_payload payload = Inr p \<and> resolve_mpesa_config_by_shortcode c rt db (pr_business_short_code p) = Inr config \<and>
       (\<exists>r\<in>set (c2_payments db'). c2b_at (rc_tenant_id config) (pr_trans_id p) r \<and>
          duplicate_confirmation (rc_tenant_id config) r = res\<lparr>cc_duplicate := True\<rparr>))"
proof -
  from pc obtain p config where p: "parse_c2b_payload payload = Inr p"
    and config: "resolve_mpesa_config_by_shortcode c rt db (pr_business_short_code p) = Inr config"
    and cf: "confirm_in_tenant (tenant_runtime rt (rc_tenant_id config)) env (rc_tenant_id config) config p payload db = Inr (res, db')"
    by (auto simp: process_confirmation_def and_then_eq_Inr with_request_transaction_Inr)
  from confirm_keeps[OF cf p ok] p config show ?thesis by blast
qed

lemma c2b_act_keeps:
  assumes act: "c2b_act c rt env a db = Inr db'" and ok: "c2b_ok db" and own: "own_key a"
  shows "c2b_ok db' \<and> c2b_progress (c2_payments db) (c2_payments db')"
proof (cases a)
  case (Confirm payload)
  with act process_keeps[OF _ ok] show ?thesis by (fastforce simp: and_then_eq_Inr)
next
  case (Reconcile i dto)
  with act reconcile_keeps[OF _ ok] show ?thesis by (fastforce simp: and_then_eq_Inr)
next
  case (Counter b)
  with act obtain q where "manual_act rt env b db = Inr (q, db')" by (auto simp: and_then_eq_Inr)
  moreover have "distinct (map fst (views db))" using ok by (simp add: c2b_ok_def books_ok_def)
  ultimately show ?thesis using manual_act_books[of rt env b db q db'] same_books_c2b[of db db'] ok own Counter counter_keeps[OF ok]
    by fastforce
qed

lemma c2b_run_keeps:
  assumes "c2b_ok db" and "\<forall>(c, rt, env, a)\<in>set ss. own_key a"
  shows "c2b_ok (c2b_run ss db) \<and> c2b_progress (c2_payments db) (c2_payments (c2b_run ss db))"
  using assms
proof (induction ss arbitrary: db)
  case (Cons s ss)
  obtain c rt env a where s: "s = (c, rt, env, a)" by (cases s) auto
  have k: "c2b_ok (c2b_step s db) \<and> c2b_progress (c2_payments db) (c2_payments (c2b_step s db))"
    using Cons.prems c2b_act_keeps[of c rt env a db] by (auto simp: c2b_step_def s split: sum.splits)
  then show ?case using Cons.IH[of "c2b_step s db"] Cons.prems(2) by (auto simp: c2b_run_def intro: c2b_progress_trans)
qed (simp add: c2b_run_def)

section \<open>Under the schema's indexes\<close>

lemma booking_blocked:
  assumes ok: "c2b_ok db" and r: "r \<in> set (c2_payments db)" and none: "cb_manual_fee_payment_id r = None"
    and env: "me_indexes env = manual_allocation_indexes" and tenant: "require_manual_tenant_id rt = Inr (cb_tenant_id r)"
  shows "create_manual_fee_payment nested rt env (c2b_manual_dto r config i s a n src) db \<noteq> Inr (m, db')"
proof
  let ?dto = "c2b_manual_dto r config i s a n src"
  assume "create_manual_fee_payment nested rt env ?dto db = Inr (m, db')"
  then obtain t mi p db1 where t: "require_manual_tenant_id rt = Inr t"
    and cr: "create_manual_payment_row rt mi db = Inr (p, db1)" and mt: "mi_tenant_id mi = t"
    and mk: "mi_idempotency_key mi = js_trim (cm_idempotency_key ?dto)"
    and ms: "mi_status mi = FpReceived" and mm: "mi_payment_method mi = cm_payment_method ?dto"
    and rest: "(if mf_status p = FpCleared \<or> mf_status p = FpReversed \<or> mf_payment_method p = PayCheque then Inr (p, db1)
       else clear_locked_payment rt env p
         \<lparr>um_occurred_at = cm_received_at ?dto, um_deposit_reference = cm_deposit_reference ?dto,
          um_notes = cm_notes ?dto, um_metadata = Some [(''cleared_on_create'', JBool True)]\<rparr> db1) = Inr (m, db')"
    by (rule create_manual_Inr)
  have rok: "row_ok (views db) r" using ok r by (simp add: c2b_ok_def books_ok_def)
  then have key: "mi_idempotency_key mi = booking_key r"
    by (simp add: mk c2b_manual_dto_def booking_key_def row_ok_def c2b_key_trim)
  from cr show False
  proof (cases rule: create_row_cases)
    case (old q)
    then have "view_key (view q) = (cb_tenant_id r, booking_key r)"
      using t tenant mt by (simp add: payment_key_at_def view_key_def view_def key)
    then show False using rok none old(1) by (auto simp: row_ok_def views_def)
  next
    case new
    have "mf_payment_method p = PayMpesaC2b" "mf_status p = FpReceived" using new ms mm by (simp_all add: c2b_manual_dto_def)
    with rest new(3) show False by (simp add: schema_blocks_clearing[OF env])
  qed
qed

definition none_matched :: "'a c2b_db_scheme \<Rightarrow> bool" where
  "none_matched db \<longleftrightarrow> list_all (\<lambda>r. cb_status r \<noteq> CbMatched \<and> cb_manual_fee_payment_id r = None) (c2_payments db)"

lemma blocked_reconcile:
  assumes ok: "c2b_ok db" and nm: "none_matched db" and env: "me_indexes env = manual_allocation_indexes"
  shows "reconcile_pending_payment nested c rt env i dto db \<noteq> Inr (q, db')"
proof
  assume "reconcile_pending_payment nested c rt env i dto db = Inr (q, db')"
  then obtain t r where t: "require_c2b_tenant_id rt = Inr t" and lk: "lock_c2b_by_id db t i = Inr (Some r)"
    and rl: "reconcile_locked c rt env t r dto db = Inr (q, db')"
    by (auto simp: reconcile_pending_payment_def with_request_transaction_Inr and_then_eq_Inr split: option.splits)
  have r: "r \<in> set (c2_payments db)" "cb_tenant_id r = t"
    using lk by (auto simp: lock_c2b_by_id_def and_then_eq_Inr c2b_id_at_def dest!: select_first_Some)
  have n: "cb_status r \<noteq> CbMatched" "cb_manual_fee_payment_id r = None" using nm r by (auto simp: none_matched_def list_all_iff)
  have "require_manual_tenant_id rt = Inr (cb_tenant_id r)"
    using t r(2) by (auto simp: require_c2b_tenant_id_def require_manual_tenant_id_def split: option.splits if_splits)
  with rl n(1) booking_blocked[OF ok r(1) n(2) env] show False
    by (auto simp: reconcile_locked_def and_then_eq_Inr split: if_splits)
qed

lemma resolve_target_frame [simp]:
  "resolve_allocation_target (db\<lparr>c2_payments := rows\<rparr>) t p = resolve_allocation_target db t p"
  by (simp add: resolve_allocation_target_def find_invoice_by_reference_def find_student_by_admission_number_def
      cong: option.case_cong)

lemma blocked_confirm:
  assumes cf: "confirm_in_tenant (tenant_runtime rt t) env t config p payload db = Inr (res, db')"
    and parsed: "parse_c2b_payload payload' = Inr p" and ok: "c2b_ok db" and nm: "none_matched db"
    and env: "me_indexes env = manual_allocation_indexes"
  shows "none_matched db' \<and> (find_c2b_by_trans_id db t (pr_trans_id p) \<noteq> None \<or>
    \<not> truthy (at_invoice_id (resolve_allocation_target db t p)) \<and> \<not> truthy (at_student_id (resolve_allocation_target db t p)))"
proof (cases "find_c2b_by_trans_id db t (pr_trans_id p)")
  case (Some old)
  with cf nm show ?thesis by (simp add: confirm_in_tenant_def)
next
  case None
  let ?rt = "tenant_runtime rt t" and ?target = "resolve_allocation_target db t p"
  from cf None obtain r inserted db1 where cr: "create_received ?rt t config p payload db = Inr (r, inserted, db1)"
    by (auto simp: confirm_in_tenant_def and_then_eq_Inr split: if_splits)
  from create_received_Inr[OF cr parsed None ok] have c: inserted "c2b_ok db1" "cb_tenant_id r = t"
      "cb_manual_fee_payment_id r = None" "cb_status r = CbPendingReview" "c2_payments db1 = c2_payments db @ [r]"
      "db1 = db\<lparr>c2_payments := c2_payments db @ [r]\<rparr>" by blast+
  have r: "r \<in> set (c2_payments db1)" by (simp add: c(6))
  have tg: "resolve_allocation_target db1 t p = ?target" by (simp add: c(7))
  have no: "create_manual_fee_payment True ?rt env (c2b_manual_dto r config i s a n src) db1 \<noteq> Inr (m, db2)" for i s a n src m db2
    using booking_blocked[OF c(2) r c(4) env] create_manual_tenant require_manual_tenant_runtime c(3) by metis
  have nt: "\<not> truthy (at_invoice_id ?target) \<and> \<not> truthy (at_student_id ?target)"
    using cf None cr c(1) no by (auto simp: confirm_in_tenant_def and_then_eq_Inr tg Let_def split: if_splits)
  with cf None cr c(1) obtain q f where u: "update_c2b t (cb_id r) f db1 = Inr (q, db')" "f = review_fields ?rt ''no_invoice_or_student_match''
      [(''bill_ref_number'', json_opt (pr_bill_ref_number p)), (''invoice_number'', json_opt (pr_invoice_number p))]"
    by (auto simp: confirm_in_tenant_def and_then_eq_Inr tg Let_def mark_pending_review_def)
  have "none_matched db'" using update_c2b_Inr[OF u(1)] nm c(4-6)
    by (auto simp: none_matched_def list_all_iff set_update_where u(2) review_fields_def)
  with nt show ?thesis by simp
qed

lemma blocked_process:
  assumes pc: "process_confirmation c rt env payload db = Inr (res, db')" and ok: "c2b_ok db" and nm: "none_matched db"
    and env: "me_indexes env = manual_allocation_indexes"
  shows "none_matched db' \<and> (\<forall>p config. parse_c2b_payload payload = Inr p \<longrightarrow>
    resolve_mpesa_config_by_shortcode c rt db (pr_business_short_code p) = Inr config \<longrightarrow>
    find_c2b_by_trans_id db (rc_tenant_id config) (pr_trans_id p) \<noteq> None \<or>
    \<not> truthy (at_invoice_id (resolve_allocation_target db (rc_tenant_id config) p)) \<and>
    \<not> truthy (at_student_id (resolve_allocation_target db (rc_tenant_id config) p)))"
proof -
  from pc obtain p config where p: "parse_c2b_payload payload = Inr p"
    and config: "resolve_mpesa_config_by_shortcode c rt db (pr_business_short_code p) = Inr config"
    and cf: "confirm_in_tenant (tenant_runtime rt (rc_tenant_id config)) env (rc_tenant_id config) config p payload db = Inr (res, db')"
    by (auto simp: process_confirmation_def and_then_eq_Inr with_request_transaction_Inr)
  from blocked_confirm[OF cf p ok nm env] p config show ?thesis by auto
qed

lemma blocked_c2b_run:
  assumes "c2b_ok db" and "none_matched db"
    and "\<forall>(c, rt, env, a)\<in>set ss. own_key a \<and> me_indexes env = manual_allocation_indexes"
  shows "c2b_ok (c2b_run ss db) \<and> none_matched (c2b_run ss db)"
  using assms
proof (induction ss arbitrary: db)
  case (Cons s ss)
  obtain c rt env a where s: "s = (c, rt, env, a)" by (cases s) auto
  have env: "own_key a" "me_indexes env = manual_allocation_indexes" using Cons.prems(3) by (auto simp: s)
  have "c2b_ok db' \<and> none_matched db'" if act: "c2b_act c rt env a db = Inr db'" for db'
  proof -
    have "none_matched db'"
    proof (cases a)
      case (Confirm payload)
      with act blocked_process[OF _ Cons.prems(1,2) env(2)] show ?thesis by (fastforce simp: and_then_eq_Inr)
    next
      case (Reconcile i dto)
      with act blocked_reconcile[OF Cons.prems(1,2) env(2)] show ?thesis by (fastforce simp: and_then_eq_Inr)
    next
      case (Counter b)
      with act obtain q where "manual_act rt env b db = Inr (q, db')" by (auto simp: and_then_eq_Inr)
      moreover have "distinct (map fst (views db))" using Cons.prems(1) by (simp add: c2b_ok_def books_ok_def)
      ultimately have "c2_payments db' = c2_payments db"
        using manual_act_books[of rt env b db q db'] more_c2b[of db' db] by (fastforce simp: same_books_def books_under_def)
      with Cons.prems(2) show ?thesis by (simp add: none_matched_def)
    qed
    with c2b_act_keeps[OF act Cons.prems(1) env(1)] show ?thesis by simp
  qed
  then have "c2b_ok (c2b_step s db) \<and> none_matched (c2b_step s db)"
    using Cons.prems(1,2) by (auto simp: c2b_step_def s split: sum.splits)
  then show ?case using Cons.IH[of "c2b_step s db"] Cons.prems(3) by (auto simp: c2b_run_def)
qed (simp add: c2b_run_def)

section \<open>Matched rows do not share a booking\<close>

lemma matched_ids_distinct:
  assumes "books_ok vs rows"
  shows "distinct (List.map_filter cb_manual_fee_payment_id rows)"
proof -
  have m: "List.map_filter cb_manual_fee_payment_id rows =
      map (the \<circ> cb_manual_fee_payment_id) (filter (\<lambda>r. cb_manual_fee_payment_id r \<noteq> None) rows)"
    by (simp add: List.map_filter_def)
  have inj: "r = q" if "r \<in> set rows" "q \<in> set rows" "cb_manual_fee_payment_id r = Some m" "cb_manual_fee_payment_id q = Some m" for r q m
  proof -
    have v: "(m, cb_tenant_id r, booking_key r, cb_amount_minor r) \<in> set vs" "(m, cb_tenant_id q, booking_key q, cb_amount_minor q) \<in> set vs"
      using assms that by (auto simp: books_ok_def row_ok_def)
    have "inj_on fst (set vs)" using assms by (simp add: books_ok_def distinct_map)
    from inj_onD[OF this _ v] have "c2b_key_of r = c2b_key_of q" by (auto simp: booking_key_def c2b_key_of_def)
    then show ?thesis using assms that(1,2) by (auto simp: books_ok_def distinct_map dest: inj_onD)
  qed
  have "distinct rows" using assms by (simp add: books_ok_def distinct_map)
  then show ?thesis unfolding m distinct_map using inj by (auto simp: inj_on_def)
qed

end
