(* ===== verification/Mpesa_C2b_Claims.thy ===== *)
theory Mpesa_C2b_Claims
  imports Mpesa_C2b_Runs
begin

text \<open>
  What a school can rely on for payments to its paybill, what the schema's indexes make of it, and how its
  amounts are read.
\<close>

section \<open>An example school\<close>

definition c2b_rt :: runtime where
  "c2b_rt = \<lparr>rt_tenant_id = Some ''t1'', rt_user_id = ''anonymous'', rt_request_id = ''r'', rt_trace_id = '''', rt_span_id = '''',
     rt_parent_span_id = None, rt_role = None, rt_session_id = None, rt_client_ip = None, rt_user_agent = None,
     rt_now = 9, rt_clock = 9, rt_sha256 = (\<lambda>s. s), rt_parse_date = (\<lambda>s. Some 7), rt_collate = (\<lambda>a b. True),
     rt_pg_message = (\<lambda>a b. ''''), rt_config = (\<lambda>k. None), rt_config_number = (\<lambda>k. None)\<rparr>"

definition c2b_cipher :: cipher where
  "c2b_cipher = \<lparr>cp_seal = (\<lambda>v a. ([], [], [])), cp_open = (\<lambda>t a. None)\<rparr>"

definition c2b_config :: tenant_config where
  "c2b_config = \<lparr>tcf_id = 1, tcf_tenant_id = ''t1'', tcf_shortcode = ''600100'', tcf_paybill_number = Some ''600100'',
     tcf_till_number = None, tcf_consumer_key = ''k'', tcf_consumer_secret = ''s'', tcf_passkey = ''p'',
     tcf_initiator_name = None, tcf_environment = Sandbox, tcf_callback_url = ''https://x'', tcf_status = TfActive,
     tcf_credential_version = 1, tcf_rotated_at = None, tcf_created_at = 1, tcf_updated_at = 1\<rparr>"

definition c2b_env :: manual_env where
  "c2b_env = \<lparr>me_indexes = manual_allocation_indexes, me_locked = (\<lambda>i. False), me_random_uuid = ''abcdefgh''\<rparr>"

definition c2b_row :: c2b_payment where
  "c2b_row = \<lparr>cb_id = 1, cb_tenant_id = ''t1'', cb_mpesa_config_id = Some 1, cb_payment_channel_id = None, cb_trans_id = ''R1'',
     cb_transaction_type = ''Pay Bill'', cb_business_short_code = ''600100'', cb_bill_ref_number = None,
     cb_invoice_number = None, cb_amount_minor = 500, cb_currency_code = ''KES'', cb_phone_number = None,
     cb_payer_name = None, cb_org_account_balance = None, cb_third_party_trans_id = None, cb_status = CbMatched,
     cb_matched_invoice_id = None, cb_matched_student_id = Some 3, cb_manual_fee_payment_id = Some 1,
     cb_ledger_transaction_id = None, cb_received_at = 1, cb_matched_at = Some 1, cb_raw_payload = JObj [],
     cb_metadata = [], cb_created_at = 1, cb_updated_at = 1\<rparr>"

definition c2b_manual :: manual_payment where
  "c2b_manual = \<lparr>mf_id = 1, mf_tenant_id = ''t1'', mf_idempotency_key = ''mpesa-c2b:t1:R1'', mf_receipt_number = ''RCT-1'',
     mf_payment_method = PayMpesaC2b, mf_status = FpCleared, mf_student_id = Some 3, mf_invoice_id = None,
     mf_amount_minor = 500, mf_currency_code = ''KES'', mf_payer_name = None, mf_received_at = 1, mf_deposited_at = None,
     mf_cleared_at = Some 1, mf_bounced_at = None, mf_reversed_at = None, mf_cheque_number = None, mf_drawer_bank = None,
     mf_deposit_reference = None, mf_external_reference = None, mf_asset_account_code = ''1110'',
     mf_fee_control_account_code = ''1100'', mf_ledger_transaction_id = None, mf_reversal_ledger_transaction_id = None,
     mf_notes = None, mf_metadata = [], mf_created_by_user_id = None, mf_created_at = 1, mf_updated_at = 1\<rparr>"

definition c2b_empty :: c2b_db where
  "c2b_empty =
     \<lparr>fd_idempotency_keys = [], fd_accounts = [], fd_transactions = [], fd_ledger_entries = [], fd_audit_logs = [], fd_sync_operations = [],
      ev_outbox = [], ev_runs = [], bl_subscriptions = [], bl_invoices = [], bl_allocations = [], bl_credits = [],
      bl_notifications = [], bl_usage = [], bl_fee_structures = [], mf_payments = [], mf_allocations = [],
      tf_accounts = [], tf_configs = [c2b_config], tf_banks = [], tf_channels = [], c2_payments = [], c2_students = []\<rparr>"

definition c2b_example :: c2b_db where
  "c2b_example = c2b_empty\<lparr>mf_payments := [c2b_manual], c2_payments := [c2b_row]\<rparr>"

definition c2b_payload :: "string \<Rightarrow> json \<Rightarrow> json" where
  "c2b_payload trans_id reference = JObj [(''TransactionType'', JStr ''Pay Bill''), (''TransID'', JStr trans_id),
     (''TransTime'', JStr ''20240131120000''), (''TransAmount'', JStr ''1,250.5''), (''BusinessShortCode'', JStr ''600100''), (''BillRefNumber'', reference)]"

lemmas c2b_example_defs =
  c2b_example_def c2b_empty_def c2b_row_def c2b_manual_def c2b_config_def

lemma c2b_example_ok: "c2b_ok c2b_example" "c2b_ok c2b_empty"
  by (simp_all add: c2b_ok_def books_ok_def row_ok_def c2b_example_defs views_def view_def view_key_def c2b_key_of_def
    booking_key_def c2b_key_def js_trim_def is_space_def)

lemma c2b_parsed:
  "\<exists>p. parse_c2b_payload (c2b_payload ''R2'' reference) = Inr p \<and> pr_trans_id p = ''R2'' \<and> pr_business_short_code p = ''600100'' \<and>
     pr_bill_ref_number p = optional_text (Some reference) \<and> pr_invoice_number p = None \<and> pr_amount_minor p = show_int 125050"
  by (simp add: parse_c2b_payload_def c2b_payload_def payload_fields_def Let_def require_text_def optional_text_def
    js_trim_def is_space_def parse_c2b_amount_def decimal_amount_def before_dot_def after_dot_def digits_only_def is_digit_def
    parse_nat_def digit_val_def parse_safaricom_timestamp_def)

lemma c2b_resolved:
  assumes "tf_configs db = [c2b_config]" and "tf_accounts db = []" and "tf_channels db = []"
  shows "\<exists>config. resolve_mpesa_config_by_shortcode c2b_cipher c2b_rt db ''600100'' = Inr config \<and> rc_tenant_id config = ''t1'' \<and>
    rc_mpesa_config_id config = Some 1 \<and> rc_payment_channel_id config = None"
  using assms by (simp add: resolve_mpesa_config_by_shortcode_def js_trim_def is_space_def Let_def find_active_config_by_shortcode_def
    latest_config_def active_config_def in_session_def or_default_def answers_to_def c2b_rt_def c2b_config_def first_row_def
    map_mpesa_config_def pii_decrypt_def is_encrypted_def ENCRYPTION_PREFIX_def resolved_from_def find_active_channel_def)

section \<open>Booked once\<close>



text \<open>C23: A confirmation that was recorded is answered from its row ever after: whatever ran in between, a confirmation
  with the same receipt number, of any other content, by the same school's paybill, changes nothing and is accepted as a
  duplicate with the first one's id; once the first answer said matched, with the same manual payment and posting.\<close>

theorem confirmation_repeats_answer:
  assumes "c2b_ok db" and "process_confirmation c rt env payload db = Inr (res, db1)"
    and "\<forall>(c, rt, env, a)\<in>set ss. own_key a" and "parse_c2b_payload payload = Inr p" and "parse_c2b_payload payload' = Inr p'"
    and "pr_trans_id p' = pr_trans_id p"
    and "resolve_mpesa_config_by_shortcode c' rt' (c2b_run ss db1) (pr_business_short_code p') = Inr config'"
    and "rc_tenant_id config' = cc_tenant_id res"
  shows "\<exists>res'. process_confirmation c' rt' env' payload' (c2b_run ss db1) = Inr (res', c2b_run ss db1) \<and>
    cc_accepted res' \<and> cc_duplicate res' \<and> cc_tenant_id res' = cc_tenant_id res \<and>
    cc_mpesa_c2b_payment_id res' = cc_mpesa_c2b_payment_id res \<and>
    (cc_status res = CbMatched \<longrightarrow> res' = res\<lparr>cc_duplicate := True\<rparr>)"
proof -
  let ?db = "c2b_run ss db1"
  obtain t r where ok1: "c2b_ok db1" and r: "r \<in> set (c2_payments db1)" "c2b_at t (pr_trans_id p) r"
    and res: "duplicate_confirmation t r = res\<lparr>cc_duplicate := True\<rparr>"
    using process_keeps[OF assms(2,1)] assms(4) by auto
  have t: "cc_tenant_id res = t" using arg_cong[OF res, of cc_tenant_id] by (simp add: duplicate_confirmation_def)
  have ok: "c2b_ok ?db" and "c2b_progress (c2_payments db1) (c2_payments ?db)" using c2b_run_keeps[OF ok1 assms(3)] by simp_all
  then obtain r' where r': "r' \<in> set (c2_payments ?db)" "c2b_advances r r'" using r(1) by (auto simp: c2b_progress_def)
  have "select_first (c2b_at t (pr_trans_id p)) (c2_payments ?db) = Some r'"
  proof (rule select_first_unique[of c2b_key_of])
    show "distinct (map c2b_key_of (c2_payments ?db))" using ok by (simp add: c2b_ok_def books_ok_def)
    show at: "c2b_at t (pr_trans_id p) r'" using r(2) r'(2) by (simp add: c2b_at_def c2b_advances_def)
    show "c2b_key_of x = c2b_key_of r'" if "c2b_at t (pr_trans_id p) x" for x using that at by (simp add: c2b_at_def c2b_key_of_def)
  qed (rule r'(1))
  then have "process_confirmation c' rt' env' payload' ?db = Inr (duplicate_confirmation t r', ?db)"
    using assms(5-8) t by (simp add: process_confirmation_def confirm_in_tenant_def find_c2b_by_trans_id_def
      with_request_transaction_def deferred_balance_checks_def)
  moreover have "cc_mpesa_c2b_payment_id res = cb_id r" "cc_status res = cb_status r"
    using arg_cong[OF res, of cc_mpesa_c2b_payment_id] arg_cong[OF res, of cc_status] by (simp_all add: duplicate_confirmation_def)
  ultimately show ?thesis using r'(2) t res
    by (intro exI[of _ "duplicate_confirmation t r'"]) (auto simp: c2b_advances_def duplicate_confirmation_def)
qed

lemma c2b_confirmed:
  "\<exists>res db1. process_confirmation c2b_cipher c2b_rt c2b_env (c2b_payload ''R2'' JNull) c2b_example = Inr (res, db1) \<and>
     cc_tenant_id res = ''t1'' \<and> cc_mpesa_c2b_payment_id res = 2 \<and> cc_status res = CbPendingReview \<and>
     tf_configs db1 = [c2b_config] \<and> tf_accounts db1 = [] \<and> tf_channels db1 = []"
proof -
  obtain p where p: "parse_c2b_payload (c2b_payload ''R2'' JNull) = Inr p" "pr_trans_id p = ''R2''" "pr_business_short_code p = ''600100''"
    "pr_bill_ref_number p = None" "pr_invoice_number p = None" "pr_amount_minor p = show_int 125050"
    using c2b_parsed[of JNull] by (auto simp: optional_text_def)
  obtain config where config: "resolve_mpesa_config_by_shortcode c2b_cipher c2b_rt c2b_example ''600100'' = Inr config"
    "rc_tenant_id config = ''t1''" "rc_mpesa_config_id config = Some 1" "rc_payment_channel_id config = None"
    using c2b_resolved[of c2b_example] by (auto simp: c2b_example_def c2b_empty_def)
  have "fresh_uuid [1] = 2" by (simp add: fresh_uuid_def)
  then show ?thesis using p config
    by (simp add: process_confirmation_def with_request_transaction_def confirm_in_tenant_def find_c2b_by_trans_id_def
      create_received_def pg_bigint_show fits_bigint_def c2b_checks_def received_row_def not_blank_def currency_format_def
      DEFAULT_CURRENCY_CODE_def is_upper_letter_def resolve_allocation_target_def c2b_reference_def read_string_def or_else_def truthy_def
      mark_pending_review_def update_c2b_def update_where_def c2b_id_at_def c2b_at_def review_fields_def deferred_balance_checks_def
      c2b_example_def c2b_empty_def c2b_row_def c2b_config_def Let_def)
qed

theorem confirmation_repeats_answer_witness:
  "\<exists>res db1 res'. process_confirmation c2b_cipher c2b_rt c2b_env (c2b_payload ''R2'' JNull) c2b_example = Inr (res, db1) \<and>
     process_confirmation c2b_cipher c2b_rt c2b_env (c2b_payload ''R2'' JNull) db1 = Inr (res', db1) \<and>
     cc_duplicate res' \<and> cc_mpesa_c2b_payment_id res' = 2"
proof -
  obtain res db1 where c: "process_confirmation c2b_cipher c2b_rt c2b_env (c2b_payload ''R2'' JNull) c2b_example = Inr (res, db1)"
    and t: "cc_tenant_id res = ''t1''" "cc_mpesa_c2b_payment_id res = 2"
    and tf: "tf_configs db1 = [c2b_config]" "tf_accounts db1 = []" "tf_channels db1 = []" using c2b_confirmed by blast
  obtain p where p: "parse_c2b_payload (c2b_payload ''R2'' JNull) = Inr p" "pr_business_short_code p = ''600100''" using c2b_parsed by blast
  obtain config where config: "resolve_mpesa_config_by_shortcode c2b_cipher c2b_rt db1 ''600100'' = Inr config"
    "rc_tenant_id config = ''t1''" using c2b_resolved[OF tf] by blast
  have "\<forall>(c, rt, env, a)\<in>set []. own_key a" by simp
  from confirmation_repeats_answer[OF c2b_example_ok(1) c this p(1) p(1) refl, of c2b_cipher c2b_rt config] p config c t
  show ?thesis by (auto simp: c2b_run_def)
qed

section \<open>Under the schema's indexes\<close>


definition c2b_school :: c2b_db where
  "c2b_school = c2b_empty\<lparr>c2_students := [\<lparr>sr_id = 3, sr_tenant_id = ''t1'', sr_admission_number = ''ADM1'',
     sr_active = True, sr_created_at = 1\<rparr>]\<rparr>"


section \<open>Amounts\<close>

lemma strip_zeros_digits: "list_all is_digit s \<Longrightarrow> s \<noteq> [] \<Longrightarrow> strip_zeros s = show_nat (parse_nat s)"
proof (induction s rule: strip_zeros.induct)
  case (1 c d cs)
  show ?case
  proof (cases "c = CHR ''0''")
    case True
    have "parse_nat (CHR ''0'' # d # cs) = parse_nat (d # cs)" by (simp add: parse_nat_def digit_val_def)
    with 1 True show ?thesis by simp
  next
    case False
    then have "positive_numeral (c # d # cs)" using 1(2) by (simp add: positive_numeral_def)
    with False show ?thesis by (simp add: show_parse_nat)
  qed
qed (simp_all add: parse_nat_def show_nat.simps[of "digit_val c" for c])

lemma parse_nat_two: "length b = 2 \<Longrightarrow> parse_nat (a @ b) = parse_nat a * 100 + parse_nat b"
proof -
  assume "length b = 2"
  then obtain x y where "b = [x, y]" by (auto simp: numeral_2_eq_2 length_Suc_conv)
  then show ?thesis by (simp add: parse_nat_def parse_digits_append)
qed

lemma nat_shillings: "nat (int a * 100 + int b) = a * 100 + b"
  by simp

text \<open>The two routines that read an amount in shillings agree: on a text without grouping commas, the amount of a
  paybill confirmation (computed with integers) is the amount the callback of a requested payment would give (by moving
  characters), except that the confirmation refuses zero.\<close>

theorem amount_parsers_agree:
  assumes "CHR '','' \<notin> set t"
  shows "parse_c2b_amount (Some (JStr t)) = Inr m \<longleftrightarrow> convert_major_to_minor t = Inr m \<and> m \<noteq> ''0''"
proof (cases "decimal_amount (js_trim t)")
  case True
  let ?s = "js_trim t" and ?d = "case after_dot (js_trim t) of None \<Rightarrow> [] | Some d \<Rightarrow> d"
  have "set ?s \<subseteq> set t" unfolding js_trim_def by (auto dest!: set_dropWhileD)
  then have f: "filter (\<lambda>c. c \<noteq> CHR '','') ?s = ?s" using assms by (intro filter_True) auto
  have ne: "?s \<noteq> []" using True by (auto simp: decimal_amount_def before_dot_def digits_only_def)
  have dig: "list_all is_digit (before_dot ?s)" "before_dot ?s \<noteq> []" "list_all is_digit (take 2 (?d @ ''00''))"
    using True by (auto simp: decimal_amount_def digits_only_def is_digit_def list_all_iff take_Cons split: option.splits nat.splits dest!: in_set_takeD)
  have two: "length (take 2 (?d @ ''00'')) = 2" by simp
  let ?n = "parse_nat (before_dot ?s) * 100 + parse_nat (take 2 (?d @ ''00''))"
  have c: "convert_major_to_minor t = Inr (show_nat ?n)"
    using True dig strip_zeros_digits[of "before_dot ?s @ take 2 (?d @ ''00'')"] parse_nat_two[OF two, of "before_dot ?s"]
    by (simp add: convert_major_to_minor_def Let_def del: take_append)
  have z: "show_nat ?n = ''0'' \<longleftrightarrow> ?n = 0"
    using show_nat_inj[of ?n 0] by (auto simp: show_nat.simps[of 0] digit_char_def char_of_48)
  have "parse_c2b_amount (Some (JStr t)) =
      (if ?n = 0 then Inl (BadRequestException ''TransAmount must be greater than zero'') else Inr (show_nat ?n))"
    using True ne f by (simp add: parse_c2b_amount_def require_text_def optional_text_def Let_def show_int_def nat_shillings del: take_append)
  with c z show ?thesis by auto
next
  case False
  have "set (js_trim t) \<subseteq> set t" unfolding js_trim_def by (auto dest!: set_dropWhileD)
  then have f: "filter (\<lambda>c. c \<noteq> CHR '','') (js_trim t) = js_trim t" using assms by (intro filter_True) auto
  from False f show ?thesis
    by (auto simp: parse_c2b_amount_def require_text_def optional_text_def convert_major_to_minor_def Let_def split: option.splits if_splits)
qed

theorem amount_parsers_agree_witness:
  "parse_c2b_amount (Some (JStr ''1250.5'')) = Inr ''125050'' \<longleftrightarrow> convert_major_to_minor ''1250.5'' = Inr ''125050''"
  using amount_parsers_agree[of "''1250.5''" "''125050''"] by simp

end
