(* ===== verification/Request_Transaction.thy ===== *)
theory Request_Transaction
  imports Runtime
begin

text \<open>
  The transaction of an HTTP request (\<open>middleware/tenant.middleware.ts\<close>): one client for the whole request,
  committed when the response finishes with a status below 400 and rolled back otherwise. An exception thrown
  on the way keeps what the statements before it wrote, as long as somebody catches it; a refused statement
  aborts the transaction, whose later statements PostgreSQL refuses (25P02) and whose COMMIT is a ROLLBACK.
  The state of such a transaction is the tables its statements see, or none once it is aborted.
\<close>

type_synonym ('a, 's) txn = "'s option \<Rightarrow> 'a result \<times> 's option"

definition returning :: "'a \<Rightarrow> ('a, 's) txn" where
  "returning x st = (Inr x, st)"

definition raising :: "exn \<Rightarrow> ('a, 's) txn" where
  "raising e st = (Inl e, st)"

definition chain :: "('a, 's) txn \<Rightarrow> ('a \<Rightarrow> ('b, 's) txn) \<Rightarrow> ('b, 's) txn" where
  "chain m k st = (case m st of (Inl e, st') \<Rightarrow> (Inl e, st') | (Inr x, st') \<Rightarrow> k x st')"

definition catching :: "('a, 's) txn \<Rightarrow> (exn \<Rightarrow> ('a, 's) txn) \<Rightarrow> ('a, 's) txn" where
  "catching m h st = (case m st of (Inl e, st') \<Rightarrow> h e st' | (Inr x, st') \<Rightarrow> (Inr x, st'))"

text \<open>A value computed without the database, by code that may throw.\<close>

definition computing :: "'a result \<Rightarrow> ('a, 's) txn" where
  "computing r st = (r, st)"

definition statement :: "('s \<Rightarrow> ('a \<times> 's) result) \<Rightarrow> ('a, 's) txn" where
  "statement f st = (case st of
       None \<Rightarrow> (Inl (PgError ''25P02'' ''''), None)
     | Some s \<Rightarrow> (case f s of Inl e \<Rightarrow> (Inl e, None) | Inr (x, s') \<Rightarrow> (Inr x, Some s')))"

definition reading :: "('s \<Rightarrow> 'a result) \<Rightarrow> ('a, 's) txn" where
  "reading f = statement (\<lambda>s. and_then (f s) (\<lambda>x. Inr (x, s)))"

text \<open>The response of a request and the tables it leaves.\<close>

definition request :: "('a, 's) txn \<Rightarrow> 's \<Rightarrow> 'a result \<times> 's" where
  "request m s = (case m (Some s) of
       (Inr x, Some s') \<Rightarrow> (Inr x, s')
     | (Inr x, None) \<Rightarrow> (Inr x, s)
     | (Inl e, _) \<Rightarrow> (Inl e, s))"

named_theorems txn_simps

lemma returning_app [txn_simps]: "returning x st = (Inr x, st)"
  by (simp add: returning_def)

lemma raising_app [txn_simps]: "raising e st = (Inl e, st)"
  by (simp add: raising_def)

lemma computing_app [txn_simps]: "computing r st = (r, st)"
  by (simp add: computing_def)

lemma statement_aborted [txn_simps]: "statement f None = (Inl (PgError ''25P02'' ''''), None)"
  by (simp add: statement_def)

lemma statement_open: "statement f (Some s) = (case f s of Inl e \<Rightarrow> (Inl e, None) | Inr (x, s') \<Rightarrow> (Inr x, Some s'))"
  by (simp add: statement_def)

lemma statement_Inr [txn_simps]: "statement f st = (Inr x, st') \<longleftrightarrow> (\<exists>s s'. st = Some s \<and> f s = Inr (x, s') \<and> st' = Some s')"
  by (auto simp: statement_def split: option.splits sum.splits)

lemma statement_kept: "statement f st = (r, Some s') \<longleftrightarrow> (\<exists>s x. st = Some s \<and> f s = Inr (x, s') \<and> r = Inr x)"
  by (auto simp: statement_def split: option.splits sum.splits)

lemma chain_Inr: "chain m k st = (Inr y, st') \<longleftrightarrow> (\<exists>x st1. m st = (Inr x, st1) \<and> k x st1 = (Inr y, st'))"
  by (auto simp: chain_def split: prod.splits sum.splits)

lemma request_Inr_state: "request m s = (Inr x, s') \<Longrightarrow> m (Some s) = (Inr x, Some s') \<or> m (Some s) = (Inr x, None) \<and> s' = s"
  by (auto simp: request_def split: prod.splits sum.splits option.splits)

lemma request_Inl: "request m s = (Inl e, s') \<Longrightarrow> s' = s"
  by (auto simp: request_def split: prod.splits sum.splits option.splits)

text \<open>
  A transaction keeps a property of the tables when its statements do, whatever is thrown and caught between
  them; so then does the request.
\<close>

definition keeps :: "('s \<Rightarrow> bool) \<Rightarrow> ('a, 's) txn \<Rightarrow> bool" where
  "keeps P m \<longleftrightarrow> (\<forall>s. P s \<longrightarrow> pred_option P (snd (m (Some s))))"

definition stays_aborted :: "('a, 's) txn \<Rightarrow> bool" where
  "stays_aborted m \<longleftrightarrow> snd (m None) = None"

named_theorems txn_keeps

lemma keepsD: "keeps P m \<Longrightarrow> stays_aborted m \<Longrightarrow> pred_option P st \<Longrightarrow> m st = (r, st') \<Longrightarrow> pred_option P st'"
  by (cases st) (simp_all add: keeps_def stays_aborted_def, metis snd_conv)

lemma keeps_returning [txn_keeps]: "keeps P (returning x)" "keeps P (raising e)" "keeps P (computing r)"
  by (simp_all add: keeps_def txn_simps)

lemma aborted_returning [txn_keeps]: "stays_aborted (returning x)" "stays_aborted (raising e)" "stays_aborted (computing r)"
  "stays_aborted (statement f)" "stays_aborted (reading g)"
  by (simp_all add: stays_aborted_def txn_simps reading_def)

lemma keeps_statement: "(\<And>s x s'. P s \<Longrightarrow> f s = Inr (x, s') \<Longrightarrow> P s') \<Longrightarrow> keeps P (statement f)"
  by (auto simp: keeps_def statement_def split: sum.splits)

lemma keeps_reading [txn_keeps]: "keeps P (reading f)"
  unfolding reading_def by (rule keeps_statement) (auto simp: and_then_eq_Inr)

lemma keeps_chain [txn_keeps]:
  assumes "keeps P m" and "\<And>x. keeps P (k x)" and "stays_aborted m" and "\<And>x. stays_aborted (k x)"
  shows "keeps P (chain m k)"
  unfolding keeps_def
proof (intro allI impI)
  fix s assume p: "P s"
  obtain r st where m: "m (Some s) = (r, st)" by (cases "m (Some s)")
  have q: "pred_option P st" using keepsD[OF assms(1,3) _ m] p by simp
  show "pred_option P (snd (chain m k (Some s)))"
  proof (cases r)
    case (Inr x)
    have "pred_option P (snd (k x st))" by (rule keepsD[OF assms(2,4) q prod.collapse[symmetric]])
    with Inr m show ?thesis by (simp add: chain_def)
  qed (use m q in \<open>simp add: chain_def\<close>)
qed

lemma aborted_chain [txn_keeps]:
  assumes "stays_aborted m" and "\<And>x. stays_aborted (k x)"
  shows "stays_aborted (chain m k)"
proof -
  obtain r where m: "m None = (r, None)" using assms(1) unfolding stays_aborted_def by (metis prod.collapse)
  show ?thesis using assms(2) by (cases r) (simp_all add: stays_aborted_def chain_def m)
qed

lemma keeps_catching [txn_keeps]:
  assumes "keeps P m" and "\<And>e. keeps P (h e)" and "stays_aborted m" and "\<And>e. stays_aborted (h e)"
  shows "keeps P (catching m h)"
  unfolding keeps_def
proof (intro allI impI)
  fix s assume p: "P s"
  obtain r st where m: "m (Some s) = (r, st)" by (cases "m (Some s)")
  have q: "pred_option P st" using keepsD[OF assms(1,3) _ m] p by simp
  show "pred_option P (snd (catching m h (Some s)))"
  proof (cases r)
    case (Inl e)
    have "pred_option P (snd (h e st))" by (rule keepsD[OF assms(2,4) q prod.collapse[symmetric]])
    with Inl m show ?thesis by (simp add: catching_def)
  qed (use m q in \<open>simp add: catching_def\<close>)
qed

lemma aborted_catching [txn_keeps]:
  assumes "stays_aborted m" and "\<And>e. stays_aborted (h e)"
  shows "stays_aborted (catching m h)"
proof -
  obtain r where m: "m None = (r, None)" using assms(1) unfolding stays_aborted_def by (metis prod.collapse)
  show ?thesis using assms(2) by (cases r) (simp_all add: stays_aborted_def catching_def m)
qed

lemma request_keeps:
  assumes "keeps P m" and "P s"
  shows "P (snd (request m s))"
proof -
  obtain r st where m: "m (Some s) = (r, st)" by (cases "m (Some s)")
  have "pred_option P (snd (m (Some s)))" using assms unfolding keeps_def by blast
  with m assms(2) show ?thesis by (cases r; cases st) (simp_all add: request_def)
qed

end
