(* ===== verification/Sms_Store.thy ===== *)
theory Sms_Store
  imports Request_Transaction Tenant_Finance
begin

text \<open>
  The tables of \<open>modules/integrations\<close> behind text messages and the statements on them
  (\<open>platform-sms.repository.ts\<close>, \<open>school-sms-wallet.repository.ts\<close>, \<open>integrations-schema.service.ts\<close>): the
  platform's SMS providers, one wallet of credits per school, the log of messages and the wallet's
  transactions. Every table but the providers' has a row level security policy on the tenant.
\<close>

datatype provider_code = TextsmsKenya | AfricasTalking | Twilio

fun provider_code_text :: "provider_code \<Rightarrow> string" where
  "provider_code_text TextsmsKenya = ''textsms_kenya''"
| "provider_code_text AfricasTalking = ''africas_talking''"
| "provider_code_text Twilio = ''twilio''"

record sms_provider =
  pv_id :: uuid
  pv_provider_name :: string
  pv_provider_code :: provider_code
  pv_api_key_ciphertext :: string
  pv_username_ciphertext :: "string option"
  pv_sender_id :: string
  pv_base_url :: "string option"
  pv_is_active :: bool
  pv_is_default :: bool
  pv_last_test_status :: "string option"
  pv_last_tested_at :: "int option"
  pv_created_by_user_id :: "uuid option"
  pv_updated_by_user_id :: "uuid option"
  pv_created_at :: int
  pv_updated_at :: int

record sms_wallet =
  wl_id :: uuid
  wl_tenant_id :: string
  wl_sms_balance :: int
  wl_monthly_used :: int
  wl_monthly_limit :: "int option"
  wl_sms_plan :: string
  wl_low_balance_threshold :: int
  wl_allow_negative_balance :: bool
  wl_billing_status :: string
  wl_last_reset_at :: "int option"
  wl_created_at :: int
  wl_updated_at :: int

datatype sms_log_status = LogQueued | LogSent | LogDelivered | LogFailed | LogRejected

record sms_log =
  lg_id :: uuid
  lg_tenant_id :: string
  lg_provider_id :: "uuid option"
  lg_recipient_ciphertext :: string
  lg_recipient_last4 :: "string option"
  lg_recipient_hash :: string
  lg_message_ciphertext :: "string option"
  lg_message_preview :: "string option"
  lg_message_type :: "string option"
  lg_status :: sms_log_status
  lg_credit_cost :: int
  lg_provider_message_id :: "string option"
  lg_failure_reason :: "string option"
  lg_sent_by_user_id :: "uuid option"
  lg_sent_at :: "int option"
  lg_delivered_at :: "int option"
  lg_created_at :: int
  lg_updated_at :: int

datatype wallet_entry_type = WtPurchase | WtAdjustment | WtDeduction | WtRefund

record wallet_entry =
  wt_id :: uuid
  wt_tenant_id :: string
  wt_type :: wallet_entry_type
  wt_quantity :: int
  wt_balance_after :: int
  wt_reference :: "string option"
  wt_reason :: "string option"
  wt_created_by_user_id :: "uuid option"
  wt_created_at :: int

datatype purchase_status = PqPending | PqApproved | PqRejected | PqFulfilled

record purchase_request =
  pq_id :: uuid
  pq_tenant_id :: string
  pq_quantity :: int
  pq_status :: purchase_status
  pq_note :: "string option"
  pq_requested_by_user_id :: "uuid option"
  pq_created_at :: int

record integration_log =
  il_id :: uuid
  il_tenant_id :: "string option"
  il_integration_type :: string
  il_operation :: string
  il_status :: string
  il_request_id :: "string option"
  il_created_by_user_id :: "uuid option"
  il_created_at :: int

record sms_db =
  sm_providers :: "sms_provider list"
  sm_wallets :: "sms_wallet list"
  sm_logs :: "sms_log list"
  sm_entries :: "wallet_entry list"
  sm_requests :: "purchase_request list"
  sm_integration_logs :: "integration_log list"

section \<open>\<open>PlatformSmsRepository\<close>\<close>

definition list_providers :: "'a sms_db_scheme \<Rightarrow> sms_provider list" where
  "list_providers db = sort_key (\<lambda>p. (if pv_is_default p then 0 else 1 :: int, pv_provider_name p)) (sm_providers db)"

definition clear_default_provider :: "runtime \<Rightarrow> 'a sms_db_scheme \<Rightarrow> 'a sms_db_scheme" where
  "clear_default_provider rt db =
     db\<lparr>sm_providers := update_where pv_is_default (\<lambda>p. p\<lparr>pv_is_default := False, pv_updated_at := rt_now rt\<rparr>) (sm_providers db)\<rparr>"

text \<open>\<open>ck_platform_sms_sender_not_blank\<close> and the partial unique index \<open>ux_platform_sms_default_provider\<close>.\<close>

definition sender_check :: "sms_provider \<Rightarrow> unit result" where
  "sender_check p = guard (not_blank (pv_sender_id p)) (PgError ''23514'' ''ck_platform_sms_sender_not_blank'')"

definition default_free :: "sms_provider \<Rightarrow> 'a sms_db_scheme \<Rightarrow> unit result" where
  "default_free p db = guard (pv_is_default p \<longrightarrow> \<not> list_ex (\<lambda>q. pv_id q \<noteq> pv_id p \<and> pv_is_default q) (sm_providers db))
     (PgError ''23505'' ''ux_platform_sms_default_provider'')"

record provider_input =
  vi_provider_name :: string
  vi_provider_code :: provider_code
  vi_api_key_ciphertext :: string
  vi_username_ciphertext :: "string option"
  vi_sender_id :: string
  vi_base_url :: "string option"
  vi_is_active :: bool
  vi_is_default :: bool

definition provider_row :: "runtime \<Rightarrow> provider_input \<Rightarrow> uuid option \<Rightarrow> uuid \<Rightarrow> sms_provider" where
  "provider_row rt i actor new_id =
     \<lparr>pv_id = new_id, pv_provider_name = vi_provider_name i, pv_provider_code = vi_provider_code i,
      pv_api_key_ciphertext = vi_api_key_ciphertext i, pv_username_ciphertext = vi_username_ciphertext i,
      pv_sender_id = vi_sender_id i, pv_base_url = vi_base_url i, pv_is_active = vi_is_active i,
      pv_is_default = vi_is_default i, pv_last_test_status = None, pv_last_tested_at = None,
      pv_created_by_user_id = actor, pv_updated_by_user_id = actor, pv_created_at = rt_now rt, pv_updated_at = rt_now rt\<rparr>"

text \<open>The \<open>DO UPDATE SET\<close> clause of the conflict on \<open>provider_code\<close>.\<close>

definition provider_conflict :: "runtime \<Rightarrow> sms_provider \<Rightarrow> sms_provider \<Rightarrow> sms_provider" where
  "provider_conflict rt new old =
     old\<lparr>pv_provider_name := pv_provider_name new, pv_api_key_ciphertext := pv_api_key_ciphertext new,
         pv_username_ciphertext := pv_username_ciphertext new, pv_sender_id := pv_sender_id new,
         pv_base_url := pv_base_url new, pv_is_active := pv_is_active new, pv_is_default := pv_is_default new,
         pv_updated_by_user_id := pv_updated_by_user_id new, pv_updated_at := rt_now rt\<rparr>"

definition upsert_provider ::
  "runtime \<Rightarrow> provider_input \<Rightarrow> string option \<Rightarrow> 'a sms_db_scheme \<Rightarrow> (sms_provider \<times> 'a sms_db_scheme) result" where
  "upsert_provider rt i actor db =
     and_then (pg_uuid_opt actor) (\<lambda>by.
     let new = provider_row rt i by (fresh_uuid (map pv_id (sm_providers db)));
         same = (\<lambda>q. pv_provider_code q = vi_provider_code i)
     in and_then (sender_check new) (\<lambda>_.
        case select_first same (sm_providers db) of
          Some old \<Rightarrow>
            (let r = provider_conflict rt new old
             in and_then (default_free r db) (\<lambda>_.
                Inr (r, db\<lparr>sm_providers := update_where same (provider_conflict rt new) (sm_providers db)\<rparr>)))
        | None \<Rightarrow>
            and_then (default_free new db) (\<lambda>_.
            Inr (new, db\<lparr>sm_providers := sm_providers db @ [new]\<rparr>))))"

definition create_provider_row ::
  "runtime \<Rightarrow> provider_input \<Rightarrow> string option \<Rightarrow> (sms_provider, 'a sms_db_scheme) txn" where
  "create_provider_row rt i actor =
     chain (if vi_is_default i then statement (\<lambda>db. Inr ((), clear_default_provider rt db)) else returning ()) (\<lambda>_.
     statement (upsert_provider rt i actor))"

text \<open>\<open>UPDATE ... WHERE id = $1::uuid RETURNING\<close>; \<open>mapProvider\<close> of no row throws.\<close>

definition update_provider_where ::
  "uuid \<Rightarrow> (sms_provider \<Rightarrow> sms_provider) \<Rightarrow> 'a sms_db_scheme \<Rightarrow> (sms_provider option \<times> 'a sms_db_scheme) result" where
  "update_provider_where i f db =
     (let rows = update_where (\<lambda>p. pv_id p = i) f (sm_providers db); db' = db\<lparr>sm_providers := rows\<rparr>
      in case select_first (\<lambda>p. pv_id p = i) rows of
           None \<Rightarrow> Inr (None, db')
         | Some r \<Rightarrow>
             and_then (sender_check r) (\<lambda>_.
             and_then (default_free r db') (\<lambda>_. Inr (Some r, db'))))"

definition map_provider :: "'r option \<Rightarrow> 'r result" where
  "map_provider r = (case r of
       None \<Rightarrow> Inl (InternalServerErrorException ''Cannot read properties of undefined'') | Some p \<Rightarrow> Inr p)"

text \<open>The fields of \<open>updateProvider\<close>: an optional one is \<open>None\<close> when the request leaves it out.\<close>

record provider_update =
  vu_provider_name :: "string option"
  vu_api_key_ciphertext :: "string option"
  vu_username_ciphertext :: "string option option"
  vu_sender_id :: "string option"
  vu_base_url :: "string option option"
  vu_is_active :: "bool option"

definition updated_provider :: "runtime \<Rightarrow> provider_update \<Rightarrow> uuid option \<Rightarrow> sms_provider \<Rightarrow> sms_provider" where
  "updated_provider rt u actor p =
     p\<lparr>pv_provider_name := or_default (vu_provider_name u) (pv_provider_name p),
       pv_api_key_ciphertext := or_default (vu_api_key_ciphertext u) (pv_api_key_ciphertext p),
       pv_username_ciphertext := or_default (vu_username_ciphertext u) (pv_username_ciphertext p),
       pv_sender_id := or_default (vu_sender_id u) (pv_sender_id p),
       pv_base_url := or_default (vu_base_url u) (pv_base_url p),
       pv_is_active := or_default (vu_is_active u) (pv_is_active p),
       pv_updated_by_user_id := actor, pv_updated_at := rt_now rt\<rparr>"

definition update_provider_row ::
  "runtime \<Rightarrow> string \<Rightarrow> provider_update \<Rightarrow> string option \<Rightarrow> (sms_provider, 'a sms_db_scheme) txn" where
  "update_provider_row rt provider_id u actor =
     chain (statement (\<lambda>db.
       and_then (pg_uuid provider_id) (\<lambda>i.
       and_then (pg_uuid_opt actor) (\<lambda>by.
       update_provider_where i (updated_provider rt u by) db)))) (\<lambda>r. computing (map_provider r))"

definition set_default_provider_row ::
  "runtime \<Rightarrow> string \<Rightarrow> string option \<Rightarrow> (sms_provider, 'a sms_db_scheme) txn" where
  "set_default_provider_row rt provider_id actor =
     chain (statement (\<lambda>db. Inr ((), clear_default_provider rt db))) (\<lambda>_.
     chain (statement (\<lambda>db.
       and_then (pg_uuid provider_id) (\<lambda>i.
       and_then (pg_uuid_opt actor) (\<lambda>by.
       update_provider_where i (\<lambda>p. p\<lparr>pv_is_default := True, pv_is_active := True, pv_updated_by_user_id := by,
         pv_updated_at := rt_now rt\<rparr>) db)))) (\<lambda>r. computing (map_provider r)))"

definition find_default_provider :: "'a sms_db_scheme \<Rightarrow> sms_provider option" where
  "find_default_provider db = select_first (\<lambda>p. pv_is_default p \<and> pv_is_active p) (sm_providers db)"

definition mark_provider_test :: "runtime \<Rightarrow> uuid \<Rightarrow> string \<Rightarrow> 'a sms_db_scheme \<Rightarrow> (unit \<times> 'a sms_db_scheme) result" where
  "mark_provider_test rt i status db =
     Inr ((), db\<lparr>sm_providers := update_where (\<lambda>p. pv_id p = i)
       (\<lambda>p. p\<lparr>pv_last_test_status := Some status, pv_last_tested_at := Some (rt_now rt), pv_updated_at := rt_now rt\<rparr>)
       (sm_providers db)\<rparr>)"

text \<open>\<open>appendPlatformIntegrationLog\<close>, under the session's tenant.\<close>

definition append_platform_log ::
  "runtime \<Rightarrow> string \<Rightarrow> string \<Rightarrow> string option \<Rightarrow> 'a sms_db_scheme \<Rightarrow> (unit \<times> 'a sms_db_scheme) result" where
  "append_platform_log rt operation status actor db =
     and_then (pg_uuid_opt actor) (\<lambda>by.
     Inr ((), db\<lparr>sm_integration_logs := sm_integration_logs db @
       [\<lparr>il_id = fresh_uuid (map il_id (sm_integration_logs db)), il_tenant_id = Some (or_default (rt_tenant_id rt) []),
         il_integration_type = ''platform_sms'', il_operation = operation, il_status = status,
         il_request_id = Some (rt_request_id rt), il_created_by_user_id = by, il_created_at = rt_now rt\<rparr>]\<rparr>))"

end
