(* ===== verification/Sms_Wallet.thy ===== *)
theory Sms_Wallet
  imports Sms_Store
begin

text \<open>
  \<open>SchoolSmsWalletRepository\<close>: credits are reserved with the message's log row in one step and refunded once
  per log. A statement on a wallet table is refused (42501) unless the session is the school's.
\<close>

definition wallet_at :: "string \<Rightarrow> sms_wallet \<Rightarrow> bool" where
  "wallet_at tenant w \<longleftrightarrow> wl_tenant_id w = tenant"

definition new_wallet :: "runtime \<Rightarrow> string \<Rightarrow> uuid \<Rightarrow> sms_wallet" where
  "new_wallet rt tenant new_id =
     \<lparr>wl_id = new_id, wl_tenant_id = tenant, wl_sms_balance = 0, wl_monthly_used = 0, wl_monthly_limit = None,
      wl_sms_plan = ''starter'', wl_low_balance_threshold = 100, wl_allow_negative_balance = False,
      wl_billing_status = ''active'', wl_last_reset_at = None, wl_created_at = rt_now rt, wl_updated_at = rt_now rt\<rparr>"

text \<open>\<open>INSERT ... ON CONFLICT (tenant_id) DO UPDATE SET updated_at = school_sms_wallets.updated_at\<close>\<close>

definition get_or_create_wallet :: "runtime \<Rightarrow> string \<Rightarrow> 'a sms_db_scheme \<Rightarrow> (sms_wallet \<times> 'a sms_db_scheme) result" where
  "get_or_create_wallet rt tenant db =
     and_then (rls_check rt tenant) (\<lambda>_.
     case select_first (wallet_at tenant) (sm_wallets db) of
       Some w \<Rightarrow> Inr (w, db)
     | None \<Rightarrow>
         (let w = new_wallet rt tenant (fresh_uuid (map wl_id (sm_wallets db)))
          in Inr (w, db\<lparr>sm_wallets := sm_wallets db @ [w]\<rparr>)))"

text \<open>The columns' widths and the checks of \<open>school_sms_wallets\<close> on a written row.\<close>

definition wallet_checks :: "sms_wallet \<Rightarrow> unit result" where
  "wallet_checks w =
     and_then (guard (fits_integer (wl_sms_balance w) \<and> fits_integer (wl_monthly_used w)) (PgError ''22003'' '''')) (\<lambda>_.
     and_then (guard (wl_allow_negative_balance w \<or> 0 \<le> wl_sms_balance w)
       (PgError ''23514'' ''ck_school_sms_wallets_balance_policy'')) (\<lambda>_.
     guard (0 \<le> wl_monthly_used w) (PgError ''23514'' ''ck_school_sms_wallets_monthly_used_non_negative'')))"

text \<open>\<open>UPDATE school_sms_wallets SET ... WHERE tenant_id = $1 AND ... RETURNING\<close>: the row written, if any.\<close>

definition update_wallet ::
  "runtime \<Rightarrow> string \<Rightarrow> (sms_wallet \<Rightarrow> bool) \<Rightarrow> (sms_wallet \<Rightarrow> sms_wallet) \<Rightarrow> 'a sms_db_scheme \<Rightarrow>
     (sms_wallet option \<times> 'a sms_db_scheme) result" where
  "update_wallet rt tenant cond f db =
     (let p = (\<lambda>w. in_session rt (wl_tenant_id w) \<and> wallet_at tenant w \<and> cond w)
      in case select_first p (sm_wallets db) of
           None \<Rightarrow> Inr (None, db)
         | Some w \<Rightarrow>
             and_then (wallet_checks (f w)) (\<lambda>_.
             Inr (Some (f w), db\<lparr>sm_wallets := update_where p f (sm_wallets db)\<rparr>)))"

definition add_credits :: "runtime \<Rightarrow> int \<Rightarrow> sms_wallet \<Rightarrow> sms_wallet" where
  "add_credits rt n w = w\<lparr>wl_sms_balance := wl_sms_balance w + n, wl_updated_at := rt_now rt\<rparr>"

definition insert_entry ::
  "runtime \<Rightarrow> string \<Rightarrow> wallet_entry_type \<Rightarrow> int \<Rightarrow> int \<Rightarrow> string option \<Rightarrow> string option \<Rightarrow> string option \<Rightarrow>
     'a sms_db_scheme \<Rightarrow> (unit \<times> 'a sms_db_scheme) result" where
  "insert_entry rt tenant kind quantity balance reference reason actor db =
     and_then (pg_uuid_opt actor) (\<lambda>by.
     and_then (rls_check rt tenant) (\<lambda>_.
     and_then (guard (fits_integer quantity \<and> fits_integer balance) (PgError ''22003'' '''')) (\<lambda>_.
     Inr ((), db\<lparr>sm_entries := sm_entries db @
       [\<lparr>wt_id = fresh_uuid (map wt_id (sm_entries db)), wt_tenant_id = tenant, wt_type = kind, wt_quantity = quantity,
         wt_balance_after = balance, wt_reference = reference, wt_reason = reason, wt_created_by_user_id = by,
         wt_created_at = rt_now rt\<rparr>]\<rparr>))))"

text \<open>
  \<open>adjustWallet\<close> is one statement whose first two parts, an upsert and an update, both write the wallet.
  PostgreSQL documents that a row is written once in a statement and that it is not predictable by which part:
  the update does it, or the upsert does and the update returns no row, or the statement is refused (21000). When
  there is no wallet yet the update's snapshot does not see the one the upsert inserts.
\<close>

datatype cte_outcome = UpdateWrites | UpsertWrites | StatementRefused

definition adjust_statement ::
  "cte_outcome \<Rightarrow> runtime \<Rightarrow> string \<Rightarrow> int \<Rightarrow> string \<Rightarrow> string option \<Rightarrow> string option \<Rightarrow> 'a sms_db_scheme \<Rightarrow>
     (sms_wallet option \<times> 'a sms_db_scheme) result" where
  "adjust_statement outcome rt tenant quantity reason reference actor db =
     and_then (rls_check rt tenant) (\<lambda>_.
     case select_first (wallet_at tenant) (sm_wallets db) of
       None \<Rightarrow> and_then (get_or_create_wallet rt tenant db) (\<lambda>(w, db1). Inr (None, db1))
     | Some _ \<Rightarrow>
         (case outcome of
            StatementRefused \<Rightarrow> Inl (PgError ''21000'' '''')
          | UpsertWrites \<Rightarrow> Inr (None, db)
          | UpdateWrites \<Rightarrow>
              and_then (update_wallet rt tenant (\<lambda>_. True) (add_credits rt quantity) db) (\<lambda>(w, db1).
              case w of
                None \<Rightarrow> Inr (None, db1)
              | Some w \<Rightarrow>
                  and_then (insert_entry rt tenant (if 0 \<le> quantity then WtAdjustment else WtDeduction) quantity
                    (wl_sms_balance w) reference (Some reason) actor db1) (\<lambda>(_, db2). Inr (Some w, db2)))))"

definition adjust_wallet ::
  "cte_outcome \<Rightarrow> runtime \<Rightarrow> string \<Rightarrow> int \<Rightarrow> string \<Rightarrow> string option \<Rightarrow> string option \<Rightarrow> (sms_wallet, 'a sms_db_scheme) txn" where
  "adjust_wallet outcome rt tenant quantity reason reference actor =
     chain (statement (adjust_statement outcome rt tenant quantity reason reference actor)) (\<lambda>w. computing (map_provider w))"

section \<open>Reserving credits\<close>

record reserve_input =
  ri_recipient_ciphertext :: string
  ri_recipient_last4 :: "string option"
  ri_recipient_hash :: string
  ri_message_ciphertext :: "string option"
  ri_message_preview :: "string option"
  ri_message_type :: "string option"
  ri_credit_cost :: int
  ri_sent_by_user_id :: "string option"

record reserved =
  rv_accepted :: bool
  rv_reason :: "string option"
  rv_log_id :: uuid
  rv_balance_after :: int
  rv_credit_cost :: "int option"

definition insert_sms_log ::
  "runtime \<Rightarrow> string \<Rightarrow> reserve_input \<Rightarrow> sms_log_status \<Rightarrow> string option \<Rightarrow> 'a sms_db_scheme \<Rightarrow> (uuid \<times> 'a sms_db_scheme) result" where
  "insert_sms_log rt tenant i status failure db =
     and_then (pg_uuid_opt (ri_sent_by_user_id i)) (\<lambda>by.
     and_then (rls_check rt tenant) (\<lambda>_.
     and_then (guard (fits_integer (ri_credit_cost i)) (PgError ''22003'' '''')) (\<lambda>_.
     let new_id = fresh_uuid (map lg_id (sm_logs db))
     in Inr (new_id, db\<lparr>sm_logs := sm_logs db @
       [\<lparr>lg_id = new_id, lg_tenant_id = tenant, lg_provider_id = None, lg_recipient_ciphertext = ri_recipient_ciphertext i,
         lg_recipient_last4 = ri_recipient_last4 i, lg_recipient_hash = ri_recipient_hash i,
         lg_message_ciphertext = ri_message_ciphertext i, lg_message_preview = ri_message_preview i,
         lg_message_type = ri_message_type i, lg_status = status, lg_credit_cost = ri_credit_cost i,
         lg_provider_message_id = None, lg_failure_reason = failure, lg_sent_by_user_id = by, lg_sent_at = None,
         lg_delivered_at = None, lg_created_at = rt_now rt, lg_updated_at = rt_now rt\<rparr>]\<rparr>))))"

definition over_limit :: "int \<Rightarrow> sms_wallet \<Rightarrow> bool" where
  "over_limit cost w \<longleftrightarrow>
     (case wl_monthly_limit w of None \<Rightarrow> False
      | Some limit \<Rightarrow> limit < wl_monthly_used w + cost \<and> \<not> wl_allow_negative_balance w)"

definition spend_credits :: "runtime \<Rightarrow> int \<Rightarrow> sms_wallet \<Rightarrow> sms_wallet" where
  "spend_credits rt cost w = w\<lparr>wl_sms_balance := wl_sms_balance w - cost, wl_monthly_used := wl_monthly_used w + cost,
     wl_updated_at := rt_now rt\<rparr>"

text \<open>The condition of the update that spends: the balance and the monthly limit once more.\<close>

definition spendable :: "int \<Rightarrow> sms_wallet \<Rightarrow> bool" where
  "spendable cost w \<longleftrightarrow> (wl_allow_negative_balance w \<or> cost \<le> wl_sms_balance w) \<and>
     (case wl_monthly_limit w of None \<Rightarrow> True
      | Some limit \<Rightarrow> wl_allow_negative_balance w \<or> wl_monthly_used w + cost \<le> limit)"

definition reject_message ::
  "runtime \<Rightarrow> string \<Rightarrow> reserve_input \<Rightarrow> string \<Rightarrow> int \<Rightarrow> (reserved, 'a sms_db_scheme) txn" where
  "reject_message rt tenant i reason balance =
     chain (statement (insert_sms_log rt tenant i LogRejected (Some reason))) (\<lambda>log_id.
     returning \<lparr>rv_accepted = False, rv_reason = Some reason, rv_log_id = log_id, rv_balance_after = balance,
       rv_credit_cost = None\<rparr>)"

text \<open>\<open>getOrCreateWalletForUpdate\<close> and \<open>reserveSmsCreditsInTransaction\<close>\<close>

definition lock_wallet :: "runtime \<Rightarrow> string \<Rightarrow> 'a sms_db_scheme \<Rightarrow> sms_wallet result" where
  "lock_wallet rt tenant db =
     map_provider (select_first (\<lambda>w. in_session rt (wl_tenant_id w) \<and> wallet_at tenant w) (sm_wallets db))"

definition reserve_sms_credits :: "runtime \<Rightarrow> string \<Rightarrow> reserve_input \<Rightarrow> (reserved, 'a sms_db_scheme) txn" where
  "reserve_sms_credits rt tenant i =
     (let cost = ri_credit_cost i
      in chain (statement (get_or_create_wallet rt tenant)) (\<lambda>_.
         chain (reading (lock_wallet rt tenant)) (\<lambda>w.
         if over_limit cost w then reject_message rt tenant i ''SMS monthly limit exceeded'' (wl_sms_balance w)
         else if wl_sms_balance w < cost \<and> \<not> wl_allow_negative_balance w then
           reject_message rt tenant i ''SMS balance exhausted'' (wl_sms_balance w)
         else
           chain (statement (update_wallet rt tenant (spendable cost) (spend_credits rt cost))) (\<lambda>updated.
           case updated of
             None \<Rightarrow>
               chain (statement (get_or_create_wallet rt tenant)) (\<lambda>now.
               reject_message rt tenant i
                 (if over_limit cost now then ''SMS monthly limit exceeded'' else ''SMS balance exhausted'') (wl_sms_balance now))
           | Some u \<Rightarrow>
               chain (statement (insert_sms_log rt tenant i LogQueued None)) (\<lambda>log_id.
               chain (statement (insert_entry rt tenant WtDeduction (- cost) (wl_sms_balance u) (Some (uuid_text log_id))
                 (Some (or_default (ri_message_type i) ''sms_send'')) (ri_sent_by_user_id i))) (\<lambda>_.
               returning \<lparr>rv_accepted = True, rv_reason = None, rv_log_id = log_id, rv_balance_after = wl_sms_balance u,
                 rv_credit_cost = Some cost\<rparr>))))))"

section \<open>The outcome of a message\<close>

definition sms_log_at :: "runtime \<Rightarrow> string \<Rightarrow> uuid \<Rightarrow> sms_log \<Rightarrow> bool" where
  "sms_log_at rt tenant i r \<longleftrightarrow> in_session rt (lg_tenant_id r) \<and> lg_tenant_id r = tenant \<and> lg_id r = i"

definition mark_sms_log_sent ::
  "runtime \<Rightarrow> string \<Rightarrow> uuid \<Rightarrow> uuid option \<Rightarrow> string option \<Rightarrow> 'a sms_db_scheme \<Rightarrow> (unit \<times> 'a sms_db_scheme) result" where
  "mark_sms_log_sent rt tenant i provider message_id db =
     and_then (guard (case provider of None \<Rightarrow> True
         | Some p \<Rightarrow> list_ex (sms_log_at rt tenant i) (sm_logs db) \<longrightarrow> list_ex (\<lambda>q. pv_id q = p) (sm_providers db))
       (PgError ''23503'' ''sms_logs_provider_id_fkey'')) (\<lambda>_.
     Inr ((), db\<lparr>sm_logs := update_where (sms_log_at rt tenant i)
       (\<lambda>r. r\<lparr>lg_status := LogSent, lg_provider_id := provider, lg_provider_message_id := message_id,
         lg_sent_at := Some (rt_now rt), lg_updated_at := rt_now rt\<rparr>) (sm_logs db)\<rparr>))"

definition mark_sms_log_failed ::
  "runtime \<Rightarrow> string \<Rightarrow> uuid \<Rightarrow> string \<Rightarrow> 'a sms_db_scheme \<Rightarrow> (unit \<times> 'a sms_db_scheme) result" where
  "mark_sms_log_failed rt tenant i reason db =
     Inr ((), db\<lparr>sm_logs := update_where (sms_log_at rt tenant i)
       (\<lambda>r. r\<lparr>lg_status := LogFailed, lg_failure_reason := Some reason, lg_updated_at := rt_now rt\<rparr>) (sm_logs db)\<rparr>)"

definition refund_of :: "runtime \<Rightarrow> string \<Rightarrow> string \<Rightarrow> wallet_entry \<Rightarrow> bool" where
  "refund_of rt tenant reference e \<longleftrightarrow> in_session rt (wt_tenant_id e) \<and> wt_tenant_id e = tenant \<and> wt_type e = WtRefund \<and>
     wt_reference e = Some reference"

definition refund_credits :: "runtime \<Rightarrow> int \<Rightarrow> sms_wallet \<Rightarrow> sms_wallet" where
  "refund_credits rt cost w = w\<lparr>wl_sms_balance := wl_sms_balance w + cost,
     wl_monthly_used := max (wl_monthly_used w - cost) 0, wl_updated_at := rt_now rt\<rparr>"

definition refund_sms_credits ::
  "runtime \<Rightarrow> string \<Rightarrow> uuid \<Rightarrow> int \<Rightarrow> string \<Rightarrow> string option \<Rightarrow> (unit, 'a sms_db_scheme) txn" where
  "refund_sms_credits rt tenant i cost reason actor =
     chain (reading (\<lambda>db. Inr (select_first (refund_of rt tenant (uuid_text i)) (sm_entries db)))) (\<lambda>existing.
     if existing \<noteq> None then returning ()
     else
       chain (statement (update_wallet rt tenant (\<lambda>_. True) (refund_credits rt cost))) (\<lambda>updated.
       statement (insert_entry rt tenant WtRefund cost (case updated of None \<Rightarrow> 0 | Some w \<Rightarrow> wl_sms_balance w)
         (Some (uuid_text i)) (Some reason) actor)))"

definition list_sms_logs :: "runtime \<Rightarrow> string \<Rightarrow> int \<Rightarrow> 'a sms_db_scheme \<Rightarrow> sms_log list" where
  "list_sms_logs rt tenant limit db =
     take (nat (min (max limit 1) 200)) (sort_key (\<lambda>r. - lg_created_at r)
       (filter (\<lambda>r. in_session rt (lg_tenant_id r) \<and> lg_tenant_id r = tenant) (sm_logs db)))"

definition create_purchase_request_row ::
  "runtime \<Rightarrow> string \<Rightarrow> int \<Rightarrow> string option \<Rightarrow> string option \<Rightarrow> 'a sms_db_scheme \<Rightarrow> (purchase_request \<times> 'a sms_db_scheme) result" where
  "create_purchase_request_row rt tenant quantity note actor db =
     and_then (pg_uuid_opt actor) (\<lambda>by.
     and_then (rls_check rt tenant) (\<lambda>_.
     and_then (guard (fits_integer quantity) (PgError ''22003'' '''')) (\<lambda>_.
     and_then (guard (0 < quantity) (PgError ''23514'' ''sms_purchase_requests_quantity_check'')) (\<lambda>_.
     let r = \<lparr>pq_id = fresh_uuid (map pq_id (sm_requests db)), pq_tenant_id = tenant, pq_quantity = quantity,
              pq_status = PqPending, pq_note = note, pq_requested_by_user_id = by, pq_created_at = rt_now rt\<rparr>
     in Inr (r, db\<lparr>sm_requests := sm_requests db @ [r]\<rparr>)))))"

text \<open>\<open>hashRecipient\<close>: the digest of the digits.\<close>

definition hash_recipient :: "runtime \<Rightarrow> string \<Rightarrow> string" where
  "hash_recipient rt recipient = rt_sha256 rt (filter is_digit recipient)"

end
