(* ===== verification/Sms_Service.thy ===== *)
theory Sms_Service
  imports Sms_Wallet
begin

text \<open>
  \<open>PlatformSmsService\<close>, \<open>SmsDispatchService\<close> and \<open>SchoolSmsWalletService\<close>: the platform owner's providers, the
  call of the default one, and a school's message, which reserves its credits, is dispatched, and is refunded when
  the dispatch fails. The provider's endpoint is a parameter.
\<close>

section \<open>\<open>PlatformSmsService\<close>\<close>

definition sms_aad :: "string \<Rightarrow> string \<Rightarrow> string" where
  "sms_aad owner field = ''platform-sms:'' @ owner @ '':'' @ field"

definition trimmed_or_none :: "string option \<Rightarrow> string option" where
  "trimmed_or_none v = (if truthy (map_option js_trim v) then map_option js_trim v else None)"

definition try_decrypt :: "cipher \<Rightarrow> string \<Rightarrow> string \<Rightarrow> string" where
  "try_decrypt c v aad = (case pii_decrypt c v aad of Inl _ \<Rightarrow> v | Inr t \<Rightarrow> t)"

definition mask_sms_secret :: "string \<Rightarrow> string" where
  "mask_sms_secret v =
     (if v = [] then []
      else (let visible = (if length v \<le> 4 then drop (length v - 2) v else drop (length v - 4) v)
            in replicate (max 8 (length v - length visible)) (CHR ''*'') @ visible))"

record provider_response =
  pp_id :: uuid
  pp_provider_name :: string
  pp_provider_code :: provider_code
  pp_api_key_masked :: string
  pp_username_masked :: "string option"
  pp_sender_id :: string
  pp_base_url :: "string option"
  pp_is_active :: bool
  pp_is_default :: bool
  pp_last_test_status :: "string option"
  pp_last_tested_at :: "int option"
  pp_created_at :: int
  pp_updated_at :: int

definition to_provider_response :: "cipher \<Rightarrow> sms_provider \<Rightarrow> provider_response" where
  "to_provider_response c p =
     (let code = provider_code_text (pv_provider_code p); key = try_decrypt c (pv_api_key_ciphertext p) (sms_aad code ''api-key'');
          user = (if truthy (pv_username_ciphertext p)
            then Some (try_decrypt c (the (pv_username_ciphertext p)) (sms_aad code ''username'')) else None)
      in \<lparr>pp_id = pv_id p, pp_provider_name = pv_provider_name p, pp_provider_code = pv_provider_code p,
          pp_api_key_masked = mask_sms_secret key,
          pp_username_masked = (if truthy user then Some (mask_sms_secret (the user)) else None),
          pp_sender_id = pv_sender_id p, pp_base_url = pv_base_url p, pp_is_active = pv_is_active p,
          pp_is_default = pv_is_default p, pp_last_test_status = pv_last_test_status p,
          pp_last_tested_at = pv_last_tested_at p, pp_created_at = pv_created_at p, pp_updated_at = pv_updated_at p\<rparr>)"

definition list_sms_providers :: "cipher \<Rightarrow> (provider_response list, 'a sms_db_scheme) txn" where
  "list_sms_providers c = reading (\<lambda>db. Inr (map (to_provider_response c) (list_providers db)))"

text \<open>\<open>safePlatformLog\<close> swallows the refusal of its statement, but not what it does to the transaction.\<close>

definition safe_platform_log :: "runtime \<Rightarrow> string \<Rightarrow> string \<Rightarrow> (unit, 'a sms_db_scheme) txn" where
  "safe_platform_log rt operation status =
     catching (statement (append_platform_log rt operation status (acting_user rt))) (\<lambda>_. returning ())"

record create_provider_dto =
  pd_provider_name :: string
  pd_provider_code :: provider_code
  pd_api_key :: string
  pd_username :: "string option"
  pd_sender_id :: string
  pd_base_url :: "string option"
  pd_is_active :: "bool option"
  pd_is_default :: "bool option"

definition provider_input_of :: "cipher \<Rightarrow> create_provider_dto \<Rightarrow> provider_input" where
  "provider_input_of c d =
     (let code = provider_code_text (pd_provider_code d)
      in \<lparr>vi_provider_name = js_trim (pd_provider_name d), vi_provider_code = pd_provider_code d,
          vi_api_key_ciphertext = pii_encrypt c (js_trim (pd_api_key d)) (sms_aad code ''api-key''),
          vi_username_ciphertext = pii_encrypt_nullable c (trimmed_or_none (pd_username d)) (sms_aad code ''username''),
          vi_sender_id = js_trim (pd_sender_id d), vi_base_url = trimmed_or_none (pd_base_url d),
          vi_is_active = or_default (pd_is_active d) True, vi_is_default = or_default (pd_is_default d) False\<rparr>)"

definition create_sms_provider :: "cipher \<Rightarrow> runtime \<Rightarrow> create_provider_dto \<Rightarrow> (provider_response, 'a sms_db_scheme) txn" where
  "create_sms_provider c rt d =
     chain (create_provider_row rt (provider_input_of c d) (acting_user rt)) (\<lambda>p.
     chain (safe_platform_log rt ''platform_sms_provider_created'' ''success'') (\<lambda>_.
     returning (to_provider_response c p)))"

record update_provider_dto =
  ud_provider_name :: "string option"
  ud_api_key :: "string option"
  ud_username :: "string option"
  ud_sender_id :: "string option"
  ud_base_url :: "string option"
  ud_is_active :: "bool option"

text \<open>The secrets are sealed under the provider's id here, under its code everywhere else.\<close>

definition provider_update_of :: "cipher \<Rightarrow> string \<Rightarrow> update_provider_dto \<Rightarrow> provider_update" where
  "provider_update_of c provider_id d =
     \<lparr>vu_provider_name = map_option js_trim (ud_provider_name d),
      vu_api_key_ciphertext = pii_encrypt_nullable c (trimmed_or_none (ud_api_key d)) (sms_aad provider_id ''api-key''),
      vu_username_ciphertext = map_option (\<lambda>u. pii_encrypt_nullable c (trimmed_or_none (Some u)) (sms_aad provider_id ''username''))
        (ud_username d),
      vu_sender_id = map_option js_trim (ud_sender_id d),
      vu_base_url = map_option (\<lambda>u. trimmed_or_none (Some u)) (ud_base_url d),
      vu_is_active = ud_is_active d\<rparr>"

definition update_sms_provider ::
  "cipher \<Rightarrow> runtime \<Rightarrow> string \<Rightarrow> update_provider_dto \<Rightarrow> (provider_response, 'a sms_db_scheme) txn" where
  "update_sms_provider c rt provider_id d =
     chain (update_provider_row rt provider_id (provider_update_of c provider_id d) (acting_user rt)) (\<lambda>p.
     chain (safe_platform_log rt ''platform_sms_provider_updated'' ''success'') (\<lambda>_.
     returning (to_provider_response c p)))"

definition set_default_sms_provider :: "cipher \<Rightarrow> runtime \<Rightarrow> string \<Rightarrow> (provider_response, 'a sms_db_scheme) txn" where
  "set_default_sms_provider c rt provider_id =
     chain (set_default_provider_row rt provider_id (acting_user rt)) (\<lambda>p.
     chain (safe_platform_log rt ''platform_sms_default_changed'' ''success'') (\<lambda>_.
     returning (to_provider_response c p)))"

definition api_key_of :: "cipher \<Rightarrow> sms_provider \<Rightarrow> string result" where
  "api_key_of c p = pii_decrypt c (pv_api_key_ciphertext p) (sms_aad (provider_code_text (pv_provider_code p)) ''api-key'')"

definition test_sms_provider :: "cipher \<Rightarrow> runtime \<Rightarrow> string \<Rightarrow> (uuid, 'a sms_db_scheme) txn" where
  "test_sms_provider c rt provider_id =
     chain (reading (\<lambda>db. Inr (select_first (\<lambda>p. uuid_text (pv_id p) = provider_id) (list_providers db)))) (\<lambda>found.
     case found of
       None \<Rightarrow> raising (BadRequestException ''SMS provider was not found'')
     | Some p \<Rightarrow>
         chain (computing (api_key_of c p)) (\<lambda>key.
         if js_trim key = [] \<or> js_trim (pv_sender_id p) = [] then
           chain (statement (mark_provider_test rt (pv_id p) ''failed'')) (\<lambda>_.
           chain (safe_platform_log rt ''platform_sms_provider_tested'' ''failed'') (\<lambda>_.
           raising (BadRequestException ''SMS provider credentials are incomplete'')))
         else
           chain (statement (mark_provider_test rt (pv_id p) ''ok'')) (\<lambda>_.
           chain (safe_platform_log rt ''platform_sms_provider_tested'' ''ok'') (\<lambda>_.
           returning (pv_id p)))))"

record dispatch_provider =
  dp_provider :: sms_provider
  dp_api_key :: string
  dp_username :: "string option"

definition dispatch_provider_of :: "cipher \<Rightarrow> sms_provider \<Rightarrow> dispatch_provider result" where
  "dispatch_provider_of c p =
     and_then (api_key_of c p) (\<lambda>key.
     and_then (if truthy (pv_username_ciphertext p)
       then and_then (pii_decrypt c (the (pv_username_ciphertext p)) (sms_aad (provider_code_text (pv_provider_code p)) ''username''))
              (\<lambda>u. Inr (Some u))
       else Inr None) (\<lambda>user.
     Inr \<lparr>dp_provider = p, dp_api_key = key, dp_username = user\<rparr>))"

definition default_provider_for_dispatch :: "cipher \<Rightarrow> (dispatch_provider option, 'a sms_db_scheme) txn" where
  "default_provider_for_dispatch c =
     chain (reading (\<lambda>db. Inr (find_default_provider db))) (\<lambda>found.
     case found of
       None \<Rightarrow> returning None
     | Some p \<Rightarrow> chain (computing (dispatch_provider_of c p)) (\<lambda>d. returning (Some d)))"

section \<open>\<open>SmsDispatchService\<close>\<close>

text \<open>\<open>x?.trim()\<close> used as a condition.\<close>

definition filled_in :: "string option \<Rightarrow> bool" where
  "filled_in v \<longleftrightarrow> truthy (map_option js_trim v)"

definition missing_dispatch_fields :: "dispatch_provider \<Rightarrow> string list" where
  "missing_dispatch_fields d =
     (if js_trim (dp_api_key d) = [] then [''api_key''] else []) @
     (if js_trim (pv_sender_id (dp_provider d)) = [] then [''sender_id''] else []) @
     (if \<not> filled_in (pv_base_url (dp_provider d)) then [''base_url''] else []) @
     (if pv_provider_code (dp_provider d) = AfricasTalking \<and> \<not> filled_in (dp_username d) then [''username''] else [])"

datatype readiness = Configured | MissingProvider | MissingCredentials | Degraded

record readiness_provider =
  rp_id :: uuid
  rp_provider_name :: string
  rp_provider_code :: provider_code
  rp_is_active :: bool
  rp_is_default :: bool
  rp_sender_id_configured :: bool
  rp_base_url_configured :: bool
  rp_username_configured :: bool
  rp_last_test_status :: "string option"

record dispatch_readiness =
  dr_status :: readiness
  dr_provider :: "readiness_provider option"
  dr_missing :: "string list"

definition to_readiness_provider :: "dispatch_provider \<Rightarrow> readiness_provider" where
  "to_readiness_provider d =
     (let p = dp_provider d
      in \<lparr>rp_id = pv_id p, rp_provider_name = pv_provider_name p, rp_provider_code = pv_provider_code p,
          rp_is_active = pv_is_active p, rp_is_default = pv_is_default p, rp_sender_id_configured = (js_trim (pv_sender_id p) \<noteq> []),
          rp_base_url_configured = filled_in (pv_base_url p), rp_username_configured = filled_in (dp_username d),
          rp_last_test_status = pv_last_test_status p\<rparr>)"

definition get_readiness :: "cipher \<Rightarrow> (dispatch_readiness, 'a sms_db_scheme) txn" where
  "get_readiness c =
     chain (default_provider_for_dispatch c) (\<lambda>found.
     case found of
       None \<Rightarrow> returning \<lparr>dr_status = MissingProvider, dr_provider = None, dr_missing = [''default_provider'']\<rparr>
     | Some d \<Rightarrow>
         (let missing = missing_dispatch_fields d
          in returning
               (if missing \<noteq> [] then
                  \<lparr>dr_status = MissingCredentials, dr_provider = Some (to_readiness_provider d), dr_missing = missing\<rparr>
                else if pv_last_test_status (dp_provider d) = Some ''failed'' then
                  \<lparr>dr_status = Degraded, dr_provider = Some (to_readiness_provider d), dr_missing = []\<rparr>
                else \<lparr>dr_status = Configured, dr_provider = Some (to_readiness_provider d), dr_missing = []\<rparr>)))"

text \<open>
  \<open>buildProviderRequest\<close>: the endpoint, the authorisation and the body. The encodings (a form, JSON, the base64 of
  basic authorisation) are those of the platform. The outcome of \<open>fetch\<close> is its rejection, or the status with
  the payload: the text parsed as JSON, the bare text when it does not parse, \<open>null\<close> when it is blank.
\<close>

datatype sms_authorization = ApiKeyHeader string | BasicAuthorization string string | BearerAuthorization string

datatype sms_body = FormBody "(string \<times> string) list" | JsonBody json

record sms_request =
  sq_url :: string
  sq_authorization :: sms_authorization
  sq_body :: sms_body

datatype sms_response = FetchRejected string | FetchAnswered nat json

type_synonym sms_gateway = "sms_request \<Rightarrow> sms_response"

record dispatch_input =
  di_tenant_id :: "string option"
  di_to :: string
  di_message :: string
  di_source :: "string option"
  di_metadata :: "(string \<times> json) list"

definition build_provider_request :: "string \<Rightarrow> dispatch_provider \<Rightarrow> dispatch_input \<Rightarrow> sms_request" where
  "build_provider_request url d i =
     (let p = dp_provider d; message = js_trim (di_message i); to = js_trim (di_to i); sender = js_trim (pv_sender_id p)
      in case pv_provider_code p of
           AfricasTalking \<Rightarrow>
             \<lparr>sq_url = url, sq_authorization = ApiKeyHeader (dp_api_key d),
              sq_body = FormBody ([(''username'', or_default (dp_username d) ''sandbox''), (''to'', to), (''message'', message)] @
                (if sender = [] then [] else [(''from'', sender)]))\<rparr>
         | Twilio \<Rightarrow>
             \<lparr>sq_url = url, sq_authorization = BasicAuthorization (or_default (dp_username d) (pv_sender_id p)) (dp_api_key d),
              sq_body = FormBody [(''To'', to), (''From'', sender), (''Body'', message)]\<rparr>
         | TextsmsKenya \<Rightarrow>
             \<lparr>sq_url = url, sq_authorization = BearerAuthorization (dp_api_key d),
              sq_body = JsonBody (JObj [(''to'', JStr to), (''message'', JStr message), (''sender_id'', JStr sender),
                (''tenant_id'', json_opt (di_tenant_id i)), (''source'', JStr (or_default (di_source i) ''shulehub'')),
                (''metadata'', JObj (di_metadata i))])\<rparr>)"

definition response_ok :: "nat \<Rightarrow> bool" where
  "response_ok status \<longleftrightarrow> 200 \<le> status \<and> status \<le> 299"

definition call_provider :: "sms_gateway \<Rightarrow> dispatch_provider \<Rightarrow> dispatch_input \<Rightarrow> json result" where
  "call_provider gateway d i =
     (let url = map_option js_trim (pv_base_url (dp_provider d))
      in if \<not> truthy url then Inl (HttpException 503 ''Platform SMS provider endpoint is not configured'')
         else (case gateway (build_provider_request (the url) d i) of
                 FetchRejected m \<Rightarrow> Inl (InternalServerErrorException m)
               | FetchAnswered status payload \<Rightarrow>
                   if response_ok status then Inr payload
                   else Inl (HttpException 503 (''SMS provider returned '' @ show_nat status))))"

text \<open>\<open>v.k\<close> read with \<open>??\<close> or \<open>?.\<close>: neither absent nor \<open>null\<close>.\<close>

definition json_property :: "json \<Rightarrow> string \<Rightarrow> json option" where
  "json_property v k = (case v of
       JObj kvs \<Rightarrow> (case map_of kvs k of Some JNull \<Rightarrow> None | x \<Rightarrow> x)
     | _ \<Rightarrow> None)"

definition message_id_text :: "json option \<Rightarrow> string option" where
  "message_id_text v = (case v of Some (JStr s) \<Rightarrow> if js_trim s = [] then None else Some s | _ \<Rightarrow> None)"

definition extract_provider_message_id :: "json \<Rightarrow> string option" where
  "extract_provider_message_id payload =
     (case message_id_text (or_else (json_property payload ''message_id'')
        (or_else (json_property payload ''messageId'') (json_property payload ''id''))) of
        Some s \<Rightarrow> Some s
      | None \<Rightarrow>
          (case json_property payload ''SMSMessageData'' of
             None \<Rightarrow> None
           | Some v \<Rightarrow>
               (case json_property v ''Recipients'' of
                  Some (JArr (r # rs)) \<Rightarrow>
                    message_id_text (or_else (json_property r ''messageId'') (json_property r ''message_id''))
                | _ \<Rightarrow> None)))"

record dispatch_result =
  ds_provider_id :: uuid
  ds_provider_code :: provider_code
  ds_provider_message_id :: "string option"

definition dispatch_sms :: "cipher \<Rightarrow> sms_gateway \<Rightarrow> dispatch_input \<Rightarrow> (dispatch_result, 'a sms_db_scheme) txn" where
  "dispatch_sms c gateway i =
     chain (default_provider_for_dispatch c) (\<lambda>found.
     case found of
       None \<Rightarrow> raising (HttpException 503 ''No active platform SMS provider is configured'')
     | Some d \<Rightarrow>
         (let missing = missing_dispatch_fields d
          in if missing \<noteq> [] then raising (HttpException 503 (''Platform SMS provider is missing '' @ join '', '' missing))
             else
               chain (computing (call_provider gateway d i)) (\<lambda>payload.
               returning \<lparr>ds_provider_id = pv_id (dp_provider d), ds_provider_code = pv_provider_code (dp_provider d),
                 ds_provider_message_id = extract_provider_message_id payload\<rparr>)))"

section \<open>\<open>SchoolSmsWalletService\<close>\<close>

definition require_sms_tenant_id :: "runtime \<Rightarrow> string result" where
  "require_sms_tenant_id rt =
     (if truthy (rt_tenant_id rt) then Inr (the (rt_tenant_id rt))
      else Inl (UnauthorizedException ''Tenant context is required for SMS operations''))"

definition get_sms_wallet :: "runtime \<Rightarrow> (sms_wallet \<times> bool, 'a sms_db_scheme) txn" where
  "get_sms_wallet rt =
     chain (computing (require_sms_tenant_id rt)) (\<lambda>tenant.
     chain (statement (get_or_create_wallet rt tenant)) (\<lambda>w.
     returning (w, wl_sms_balance w \<le> wl_low_balance_threshold w)))"

definition list_school_sms_logs :: "runtime \<Rightarrow> int option \<Rightarrow> (sms_log list, 'a sms_db_scheme) txn" where
  "list_school_sms_logs rt limit =
     chain (computing (require_sms_tenant_id rt)) (\<lambda>tenant.
     reading (\<lambda>db. Inr (list_sms_logs rt tenant (or_default limit 50) db)))"

definition create_sms_purchase_request :: "runtime \<Rightarrow> int \<Rightarrow> string option \<Rightarrow> (purchase_request, 'a sms_db_scheme) txn" where
  "create_sms_purchase_request rt quantity note =
     chain (computing (require_sms_tenant_id rt)) (\<lambda>tenant.
     statement (create_purchase_request_row rt tenant quantity (trimmed_or_none note) (acting_user rt)))"

text \<open>\<open>Math.ceil(length / 153)\<close> for a message of more than one segment.\<close>

definition calculate_credit_cost :: "string \<Rightarrow> int" where
  "calculate_credit_cost message =
     (let n = length (js_trim message)
      in if n \<le> 160 then 1 else int ((n + 152) div 153))"

text \<open>\<open>replace(/\s+/g, ' ')\<close>\<close>

fun collapse_spaces :: "string \<Rightarrow> string" where
  "collapse_spaces [] = []"
| "collapse_spaces [a] = [if is_space a then CHR '' '' else a]"
| "collapse_spaces (a # b # s) =
     (if is_space a then (if is_space b then collapse_spaces (b # s) else CHR '' '' # collapse_spaces (b # s))
      else a # collapse_spaces (b # s))"

definition sms_preview :: "string \<Rightarrow> string" where
  "sms_preview message = take 120 (collapse_spaces message)"

definition last4 :: "string \<Rightarrow> string option" where
  "last4 v = (let digits = filter is_digit v in if digits = [] then None else Some (drop (length digits - 4) digits))"

fun readiness_failure :: "readiness \<Rightarrow> string" where
  "readiness_failure MissingProvider = ''SMS provider is not configured by the platform owner''"
| "readiness_failure MissingCredentials = ''SMS provider credentials are incomplete''"
| "readiness_failure Degraded = ''SMS provider is degraded. Try again after support confirms delivery is healthy''"
| "readiness_failure Configured = ''SMS provider is not ready''"

record send_sms_dto =
  sd_recipient :: string
  sd_message :: string
  sd_message_type :: "string option"

record sms_answer =
  sa_log_id :: uuid
  sa_balance_after :: int
  sa_credit_cost :: int
  sa_low_balance :: bool

definition reserve_input_of :: "cipher \<Rightarrow> runtime \<Rightarrow> string \<Rightarrow> send_sms_dto \<Rightarrow> reserve_input" where
  "reserve_input_of c rt tenant d =
     (let recipient = js_trim (sd_recipient d); message = js_trim (sd_message d)
      in \<lparr>ri_recipient_ciphertext = pii_encrypt c recipient (''sms:'' @ tenant @ '':recipient''),
          ri_recipient_last4 = last4 recipient, ri_recipient_hash = hash_recipient rt recipient,
          ri_message_ciphertext = Some (pii_encrypt c message (''sms:'' @ tenant @ '':message'')),
          ri_message_preview = Some (sms_preview message),
          ri_message_type = Some (or_default (trimmed_or_none (sd_message_type d)) ''general''),
          ri_credit_cost = calculate_credit_cost message, ri_sent_by_user_id = acting_user rt\<rparr>)"

definition dispatch_input_of :: "string \<Rightarrow> send_sms_dto \<Rightarrow> dispatch_input" where
  "dispatch_input_of tenant d =
     \<lparr>di_tenant_id = Some tenant, di_to = js_trim (sd_recipient d), di_message = js_trim (sd_message d),
      di_source = Some (or_default (trimmed_or_none (sd_message_type d)) ''school_sms''), di_metadata = []\<rparr>"

text \<open>The \<open>try\<close> block and its \<open>catch\<close>.\<close>

definition deliver_reserved ::
  "cipher \<Rightarrow> sms_gateway \<Rightarrow> runtime \<Rightarrow> string \<Rightarrow> send_sms_dto \<Rightarrow> reserved \<Rightarrow> int \<Rightarrow> (unit, 'a sms_db_scheme) txn" where
  "deliver_reserved c gateway rt tenant d r cost =
     catching
       (chain (dispatch_sms c gateway (dispatch_input_of tenant d)) (\<lambda>s.
        statement (mark_sms_log_sent rt tenant (rv_log_id r) (Some (ds_provider_id s))
          (Some (or_default (ds_provider_message_id s)
             (provider_code_text (ds_provider_code s) @ '':'' @ uuid_text (rv_log_id r)))))))
       (\<lambda>e.
        chain (statement (mark_sms_log_failed rt tenant (rv_log_id r) (exn_message rt e))) (\<lambda>_.
        chain (refund_sms_credits rt tenant (rv_log_id r) (or_default (rv_credit_cost r) cost) ''sms_dispatch_failed''
          (acting_user rt)) (\<lambda>_.
        raising (BadRequestException ''SMS provider could not send the message. Credits were not used.''))))"

definition send_sms :: "cipher \<Rightarrow> sms_gateway \<Rightarrow> runtime \<Rightarrow> send_sms_dto \<Rightarrow> (sms_answer, 'a sms_db_scheme) txn" where
  "send_sms c gateway rt d =
     chain (computing (require_sms_tenant_id rt)) (\<lambda>tenant.
     chain (get_readiness c) (\<lambda>ready.
     if dr_status ready \<noteq> Configured then raising (BadRequestException (readiness_failure (dr_status ready)))
     else
       (let cost = calculate_credit_cost (js_trim (sd_message d))
        in chain (reserve_sms_credits rt tenant (reserve_input_of c rt tenant d)) (\<lambda>r.
           if \<not> rv_accepted r then
             raising (BadRequestException (or_default (rv_reason r) ''SMS balance exhausted''))
           else
             chain (deliver_reserved c gateway rt tenant d r cost) (\<lambda>_.
             returning \<lparr>sa_log_id = rv_log_id r, sa_balance_after = rv_balance_after r,
               sa_credit_cost = or_default (rv_credit_cost r) cost, sa_low_balance = rv_balance_after r \<le> 100\<rparr>)))))"

end
