(* ===== verification/Parent_Otp.thy ===== *)
theory Parent_Otp
  imports Sms_Service Billing_Service
begin

text \<open>
  The parents' login by a code (\<open>parent-portal-auth.service.ts\<close>, \<open>parent-portal-auth.repository.ts\<close> and the two
  lookup functions of \<open>integrations-schema.service.ts\<close>). The functions run as their definer, outside row level
  security, for a request that is not authenticated yet; their guard on the path holds on the routes that call them.
  Issuing the tokens and the session is a parameter.
\<close>

record portal_user =
  us_id :: uuid
  us_email :: string
  us_active :: bool
  us_display_name :: string
  us_phone_number_hash :: "string option"
  us_phone_number_last4 :: "string option"

record portal_membership =
  me_user_id :: uuid
  me_tenant_id :: string
  me_role_id :: uuid
  me_active :: bool
  me_created_at :: int

record portal_role =
  ro_id :: uuid
  ro_tenant_id :: string
  ro_code :: string

record otp_challenge =
  ot_id :: uuid
  ot_tenant_id :: string
  ot_user_id :: "uuid option"
  ot_phone_hash :: "string option"
  ot_phone_last4 :: "string option"
  ot_email :: "string option"
  ot_otp_hash :: string
  ot_purpose :: string
  ot_expires_at :: int
  ot_consumed_at :: "int option"
  ot_attempts :: int
  ot_created_at :: int

record portal_db = sms_db +
  po_users :: "portal_user list"
  po_memberships :: "portal_membership list"
  po_roles :: "portal_role list"
  po_challenges :: "otp_challenge list"

record parent_subject =
  ps_user_id :: uuid
  ps_tenant_id :: string
  ps_role_id :: uuid
  ps_role_code :: string
  ps_email :: string
  ps_display_name :: string
  ps_phone_number_hash :: "string option"
  ps_phone_number_last4 :: "string option"

section \<open>\<open>ParentPortalAuthRepository\<close>\<close>

definition before_authentication :: "runtime \<Rightarrow> unit result" where
  "before_authentication rt = guard (rt_user_id rt \<in> {[], AUTH_ANONYMOUS_USER_ID}) (PgError ''42501'' '''')"

text \<open>The joined rows of \<open>app.find_parent_auth_subject_for_otp\<close>; \<open>lower\<close> is the ASCII mapping.\<close>

definition parent_rows :: "'a portal_db_scheme \<Rightarrow> string \<Rightarrow> string option \<Rightarrow> (int \<times> parent_subject) list" where
  "parent_rows db identifier phone_hash =
     [(me_created_at m,
       \<lparr>ps_user_id = us_id u, ps_tenant_id = me_tenant_id m, ps_role_id = me_role_id m, ps_role_code = ro_code r,
        ps_email = us_email u, ps_display_name = us_display_name u, ps_phone_number_hash = us_phone_number_hash u,
        ps_phone_number_last4 = us_phone_number_last4 u\<rparr>).
        u \<leftarrow> po_users db, m \<leftarrow> po_memberships db, me_user_id m = us_id u \<and> me_active m,
        r \<leftarrow> po_roles db, ro_tenant_id r = me_tenant_id m \<and> ro_id r = me_role_id m \<and> ro_code r = ''parent'',
        us_active u \<and> (js_lower (us_email u) = js_lower identifier \<or>
          (phone_hash \<noteq> None \<and> us_phone_number_hash u = phone_hash))]"

definition find_parent_auth_subject ::
  "runtime \<Rightarrow> string \<Rightarrow> string option \<Rightarrow> 'a portal_db_scheme \<Rightarrow> parent_subject option result" where
  "find_parent_auth_subject rt identifier phone_hash db =
     and_then (before_authentication rt) (\<lambda>_.
     Inr (map_option snd (first_row (sort_key (\<lambda>x. - fst x) (parent_rows db identifier phone_hash)))))"

definition create_otp_challenge ::
  "runtime \<Rightarrow> parent_subject \<Rightarrow> string option \<Rightarrow> string option \<Rightarrow> string \<Rightarrow> int \<Rightarrow> 'a portal_db_scheme \<Rightarrow>
     (uuid \<times> 'a portal_db_scheme) result" where
  "create_otp_challenge rt subject phone_hash phone_last4 otp_hash expires_at db =
     and_then (rls_check rt (ps_tenant_id subject)) (\<lambda>_.
     let new_id = fresh_uuid (map ot_id (po_challenges db))
     in Inr (new_id, db\<lparr>po_challenges := po_challenges db @
       [\<lparr>ot_id = new_id, ot_tenant_id = ps_tenant_id subject, ot_user_id = Some (ps_user_id subject),
         ot_phone_hash = phone_hash, ot_phone_last4 = phone_last4, ot_email = Some (ps_email subject),
         ot_otp_hash = otp_hash, ot_purpose = ''parent_login'', ot_expires_at = expires_at, ot_consumed_at = None,
         ot_attempts = 0, ot_created_at = rt_now rt\<rparr>]\<rparr>))"

definition find_challenge_for_verify :: "runtime \<Rightarrow> string \<Rightarrow> 'a portal_db_scheme \<Rightarrow> otp_challenge option result" where
  "find_challenge_for_verify rt challenge_id db =
     and_then (pg_uuid challenge_id) (\<lambda>i.
     and_then (before_authentication rt) (\<lambda>_.
     Inr (select_first (\<lambda>c. ot_id c = i) (po_challenges db))))"

definition challenge_at :: "runtime \<Rightarrow> string \<Rightarrow> uuid \<Rightarrow> otp_challenge \<Rightarrow> bool" where
  "challenge_at rt tenant i c \<longleftrightarrow> in_session rt (ot_tenant_id c) \<and> ot_tenant_id c = tenant \<and> ot_id c = i"

definition open_challenge :: "runtime \<Rightarrow> string \<Rightarrow> uuid \<Rightarrow> otp_challenge \<Rightarrow> bool" where
  "open_challenge rt tenant i c \<longleftrightarrow> challenge_at rt tenant i c \<and> ot_consumed_at c = None \<and> rt_now rt < ot_expires_at c"

definition consume_challenge ::
  "runtime \<Rightarrow> string \<Rightarrow> uuid \<Rightarrow> 'a portal_db_scheme \<Rightarrow> (bool \<times> 'a portal_db_scheme) result" where
  "consume_challenge rt tenant i db =
     Inr (list_ex (open_challenge rt tenant i) (po_challenges db),
          db\<lparr>po_challenges := update_where (open_challenge rt tenant i) (\<lambda>c. c\<lparr>ot_consumed_at := Some (rt_now rt)\<rparr>)
            (po_challenges db)\<rparr>)"

definition increment_attempts ::
  "runtime \<Rightarrow> string \<Rightarrow> uuid \<Rightarrow> 'a portal_db_scheme \<Rightarrow> (unit \<times> 'a portal_db_scheme) result" where
  "increment_attempts rt tenant i db =
     and_then (guard (\<forall>c\<in>set (po_challenges db). challenge_at rt tenant i c \<longrightarrow> fits_integer (ot_attempts c + 1))
       (PgError ''22003'' '''')) (\<lambda>_.
     Inr ((), db\<lparr>po_challenges := update_where (challenge_at rt tenant i) (\<lambda>c. c\<lparr>ot_attempts := ot_attempts c + 1\<rparr>)
       (po_challenges db)\<rparr>))"

section \<open>\<open>ParentPortalAuthService\<close>\<close>

text \<open>\<open>activateTenantContext\<close> and the statements that set the session's variables.\<close>

definition activated :: "runtime \<Rightarrow> string \<Rightarrow> runtime" where
  "activated rt tenant = rt\<lparr>rt_tenant_id := Some tenant\<rparr>"

definition synchronize_session :: "(unit, 's) txn" where
  "synchronize_session = statement (\<lambda>db. Inr ((), db))"

definition pepper :: "runtime \<Rightarrow> string result" where
  "pepper rt =
     (if truthy (rt_config rt ''security.piiEncryptionKey'') then Inr (the (rt_config rt ''security.piiEncryptionKey''))
      else Inl (BadRequestException ''Parent portal security key is not configured''))"

definition hash_otp :: "runtime \<Rightarrow> string \<Rightarrow> string result" where
  "hash_otp rt v = and_then (pepper rt) (\<lambda>key. Inr (rt_sha256 rt (v @ '':'' @ key)))"

definition hash_phone :: "runtime \<Rightarrow> string \<Rightarrow> string result" where
  "hash_phone rt v = and_then (pepper rt) (\<lambda>key. Inr (rt_sha256 rt (filter is_digit v @ '':'' @ key)))"

definition is_probably_phone :: "string \<Rightarrow> bool" where
  "is_probably_phone v \<longleftrightarrow> 7 \<le> length (filter is_digit v) \<and> CHR ''@'' \<notin> set v"

text \<open>\<open>String(randomInt(100000, 999999))\<close>, for a drawn number.\<close>

definition generate_otp :: "nat \<Rightarrow> string" where
  "generate_otp n = show_nat n"

definition send_otp_best_effort ::
  "cipher \<Rightarrow> sms_gateway \<Rightarrow> runtime \<Rightarrow> parent_subject \<Rightarrow> string \<Rightarrow> string \<Rightarrow> (unit, 'a portal_db_scheme) txn" where
  "send_otp_best_effort c gateway rt subject otp_code identifier =
     (if \<not> is_probably_phone identifier \<or> identifier = [] \<or> \<not> truthy (ps_phone_number_hash subject) then returning ()
      else
        catching
          (chain (send_sms c gateway rt
             \<lparr>sd_recipient = identifier,
              sd_message = ''Your ShuleHub parent portal code is '' @ otp_code @ ''. It expires in 10 minutes.'',
              sd_message_type = Some ''parent_otp''\<rparr>) (\<lambda>_. returning ()))
          (\<lambda>_. returning ()))"

datatype delivery_channel = ViaSms | ViaEmail | ViaUnknown

record otp_answer =
  oa_challenge_id :: "uuid option"
  oa_delivery_channel :: delivery_channel

definition request_otp ::
  "cipher \<Rightarrow> sms_gateway \<Rightarrow> nat \<Rightarrow> runtime \<Rightarrow> string \<Rightarrow> (otp_answer, 'a portal_db_scheme) txn" where
  "request_otp c gateway drawn rt given =
     (let identifier = js_trim given
      in chain (computing (if is_probably_phone identifier then and_then (hash_phone rt identifier) (\<lambda>h. Inr (Some h)) else Inr None))
           (\<lambda>phone_hash.
         chain (reading (find_parent_auth_subject rt identifier phone_hash)) (\<lambda>found.
         case found of
           None \<Rightarrow> returning \<lparr>oa_challenge_id = None, oa_delivery_channel = ViaUnknown\<rparr>
         | Some subject \<Rightarrow>
             (let rt' = activated rt (ps_tenant_id subject); code = generate_otp drawn
              in chain synchronize_session (\<lambda>_.
                 chain (computing (hash_otp rt' code)) (\<lambda>otp_hash.
                 chain (statement (create_otp_challenge rt' subject (or_else (ps_phone_number_hash subject) phone_hash)
                   (or_else (ps_phone_number_last4 subject) (last4 identifier)) otp_hash (rt_clock rt' + 10 * 60 * 1000))) (\<lambda>new_id.
                 chain (send_otp_best_effort c gateway rt' subject code identifier) (\<lambda>_.
                 returning \<lparr>oa_challenge_id = Some new_id,
                   oa_delivery_channel = (if truthy (ps_phone_number_hash subject) then ViaSms else ViaEmail)\<rparr>))))))))"

text \<open>\<open>Date.parse(String(date))\<close>: the text of a date has no fraction of a second.\<close>

definition whole_seconds :: "int \<Rightarrow> int" where
  "whole_seconds ms = ms div 1000 * 1000"

definition verify_challenge ::
  "(parent_subject \<Rightarrow> 't result) \<Rightarrow> runtime \<Rightarrow> otp_challenge \<Rightarrow> uuid \<Rightarrow> string \<Rightarrow> (parent_subject \<times> 't, 'a portal_db_scheme) txn" where
  "verify_challenge open_session rt ch user otp_code =
     (let rt' = activated rt (ot_tenant_id ch)
      in chain synchronize_session (\<lambda>_.
         if ot_consumed_at ch \<noteq> None \<or> whole_seconds (ot_expires_at ch) < rt_clock rt' then
           raising (UnauthorizedException ''Verification code has expired'')
         else if 5 \<le> ot_attempts ch then raising (UnauthorizedException ''Verification attempts exceeded'')
         else
           chain (computing (hash_otp rt' (js_trim otp_code))) (\<lambda>h.
           if h \<noteq> ot_otp_hash ch then
             chain (statement (increment_attempts rt' (ot_tenant_id ch) (ot_id ch))) (\<lambda>_.
             raising (UnauthorizedException ''Invalid verification code''))
           else
             chain (reading (find_parent_auth_subject rt' (or_default (ot_email ch) []) (ot_phone_hash ch))) (\<lambda>found.
             case found of
               None \<Rightarrow> raising (UnauthorizedException ''Parent account is no longer active'')
             | Some subject \<Rightarrow>
                 if ps_user_id subject \<noteq> user \<or> ps_tenant_id subject \<noteq> ot_tenant_id ch then
                   raising (UnauthorizedException ''Parent account is no longer active'')
                 else
                   chain (statement (consume_challenge rt' (ot_tenant_id ch) (ot_id ch))) (\<lambda>consumed.
                   if \<not> consumed then raising (UnauthorizedException ''Verification code has expired'')
                   else chain (computing (open_session subject)) (\<lambda>t. returning (subject, t)))))))"

definition verify_otp ::
  "(parent_subject \<Rightarrow> 't result) \<Rightarrow> runtime \<Rightarrow> string \<Rightarrow> string \<Rightarrow> (parent_subject \<times> 't, 'a portal_db_scheme) txn" where
  "verify_otp open_session rt challenge_id otp_code =
     chain (reading (find_challenge_for_verify rt challenge_id)) (\<lambda>found.
     case found of
       None \<Rightarrow> raising (UnauthorizedException ''Invalid verification code'')
     | Some ch \<Rightarrow>
         (case ot_user_id ch of
            None \<Rightarrow> raising (UnauthorizedException ''Invalid verification code'')
          | Some user \<Rightarrow> verify_challenge open_session rt ch user otp_code))"

end
