(* ===== verification/Sms_Facts.thy ===== *)
theory Sms_Facts
  imports Parent_Otp Uuid_Facts
begin

text \<open>
  What the wallet's operations do to the three tables they write, and the two invariants over them: the balance is
  the sum of the transactions, and every message is charged as its status says. \<open>send_cases\<close> lists the ways a
  message ends.
\<close>

lemma chain_statement: "f s = Inr (x, s') \<Longrightarrow> chain (statement f) k (Some s) = k x (Some s')"
  by (simp add: chain_def statement_def)

lemma chain_refused: "f s = Inl e \<Longrightarrow> chain (statement f) k (Some s) = (Inl e, None)"
  by (simp add: chain_def statement_def)

lemma chain_reading: "f s = Inr x \<Longrightarrow> chain (reading f) k (Some s) = k x (Some s)"
  by (simp add: chain_def reading_def statement_def)

lemma chain_computing: "chain (computing (Inr x)) k st = k x st" "chain (computing (Inl e)) k st = (Inl e, st)"
  "chain (returning x) k st = k x st" "chain (raising e) k st = (Inl e, st)"
  by (simp_all add: chain_def txn_simps)

lemma chain_known: "m st = (Inr x, st1) \<Longrightarrow> chain m k st = k x st1" "m st = (Inl e, st1) \<Longrightarrow> chain m k st = (Inl e, st1)"
  by (simp_all add: chain_def)

lemma chain_assoc: "chain (chain m k) h st = chain m (\<lambda>x. chain (k x) h) st"
  by (simp add: chain_def split: prod.splits sum.splits)

lemma select_first_stronger: "select_first p xs = Some w \<Longrightarrow> q w \<Longrightarrow> (\<And>x. q x \<Longrightarrow> p x) \<Longrightarrow> select_first q xs = Some w"
  by (induction xs) (auto split: if_splits)

section \<open>Wallets and their transactions\<close>

definition credit_sum :: "string \<Rightarrow> wallet_entry list \<Rightarrow> int" where
  "credit_sum tenant es = sum_list (map wt_quantity (filter (\<lambda>e. wt_tenant_id e = tenant) es))"

definition wallets_ok :: "sms_wallet list \<Rightarrow> wallet_entry list \<Rightarrow> bool" where
  "wallets_ok ws es \<longleftrightarrow> distinct (map wl_tenant_id ws) \<and>
     list_all (\<lambda>w. wl_sms_balance w = credit_sum (wl_tenant_id w) es \<and> (wl_allow_negative_balance w \<or> 0 \<le> wl_sms_balance w)) ws \<and>
     list_all (\<lambda>e. list_ex (\<lambda>w. wl_tenant_id w = wt_tenant_id e) ws) es"

lemma credit_sum_snoc [simp]: "credit_sum t (es @ [e]) = credit_sum t es + (if wt_tenant_id e = t then wt_quantity e else 0)"
  by (simp add: credit_sum_def)

lemma wallets_ok_write:
  assumes ok: "wallets_ok ws es" and w: "w \<in> set ws" "p w" and p: "\<And>x. p x \<Longrightarrow> wl_tenant_id x = wl_tenant_id w"
    and f: "wl_tenant_id (f w) = wl_tenant_id w" "wl_sms_balance (f w) = wl_sms_balance w + wt_quantity e"
    and chk: "wallet_checks (f w) = Inr ()" and e: "wt_tenant_id e = wl_tenant_id w"
  shows "wallets_ok (update_where p f ws) (es @ [e])"
proof -
  have d: "distinct (map wl_tenant_id ws)" using ok by (simp add: wallets_ok_def)
  have only: "p x \<longleftrightarrow> x = w" if "x \<in> set ws" for x
    using d that w p by (auto simp: distinct_map dest: inj_onD)
  have u: "update_where p f ws = map (\<lambda>x. if x = w then f w else x) ws"
    unfolding update_where_def by (rule map_cong[OF refl]) (simp add: only)
  have other: "wl_tenant_id x \<noteq> wl_tenant_id w" if "x \<in> set ws" "x \<noteq> w" for x
    using d that w by (auto simp: distinct_map dest: inj_onD)
  have hx: "wl_tenant_id (if x = w then f w else x) = wl_tenant_id x" for x by (simp add: f(1))
  have m: "map wl_tenant_id (update_where p f ws) = map wl_tenant_id ws" unfolding u by (simp add: o_def hx)
  have ex: "list_ex (\<lambda>x. wl_tenant_id x = t) (update_where p f ws) \<longleftrightarrow> list_ex (\<lambda>x. wl_tenant_id x = t) ws" for t
    unfolding u by (simp only: list_ex_iff set_map bex_simps(7) hx)
  have neg: "wl_allow_negative_balance (f w) \<or> 0 \<le> wl_sms_balance (f w)"
    using chk by (auto simp: wallet_checks_def and_then_eq_Inr)
  show ?thesis unfolding wallets_ok_def
  proof (intro conjI)
    show "distinct (map wl_tenant_id (update_where p f ws))" using d m by simp
    show "list_all (\<lambda>w. wl_sms_balance w = credit_sum (wl_tenant_id w) (es @ [e]) \<and>
        (wl_allow_negative_balance w \<or> 0 \<le> wl_sms_balance w)) (update_where p f ws)"
      unfolding u list_all_iff using ok w f e other neg by (simp add: wallets_ok_def list_all_iff) (metis IntD1 IntD2 mem_Collect_eq)
    show "list_all (\<lambda>e. list_ex (\<lambda>w. wl_tenant_id w = wt_tenant_id e) (update_where p f ws)) (es @ [e])"
      unfolding list_all_iff ex using ok w(1) e by (auto simp: wallets_ok_def list_all_iff list_ex_iff)
  qed
qed

lemma wallet_ensured:
  assumes "get_or_create_wallet rt t db = Inr (w, db1)"
  shows "in_session rt t" and "w \<in> set (sm_wallets db1)" and "wl_tenant_id w = t"
    and "\<exists>ws. db1 = db\<lparr>sm_wallets := ws\<rparr> \<and> (wallets_ok (sm_wallets db) es \<longrightarrow> wallets_ok ws es)"
    and "select_first (wallet_at t) (sm_wallets db1) = Some w"
proof -
  have s: "in_session rt t" using assms by (auto simp: get_or_create_wallet_def rls_check_def and_then_eq_Inr)
  note c = assms[unfolded get_or_create_wallet_def rls_check_def]
  show "in_session rt t" by (rule s)
  have *: "w \<in> set (sm_wallets db1) \<and> wl_tenant_id w = t \<and> select_first (wallet_at t) (sm_wallets db1) = Some w \<and>
    (\<exists>ws. db1 = db\<lparr>sm_wallets := ws\<rparr> \<and> (wallets_ok (sm_wallets db) es \<longrightarrow> wallets_ok ws es))"
  proof (cases "select_first (wallet_at t) (sm_wallets db)")
    case (Some w')
    then have "w' \<in> set (sm_wallets db) \<and> wl_tenant_id w' = t" by (auto dest: select_first_Some simp: wallet_at_def)
    with Some c s show ?thesis by (auto intro!: exI[of _ "sm_wallets db"])
  next
    case None
    let ?w = "new_wallet rt t (fresh_uuid (map wl_id (sm_wallets db)))"
    have w: "w = ?w" "db1 = db\<lparr>sm_wallets := sm_wallets db @ [?w]\<rparr>" using None c s by (auto simp: Let_def)
    have none: "\<forall>x\<in>set (sm_wallets db). wl_tenant_id x \<noteq> t" using None by (simp add: select_first_None wallet_at_def)
    have "wallets_ok (sm_wallets db @ [?w]) es" if "wallets_ok (sm_wallets db) es"
    proof -
      have "filter (\<lambda>e. wt_tenant_id e = t) es = []"
        using that none by (auto simp: wallets_ok_def list_all_iff list_ex_iff filter_empty_conv)
      then show ?thesis using that none by (auto simp: wallets_ok_def new_wallet_def credit_sum_def list_all_iff)
    qed
    then have "\<exists>ws. db1 = db\<lparr>sm_wallets := ws\<rparr> \<and> (wallets_ok (sm_wallets db) es \<longrightarrow> wallets_ok ws es)"
      by (intro exI[of _ "sm_wallets db @ [?w]"]) (simp add: w(2))
    with w None show ?thesis by (simp add: select_first_append new_wallet_def wallet_at_def)
  qed
  then show "w \<in> set (sm_wallets db1)" "wl_tenant_id w = t"
    "\<exists>ws. db1 = db\<lparr>sm_wallets := ws\<rparr> \<and> (wallets_ok (sm_wallets db) es \<longrightarrow> wallets_ok ws es)"
    "select_first (wallet_at t) (sm_wallets db1) = Some w" by blast+
qed

lemma update_wallet_SomeD:
  assumes "update_wallet rt t cond f db = Inr (Some u, db')"
  obtains w where "w \<in> set (sm_wallets db)" "wl_tenant_id w = t" "in_session rt t" "cond w" "u = f w"
    "wallet_checks (f w) = Inr ()"
    "db' = db\<lparr>sm_wallets := update_where (\<lambda>w. in_session rt (wl_tenant_id w) \<and> wallet_at t w \<and> cond w) f (sm_wallets db)\<rparr>"
    "select_first (\<lambda>w. in_session rt (wl_tenant_id w) \<and> wallet_at t w \<and> cond w) (sm_wallets db) = Some w"
  using assms that
  by (fastforce simp: update_wallet_def Let_def and_then_eq_Inr wallet_at_def split: option.splits dest: select_first_Some)

lemma insert_entryD:
  assumes "insert_entry rt t k q b ref reason actor db = Inr (x, db')"
  obtains e where "db' = db\<lparr>sm_entries := sm_entries db @ [e]\<rparr>" "wt_tenant_id e = t" "wt_type e = k" "wt_quantity e = q"
    "wt_reference e = ref" "wt_balance_after e = b"
  using assms that by (fastforce simp: insert_entry_def and_then_eq_Inr)

lemma insert_sms_logD:
  assumes "insert_sms_log rt t i st failure db = Inr (x, db')"
  obtains l where "db' = db\<lparr>sm_logs := sm_logs db @ [l]\<rparr>" "x = fresh_uuid (map lg_id (sm_logs db))" "lg_id l = x"
    "lg_tenant_id l = t" "lg_status l = st" "lg_credit_cost l = ri_credit_cost i" "lg_failure_reason l = failure"
  using assms that by (fastforce simp: insert_sms_log_def and_then_eq_Inr Let_def)

section \<open>The ways a reservation ends\<close>

lemma spendable_otherwise: "\<not> over_limit cost w \<Longrightarrow> \<not> (wl_sms_balance w < cost \<and> \<not> wl_allow_negative_balance w) \<Longrightarrow> spendable cost w"
  by (auto simp: over_limit_def spendable_def split: option.splits)

lemma reserve_cases:
  assumes "reserve_sms_credits rt t i (Some db) = (r, Some db')"
  obtains (rejected) w db1 l v where "get_or_create_wallet rt t db = Inr (w, db1)"
      "db' = db1\<lparr>sm_logs := sm_logs db1 @ [l]\<rparr>" "lg_status l = LogRejected" "lg_tenant_id l = t"
      "lg_id l = fresh_uuid (map lg_id (sm_logs db))" "r = Inr v" "\<not> rv_accepted v" "rv_reason v \<noteq> None"
  | (accepted) w db1 l e v where "get_or_create_wallet rt t db = Inr (w, db1)"
      "db' = db1\<lparr>sm_wallets := update_where (\<lambda>w. in_session rt (wl_tenant_id w) \<and> wallet_at t w \<and> spendable (ri_credit_cost i) w)
           (spend_credits rt (ri_credit_cost i)) (sm_wallets db1),
         sm_logs := sm_logs db1 @ [l], sm_entries := sm_entries db1 @ [e]\<rparr>"
      "spendable (ri_credit_cost i) w" "wallet_checks (spend_credits rt (ri_credit_cost i) w) = Inr ()"
      "lg_status l = LogQueued" "lg_tenant_id l = t" "lg_id l = fresh_uuid (map lg_id (sm_logs db))"
      "lg_credit_cost l = ri_credit_cost i"
      "wt_tenant_id e = t" "wt_type e = WtDeduction" "wt_quantity e = - ri_credit_cost i"
      "wt_reference e = Some (uuid_text (lg_id l))" "wt_balance_after e = wl_sms_balance w - ri_credit_cost i"
      "r = Inr v" "rv_accepted v" "rv_log_id v = lg_id l" "rv_credit_cost v = Some (ri_credit_cost i)"
      "rv_balance_after v = wl_sms_balance w - ri_credit_cost i"
proof -
  obtain w db1 where g: "get_or_create_wallet rt t db = Inr (w, db1)"
    using assms by (auto simp: reserve_sms_credits_def Let_def chain_def statement_def split: sum.splits)
  have s: "in_session rt t" and w1: "wl_tenant_id w = t" and sel: "select_first (wallet_at t) (sm_wallets db1) = Some w"
    and ex: "\<exists>ws. db1 = db\<lparr>sm_wallets := ws\<rparr>"
    using wallet_ensured[OF g] by blast+
  have logs: "sm_logs db1 = sm_logs db" using ex by auto
  have eq: "(\<lambda>w. in_session rt (wl_tenant_id w) \<and> wallet_at t w) = wallet_at t" using s by (auto simp: wallet_at_def fun_eq_iff)
  have lock: "lock_wallet rt t db1 = Inr w" using sel by (simp add: lock_wallet_def eq map_provider_def)
  let ?cost = "ri_credit_cost i"
  have rej: ?thesis if "reject_message rt t i reason b (Some db1) = (r, Some db')" for reason b
  proof -
    from that obtain lid where l: "insert_sms_log rt t i LogRejected (Some reason) db1 = Inr (lid, db')"
      and r: "r = Inr \<lparr>rv_accepted = False, rv_reason = Some reason, rv_log_id = lid, rv_balance_after = b, rv_credit_cost = None\<rparr>"
      by (auto simp: reject_message_def chain_def statement_def returning_def split: sum.splits)
    from l obtain l where "db' = db1\<lparr>sm_logs := sm_logs db1 @ [l]\<rparr>" "lg_status l = LogRejected" "lg_tenant_id l = t"
      "lg_id l = fresh_uuid (map lg_id (sm_logs db1))" by (auto elim!: insert_sms_logD)
    with g r logs show ?thesis by (intro rejected[of w db1 l]) auto
  qed
  have run: "reserve_sms_credits rt t i (Some db) =
      (if over_limit ?cost w then reject_message rt t i ''SMS monthly limit exceeded'' (wl_sms_balance w)
       else if wl_sms_balance w < ?cost \<and> \<not> wl_allow_negative_balance w then
         reject_message rt t i ''SMS balance exhausted'' (wl_sms_balance w)
       else
         chain (statement (update_wallet rt t (spendable ?cost) (spend_credits rt ?cost))) (\<lambda>updated.
         case updated of
           None \<Rightarrow>
             chain (statement (get_or_create_wallet rt t)) (\<lambda>now.
             reject_message rt t i
               (if over_limit ?cost now then ''SMS monthly limit exceeded'' else ''SMS balance exhausted'') (wl_sms_balance now))
         | Some u \<Rightarrow>
             chain (statement (insert_sms_log rt t i LogQueued None)) (\<lambda>log_id.
             chain (statement (insert_entry rt t WtDeduction (- ?cost) (wl_sms_balance u) (Some (uuid_text log_id))
               (Some (or_default (ri_message_type i) ''sms_send'')) (ri_sent_by_user_id i))) (\<lambda>_.
             returning \<lparr>rv_accepted = True, rv_reason = None, rv_log_id = log_id, rv_balance_after = wl_sms_balance u,
               rv_credit_cost = Some ?cost\<rparr>)))) (Some db1)"
    by (simp add: reserve_sms_credits_def Let_def chain_statement[where f = "get_or_create_wallet rt t" and s = db and x = w and s' = db1, OF g]
      chain_reading[where f = "lock_wallet rt t" and s = db1 and x = w, OF lock])
  show ?thesis
  proof (cases "over_limit ?cost w \<or> wl_sms_balance w < ?cost \<and> \<not> wl_allow_negative_balance w")
    case True
    then show ?thesis using assms rej unfolding run by (auto split: if_splits)
  next
    case False
    then have sp: "spendable ?cost w" using spendable_otherwise by blast
    let ?p = "\<lambda>w. in_session rt (wl_tenant_id w) \<and> wallet_at t w \<and> spendable ?cost w"
    have sel_ok: "v = w" if "select_first ?p (sm_wallets db1) = Some v" for v
      using that select_first_stronger[OF sel, of ?p] sp s by (auto simp: wallet_at_def w1)
    have found: "\<exists>u. select_first ?p (sm_wallets db1) = Some u"
      using wallet_ensured(2)[OF g] s w1 sp by (intro select_first_exI[of w]) (auto simp: wallet_at_def)
    obtain o' db2 where o: "update_wallet rt t (spendable ?cost) (spend_credits rt ?cost) db1 = Inr (o', db2)"
      using assms False unfolding run by (auto simp: chain_def statement_def split: sum.splits if_splits)
    then obtain u where up: "update_wallet rt t (spendable ?cost) (spend_credits rt ?cost) db1 = Inr (Some u, db2)"
      using found by (auto simp: update_wallet_def Let_def and_then_eq_Inr)
    have "reserve_sms_credits rt t i (Some db) = chain (statement (insert_sms_log rt t i LogQueued None)) (\<lambda>log_id.
        chain (statement (insert_entry rt t WtDeduction (- ?cost) (wl_sms_balance u) (Some (uuid_text log_id))
          (Some (or_default (ri_message_type i) ''sms_send'')) (ri_sent_by_user_id i))) (\<lambda>_.
        returning \<lparr>rv_accepted = True, rv_reason = None, rv_log_id = log_id, rv_balance_after = wl_sms_balance u,
          rv_credit_cost = Some ?cost\<rparr>)) (Some db2)"
      using False by (auto simp: run chain_statement[where f = "update_wallet rt t (spendable ?cost) (spend_credits rt ?cost)", OF up])
    note run2 = assms[unfolded this]
    obtain lid db3 where lo: "insert_sms_log rt t i LogQueued None db2 = Inr (lid, db3)"
      and en: "insert_entry rt t WtDeduction (- ?cost) (wl_sms_balance u) (Some (uuid_text lid))
        (Some (or_default (ri_message_type i) ''sms_send'')) (ri_sent_by_user_id i) db3 = Inr ((), db')"
      and r: "r = Inr \<lparr>rv_accepted = True, rv_reason = None, rv_log_id = lid, rv_balance_after = wl_sms_balance u, rv_credit_cost = Some ?cost\<rparr>"
      using run2 by (auto simp: chain_def statement_def returning_def split: sum.splits)
    from up obtain w' where w': "w' \<in> set (sm_wallets db1)" "wl_tenant_id w' = t" "u = spend_credits rt ?cost w'"
      "wallet_checks (spend_credits rt ?cost w') = Inr ()"
      "db2 = db1\<lparr>sm_wallets := update_where ?p (spend_credits rt ?cost) (sm_wallets db1)\<rparr>"
      "select_first ?p (sm_wallets db1) = Some w'" by (rule update_wallet_SomeD) blast
    have w: "w' = w"
      using wallet_ensured(5)[OF g] w'(1,2,6) s select_first_Some[OF w'(6)] sel_ok[OF w'(6)] by simp
    from lo obtain l where l: "db3 = db2\<lparr>sm_logs := sm_logs db2 @ [l]\<rparr>" "lid = fresh_uuid (map lg_id (sm_logs db2))" "lg_id l = lid"
      "lg_tenant_id l = t" "lg_status l = LogQueued" "lg_credit_cost l = ?cost" by (rule insert_sms_logD) blast
    from en obtain e where e: "db' = db3\<lparr>sm_entries := sm_entries db3 @ [e]\<rparr>" "wt_tenant_id e = t" "wt_type e = WtDeduction"
      "wt_quantity e = - ?cost" "wt_reference e = Some (uuid_text lid)" "wt_balance_after e = wl_sms_balance u"
      by (rule insert_entryD) blast
    show ?thesis
      by (rule accepted[OF g, where l = l and e = e and v = "\<lparr>rv_accepted = True, rv_reason = None, rv_log_id = lid,
          rv_balance_after = wl_sms_balance u, rv_credit_cost = Some ?cost\<rparr>"])
        (use sp w' w l e r logs in \<open>simp_all add: spend_credits_def\<close>)
  qed
qed

section \<open>What a message is charged\<close>

definition is_charge :: "wallet_entry \<Rightarrow> bool" where
  "is_charge e \<longleftrightarrow> wt_type e = WtDeduction \<or> wt_type e = WtRefund"

definition charges_of :: "wallet_entry list \<Rightarrow> sms_log \<Rightarrow> (wallet_entry_type \<times> int) list" where
  "charges_of es l = map (\<lambda>e. (wt_type e, wt_quantity e))
     (filter (\<lambda>e. wt_tenant_id e = lg_tenant_id l \<and> is_charge e \<and> wt_reference e = Some (uuid_text (lg_id l))) es)"

text \<open>A rejected message is not charged, a failed one is charged and refunded, any other is charged once.\<close>

definition charged :: "wallet_entry list \<Rightarrow> sms_log \<Rightarrow> bool" where
  "charged es l \<longleftrightarrow> charges_of es l =
     (case lg_status l of
        LogRejected \<Rightarrow> []
      | LogFailed \<Rightarrow> [(WtDeduction, - lg_credit_cost l), (WtRefund, lg_credit_cost l)]
      | _ \<Rightarrow> [(WtDeduction, - lg_credit_cost l)])"

definition charges_ok :: "sms_log list \<Rightarrow> wallet_entry list \<Rightarrow> bool" where
  "charges_ok ls es \<longleftrightarrow> distinct (map lg_id ls) \<and> list_all (charged es) ls \<and>
     (\<forall>e\<in>set es. is_charge e \<longrightarrow> (\<forall>n < 2 ^ 128. wt_reference e = Some (uuid_text n) \<longrightarrow> n \<in> lg_id ` set ls))"

definition small_ids :: "sms_log list \<Rightarrow> bool" where
  "small_ids ls \<longleftrightarrow> list_all (\<lambda>l. lg_id l < 2 ^ 128) ls"

lemma charges_of_append: "charges_of (es @ new) l = charges_of es l @ charges_of new l"
  by (simp add: charges_of_def)

lemma charges_ok_message:
  assumes ok: "charges_ok ls es" and small: "small_ids (ls @ [l])" and new_id: "lg_id l \<notin> lg_id ` set ls"
    and new: "\<forall>e\<in>set new. wt_reference e = Some (uuid_text (lg_id l))" and ch: "charged new l"
  shows "charges_ok (ls @ [l]) (es @ new)"
proof -
  have n: "lg_id l < 2 ^ 128" and ns: "\<forall>x\<in>set ls. lg_id x < 2 ^ 128" using small by (auto simp: small_ids_def list_all_iff)
  have "charges_of es l = []"
    using ok n new_id by (auto simp: charges_of_def filter_empty_conv charges_ok_def)
  then have l: "charged (es @ new) l" using ch by (simp add: charged_def charges_of_append)
  have other: "charged (es @ new) x" if "x \<in> set ls" for x
  proof -
    have "lg_id x < 2 ^ 128" using ns that by blast
    moreover have "lg_id x \<noteq> lg_id l" using that new_id by (metis imageI)
    ultimately have "uuid_text (lg_id x) \<noteq> uuid_text (lg_id l)" using n uuid_text_inj by blast
    then have "charges_of new x = []" using new by (auto simp: charges_of_def filter_empty_conv)
    moreover have "charged es x" using ok that by (auto simp: charges_ok_def list_all_iff)
    ultimately show ?thesis by (simp add: charged_def charges_of_append)
  qed
  have "m \<in> lg_id ` set (ls @ [l])" if "e \<in> set (es @ new)" "is_charge e" "m < 2 ^ 128" "wt_reference e = Some (uuid_text m)" for e m
  proof (cases "e \<in> set es")
    case True
    then show ?thesis using ok that by (auto simp: charges_ok_def)
  next
    case False
    then have "uuid_text m = uuid_text (lg_id l)" using new that by auto
    then show ?thesis using uuid_text_inj n that(3) by auto
  qed
  then show ?thesis using ok l other new_id by (auto simp: charges_ok_def list_all_iff)
qed

section \<open>The ways a message ends\<close>

lemma default_provider_reads: "default_provider_for_dispatch c (Some db) =
    (case find_default_provider db of None \<Rightarrow> (Inr None, Some db)
     | Some p \<Rightarrow> (case dispatch_provider_of c p of Inl e \<Rightarrow> (Inl e, Some db) | Inr d \<Rightarrow> (Inr (Some d), Some db)))"
  by (simp add: default_provider_for_dispatch_def chain_def reading_def statement_def computing_def returning_def
      split: option.splits sum.splits)

lemma get_readiness_reads: "\<exists>r. get_readiness c (Some db) = (r, Some db)"
  by (auto simp: get_readiness_def chain_def default_provider_reads returning_def Let_def split: option.splits sum.splits)

lemma dispatch_reads: "\<exists>r. dispatch_sms c gateway i (Some db) = (r, Some db)"
  by (auto simp: dispatch_sms_def chain_def default_provider_reads returning_def raising_def computing_def Let_def
      split: option.splits sum.splits)

lemma refundD:
  assumes "refund_sms_credits rt t i cost reason actor (Some db) = (r, Some db')"
    and "\<forall>e\<in>set (sm_entries db). \<not> refund_of rt t (uuid_text i) e" and "w \<in> set (sm_wallets db)" and "wl_tenant_id w = t"
    and "in_session rt t"
  obtains u e where "u \<in> set (sm_wallets db)" "wl_tenant_id u = t" "wallet_checks (refund_credits rt cost u) = Inr ()"
    "db' = db\<lparr>sm_wallets := update_where (\<lambda>w. in_session rt (wl_tenant_id w) \<and> wallet_at t w \<and> True) (refund_credits rt cost) (sm_wallets db),
       sm_entries := sm_entries db @ [e]\<rparr>"
    "wt_tenant_id e = t" "wt_type e = WtRefund" "wt_quantity e = cost" "wt_reference e = Some (uuid_text i)" "r = Inr ()"
proof -
  let ?q = "\<lambda>w. in_session rt (wl_tenant_id w) \<and> wallet_at t w \<and> True"
  have no: "select_first (refund_of rt t (uuid_text i)) (sm_entries db) = None" using assms(2) by (simp add: select_first_None)
  have found: "\<exists>u. select_first ?q (sm_wallets db) = Some u"
    using assms(3-5) by (intro select_first_exI[of w]) (auto simp: wallet_at_def)
  let ?rest = "chain (statement (update_wallet rt t (\<lambda>_. True) (refund_credits rt cost))) (\<lambda>updated.
       statement (insert_entry rt t WtRefund cost (case updated of None \<Rightarrow> 0 | Some w \<Rightarrow> wl_sms_balance w)
         (Some (uuid_text i)) (Some reason) actor))"
  have "refund_sms_credits rt t i cost reason actor (Some db) = ?rest (Some db)"
    by (simp add: refund_sms_credits_def chain_reading[where x = None] no)
  note run = assms(1)[unfolded this]
  obtain o' db2 where o: "update_wallet rt t (\<lambda>_. True) (refund_credits rt cost) db = Inr (o', db2)"
    using run by (auto simp: chain_def statement_def split: sum.splits)
  then obtain v where up: "update_wallet rt t (\<lambda>_. True) (refund_credits rt cost) db = Inr (Some v, db2)"
    using found by (auto simp: update_wallet_def Let_def and_then_eq_Inr)
  then obtain u where u: "u \<in> set (sm_wallets db)" "wl_tenant_id u = t" "wallet_checks (refund_credits rt cost u) = Inr ()"
    "db2 = db\<lparr>sm_wallets := update_where ?q (refund_credits rt cost) (sm_wallets db)\<rparr>"
    by (rule update_wallet_SomeD) blast
  have "insert_entry rt t WtRefund cost (wl_sms_balance v) (Some (uuid_text i)) (Some reason) actor db2 = Inr ((), db') \<and> r = Inr ()"
    using run unfolding chain_statement[where f = "update_wallet rt t (\<lambda>_. True) (refund_credits rt cost)", OF up]
    by (auto simp: statement_def split: sum.splits)
  then obtain e where "db' = db2\<lparr>sm_entries := sm_entries db2 @ [e]\<rparr>" "wt_tenant_id e = t" "wt_type e = WtRefund"
    "wt_quantity e = cost" "wt_reference e = Some (uuid_text i)" "r = Inr ()" by (auto elim: insert_entryD)
  with u show ?thesis by (intro that[of u e]) simp_all
qed

definition marked_sent :: "runtime \<Rightarrow> uuid option \<Rightarrow> string option \<Rightarrow> sms_log \<Rightarrow> sms_log" where
  "marked_sent rt provider message_id r = r\<lparr>lg_status := LogSent, lg_provider_id := provider,
     lg_provider_message_id := message_id, lg_sent_at := Some (rt_now rt), lg_updated_at := rt_now rt\<rparr>"

definition marked_failed :: "runtime \<Rightarrow> string \<Rightarrow> sms_log \<Rightarrow> sms_log" where
  "marked_failed rt reason r = r\<lparr>lg_status := LogFailed, lg_failure_reason := Some reason, lg_updated_at := rt_now rt\<rparr>"

lemma deliver_cases:
  assumes run: "deliver_reserved c gateway rt t d v cost (Some db) = (r, Some db')"
    and no: "\<forall>e\<in>set (sm_entries db). \<not> refund_of rt t (uuid_text (rv_log_id v)) e"
    and w: "w \<in> set (sm_wallets db)" "wl_tenant_id w = t" and s: "in_session rt t"
  obtains (sent) x p m where "dispatch_sms c gateway (dispatch_input_of t d) (Some db) = (Inr x, Some db)" "r = Inr ()"
      "db' = db\<lparr>sm_logs := update_where (sms_log_at rt t (rv_log_id v)) (marked_sent rt p m) (sm_logs db)\<rparr>"
  | (failed) u e ex where "r = Inl (BadRequestException ''SMS provider could not send the message. Credits were not used.'')"
      "dispatch_sms c gateway (dispatch_input_of t d) (Some db) = (Inl ex, Some db)"
      "u \<in> set (sm_wallets db)" "wl_tenant_id u = t" "wallet_checks (refund_credits rt (or_default (rv_credit_cost v) cost) u) = Inr ()"
      "db' = db\<lparr>sm_wallets := update_where (\<lambda>w. in_session rt (wl_tenant_id w) \<and> wallet_at t w \<and> True)
           (refund_credits rt (or_default (rv_credit_cost v) cost)) (sm_wallets db),
         sm_logs := update_where (sms_log_at rt t (rv_log_id v)) (marked_failed rt (exn_message rt ex)) (sm_logs db),
         sm_entries := sm_entries db @ [e]\<rparr>"
      "wt_tenant_id e = t" "wt_type e = WtRefund" "wt_quantity e = or_default (rv_credit_cost v) cost"
      "wt_reference e = Some (uuid_text (rv_log_id v))"
proof -
  obtain rd where d: "dispatch_sms c gateway (dispatch_input_of t d) (Some db) = (rd, Some db)" using dispatch_reads by blast
  show ?thesis
  proof (cases rd)
    case (Inr x)
    let ?m = "mark_sms_log_sent rt t (rv_log_id v) (Some (ds_provider_id x))
       (Some (or_default (ds_provider_message_id x) (provider_code_text (ds_provider_code x) @ '':'' @ uuid_text (rv_log_id v))))"
    have "?m db = Inr ((), db') \<and> r = Inr ()"
      using run d Inr by (cases "?m db") (auto simp: deliver_reserved_def catching_def chain_def statement_def split: prod.splits)
    then show ?thesis using d Inr by (intro sent) (auto simp: mark_sms_log_sent_def and_then_eq_Inr marked_sent_def[abs_def])
  next
    case (Inl ex)
    let ?db1 = "db\<lparr>sm_logs := update_where (sms_log_at rt t (rv_log_id v)) (marked_failed rt (exn_message rt ex)) (sm_logs db)\<rparr>"
    let ?ref = "refund_sms_credits rt t (rv_log_id v) (or_default (rv_credit_cost v) cost) ''sms_dispatch_failed'' (acting_user rt)"
    have "mark_sms_log_failed rt t (rv_log_id v) (exn_message rt ex) db = Inr ((), ?db1)"
      by (simp add: mark_sms_log_failed_def marked_failed_def[abs_def])
    then have "deliver_reserved c gateway rt t d v cost (Some db) = chain ?ref
        (\<lambda>_. raising (BadRequestException ''SMS provider could not send the message. Credits were not used.'')) (Some ?db1)"
      using d Inl by (simp add: deliver_reserved_def catching_def chain_def[where m = "dispatch_sms c gateway (dispatch_input_of t d)"]
        chain_statement[where x = "()" and s' = ?db1])
    note run2 = run[unfolded this]
    obtain r1 where r1: "?ref (Some ?db1) = (r1, Some db')" using run2 by (auto simp: chain_def raising_def split: prod.splits sum.splits)
    have pre: "\<forall>e\<in>set (sm_entries ?db1). \<not> refund_of rt t (uuid_text (rv_log_id v)) e" "w \<in> set (sm_wallets ?db1)"
      using no w by simp_all
    obtain u e where "u \<in> set (sm_wallets ?db1)" "wl_tenant_id u = t"
      "wallet_checks (refund_credits rt (or_default (rv_credit_cost v) cost) u) = Inr ()"
      "db' = ?db1\<lparr>sm_wallets := update_where (\<lambda>w. in_session rt (wl_tenant_id w) \<and> wallet_at t w \<and> True)
           (refund_credits rt (or_default (rv_credit_cost v) cost)) (sm_wallets ?db1), sm_entries := sm_entries ?db1 @ [e]\<rparr>"
      "wt_tenant_id e = t" "wt_type e = WtRefund" "wt_quantity e = or_default (rv_credit_cost v) cost"
      "wt_reference e = Some (uuid_text (rv_log_id v))" "r1 = Inr ()"
      by (rule refundD[OF r1 pre w(2) s])
    moreover have "r = Inl (BadRequestException ''SMS provider could not send the message. Credits were not used.'')"
      using run2 r1 calculation(9) by (simp add: chain_def raising_def)
    ultimately show ?thesis using d Inl by (intro failed[of ex u e]) simp_all
  qed
qed

lemma update_where_new: "\<forall>x\<in>set ls. lg_id x \<noteq> lg_id l \<Longrightarrow> in_session rt (lg_tenant_id l) \<Longrightarrow> lg_tenant_id l = t \<Longrightarrow>
    update_where (sms_log_at rt t (lg_id l)) f (ls @ [l]) = ls @ [f l]"
  by (rule update_where_last) (auto simp: sms_log_at_def)

lemma wallets_ok_spent:
  assumes "wallets_ok ws es" and "w \<in> set ws" and "wl_tenant_id w = t" and "in_session rt t" and "spendable cost w"
    and "wallet_checks (spend_credits rt cost w) = Inr ()" and "wt_tenant_id e = t" and "wt_quantity e = - cost"
  shows "wallets_ok (update_where (\<lambda>w. in_session rt (wl_tenant_id w) \<and> wallet_at t w \<and> spendable cost w) (spend_credits rt cost) ws) (es @ [e])"
  by (rule wallets_ok_write[where w = w]) (use assms in \<open>auto simp: wallet_at_def spend_credits_def\<close>)

lemma wallets_ok_refunded:
  assumes "wallets_ok ws es" and "u \<in> set ws" and "wl_tenant_id u = t" and "in_session rt t"
    and "wallet_checks (refund_credits rt cost u) = Inr ()" and "wt_tenant_id e = t" and "wt_quantity e = cost"
  shows "wallets_ok (update_where (\<lambda>w. in_session rt (wl_tenant_id w) \<and> wallet_at t w \<and> True) (refund_credits rt cost) ws) (es @ [e])"
  by (rule wallets_ok_write[where w = u]) (use assms in \<open>auto simp: wallet_at_def refund_credits_def\<close>)

text \<open>Every entry names a log that exists, so the entries of a new message's log are its own.\<close>

definition no_entries :: "uuid \<Rightarrow> wallet_entry list \<Rightarrow> bool" where
  "no_entries i es \<longleftrightarrow> list_all (\<lambda>e. is_charge e \<longrightarrow> wt_reference e \<noteq> Some (uuid_text i)) es"

lemma send_cases:
  assumes run: "send_sms c gateway rt d (Some db) = (r, Some db')"
    and no: "no_entries (fresh_uuid (map lg_id (sm_logs db))) (sm_entries db)"
  obtains (untouched) e where "r = Inl e" "db' = db"
  | (message) t ws l new w where "rt_tenant_id rt = Some t" "in_session rt t"
      "db' = db\<lparr>sm_wallets := ws, sm_logs := sm_logs db @ [l], sm_entries := sm_entries db @ new\<rparr>"
      "lg_id l = fresh_uuid (map lg_id (sm_logs db))" "lg_tenant_id l = t"
      "\<forall>e\<in>set new. wt_tenant_id e = t \<and> is_charge e \<and> wt_reference e = Some (uuid_text (lg_id l))"
      "charged new l" "wallets_ok (sm_wallets db) (sm_entries db) \<Longrightarrow> wallets_ok ws (sm_entries db @ new)"
      "lg_status l = LogRejected \<and> (\<exists>e. r = Inl e) \<or> lg_status l = LogFailed \<and> (\<exists>e. r = Inl e) \<or>
       lg_status l = LogSent \<and> lg_credit_cost l = calculate_credit_cost (js_trim (sd_message d)) \<and>
         select_first (wallet_at t) (sm_wallets db @ [new_wallet rt t (fresh_uuid (map wl_id (sm_wallets db)))]) = Some w \<and>
         spendable (lg_credit_cost l) w \<and>
         r = Inr \<lparr>sa_log_id = lg_id l, sa_balance_after = wl_sms_balance w - lg_credit_cost l,
           sa_credit_cost = lg_credit_cost l, sa_low_balance = wl_sms_balance w - lg_credit_cost l \<le> 100\<rparr>"
proof -
  let ?i = "fresh_uuid (map lg_id (sm_logs db))"
  obtain rr where ready: "get_readiness c (Some db) = (rr, Some db)" using get_readiness_reads by blast
  show ?thesis
  proof (cases "\<exists>e. r = Inl e \<and> db' = db")
    case True
    then show ?thesis using untouched by blast
  next
    case False
    have tt: "truthy (rt_tenant_id rt)"
      using run False by (auto simp: send_sms_def chain_def computing_def require_sms_tenant_id_def split: if_splits)
    then obtain t where t: "rt_tenant_id rt = Some t" "require_sms_tenant_id rt = Inr t"
      by (auto simp: truthy_def require_sms_tenant_id_def split: option.splits)
    let ?ri = "reserve_input_of c rt t d" and ?cost = "calculate_credit_cost (js_trim (sd_message d))"
    have cost: "ri_credit_cost ?ri = ?cost" by (simp add: reserve_input_of_def Let_def)
    let ?rest = "\<lambda>v. if \<not> rv_accepted v then raising (BadRequestException (or_default (rv_reason v) ''SMS balance exhausted''))
           else chain (deliver_reserved c gateway rt t d v ?cost) (\<lambda>_.
             returning \<lparr>sa_log_id = rv_log_id v, sa_balance_after = rv_balance_after v,
               sa_credit_cost = or_default (rv_credit_cost v) ?cost, sa_low_balance = rv_balance_after v \<le> 100\<rparr>)"
    have start: "send_sms c gateway rt d = chain (computing (Inr t)) (\<lambda>tenant.
       chain (get_readiness c) (\<lambda>ready.
       if dr_status ready \<noteq> Configured then raising (BadRequestException (readiness_failure (dr_status ready)))
       else chain (reserve_sms_credits rt tenant (reserve_input_of c rt tenant d)) (\<lambda>v.
           if \<not> rv_accepted v then raising (BadRequestException (or_default (rv_reason v) ''SMS balance exhausted''))
           else chain (deliver_reserved c gateway rt tenant d v ?cost) (\<lambda>_.
             returning \<lparr>sa_log_id = rv_log_id v, sa_balance_after = rv_balance_after v,
               sa_credit_cost = or_default (rv_credit_cost v) ?cost, sa_low_balance = rv_balance_after v \<le> 100\<rparr>))))"
      unfolding send_sms_def t(2) Let_def ..
    obtain ready where rdy: "rr = Inr ready" "dr_status ready = Configured"
    proof (cases rr)
      case (Inl e)
      then show ?thesis using run False ready by (auto simp: start chain_computing chain_known(2)[where m = "get_readiness c", OF ready[unfolded Inl]])
    next
      case (Inr x)
      then show ?thesis using run False that
        by (cases "dr_status x = Configured") (auto simp: start chain_computing chain_known(1)[where m = "get_readiness c", OF ready[unfolded Inr]] raising_def)
    qed
    have run2: "chain (reserve_sms_credits rt t ?ri) ?rest (Some db) = (r, Some db')"
      using run by (simp add: start chain_computing chain_known(1)[where m = "get_readiness c", OF ready[unfolded rdy(1)]] rdy(2))
    obtain r1 db1 where res: "reserve_sms_credits rt t ?ri (Some db) = (r1, Some db1)"
    proof -
      obtain r1 st where "reserve_sms_credits rt t ?ri (Some db) = (r1, st)" by (cases "reserve_sms_credits rt t ?ri (Some db)")
      moreover have "st = None \<Longrightarrow> False"
      proof -
        assume st: "st = None"
        have ab: "stays_aborted (?rest v)" for v
          by (auto simp: deliver_reserved_def refund_sms_credits_def dispatch_sms_def default_provider_for_dispatch_def Let_def
            intro!: txn_keeps split: option.splits)
        show False
        proof (cases r1)
          case (Inl e)
          then show False using run2 calculation st by (simp add: chain_def)
        next
          case (Inr v)
          then have "?rest v None = (r, Some db')" using run2 calculation st by (simp add: chain_def)
          then show False using ab[of v] unfolding stays_aborted_def by (metis option.distinct(1) snd_conv)
        qed
      qed
      ultimately show ?thesis using that by (cases st) auto
    qed
    from res show ?thesis
    proof (cases rule: reserve_cases)
      case (rejected w db2 l v)
      obtain ws where ws: "db2 = db\<lparr>sm_wallets := ws\<rparr>" "wallets_ok (sm_wallets db) (sm_entries db) \<longrightarrow> wallets_ok ws (sm_entries db)"
        using wallet_ensured(4)[OF rejected(1)] by blast
      have "chain (reserve_sms_credits rt t ?ri) ?rest (Some db) = ?rest v (Some db1)"
        by (rule chain_known(1)[where m = "reserve_sms_credits rt t ?ri"]) (simp add: res rejected)
      then have st: "db' = db1" "r = Inl (BadRequestException (or_default (rv_reason v) ''SMS balance exhausted''))"
        using run2 rejected(7) by (simp_all add: raising_def)
      show ?thesis
        by (rule message[where ws = ws and l = l and new = "[]" and w = w, OF t(1) wallet_ensured(1)[OF rejected(1)]])
          (use st rejected ws in \<open>simp_all add: charged_def charges_of_def\<close>)
    next
      case (accepted w db2 l e v)
      obtain ws where ws: "db2 = db\<lparr>sm_wallets := ws\<rparr>" "wallets_ok (sm_wallets db) (sm_entries db) \<longrightarrow> wallets_ok ws (sm_entries db)"
        using wallet_ensured(4)[OF accepted(1)] by blast
      note s = wallet_ensured(1)[OF accepted(1)] and w = wallet_ensured(2,3)[OF accepted(1)]
      let ?p = "\<lambda>w. in_session rt (wl_tenant_id w) \<and> wallet_at t w \<and> spendable ?cost w"
      let ?ws1 = "update_where ?p (spend_credits rt ?cost) ws"
      have db1: "db1 = db\<lparr>sm_wallets := ?ws1, sm_logs := sm_logs db @ [l], sm_entries := sm_entries db @ [e]\<rparr>"
        using accepted(2) ws(1) cost by simp
      have spent: "wallets_ok ?ws1 (sm_entries db @ [e])" if "wallets_ok (sm_wallets db) (sm_entries db)"
        using wallets_ok_spent[OF _ w s, of _ ?cost] that ws accepted cost by simp
      have run3: "chain (deliver_reserved c gateway rt t d v ?cost) (\<lambda>_.
             returning \<lparr>sa_log_id = rv_log_id v, sa_balance_after = rv_balance_after v,
               sa_credit_cost = or_default (rv_credit_cost v) ?cost, sa_low_balance = rv_balance_after v \<le> 100\<rparr>) (Some db1) = (r, Some db')"
        using run2 accepted(15) chain_known(1)[where m = "reserve_sms_credits rt t ?ri" and k = ?rest, OF res[unfolded accepted(14)]] by simp
      obtain r2 where del: "deliver_reserved c gateway rt t d v ?cost (Some db1) = (r2, Some db')"
        using run3 by (auto simp: chain_def returning_def split: prod.splits sum.splits)
      have none: "\<forall>x\<in>set (sm_entries db1). \<not> refund_of rt t (uuid_text (rv_log_id v)) x"
        using no accepted(7,10,16) by (auto simp: db1 no_entries_def list_all_iff refund_of_def is_charge_def)
      have w1: "spend_credits rt ?cost w \<in> set (sm_wallets db1)" "wl_tenant_id (spend_credits rt ?cost w) = t"
        using w accepted(3) cost s ws by (auto simp: db1 set_update_where spend_credits_def wallet_at_def)
      have lid: "rv_log_id v = lg_id l" "\<forall>x\<in>set (sm_logs db). lg_id x \<noteq> lg_id l"
        using accepted(7,16) fresh_uuid_notin[of "map lg_id (sm_logs db)"] by (simp, metis imageI set_map)
      have up: "update_where (sms_log_at rt t (lg_id l)) f (sm_logs db1) = sm_logs db @ [f l]" for f
        using update_where_new[OF lid(2)] s accepted(6) by (simp add: db1)
      from del none w1 s show ?thesis
      proof (cases rule: deliver_cases)
        case (sent x p m)
        have r: "r = Inr \<lparr>sa_log_id = rv_log_id v, sa_balance_after = rv_balance_after v,
               sa_credit_cost = or_default (rv_credit_cost v) ?cost, sa_low_balance = rv_balance_after v \<le> 100\<rparr>"
          using run3 del sent(2) by (simp add: chain_def returning_def)
        have sel: "select_first (wallet_at t) (sm_wallets db @ [new_wallet rt t (fresh_uuid (map wl_id (sm_wallets db)))]) = Some w"
          using accepted(1) s by (auto simp: get_or_create_wallet_def rls_check_def select_first_append new_wallet_def wallet_at_def Let_def
            split: option.splits)
        show ?thesis
          by (rule message[where ws = ?ws1 and l = "marked_sent rt p m l" and new = "[e]" and w = w, OF t(1) s])
            (use sent(3) accepted(3-) spent lid(1) up r sel cost in
              \<open>simp_all add: db1 marked_sent_def charged_def charges_of_def is_charge_def or_default_def\<close>)
      next
        case (failed u e' ex)
        have r: "\<exists>e. r = Inl e" using run3 del failed(1) by (auto simp: chain_def)
        let ?q = "\<lambda>w. in_session rt (wl_tenant_id w) \<and> wallet_at t w \<and> True"
        let ?ws2 = "update_where ?q (refund_credits rt ?cost) ?ws1"
        have c: "or_default (rv_credit_cost v) ?cost = ?cost" using accepted(17) cost by (simp add: or_default_def)
        have "wallets_ok ?ws2 ((sm_entries db @ [e]) @ [e'])" if "wallets_ok (sm_wallets db) (sm_entries db)"
          by (rule wallets_ok_refunded[OF spent[OF that], where u = u and t = t])
            (use failed s c in \<open>simp_all add: db1\<close>)
        then show ?thesis
          by (intro message[where ws = ?ws2 and l = "marked_failed rt (exn_message rt ex) l" and new = "[e, e']" and w = w, OF t(1) s])
            (use failed accepted(3-) lid(1) up r cost c in
              \<open>simp_all add: db1 marked_failed_def charged_def charges_of_def is_charge_def\<close>)
      qed
    qed
  qed
qed

end
