(* ===== verification/Sms_Runs.thy ===== *)
theory Sms_Runs
  imports Sms_Facts
begin

text \<open>
  Runs of requests on the integrations' tables (\<open>portal_run\<close>), each in its own transaction, and what they keep: the
  wallet and charge invariants of \<open>Sms_Facts\<close>, the challenges of the parents' login, and the tables that an
  operation does not write.
\<close>

datatype portal_op =
    SendSms send_sms_dto
  | GetWallet
  | RequestPurchase int "string option"
  | AdjustWallet cte_outcome string int string "string option"
  | CreateProvider create_provider_dto
  | UpdateProvider string update_provider_dto
  | SetDefaultProvider string
  | TestProvider string
  | RequestOtp nat string
  | VerifyOtp string string

record portal_env =
  en_cipher :: cipher
  en_gateway :: sms_gateway
  en_runtime :: runtime
  en_open_session :: "parent_subject \<Rightarrow> unit result"

fun portal_step :: "portal_env \<Rightarrow> portal_op \<Rightarrow> 'a portal_db_scheme \<Rightarrow> 'a portal_db_scheme" where
  "portal_step v (SendSms d) db = snd (request (send_sms (en_cipher v) (en_gateway v) (en_runtime v) d) db)"
| "portal_step v GetWallet db = snd (request (get_sms_wallet (en_runtime v)) db)"
| "portal_step v (RequestPurchase n note) db = snd (request (create_sms_purchase_request (en_runtime v) n note) db)"
| "portal_step v (AdjustWallet out tenant n reason reference) db =
     snd (request (adjust_wallet out (en_runtime v) tenant n reason reference None) db)"
| "portal_step v (CreateProvider d) db = snd (request (create_sms_provider (en_cipher v) (en_runtime v) d) db)"
| "portal_step v (UpdateProvider i d) db = snd (request (update_sms_provider (en_cipher v) (en_runtime v) i d) db)"
| "portal_step v (SetDefaultProvider i) db = snd (request (set_default_sms_provider (en_cipher v) (en_runtime v) i) db)"
| "portal_step v (TestProvider i) db = snd (request (test_sms_provider (en_cipher v) (en_runtime v) i) db)"
| "portal_step v (RequestOtp n identifier) db =
     snd (request (request_otp (en_cipher v) (en_gateway v) n (en_runtime v) identifier) db)"
| "portal_step v (VerifyOtp i code) db = snd (request (verify_otp (en_open_session v) (en_runtime v) i code) db)"

definition portal_run :: "(portal_env \<times> portal_op) list \<Rightarrow> 'a portal_db_scheme \<Rightarrow> 'a portal_db_scheme" where
  "portal_run ss db = fold (\<lambda>(v, a). portal_step v a) ss db"

lemma portal_run_simps [simp]: "portal_run [] db = db" "portal_run ((v, a) # ss) db = portal_run ss (portal_step v a db)"
  by (simp_all add: portal_run_def)

lemma portal_run_keeps:
  assumes "\<And>v a db. (v, a) \<in> set ss \<Longrightarrow> P db \<Longrightarrow> P (portal_step v a db)" and "P db"
  shows "P (portal_run ss db)"
  using assms by (induction ss arbitrary: db) (auto simp: portal_run_def)

section \<open>Statements that leave a view alone\<close>

text \<open>Lifting what the statements keep to the operations; \<open>view\<close> is the part of the tables they do not write.\<close>

lemma keeps_view: "(\<And>s x s'. f s = Inr (x, s') \<Longrightarrow> view s' = view s) \<Longrightarrow> keeps (\<lambda>s. view s = V) (statement f)"
  by (rule keeps_statement) simp

definition books :: "'a sms_db_scheme \<Rightarrow> sms_wallet list \<times> sms_log list \<times> wallet_entry list" where
  "books db = (sm_wallets db, sm_logs db, sm_entries db)"

text \<open>The operations on providers.\<close>

lemma provider_ops_keep:
  assumes "\<And>db ps. view (db\<lparr>sm_providers := ps\<rparr>) = view db" and "\<And>db ls. view (db\<lparr>sm_integration_logs := ls\<rparr>) = view db"
  shows "keeps (\<lambda>db. view db = V) (create_sms_provider c rt d)" (is ?a)
    and "keeps (\<lambda>db. view db = V) (update_sms_provider c rt i u)" (is ?b)
    and "keeps (\<lambda>db. view db = V) (set_default_sms_provider c rt i)" (is ?c)
    and "keeps (\<lambda>db. view db = V) (test_sms_provider c rt i)" (is ?d)
proof -
  have log: "keeps (\<lambda>db. view db = V) (safe_platform_log rt op st)" "stays_aborted (safe_platform_log rt op st)" for op st
    unfolding safe_platform_log_def
    by (intro txn_keeps keeps_view; auto simp: append_platform_log_def and_then_eq_Inr assms)+
  have clear: "keeps (\<lambda>db. view db = V) (statement (\<lambda>db. Inr ((), clear_default_provider rt db)))"
    by (rule keeps_view) (auto simp: clear_default_provider_def assms)
  show ?a unfolding create_sms_provider_def create_provider_row_def
    by (auto intro!: txn_keeps log clear keeps_view split: option.splits
      simp: upsert_provider_def and_then_eq_Inr Let_def assms)
  show ?b unfolding update_sms_provider_def update_provider_row_def
    by (auto intro!: txn_keeps log keeps_view split: option.splits
      simp: update_provider_where_def and_then_eq_Inr Let_def assms)
  show ?c unfolding set_default_sms_provider_def set_default_provider_row_def
    by (auto intro!: txn_keeps log clear keeps_view split: option.splits
      simp: update_provider_where_def and_then_eq_Inr Let_def assms)
  show ?d unfolding test_sms_provider_def
    by (auto intro!: txn_keeps log keeps_view split: option.splits simp: mark_provider_test_def assms)
qed

text \<open>The operations on wallets and messages.\<close>

lemma get_or_create_keeps:
  "(\<And>db x. P db \<Longrightarrow> P (db\<lparr>sm_wallets := x\<rparr>)) \<Longrightarrow> P db \<Longrightarrow> get_or_create_wallet rt t db = Inr (w, db') \<Longrightarrow> P db'"
  by (auto simp: get_or_create_wallet_def and_then_eq_Inr Let_def split: option.splits)

lemma update_wallet_keeps:
  "(\<And>db x. P db \<Longrightarrow> P (db\<lparr>sm_wallets := x\<rparr>)) \<Longrightarrow> P db \<Longrightarrow> update_wallet rt t p f db = Inr (w, db') \<Longrightarrow> P db'"
  by (auto simp: update_wallet_def and_then_eq_Inr Let_def split: option.splits)

lemma insert_entry_keeps:
  "(\<And>db x. P db \<Longrightarrow> P (db\<lparr>sm_entries := x\<rparr>)) \<Longrightarrow> P db \<Longrightarrow>
     insert_entry rt t k q b ref reason actor db = Inr (w, db') \<Longrightarrow> P db'"
  by (auto simp: insert_entry_def and_then_eq_Inr)

lemma wallet_ops_keep:
  fixes P :: "'a sms_db_scheme \<Rightarrow> bool"
  assumes w: "\<And>db x. P db \<Longrightarrow> P (db\<lparr>sm_wallets := x\<rparr>)" and e: "\<And>db x. P db \<Longrightarrow> P (db\<lparr>sm_entries := x\<rparr>)"
    and l: "\<And>db l. P db \<Longrightarrow> lg_id l = fresh_uuid (map lg_id (sm_logs db)) \<Longrightarrow> P (db\<lparr>sm_logs := sm_logs db @ [l]\<rparr>)"
    and m: "\<And>db p f. P db \<Longrightarrow> (\<And>r. lg_id (f r) = lg_id r) \<Longrightarrow> P (db\<lparr>sm_logs := update_where p f (sm_logs db)\<rparr>)"
  shows "keeps P (send_sms c gateway rt d)" (is ?a)
    and "keeps P (adjust_wallet out rt t n reason reference actor)" (is ?b)
    and "keeps P (get_sms_wallet rt)" (is ?d)
proof -
  have g: "keeps P (statement (get_or_create_wallet rt t))" for t
    by (rule keeps_statement) (erule get_or_create_keeps[rotated], assumption, erule w)
  have u: "keeps P (statement (update_wallet rt t p f))" for t p f
    by (rule keeps_statement) (erule update_wallet_keeps[rotated], assumption, erule w)
  have i: "keeps P (statement (insert_entry rt t k q b ref reason actor))" for t k q b ref reason actor
    by (rule keeps_statement) (erule insert_entry_keeps[rotated], assumption, erule e)
  have o': "keeps P (statement (insert_sms_log rt t j st failure))" for t j st failure
    by (rule keeps_statement) (auto elim!: insert_sms_logD intro!: l)
  have rej: "keeps P (reject_message rt t j reason b)" "stays_aborted (reject_message rt t j reason b)" for t j reason b
    unfolding reject_message_def by (intro txn_keeps o')+
  have res: "keeps P (reserve_sms_credits rt t j)" "stays_aborted (reserve_sms_credits rt t j)" for t j
    unfolding reserve_sms_credits_def Let_def by (auto intro!: txn_keeps g u i o' rej split: option.splits)
  have def: "keeps P (default_provider_for_dispatch c)"
    "stays_aborted (default_provider_for_dispatch c :: (dispatch_provider option, 'a sms_db_scheme) txn)"
    unfolding default_provider_for_dispatch_def by (auto intro!: txn_keeps split: option.splits)
  have dis: "keeps P (dispatch_sms c gateway j)"
    "stays_aborted (dispatch_sms c gateway j :: (dispatch_result, 'a sms_db_scheme) txn)" for j
    unfolding dispatch_sms_def by (auto intro!: txn_keeps def simp: Let_def split: option.splits)
  have rdy: "keeps P (get_readiness c)" "stays_aborted (get_readiness c :: (dispatch_readiness, 'a sms_db_scheme) txn)"
    unfolding get_readiness_def by (auto intro!: txn_keeps def simp: Let_def split: option.splits)
  have sent: "keeps P (statement (mark_sms_log_sent rt t j p mi))" for t j p mi
    by (rule keeps_statement) (auto simp: mark_sms_log_sent_def and_then_eq_Inr intro!: m)
  have fail: "keeps P (statement (mark_sms_log_failed rt t j mi))" for t j mi
    by (rule keeps_statement) (auto simp: mark_sms_log_failed_def intro!: m)
  have ref: "keeps P (refund_sms_credits rt t j cost reason actor)"
    "stays_aborted (refund_sms_credits rt t j cost reason actor :: (unit, 'a sms_db_scheme) txn)" for t j cost reason actor
    unfolding refund_sms_credits_def by (auto intro!: txn_keeps u i)
  have del: "keeps P (deliver_reserved c gateway rt t d v cost)"
    "stays_aborted (deliver_reserved c gateway rt t d v cost :: (unit, 'a sms_db_scheme) txn)" for t v cost
    unfolding deliver_reserved_def by (auto intro!: txn_keeps dis sent fail ref)
  show ?a unfolding send_sms_def by (auto intro!: txn_keeps rdy res del simp: Let_def)
  show ?d unfolding get_sms_wallet_def by (intro txn_keeps g)
  show ?b unfolding adjust_wallet_def
  proof (intro txn_keeps keeps_statement)
    fix s x s' assume p: "P s" and "adjust_statement out rt t n reason reference actor s = Inr (x, s')"
    moreover have "P db2" if "get_or_create_wallet rt t s = Inr (y, db2)" for y db2
      by (rule get_or_create_keeps[where P = P, OF w p that])
    moreover have up: "P db2" if "update_wallet rt t (\<lambda>_. True) (add_credits rt n) s = Inr (y, db2)" for y db2
      by (rule update_wallet_keeps[where P = P, OF w p that])
    moreover have "P db3" if "update_wallet rt t (\<lambda>_. True) (add_credits rt n) s = Inr (y, db2)"
      "insert_entry rt t k n b reference r actor db2 = Inr (z, db3)" for y db2 k b r z db3
      by (rule insert_entry_keeps[where P = P, OF e up[OF that(1)] that(2)])
    ultimately show "P s'"
      by (auto simp: adjust_statement_def and_then_eq_Inr split: option.splits cte_outcome.splits)
  qed
qed

lemma aborted_send [txn_keeps]: "stays_aborted (send_sms c gateway rt d)"
  by (auto simp: send_sms_def reserve_sms_credits_def reject_message_def deliver_reserved_def dispatch_sms_def get_readiness_def
    default_provider_for_dispatch_def refund_sms_credits_def Let_def intro!: txn_keeps split: option.splits)

lemma small_ops_keep:
  assumes "\<And>db x. view (db\<lparr>sm_requests := x\<rparr>) = view db"
  shows "keeps (\<lambda>db. view db = V) (create_sms_purchase_request rt n note)"
  unfolding create_sms_purchase_request_def
  by (intro txn_keeps keeps_view) (auto simp: create_purchase_request_row_def and_then_eq_Inr Let_def assms)

section \<open>The wallet invariant\<close>

definition sms_inv :: "'a sms_db_scheme \<Rightarrow> bool" where
  "sms_inv db \<longleftrightarrow> (fresh_uuid (map lg_id (sm_logs db)) < 2 ^ 128 \<longrightarrow>
     wallets_ok (sm_wallets db) (sm_entries db) \<and> charges_ok (sm_logs db) (sm_entries db))"

lemma sms_inv_books: "books db' = books db \<Longrightarrow> sms_inv db' = sms_inv db"
  by (simp add: sms_inv_def books_def)

lemma fresh_uuid_above: "x \<in> set xs \<Longrightarrow> x < fresh_uuid xs"
  using fold_max_ge[of x xs 0] by (simp add: fresh_uuid_def)

lemma fresh_uuid_snoc: "fresh_uuid (xs @ [fresh_uuid xs]) = Suc (fresh_uuid xs)"
proof -
  have "fold max (xs @ [n]) 0 = max n (fold max xs 0)" for n by simp
  then show ?thesis by (simp add: fresh_uuid_def)
qed

lemma sms_inv_send: "keeps sms_inv (send_sms c gateway rt d)"
  unfolding keeps_def
proof (intro allI impI)
  fix db :: "'a sms_db_scheme" assume inv: "sms_inv db"
  obtain r st where run: "send_sms c gateway rt d (Some db) = (r, st)" by (cases "send_sms c gateway rt d (Some db)")
  show "pred_option sms_inv (snd (send_sms c gateway rt d (Some db)))"
  proof (cases st)
    case (Some db')
    have "sms_inv db'"
    proof (cases "fresh_uuid (map lg_id (sm_logs db)) < 2 ^ 128")
      case True
      then have ok: "wallets_ok (sm_wallets db) (sm_entries db)" "charges_ok (sm_logs db) (sm_entries db)"
        using inv by (simp_all add: sms_inv_def)
      have "no_entries (fresh_uuid (map lg_id (sm_logs db))) (sm_entries db)"
        using ok(2) True fresh_uuid_notin[of "map lg_id (sm_logs db)"]
        by (auto simp: no_entries_def charges_ok_def list_all_iff simp del: fresh_uuid_notin)
      with run[unfolded Some] show ?thesis
      proof (cases rule: send_cases)
        case untouched
        with inv show ?thesis by simp
      next
        case (message t ws l new w)
        have "small_ids (sm_logs db @ [l])"
          using True message(4) less_trans[OF fresh_uuid_above True] by (auto simp: small_ids_def list_all_iff)
        moreover have "lg_id l \<notin> lg_id ` set (sm_logs db)"
          using message(4) fresh_uuid_notin[of "map lg_id (sm_logs db)"] by (simp del: fresh_uuid_notin)
        ultimately have "charges_ok (sm_logs db @ [l]) (sm_entries db @ new)"
          using charges_ok_message[OF ok(2), of l new] message(6,7) by blast
        then show ?thesis using message(3) message(8)[OF ok(1)] by (simp add: sms_inv_def)
      qed
    next
      case False
      let ?P = "\<lambda>x. 2 ^ 128 \<le> fresh_uuid (map lg_id (sm_logs x))"
      have "keeps ?P (send_sms c gateway rt d)"
        by (rule wallet_ops_keep) (simp_all add: fresh_uuid_snoc update_where_map_key)
      then have "?P db'" using keepsD[where st = "Some db", OF _ aborted_send _ run] Some False by fastforce
      then show ?thesis by (simp add: sms_inv_def)
    qed
    then show ?thesis by (simp add: run Some)
  qed (simp add: run)
qed

lemma keeps_books:
  assumes "\<And>V. keeps (\<lambda>db. books db = V) m"
  shows "keeps sms_inv m"
  unfolding keeps_def
proof (intro allI impI)
  fix s :: "'a sms_db_scheme" assume inv: "sms_inv s"
  have k: "pred_option (\<lambda>db. books db = books s) (snd (m (Some s)))" using assms[of "books s"] unfolding keeps_def by blast
  show "pred_option sms_inv (snd (m (Some s)))"
  proof (cases "snd (m (Some s))")
    case (Some s')
    then have "books s' = books s" using k by simp
    then show ?thesis using inv sms_inv_books[of s' s] by (simp add: Some)
  qed simp
qed

lemma books_ignores: "books (db\<lparr>sm_providers := ps\<rparr>) = books db" "books (db\<lparr>sm_integration_logs := ls\<rparr>) = books db"
  "books (db\<lparr>sm_requests := rs\<rparr>) = books db"
  by (simp_all add: books_def)

lemma sms_inv_small_ops:
  "keeps sms_inv (create_sms_provider c rt pd)" "keeps sms_inv (update_sms_provider c rt i u)"
  "keeps sms_inv (set_default_sms_provider c rt i)" "keeps sms_inv (test_sms_provider c rt i)"
  "keeps sms_inv (create_sms_purchase_request rt n note)"
  by (intro keeps_books provider_ops_keep small_ops_keep books_ignores)+

lemma sms_inv_wallets: "sms_inv db \<Longrightarrow> get_or_create_wallet rt t db = Inr (w, db') \<Longrightarrow> sms_inv db'"
  using wallet_ensured(4)[of rt t db w db' "sm_entries db"] by (auto simp: sms_inv_def)

lemma sms_inv_get: "keeps sms_inv (get_sms_wallet rt)"
  unfolding get_sms_wallet_def by (intro txn_keeps keeps_statement) (erule sms_inv_wallets)

text \<open>A reference of the platform owner's that is not the id of a log, so that an adjustment cannot pass for a charge.\<close>

definition own_reference :: "string option \<Rightarrow> bool" where
  "own_reference r \<longleftrightarrow> (case r of None \<Rightarrow> True | Some s \<Rightarrow> \<not> (\<exists>n. s = uuid_text n))"

lemma charges_ok_other: "charges_ok ls es \<Longrightarrow> own_reference (wt_reference e) \<Longrightarrow> charges_ok ls (es @ [e])"
proof -
  assume ok: "charges_ok ls es" and own: "own_reference (wt_reference e)"
  have ne: "wt_reference e \<noteq> Some (uuid_text n)" for n using own by (auto simp: own_reference_def)
  then have "charges_of [e] l = []" for l by (simp add: charges_of_def)
  with ok ne show ?thesis by (auto simp: charges_ok_def charged_def charges_of_append list_all_iff)
qed

lemma sms_inv_adjust:
  assumes "own_reference reference"
  shows "keeps sms_inv (adjust_wallet out rt t n reason reference actor)"
  unfolding adjust_wallet_def
proof (intro txn_keeps keeps_statement)
  fix s :: "'a sms_db_scheme" and x s' assume inv: "sms_inv s" and a: "adjust_statement out rt t n reason reference actor s = Inr (x, s')"
  have same: "s' = s" if "update_wallet rt t (\<lambda>_. True) (add_credits rt n) s = Inr (None, s')"
    using that by (auto simp: update_wallet_def Let_def and_then_eq_Inr split: option.splits)
  have entry: "sms_inv s'" if up: "update_wallet rt t (\<lambda>_. True) (add_credits rt n) s = Inr (Some u, s1)"
    and en: "insert_entry rt t k n b reference r actor s1 = Inr (z, s')" for u s1 k b r z
  proof -
    let ?p = "\<lambda>w. in_session rt (wl_tenant_id w) \<and> wallet_at t w \<and> True"
    obtain w where w: "w \<in> set (sm_wallets s)" "wl_tenant_id w = t" "in_session rt t" "wallet_checks (add_credits rt n w) = Inr ()"
      "s1 = s\<lparr>sm_wallets := update_where ?p (add_credits rt n) (sm_wallets s)\<rparr>"
      by (rule update_wallet_SomeD[OF up]) blast
    obtain e where e: "s' = s1\<lparr>sm_entries := sm_entries s1 @ [e]\<rparr>" "wt_tenant_id e = t" "wt_quantity e = n" "wt_reference e = reference"
      by (rule insert_entryD[OF en]) blast
    have "wallets_ok (update_where ?p (add_credits rt n) (sm_wallets s)) (sm_entries s @ [e])" if "wallets_ok (sm_wallets s) (sm_entries s)"
      by (rule wallets_ok_write[where w = w]) (use that w e in \<open>auto simp: wallet_at_def add_credits_def\<close>)
    then show ?thesis using inv charges_ok_other[of _ _ e] assms w(5) e by (simp add: sms_inv_def)
  qed
  show "sms_inv s'"
    using a inv same entry sms_inv_wallets[OF inv]
    by (auto simp: adjust_statement_def and_then_eq_Inr split: option.splits cte_outcome.splits)
qed

section \<open>The parents' login\<close>

lemma send_otp_keeps:
  assumes "keeps P (send_sms c gateway rt \<lparr>sd_recipient = identifier,
     sd_message = ''Your ShuleHub parent portal code is '' @ code @ ''. It expires in 10 minutes.'', sd_message_type = Some ''parent_otp''\<rparr>)"
  shows "keeps P (send_otp_best_effort c gateway rt subject code identifier)"
  unfolding send_otp_best_effort_def using assms by (auto intro!: txn_keeps)

lemma aborted_send_otp [txn_keeps]: "stays_aborted (send_otp_best_effort c gateway rt subject code identifier)"
  by (auto simp: send_otp_best_effort_def intro!: txn_keeps)

lemma synchronize_keeps [txn_keeps]: "keeps P synchronize_session" "stays_aborted synchronize_session"
  by (auto simp: synchronize_session_def intro!: keeps_statement txn_keeps)

lemma request_otp_keeps:
  assumes "\<And>rt d. keeps P (send_sms c gateway rt d)"
    and "\<And>rt sub ph l4 h ex. keeps P (statement (create_otp_challenge rt sub ph l4 h ex))"
  shows "keeps P (request_otp c gateway n rt identifier)"
  unfolding request_otp_def Let_def
  by (auto intro!: txn_keeps send_otp_keeps assms split: option.splits)

lemma verify_otp_keeps:
  assumes "\<And>rt t i. keeps P (statement (increment_attempts rt t i))" and "\<And>rt t i. keeps P (statement (consume_challenge rt t i))"
  shows "keeps P (verify_otp open_session rt i code)"
  unfolding verify_otp_def verify_challenge_def Let_def
  by (auto intro!: txn_keeps assms split: option.splits)

lemma sms_inv_request_otp: "keeps sms_inv (request_otp c gateway n rt identifier)"
proof (rule request_otp_keeps[OF sms_inv_send], rule keeps_statement)
  fix rt sub ph l4 h ex x and s s' :: "'a portal_db_scheme"
  assume "sms_inv s" "create_otp_challenge rt sub ph l4 h ex s = Inr (x, s')"
  then show "sms_inv s'" by (auto simp: create_otp_challenge_def and_then_eq_Inr Let_def sms_inv_def)
qed

lemma sms_inv_verify_otp: "keeps (sms_inv :: 'a portal_db_scheme \<Rightarrow> bool) (verify_otp open_session rt i code)"
  by (intro verify_otp_keeps keeps_statement)
    (auto simp: increment_attempts_def consume_challenge_def and_then_eq_Inr sms_inv_def)

text \<open>An adjustment's reference is the owner's own.\<close>

fun own_adjustment :: "portal_op \<Rightarrow> bool" where
  "own_adjustment (AdjustWallet out tenant n reason reference) = own_reference reference"
| "own_adjustment _ = True"

lemma sms_inv_step: "sms_inv db \<Longrightarrow> own_adjustment a \<Longrightarrow> sms_inv (portal_step v a db)"
  by (cases a) (simp_all add: request_keeps sms_inv_send sms_inv_get sms_inv_small_ops sms_inv_adjust sms_inv_request_otp
    sms_inv_verify_otp)

lemma sms_inv_run: "sms_inv db \<Longrightarrow> \<forall>(v, a)\<in>set ss. own_adjustment a \<Longrightarrow> sms_inv (portal_run ss db)"
  by (rule portal_run_keeps) (auto intro: sms_inv_step)

section \<open>The size of the log, the challenges and the providers over a run\<close>

lemma keeps_from_view:
  assumes "\<And>V. keeps (\<lambda>db. view db = V) m"
  shows "keeps (\<lambda>db. R (view db)) m"
  unfolding keeps_def
proof (intro allI impI)
  fix s assume r: "R (view s)"
  have k: "pred_option (\<lambda>db. view db = view s) (snd (m (Some s)))" using assms[of "view s"] unfolding keeps_def by blast
  show "pred_option (\<lambda>db. R (view db)) (snd (m (Some s)))"
    by (cases "snd (m (Some s))") (use k r in simp_all)
qed

lemma request_otp_cases:
  assumes "request_otp c g n rt idf (Some db) = (r, Some s')"
  shows "s' = db \<or> (\<exists>rt' sub ph l4 h ex i x. create_otp_challenge rt' sub ph l4 h ex db = Inr (i, x) \<and>
     (s' = x \<or> (\<exists>d r'. send_sms c g rt' d (Some x) = (r', Some s'))))"
proof -
  have send: "s' = x \<or> (\<exists>d r'. send_sms c g rt' d (Some x) = (r', Some s'))"
    if "send_otp_best_effort c g rt' sub code idf' (Some x) = (q, Some s')" for rt' sub code idf' x q
    using that unfolding send_otp_best_effort_def catching_def
    by (auto simp: chain_def returning_def split: if_splits prod.splits sum.splits)
  let ?idf = "js_trim idf"
  let ?ph = "if is_probably_phone ?idf then and_then (hash_phone rt ?idf) (\<lambda>h. Inr (Some h)) else Inr None"
  show ?thesis
  proof (cases ?ph)
    case (Inl e)
    show ?thesis using assms[unfolded request_otp_def Let_def Inl chain_computing] by simp
  next
    case (Inr ph)
    note run = assms[unfolded request_otp_def Let_def Inr chain_computing]
    let ?find = "find_parent_auth_subject rt ?idf ph"
    show ?thesis
    proof (cases "?find db")
      case (Inl e)
      then show ?thesis using run by (simp add: chain_def reading_def statement_def)
    next
      case found: (Inr o')
      note go = chain_reading[where f = ?find, OF found]
      show ?thesis
      proof (cases o')
        case None
        then show ?thesis using run by (simp add: go returning_def)
      next
        case (Some sub)
        let ?rt = "activated rt (ps_tenant_id sub)"
        have sync: "synchronize_session (Some db) = (Inr (), Some db)" by (simp add: synchronize_session_def statement_def)
        show ?thesis
        proof (cases "hash_otp ?rt (generate_otp n)")
          case (Inl e)
          then show ?thesis using run Some by (simp add: chain_computing go chain_known(1)[where m = synchronize_session, OF sync])
        next
          case h: (Inr h)
          let ?cr = "create_otp_challenge ?rt sub (or_else (ps_phone_number_hash sub) ph)
            (or_else (ps_phone_number_last4 sub) (last4 ?idf)) h (rt_clock ?rt + 600000)"
          show ?thesis
          proof (cases "?cr db")
            case (Inl e)
            then show ?thesis using run Some h by (simp add: chain_computing go chain_known(1)[where m = synchronize_session, OF sync]
                chain_refused[where f = ?cr, OF Inl])
          next
            case new: (Inr ix)
            obtain i x where ix: "?cr db = Inr (i, x)" using new by (cases ix) auto
            obtain q where sd: "send_otp_best_effort c g ?rt sub (generate_otp n) ?idf (Some x) = (q, Some s')"
              using run Some h
              by (auto simp: chain_computing go chain_known(1)[where m = synchronize_session, OF sync]
                chain_statement[where f = ?cr, OF ix] chain_def[where m = "send_otp_best_effort c g ?rt sub (generate_otp n) ?idf"]
                returning_def split: prod.splits sum.splits)
            show ?thesis by (rule disjI2, intro exI, rule conjI, rule ix, rule send[OF sd])
          qed
        qed
      qed
    qed
  qed
qed

lemma log_size_step:
  assumes "sms_inv db" and "fresh_uuid (map lg_id (sm_logs db)) < 2 ^ 128"
  shows "fresh_uuid (map lg_id (sm_logs (portal_step v a db))) \<le> Suc (fresh_uuid (map lg_id (sm_logs db)))"
proof -
  let ?n = "fresh_uuid (map lg_id (sm_logs db))"
  let ?P = "\<lambda>x :: 'a portal_db_scheme. fresh_uuid (map lg_id (sm_logs x)) \<le> Suc ?n"
  have ok: "charges_ok (sm_logs x) (sm_entries x) \<Longrightarrow> sm_logs x = sm_logs db \<Longrightarrow> no_entries ?n (sm_entries x)" for x :: "'a portal_db_scheme"
    using assms(2) fresh_uuid_notin[of "map lg_id (sm_logs db)"]
    by (auto simp: no_entries_def charges_ok_def list_all_iff simp del: fresh_uuid_notin)
  have send: "?P s'" if x: "sm_logs x = sm_logs db" "sms_inv x" and run: "send_sms c g rt d (Some x) = (r, Some s')"
    for x s' :: "'a portal_db_scheme" and c g rt d r
  proof -
    have "no_entries (fresh_uuid (map lg_id (sm_logs x))) (sm_entries x)" using ok x assms(2) by (simp add: sms_inv_def)
    from run this show ?thesis by (cases rule: send_cases) (simp_all add: x(1) fresh_uuid_snoc)
  qed
  let ?Q = "\<lambda>x :: 'a portal_db_scheme. sm_logs x = sm_logs db"
  have q: "?P (snd (request m db))" if "keeps ?Q m" for m :: "('b, 'a portal_db_scheme) txn"
    using request_keeps[OF that] by simp
  have qs: "keeps ?Q (create_sms_provider c rt pd)" "keeps ?Q (update_sms_provider c rt i u)" "keeps ?Q (set_default_sms_provider c rt i)"
    "keeps ?Q (test_sms_provider c rt i)" "keeps ?Q (create_sms_purchase_request rt n memo)" for c rt pd i u n memo
    by (intro provider_ops_keep small_ops_keep, simp_all)+
  have qv: "keeps ?Q (verify_otp f rt i code)" for f :: "parent_subject \<Rightarrow> unit result" and rt i code
    by (intro verify_otp_keeps keeps_statement) (auto simp: increment_attempts_def consume_challenge_def and_then_eq_Inr)
  have qg: "keeps ?Q (get_sms_wallet rt)" for rt
    unfolding get_sms_wallet_def
    by (intro txn_keeps keeps_statement) (auto simp: get_or_create_wallet_def and_then_eq_Inr Let_def split: option.splits)
  have qa: "keeps ?Q (adjust_wallet out rt t n reason reference actor)" for out rt t n reason reference actor
    unfolding adjust_wallet_def
    by (intro txn_keeps keeps_statement)
      (auto simp: adjust_statement_def get_or_create_wallet_def update_wallet_def insert_entry_def and_then_eq_Inr Let_def
        split: option.splits cte_outcome.splits)
  have inner: "?P (snd (request m db))" if "\<And>r s'. m (Some db) = (r, Some s') \<Longrightarrow> ?P s'" for m :: "('b, 'a portal_db_scheme) txn"
    using that by (cases "m (Some db)") (auto simp: request_def split: sum.splits option.splits)
  show ?thesis
  proof (cases a)
    case (SendSms d)
    show ?thesis unfolding SendSms portal_step.simps by (rule inner) (rule send[OF refl assms(1)])
  next
    case (RequestOtp n idf)
    have "?P s'" if "request_otp (en_cipher v) (en_gateway v) n (en_runtime v) idf (Some db) = (r, Some s')" for r s'
    proof -
      have new: "sm_logs x = sm_logs db \<and> sms_inv x" if "create_otp_challenge rt' sub ph l4 h ex db = Inr (i, x)" for rt' sub ph l4 h ex i x
        using that assms(1) by (auto simp: create_otp_challenge_def and_then_eq_Inr Let_def sms_inv_def)
      from request_otp_cases[OF that] show ?thesis using new send by fastforce
    qed
    then show ?thesis unfolding RequestOtp portal_step.simps by (rule inner)
  qed (simp_all add: q qs qv qg qa)
qed

lemma log_size_run:
  assumes "sms_inv db" and "\<forall>(v, a)\<in>set ss. own_adjustment a" and "fresh_uuid (map lg_id (sm_logs db)) + length ss < 2 ^ 128"
  shows "fresh_uuid (map lg_id (sm_logs (portal_run ss db))) < 2 ^ 128"
  using assms
proof (induction ss arbitrary: db)
  case (Cons x ss)
  obtain v a where x: "x = (v, a)" by (cases x)
  have "fresh_uuid (map lg_id (sm_logs (portal_step v a db))) + length ss < 2 ^ 128"
    using log_size_step[of db v a] Cons.prems by auto
  with Cons x show ?case by (auto intro!: Cons.IH sms_inv_step)
qed simp

end
