(* ===== verification/Sms_Claims.thy ===== *)
theory Sms_Claims
  imports Sms_Runs Tenant_Finance_Claims
begin

text \<open>
  Properties of the text messages and their credits, over runs of requests on the integrations' tables, and what
  the platform owner's providers can come to.
\<close>

section \<open>A school with a provider and an empty wallet\<close>

definition sms_rt :: runtime where
  "sms_rt = tf_rt\<lparr>rt_user_id := AUTH_ANONYMOUS_USER_ID\<rparr>"

definition sms_provider_row :: sms_provider where
  "sms_provider_row =
     \<lparr>pv_id = 1, pv_provider_name = ''TextSMS'', pv_provider_code = TextsmsKenya, pv_api_key_ciphertext = ''key'',
      pv_username_ciphertext = None, pv_sender_id = ''SCHOOL'', pv_base_url = Some ''https'', pv_is_active = True,
      pv_is_default = True, pv_last_test_status = None, pv_last_tested_at = None, pv_created_by_user_id = None,
      pv_updated_by_user_id = None, pv_created_at = 1, pv_updated_at = 1\<rparr>"

definition sms_empty :: portal_db where
  "sms_empty = \<lparr>sm_providers = [sms_provider_row], sm_wallets = [], sm_logs = [], sm_entries = [], sm_requests = [],
     sm_integration_logs = [], po_users = [], po_memberships = [], po_roles = [], po_challenges = []\<rparr>"

definition sms_env :: portal_env where
  "sms_env = \<lparr>en_cipher = plain_cipher, en_gateway = (\<lambda>q. FetchAnswered 200 JNull), en_runtime = sms_rt, en_open_session = (\<lambda>s. Inr ())\<rparr>"

definition sms_dto :: send_sms_dto where
  "sms_dto = \<lparr>sd_recipient = ''0712345678'', sd_message = ''Hi'', sd_message_type = None\<rparr>"

definition sms_top_up :: portal_op where
  "sms_top_up = AdjustWallet UpdateWrites ''t1'' 50 ''top up'' (Some ''INV1'')"

lemma sms_empty_ok: "sms_inv sms_empty" "fresh_uuid (map lg_id (sm_logs sms_empty)) = 1"
  by (simp_all add: sms_inv_def sms_empty_def wallets_ok_def charges_ok_def fresh_uuid_def)

lemma sms_top_up_own: "own_adjustment sms_top_up"
proof -
  have "length (uuid_text n) = 36" for n by (simp add: uuid_text_def)
  then have "length (uuid_text n) \<noteq> length ''INV1''" for n by simp
  then have "''INV1'' \<noteq> uuid_text n" for n by (rule contrapos_nn) (rule arg_cong[of _ _ length], rule sym)
  then show ?thesis by (simp add: sms_top_up_def own_reference_def)
qed

section \<open>Wallets\<close>





text \<open>C28: A message that is answered as sent has one new log row, sent, and one new transaction that takes its cost from
  the school's balance; the balance of the answer is the one before less the cost. The cost is one credit up to 160
  characters and otherwise the least number of segments of 153 characters that hold the message.\<close>

theorem sent_message_costs_its_segments:
  assumes "sms_inv db" and "fresh_uuid (map lg_id (sm_logs db)) < 2 ^ 128"
    and "request (send_sms c gateway rt d) db = (Inr a, db')" and "db' \<noteq> db"
  shows "\<exists>t l e. rt_tenant_id rt = Some t \<and> sm_logs db' = sm_logs db @ [l] \<and> lg_id l = sa_log_id a \<and> lg_tenant_id l = t \<and>
    lg_status l = LogSent \<and> sm_entries db' = sm_entries db @ [e] \<and> wt_tenant_id e = t \<and> wt_quantity e = - sa_credit_cost a \<and>
    sa_balance_after a = credit_sum t (sm_entries db) - sa_credit_cost a \<and>
    (if length (js_trim (sd_message d)) \<le> 160 then sa_credit_cost a = 1
     else 153 * (sa_credit_cost a - 1) < int (length (js_trim (sd_message d))) \<and>
       int (length (js_trim (sd_message d))) \<le> 153 * sa_credit_cost a)"
proof -
  have ok: "wallets_ok (sm_wallets db) (sm_entries db)" "charges_ok (sm_logs db) (sm_entries db)" using assms(1,2) by (simp_all add: sms_inv_def)
  have no: "no_entries (fresh_uuid (map lg_id (sm_logs db))) (sm_entries db)"
    using ok(2) assms(2) fresh_uuid_notin[of "map lg_id (sm_logs db)"]
    by (auto simp: no_entries_def charges_ok_def list_all_iff simp del: fresh_uuid_notin)
  have "send_sms c gateway rt d (Some db) = (Inr a, Some db')" using request_Inr_state[OF assms(3)] assms(4) by blast
  from this no show ?thesis
  proof (cases rule: send_cases)
    case (message t ws l new w)
    then have l: "lg_status l = LogSent" "lg_credit_cost l = calculate_credit_cost (js_trim (sd_message d))"
      and sel: "select_first (wallet_at t) (sm_wallets db @ [new_wallet rt t (fresh_uuid (map wl_id (sm_wallets db)))]) = Some w"
      and a: "a = \<lparr>sa_log_id = lg_id l, sa_balance_after = wl_sms_balance w - lg_credit_cost l, sa_credit_cost = lg_credit_cost l,
         sa_low_balance = wl_sms_balance w - lg_credit_cost l \<le> 100\<rparr>" by auto
    have "filter (\<lambda>e. wt_tenant_id e = t \<and> is_charge e \<and> wt_reference e = Some (uuid_text (lg_id l))) new = new"
      using message(6) by (simp add: filter_id_conv)
    then have "map (\<lambda>e. (wt_type e, wt_quantity e)) new = [(WtDeduction, - lg_credit_cost l)]"
      using message(5,7) l(1) by (simp add: charged_def charges_of_def)
    then obtain e where e: "new = [e]" "wt_quantity e = - lg_credit_cost l" by auto
    have bal: "wl_sms_balance w = credit_sum t (sm_entries db)"
    proof (cases "select_first (wallet_at t) (sm_wallets db)")
      case None
      then have "\<forall>x\<in>set (sm_wallets db). wl_tenant_id x \<noteq> t" by (simp add: select_first_None wallet_at_def)
      then have "filter (\<lambda>e. wt_tenant_id e = t) (sm_entries db) = []"
        using ok(1) by (auto simp: wallets_ok_def list_all_iff list_ex_iff filter_empty_conv)
      then show ?thesis using sel None by (auto simp: select_first_append new_wallet_def credit_sum_def split: if_splits)
    next
      case (Some x)
      then show ?thesis using sel select_first_Some[OF Some] ok(1)
        by (auto simp: select_first_append wallets_ok_def wallet_at_def list_all_iff)
    qed
    have seg: "153 * (int ((n + 152) div 153) - 1) < int n \<and> int n \<le> 153 * int ((n + 152) div 153)" for n :: nat
    proof -
      obtain q r where q: "q = (n + 152) div 153" "q * 153 + r = n + 152" "r < 153"
        by (rule that[OF refl div_mult_mod_eq]) simp
      have "int q * 153 + int r = int n + 152" using arg_cong[OF q(2), of int] by simp
      then show ?thesis using q(3) by (simp only: q(1)[symmetric]) simp
    qed
    have cost: "if length (js_trim (sd_message d)) \<le> 160 then lg_credit_cost l = 1
      else 153 * (lg_credit_cost l - 1) < int (length (js_trim (sd_message d))) \<and>
        int (length (js_trim (sd_message d))) \<le> 153 * lg_credit_cost l"
      using seg[of "length (js_trim (sd_message d))"] by (simp add: l(2) calculate_credit_cost_def Let_def)
    show ?thesis
      by (rule exI[of _ t], rule exI[of _ l], rule exI[of _ e]) (use message(1-6) l(1) e bal cost a in \<open>simp split: if_split_asm\<close>)
  qed simp
qed

definition sms_funded :: portal_db where
  "sms_funded = sms_empty\<lparr>
     sm_wallets := [(new_wallet sms_rt ''t1'' 1)\<lparr>wl_sms_balance := 50\<rparr>],
     sm_entries := [\<lparr>wt_id = 1, wt_tenant_id = ''t1'', wt_type = WtAdjustment, wt_quantity = 50, wt_balance_after = 50,
       wt_reference = None, wt_reason = Some ''top up'', wt_created_by_user_id = None, wt_created_at = 1\<rparr>]\<rparr>"

lemma sms_funded_ok: "sms_inv sms_funded" "fresh_uuid (map lg_id (sm_logs sms_funded)) < 2 ^ 128"
  by (simp_all add: sms_inv_def sms_funded_def sms_empty_def wallets_ok_def charges_ok_def fresh_uuid_def new_wallet_def credit_sum_def
    is_charge_def)

lemma sms_example_ready: "get_readiness plain_cipher (Some sms_funded) =
    (Inr \<lparr>dr_status = Configured, dr_provider = Some (to_readiness_provider \<lparr>dp_provider = sms_provider_row, dp_api_key = ''key'', dp_username = None\<rparr>),
      dr_missing = []\<rparr>, Some sms_funded)"
  by (simp add: get_readiness_def chain_def default_provider_for_dispatch_def reading_def statement_def returning_def computing_def
    find_default_provider_def sms_funded_def sms_empty_def sms_provider_row_def dispatch_provider_of_def api_key_of_def pii_decrypt_def
    is_encrypted_def ENCRYPTION_PREFIX_def truthy_def missing_dispatch_fields_def js_trim_def is_space_def filled_in_def)

lemma sms_example_sent: "\<exists>a db'. request (send_sms plain_cipher (\<lambda>q. FetchAnswered 200 JNull) sms_rt sms_dto) sms_funded = (Inr a, db') \<and> db' \<noteq> sms_funded"
proof -
  have t: "require_sms_tenant_id sms_rt = Inr ''t1''" by (simp add: require_sms_tenant_id_def sms_rt_def tf_rt_def truthy_def)
  have ses: "in_session sms_rt ''t1''" and act: "acting_user sms_rt = None"
    by (simp_all add: in_session_def sms_rt_def tf_rt_def or_default_def acting_user_def)
  have cost: "calculate_credit_cost (js_trim (sd_message sms_dto)) = 1"
    by (simp add: calculate_credit_cost_def sms_dto_def js_trim_def is_space_def)
  let ?ri = "reserve_input_of plain_cipher sms_rt ''t1'' sms_dto"
  have ri: "ri_credit_cost ?ri = 1" "ri_sent_by_user_id ?ri = None" by (simp_all add: reserve_input_of_def Let_def cost act)
  have "\<exists>v db1. reserve_sms_credits sms_rt ''t1'' ?ri (Some sms_funded) = (Inr v, Some db1) \<and> rv_accepted v \<and>
      sm_providers db1 = [sms_provider_row] \<and> length (sm_logs db1) = 1"
    by (simp add: reserve_sms_credits_def Let_def ri chain_def statement_def reading_def get_or_create_wallet_def rls_check_def ses
      sms_funded_def sms_empty_def new_wallet_def wallet_at_def lock_wallet_def map_provider_def over_limit_def update_wallet_def
      spendable_def spend_credits_def wallet_checks_def fits_integer_def insert_sms_log_def insert_entry_def pg_uuid_opt_def returning_def
      fresh_uuid_def)
  then obtain v db1 where v: "reserve_sms_credits sms_rt ''t1'' ?ri (Some sms_funded) = (Inr v, Some db1)" "rv_accepted v"
    "sm_providers db1 = [sms_provider_row]" "length (sm_logs db1) = 1" by blast
  have "dispatch_sms plain_cipher (\<lambda>q. FetchAnswered 200 JNull) (dispatch_input_of ''t1'' sms_dto) (Some db1) =
    (Inr \<lparr>ds_provider_id = 1, ds_provider_code = TextsmsKenya, ds_provider_message_id = None\<rparr>, Some db1)"
    by (simp add: dispatch_sms_def chain_def default_provider_for_dispatch_def reading_def statement_def returning_def computing_def
      find_default_provider_def v(3) sms_provider_row_def dispatch_provider_of_def api_key_of_def pii_decrypt_def
      is_encrypted_def ENCRYPTION_PREFIX_def truthy_def missing_dispatch_fields_def js_trim_def is_space_def filled_in_def
      call_provider_def response_ok_def extract_provider_message_id_def json_property_def message_id_text_def or_else_def Let_def)
  then have "\<exists>db2. deliver_reserved plain_cipher (\<lambda>q. FetchAnswered 200 JNull) sms_rt ''t1'' sms_dto v 1 (Some db1) = (Inr (), Some db2) \<and>
      length (sm_logs db2) = 1"
    by (simp add: deliver_reserved_def catching_def chain_def statement_def mark_sms_log_sent_def v(3,4) sms_provider_row_def)
  then obtain db2 where d: "deliver_reserved plain_cipher (\<lambda>q. FetchAnswered 200 JNull) sms_rt ''t1'' sms_dto v 1 (Some db1) = (Inr (), Some db2)"
    "length (sm_logs db2) = 1" by blast
  have "sm_logs sms_funded = []" by (simp add: sms_funded_def sms_empty_def)
  with d(2) have "db2 \<noteq> sms_funded" by auto
  then show ?thesis
    by (simp add: request_def send_sms_def t chain_computing chain_known(1)[where m = "get_readiness plain_cipher", OF sms_example_ready]
      cost Let_def chain_known(1)[where m = "reserve_sms_credits sms_rt ''t1'' ?ri", OF v(1)] v(2)
      chain_known(1)[where m = "deliver_reserved plain_cipher (\<lambda>q. FetchAnswered 200 JNull) sms_rt ''t1'' sms_dto v 1", OF d(1)] returning_def)
qed

theorem sent_message_costs_its_segments_witness:
  "\<exists>a db' l. request (send_sms plain_cipher (\<lambda>q. FetchAnswered 200 JNull) sms_rt sms_dto) sms_funded = (Inr a, db') \<and>
     sm_logs db' = [l] \<and> lg_status l = LogSent \<and> sa_balance_after a = 49"
proof -
  obtain a db' where r: "request (send_sms plain_cipher (\<lambda>q. FetchAnswered 200 JNull) sms_rt sms_dto) sms_funded = (Inr a, db')" "db' \<noteq> sms_funded"
    using sms_example_sent by blast
  have n: "length (js_trim (sd_message sms_dto)) = 2" by (simp add: sms_dto_def js_trim_def is_space_def)
  from sent_message_costs_its_segments[OF sms_funded_ok r] r(1) show ?thesis
    by (auto simp: n sms_rt_def tf_rt_def sms_funded_def sms_empty_def credit_sum_def)
qed

section \<open>The platform's providers\<close>

lemma pg_uuid_one: "pg_uuid (uuid_text 1) = Inr 1"
  by code_simp

lemma updated_in: "update_provider_where i f db = Inr (r, db') \<Longrightarrow> q \<in> set (sm_providers db') \<Longrightarrow> pv_id q = i \<Longrightarrow>
    (\<And>p. pv_id (f p) = pv_id p) \<Longrightarrow> \<exists>p\<in>set (sm_providers db). q = f p"
proof -
  assume u: "update_provider_where i f db = Inr (r, db')" and q: "q \<in> set (sm_providers db')" "pv_id q = i"
    and f: "\<And>p. pv_id (f p) = pv_id p"
  have "sm_providers db' = update_where (\<lambda>p. pv_id p = i) f (sm_providers db)"
    using u by (auto simp: update_provider_where_def Let_def and_then_eq_Inr split: option.splits)
  with q obtain p where "p \<in> set (sm_providers db)" "q = (if pv_id p = i then f p else p)" by (auto simp: update_where_def)
  with q(2) f show ?thesis by (cases "pv_id p = i") auto
qed

lemma update_sms_provider_cases:
  assumes "update_sms_provider c rt provider_id d (Some db) = (Inr p, st)"
  obtains i r db1 db2 x actor where "pg_uuid provider_id = Inr i"
    "update_provider_where i (updated_provider rt (provider_update_of c provider_id d) actor) db = Inr (r, db1)"
    "append_platform_log rt ''platform_sms_provider_updated'' ''success'' (acting_user rt) db1 = Inr (x, db2)" "st = Some db2"
  using assms that
  by (auto simp: update_sms_provider_def update_provider_row_def safe_platform_log_def chain_Inr txn_simps and_then_eq_Inr catching_def
      statement_open append_platform_log_def split: sum.splits)

text \<open>C29: Replacing the API key of the default provider stops every message of every school: the new key is sealed under the
  provider's id but opened under its code, so from then on no request to send a message succeeds, whatever the
  school, the message and the provider's endpoint.\<close>

theorem rotated_key_stops_dispatch:
  assumes "authenticated_cipher c" and "request (update_sms_provider c rt provider_id d) db = (Inr p, db')"
    and "ud_api_key d = Some key" and "js_trim key \<noteq> []" and "\<not> is_encrypted (js_trim key)"
    and "find_default_provider db' = Some q" and "pg_uuid provider_id = Inr (pv_id q)"
  shows "\<exists>e. request (send_sms c gateway rt' m) db' = (Inl e, db')"
proof -
  obtain st where "update_sms_provider c rt provider_id d (Some db) = (Inr p, st)" "st = Some db' \<or> st = None"
    using request_Inr_state[OF assms(2)] by blast
  then obtain r db1 x actor where u: "update_provider_where (pv_id q) (updated_provider rt (provider_update_of c provider_id d) actor) db = Inr (r, db1)"
    and "append_platform_log rt ''platform_sms_provider_updated'' ''success'' (acting_user rt) db1 = Inr (x, db')"
    using assms(7) by (elim update_sms_provider_cases) auto
  then have "sm_providers db' = sm_providers db1" by (auto simp: append_platform_log_def and_then_eq_Inr)
  then have "q \<in> set (sm_providers db1)" using assms(6) by (auto simp: find_default_provider_def dest: select_first_Some)
  then obtain p0 where q: "q = updated_provider rt (provider_update_of c provider_id d) actor p0"
    using updated_in[OF u] by (auto simp: updated_provider_def)
  have key: "pv_api_key_ciphertext q = pii_encrypt c (js_trim key) (sms_aad provider_id ''api-key'')"
    using assms(3,4) by (simp add: q updated_provider_def provider_update_of_def trimmed_or_none_def truthy_def pii_encrypt_nullable_def
      or_default_def)
  have "length provider_id = 36" using assms(7) by (simp add: pg_uuid_def split: if_splits)
  then have "provider_code_text (pv_provider_code q) \<noteq> provider_id" by (cases "pv_provider_code q") auto
  then have "sms_aad (provider_code_text (pv_provider_code q)) ''api-key'' \<noteq> sms_aad provider_id ''api-key''" by (simp add: sms_aad_def)
  then obtain e where e: "dispatch_provider_of c q = Inl e"
    using decrypt_encrypt[OF assms(1,5,4)] by (simp add: dispatch_provider_of_def api_key_of_def key)
  have "get_readiness c (Some db') = (Inl e, Some db')"
    by (simp add: get_readiness_def default_provider_for_dispatch_def chain_def reading_def statement_def assms(6) e txn_simps)
  then show ?thesis
    by (cases "require_sms_tenant_id rt'") (simp_all add: request_def send_sms_def chain_def computing_def)
qed

definition rotated_dto :: update_provider_dto where
  "rotated_dto = \<lparr>ud_provider_name = None, ud_api_key = Some ''new'', ud_username = None, ud_sender_id = None, ud_base_url = None,
     ud_is_active = None\<rparr>"

lemma rotated_example: "\<exists>p db' q. request (update_sms_provider plain_cipher sms_rt (uuid_text 1) rotated_dto) sms_empty = (Inr p, db') \<and>
    find_default_provider db' = Some q \<and> pv_id q = 1"
proof -
  have u: "pg_uuid (uuid_text 1) = Inr 1" by (simp add: pg_uuid_one del: One_nat_def)
  have a: "acting_user sms_rt = None" by (simp add: acting_user_def sms_rt_def)
  show ?thesis
    by (simp add: request_def update_sms_provider_def update_provider_row_def chain_def statement_def u a pg_uuid_opt_def
      update_provider_where_def Let_def sms_empty_def update_where_def sms_provider_row_def updated_provider_def provider_update_of_def
      rotated_dto_def sender_check_def default_free_def safe_platform_log_def catching_def append_platform_log_def computing_def
      map_provider_def returning_def find_default_provider_def not_blank_def guard_def or_default_def js_trim_def is_space_def del: One_nat_def)
qed

theorem rotated_key_stops_dispatch_witness:
  "\<exists>p db' e. request (update_sms_provider plain_cipher sms_rt (uuid_text 1) rotated_dto) sms_empty = (Inr p, db') \<and>
    request (send_sms plain_cipher (\<lambda>q. FetchAnswered 200 JNull) sms_rt sms_dto) db' = (Inl e, db')"
proof -
  obtain p db' q where r: "request (update_sms_provider plain_cipher sms_rt (uuid_text 1) rotated_dto) sms_empty = (Inr p, db')"
    "find_default_provider db' = Some q" "pv_id q = 1" using rotated_example by blast
  have u: "pg_uuid (uuid_text 1) = Inr (pv_id q)" by (simp add: pg_uuid_one r(3) del: One_nat_def)
  from rotated_key_stops_dispatch[OF plain_cipher_ok r(1) _ _ _ r(2) u] r(1) show ?thesis
    by (force simp: rotated_dto_def js_trim_def is_space_def is_encrypted_def ENCRYPTION_PREFIX_def)
qed

end
