(* ===== verification/Parent_Otp_Claims.thy ===== *)
theory Parent_Otp_Claims
  imports Sms_Claims
begin

text \<open>
  The challenges of the parents' login over runs of requests: what a successful login has checked, that it uses its
  challenge up, and that the counter of wrong codes never moves.
\<close>

section \<open>The challenges over a run\<close>

lemma activated_clock: "rt_clock (activated rt t) = rt_clock rt" "hash_otp (activated rt t) = hash_otp rt"
  by (simp_all add: activated_def hash_otp_def pepper_def fun_eq_iff)

lemma verify_otp_Inr:
  assumes "verify_otp open_session rt cid code (Some db) = (Inr (s, t), st)"
  obtains ch h db' where "pg_uuid cid = Inr (ot_id ch)" "ch \<in> set (po_challenges db)" "ot_consumed_at ch = None"
    "rt_clock rt \<le> whole_seconds (ot_expires_at ch)" "ot_attempts ch < 5" "hash_otp rt (js_trim code) = Inr (ot_otp_hash ch)"
    "find_parent_auth_subject (activated rt (ot_tenant_id ch)) (or_default (ot_email ch) []) (ot_phone_hash ch) db = Inr (Some s)"
    "ot_user_id ch = Some (ps_user_id s)" "ot_tenant_id ch = ps_tenant_id s" "open_session s = Inr t"
    "consume_challenge (activated rt (ot_tenant_id ch)) (ot_tenant_id ch) (ot_id ch) db = Inr (True, db')" "st = Some db'"
proof -
  from assms obtain ch user where f: "find_challenge_for_verify rt cid db = Inr (Some ch)" "ot_user_id ch = Some user"
    and v: "verify_challenge open_session rt ch user code (Some db) = (Inr (s, t), st)"
    by (auto simp: verify_otp_def chain_Inr reading_def txn_simps and_then_eq_Inr split: option.splits)
  from f(1) have ch: "pg_uuid cid = Inr (ot_id ch)" "ch \<in> set (po_challenges db)"
    by (auto simp: find_challenge_for_verify_def and_then_eq_Inr dest: select_first_Some)
  let ?rt = "activated rt (ot_tenant_id ch)"
  have sync: "synchronize_session (Some db) = (Inr (), Some db)" by (simp add: synchronize_session_def statement_def)
  note v = v[unfolded verify_challenge_def Let_def chain_known(1)[where m = synchronize_session, OF sync]]
  from v have opened: "ot_consumed_at ch = None" "rt_clock rt \<le> whole_seconds (ot_expires_at ch)" "ot_attempts ch < 5"
    by (auto simp: txn_simps activated_clock(1) split: if_split_asm)
  from v opened obtain h where h: "hash_otp ?rt (js_trim code) = Inr h"
    by (cases "hash_otp ?rt (js_trim code)") (auto simp: chain_computing activated_clock(1) split: if_split_asm)
  from v opened have hash: "h = ot_otp_hash ch"
    by (auto simp: h chain_computing activated_clock(1) chain_Inr txn_simps split: if_split_asm)
  let ?find = "find_parent_auth_subject ?rt (or_default (ot_email ch) []) (ot_phone_hash ch)"
  from v opened obtain sub where sub: "?find db = Inr (Some sub)"
    by (cases "?find db")
      (auto simp: h hash chain_computing activated_clock(1) chain_Inr reading_def txn_simps split: if_split_asm option.split_asm)
  from v opened obtain x db' where c: "consume_challenge ?rt (ot_tenant_id ch) (ot_id ch) db = Inr (x, db')"
    "ps_user_id sub = user" "ps_tenant_id sub = ot_tenant_id ch"
    "(if \<not> x then raising (UnauthorizedException ''Verification code has expired'')
      else chain (computing (open_session sub)) (\<lambda>t. returning (sub, t))) (Some db') = (Inr (s, t), st)"
    by (cases "consume_challenge ?rt (ot_tenant_id ch) (ot_id ch) db")
      (auto simp: h hash chain_computing chain_reading[where f = ?find, OF sub] activated_clock(1) chain_Inr[where m = "statement f" for f] txn_simps
        split: if_split_asm)
  then have "sub = s" "open_session s = Inr t" "x" "st = Some db'" by (auto simp: chain_Inr txn_simps split: if_split_asm)
  with sub c h hash opened have "ot_consumed_at ch = None" "rt_clock rt \<le> whole_seconds (ot_expires_at ch)" "ot_attempts ch < 5"
    "hash_otp ?rt (js_trim code) = Inr (ot_otp_hash ch)" "?find db = Inr (Some s)" "user = ps_user_id s" "ot_tenant_id ch = ps_tenant_id s"
    "open_session s = Inr t" "\<exists>db'. consume_challenge ?rt (ot_tenant_id ch) (ot_id ch) db = Inr (True, db') \<and> st = Some db'"
    by auto
  then show thesis using that[of ch] ch f(2) by (auto simp: activated_clock(2))
qed

text \<open>
  Only a new challenge and a used one reach the committed tables: the counter of wrong codes is written in a
  request that answers 401.
\<close>

lemma challenges_step:
  assumes new: "\<And>cs c. R cs \<Longrightarrow> ot_id c = fresh_uuid (map ot_id cs) \<Longrightarrow> ot_attempts c = 0 \<Longrightarrow> R (cs @ [c])"
    and used: "\<And>cs p n. R cs \<Longrightarrow> R (update_where p (\<lambda>c. c\<lparr>ot_consumed_at := Some n\<rparr>) cs)"
    and start: "R (po_challenges db)"
  shows "R (po_challenges (portal_step v a db))"
proof -
  let ?P = "\<lambda>x :: 'a portal_db_scheme. R (po_challenges x)"
  have q: "?P (snd (request m db))" if "keeps ?P m" for m :: "('b, 'a portal_db_scheme) txn"
    using request_keeps[OF that, of db] start by simp
  let ?V = "\<lambda>V x :: 'a portal_db_scheme. po_challenges x = V"
  have "keeps (?V V) (send_sms c g rt d)" "keeps (?V V) (adjust_wallet out rt t n reason reference actor)" "keeps (?V V) (get_sms_wallet rt)"
    for V c g rt d out t n reason reference actor
    by (rule wallet_ops_keep, simp_all)+
  note wallets = this[THEN keeps_from_view]
  note send = wallets(1)
  have "keeps (?V V) (create_sms_provider c rt pd)" "keeps (?V V) (update_sms_provider c rt i u)"
    "keeps (?V V) (set_default_sms_provider c rt i)" "keeps (?V V) (test_sms_provider c rt i)"
    "keeps (?V V) (create_sms_purchase_request rt n memo)" for V c rt pd i u n memo
    by (intro provider_ops_keep small_ops_keep, simp_all)+
  note providers = this[THEN keeps_from_view]
  have otp: "keeps ?P (request_otp c g n rt idf)" for c g n rt idf
    by (rule request_otp_keeps[OF send], rule keeps_statement) (auto simp: create_otp_challenge_def and_then_eq_Inr Let_def intro!: new)
  have verify: "?P (snd (request (verify_otp f rt i code) db))" for f :: "parent_subject \<Rightarrow> unit result" and rt i code
  proof (cases "verify_otp f rt i code (Some db)")
    case (Pair r st)
    show ?thesis
    proof (cases r)
      case (Inl e)
      then show ?thesis by (simp add: request_def Pair start)
    next
      case (Inr y)
      from Pair[unfolded Inr] have "verify_otp f rt i code (Some db) = (Inr (fst y, snd y), st)" by (simp only: prod.collapse)
      then obtain ch :: otp_challenge and db' where c: "consume_challenge (activated rt (ot_tenant_id ch)) (ot_tenant_id ch) (ot_id ch) db = Inr (True, db')"
        "st = Some db'" by (rule verify_otp_Inr) (rule that)
      then have "?P db'" using start by (auto simp: consume_challenge_def intro!: used)
      then show ?thesis by (simp add: request_def Pair Inr c(2))
    qed
  qed
  show ?thesis by (cases a) (simp_all add: q send wallets providers otp verify)
qed

lemma challenges_run:
  assumes "\<And>cs c. R cs \<Longrightarrow> ot_id c = fresh_uuid (map ot_id cs) \<Longrightarrow> ot_attempts c = 0 \<Longrightarrow> R (cs @ [c])"
    and "\<And>cs p n. R cs \<Longrightarrow> R (update_where p (\<lambda>c. c\<lparr>ot_consumed_at := Some n\<rparr>) cs)"
    and "R (po_challenges db)"
  shows "R (po_challenges (portal_run ss db))"
  by (rule portal_run_keeps[where P = "\<lambda>db. R (po_challenges db)"], rule challenges_step) (use assms in blast)+

lemma verify_request_Inr:
  "request (verify_otp f rt cid code) db = (Inr (s, t), db') \<Longrightarrow> verify_otp f rt cid code (Some db) = (Inr (s, t), Some db')"
  using request_Inr_state[of "verify_otp f rt cid code" db "(s, t)" db'] verify_otp_Inr[of f rt cid code db s t None] by blast

section \<open>A parent with an open challenge\<close>

definition otp_rt :: runtime where
  "otp_rt = sms_rt\<lparr>rt_config := (\<lambda>k. Some ''pepper'')\<rparr>"

definition otp_row :: otp_challenge where
  "otp_row = \<lparr>ot_id = 1, ot_tenant_id = ''t1'', ot_user_id = Some 5, ot_phone_hash = None, ot_phone_last4 = None,
     ot_email = Some ''p@x'', ot_otp_hash = ''123456:pepper'', ot_purpose = ''parent_login'', ot_expires_at = 600000,
     ot_consumed_at = None, ot_attempts = 0, ot_created_at = 1\<rparr>"

definition otp_db :: portal_db where
  "otp_db = sms_empty\<lparr>
     po_users := [\<lparr>us_id = 5, us_email = ''p@x'', us_active = True, us_display_name = ''P'', us_phone_number_hash = None,
       us_phone_number_last4 = None\<rparr>],
     po_memberships := [\<lparr>me_user_id = 5, me_tenant_id = ''t1'', me_role_id = 6, me_active = True, me_created_at = 1\<rparr>],
     po_roles := [\<lparr>ro_id = 6, ro_tenant_id = ''t1'', ro_code = ''parent''\<rparr>],
     po_challenges := [otp_row]\<rparr>"

definition otp_env :: portal_env where
  "otp_env = sms_env\<lparr>en_runtime := otp_rt\<rparr>"

lemma otp_example: "\<exists>s db'. request (verify_otp (\<lambda>s. Inr ()) otp_rt (uuid_text 1) '' 123456'') otp_db = (Inr (s, ()), db')"
proof -
  let ?sub = "\<lparr>ps_user_id = 5, ps_tenant_id = ''t1'', ps_role_id = 6, ps_role_code = ''parent'', ps_email = ''p@x'',
    ps_display_name = ''P'', ps_phone_number_hash = None, ps_phone_number_last4 = None\<rparr>"
  have f: "find_challenge_for_verify otp_rt (uuid_text 1) otp_db = Inr (Some otp_row)"
    by (simp add: find_challenge_for_verify_def pg_uuid_one before_authentication_def otp_rt_def sms_rt_def tf_rt_def guard_def otp_db_def
      otp_row_def del: One_nat_def)
  have row: "ot_consumed_at otp_row = None" "ot_expires_at otp_row = 600000" "ot_attempts otp_row = 0" "ot_user_id otp_row = Some 5"
    "ot_tenant_id otp_row = ''t1''" "ot_email otp_row = Some ''p@x''" "ot_phone_hash otp_row = None" "ot_otp_hash otp_row = ''123456:pepper''"
    "ot_id otp_row = 1"
    by (simp_all add: otp_row_def)
  have clk: "rt_clock otp_rt = 9" by (simp add: otp_rt_def sms_rt_def tf_rt_def)
  have h: "hash_otp otp_rt (js_trim '' 123456'') = Inr ''123456:pepper''"
    by (simp add: hash_otp_def pepper_def otp_rt_def sms_rt_def tf_rt_def truthy_def js_trim_def is_space_def)
  have p: "find_parent_auth_subject (activated otp_rt ''t1'') ''p@x'' None otp_db = Inr (Some ?sub)"
    by (simp add: find_parent_auth_subject_def before_authentication_def guard_def activated_def otp_rt_def sms_rt_def tf_rt_def
      parent_rows_def otp_db_def first_row_def js_lower_def)
  have "list_ex (open_challenge (activated otp_rt ''t1'') ''t1'' 1) (po_challenges otp_db)"
    by (simp add: open_challenge_def challenge_at_def in_session_def activated_def otp_rt_def sms_rt_def tf_rt_def otp_db_def otp_row_def
      or_default_def)
  then show ?thesis
    by (simp add: request_def verify_otp_def chain_def reading_def statement_def f verify_challenge_def Let_def
      synchronize_session_def activated_clock computing_def h p row clk whole_seconds_def or_default_def consume_challenge_def returning_def
      del: One_nat_def)
qed

section \<open>Properties\<close>

lemma first_row_in: "first_row xs = Some x \<Longrightarrow> x \<in> set xs"
  by (cases xs) (auto simp: first_row_def)

lemma found_parent_active:
  assumes "find_parent_auth_subject rt idf ph db = Inr (Some s)"
  shows "\<exists>u\<in>set (po_users db). us_id u = ps_user_id s \<and> us_active u"
proof -
  from assms obtain k where "first_row (sort_key (\<lambda>x. - fst x) (parent_rows db idf ph)) = Some (k, s)"
    by (auto simp: find_parent_auth_subject_def and_then_eq_Inr)
  then have "(k, s) \<in> set (parent_rows db idf ph)" using first_row_in by fastforce
  then show ?thesis by (auto simp: parent_rows_def split: if_splits)
qed

text \<open>C30: A login with a code has found an open and unexpired challenge with the hash of the trimmed code for an active
  parent of the school, and uses it up: after any further run of requests no login with that challenge succeeds.\<close>

theorem otp_logs_in_once:
  assumes "distinct (map ot_id (po_challenges db))"
    and "request (verify_otp open_session rt cid code) db = (Inr (s, t), db')"
  shows "(\<exists>ch\<in>set (po_challenges db). pg_uuid cid = Inr (ot_id ch) \<and> ot_consumed_at ch = None \<and>
      rt_clock rt \<le> ot_expires_at ch \<and> rt_now rt < ot_expires_at ch \<and> hash_otp rt (js_trim code) = Inr (ot_otp_hash ch) \<and>
      ot_user_id ch = Some (ps_user_id s) \<and> ot_tenant_id ch = ps_tenant_id s) \<and>
    (\<exists>u\<in>set (po_users db). us_id u = ps_user_id s \<and> us_active u) \<and>
    fst (request (verify_otp open_session' rt' cid code') (portal_run ss db')) \<noteq> Inr (s', t')"
proof -
  from verify_request_Inr[OF assms(2)] obtain ch h where c: "pg_uuid cid = Inr (ot_id ch)" "ch \<in> set (po_challenges db)"
    "ot_consumed_at ch = None" "rt_clock rt \<le> whole_seconds (ot_expires_at ch)" "hash_otp rt (js_trim code) = Inr (ot_otp_hash ch)"
    "find_parent_auth_subject (activated rt (ot_tenant_id ch)) (or_default (ot_email ch) []) (ot_phone_hash ch) db = Inr (Some s)"
    "ot_user_id ch = Some (ps_user_id s)" "ot_tenant_id ch = ps_tenant_id s"
    "consume_challenge (activated rt (ot_tenant_id ch)) (ot_tenant_id ch) (ot_id ch) db = Inr (True, db')"
    by (rule verify_otp_Inr) blast
  let ?open = "open_challenge (activated rt (ot_tenant_id ch)) (ot_tenant_id ch) (ot_id ch)"
  from c(9) obtain x where x: "x \<in> set (po_challenges db)" "?open x"
    and db': "po_challenges db' = update_where ?open (\<lambda>c. c\<lparr>ot_consumed_at := Some (rt_now (activated rt (ot_tenant_id ch)))\<rparr>) (po_challenges db)"
    by (auto simp: consume_challenge_def list_ex_iff)
  have one: "y = ch" if "y \<in> set (po_challenges db)" "ot_id y = ot_id ch" for y
    using assms(1) that c(2) by (auto simp: distinct_map dest: inj_onD)
  then have "x = ch" using x by (auto simp: open_challenge_def challenge_at_def)
  let ?R = "\<lambda>cs. ot_id ch \<in> ot_id ` set cs \<and> (\<forall>y\<in>set cs. ot_id y = ot_id ch \<longrightarrow> ot_consumed_at y \<noteq> None)"
  have "map ot_id (po_challenges db') = map ot_id (po_challenges db)" unfolding db' by (rule update_where_map_key) simp
  then have "ot_id ` set (po_challenges db') = ot_id ` set (po_challenges db)" by (metis set_map)
  moreover have "ot_consumed_at y \<noteq> None" if "y \<in> set (po_challenges db')" "ot_id y = ot_id ch" for y
    using that x(2) one \<open>x = ch\<close> by (auto simp: db' update_where_def split: if_splits)
  ultimately have "?R (po_challenges db')" using c(2) by auto
  then have run: "?R (po_challenges (portal_run ss db'))"
  proof (rule challenges_run[where R = ?R, rotated 2])
    fix cs :: "otp_challenge list" and c :: otp_challenge assume r: "?R cs" and c: "ot_id c = fresh_uuid (map ot_id cs)"
    have "ot_id ch \<in> set (map ot_id cs)" using r by simp
    then have "ot_id c \<noteq> ot_id ch" using c by (metis fresh_uuid_notin)
    then show "?R (cs @ [c])" using r by auto
  next
    fix cs :: "otp_challenge list" and p n assume r: "?R cs"
    let ?u = "update_where p (\<lambda>c. c\<lparr>ot_consumed_at := Some n\<rparr>) cs"
    have "map ot_id ?u = map ot_id cs" by (rule update_where_map_key) simp
    then have "ot_id ` set ?u = ot_id ` set cs" by (metis set_map)
    then show "?R ?u" using r by (auto simp: update_where_def)
  qed
  have "fst (request (verify_otp open_session' rt' cid code') (portal_run ss db')) \<noteq> Inr (s', t')"
  proof
    assume "fst (request (verify_otp open_session' rt' cid code') (portal_run ss db')) = Inr (s', t')"
    then obtain db2 where "request (verify_otp open_session' rt' cid code') (portal_run ss db') = (Inr (s', t'), db2)"
      by (metis prod.collapse)
    from verify_request_Inr[OF this] obtain ch' :: otp_challenge where "pg_uuid cid = Inr (ot_id ch')"
      "ch' \<in> set (po_challenges (portal_run ss db'))" "ot_consumed_at ch' = None" by (rule verify_otp_Inr) (rule that)
    with run c(1) show False by auto
  qed
  moreover have "\<exists>u\<in>set (po_users db). us_id u = ps_user_id s \<and> us_active u"
    by (rule found_parent_active[OF c(6)])
  moreover have "rt_now rt < ot_expires_at ch" using x \<open>x = ch\<close> by (simp add: open_challenge_def activated_def)
  moreover have "whole_seconds (ot_expires_at ch) \<le> ot_expires_at ch"
    by (simp add: whole_seconds_def)
  ultimately show ?thesis using c by fastforce
qed

theorem otp_logs_in_once_witness:
  "\<exists>s db'. request (verify_otp (\<lambda>s. Inr ()) otp_rt (uuid_text 1) '' 123456'') otp_db = (Inr (s, ()), db') \<and>
    fst (request (verify_otp (\<lambda>s. Inr ()) otp_rt (uuid_text 1) '' 123456'') (portal_run [(otp_env, GetWallet)] db')) \<noteq> Inr (s, ())"
proof -
  obtain s db' where r: "request (verify_otp (\<lambda>s. Inr ()) otp_rt (uuid_text 1) '' 123456'') otp_db = (Inr (s, ()), db')"
    using otp_example by blast
  have "distinct (map ot_id (po_challenges otp_db))" by (simp add: otp_db_def)
  from otp_logs_in_once[OF this r, where open_session' = "\<lambda>s. Inr ()"] r show ?thesis by blast
qed

lemma chain_Inl: "fst (chain m k st) = Inl e \<longleftrightarrow> fst (m st) = Inl e \<or> (\<exists>x st'. m st = (Inr x, st') \<and> fst (k x st') = Inl e)"
  by (auto simp: chain_def split: prod.splits sum.splits)

lemma find_parent_Inl: "find_parent_auth_subject rt idf ph db = Inl e \<Longrightarrow> e = PgError ''42501'' []"
  by (auto simp: find_parent_auth_subject_def before_authentication_def guard_def and_then_def split: if_splits)

lemma hash_otp_Inl: "hash_otp rt v = Inl e \<Longrightarrow> e = BadRequestException ''Parent portal security key is not configured''"
  by (auto simp: hash_otp_def pepper_def and_then_def split: if_splits)

lemma not_exceeded:
  assumes "ot_attempts ch = 0"
  shows "fst (verify_challenge (\<lambda>s. Inr ()) rt ch user code st) \<noteq> Inl (UnauthorizedException ''Verification attempts exceeded'')"
  using assms
  by (auto simp: verify_challenge_def Let_def chain_Inl reading_def statement_def synchronize_session_def txn_simps
      increment_attempts_def consume_challenge_def guard_def and_then_def dest: find_parent_Inl hash_otp_Inl
      split: option.splits sum.splits if_splits)

text \<open>C31: The limit of five wrong codes is never reached: the counter is written in the request that answers 401, whose
  transaction is rolled back. After any run, wrong codes without number included, every counter is still zero, and no
  code is refused for too many attempts.\<close>

theorem otp_attempts_never_counted:
  assumes "list_all (\<lambda>c. ot_attempts c = 0) (po_challenges db)"
  shows "list_all (\<lambda>c. ot_attempts c = 0) (po_challenges (portal_run ss db)) \<and>
    fst (request (verify_otp (\<lambda>s. Inr ()) rt cid code) (portal_run ss db)) \<noteq>
      Inl (UnauthorizedException ''Verification attempts exceeded'')"
proof -
  let ?db = "portal_run ss db"
  have zero: "list_all (\<lambda>c. ot_attempts c = 0) (po_challenges ?db)"
    by (rule challenges_run[where R = "list_all (\<lambda>c. ot_attempts c = 0)"]) (use assms in \<open>auto simp: list_all_iff update_where_def\<close>)
  have ch: "ot_attempts ch = 0" if "find_challenge_for_verify rt cid ?db = Inr (Some ch)" for ch
    using that zero by (auto simp: find_challenge_for_verify_def and_then_eq_Inr list_all_iff dest!: select_first_Some)
  have "fst (verify_otp (\<lambda>s. Inr ()) rt cid code (Some ?db)) \<noteq> Inl (UnauthorizedException ''Verification attempts exceeded'')"
    using ch by (auto simp: verify_otp_def chain_Inl reading_def statement_open find_challenge_for_verify_def pg_uuid_def
        before_authentication_def guard_def txn_simps and_then_def not_exceeded split: option.splits sum.splits if_splits)
  then show ?thesis using zero by (auto simp: request_def split: prod.splits sum.splits option.splits)
qed

theorem otp_attempts_never_counted_witness:
  "fst (request (verify_otp (\<lambda>s. Inr ()) otp_rt (uuid_text 1) ''123456'')
      (portal_run (replicate 6 (otp_env, VerifyOtp (uuid_text 1) ''000000'')) otp_db)) \<noteq>
    Inl (UnauthorizedException ''Verification attempts exceeded'')"
  by (rule otp_attempts_never_counted[THEN conjunct2]) (simp add: otp_db_def otp_row_def)

end
