(* ===== verification/Daraja.thy ===== *)
theory Daraja
  imports Sms_Service
begin

text \<open>
  A school's Daraja credentials (\<open>daraja-integration.service.ts\<close>, \<open>daraja-integration.repository.ts\<close>, table
  \<open>school_integrations\<close>): one row per environment, read back masked, tested and activated, and looked up by its id
  for a callback.
\<close>

record daraja_integration =
  dj_id :: uuid
  dj_tenant_id :: string
  dj_paybill_number :: "string option"
  dj_till_number :: "string option"
  dj_shortcode :: "string option"
  dj_consumer_key_ciphertext :: "string option"
  dj_consumer_secret_ciphertext :: "string option"
  dj_passkey_ciphertext :: "string option"
  dj_environment :: mpesa_environment
  dj_callback_url :: "string option"
  dj_is_active :: bool
  dj_last_test_status :: "string option"
  dj_last_tested_at :: "int option"
  dj_created_by_user_id :: "uuid option"
  dj_updated_by_user_id :: "uuid option"
  dj_created_at :: int
  dj_updated_at :: int

record daraja_db = sms_db +
  dj_integrations :: "daraja_integration list"

section \<open>\<open>DarajaIntegrationRepository\<close>\<close>

definition get_daraja_integration ::
  "runtime \<Rightarrow> string \<Rightarrow> string option \<Rightarrow> 'a daraja_db_scheme \<Rightarrow> daraja_integration option" where
  "get_daraja_integration rt tenant environment db =
     first_row (sort_key (\<lambda>r. (if dj_is_active r then 0 else 1 :: int, - dj_updated_at r))
       (filter (\<lambda>r. in_session rt (dj_tenant_id r) \<and> dj_tenant_id r = tenant \<and>
          (case environment of None \<Rightarrow> True | Some e \<Rightarrow> environment_text (dj_environment r) = e)) (dj_integrations db)))"

text \<open>\<open>app.find_daraja_integration_by_id_for_callback\<close>, outside row level security, before authentication.\<close>

definition get_daraja_integration_by_id ::
  "runtime \<Rightarrow> string \<Rightarrow> 'a daraja_db_scheme \<Rightarrow> daraja_integration option result" where
  "get_daraja_integration_by_id rt integration_id db =
     and_then (pg_uuid integration_id) (\<lambda>i.
     and_then (guard (rt_user_id rt \<in> {[], AUTH_ANONYMOUS_USER_ID}) (PgError ''42501'' '''')) (\<lambda>_.
     Inr (select_first (\<lambda>r. dj_id r = i) (dj_integrations db))))"

record daraja_input =
  dx_paybill_number :: "string option"
  dx_till_number :: "string option"
  dx_shortcode :: string
  dx_consumer_key_ciphertext :: string
  dx_consumer_secret_ciphertext :: string
  dx_passkey_ciphertext :: string
  dx_environment :: mpesa_environment
  dx_callback_url :: "string option"
  dx_is_active :: bool

definition daraja_row :: "runtime \<Rightarrow> string \<Rightarrow> daraja_input \<Rightarrow> uuid option \<Rightarrow> uuid \<Rightarrow> daraja_integration" where
  "daraja_row rt tenant i actor new_id =
     \<lparr>dj_id = new_id, dj_tenant_id = tenant, dj_paybill_number = dx_paybill_number i, dj_till_number = dx_till_number i,
      dj_shortcode = Some (dx_shortcode i), dj_consumer_key_ciphertext = Some (dx_consumer_key_ciphertext i),
      dj_consumer_secret_ciphertext = Some (dx_consumer_secret_ciphertext i),
      dj_passkey_ciphertext = Some (dx_passkey_ciphertext i), dj_environment = dx_environment i,
      dj_callback_url = dx_callback_url i, dj_is_active = dx_is_active i, dj_last_test_status = None,
      dj_last_tested_at = None, dj_created_by_user_id = actor, dj_updated_by_user_id = actor,
      dj_created_at = rt_now rt, dj_updated_at = rt_now rt\<rparr>"

definition daraja_conflict :: "runtime \<Rightarrow> daraja_integration \<Rightarrow> daraja_integration \<Rightarrow> daraja_integration" where
  "daraja_conflict rt new old =
     old\<lparr>dj_paybill_number := dj_paybill_number new, dj_till_number := dj_till_number new, dj_shortcode := dj_shortcode new,
         dj_consumer_key_ciphertext := dj_consumer_key_ciphertext new,
         dj_consumer_secret_ciphertext := dj_consumer_secret_ciphertext new,
         dj_passkey_ciphertext := dj_passkey_ciphertext new, dj_callback_url := dj_callback_url new,
         dj_is_active := dj_is_active new, dj_updated_by_user_id := dj_updated_by_user_id new, dj_updated_at := rt_now rt\<rparr>"

definition daraja_key :: "string \<Rightarrow> mpesa_environment \<Rightarrow> daraja_integration \<Rightarrow> bool" where
  "daraja_key tenant env r \<longleftrightarrow> dj_tenant_id r = tenant \<and> dj_environment r = env"

definition upsert_daraja_integration ::
  "runtime \<Rightarrow> string \<Rightarrow> daraja_input \<Rightarrow> string option \<Rightarrow> 'a daraja_db_scheme \<Rightarrow> (daraja_integration \<times> 'a daraja_db_scheme) result" where
  "upsert_daraja_integration rt tenant i actor db =
     and_then (pg_uuid_opt actor) (\<lambda>by.
     and_then (rls_check rt tenant) (\<lambda>_.
     let new = daraja_row rt tenant i by (fresh_uuid (map dj_id (dj_integrations db))); at = daraja_key tenant (dx_environment i)
     in case select_first at (dj_integrations db) of
          Some old \<Rightarrow>
            Inr (daraja_conflict rt new old, db\<lparr>dj_integrations := update_where at (daraja_conflict rt new) (dj_integrations db)\<rparr>)
        | None \<Rightarrow> Inr (new, db\<lparr>dj_integrations := dj_integrations db @ [new]\<rparr>)))"

definition daraja_at :: "runtime \<Rightarrow> string \<Rightarrow> uuid \<Rightarrow> daraja_integration \<Rightarrow> bool" where
  "daraja_at rt tenant i r \<longleftrightarrow> in_session rt (dj_tenant_id r) \<and> dj_tenant_id r = tenant \<and> dj_id r = i"

definition set_daraja_active_row ::
  "runtime \<Rightarrow> string \<Rightarrow> string \<Rightarrow> bool \<Rightarrow> string option \<Rightarrow> 'a daraja_db_scheme \<Rightarrow>
     (daraja_integration option \<times> 'a daraja_db_scheme) result" where
  "set_daraja_active_row rt tenant integration_id active actor db =
     and_then (pg_uuid integration_id) (\<lambda>i.
     and_then (pg_uuid_opt actor) (\<lambda>by.
     let rows = update_where (daraja_at rt tenant i)
       (\<lambda>r. r\<lparr>dj_is_active := active, dj_updated_by_user_id := by, dj_updated_at := rt_now rt\<rparr>) (dj_integrations db)
     in Inr (select_first (daraja_at rt tenant i) rows, db\<lparr>dj_integrations := rows\<rparr>)))"

definition mark_connection_test ::
  "runtime \<Rightarrow> string \<Rightarrow> uuid \<Rightarrow> string \<Rightarrow> 'a daraja_db_scheme \<Rightarrow> (unit \<times> 'a daraja_db_scheme) result" where
  "mark_connection_test rt tenant i status db =
     Inr ((), db\<lparr>dj_integrations := update_where (daraja_at rt tenant i)
       (\<lambda>r. r\<lparr>dj_last_test_status := Some status, dj_last_tested_at := Some (rt_now rt), dj_updated_at := rt_now rt\<rparr>)
       (dj_integrations db)\<rparr>)"

definition append_integration_log ::
  "runtime \<Rightarrow> string \<Rightarrow> string \<Rightarrow> string \<Rightarrow> string option \<Rightarrow> 'a sms_db_scheme \<Rightarrow> (unit \<times> 'a sms_db_scheme) result" where
  "append_integration_log rt tenant operation status actor db =
     and_then (pg_uuid_opt actor) (\<lambda>by.
     and_then (rls_check rt tenant) (\<lambda>_.
     Inr ((), db\<lparr>sm_integration_logs := sm_integration_logs db @
       [\<lparr>il_id = fresh_uuid (map il_id (sm_integration_logs db)), il_tenant_id = Some tenant,
         il_integration_type = ''mpesa_daraja'', il_operation = operation, il_status = status,
         il_request_id = Some (rt_request_id rt), il_created_by_user_id = by, il_created_at = rt_now rt\<rparr>]\<rparr>)))"

section \<open>\<open>DarajaIntegrationService\<close>\<close>

definition daraja_aad :: "string \<Rightarrow> mpesa_environment \<Rightarrow> string \<Rightarrow> string" where
  "daraja_aad tenant env field = ''daraja:'' @ tenant @ '':'' @ environment_text env @ '':'' @ field"

record daraja_credentials =
  dk_consumer_key :: "string option"
  dk_consumer_secret :: "string option"
  dk_passkey :: "string option"

definition decrypt_credential :: "cipher \<Rightarrow> daraja_integration \<Rightarrow> string option \<Rightarrow> string \<Rightarrow> string option" where
  "decrypt_credential c r v field =
     (if truthy v then Some (try_decrypt c (the v) (daraja_aad (dj_tenant_id r) (dj_environment r) field)) else None)"

definition decrypt_credentials :: "cipher \<Rightarrow> daraja_integration \<Rightarrow> daraja_credentials" where
  "decrypt_credentials c r =
     \<lparr>dk_consumer_key = decrypt_credential c r (dj_consumer_key_ciphertext r) ''consumer-key'',
      dk_consumer_secret = decrypt_credential c r (dj_consumer_secret_ciphertext r) ''consumer-secret'',
      dk_passkey = decrypt_credential c r (dj_passkey_ciphertext r) ''passkey''\<rparr>"

definition mask_daraja_secret :: "string option \<Rightarrow> string option" where
  "mask_daraja_secret v =
     (if \<not> truthy v then None
      else (let t = the v; visible = (if length t \<le> 4 then drop (length t - 2) t else drop (length t - 4) t)
            in Some (replicate (max 8 (length t - length visible)) (CHR ''*'') @ visible)))"

record daraja_response =
  de_id :: uuid
  de_tenant_id :: string
  de_paybill_number :: "string option"
  de_till_number :: "string option"
  de_shortcode :: "string option"
  de_consumer_key_masked :: "string option"
  de_consumer_secret_masked :: "string option"
  de_passkey_masked :: "string option"
  de_environment :: mpesa_environment
  de_callback_url :: "string option"
  de_is_active :: bool
  de_last_test_status :: "string option"
  de_last_tested_at :: "int option"
  de_created_at :: int
  de_updated_at :: int

definition to_daraja_response :: "cipher \<Rightarrow> daraja_integration \<Rightarrow> daraja_response" where
  "to_daraja_response c r =
     (let k = decrypt_credentials c r
      in \<lparr>de_id = dj_id r, de_tenant_id = dj_tenant_id r, de_paybill_number = dj_paybill_number r,
          de_till_number = dj_till_number r, de_shortcode = dj_shortcode r,
          de_consumer_key_masked = mask_daraja_secret (dk_consumer_key k),
          de_consumer_secret_masked = mask_daraja_secret (dk_consumer_secret k),
          de_passkey_masked = mask_daraja_secret (dk_passkey k), de_environment = dj_environment r,
          de_callback_url = dj_callback_url r, de_is_active = dj_is_active r,
          de_last_test_status = dj_last_test_status r, de_last_tested_at = dj_last_tested_at r,
          de_created_at = dj_created_at r, de_updated_at = dj_updated_at r\<rparr>)"

definition require_daraja_tenant_id :: "runtime \<Rightarrow> string result" where
  "require_daraja_tenant_id rt =
     (if truthy (rt_tenant_id rt) then Inr (the (rt_tenant_id rt))
      else Inl (UnauthorizedException ''Tenant context is required for Daraja settings''))"

definition get_daraja_settings ::
  "cipher \<Rightarrow> runtime \<Rightarrow> string option \<Rightarrow> (daraja_response option, 'a daraja_db_scheme) txn" where
  "get_daraja_settings c rt environment =
     chain (computing (require_daraja_tenant_id rt)) (\<lambda>tenant.
     chain (reading (\<lambda>db. Inr (get_daraja_integration rt tenant environment db))) (\<lambda>r.
     returning (map_option (to_daraja_response c) r)))"

text \<open>\<open>replace(':integrationId', id)\<close>: the first occurrence.\<close>

fun replace_first :: "string \<Rightarrow> string \<Rightarrow> string \<Rightarrow> string" where
  "replace_first pat new s =
     (if take (length pat) s = pat then new @ drop (length pat) s
      else (case s of [] \<Rightarrow> [] | a # t \<Rightarrow> a # replace_first pat new t))"

declare replace_first.simps [simp del]

definition DARAJA_CALLBACK_URL :: string where
  "DARAJA_CALLBACK_URL = ''/payments/mpesa/callback/:integrationId''"

record save_daraja_dto =
  sj_paybill_number :: "string option"
  sj_till_number :: "string option"
  sj_shortcode :: string
  sj_consumer_key :: string
  sj_consumer_secret :: string
  sj_passkey :: string
  sj_environment :: mpesa_environment
  sj_is_active :: "bool option"

definition daraja_input_of :: "cipher \<Rightarrow> string \<Rightarrow> save_daraja_dto \<Rightarrow> daraja_input" where
  "daraja_input_of c tenant d =
     (let seal = (\<lambda>v field. pii_encrypt c (js_trim v) (daraja_aad tenant (sj_environment d) field))
      in \<lparr>dx_paybill_number = trimmed_or_none (sj_paybill_number d), dx_till_number = trimmed_or_none (sj_till_number d),
          dx_shortcode = js_trim (sj_shortcode d), dx_consumer_key_ciphertext = seal (sj_consumer_key d) ''consumer-key'',
          dx_consumer_secret_ciphertext = seal (sj_consumer_secret d) ''consumer-secret'',
          dx_passkey_ciphertext = seal (sj_passkey d) ''passkey'', dx_environment = sj_environment d,
          dx_callback_url = Some DARAJA_CALLBACK_URL, dx_is_active = or_default (sj_is_active d) False\<rparr>)"

definition save_daraja_settings ::
  "cipher \<Rightarrow> runtime \<Rightarrow> save_daraja_dto \<Rightarrow> (daraja_response, 'a daraja_db_scheme) txn" where
  "save_daraja_settings c rt d =
     chain (computing (require_daraja_tenant_id rt)) (\<lambda>tenant.
     chain (statement (upsert_daraja_integration rt tenant (daraja_input_of c tenant d) (acting_user rt))) (\<lambda>r.
     chain (statement (append_integration_log rt tenant ''daraja_credentials_updated'' ''success'' (acting_user rt))) (\<lambda>_.
     returning (to_daraja_response c
       (r\<lparr>dj_callback_url := map_option (replace_first '':integrationId'' (uuid_text (dj_id r))) (dj_callback_url r)\<rparr>)))))"

definition test_daraja_connection :: "cipher \<Rightarrow> runtime \<Rightarrow> string option \<Rightarrow> (uuid, 'a daraja_db_scheme) txn" where
  "test_daraja_connection c rt environment =
     chain (computing (require_daraja_tenant_id rt)) (\<lambda>tenant.
     chain (reading (\<lambda>db. Inr (get_daraja_integration rt tenant environment db))) (\<lambda>found.
     case found of
       None \<Rightarrow> raising (BadRequestException ''Daraja integration is not configured'')
     | Some r \<Rightarrow>
         (let k = decrypt_credentials c r
          in if \<not> truthy (dk_consumer_key k) \<or> \<not> truthy (dk_consumer_secret k) \<or> \<not> truthy (dk_passkey k) \<or> \<not> truthy (dj_shortcode r) then
               chain (statement (mark_connection_test rt tenant (dj_id r) ''failed'')) (\<lambda>_.
               raising (BadRequestException ''Daraja credentials are incomplete''))
             else
               chain (statement (mark_connection_test rt tenant (dj_id r) ''ok'')) (\<lambda>_.
               chain (statement (append_integration_log rt tenant ''daraja_connection_tested'' ''ok'' (acting_user rt))) (\<lambda>_.
               returning (dj_id r))))))"

definition set_daraja_active ::
  "cipher \<Rightarrow> runtime \<Rightarrow> string \<Rightarrow> bool \<Rightarrow> (daraja_response, 'a daraja_db_scheme) txn" where
  "set_daraja_active c rt integration_id active =
     chain (computing (require_daraja_tenant_id rt)) (\<lambda>tenant.
     chain (statement (set_daraja_active_row rt tenant integration_id active (acting_user rt))) (\<lambda>found.
     chain (computing (map_provider found)) (\<lambda>r.
     chain (statement (append_integration_log rt tenant
       (if active then ''daraja_integration_activated'' else ''daraja_integration_deactivated'') ''success'' (acting_user rt))) (\<lambda>_.
     returning (to_daraja_response c r)))))"

record callback_credentials =
  ck_tenant_id :: string
  ck_shortcode :: "string option"
  ck_paybill_number :: "string option"
  ck_till_number :: "string option"
  ck_environment :: mpesa_environment

definition get_credentials_for_callback ::
  "runtime \<Rightarrow> string \<Rightarrow> (callback_credentials option, 'a daraja_db_scheme) txn" where
  "get_credentials_for_callback rt integration_id =
     chain (reading (get_daraja_integration_by_id rt integration_id)) (\<lambda>found.
     returning (case found of
       None \<Rightarrow> None
     | Some r \<Rightarrow>
         if \<not> dj_is_active r then None
         else Some \<lparr>ck_tenant_id = dj_tenant_id r, ck_shortcode = dj_shortcode r, ck_paybill_number = dj_paybill_number r,
                ck_till_number = dj_till_number r, ck_environment = dj_environment r\<rparr>))"

end
