(* ===== verification/Daraja_Claims.thy ===== *)
theory Daraja_Claims
  imports Daraja Sms_Claims
begin

text \<open>
  What a school reads back after it has stored its Daraja credentials.
\<close>

lemma filter_update_where:
  "(\<And>x. p x \<Longrightarrow> p (f x)) \<Longrightarrow> filter p (update_where p f xs) = map f (filter p xs)"
  by (induction xs) (auto simp: update_where_def)

lemma filter_keyed:
  "distinct (map k xs) \<Longrightarrow> select_first (\<lambda>x. k x = v) xs = Some y \<Longrightarrow> filter (\<lambda>x. k x = v) xs = [y]"
proof (induction xs)
  case (Cons a xs)
  show ?case
  proof (cases "k a = v")
    case True
    then have "filter (\<lambda>x. k x = v) xs = []" using Cons.prems(1) by (auto simp: filter_empty_conv rev_image_eqI)
    with True Cons.prems(2) show ?thesis by simp
  next
    case False
    with Cons show ?thesis by simp
  qed
qed simp

lemma daraja_key_pair: "daraja_key tenant e = (\<lambda>r. (dj_tenant_id r, dj_environment r) = (tenant, e))"
  by (auto simp: daraja_key_def fun_eq_iff)

text \<open>The upsert leaves one row for the school and the environment, the one it returns.\<close>

lemma upserted_row:
  assumes "upsert_daraja_integration rt tenant i actor db = Inr (r, db')"
    and "distinct (map (\<lambda>r. (dj_tenant_id r, dj_environment r)) (dj_integrations db))"
  shows "filter (daraja_key tenant (dx_environment i)) (dj_integrations db') = [r]" "in_session rt tenant"
    "dj_tenant_id r = tenant" "dj_environment r = dx_environment i" "dj_consumer_key_ciphertext r = Some (dx_consumer_key_ciphertext i)"
    "dj_consumer_secret_ciphertext r = Some (dx_consumer_secret_ciphertext i)" "dj_passkey_ciphertext r = Some (dx_passkey_ciphertext i)"
    "dj_callback_url r = dx_callback_url i"
proof -
  let ?at = "daraja_key tenant (dx_environment i)"
  let ?new = "\<lambda>by'. daraja_row rt tenant i by' (fresh_uuid (map dj_id (dj_integrations db)))"
  from assms(1) obtain by' where ok: "pg_uuid_opt actor = Inr by'" "rls_check rt tenant = Inr ()"
    by (auto simp: upsert_daraja_integration_def and_then_eq_Inr)
  have ses: "in_session rt tenant" using ok(2) by (simp add: rls_check_def guard_def split: if_splits)
  have up: "(case select_first ?at (dj_integrations db) of
        Some old \<Rightarrow> (daraja_conflict rt (?new by') old, db\<lparr>dj_integrations := update_where ?at (daraja_conflict rt (?new by')) (dj_integrations db)\<rparr>)
      | None \<Rightarrow> (?new by', db\<lparr>dj_integrations := dj_integrations db @ [?new by']\<rparr>)) = (r, db')"
    using assms(1) ok by (auto simp: upsert_daraja_integration_def Let_def split: option.splits)
  have fields: "?at (?new by')" by (simp add: daraja_key_def daraja_row_def)
  show "in_session rt tenant" by (rule ses)
  show "filter ?at (dj_integrations db') = [r]"
  proof (cases "select_first ?at (dj_integrations db)")
    case None
    then have "filter ?at (dj_integrations db) = []" by (simp add: select_first_None filter_empty_conv)
    with None up fields show ?thesis by auto
  next
    case (Some old)
    then have "filter ?at (dj_integrations db) = [old]"
      unfolding daraja_key_pair by (rule filter_keyed[OF assms(2)])
    moreover have "?at x \<Longrightarrow> ?at (daraja_conflict rt (?new by') x)" for x by (simp add: daraja_key_def daraja_conflict_def)
    ultimately show ?thesis using Some up by (auto simp: filter_update_where)
  qed
  have "?at r" using up fields
    by (auto simp: daraja_key_def daraja_conflict_def dest!: select_first_Some split: option.splits)
  then show "dj_tenant_id r = tenant" "dj_environment r = dx_environment i" by (simp_all add: daraja_key_def)
  show "dj_consumer_key_ciphertext r = Some (dx_consumer_key_ciphertext i)"
    "dj_consumer_secret_ciphertext r = Some (dx_consumer_secret_ciphertext i)" "dj_passkey_ciphertext r = Some (dx_passkey_ciphertext i)"
    "dj_callback_url r = dx_callback_url i"
    using up by (auto simp: daraja_row_def daraja_conflict_def split: option.splits)
qed

lemma credential_read_back:
  assumes "authenticated_cipher c" and "\<not> is_encrypted v" and "v \<noteq> []"
  shows "decrypt_credential c r (Some (pii_encrypt c v (daraja_aad (dj_tenant_id r) (dj_environment r) field))) field = Some v"
proof -
  have "pii_encrypt c v a \<noteq> []" for a
    using sealed_is_encrypted[OF assms(2), of c a] by (auto simp: is_encrypted_def ENCRYPTION_PREFIX_def)
  then show ?thesis by (simp add: decrypt_credential_def truthy_def try_decrypt_def decrypt_encrypt[OF assms])
qed

lemma placeholder_replaced: "replace_first '':integrationId'' new DARAJA_CALLBACK_URL = ''/payments/mpesa/callback/'' @ new"
  by (simp add: DARAJA_CALLBACK_URL_def replace_first.simps)

text \<open>C32: Credentials that were stored are read back for their environment, masked, by the same school: the answer of the
  query is that of the store, secrets included, but for the callback URL, which names the integration in the answer
  of the store and still holds the placeholder in every later one.\<close>

theorem saved_daraja_settings_read_back:
  assumes "authenticated_cipher c" and "request (save_daraja_settings c rt d) db = (Inr r, db')"
    and "distinct (map (\<lambda>r. (dj_tenant_id r, dj_environment r)) (dj_integrations db))"
    and "\<forall>v\<in>{sj_consumer_key d, sj_consumer_secret d, sj_passkey d}. js_trim v \<noteq> [] \<and> \<not> is_encrypted (js_trim v)"
  shows "request (get_daraja_settings c rt (Some (environment_text (sj_environment d)))) db' =
      (Inr (Some (r\<lparr>de_callback_url := Some ''/payments/mpesa/callback/:integrationId''\<rparr>)), db') \<and>
    de_callback_url r = Some (''/payments/mpesa/callback/'' @ uuid_text (de_id r)) \<and>
    de_consumer_key_masked r = mask_daraja_secret (Some (js_trim (sj_consumer_key d))) \<and>
    de_consumer_secret_masked r = mask_daraja_secret (Some (js_trim (sj_consumer_secret d))) \<and>
    de_passkey_masked r = mask_daraja_secret (Some (js_trim (sj_passkey d)))"
proof -
  obtain st where "save_daraja_settings c rt d (Some db) = (Inr r, st)" "st = Some db' \<or> st = None"
    using request_Inr_state[OF assms(2)] by blast
  then obtain t q db1 x where t: "require_daraja_tenant_id rt = Inr t"
    and up: "upsert_daraja_integration rt t (daraja_input_of c t d) (acting_user rt) db = Inr (q, db1)"
    and log: "append_integration_log rt t ''daraja_credentials_updated'' ''success'' (acting_user rt) db1 = Inr (x, db')"
    and r: "r = to_daraja_response c
       (q\<lparr>dj_callback_url := map_option (replace_first '':integrationId'' (uuid_text (dj_id q))) (dj_callback_url q)\<rparr>)"
    by (auto simp: save_daraja_settings_def chain_Inr txn_simps)
  note row = upserted_row[OF up assms(3)]
  have e: "dx_environment (daraja_input_of c t d) = sj_environment d" by (simp add: daraja_input_of_def Let_def)
  have "dj_integrations db' = dj_integrations db1" using log by (auto simp: append_integration_log_def and_then_eq_Inr)
  moreover have "environment_text a = environment_text b \<longleftrightarrow> a = b" for a b by (cases a; cases b) simp_all
  ultimately have "filter (\<lambda>r. in_session rt (dj_tenant_id r) \<and> dj_tenant_id r = t \<and>
      environment_text (dj_environment r) = environment_text (sj_environment d)) (dj_integrations db') =
    filter (daraja_key t (sj_environment d)) (dj_integrations db1)"
    using row(2) by (auto simp: daraja_key_def intro!: filter_cong)
  then have found: "get_daraja_integration rt t (Some (environment_text (sj_environment d))) db' = Some q"
    using row(1) by (simp add: get_daraja_integration_def e first_row_def)
  have keys: "dj_tenant_id q = t" "dj_environment q = sj_environment d" using row(3,4) e by simp_all
  have cred: "decrypt_credential c q' (Some (pii_encrypt c (js_trim v) (daraja_aad t (sj_environment d) field))) field = Some (js_trim v)"
    if "v \<in> {sj_consumer_key d, sj_consumer_secret d, sj_passkey d}" "dj_tenant_id q' = t" "dj_environment q' = sj_environment d" for q' v field
    using credential_read_back[OF assms(1), of "js_trim v" q' field] assms(4) that by auto
  show ?thesis
    using row(5-8) keys
    by (simp add: request_def get_daraja_settings_def chain_def t found reading_def statement_def returning_def computing_def r
      to_daraja_response_def decrypt_credentials_def cred daraja_input_of_def Let_def placeholder_replaced DARAJA_CALLBACK_URL_def[symmetric])
qed

definition daraja_dto :: save_daraja_dto where
  "daraja_dto = \<lparr>sj_paybill_number = None, sj_till_number = Some ''5'', sj_shortcode = ''600100'', sj_consumer_key = ''key'',
     sj_consumer_secret = ''secret'', sj_passkey = ''pass'', sj_environment = Sandbox, sj_is_active = None\<rparr>"

definition daraja_empty :: daraja_db where
  "daraja_empty = \<lparr>sm_providers = [], sm_wallets = [], sm_logs = [], sm_entries = [], sm_requests = [], sm_integration_logs = [],
     dj_integrations = []\<rparr>"

theorem saved_daraja_settings_read_back_witness:
  "\<exists>r db'. request (save_daraja_settings plain_cipher sms_rt daraja_dto) daraja_empty = (Inr r, db') \<and>
    request (get_daraja_settings plain_cipher sms_rt (Some ''sandbox'')) db' =
      (Inr (Some (r\<lparr>de_callback_url := Some ''/payments/mpesa/callback/:integrationId''\<rparr>)), db')"
proof -
  have "require_daraja_tenant_id sms_rt = Inr ''t1''" "rls_check sms_rt ''t1'' = Inr ()" "acting_user sms_rt = None"
    by (simp_all add: require_daraja_tenant_id_def rls_check_def in_session_def or_default_def acting_user_def sms_rt_def tf_rt_def truthy_def)
  then have "\<exists>r db'. request (save_daraja_settings plain_cipher sms_rt daraja_dto) daraja_empty = (Inr r, db')"
    by (simp add: request_def save_daraja_settings_def chain_def computing_def statement_def upsert_daraja_integration_def
      append_integration_log_def pg_uuid_opt_def daraja_empty_def Let_def returning_def)
  then obtain r db' where r: "request (save_daraja_settings plain_cipher sms_rt daraja_dto) daraja_empty = (Inr r, db')" by blast
  have "distinct (map (\<lambda>r. (dj_tenant_id r, dj_environment r)) (dj_integrations daraja_empty))" by (simp add: daraja_empty_def)
  moreover have "\<forall>v\<in>{sj_consumer_key daraja_dto, sj_consumer_secret daraja_dto, sj_passkey daraja_dto}.
      js_trim v \<noteq> [] \<and> \<not> is_encrypted (js_trim v)"
    by (simp add: daraja_dto_def js_trim_def is_space_def is_encrypted_def ENCRYPTION_PREFIX_def)
  ultimately show ?thesis using saved_daraja_settings_read_back[OF plain_cipher_ok r] r by (simp add: daraja_dto_def)
qed

end
