(* ===== verification/Spec2Isabelle.thy ===== *)
theory Spec2Isabelle
  imports Ledger_Claims Outbox_Claims Fee_Allocation_Claims Billing_Lifecycle_Claims Billing_Service_Claims
    Mpesa_Text_Claims Payments_Claims Payments_Intent_Claims Sync_Claims Ledger_Success Manual_Payments_Claims
    Tenant_Finance_Claims Mpesa_C2b_Claims
    Sms_Claims Parent_Otp_Claims Daraja_Claims
begin

text \<open>
  ShuleHub is a school management platform: a multi-tenant NestJS API (\<open>apps/api\<close>) over PostgreSQL, a web
  application, an SMS relay and a malware scanner. This library verifies the part of the API that moves a
  school's money and the parts everything else rests on: the general ledger and its idempotency keys, the
  domain events that tie the modules together, M-PESA payments, the billing of subscriptions and student fees,
  fees received over the counter or by C2B transfer, the schools' payment settings, the credits and dispatch of text
  messages, the parents' login by a code, and the synchronisation of offline devices.

  \<^bold>\<open>How the parts interact.\<close> A request runs in the context of one tenant. A parent's payment starts as a
  payment intent (\<open>MpesaService.createPaymentIntent\<close>); the gateway's callback is logged and settled by the
  worker (\<open>MpesaCallbackProcessorService\<close>), which posts to the ledger (\<open>LedgerService.postTransaction\<close>)
  and publishes \<open>payment.completed\<close> to the outbox, both in its own transaction. The outbox's dispatcher hands the event
  to its consumers, which renew subscriptions (\<open>BillingService\<close>) and spread student fees over invoices
  (\<open>StudentFeePaymentAllocationService\<close>). A receipt over the counter (\<open>ManualFeePaymentService\<close>) posts and
  allocates in one step when it is cleared. A C2B transfer is confirmed by the gateway to the school its short code
  belongs to (\<open>TenantFinanceConfigService\<close>) and booked as such a receipt (\<open>MpesaC2bService\<close>). Text messages are paid
  from a school's wallet (\<open>SchoolSmsWalletService\<close>) and sent by the platform owner's default provider
  (\<open>PlatformSmsService\<close>, \<open>SmsDispatchService\<close>); the parents' login (\<open>ParentPortalAuthService\<close>) sends its codes that
  way. These run in the one transaction of their HTTP request (\<open>TenantMiddleware\<close>). Every posting appends an operation to the sync log, which devices
  pull. So the ledger is used by the payments and the manual payments, the idempotency store by the
  ledger and the payment intents, and the outbox by the payments and the billing.

  \<^bold>\<open>State.\<close> The database is a record of tables, each a list of rows in insertion order; a module's database
  extends the one of the modules it writes to: \<open>finance_db\<close> (ledger), \<open>events_db\<close>, \<open>billing_db\<close>,
  then \<open>payments_db\<close>, \<open>sync_db\<close>, \<open>manual_db\<close>, \<open>tenant_finance_db\<close> and \<open>c2b_db\<close>; the integrations' tables stand apart
  (\<open>sms_db\<close>, extended by \<open>portal_db\<close> and \<open>daraja_db\<close>). An operation takes the database and returns either an
  exception (\<open>Prelude.exn\<close>) or its answer with the new database; \<open>with_request_transaction\<close> keeps nothing
  of a failed one and runs the deferred triggers at the commit of an outermost one. Where an exception is caught
  inside a request and what was written before it counts, the operation is a \<open>txn\<close> instead, whose state is the tables
  its statements see, or none once a statement was refused; \<open>request\<close> commits it or rolls it back. A repository method is the SQL
  statement it sends, written as an update or a filter of the rows, with the CHECK constraints, unique indexes
  and foreign keys that can refuse it, in PostgreSQL's order. Money is the exact integer of minor
  units the column holds; the decimal strings of the services are converted where the code converts them, and
  the widths of the columns are checks (\<open>fits_bigint\<close>, \<open>fits_integer\<close>).

  \<^bold>\<open>Theories and code\<close> (paths under \<open>src/apps/api/src\<close>).
  \<^item> \<open>Prelude\<close>, \<open>Runtime\<close>, \<open>Json\<close>, \<open>Uuid\<close>, \<open>Iso_Time\<close>: results, JavaScript strings and
    \<open>BigInt\<close> numerals, the request context, canonical serialisation, identifiers and dates.
  \<^item> \<open>Idempotency\<close>: the table \<open>idempotency_keys\<close> with both repositories that lock it. The contract
    its clients use is the locale \<open>idempotency_store\<close>, interpreted for the ledger and for payment intents.
  \<^item> \<open>Finance_Store\<close>, \<open>Ledger\<close>: \<open>modules/finance\<close>, tables, repositories, the deferred balance trigger
    and \<open>postTransaction\<close>. \<open>Ledger_Facts\<close> has the ways a posting succeeds (\<open>post_cases\<close>),
    \<open>Ledger_Properties\<close> the invariant \<open>ledger_inv\<close>, replay and conflict, \<open>Ledger_Success\<close> that
    valid postings are accepted, \<open>Ledger_Claims\<close> the properties.
  \<^item> \<open>Outbox\<close>: \<open>modules/events\<close>. \<open>Outbox_Facts\<close> makes it a step relation, with the consumers'
    contract as a locale; \<open>Outbox_Claims\<close> the delivery properties.
  \<^item> \<open>Billing_Store\<close>, \<open>Billing_Lifecycle\<close>, \<open>Billing_Service\<close>, \<open>Fee_Allocation\<close>: \<open>modules/billing\<close>;
    the allocation is refined against a waterfall over the invoices' balances, the lifecycle against a
    calendar of phases.
  \<^item> \<open>Manual_Payments\<close>, \<open>Manual_Payments_Service\<close>: \<open>manual-fee-payment.service.ts\<close> with its tables.
    \<open>Manual_Payments_Facts\<close> and \<open>Manual_Payments_Effects\<close> describe a clearing and a reversal,
    \<open>Manual_Payments_Runs\<close> the way of a payment's status over any run of operations.
  \<^item> \<open>Mpesa_Text\<close>, \<open>Payments_Store\<close>, \<open>Payments_Service\<close>, \<open>Payments_Processor\<close>, \<open>Fraud_Detection\<close>:
    \<open>modules/payments\<close> and the fraud alerts of \<open>modules/security\<close>. \<open>Payments_Invariant\<close> has the invariant of the payment
    tables and the runs of all operations, \<open>Payments_Settlement\<close> what a settled checkout keeps.
  \<^item> \<open>Pii_Encryption\<close>: \<open>modules/security/pii-encryption.service.ts\<close> over a cipher. \<open>Tenant_Finance\<close>,
    \<open>Tenant_Finance_Service\<close>: \<open>modules/tenant-finance\<close>, settings, bank accounts, channels and their resolution.
  \<^item> \<open>Mpesa_C2b\<close>, \<open>Mpesa_C2b_Service\<close>: \<open>mpesa-c2b.service.ts\<close> and its table. \<open>Mpesa_C2b_Facts\<close> has the ways a confirmation
    ends, \<open>Mpesa_C2b_Runs\<close> the invariant that ties rows and bookings over any run.
  \<^item> \<open>Request_Transaction\<close>: \<open>middleware/tenant.middleware.ts\<close>, and the rules by which a transaction keeps a property.
  \<^item> \<open>Sms_Store\<close>, \<open>Sms_Wallet\<close>, \<open>Sms_Service\<close>: the providers, wallets and messages of \<open>modules/integrations\<close>. \<open>Sms_Facts\<close>
    has the ways a message ends, \<open>Sms_Runs\<close> the invariant of wallets and charges over any run (\<open>portal_run\<close>).
  \<^item> \<open>Parent_Otp\<close>: the parents' login; \<open>Parent_Otp_Claims\<close> what a run can do to its challenges. \<open>Daraja\<close>: a school's
    Daraja credentials.
  \<^item> \<open>Sync\<close>: \<open>modules/sync\<close>; \<open>Sync_Facts\<close> reduces a pull to the operations after a cursor.
  The theories named \<open>_Examples\<close> hold the concrete schools of the witnesses; those named \<open>_Claims\<close> the
  properties with their witnesses.

  \<^bold>\<open>Parameters.\<close> Code that is not in the repository is an argument of the definitions: \<open>runtime\<close> carries the
  clock, the digest, the date parser, the collation and the configuration; the STK gateway, the random UUIDs, the
  rows other transactions hold under \<open>SKIP LOCKED\<close> and the usage counter of Redis are arguments of the
  operations that use them, and so are the SMS provider's endpoint, the opening of a session after a login, the order
  PostgreSQL takes for two writes of one statement (\<open>cte_outcome\<close>) and the cipher of personal data, of which
  \<open>authenticated_cipher\<close> states what AES-GCM promises. A new row's id is some unused one (\<open>fresh_uuid\<close>). Nothing is assumed of the digest; where two payloads
  must not collide, the property says so. In the payment tables the columns that hold personal data are encrypted and
  decrypted by \<open>PiiEncryptionService\<close>, and the model keeps their plain text; the settings and the messages keep the
  ciphertext. PostgreSQL's inference of an index from
  \<open>ON CONFLICT\<close> columns is \<open>infers_arbiter\<close>.

  \<^bold>\<open>Bounds.\<close> All loops are over lists and structurally recursive, so that the operations terminate by
  construction. A device's repeated pull may run for ever on its own account, so \<open>pull_all\<close> is a \<open>partial_function\<close>
  whose termination is a property. The ledger's replay is bounded by the key's expiry, which the properties name.

  \<^bold>\<open>Simplifications.\<close> The rows of \<open>idempotency_keys\<close> are kept in two lists, one for the ledger's scope and
  one for the intents', which differ in the type of the stored answer. Concurrent requests are interleaved at the granularity of
  transactions; inside one the row locks make the statements atomic for the properties stated. The
  foreign keys to users and tenants are not tested. Row level security is a check of the session's tenant on each
  statement of the settings and the integrations; the lookups declared \<open>SECURITY DEFINER\<close> stand outside it, and their test
  of the request's path is taken to hold on the routes that call them. The sync log's versions are the order of insertion, and the
  commit order is a separate list of steps in \<open>Sync_Claims\<close>.

  \<^bold>\<open>Not modelled.\<close> The intake and queue of callbacks (queues and retries of the BullMQ library), the payment
  reports, admissions, students, academics, discipline, library, inventory, human resources, support, compliance,
  observability, authentication and tenancy: mostly queries and forms over their own tables, which none of the
  modelled parts read. Of \<open>sendSms\<close> the branch without a dispatch service, which the module always provides, is left out.
  Validation decorators of request bodies are modelled for sync only. HTTP controllers, metrics and logging carry no
  logic of their own; the web application, the relay and the scanner are separate programs.
\<close>

end
